(* ===== verification/Heimdall_Prelude.thy ===== *)
theory Heimdall_Prelude
  imports Main "HOL-Library.Word" "HOL-Library.Product_Lexorder"
begin

text \<open>
  What every component shares: the value types (identifiers, instants, JSON
  values), the exceptions of the program as one datatype, the SQL statements
  the repositories issue as functions on lists of rows, and the
  state-and-exception monad in which the workers are written.

  A table is the list of its rows in insertion order.  \<open>fetch\<close> is a
  \<open>SELECT \<dots> WHERE\<close> read with \<open>fetchone()\<close>, \<open>upd\<close> an
  \<open>UPDATE \<dots> SET \<dots> WHERE\<close>, \<open>del\<close> a \<open>DELETE\<close>, \<open>order_by\<close>
  an \<open>ORDER BY\<close>.
\<close>

named_theorems frame_simps "operations leave the other tables as they were"

section \<open>Values\<close>

text \<open>A UUID is a 128-bit number; PostgreSQL orders \<open>uuid\<close> columns bytewise,
  which is the unsigned order of the word.  Instants and durations are integers
  (microseconds), as \<open>datetime\<close> and \<open>timedelta\<close> count them.\<close>

type_synonym uuid = "128 word"
type_synonym time = int

text \<open>JSON documents (\<open>jsonb\<close> columns, configuration snapshots).  A number that is
  not an integer is kept as its literal: the code only ever asks for its type.\<close>

datatype json =
    JNull
  | JBool bool
  | JInt int
  | JFloat string
  | JStr string
  | JList "json list"
  | JObj "(string \<times> json) list"

text \<open>\<open>dict.get\<close> on a document.\<close>

definition jget :: "string \<Rightarrow> (string \<times> json) list \<Rightarrow> json option" where
  "jget k fields = map_of fields k"

subsection \<open>\<open>str(uuid)\<close>\<close>

definition hex_digit :: "nat \<Rightarrow> char" where
  "hex_digit n = ''0123456789abcdef'' ! n"

fun hex_fixed :: "nat \<Rightarrow> nat \<Rightarrow> string" where
  "hex_fixed 0 v = []"
| "hex_fixed (Suc n) v = hex_fixed n (v div 16) @ [hex_digit (v mod 16)]"

definition uuid_hex :: "uuid \<Rightarrow> string" where
  "uuid_hex u = hex_fixed 32 (unat u)"

definition uuid_str :: "uuid \<Rightarrow> string" where
  "uuid_str u =
     (let h = uuid_hex u
      in take 8 h @ ''-'' @ take 4 (drop 8 h) @ ''-'' @ take 4 (drop 12 h) @ ''-''
         @ take 4 (drop 16 h) @ ''-'' @ drop 20 h)"

lemma length_hex_fixed [simp]: "length (hex_fixed n v) = n"
  by (induction n arbitrary: v) auto

lemma hex_digit_inj: "hex_digit m = hex_digit n \<Longrightarrow> m < 16 \<Longrightarrow> n < 16 \<Longrightarrow> m = n"
proof -
  have "distinct ''0123456789abcdef''" by simp
  moreover have "length ''0123456789abcdef'' = 16" by simp
  ultimately show "hex_digit m = hex_digit n \<Longrightarrow> m < 16 \<Longrightarrow> n < 16 \<Longrightarrow> m = n"
    unfolding hex_digit_def by (metis nth_eq_iff_index_eq)
qed

lemma hex_fixed_inj:
  "hex_fixed n v = hex_fixed n w \<Longrightarrow> v < 16 ^ n \<Longrightarrow> w < 16 ^ n \<Longrightarrow> v = w"
proof (induction n arbitrary: v w)
  case 0
  then show ?case by simp
next
  case (Suc n)
  from Suc.prems(1) have eqs: "hex_fixed n (v div 16) = hex_fixed n (w div 16)"
    "hex_digit (v mod 16) = hex_digit (w mod 16)" by simp_all
  from Suc.prems(2,3) have "v div 16 < 16 ^ n" "w div 16 < 16 ^ n" by (simp_all add: less_mult_imp_div_less mult.commute)
  with Suc.IH eqs(1) have "v div 16 = w div 16" by blast
  moreover from eqs(2) have "v mod 16 = w mod 16" by (rule hex_digit_inj) simp_all
  ultimately show ?case by (metis div_mult_mod_eq)
qed

lemma uuid_hex_inj: "uuid_hex u = uuid_hex v \<Longrightarrow> u = v"
proof -
  assume "uuid_hex u = uuid_hex v"
  moreover have "unat u < 16 ^ 32" "unat v < 16 ^ 32"
  proof -
    have bound: "unat w < 2 ^ 128" for w :: uuid
      using unsigned_less [of w] by simp
    show "unat u < 16 ^ 32" "unat v < 16 ^ 32" using bound [of u] bound [of v] by simp_all
  qed
  ultimately have "unat u = unat v"
    unfolding uuid_hex_def by (blast intro: hex_fixed_inj)
  then show "u = v" by (simp add: word_unat_eq_iff)
qed

lemma take_drop_join: "take k (drop n h) @ drop (n + k) h = drop n h"
  by (metis add.commute append_take_drop_id drop_drop)

text \<open>The dashes carry no information: the hexadecimal digits can be read back.\<close>

definition undash :: "string \<Rightarrow> string" where
  "undash s = take 8 s @ take 4 (drop 9 s) @ take 4 (drop 14 s) @ take 4 (drop 19 s) @ drop 24 s"

lemma undash_uuid_str: "undash (uuid_str w) = uuid_hex w"
proof -
  define h where "h = uuid_hex w"
  have len: "length h = 32" by (simp add: h_def uuid_hex_def)
  then have "undash (uuid_str w) =
      take 8 h @ take 4 (drop 8 h) @ take 4 (drop 12 h) @ take 4 (drop 16 h) @ drop 20 h"
    by (simp add: undash_def uuid_str_def Let_def h_def [symmetric])
  also have "\<dots> = h"
    using take_drop_join [of 4 16 h] take_drop_join [of 4 12 h] take_drop_join [of 4 8 h]
    by simp
  finally show ?thesis by (simp add: h_def)
qed

lemma uuid_str_inj: "uuid_str u = uuid_str v \<longleftrightarrow> u = v"
  by (metis undash_uuid_str uuid_hex_inj)

section \<open>Exceptions\<close>

text \<open>The output of a failed command that a \<open>RuntimeFailure\<close> carries
  (\<open>deployments/diagnostics.py\<close>), and the failure itself (\<open>deployments/worker.py\<close>).\<close>

record failed_command_output =
  fco_operation :: string
  fco_return_code :: int
  fco_stdout :: string
  fco_stderr :: string
  fco_stdout_truncated :: bool
  fco_stderr_truncated :: bool
  fco_service_name :: "string option"

record runtime_failure =
  rf_stage :: string
  rf_code :: string
  rf_retryable :: bool
  rf_cleanup_candidate :: bool
  rf_command_output :: "failed_command_output option"

text \<open>The outcome of an external command (\<open>runtime/process.py\<close>).\<close>

record command_result =
  cr_returncode :: int
  cr_stdout :: string
  cr_stderr :: string
  cr_stdout_truncated :: bool
  cr_stderr_truncated :: bool

text \<open>Every exception the modelled code raises or distinguishes.  The four database
  errors are the ones psycopg raises for a failed constraint; \<open>OtherError\<close> stands for
  any other \<open>Exception\<close>, which the code only ever catches as such.\<close>

datatype exn =
    AppError int string string
  | ValueError string
  | UniqueViolation
  | ForeignKeyViolation
  | CheckViolation
  | NotNullViolation
  | DeploymentNotFoundError
  | ActiveDeploymentError
  | DeploymentClaimLostError
  | DeploymentReconciliationConflictError
  | DeploymentProjectDeletingError
  | DeploymentDiagnosticNotFoundError
  | DeploymentEventStreamError string
  | ServiceLogError string
  | RuntimeFailure runtime_failure
  | ReconciliationInProgressError
  | ReconciliationProjectDeletingError
  | ReconciliationClaimLostError
  | PublicRouteNotFoundError
  | PublicRouteConflictError
  | PublicRouteProjectDeletingError
  | PublicRouteClaimLostError
  | PublicRouteSnapshotChangedError
  | EdgeRuntimeError string bool bool
  | EdgeFinalizeRejectedError
  | ProjectNotFoundError
  | ProjectConflictError
  | ProjectVersionConflictError
  | ProjectDeletionValidationError string
  | ProjectDeletionConflictError string
  | ProjectDeletionNotFoundError
  | ProjectDeletionClaimLostError
  | ProjectDatabaseVersionConflict
  | ProjectDatabaseProjectDeletingError
  | ProjectDatabaseProvisioningError string string
  | SecretStoreError string
  | SecretStoreBusyError
  | GitAccessError string
  | RuntimeConfigurationError string
  | CommandExecutionError command_result
  | OtherError string

section \<open>Tables\<close>

text \<open>\<open>fetchone()\<close> on a selection: the first row that satisfies the condition.\<close>

primrec fetch :: "('r \<Rightarrow> bool) \<Rightarrow> 'r list \<Rightarrow> 'r option" where
  "fetch P [] = None"
| "fetch P (x # xs) = (if P x then Some x else fetch P xs)"

text \<open>\<open>UPDATE t SET f WHERE P\<close>; its \<open>RETURNING\<close> row is
  \<open>map_option f (fetch P t)\<close>.\<close>

definition upd :: "('r \<Rightarrow> bool) \<Rightarrow> ('r \<Rightarrow> 'r) \<Rightarrow> 'r list \<Rightarrow> 'r list" where
  "upd P f rows = map (\<lambda>r. if P r then f r else r) rows"

definition returning :: "('r \<Rightarrow> bool) \<Rightarrow> ('r \<Rightarrow> 'r) \<Rightarrow> 'r list \<Rightarrow> 'r option" where
  "returning P f rows = map_option f (fetch P rows)"

text \<open>The number of rows a statement touches (\<open>cursor.rowcount\<close>).\<close>

definition rowcount :: "('r \<Rightarrow> bool) \<Rightarrow> 'r list \<Rightarrow> nat" where
  "rowcount P rows = length (filter P rows)"

definition del :: "('r \<Rightarrow> bool) \<Rightarrow> 'r list \<Rightarrow> 'r list" where
  "del P rows = filter (\<lambda>r. \<not> P r) rows"

definition order_by :: "('r \<Rightarrow> 'k::linorder) \<Rightarrow> 'r list \<Rightarrow> 'r list" where
  "order_by k rows = sort_key k rows"

text \<open>\<open>EXISTS (SELECT 1 FROM t WHERE P)\<close>.\<close>

definition exists_row :: "('r \<Rightarrow> bool) \<Rightarrow> 'r list \<Rightarrow> bool" where
  "exists_row P rows = list_ex P rows"

text \<open>SQL comparisons with a nullable column are not true when it is \<open>NULL\<close>.\<close>

fun null_gt :: "time option \<Rightarrow> time \<Rightarrow> bool" where
  "null_gt None t = False"
| "null_gt (Some e) t = (t < e)"

fun null_le :: "time option \<Rightarrow> time \<Rightarrow> bool" where
  "null_le None t = False"
| "null_le (Some e) t = (e \<le> t)"

lemma null_gt_not_le: "null_gt e t \<Longrightarrow> \<not> null_le e t"
  by (cases e) auto

lemma null_gt_earlier: "null_gt e t \<Longrightarrow> s \<le> t \<Longrightarrow> null_gt e s"
  by (cases e) auto

lemma fetch_SomeD: "fetch P xs = Some x \<Longrightarrow> x \<in> set xs \<and> P x"
  by (induction xs) (auto split: if_splits)

lemma fetch_NoneD: "fetch P xs = None \<Longrightarrow> \<forall>x\<in>set xs. \<not> P x"
  by (induction xs) (auto split: if_splits)

lemma fetch_None_iff: "fetch P xs = None \<longleftrightarrow> (\<forall>x\<in>set xs. \<not> P x)"
  by (induction xs) auto

lemma fetch_append: "fetch P (xs @ ys) = (case fetch P xs of None \<Rightarrow> fetch P ys | Some x \<Rightarrow> Some x)"
  by (induction xs) auto

lemma fetch_key:
  "distinct (map k rows) \<Longrightarrow> r \<in> set rows \<Longrightarrow> fetch (\<lambda>x. k x = k r) rows = Some r"
  by (induction rows) auto

lemma fetch_unique:
  "distinct (map k rows) \<Longrightarrow> r \<in> set rows \<Longrightarrow> P r \<Longrightarrow> (\<And>x. P x \<Longrightarrow> k x = k r) \<Longrightarrow>
   fetch P rows = Some r"
proof -
  assume d: "distinct (map k rows)" and r: "r \<in> set rows" "P r"
    and key: "\<And>x. P x \<Longrightarrow> k x = k r"
  show "fetch P rows = Some r"
  proof (cases "fetch P rows")
    case None
    with r show ?thesis by (auto simp: fetch_None_iff)
  next
    case (Some x)
    then have "x \<in> set rows" "P x" by (auto dest: fetch_SomeD)
    with key have "k x = k r" by blast
    with d r \<open>x \<in> set rows\<close> have "x = r" by (metis distinct_map inj_on_def)
    with Some show ?thesis by simp
  qed
qed

lemma same_key_same_row:
  "distinct (map k rows) \<Longrightarrow> r \<in> set rows \<Longrightarrow> s \<in> set rows \<Longrightarrow> k r = k s \<Longrightarrow> r = s"
  by (metis distinct_map inj_on_def)

lemma same_key_set:
  assumes "distinct (map k rows)" "r \<in> set rows"
  shows "{x \<in> set rows. k x = k r} = {r}"
proof
  show "{x \<in> set rows. k x = k r} \<subseteq> {r}"
  proof
    fix x assume "x \<in> {x \<in> set rows. k x = k r}"
    then have "x \<in> set rows" "k x = k r" by simp_all
    with assms have "x = r" by (blast intro: same_key_same_row)
    then show "x \<in> {r}" by simp
  qed
  show "{r} \<subseteq> {x \<in> set rows. k x = k r}" using assms(2) by simp
qed

lemma length_upd [simp]: "length (upd P f rows) = length rows"
  by (simp add: upd_def)

lemma upd_Nil [simp]: "upd P f [] = []"
  by (simp add: upd_def)

lemma set_upd: "set (upd P f rows) = {r \<in> set rows. \<not> P r} \<union> f ` {r \<in> set rows. P r}"
  by (auto simp: upd_def)

lemma upd_keys [simp]: "(\<And>r. k (f r) = k r) \<Longrightarrow> map k (upd P f rows) = map k rows"
  by (simp add: upd_def)

lemma set_upd_key:
  assumes "distinct (map k rows)" "r \<in> set rows" "k r = i"
  shows "set (upd (\<lambda>x. k x = i) f rows) = {x \<in> set rows. k x \<noteq> i} \<union> {f r}"
proof -
  have "{x \<in> set rows. k x = i} = {r}" using same_key_set [OF assms(1,2)] assms(3) by simp
  then show ?thesis by (simp add: set_upd)
qed

lemma upd_id: "(\<And>r. r \<in> set rows \<Longrightarrow> \<not> P r) \<Longrightarrow> upd P f rows = rows"
  by (simp add: upd_def map_idI)

lemma upd_cong: "(\<And>r. r \<in> set rows \<Longrightarrow> P r = Q r) \<Longrightarrow> upd P f rows = upd Q f rows"
  by (simp add: upd_def)

lemma upd_same [simp]: "upd P (\<lambda>r. r) rows = rows"
  by (simp add: upd_def)

lemma in_updE:
  assumes "r \<in> set (upd P f rows)"
  obtains "r \<in> set rows" "\<not> P r" | s where "s \<in> set rows" "P s" "r = f s"
  using assms by (auto simp: set_upd)

lemma ball_upd:
  "(\<forall>r\<in>set rows. I r) \<Longrightarrow> (\<And>r. r \<in> set rows \<Longrightarrow> P r \<Longrightarrow> I r \<Longrightarrow> I (f r)) \<Longrightarrow>
   \<forall>r\<in>set (upd P f rows). I r"
  by (auto simp: set_upd)

lemma fetch_upd_other:
  "(\<And>r. P r \<Longrightarrow> \<not> Q r) \<Longrightarrow> (\<And>r. P r \<Longrightarrow> \<not> Q (f r)) \<Longrightarrow> fetch Q (upd P f rows) = fetch Q rows"
  by (induction rows) (auto simp: upd_def)

lemma fetch_upd_same:
  "(\<And>r. Q (f r) = Q r) \<Longrightarrow>
   fetch Q (upd P f rows) = map_option (\<lambda>r. if P r then f r else r) (fetch Q rows)"
  by (induction rows) (auto simp: upd_def)

lemma returning_SomeD:
  "returning P f rows = Some r \<Longrightarrow> \<exists>s. s \<in> set rows \<and> P s \<and> r = f s \<and> fetch P rows = Some s"
  by (auto simp: returning_def dest: fetch_SomeD)

lemma returning_None_iff: "returning P f rows = None \<longleftrightarrow> (\<forall>r\<in>set rows. \<not> P r)"
  by (simp add: returning_def fetch_None_iff)

lemma set_del [simp]: "set (del P rows) = {r \<in> set rows. \<not> P r}"
  by (auto simp: del_def)

lemma distinct_del: "distinct (map k rows) \<Longrightarrow> distinct (map k (del P rows))"
  by (simp add: del_def distinct_map_filter)

lemma set_order_by [simp]: "set (order_by k rows) = set rows"
  by (simp add: order_by_def)

lemma exists_row_iff: "exists_row P rows \<longleftrightarrow> (\<exists>r\<in>set rows. P r)"
  by (simp add: exists_row_def list_ex_iff)

lemma rowcount_key:
  "distinct (map k rows) \<Longrightarrow> r \<in> set rows \<Longrightarrow> P r \<Longrightarrow> (\<And>x. P x \<Longrightarrow> k x = k r) \<Longrightarrow>
   rowcount P rows = 1"
proof -
  assume d: "distinct (map k rows)" and r: "r \<in> set rows" "P r" and key: "\<And>x. P x \<Longrightarrow> k x = k r"
  have "x = r" if "x \<in> set (filter P rows)" for x
  proof -
    from that have x: "x \<in> set rows" "P x" by simp_all
    from key [OF x(2)] show "x = r" by (rule same_key_same_row [OF d x(1) r(1)])
  qed
  then have "set (filter P rows) \<subseteq> {r}" by blast
  moreover have "r \<in> set (filter P rows)" using r by simp
  ultimately have "set (filter P rows) = {r}" by blast
  moreover have "distinct (filter P rows)" using d by (simp add: distinct_map)
  ultimately show ?thesis
    using distinct_card [of "filter P rows"] by (simp add: rowcount_def)
qed

text \<open>The first row of an ordered selection: it satisfies the condition, and no row that
  does comes before it.\<close>

definition first_by :: "('r \<Rightarrow> bool) \<Rightarrow> ('r \<Rightarrow> 'k::linorder) \<Rightarrow> 'r list \<Rightarrow> 'r option" where
  "first_by P k rows = fetch (\<lambda>_. True) (order_by k (filter P rows))"

lemma first_by_SomeD:
  assumes "first_by P k rows = Some r"
  shows "r \<in> set rows" "P r" "\<And>s. s \<in> set rows \<Longrightarrow> P s \<Longrightarrow> k r \<le> k s"
proof -
  from assms obtain rest where eq: "order_by k (filter P rows) = r # rest"
    by (cases "order_by k (filter P rows)") (auto simp: first_by_def)
  then have "r \<in> set (filter P rows)" by (metis list.set_intros(1) set_order_by)
  then show "r \<in> set rows" "P r" by auto
  fix s assume "s \<in> set rows" "P s"
  then have "s \<in> set (order_by k (filter P rows))" by simp
  then have "s \<in> set (r # rest)" by (simp only: eq)
  moreover have "sorted (map k (r # rest))"
    using eq sorted_sort_key [of k "filter P rows"] by (simp add: order_by_def)
  ultimately show "k r \<le> k s" by auto
qed

lemma first_by_None_iff: "first_by P k rows = None \<longleftrightarrow> (\<forall>r\<in>set rows. \<not> P r)"
proof
  assume "first_by P k rows = None"
  then have "set (order_by k (filter P rows)) = {}" by (auto simp: first_by_def fetch_None_iff)
  then show "\<forall>r\<in>set rows. \<not> P r" by auto
next
  assume "\<forall>r\<in>set rows. \<not> P r"
  then have "filter P rows = []" by simp
  then show "first_by P k rows = None" by (simp add: first_by_def order_by_def)
qed

text \<open>\<open>WITH candidate AS (SELECT \<dots> WHERE P ORDER BY k LIMIT 1) UPDATE \<dots>
  SET tk WHERE key = candidate RETURNING *\<close>: the row as updated, and the table.\<close>

definition claim_row ::
    "('r \<Rightarrow> bool) \<Rightarrow> ('r \<Rightarrow> 'k::linorder) \<Rightarrow> ('r \<Rightarrow> uuid) \<Rightarrow> ('r \<Rightarrow> 'r) \<Rightarrow> 'r list \<Rightarrow>
     ('r \<times> 'r list) option" where
  "claim_row P k key tk rows =
     (case first_by P k rows of
        None \<Rightarrow> None
      | Some c \<Rightarrow>
         map_option (\<lambda>r. (r, upd (\<lambda>x. key x = key c) tk rows))
           (returning (\<lambda>x. key x = key c) tk rows))"

lemma claim_row_SomeD:
  assumes "claim_row P k key tk rows = Some (r, rows')" and "distinct (map key rows)"
  obtains c where "c \<in> set rows" "P c" "\<forall>s\<in>set rows. P s \<longrightarrow> k c \<le> k s"
    "r = tk c" "rows' = upd (\<lambda>x. key x = key c) tk rows"
proof -
  from assms(1) obtain c where c: "first_by P k rows = Some c"
    and ret: "returning (\<lambda>x. key x = key c) tk rows = Some r"
    and rows': "rows' = upd (\<lambda>x. key x = key c) tk rows"
    by (auto simp: claim_row_def split: option.splits)
  note c' = first_by_SomeD [OF c]
  from ret fetch_key [OF assms(2) c'(1)] have "r = tk c" by (simp add: returning_def)
  with c' rows' show ?thesis using that by blast
qed

lemma claim_row_None_iff:
  "claim_row P k key tk rows = None \<longleftrightarrow> (\<forall>r\<in>set rows. \<not> P r)"
proof (cases "first_by P k rows")
  case None
  moreover from None have "\<forall>r\<in>set rows. \<not> P r" by (simp only: first_by_None_iff)
  ultimately show ?thesis by (simp add: claim_row_def)
next
  case (Some c)
  note c = first_by_SomeD [OF Some]
  have "returning (\<lambda>x. key x = key c) tk rows \<noteq> None"
    using c(1) by (auto simp: returning_None_iff)
  with Some c(1,2) show ?thesis by (auto simp: claim_row_def)
qed

section \<open>Programs with state and exceptions\<close>

text \<open>A repository method is one transaction: it either commits a new database or
  raises, and then nothing it did is kept (\<open>with self._database.connection()\<close> rolls
  back).  A worker is a program over a state that survives its exceptions.\<close>

type_synonym ('d, 'a) tx = "'d \<Rightarrow> exn + ('a \<times> 'd)"
type_synonym ('s, 'a) act = "'s \<Rightarrow> (exn + 'a) \<times> 's"

named_theorems act_simps "execution of worker programs"

definition ret :: "'a \<Rightarrow> ('s, 'a) act" where
  [act_simps]: "ret a = (\<lambda>s. (Inr a, s))"

definition raise :: "exn \<Rightarrow> ('s, 'a) act" where
  [act_simps]: "raise e = (\<lambda>s. (Inl e, s))"

definition bind_act :: "('s, 'a) act \<Rightarrow> ('a \<Rightarrow> ('s, 'b) act) \<Rightarrow> ('s, 'b) act" where
  [act_simps]: "bind_act m f = (\<lambda>s. case m s of (Inl e, s') \<Rightarrow> (Inl e, s') | (Inr a, s') \<Rightarrow> f a s')"

definition seq_act :: "('s, unit) act \<Rightarrow> ('s, 'b) act \<Rightarrow> ('s, 'b) act" where
  [act_simps]: "seq_act m n = bind_act m (\<lambda>_. n)"

text \<open>\<open>try: m except \<dots>\<close>: the handler is asked with the exception.\<close>

definition try_act :: "('s, 'a) act \<Rightarrow> (exn \<Rightarrow> ('s, 'a) act) \<Rightarrow> ('s, 'a) act" where
  [act_simps]: "try_act m h = (\<lambda>s. case m s of (Inl e, s') \<Rightarrow> h e s' | (Inr a, s') \<Rightarrow> (Inr a, s'))"

text \<open>\<open>with suppress(Exception): m\<close>.\<close>

definition suppress_all :: "('s, 'a) act \<Rightarrow> ('s, unit) act" where
  [act_simps]: "suppress_all m = (\<lambda>s. (Inr (), snd (m s)))"

text \<open>Running a transaction, or reading the outside world, from a worker's state.\<close>

definition tx_act :: "('d, 'a) tx \<Rightarrow> ('w \<times> 'd, 'a) act" where
  [act_simps]: "tx_act t = (\<lambda>(w, d). case t d of Inl e \<Rightarrow> (Inl e, (w, d)) | Inr (a, d') \<Rightarrow> (Inr a, (w, d')))"

definition world_act :: "('w \<Rightarrow> 'a \<times> 'w) \<Rightarrow> ('w \<times> 'd, 'a) act" where
  [act_simps]: "world_act f = (\<lambda>(w, d). (Inr (fst (f w)), (snd (f w), d)))"

text \<open>Transactions in sequence: the first exception aborts the whole.\<close>

definition tx_ret :: "'a \<Rightarrow> ('d, 'a) tx" where
  "tx_ret a d = Inr (a, d)"

definition tx_fail :: "exn \<Rightarrow> ('d, 'a) tx" where
  "tx_fail e d = Inl e"

definition tx_bind :: "('d, 'a) tx \<Rightarrow> ('a \<Rightarrow> ('d, 'b) tx) \<Rightarrow> ('d, 'b) tx" where
  "tx_bind m f d = (case m d of Inl e \<Rightarrow> Inl e | Inr (a, d') \<Rightarrow> f a d')"

definition tx_seq :: "('d, unit) tx \<Rightarrow> ('d, 'b) tx \<Rightarrow> ('d, 'b) tx" where
  "tx_seq m n = tx_bind m (\<lambda>_. n)"

text \<open>Reading the database, \<open>if row is None: raise e\<close>, and \<open>if b: raise e\<close>.\<close>

definition tx_read :: "('d \<Rightarrow> 'a) \<Rightarrow> ('d, 'a) tx" where
  "tx_read f d = Inr (f d, d)"

definition tx_require :: "exn \<Rightarrow> 'a option \<Rightarrow> ('d, 'a) tx" where
  "tx_require e x d = (case x of None \<Rightarrow> Inl e | Some a \<Rightarrow> Inr (a, d))"

definition tx_raise_if :: "bool \<Rightarrow> exn \<Rightarrow> ('d, unit) tx" where
  "tx_raise_if b e d = (if b then Inl e else Inr ((), d))"

lemma tx_ret_Inr [simp]: "tx_ret a d = Inr (b, d') \<longleftrightarrow> b = a \<and> d' = d"
  by (auto simp: tx_ret_def)

lemma tx_fail_Inr [simp]: "tx_fail e d \<noteq> Inr x" "tx_fail e d = Inl e' \<longleftrightarrow> e' = e"
  by (auto simp: tx_fail_def)

lemma tx_bind_Inr [simp]:
  "tx_bind m f d = Inr (b, d'') \<longleftrightarrow> (\<exists>a d'. m d = Inr (a, d') \<and> f a d' = Inr (b, d''))"
  by (auto simp: tx_bind_def split: sum.splits)

lemma tx_seq_Inr [simp]:
  "tx_seq m n d = Inr (b, d'') \<longleftrightarrow> (\<exists>d'. m d = Inr ((), d') \<and> n d' = Inr (b, d''))"
  by (simp add: tx_seq_def)

lemma tx_read_Inr [simp]: "tx_read f d = Inr (a, d') \<longleftrightarrow> a = f d \<and> d' = d"
  by (auto simp: tx_read_def)

lemma tx_require_Inr [simp]: "tx_require e x d = Inr (a, d') \<longleftrightarrow> x = Some a \<and> d' = d"
  by (auto simp: tx_require_def split: option.splits)

lemma tx_raise_if_Inr [simp]: "tx_raise_if b e d = Inr (u, d') \<longleftrightarrow> \<not> b \<and> d' = d"
  by (auto simp: tx_raise_if_def)

lemma tx_bind_Inl [simp]:
  "tx_bind m f d = Inl e \<longleftrightarrow>
     m d = Inl e \<or> (\<exists>a d'. m d = Inr (a, d') \<and> f a d' = Inl e)"
  by (auto simp: tx_bind_def split: sum.splits)

lemma tx_seq_Inl [simp]:
  "tx_seq m n d = Inl e \<longleftrightarrow> m d = Inl e \<or> (\<exists>d'. m d = Inr ((), d') \<and> n d' = Inl e)"
  by (simp add: tx_seq_def)

lemma tx_Inl_simps [simp]:
  "tx_ret a d \<noteq> Inl e"
  "tx_read f d \<noteq> Inl e"
  "tx_require e' x d = Inl e \<longleftrightarrow> x = None \<and> e = e'"
  "tx_raise_if b e' d = Inl e \<longleftrightarrow> b \<and> e = e'"
  by (auto simp: tx_ret_def tx_read_def tx_require_def tx_raise_if_def split: option.splits)

end
