(* ===== verification/Control_Db.thy ===== *)
theory Control_Db
  imports Heimdall_Prelude
begin

text \<open>
  The control database (\<open>backend/src/heimdall/migrations/*.sql\<close>) and the
  dataclasses of the \<open>models.py\<close> files that its rows become.  An enumeration of
  strings (\<open>StrEnum\<close>) is a datatype, a table the list of its rows, the database
  the record of its tables.  A dataclass that has exactly the columns of its table
  is the row itself; where the table has more columns, the row extends the record of
  the dataclass and reading the row truncates it.
\<close>

section \<open>Projects (\<open>projects/models.py\<close>)\<close>

datatype project_status = P_DRAFT | P_READY | P_DELETING

record project_row =
  prj_id :: uuid
  prj_name :: string
  prj_repository_url :: string
  prj_branch :: string
  prj_status :: project_status
  prj_config_version :: int
  prj_deployment_config :: "json option"
  prj_created_at :: time
  prj_updated_at :: time

record project = project_row +
  prj_has_managed_database :: bool

record environment_secret =
  es_project_id :: uuid
  es_service_name :: string
  es_variable_name :: string
  es_secret_reference :: string
  es_secret_version :: int
  es_secret_fingerprint :: string
  es_created_at :: time
  es_updated_at :: time

datatype deletion_state = X_PENDING | X_CLAIMED | X_FAILED

datatype deletion_phase =
    REQUESTED
  | WAITING_FOR_OPERATIONS
  | ROUTE_DISABLING
  | ROUTE_REMOVED
  | RUNTIME_CLEANUP
  | DATABASE_QUIESCING
  | DATABASE_DROP_DATABASE
  | DATABASE_DROP_ROLE
  | SECRET_CLEANUP
  | METADATA_DELETE

record deletion_job =
  xj_project_id :: uuid
  xj_state :: deletion_state
  xj_phase :: deletion_phase
  xj_attempts :: int
  xj_available_at :: time
  xj_lease_owner :: "string option"
  xj_lease_expires_at :: "time option"
  xj_claim_token :: "uuid option"
  xj_last_error_code :: "string option"
  xj_last_error_retryable :: "bool option"
  xj_delete_managed_database :: bool
  xj_created_at :: time
  xj_updated_at :: time

record deletion_claim =
  xc_job :: deletion_job
  xc_token :: uuid
  xc_worker_id :: string
  xc_lease_expires_at :: time

section \<open>Deployments (\<open>deployments/models.py\<close>, \<open>deployments/diagnostics.py\<close>)\<close>

datatype deployment_source = MAIN_HEAD | MAIN_COMMIT

datatype deployment_status =
    QUEUED
  | PREPARING
  | BUILDING
  | STARTING
  | HEALTH_CHECKING
  | ACTIVATING
  | SUCCEEDED
  | FAILED

fun deployment_status_value :: "deployment_status \<Rightarrow> string" where
  "deployment_status_value QUEUED = ''QUEUED''"
| "deployment_status_value PREPARING = ''PREPARING''"
| "deployment_status_value BUILDING = ''BUILDING''"
| "deployment_status_value STARTING = ''STARTING''"
| "deployment_status_value HEALTH_CHECKING = ''HEALTH_CHECKING''"
| "deployment_status_value ACTIVATING = ''ACTIVATING''"
| "deployment_status_value SUCCEEDED = ''SUCCEEDED''"
| "deployment_status_value FAILED = ''FAILED''"

record deployment =
  dep_id :: uuid
  dep_project_id :: uuid
  dep_source_type :: deployment_source
  dep_requested_commit_sha :: "string option"
  dep_resolved_commit_sha :: string
  dep_config_version :: int
  dep_config_snapshot :: json
  dep_status :: deployment_status
  dep_failure_stage :: "string option"
  dep_failure_code :: "string option"
  dep_created_at :: time
  dep_updated_at :: time
  dep_terminal_at :: "time option"

datatype job_state = J_PENDING | J_CLAIMED | J_DONE

record deployment_job =
  dj_deployment_id :: uuid
  dj_state :: job_state
  dj_attempts :: int
  dj_available_at :: time
  dj_lease_owner :: "string option"
  dj_lease_expires_at :: "time option"
  dj_claim_token :: "uuid option"
  dj_created_at :: time
  dj_updated_at :: time

record deployment_claim =
  dc_deployment :: deployment
  dc_token :: uuid
  dc_worker_id :: string
  dc_attempts :: int
  dc_lease_expires_at :: time

record deployment_event =
  ev_id :: int
  ev_deployment_id :: uuid
  ev_stage :: string
  ev_code :: string
  ev_message :: string
  ev_created_at :: time

datatype artifact_kind = COMMAND_OUTPUT | SERVICE_LOG
datatype capture_status = CAPTURED | UNAVAILABLE
datatype log_stream = STDOUT | STDERR

record diagnostic_line =
  dl_stream :: log_stream
  dl_message :: string
  dl_timestamp :: "string option"

record artifact_draft =
  ad_kind :: artifact_kind
  ad_capture_status :: capture_status
  ad_capture_code :: "string option"
  ad_operation :: "string option"
  ad_service_name :: "string option"
  ad_return_code :: "int option"
  ad_container_status :: "string option"
  ad_container_exit_code :: "int option"
  ad_lines :: "diagnostic_line list"
  ad_truncated :: bool
  ad_captured_at :: time

text \<open>The columns a stored artifact has besides its payload; \<open>art_lines\<close> is what the
  reader is given, \<open>None\<close> in a listing.\<close>

record artifact =
  art_id :: uuid
  art_deployment_id :: uuid
  art_event_id :: int
  art_kind :: artifact_kind
  art_failure_stage :: string
  art_failure_code :: string
  art_capture_status :: capture_status
  art_capture_code :: "string option"
  art_operation :: "string option"
  art_service_name :: "string option"
  art_return_code :: "int option"
  art_container_status :: "string option"
  art_container_exit_code :: "int option"
  art_line_count :: int
  art_byte_count :: int
  art_truncated :: bool
  art_captured_at :: time
  art_expires_at :: time
  art_lines :: "diagnostic_line list option"

section \<open>Runtimes and reconciliations (\<open>runtime/repository.py\<close>, \<open>runtime/reconciliation.py\<close>)\<close>

record project_runtime =
  pr_project_id :: uuid
  pr_gateway_container_name :: string
  pr_preview_port :: int
  pr_active_deployment_id :: "uuid option"
  pr_active_network_name :: "string option"
  pr_active_container_names :: "string list"
  pr_active_image_names :: "string list"
  pr_updated_at :: time

datatype reconciliation_action = RECONCILE | FORCE_CLEANUP
datatype reconciliation_requester = SYSTEM | ADMIN
datatype reconciliation_state = RC_PENDING | RC_CLAIMED | RC_RESOLVED | RC_BLOCKED
datatype reconciliation_result = RC_ACTIVE | RC_CLEANED | RC_UNCERTAIN

record reconciliation =
  rc_deployment_id :: uuid
  rc_action :: reconciliation_action
  rc_requested_by :: reconciliation_requester
  rc_state :: reconciliation_state
  rc_result :: "reconciliation_result option"
  rc_result_code :: "string option"
  rc_attempts :: int
  rc_available_at :: time
  rc_created_at :: time
  rc_updated_at :: time
  rc_completed_at :: "time option"

record reconciliation_row = reconciliation +
  rc_lease_owner :: "string option"
  rc_lease_expires_at :: "time option"
  rc_claim_token :: "uuid option"

record reconciliation_claim =
  rcc_reconciliation :: reconciliation
  rcc_token :: uuid
  rcc_worker_id :: string
  rcc_lease_expires_at :: time

section \<open>Public routes (\<open>public_routes/models.py\<close>)\<close>

datatype desired_state = ENABLED | DISABLED
datatype route_status = R_PENDING | R_APPLYING | R_ACTIVE | R_INACTIVE | R_FAILED | R_UNCERTAIN
datatype route_job_state = RJ_PENDING | RJ_CLAIMED | RJ_SUCCEEDED | RJ_FAILED

record public_route =
  rt_project_id :: uuid
  rt_subdomain :: string
  rt_hostname :: string
  rt_desired_state :: desired_state
  rt_status :: route_status
  rt_desired_revision :: int
  rt_applied_revision :: "int option"
  rt_applied_hostname :: "string option"
  rt_last_error_code :: "string option"
  rt_created_at :: time
  rt_updated_at :: time

record route_job =
  rj_project_id :: uuid
  rj_desired_revision :: int
  rj_state :: route_job_state
  rj_attempts :: int
  rj_available_at :: time
  rj_lease_owner :: "string option"
  rj_lease_expires_at :: "time option"
  rj_claim_token :: "uuid option"
  rj_last_error_code :: "string option"
  rj_created_at :: time
  rj_updated_at :: time
  rj_completed_at :: "time option"

record route_claim =
  rtc_route :: public_route
  rtc_token :: uuid
  rtc_worker_id :: string
  rtc_desired_revision :: int
  rtc_attempts :: int
  rtc_lease_expires_at :: time

section \<open>Managed databases (\<open>project_database/models.py\<close>)\<close>

datatype database_status = DB_PROVISIONING | DB_ACTIVE | DB_FAILED

datatype database_phase =
    INTENT_RECORDED
  | SECRET_READY
  | ROLE_READY
  | DATABASE_READY
  | PRIVILEGES_READY
  | PHASE_ACTIVE

record database_resource =
  res_id :: uuid
  res_project_id :: uuid
  res_desired_state :: string
  res_status :: database_status
  res_phase :: database_phase
  res_database_name :: string
  res_role_name :: string
  res_schema_name :: string
  res_credential_reference :: "string option"
  res_credential_version :: "int option"
  res_credential_fingerprint :: "string option"
  res_state_version :: int
  res_failure_stage :: "string option"
  res_failure_code :: "string option"
  res_created_at :: time
  res_updated_at :: time

section \<open>The database\<close>

text \<open>\<open>t_event_seq\<close> is the last value the \<open>bigserial\<close> of \<open>deployment_events\<close>
  gave out, \<open>t_notifications\<close> the payloads \<open>pg_notify\<close> has delivered, oldest first.\<close>

record db =
  t_projects :: "project_row list"
  t_environment_secrets :: "environment_secret list"
  t_database_resources :: "database_resource list"
  t_deployments :: "deployment list"
  t_deployment_jobs :: "deployment_job list"
  t_deployment_events :: "deployment_event list"
  t_event_seq :: int
  t_notifications :: "(uuid \<times> int) list"
  t_artifacts :: "artifact list"
  t_runtimes :: "project_runtime list"
  t_reconciliations :: "reconciliation_row list"
  t_routes :: "public_route list"
  t_route_jobs :: "route_job list"
  t_deletion_jobs :: "deletion_job list"

definition empty_db :: db where
  "empty_db = \<lparr>t_projects = [], t_environment_secrets = [], t_database_resources = [],
     t_deployments = [], t_deployment_jobs = [], t_deployment_events = [], t_event_seq = 0,
     t_notifications = [], t_artifacts = [], t_runtimes = [], t_reconciliations = [],
     t_routes = [], t_route_jobs = [], t_deletion_jobs = []\<rparr>"

abbreviation project_of :: "db \<Rightarrow> uuid \<Rightarrow> project_row option" where
  "project_of d i \<equiv> fetch (\<lambda>p. prj_id p = i) (t_projects d)"

abbreviation deployment_of :: "db \<Rightarrow> uuid \<Rightarrow> deployment option" where
  "deployment_of d i \<equiv> fetch (\<lambda>x. dep_id x = i) (t_deployments d)"

abbreviation route_of :: "db \<Rightarrow> uuid \<Rightarrow> public_route option" where
  "route_of d i \<equiv> fetch (\<lambda>r. rt_project_id r = i) (t_routes d)"

text \<open>The statuses the partial unique index \<open>one_active_deployment_per_project\<close> lists,
  and the two terminal ones.\<close>

definition terminal_status :: "deployment_status \<Rightarrow> bool" where
  "terminal_status s = (s = SUCCEEDED \<or> s = FAILED)"

definition active_status :: "deployment_status \<Rightarrow> bool" where
  "active_status s =
     (s \<in> set [QUEUED, PREPARING, BUILDING, STARTING, HEALTH_CHECKING, ACTIVATING])"

lemma active_iff_not_terminal: "active_status s \<longleftrightarrow> \<not> terminal_status s"
  by (cases s) (simp_all add: active_status_def terminal_status_def)

lemma terminal_status_simps [simp]:
  "terminal_status SUCCEEDED" "terminal_status FAILED" "\<not> terminal_status QUEUED"
  "\<not> terminal_status PREPARING"
  by (simp_all add: terminal_status_def)

end
