(* ===== verification/Lease_Protocol.thy ===== *)
theory Lease_Protocol
  imports Control_Db
begin

text \<open>
  The lease protocol that the four job tables share (\<open>deployment_jobs\<close>,
  \<open>runtime_reconciliations\<close>, \<open>public_route_jobs\<close>, \<open>project_deletion_jobs\<close>).
  A worker takes a row with a fresh token and an expiry; while the lease is live the
  row is \<open>held\<close>, and every later statement of that worker names the token and
  asks that the lease has not expired.  The locale states what a table promises; its
  lemmas are the fencing argument, proved once for all four.
\<close>

locale lease_table =
  fixes key :: "'r \<Rightarrow> uuid"
    and held :: "string \<Rightarrow> uuid \<Rightarrow> time \<Rightarrow> 'r \<Rightarrow> bool"
    and claimable :: "time \<Rightarrow> 'r \<Rightarrow> bool"
    and expiry :: "'r \<Rightarrow> time option"
    and tk :: "string \<Rightarrow> uuid \<Rightarrow> time \<Rightarrow> time \<Rightarrow> 'r \<Rightarrow> 'r"
    and extend :: "time \<Rightarrow> time \<Rightarrow> 'r \<Rightarrow> 'r"
  assumes key_take [simp]: "key (tk w t e n r) = key r"
    and key_extend [simp]: "key (extend e n r) = key r"
    and held_same: "held w t n r \<Longrightarrow> held w' t' n' r \<Longrightarrow> w' = w \<and> t' = t"
    and held_live: "held w t n r \<Longrightarrow> null_gt (expiry r) n"
    and held_while_live: "held w t n r \<Longrightarrow> null_gt (expiry r) m \<Longrightarrow> held w t m r"
    and held_not_claimable: "held w t n r \<Longrightarrow> \<not> claimable n r"
    and expired_claimable: "held w t n r \<Longrightarrow> \<not> null_gt (expiry r) m \<Longrightarrow> claimable m r"
    and held_take: "m < e \<Longrightarrow> held w t m (tk w t e n r)"
    and expiry_take [simp]: "expiry (tk w t e n r) = Some e"
    and held_extend: "held w t n r \<Longrightarrow> m < e \<Longrightarrow> held w t m (extend e n r)"
begin

text \<open>At most one worker holds a row, whatever the instants at which they look.\<close>

lemma holder_unique:
  assumes "distinct (map key rows)" "r \<in> set rows" "s \<in> set rows" "key r = key s"
    and "held w t n r" "held w' t' n' s"
  shows "w' = w" "t' = t"
proof -
  from assms(1-4) have "r = s" by (rule same_key_same_row)
  with assms(5,6) show "w' = w" "t' = t" using held_same by blast+
qed

text \<open>A live lease is never taken over.\<close>

lemma claim_spares_held:
  assumes "claim_row (\<lambda>r. claimable n r \<and> Q r) k key (tk w t e n) rows = Some (r, rows')"
    and "distinct (map key rows)" and "s \<in> set rows" and "held w' t' n s"
  shows "key r \<noteq> key s \<and> s \<in> set rows'"
proof -
  from claim_row_SomeD [OF assms(1,2)] obtain c where c: "c \<in> set rows" "claimable n c"
    "r = tk w t e n c" "rows' = upd (\<lambda>x. key x = key c) (tk w t e n) rows" by metis
  have "key c \<noteq> key s"
  proof
    assume "key c = key s"
    with assms(2,3) c(1) have "c = s" by (blast intro: same_key_same_row)
    with c(2) assms(4) held_not_claimable show False by blast
  qed
  then show ?thesis using c assms(3) by (auto simp: set_upd)
qed

text \<open>After a claim, the claimant holds the row and every other token is fenced off it,
  for ever: no instant makes a different token valid on the row as it stands.\<close>

lemma claim_holds:
  assumes "claim_row (\<lambda>r. claimable n r \<and> Q r) k key (tk w t e n) rows = Some (r, rows')"
    and "distinct (map key rows)" and "m < e"
  shows "r \<in> set rows' \<and> held w t m r"
proof -
  from claim_row_SomeD [OF assms(1,2)] obtain c where c: "c \<in> set rows"
    "r = tk w t e n c" "rows' = upd (\<lambda>x. key x = key c) (tk w t e n) rows" by metis
  with held_take [OF assms(3)] show ?thesis by (auto simp: set_upd)
qed

lemma claim_fences:
  assumes "claim_row (\<lambda>r. claimable n r \<and> Q r) k key (tk w t e n) rows = Some (r, rows')"
    and "distinct (map key rows)" and "s \<in> set rows'" and "key s = key r"
    and "held w' t' m s" and "n < e"
  shows "w' = w" "t' = t"
proof -
  from claim_row_SomeD [OF assms(1,2)] obtain c where c: "c \<in> set rows"
    "r = tk w t e n c" "rows' = upd (\<lambda>x. key x = key c) (tk w t e n) rows" by metis
  with assms(3,4) have "s \<in> tk w t e n ` set rows" by (auto simp: set_upd)
  then have "held w t n s" using held_take [OF assms(6)] by auto
  with assms(5) held_same show "w' = w" "t' = t" by blast+
qed

text \<open>A renewed lease is held until its new expiry, and by nobody else.\<close>

lemma extend_holds:
  assumes "held w t n r" "m < e"
  shows "held w t m (extend e n r)" and "held w' t' m' (extend e n r) \<Longrightarrow> t' = t"
  using held_extend [OF assms] held_same by blast+

text \<open>A row whose lease has run out is up for claiming again: nothing stays claimed for
  ever, and if any row is claimable some row is claimed.\<close>

lemma expired_is_claimed:
  assumes "s \<in> set rows" "held w' t' n s" "\<not> null_gt (expiry s) m" "Q s"
  shows "claim_row (\<lambda>r. claimable m r \<and> Q r) k key f rows \<noteq> None"
proof -
  have "claimable m s" using assms(2,3) by (rule expired_claimable)
  with assms(1,4) show ?thesis by (auto simp: claim_row_None_iff)
qed

end

end
