(* ===== verification/Deployment_Repository.thy ===== *)
theory Deployment_Repository
  imports Lease_Protocol
begin

text \<open>
  \<open>deployments/repository.py\<close>: one definition per method of
  \<open>PostgresDeploymentRepository\<close>, each one transaction on the control database.
  The instants a method reads from \<open>datetime.now(UTC)\<close>, the identifiers it draws
  from \<open>uuid4()\<close> and the rows that other transactions have locked
  (\<open>SKIP LOCKED\<close>) are arguments.
\<close>

section \<open>Rows under a lease\<close>

definition dj_held :: "string \<Rightarrow> uuid \<Rightarrow> time \<Rightarrow> deployment_job \<Rightarrow> bool" where
  "dj_held w t now j =
     (dj_state j = J_CLAIMED \<and> dj_lease_owner j = Some w \<and> dj_claim_token j = Some t \<and>
      null_gt (dj_lease_expires_at j) now)"

definition dj_claimable :: "time \<Rightarrow> deployment_job \<Rightarrow> bool" where
  "dj_claimable now j =
     ((dj_state j = J_PENDING \<and> dj_available_at j \<le> now) \<or>
      (dj_state j = J_CLAIMED \<and> null_le (dj_lease_expires_at j) now))"

definition dj_take :: "string \<Rightarrow> uuid \<Rightarrow> time \<Rightarrow> time \<Rightarrow> deployment_job \<Rightarrow> deployment_job" where
  "dj_take w t e now j =
     j\<lparr>dj_state := J_CLAIMED, dj_attempts := dj_attempts j + 1, dj_lease_owner := Some w,
       dj_lease_expires_at := Some e, dj_claim_token := Some t, dj_updated_at := now\<rparr>"

definition dj_extend :: "time \<Rightarrow> time \<Rightarrow> deployment_job \<Rightarrow> deployment_job" where
  "dj_extend e now j = j\<lparr>dj_lease_expires_at := Some e, dj_updated_at := now\<rparr>"

interpretation dj: lease_table dj_deployment_id dj_held dj_claimable dj_lease_expires_at dj_take dj_extend
proof
  fix w t n r m
  assume "dj_held w t n r" "\<not> null_gt (dj_lease_expires_at r) m"
  then show "dj_claimable m r"
    by (cases "dj_lease_expires_at r") (auto simp: dj_held_def dj_claimable_def)
qed (auto simp: dj_held_def dj_claimable_def dj_take_def dj_extend_def null_gt_not_le)

section \<open>Statements the methods share\<close>

definition update_deployments ::
    "(deployment \<Rightarrow> bool) \<Rightarrow> (deployment \<Rightarrow> deployment) \<Rightarrow> (db, deployment option) tx" where
  "update_deployments P f d =
     Inr (returning P f (t_deployments d), d\<lparr>t_deployments := upd P f (t_deployments d)\<rparr>)"

definition dep_insert_event ::
    "uuid \<Rightarrow> string \<Rightarrow> string \<Rightarrow> string \<Rightarrow> time \<Rightarrow> (db, int) tx" where
  "dep_insert_event i stage code message created_at d =
     (let n = t_event_seq d + 1;
          ev = \<lparr>ev_id = n, ev_deployment_id = i, ev_stage = stage, ev_code = code,
                ev_message = message, ev_created_at = created_at\<rparr>
      in Inr (n, d\<lparr>t_event_seq := n, t_deployment_events := t_deployment_events d @ [ev],
                   t_notifications := t_notifications d @ [(i, n)]\<rparr>))"

definition dep_lock_claim :: "deployment_claim \<Rightarrow> time \<Rightarrow> (db, unit) tx" where
  "dep_lock_claim c now d =
     (case fetch (\<lambda>j. dj_deployment_id j = dep_id (dc_deployment c) \<and>
                      dj_held (dc_worker_id c) (dc_token c) now j) (t_deployment_jobs d) of
        None \<Rightarrow> Inl DeploymentClaimLostError
      | Some _ \<Rightarrow> Inr ((), d))"

text \<open>\<open>UPDATE deployment_jobs SET f WHERE deployment_id, lease_owner, claim_token\<close>,
  with the check that it touched exactly one row.\<close>

definition dj_owned :: "deployment_claim \<Rightarrow> deployment_job \<Rightarrow> bool" where
  "dj_owned c j = (dj_deployment_id j = dep_id (dc_deployment c) \<and>
     dj_lease_owner j = Some (dc_worker_id c) \<and> dj_claim_token j = Some (dc_token c))"

definition update_owned_job ::
    "deployment_claim \<Rightarrow> (deployment_job \<Rightarrow> deployment_job) \<Rightarrow> (db, unit) tx" where
  "update_owned_job c f d =
     (if rowcount (dj_owned c) (t_deployment_jobs d) \<noteq> 1 then Inl DeploymentClaimLostError
      else Inr ((), d\<lparr>t_deployment_jobs := upd (dj_owned c) f (t_deployment_jobs d)\<rparr>))"

definition dj_done :: "time \<Rightarrow> deployment_job \<Rightarrow> deployment_job" where
  "dj_done now j = j\<lparr>dj_state := J_DONE, dj_lease_owner := None, dj_lease_expires_at := None,
     dj_claim_token := None, dj_updated_at := now\<rparr>"

definition dep_complete_job :: "deployment_claim \<Rightarrow> time \<Rightarrow> (db, unit) tx" where
  "dep_complete_job c now = update_owned_job c (dj_done now)"

section \<open>Creating and reading\<close>

definition sha_ok :: "string \<Rightarrow> bool" where
  "sha_ok s = (length s = 40 \<and> list_all (\<lambda>c. c \<in> set ''0123456789abcdef'') s)"

text \<open>The constraints of \<open>deployments\<close> and \<open>deployment_jobs\<close> on an insertion, in
  the order PostgreSQL tests them: the row's own checks, the unique indexes (the keys and
  \<open>one_active_deployment_per_project\<close>), the reference to the project.\<close>

definition insert_deployment :: "deployment \<Rightarrow> (db, deployment) tx" where
  "insert_deployment x d =
     (if \<not> (0 < dep_config_version x \<and> sha_ok (dep_resolved_commit_sha x) \<and>
            (case dep_requested_commit_sha x of None \<Rightarrow> True | Some s \<Rightarrow> sha_ok s))
        then Inl CheckViolation
      else if exists_row (\<lambda>y. dep_id y = dep_id x) (t_deployments d) \<or>
              (active_status (dep_status x) \<and>
               exists_row (\<lambda>y. dep_project_id y = dep_project_id x \<and> active_status (dep_status y))
                 (t_deployments d))
        then Inl UniqueViolation
      else if \<not> exists_row (\<lambda>p. prj_id p = dep_project_id x) (t_projects d)
        then Inl ForeignKeyViolation
      else Inr (x, d\<lparr>t_deployments := t_deployments d @ [x]\<rparr>))"

definition insert_deployment_job :: "deployment_job \<Rightarrow> (db, unit) tx" where
  "insert_deployment_job j d =
     (if exists_row (\<lambda>k. dj_deployment_id k = dj_deployment_id j) (t_deployment_jobs d)
        then Inl UniqueViolation
      else Inr ((), d\<lparr>t_deployment_jobs := t_deployment_jobs d @ [j]\<rparr>))"

definition new_deployment ::
    "uuid \<Rightarrow> time \<Rightarrow> uuid \<Rightarrow> deployment_source \<Rightarrow> string option \<Rightarrow> string \<Rightarrow> int \<Rightarrow> json \<Rightarrow> deployment"
  where
  "new_deployment i now project source requested resolved version snapshot =
     \<lparr>dep_id = i, dep_project_id = project, dep_source_type = source,
      dep_requested_commit_sha = requested, dep_resolved_commit_sha = resolved,
      dep_config_version = version, dep_config_snapshot = snapshot, dep_status = QUEUED,
      dep_failure_stage = None, dep_failure_code = None, dep_created_at = now,
      dep_updated_at = now, dep_terminal_at = None\<rparr>"

definition new_deployment_job :: "uuid \<Rightarrow> time \<Rightarrow> deployment_job" where
  "new_deployment_job i now =
     \<lparr>dj_deployment_id = i, dj_state = J_PENDING, dj_attempts = 0, dj_available_at = now,
      dj_lease_owner = None, dj_lease_expires_at = None, dj_claim_token = None,
      dj_created_at = now, dj_updated_at = now\<rparr>"

definition create_deployment ::
    "uuid \<Rightarrow> time \<Rightarrow> uuid \<Rightarrow> deployment_source \<Rightarrow> string option \<Rightarrow> string \<Rightarrow> int \<Rightarrow> json \<Rightarrow>
     (db, deployment) tx" where
  "create_deployment i now project source requested resolved version snapshot d =
     (let body =
        tx_seq (\<lambda>d. case project_of d project of
                      Some p \<Rightarrow> tx_raise_if (prj_status p = P_DELETING) DeploymentProjectDeletingError d
                    | None \<Rightarrow> Inr ((), d))
         (tx_bind (insert_deployment
                     (new_deployment i now project source requested resolved version snapshot))
           (\<lambda>row. tx_seq (insert_deployment_job (new_deployment_job i now)) (tx_ret row)))
      in case body d of
           Inl UniqueViolation \<Rightarrow> Inl ActiveDeploymentError
         | r \<Rightarrow> r)"

definition list_deployments_for_project :: "uuid \<Rightarrow> db \<Rightarrow> deployment list" where
  "list_deployments_for_project project d =
     take 50 (order_by (\<lambda>x. (- dep_created_at x, dep_id x))
       (filter (\<lambda>x. dep_project_id x = project) (t_deployments d)))"

definition list_recent_deployments :: "nat \<Rightarrow> db \<Rightarrow> deployment list" where
  "list_recent_deployments limit d =
     take limit (order_by (\<lambda>x. (- dep_created_at x, dep_id x)) (t_deployments d))"

definition recovery_uncertain :: "deployment \<Rightarrow> bool" where
  "recovery_uncertain x = (dep_status x = FAILED \<and> dep_failure_stage x = Some ''RECOVERY'' \<and>
     dep_failure_code x = Some ''RECOVERY_STATE_UNCERTAIN'')"

definition list_uncertain_before :: "time \<Rightarrow> nat \<Rightarrow> db \<Rightarrow> deployment list" where
  "list_uncertain_before cutoff limit d =
     take limit (order_by (\<lambda>x. (case dep_terminal_at x of None \<Rightarrow> 0 | Some t \<Rightarrow> t, dep_id x))
       (filter (\<lambda>x. recovery_uncertain x \<and> null_le (dep_terminal_at x) cutoff) (t_deployments d)))"

definition get_deployment :: "uuid \<Rightarrow> (db, deployment) tx" where
  "get_deployment i d = tx_require DeploymentNotFoundError (deployment_of d i) d"

section \<open>Claiming and the life of a claim\<close>

text \<open>The rows a claim may take: claimable, of a deployment that is not terminal, and
  not locked by another transaction.\<close>

definition dj_candidate :: "time \<Rightarrow> uuid list \<Rightarrow> db \<Rightarrow> deployment_job \<Rightarrow> bool" where
  "dj_candidate now locked d j =
     (dj_claimable now j \<and>
      (case deployment_of d (dj_deployment_id j) of
         None \<Rightarrow> False | Some x \<Rightarrow> \<not> terminal_status (dep_status x)) \<and>
      dj_deployment_id j \<notin> set locked)"

definition dep_preparing :: "time \<Rightarrow> deployment \<Rightarrow> deployment" where
  "dep_preparing now x = x\<lparr>dep_status := PREPARING, dep_failure_stage := None,
     dep_failure_code := None, dep_updated_at := now, dep_terminal_at := None\<rparr>"

definition claim_next_deployment ::
    "string \<Rightarrow> time \<Rightarrow> uuid list \<Rightarrow> uuid \<Rightarrow> time \<Rightarrow> (db, deployment_claim option) tx" where
  "claim_next_deployment worker lease_duration locked token now d =
     (let lease_expires_at = now + lease_duration in
      case claim_row (dj_candidate now locked d)
             (\<lambda>j. (dj_available_at j, dj_created_at j, dj_deployment_id j))
             dj_deployment_id (dj_take worker token lease_expires_at now) (t_deployment_jobs d) of
        None \<Rightarrow> Inr (None, d)
      | Some (job, jobs) \<Rightarrow>
          tx_seq (\<lambda>d. Inr ((), d\<lparr>t_deployment_jobs := jobs\<rparr>))
           (tx_bind (update_deployments (\<lambda>x. dep_id x = dj_deployment_id job) (dep_preparing now))
             (\<lambda>row. tx_bind (tx_require (OtherError ''TypeError'') row)
               (\<lambda>x. tx_bind (dep_insert_event (dj_deployment_id job)
                        (deployment_status_value PREPARING) ''JOB_CLAIMED''
                        ''Worker claimed the deployment job'' now)
                 (\<lambda>_. tx_ret (Some \<lparr>dc_deployment = x, dc_token = token, dc_worker_id = worker,
                        dc_attempts = dj_attempts job, dc_lease_expires_at = lease_expires_at\<rparr>))))) d)"

definition renew_deployment :: "deployment_claim \<Rightarrow> time \<Rightarrow> time \<Rightarrow> (db, time) tx" where
  "renew_deployment c lease_duration now d =
     (let e = now + lease_duration;
          P = (\<lambda>j. dj_deployment_id j = dep_id (dc_deployment c) \<and>
                   dj_held (dc_worker_id c) (dc_token c) now j) in
      case returning P (dj_extend e now) (t_deployment_jobs d) of
        None \<Rightarrow> Inl DeploymentClaimLostError
      | Some _ \<Rightarrow> Inr (e, d\<lparr>t_deployment_jobs := upd P (dj_extend e now) (t_deployment_jobs d)\<rparr>))"

definition open_deployment :: "deployment_claim \<Rightarrow> deployment \<Rightarrow> bool" where
  "open_deployment c x = (dep_id x = dep_id (dc_deployment c) \<and> \<not> terminal_status (dep_status x))"

definition advance_deployment ::
    "deployment_claim \<Rightarrow> deployment_status \<Rightarrow> string \<Rightarrow> string \<Rightarrow> time \<Rightarrow> (db, deployment) tx" where
  "advance_deployment c status event_code event_message now =
     tx_seq (tx_raise_if (status \<in> set [QUEUED, SUCCEEDED, FAILED])
               (ValueError ''advance requires a non-terminal processing status''))
      (tx_seq (dep_lock_claim c now)
        (tx_bind (update_deployments (open_deployment c)
                    (\<lambda>x. x\<lparr>dep_status := status, dep_updated_at := now\<rparr>))
          (\<lambda>row. tx_bind (tx_require DeploymentClaimLostError row)
            (\<lambda>x. tx_bind (dep_insert_event (dep_id (dc_deployment c))
                     (deployment_status_value status) event_code event_message now)
              (\<lambda>_. tx_ret x)))))"

definition succeed_deployment :: "deployment_claim \<Rightarrow> time \<Rightarrow> (db, deployment) tx" where
  "succeed_deployment c now =
     tx_seq (dep_lock_claim c now)
      (tx_bind (update_deployments (open_deployment c)
                  (\<lambda>x. x\<lparr>dep_status := SUCCEEDED, dep_failure_stage := None,
                         dep_failure_code := None, dep_updated_at := now,
                         dep_terminal_at := Some now\<rparr>))
        (\<lambda>row. tx_bind (tx_require DeploymentClaimLostError row)
          (\<lambda>x. tx_seq (dep_complete_job c now)
            (tx_bind (dep_insert_event (dep_id (dc_deployment c))
                        (deployment_status_value SUCCEEDED) ''DEPLOYMENT_SUCCEEDED''
                        ''The preview deployment is active'' now)
              (\<lambda>_. tx_ret x)))))"

definition fail_deployment :: "deployment_claim \<Rightarrow> string \<Rightarrow> string \<Rightarrow> time \<Rightarrow> (db, deployment) tx" where
  "fail_deployment c stage code now =
     tx_seq (dep_lock_claim c now)
      (tx_bind (update_deployments (open_deployment c)
                  (\<lambda>x. x\<lparr>dep_status := FAILED, dep_failure_stage := Some stage,
                         dep_failure_code := Some code, dep_updated_at := now,
                         dep_terminal_at := Some now\<rparr>))
        (\<lambda>row. tx_bind (tx_require DeploymentClaimLostError row)
          (\<lambda>x. tx_seq (dep_complete_job c now)
            (tx_bind (dep_insert_event (dep_id (dc_deployment c))
                        (deployment_status_value FAILED) code
                        ''The deployment failed during runtime processing'' now)
              (\<lambda>_. tx_ret x)))))"

definition dj_pending_again :: "time \<Rightarrow> time \<Rightarrow> deployment_job \<Rightarrow> deployment_job" where
  "dj_pending_again available_at now j =
     j\<lparr>dj_state := J_PENDING, dj_available_at := available_at, dj_lease_owner := None,
       dj_lease_expires_at := None, dj_claim_token := None, dj_updated_at := now\<rparr>"

definition retry_deployment ::
    "deployment_claim \<Rightarrow> time \<Rightarrow> string \<Rightarrow> string \<Rightarrow> time \<Rightarrow> (db, deployment) tx" where
  "retry_deployment c available_at stage code now =
     tx_seq (dep_lock_claim c now)
      (tx_bind (update_deployments (open_deployment c)
                  (\<lambda>x. x\<lparr>dep_status := QUEUED, dep_failure_stage := Some stage,
                         dep_failure_code := Some code, dep_updated_at := now,
                         dep_terminal_at := None\<rparr>))
        (\<lambda>row. tx_bind (tx_require DeploymentClaimLostError row)
          (\<lambda>x. tx_seq (update_owned_job c (dj_pending_again available_at now))
            (tx_bind (dep_insert_event (dep_id (dc_deployment c))
                        (deployment_status_value QUEUED) ''DEPLOYMENT_RETRY_SCHEDULED''
                        ''A retryable runtime failure was scheduled for retry'' now)
              (\<lambda>_. tx_ret x)))))"

definition reconcile_succeeded :: "uuid \<Rightarrow> time \<Rightarrow> (db, deployment) tx" where
  "reconcile_succeeded i now d =
     (case deployment_of d i of
        None \<Rightarrow> Inl DeploymentNotFoundError
      | Some current \<Rightarrow>
          if dep_status current = SUCCEEDED then Inr (current, d)
          else if \<not> recovery_uncertain current then Inl DeploymentReconciliationConflictError
          else
            tx_bind (update_deployments (\<lambda>x. dep_id x = i)
                       (\<lambda>x. x\<lparr>dep_status := SUCCEEDED, dep_failure_stage := None,
                              dep_failure_code := None, dep_updated_at := now,
                              dep_terminal_at := Some now\<rparr>))
             (\<lambda>row. tx_bind (tx_require (OtherError ''TypeError'') row)
               (\<lambda>x. tx_bind (dep_insert_event i (deployment_status_value SUCCEEDED)
                        ''DEPLOYMENT_RECONCILED_ACTIVE''
                        ''The preserved runtime was verified and restored as the active deployment''
                        now)
                 (\<lambda>_. tx_ret x))) d)"

end
