(* ===== verification/Deployment_Invariants.thy ===== *)
theory Deployment_Invariants
  imports Deployment_Repository
begin

text \<open>
  What the deployment tables keep true: the keys, the reference from a job to its
  deployment, the agreement of the job's state with the deployment's status, the
  partial unique index (one active deployment per project) and the event log.  Each
  method of the repository is first characterised by the single move it makes, then
  shown to keep the invariant.
\<close>

section \<open>The invariant\<close>

definition dep_row_ok :: "deployment \<Rightarrow> bool" where
  "dep_row_ok x =
     ((terminal_status (dep_status x) \<longleftrightarrow> dep_terminal_at x \<noteq> None) \<and>
      (dep_status x = SUCCEEDED \<longrightarrow> dep_failure_stage x = None \<and> dep_failure_code x = None) \<and>
      (dep_status x = FAILED \<longrightarrow> dep_failure_stage x \<noteq> None \<and> dep_failure_code x \<noteq> None))"

definition dj_row_ok :: "deployment_job \<Rightarrow> bool" where
  "dj_row_ok j =
     (0 \<le> dj_attempts j \<and>
      (if dj_state j = J_CLAIMED
       then dj_lease_owner j \<noteq> None \<and> dj_lease_expires_at j \<noteq> None \<and> dj_claim_token j \<noteq> None
       else dj_lease_owner j = None \<and> dj_lease_expires_at j = None \<and> dj_claim_token j = None))"

fun job_agrees :: "job_state \<Rightarrow> deployment_status \<Rightarrow> bool" where
  "job_agrees J_PENDING s = (s = QUEUED)"
| "job_agrees J_CLAIMED s = (s \<noteq> QUEUED \<and> \<not> terminal_status s)"
| "job_agrees J_DONE s = terminal_status s"

definition dep_keys_ok :: "db \<Rightarrow> bool" where
  "dep_keys_ok d = (distinct (map dep_id (t_deployments d)) \<and>
                    distinct (map dj_deployment_id (t_deployment_jobs d)))"

definition dep_pairs_ok :: "db \<Rightarrow> bool" where
  "dep_pairs_ok d =
     (dep_id ` set (t_deployments d) = dj_deployment_id ` set (t_deployment_jobs d) \<and>
      (\<forall>j\<in>set (t_deployment_jobs d). \<forall>x\<in>set (t_deployments d).
         dj_deployment_id j = dep_id x \<longrightarrow> job_agrees (dj_state j) (dep_status x)))"

definition one_active_deployment :: "db \<Rightarrow> bool" where
  "one_active_deployment d =
     (\<forall>x\<in>set (t_deployments d). \<forall>y\<in>set (t_deployments d).
        dep_project_id x = dep_project_id y \<and> active_status (dep_status x) \<and>
        active_status (dep_status y) \<longrightarrow> x = y)"

definition events_ok :: "db \<Rightarrow> bool" where
  "events_ok d =
     (sorted_wrt (<) (map ev_id (t_deployment_events d)) \<and>
      (\<forall>e\<in>set (t_deployment_events d). ev_id e \<le> t_event_seq d))"

definition deployments_ok :: "db \<Rightarrow> bool" where
  "deployments_ok d =
     (dep_keys_ok d \<and> dep_pairs_ok d \<and> one_active_deployment d \<and> events_ok d \<and>
      (\<forall>x\<in>set (t_deployments d). dep_row_ok x) \<and>
      (\<forall>j\<in>set (t_deployment_jobs d). dj_row_ok j))"

section \<open>Moves\<close>

text \<open>Every method changes one deployment, its job, or both, and may log an event.\<close>

definition dep_move ::
    "uuid \<Rightarrow> (deployment \<Rightarrow> deployment) \<Rightarrow> (deployment_job \<Rightarrow> deployment_job) \<Rightarrow> db \<Rightarrow> db" where
  "dep_move i f g d =
     d\<lparr>t_deployments := upd (\<lambda>x. dep_id x = i) f (t_deployments d),
       t_deployment_jobs := upd (\<lambda>j. dj_deployment_id j = i) g (t_deployment_jobs d)\<rparr>"

definition log_event :: "uuid \<Rightarrow> string \<Rightarrow> string \<Rightarrow> string \<Rightarrow> time \<Rightarrow> db \<Rightarrow> db" where
  "log_event i stage code message now d =
     (case dep_insert_event i stage code message now d of Inl _ \<Rightarrow> d | Inr (_, d') \<Rightarrow> d')"

lemma dep_insert_event_Inr [simp]:
  "dep_insert_event i stage code message now d = Inr (n, d') \<longleftrightarrow>
     n = t_event_seq d + 1 \<and> d' = log_event i stage code message now d"
  "dep_insert_event i stage code message now d \<noteq> Inl e"
  by (auto simp: log_event_def dep_insert_event_def Let_def)

lemma log_event_simps [simp]:
  "t_deployments (log_event i st c m n d) = t_deployments d"
  "t_deployment_jobs (log_event i st c m n d) = t_deployment_jobs d"
  "t_event_seq (log_event i st c m n d) = t_event_seq d + 1"
  "t_deployment_events (log_event i st c m n d) = t_deployment_events d @
     [\<lparr>ev_id = t_event_seq d + 1, ev_deployment_id = i, ev_stage = st, ev_code = c,
       ev_message = m, ev_created_at = n\<rparr>]"
  "t_projects (log_event i st c m n d) = t_projects d"
  "t_reconciliations (log_event i st c m n d) = t_reconciliations d"
  "t_artifacts (log_event i st c m n d) = t_artifacts d"
  "t_routes (log_event i st c m n d) = t_routes d"
  "t_route_jobs (log_event i st c m n d) = t_route_jobs d"
  "t_deletion_jobs (log_event i st c m n d) = t_deletion_jobs d"
  "t_runtimes (log_event i st c m n d) = t_runtimes d"
  "t_environment_secrets (log_event i st c m n d) = t_environment_secrets d"
  "t_database_resources (log_event i st c m n d) = t_database_resources d"
  "t_notifications (log_event i st c m n d) = t_notifications d @ [(i, t_event_seq d + 1)]"
  by (simp_all add: log_event_def dep_insert_event_def Let_def)

lemma dep_move_simps [simp]:
  "t_deployments (dep_move i f g d) = upd (\<lambda>x. dep_id x = i) f (t_deployments d)"
  "t_deployment_jobs (dep_move i f g d) = upd (\<lambda>j. dj_deployment_id j = i) g (t_deployment_jobs d)"
  "t_event_seq (dep_move i f g d) = t_event_seq d"
  "t_deployment_events (dep_move i f g d) = t_deployment_events d"
  "t_projects (dep_move i f g d) = t_projects d"
  "t_reconciliations (dep_move i f g d) = t_reconciliations d"
  "t_artifacts (dep_move i f g d) = t_artifacts d"
  "t_routes (dep_move i f g d) = t_routes d"
  "t_route_jobs (dep_move i f g d) = t_route_jobs d"
  "t_deletion_jobs (dep_move i f g d) = t_deletion_jobs d"
  "t_runtimes (dep_move i f g d) = t_runtimes d"
  "t_environment_secrets (dep_move i f g d) = t_environment_secrets d"
  "t_database_resources (dep_move i f g d) = t_database_resources d"
  "t_notifications (dep_move i f g d) = t_notifications d"
  by (simp_all add: dep_move_def)

lemma log_event_ok: "deployments_ok d \<Longrightarrow> deployments_ok (log_event i st c m n d)"
  by (auto simp: deployments_ok_def dep_keys_ok_def dep_pairs_ok_def one_active_deployment_def
      events_ok_def sorted_wrt_append)

lemma deployments_okD:
  assumes "deployments_ok d"
  shows "distinct (map dep_id (t_deployments d))"
    "distinct (map dj_deployment_id (t_deployment_jobs d))"
    "\<And>x. x \<in> set (t_deployments d) \<Longrightarrow> dep_row_ok x"
    "\<And>j. j \<in> set (t_deployment_jobs d) \<Longrightarrow> dj_row_ok j"
    "\<And>j x. j \<in> set (t_deployment_jobs d) \<Longrightarrow> x \<in> set (t_deployments d) \<Longrightarrow>
       dj_deployment_id j = dep_id x \<Longrightarrow> job_agrees (dj_state j) (dep_status x)"
    "dep_id ` set (t_deployments d) = dj_deployment_id ` set (t_deployment_jobs d)"
    "one_active_deployment d" "events_ok d"
  using assms by (simp_all add: deployments_ok_def dep_keys_ok_def dep_pairs_ok_def)

lemma job_has_deployment:
  assumes "deployments_ok d" "j \<in> set (t_deployment_jobs d)"
  obtains x where "x \<in> set (t_deployments d)" "dep_id x = dj_deployment_id j"
proof -
  have "dj_deployment_id j \<in> dep_id ` set (t_deployments d)"
    using assms(2) by (simp add: deployments_okD(6) [OF assms(1)])
  then show ?thesis using that by auto
qed

lemma deployment_has_job:
  assumes "deployments_ok d" "x \<in> set (t_deployments d)"
  obtains j where "j \<in> set (t_deployment_jobs d)" "dj_deployment_id j = dep_id x"
proof -
  have "dep_id x \<in> dj_deployment_id ` set (t_deployment_jobs d)"
    using assms(2) by (simp flip: deployments_okD(6) [OF assms(1)])
  then show ?thesis using that by auto
qed

lemma dep_move_ok:
  assumes ok: "deployments_ok d"
    and x: "x \<in> set (t_deployments d)" "dep_id x = i"
    and j: "j \<in> set (t_deployment_jobs d)" "dj_deployment_id j = i"
    and f: "\<And>x. dep_id (f x) = dep_id x" "\<And>x. dep_project_id (f x) = dep_project_id x"
    and g: "\<And>j. dj_deployment_id (g j) = dj_deployment_id j"
    and agrees: "job_agrees (dj_state (g j)) (dep_status (f x))"
    and rows: "dep_row_ok (f x)" "dj_row_ok (g j)"
    and active: "active_status (dep_status (f x)) \<Longrightarrow> active_status (dep_status x)"
  shows "deployments_ok (dep_move i f g d)"
proof -
  note D = deployments_okD [OF ok]
  have deps: "set (upd (\<lambda>x. dep_id x = i) f (t_deployments d)) =
      {y \<in> set (t_deployments d). dep_id y \<noteq> i} \<union> {f x}"
    by (rule set_upd_key [of dep_id, OF D(1) x])
  have jobs: "set (upd (\<lambda>j. dj_deployment_id j = i) g (t_deployment_jobs d)) =
      {k \<in> set (t_deployment_jobs d). dj_deployment_id k \<noteq> i} \<union> {g j}"
    by (rule set_upd_key [of dj_deployment_id, OF D(2) j])
  have "dep_keys_ok (dep_move i f g d)"
    using D(1,2) f g by (simp add: dep_keys_ok_def)
  moreover have "dep_pairs_ok (dep_move i f g d)"
  proof -
    have "dep_id ` set (t_deployments (dep_move i f g d)) =
        dj_deployment_id ` set (t_deployment_jobs (dep_move i f g d))"
    proof -
      have "dep_id ` set (t_deployments (dep_move i f g d)) = dep_id ` set (t_deployments d)"
        using f(1) upd_keys [of dep_id f "\<lambda>x. dep_id x = i" "t_deployments d"]
        by (metis dep_move_simps(1) set_map)
      moreover have "dj_deployment_id ` set (t_deployment_jobs (dep_move i f g d)) =
          dj_deployment_id ` set (t_deployment_jobs d)"
        using g upd_keys [of dj_deployment_id g "\<lambda>x. dj_deployment_id x = i" "t_deployment_jobs d"]
        by (metis dep_move_simps(2) set_map)
      ultimately show ?thesis using ok by (simp add: deployments_ok_def dep_pairs_ok_def)
    qed
    moreover have "\<forall>k\<in>set (t_deployment_jobs (dep_move i f g d)).
        \<forall>y\<in>set (t_deployments (dep_move i f g d)).
          dj_deployment_id k = dep_id y \<longrightarrow> job_agrees (dj_state k) (dep_status y)"
      unfolding dep_move_simps deps jobs using D(5) agrees f(1) g x(2) j(2) by auto
    ultimately show ?thesis by (simp only: dep_pairs_ok_def simp_thms)
  qed
  moreover have "one_active_deployment (dep_move i f g d)"
    using D(7) active x f(2)
    unfolding one_active_deployment_def dep_move_simps deps by auto
  moreover have "events_ok (dep_move i f g d)"
    using ok by (simp add: deployments_ok_def events_ok_def)
  ultimately show ?thesis
    using ok rows by (simp add: deployments_ok_def deps jobs)
qed

section \<open>What each method does, as an equation\<close>

text \<open>The claim is live: its job row is held by this worker under this token.\<close>

definition dep_claim_live :: "deployment_claim \<Rightarrow> time \<Rightarrow> db \<Rightarrow> bool" where
  "dep_claim_live c now d =
     (\<exists>j\<in>set (t_deployment_jobs d). dj_deployment_id j = dep_id (dc_deployment c) \<and>
        dj_held (dc_worker_id c) (dc_token c) now j)"

lemma dep_lock_claim_eq:
  "dep_lock_claim c now d =
     (if dep_claim_live c now d then Inr ((), d) else Inl DeploymentClaimLostError)"
  by (auto simp: dep_lock_claim_def dep_claim_live_def fetch_None_iff dest: fetch_SomeD split: option.splits)

text \<open>Under the invariant a live claim determines the job and an open deployment.\<close>

lemma live_claim_rows:
  assumes "deployments_ok d" "dep_claim_live c now d"
  obtains j x where "j \<in> set (t_deployment_jobs d)"
    "dj_deployment_id j = dep_id (dc_deployment c)"
    "dj_held (dc_worker_id c) (dc_token c) now j" "x \<in> set (t_deployments d)"
    "dep_id x = dep_id (dc_deployment c)" "open_deployment c x" "dep_status x \<noteq> QUEUED"
    "deployment_of d (dep_id (dc_deployment c)) = Some x"
proof -
  from assms(2) obtain j where j: "j \<in> set (t_deployment_jobs d)"
    "dj_deployment_id j = dep_id (dc_deployment c)"
    "dj_held (dc_worker_id c) (dc_token c) now j" by (auto simp: dep_claim_live_def)
  from job_has_deployment [OF assms(1) j(1)] obtain x
    where x: "x \<in> set (t_deployments d)" "dep_id x = dj_deployment_id j" by blast
  have "job_agrees (dj_state j) (dep_status x)"
    using deployments_okD(5) [OF assms(1) j(1) x(1)] x(2) by simp
  then have "open_deployment c x" "dep_status x \<noteq> QUEUED"
    using j(2,3) x(2) by (auto simp: dj_held_def open_deployment_def)
  moreover have "deployment_of d (dep_id (dc_deployment c)) = Some x"
    using fetch_key [OF deployments_okD(1) [OF assms(1)] x(1)] x(2) j(2) by simp
  ultimately show ?thesis using that j x by simp
qed

lemma update_open_eq:
  assumes "deployments_ok d" "x \<in> set (t_deployments d)" "open_deployment c x"
  shows "update_deployments (open_deployment c) f d =
    Inr (Some (f x), dep_move (dep_id (dc_deployment c)) f (\<lambda>j. j) d)"
proof -
  note D = deployments_okD [OF assms(1)]
  have id: "dep_id x = dep_id (dc_deployment c)" using assms(3) by (simp add: open_deployment_def)
  have "fetch (open_deployment c) (t_deployments d) = Some x"
    by (rule fetch_unique [where k = dep_id and P = "open_deployment c", OF D(1) assms(2,3)])
      (simp add: open_deployment_def id)
  moreover have "upd (open_deployment c) f (t_deployments d) =
      upd (\<lambda>y. dep_id y = dep_id (dc_deployment c)) f (t_deployments d)"
  proof (rule upd_cong)
    fix y assume y: "y \<in> set (t_deployments d)"
    show "open_deployment c y = (dep_id y = dep_id (dc_deployment c))"
      using same_key_same_row [OF D(1) y assms(2)] id assms(3)
      by (auto simp: open_deployment_def)
  qed
  ultimately show ?thesis
    by (simp add: update_deployments_def returning_def dep_move_def)
qed

lemma update_owned_job_eq:
  assumes "deployments_ok d" "j \<in> set (t_deployment_jobs d)"
    "dj_deployment_id j = dep_id (dc_deployment c)"
    "dj_held (dc_worker_id c) (dc_token c) now j"
  shows "update_owned_job c g (dep_move (dep_id (dc_deployment c)) f (\<lambda>j. j) d) =
    Inr ((), dep_move (dep_id (dc_deployment c)) f g d)"
proof -
  note D = deployments_okD [OF assms(1)]
  have owned: "dj_owned c j" using assms(3,4) by (simp add: dj_owned_def dj_held_def)
  have "rowcount (dj_owned c) (t_deployment_jobs d) = 1"
    by (rule rowcount_key [where k = dj_deployment_id and P = "dj_owned c", OF D(2) assms(2) owned])
      (simp add: dj_owned_def assms(3))
  moreover have "upd (dj_owned c) g (t_deployment_jobs d) =
      upd (\<lambda>k. dj_deployment_id k = dep_id (dc_deployment c)) g (t_deployment_jobs d)"
  proof (rule upd_cong)
    fix k assume k: "k \<in> set (t_deployment_jobs d)"
    show "dj_owned c k = (dj_deployment_id k = dep_id (dc_deployment c))"
      using same_key_same_row [OF D(2) k assms(2)] owned assms(3) by (auto simp: dj_owned_def)
  qed
  ultimately show ?thesis by (simp add: update_owned_job_def dep_move_def)
qed

text \<open>The common shape of \<open>succeed\<close>, \<open>fail\<close> and \<open>retry\<close>.\<close>

definition finish_shape ::
    "deployment_claim \<Rightarrow> time \<Rightarrow> (deployment \<Rightarrow> deployment) \<Rightarrow> (deployment_job \<Rightarrow> deployment_job) \<Rightarrow>
     string \<Rightarrow> string \<Rightarrow> string \<Rightarrow> (db, deployment) tx" where
  "finish_shape c now f g stage code message =
     tx_seq (dep_lock_claim c now)
      (tx_bind (update_deployments (open_deployment c) f)
        (\<lambda>row. tx_bind (tx_require DeploymentClaimLostError row)
          (\<lambda>x. tx_seq (update_owned_job c g)
            (tx_bind (dep_insert_event (dep_id (dc_deployment c)) stage code message now)
              (\<lambda>_. tx_ret x)))))"

lemma finish_shape_lost:
  "\<not> dep_claim_live c now d \<Longrightarrow>
   finish_shape c now f g stage code message d = Inl DeploymentClaimLostError"
  by (simp add: finish_shape_def tx_seq_def tx_bind_def dep_lock_claim_eq)

lemma finish_shape_live:
  assumes "deployments_ok d" "dep_claim_live c now d"
    and "deployment_of d (dep_id (dc_deployment c)) = Some x"
  shows "finish_shape c now f g stage code message d =
    Inr (f x, log_event (dep_id (dc_deployment c)) stage code message now
                (dep_move (dep_id (dc_deployment c)) f g d))"
proof -
  obtain j y where
    j: "j \<in> set (t_deployment_jobs d)" "dj_deployment_id j = dep_id (dc_deployment c)"
      "dj_held (dc_worker_id c) (dc_token c) now j"
    and y: "y \<in> set (t_deployments d)" "dep_id y = dep_id (dc_deployment c)" "open_deployment c y"
      "dep_status y \<noteq> QUEUED" "deployment_of d (dep_id (dc_deployment c)) = Some y"
    by (rule live_claim_rows [OF assms(1,2)]) (rule that, assumption+)
  from y(5) assms(3) have [simp]: "y = x" by simp
  show ?thesis
    using update_open_eq [OF assms(1) y(1,3)] update_owned_job_eq [OF assms(1) j]
    by (simp add: finish_shape_def dep_lock_claim_eq assms(2))
qed

lemma finish_shapes:
  "succeed_deployment c now = finish_shape c now
     (\<lambda>x. x\<lparr>dep_status := SUCCEEDED, dep_failure_stage := None, dep_failure_code := None,
            dep_updated_at := now, dep_terminal_at := Some now\<rparr>) (dj_done now)
     (deployment_status_value SUCCEEDED) ''DEPLOYMENT_SUCCEEDED'' ''The preview deployment is active''"
  "fail_deployment c stage code now = finish_shape c now
     (\<lambda>x. x\<lparr>dep_status := FAILED, dep_failure_stage := Some stage, dep_failure_code := Some code,
            dep_updated_at := now, dep_terminal_at := Some now\<rparr>) (dj_done now)
     (deployment_status_value FAILED) code ''The deployment failed during runtime processing''"
  "retry_deployment c available_at stage code now = finish_shape c now
     (\<lambda>x. x\<lparr>dep_status := QUEUED, dep_failure_stage := Some stage, dep_failure_code := Some code,
            dep_updated_at := now, dep_terminal_at := None\<rparr>) (dj_pending_again available_at now)
     (deployment_status_value QUEUED) ''DEPLOYMENT_RETRY_SCHEDULED''
     ''A retryable runtime failure was scheduled for retry''"
  by (simp_all add: finish_shape_def succeed_deployment_def fail_deployment_def
      retry_deployment_def dep_complete_job_def)

lemma finish_shape_ok:
  assumes ok: "deployments_ok d"
    and run: "finish_shape c now f g stage code message d = Inr (r, d')"
    and f: "\<And>x. dep_id (f x) = dep_id x" "\<And>x. dep_project_id (f x) = dep_project_id x"
    and g: "\<And>j. dj_deployment_id (g j) = dj_deployment_id j"
    and agrees: "\<And>x j. job_agrees (dj_state (g j)) (dep_status (f x))"
    and rows: "\<And>x. dep_row_ok (f x)" "\<And>j. dj_row_ok j \<Longrightarrow> dj_row_ok (g j)"
  shows "deployments_ok d'"
proof (cases "dep_claim_live c now d")
  case False
  with run show ?thesis by (simp add: finish_shape_lost)
next
  case True
  obtain j x where
    j: "j \<in> set (t_deployment_jobs d)" "dj_deployment_id j = dep_id (dc_deployment c)"
      "dj_held (dc_worker_id c) (dc_token c) now j"
    and x: "x \<in> set (t_deployments d)" "dep_id x = dep_id (dc_deployment c)" "open_deployment c x"
      "dep_status x \<noteq> QUEUED" "deployment_of d (dep_id (dc_deployment c)) = Some x"
    by (rule live_claim_rows [OF ok True]) (rule that, assumption+)
  have "deployments_ok (dep_move (dep_id (dc_deployment c)) f g d)"
    using x(3) deployments_okD(4) [OF ok j(1)]
    by (intro dep_move_ok [OF ok x(1,2) j(1,2)])
      (simp_all add: f g agrees rows active_iff_not_terminal open_deployment_def)
  then show ?thesis
    using run finish_shape_live [OF ok True x(5)] log_event_ok by auto
qed

lemma succeed_deployment_ok:
  "deployments_ok d \<Longrightarrow> succeed_deployment c now d = Inr (r, d') \<Longrightarrow> deployments_ok d'"
  unfolding finish_shapes
  by (erule (1) finish_shape_ok) (auto simp: dj_done_def dep_row_ok_def dj_row_ok_def)

lemma fail_deployment_ok:
  "deployments_ok d \<Longrightarrow> fail_deployment c stage code now d = Inr (r, d') \<Longrightarrow> deployments_ok d'"
  unfolding finish_shapes
  by (erule (1) finish_shape_ok) (auto simp: dj_done_def dep_row_ok_def dj_row_ok_def)

lemma retry_deployment_ok:
  "deployments_ok d \<Longrightarrow> retry_deployment c at stage code now d = Inr (r, d') \<Longrightarrow> deployments_ok d'"
  unfolding finish_shapes
  by (erule (1) finish_shape_ok) (auto simp: dj_pending_again_def dep_row_ok_def dj_row_ok_def)

lemma advance_deployment_lost:
  "\<not> dep_claim_live c now d \<Longrightarrow> status \<notin> set [QUEUED, SUCCEEDED, FAILED] \<Longrightarrow>
   advance_deployment c status code message now d = Inl DeploymentClaimLostError"
  by (simp add: advance_deployment_def tx_seq_def tx_bind_def tx_raise_if_def dep_lock_claim_eq)

lemma advance_deployment_live:
  assumes "deployments_ok d" "dep_claim_live c now d" "status \<notin> set [QUEUED, SUCCEEDED, FAILED]"
    and "deployment_of d (dep_id (dc_deployment c)) = Some x"
  shows "advance_deployment c status code message now d =
    Inr (x\<lparr>dep_status := status, dep_updated_at := now\<rparr>,
         log_event (dep_id (dc_deployment c)) (deployment_status_value status) code message now
           (dep_move (dep_id (dc_deployment c))
              (\<lambda>x. x\<lparr>dep_status := status, dep_updated_at := now\<rparr>) (\<lambda>j. j) d))"
proof -
  obtain j y where
    j: "j \<in> set (t_deployment_jobs d)" "dj_deployment_id j = dep_id (dc_deployment c)"
      "dj_held (dc_worker_id c) (dc_token c) now j"
    and y: "y \<in> set (t_deployments d)" "dep_id y = dep_id (dc_deployment c)" "open_deployment c y"
      "dep_status y \<noteq> QUEUED" "deployment_of d (dep_id (dc_deployment c)) = Some y"
    by (rule live_claim_rows [OF assms(1,2)]) (rule that, assumption+)
  from y(5) assms(4) have [simp]: "y = x" by simp
  show ?thesis
    using update_open_eq [OF assms(1) y(1,3)] assms(3)
    by (simp add: advance_deployment_def dep_lock_claim_eq assms(2))
qed

lemma advance_deployment_ok:
  assumes ok: "deployments_ok d"
    and run: "advance_deployment c status code message now d = Inr (r, d')"
  shows "deployments_ok d'"
proof -
  have st: "status \<notin> set [QUEUED, SUCCEEDED, FAILED]"
    using run by (simp only: advance_deployment_def tx_seq_Inr tx_raise_if_Inr) blast
  have live: "dep_claim_live c now d"
    using run advance_deployment_lost [OF _ st, of c now d code message] by fastforce
  obtain j x where
    j: "j \<in> set (t_deployment_jobs d)" "dj_deployment_id j = dep_id (dc_deployment c)"
      "dj_held (dc_worker_id c) (dc_token c) now j"
    and x: "x \<in> set (t_deployments d)" "dep_id x = dep_id (dc_deployment c)" "open_deployment c x"
      "dep_status x \<noteq> QUEUED" "deployment_of d (dep_id (dc_deployment c)) = Some x"
    by (rule live_claim_rows [OF ok live]) (rule that, assumption+)
  let ?f = "\<lambda>x. x\<lparr>dep_status := status, dep_updated_at := now\<rparr>"
  have "dep_row_ok (?f x)"
    using deployments_okD(3) [OF ok x(1)] st x(3)
    by (auto simp: dep_row_ok_def terminal_status_def open_deployment_def)
  moreover have "job_agrees (dj_state j) (dep_status (?f x))"
    using j(3) st by (auto simp: dj_held_def terminal_status_def)
  ultimately have "deployments_ok (dep_move (dep_id (dc_deployment c)) ?f (\<lambda>j. j) d)"
    using x(3) deployments_okD(4) [OF ok j(1)]
    by (intro dep_move_ok [OF ok x(1,2) j(1,2)])
      (simp_all add: active_iff_not_terminal open_deployment_def)
  moreover have "d' = log_event (dep_id (dc_deployment c)) (deployment_status_value status) code
      message now (dep_move (dep_id (dc_deployment c)) ?f (\<lambda>j. j) d)"
    using run by (simp add: advance_deployment_live [OF ok live st x(5)])
  ultimately show ?thesis by (simp add: log_event_ok)
qed

text \<open>\<open>renew\<close> moves the expiry of the held row and nothing else.\<close>

lemma renew_deployment_lost:
  "\<not> dep_claim_live c now d \<Longrightarrow> renew_deployment c l now d = Inl DeploymentClaimLostError"
  by (auto simp: renew_deployment_def returning_def Let_def dep_claim_live_def fetch_None_iff
      split: option.splits dest: fetch_SomeD)

lemma renew_deployment_live:
  assumes ok: "deployments_ok d" and live: "dep_claim_live c now d"
  shows "renew_deployment c l now d =
    Inr (now + l, dep_move (dep_id (dc_deployment c)) (\<lambda>x. x) (dj_extend (now + l) now) d)"
proof -
  note D = deployments_okD [OF ok]
  let ?P = "\<lambda>j. dj_deployment_id j = dep_id (dc_deployment c) \<and>
    dj_held (dc_worker_id c) (dc_token c) now j"
  from live obtain j where j: "j \<in> set (t_deployment_jobs d)" "?P j"
    by (auto simp: dep_claim_live_def)
  have "fetch ?P (t_deployment_jobs d) = Some j"
    by (rule fetch_unique [where k = dj_deployment_id and P = ?P, OF D(2) j]) (use j(2) in simp)
  moreover have "upd ?P (dj_extend (now + l) now) (t_deployment_jobs d) =
      upd (\<lambda>k. dj_deployment_id k = dep_id (dc_deployment c)) (dj_extend (now + l) now)
        (t_deployment_jobs d)"
  proof (rule upd_cong)
    fix k assume k: "k \<in> set (t_deployment_jobs d)"
    show "?P k = (dj_deployment_id k = dep_id (dc_deployment c))"
      using same_key_same_row [OF D(2) k j(1)] j(2) by auto
  qed
  ultimately show ?thesis by (simp add: renew_deployment_def returning_def Let_def dep_move_def)
qed

lemma renew_deployment_ok:
  assumes ok: "deployments_ok d" and run: "renew_deployment c l now d = Inr (r, d')"
  shows "deployments_ok d'"
proof -
  from run renew_deployment_lost have live: "dep_claim_live c now d" by fastforce
  obtain j x where
    j: "j \<in> set (t_deployment_jobs d)" "dj_deployment_id j = dep_id (dc_deployment c)"
      "dj_held (dc_worker_id c) (dc_token c) now j"
    and x: "x \<in> set (t_deployments d)" "dep_id x = dep_id (dc_deployment c)" "open_deployment c x"
      "dep_status x \<noteq> QUEUED" "deployment_of d (dep_id (dc_deployment c)) = Some x"
    by (rule live_claim_rows [OF ok live]) (rule that, assumption+)
  have "job_agrees (dj_state (dj_extend (now + l) now j)) (dep_status x)"
    using deployments_okD(5) [OF ok j(1) x(1)] j(2) x(2) by (simp add: dj_extend_def)
  moreover have "dj_row_ok (dj_extend (now + l) now j)"
    using deployments_okD(4) [OF ok j(1)] j(3) by (auto simp: dj_row_ok_def dj_extend_def dj_held_def)
  ultimately have "deployments_ok
      (dep_move (dep_id (dc_deployment c)) (\<lambda>x. x) (dj_extend (now + l) now) d)"
    using deployments_okD(3) [OF ok x(1)]
    by (intro dep_move_ok [OF ok x(1,2) j(1,2)]) (simp_all add: dj_extend_def)
  then show ?thesis using run renew_deployment_live [OF ok live] by auto
qed

section \<open>Claiming\<close>

abbreviation dj_order :: "deployment_job \<Rightarrow> time \<times> time \<times> uuid" where
  "dj_order j \<equiv> (dj_available_at j, dj_created_at j, dj_deployment_id j)"

lemma claim_next_deployment_None:
  assumes "\<forall>j\<in>set (t_deployment_jobs d). \<not> dj_candidate now locked d j"
  shows "claim_next_deployment w l locked t now d = Inr (None, d)"
proof -
  have "claim_row (dj_candidate now locked d) dj_order dj_deployment_id (dj_take w t (now + l) now)
      (t_deployment_jobs d) = None"
    using assms by (simp only: claim_row_None_iff)
  then show ?thesis by (simp add: claim_next_deployment_def Let_def)
qed

lemma claim_next_deployment_Some:
  assumes ok: "deployments_ok d"
    and claim: "claim_row (dj_candidate now locked d) dj_order dj_deployment_id
      (dj_take w t (now + l) now) (t_deployment_jobs d) = Some (job, jobs)"
  obtains j x where "j \<in> set (t_deployment_jobs d)" "dj_candidate now locked d j"
    "\<forall>k\<in>set (t_deployment_jobs d). dj_candidate now locked d k \<longrightarrow> dj_order j \<le> dj_order k"
    "x \<in> set (t_deployments d)" "dep_id x = dj_deployment_id j" "\<not> terminal_status (dep_status x)"
    "claim_next_deployment w l locked t now d =
       Inr (Some \<lparr>dc_deployment = dep_preparing now x, dc_token = t, dc_worker_id = w,
                 dc_attempts = dj_attempts j + 1, dc_lease_expires_at = now + l\<rparr>,
            log_event (dj_deployment_id j) (deployment_status_value PREPARING) ''JOB_CLAIMED''
              ''Worker claimed the deployment job'' now
              (dep_move (dj_deployment_id j) (dep_preparing now) (dj_take w t (now + l) now) d))"
proof -
  note D = deployments_okD [OF ok]
  obtain j where j: "j \<in> set (t_deployment_jobs d)"
    "dj_candidate now locked d j"
    "\<forall>k\<in>set (t_deployment_jobs d). dj_candidate now locked d k \<longrightarrow> dj_order j \<le> dj_order k"
    "job = dj_take w t (now + l) now j"
    "jobs = upd (\<lambda>k. dj_deployment_id k = dj_deployment_id j) (dj_take w t (now + l) now)
       (t_deployment_jobs d)" 
    by (rule claim_row_SomeD [OF claim D(2)]) (rule that, assumption+)
  from j(2) obtain x where dx: "deployment_of d (dj_deployment_id j) = Some x"
    and unfinished: "\<not> terminal_status (dep_status x)"
    by (auto simp: dj_candidate_def split: option.splits)
  from fetch_SomeD [OF dx] have x: "x \<in> set (t_deployments d)" "dep_id x = dj_deployment_id j"
    by simp_all
  have "claim_next_deployment w l locked t now d =
      Inr (Some \<lparr>dc_deployment = dep_preparing now x, dc_token = t, dc_worker_id = w,
                 dc_attempts = dj_attempts j + 1, dc_lease_expires_at = now + l\<rparr>,
           log_event (dj_deployment_id j) (deployment_status_value PREPARING) ''JOB_CLAIMED''
              ''Worker claimed the deployment job'' now
              (dep_move (dj_deployment_id j) (dep_preparing now) (dj_take w t (now + l) now) d))"
    using dx by (simp add: claim_next_deployment_def Let_def claim j(4,5) update_deployments_def
        returning_def dep_move_def dj_take_def)
  then show ?thesis by (rule that [OF j(1,2,3) x unfinished])
qed

lemma claim_next_deployment_ok:
  assumes ok: "deployments_ok d" and run: "claim_next_deployment w l locked t now d = Inr (r, d')"
  shows "deployments_ok d'"
proof (cases "claim_row (dj_candidate now locked d) dj_order dj_deployment_id
      (dj_take w t (now + l) now) (t_deployment_jobs d)")
  case None
  with run ok show ?thesis by (simp add: claim_next_deployment_def Let_def)
next
  case (Some jj)
  then obtain job jobs where "claim_row (dj_candidate now locked d) dj_order dj_deployment_id
      (dj_take w t (now + l) now) (t_deployment_jobs d) = Some (job, jobs)" by (cases jj) auto
  then obtain j x where j: "j \<in> set (t_deployment_jobs d)" "dj_candidate now locked d j"
    "\<forall>k\<in>set (t_deployment_jobs d). dj_candidate now locked d k \<longrightarrow> dj_order j \<le> dj_order k"
    and x: "x \<in> set (t_deployments d)" "dep_id x = dj_deployment_id j"
      "\<not> terminal_status (dep_status x)"
    and eq: "claim_next_deployment w l locked t now d =
       Inr (Some \<lparr>dc_deployment = dep_preparing now x, dc_token = t, dc_worker_id = w,
                 dc_attempts = dj_attempts j + 1, dc_lease_expires_at = now + l\<rparr>,
            log_event (dj_deployment_id j) (deployment_status_value PREPARING) ''JOB_CLAIMED''
              ''Worker claimed the deployment job'' now
              (dep_move (dj_deployment_id j) (dep_preparing now) (dj_take w t (now + l) now) d))"
    by (rule claim_next_deployment_Some [OF ok])
  from eq run have d': "d' = log_event (dj_deployment_id j) (deployment_status_value PREPARING)
      ''JOB_CLAIMED'' ''Worker claimed the deployment job'' now
      (dep_move (dj_deployment_id j) (dep_preparing now) (dj_take w t (now + l) now) d)" by simp
  have "dj_row_ok (dj_take w t (now + l) now j)"
    using deployments_okD(4) [OF ok j(1)] by (auto simp: dj_row_ok_def dj_take_def)
  then have "deployments_ok
      (dep_move (dj_deployment_id j) (dep_preparing now) (dj_take w t (now + l) now) d)"
    using x(3) by (intro dep_move_ok [OF ok x(1,2) j(1) refl])
      (simp_all add: dep_preparing_def dj_take_def dep_row_ok_def active_iff_not_terminal)
  then show ?thesis unfolding d' by (rule log_event_ok)
qed

section \<open>Creation and reconciliation\<close>

lemma reconcile_succeeded_ok:
  assumes ok: "deployments_ok d" and run: "reconcile_succeeded i now d = Inr (r, d')"
  shows "deployments_ok d'"
proof -
  from run obtain x where dx: "deployment_of d i = Some x"
    by (auto simp: reconcile_succeeded_def split: option.splits)
  from fetch_SomeD [OF dx] have x: "x \<in> set (t_deployments d)" "dep_id x = i" by simp_all
  show ?thesis
  proof (cases "dep_status x = SUCCEEDED")
    case True
    with run dx ok show ?thesis by (simp add: reconcile_succeeded_def)
  next
    case False
    with run dx have unc: "recovery_uncertain x" by (auto simp: reconcile_succeeded_def split: if_splits)
    let ?f = "\<lambda>x. x\<lparr>dep_status := SUCCEEDED, dep_failure_stage := None, dep_failure_code := None,
      dep_updated_at := now, dep_terminal_at := Some now\<rparr>"
    from deployment_has_job [OF ok x(1)] obtain j where
      j: "j \<in> set (t_deployment_jobs d)" "dj_deployment_id j = dep_id x" by blast
    have "job_agrees (dj_state j) (dep_status (?f x))"
      using deployments_okD(5) [OF ok j(1) x(1) j(2)] unc
      by (cases "dj_state j") (auto simp: recovery_uncertain_def)
    then have "deployments_ok (dep_move i ?f (\<lambda>j. j) d)"
      using j x deployments_okD(4) [OF ok j(1)]
      by (intro dep_move_ok [OF ok x(1,2) j(1)]) (simp_all add: dep_row_ok_def active_iff_not_terminal)
    moreover have "d' = log_event i (deployment_status_value SUCCEEDED) ''DEPLOYMENT_RECONCILED_ACTIVE''
        ''The preserved runtime was verified and restored as the active deployment'' now
        (dep_move i ?f (\<lambda>j. j) d)"
      using run dx False unc
      by (simp add: reconcile_succeeded_def update_deployments_def returning_def dep_move_def)
    ultimately show ?thesis by (simp add: log_event_ok)
  qed
qed

lemma reconcile_succeeded_Inr:
  assumes "reconcile_succeeded i now d = Inr (x, d')"
  shows "d' = d \<or>
    d' = log_event i (deployment_status_value SUCCEEDED) ''DEPLOYMENT_RECONCILED_ACTIVE''
        ''The preserved runtime was verified and restored as the active deployment'' now
        (dep_move i (\<lambda>x. x\<lparr>dep_status := SUCCEEDED, dep_failure_stage := None, dep_failure_code := None,
      dep_updated_at := now, dep_terminal_at := Some now\<rparr>) (\<lambda>j. j) d)"
  using assms
  by (auto simp: reconcile_succeeded_def update_deployments_def returning_def dep_move_def
      split: option.splits if_splits)

text \<open>A successful creation appends a queued deployment with its pending job, and the
  project had no active deployment.\<close>

lemma create_deployment_Inr:
  "create_deployment i now p source requested resolved version snapshot d = Inr (x, d') \<longleftrightarrow>
   x = new_deployment i now p source requested resolved version snapshot \<and>
   (\<forall>q. project_of d p = Some q \<longrightarrow> prj_status q \<noteq> P_DELETING) \<and>
   0 < version \<and> sha_ok resolved \<and> (\<forall>s. requested = Some s \<longrightarrow> sha_ok s) \<and>
   (\<forall>y\<in>set (t_deployments d). dep_id y \<noteq> i \<and>
      (dep_project_id y = p \<longrightarrow> \<not> active_status (dep_status y))) \<and>
   (\<forall>j\<in>set (t_deployment_jobs d). dj_deployment_id j \<noteq> i) \<and>
   (\<exists>q\<in>set (t_projects d). prj_id q = p) \<and>
   d' = d\<lparr>t_deployments := t_deployments d @ [x],
          t_deployment_jobs := t_deployment_jobs d @ [new_deployment_job i now]\<rparr>"
proof -
  have active: "active_status QUEUED" by (simp add: active_iff_not_terminal)
  show ?thesis
    unfolding create_deployment_def Let_def
    by (auto simp: insert_deployment_def insert_deployment_job_def new_deployment_def
        new_deployment_job_def exists_row_iff active tx_bind_def tx_seq_def tx_ret_def tx_raise_if_def
        split: sum.splits exn.splits option.splits if_splits)
qed

lemma create_deployment_ok:
  assumes ok: "deployments_ok d"
    and run: "create_deployment i now p source requested resolved version snapshot d = Inr (x, d')"
  shows "deployments_ok d'"
proof -
  note D = deployments_okD [OF ok]
  from run [unfolded create_deployment_Inr] have
    x: "x = new_deployment i now p source requested resolved version snapshot" and
    fresh: "\<forall>y\<in>set (t_deployments d). dep_id y \<noteq> i \<and>
      (dep_project_id y = p \<longrightarrow> \<not> active_status (dep_status y))"
      "\<forall>j\<in>set (t_deployment_jobs d). dj_deployment_id j \<noteq> i" and
    d': "d' = d\<lparr>t_deployments := t_deployments d @ [x],
      t_deployment_jobs := t_deployment_jobs d @ [new_deployment_job i now]\<rparr>" by blast+
  have new: "dep_id x = i" "dep_project_id x = p" "dep_status x = QUEUED" "dep_row_ok x"
    "dj_deployment_id (new_deployment_job i now) = i" "dj_state (new_deployment_job i now) = J_PENDING"
    "dj_row_ok (new_deployment_job i now)"
    by (simp_all add: x new_deployment_def new_deployment_job_def dep_row_ok_def dj_row_ok_def)
  have "dep_keys_ok d'"
    using D(1,2) fresh by (auto simp: dep_keys_ok_def d' new)
  moreover have "dep_pairs_ok d'"
    using D(5,6) fresh by (auto simp: dep_pairs_ok_def d' new)
  moreover have "one_active_deployment d'"
    using D(7) fresh by (auto simp: one_active_deployment_def d' new)
  moreover have "events_ok d'" using D(8) by (simp add: events_ok_def d')
  ultimately show ?thesis
    using D(3,4) by (auto simp: deployments_ok_def d' new)
qed

end
