(* ===== verification/Deployment_Events.thy ===== *)
theory Deployment_Events
  imports Deployment_Invariants "HOL-Library.Multiset"
begin

text \<open>
  The event log and the diagnostic artifacts of \<open>deployments/repository.py\<close>:
  reading events backwards and forwards, storing the artifacts of a failure within
  their byte limit, listing and purging them.  An artifact's payload is measured in the
  UTF-8 bytes of its JSON text, which is modelled down to the escapes of
  \<open>json.dumps\<close>; strings are lists of code points below 256.
\<close>

section \<open>Events\<close>

definition events_of :: "uuid \<Rightarrow> db \<Rightarrow> deployment_event list" where
  "events_of i d = filter (\<lambda>e. ev_deployment_id e = i) (t_deployment_events d)"

definition list_events :: "uuid \<Rightarrow> nat \<Rightarrow> db \<Rightarrow> deployment_event list" where
  "list_events i limit d = rev (take limit (order_by (\<lambda>e. - ev_id e) (events_of i d)))"

definition list_events_after :: "uuid \<Rightarrow> int \<Rightarrow> nat \<Rightarrow> db \<Rightarrow> deployment_event list" where
  "list_events_after i after_id limit d =
     take limit (order_by ev_id (filter (\<lambda>e. after_id < ev_id e) (events_of i d)))"

section \<open>JSON text\<close>

definition json_escape :: "char \<Rightarrow> string" where
  "json_escape c =
     (if c = CHR 0x22 then [CHR 0x5C, CHR 0x22]
      else if c = CHR 0x5C then [CHR 0x5C, CHR 0x5C]
      else if c = CHR 0x0A then [CHR 0x5C, CHR 0x6E]
      else if c = CHR 0x0D then [CHR 0x5C, CHR 0x72]
      else if c = CHR 0x09 then [CHR 0x5C, CHR 0x74]
      else if c = CHR 0x0C then [CHR 0x5C, CHR 0x66]
      else if c = CHR 0x08 then [CHR 0x5C, CHR 0x62]
      else if of_char c < (32::nat) then [CHR 0x5C, CHR 0x75] @ hex_fixed 4 (of_char c)
      else [c])"

definition json_string :: "string \<Rightarrow> string" where
  "json_string s = CHR 0x22 # concat (map json_escape s) @ [CHR 0x22]"

definition utf8_length :: "string \<Rightarrow> nat" where
  "utf8_length s = sum_list (map (\<lambda>c. if of_char c < (128::nat) then 1 else 2) s)"

fun log_stream_value :: "log_stream \<Rightarrow> string" where
  "log_stream_value STDOUT = ''STDOUT''"
| "log_stream_value STDERR = ''STDERR''"

definition json_line :: "diagnostic_line \<Rightarrow> string" where
  "json_line l =
     ''{'' @ json_string ''timestamp'' @ '':'' @
       (case dl_timestamp l of None \<Rightarrow> ''null'' | Some t \<Rightarrow> json_string t) @
     '','' @ json_string ''stream'' @ '':'' @ json_string (log_stream_value (dl_stream l)) @
     '','' @ json_string ''message'' @ '':'' @ json_string (dl_message l) @ ''}''"

fun json_join :: "string list \<Rightarrow> string" where
  "json_join [] = []"
| "json_join [x] = x"
| "json_join (x # xs) = x @ '','' @ json_join xs"

definition json_payload :: "diagnostic_line list \<Rightarrow> string" where
  "json_payload ls = ''['' @ json_join (map json_line ls) @ '']''"

section \<open>Storing artifacts\<close>

definition DIAGNOSTIC_ARTIFACT_MAX_BYTES :: nat where
  "DIAGNOSTIC_ARTIFACT_MAX_BYTES = 262144"

definition captured_count :: "artifact_draft list \<Rightarrow> nat" where
  "captured_count as = length (filter (\<lambda>a. ad_capture_status a = CAPTURED) as)"

fun digits :: "nat \<Rightarrow> string" where
  "digits n = (if n < 10 then [hex_digit n] else digits (n div 10) @ [hex_digit (n mod 10)])"

definition diagnostic_event_summary :: "artifact_draft list \<Rightarrow> string \<times> string" where
  "diagnostic_event_summary as =
     (let captured = captured_count as in
      (if captured = length as \<and> as \<noteq> [] then ''DIAGNOSTIC_LOG_CAPTURED''
       else if captured \<noteq> 0 then ''DIAGNOSTIC_LOG_PARTIAL''
       else ''DIAGNOSTIC_LOG_UNAVAILABLE'',
       ''Stored '' @ digits captured @ '' of '' @ digits (length as) @
         '' bounded diagnostic artifacts''))"

definition artifact_row ::
    "uuid \<Rightarrow> uuid \<Rightarrow> int \<Rightarrow> string \<Rightarrow> string \<Rightarrow> time \<Rightarrow> artifact_draft \<Rightarrow> artifact" where
  "artifact_row u i event_id stage code retention a =
     \<lparr>art_id = u, art_deployment_id = i, art_event_id = event_id, art_kind = ad_kind a,
      art_failure_stage = stage, art_failure_code = code,
      art_capture_status = ad_capture_status a, art_capture_code = ad_capture_code a,
      art_operation = ad_operation a, art_service_name = ad_service_name a,
      art_return_code = ad_return_code a, art_container_status = ad_container_status a,
      art_container_exit_code = ad_container_exit_code a,
      art_line_count = int (length (ad_lines a)),
      art_byte_count = int (utf8_length (json_payload (ad_lines a))),
      art_truncated = ad_truncated a, art_captured_at = ad_captured_at a,
      art_expires_at = ad_captured_at a + retention, art_lines = Some (ad_lines a)\<rparr>"

text \<open>The \<open>CHECK\<close>s of the table, and its unique indexes (the key and the source
  of the output within an event).\<close>

definition artifact_checks :: "artifact \<Rightarrow> bool" where
  "artifact_checks a =
     (0 \<le> art_line_count a \<and> 0 \<le> art_byte_count a \<and> art_byte_count a \<le> 262144 \<and>
      ((art_kind a = COMMAND_OUTPUT \<and> art_operation a \<noteq> None) \<or>
       (art_kind a = SERVICE_LOG \<and> art_service_name a \<noteq> None)) \<and>
      ((art_capture_status a = CAPTURED \<and> art_capture_code a = None) \<or>
       (art_capture_status a = UNAVAILABLE \<and> art_capture_code a \<noteq> None \<and> art_line_count a = 0)))"

definition coalesce :: "string option \<Rightarrow> string" where
  "coalesce x = (case x of None \<Rightarrow> [] | Some s \<Rightarrow> s)"

definition artifact_source :: "artifact \<Rightarrow> int \<times> artifact_kind \<times> string \<times> string" where
  "artifact_source a =
     (art_event_id a, art_kind a, coalesce (art_operation a), coalesce (art_service_name a))"

text \<open>\<open>jsonb\<close> cannot hold the character \<open>\u0000\<close>.\<close>

definition jsonb_ok :: "diagnostic_line list \<Rightarrow> bool" where
  "jsonb_ok ls = list_all (\<lambda>l. CHR 0x00 \<notin> set (dl_message l) \<and>
     CHR 0x00 \<notin> set (coalesce (dl_timestamp l))) ls"

definition insert_artifact ::
    "uuid \<Rightarrow> uuid \<Rightarrow> int \<Rightarrow> string \<Rightarrow> string \<Rightarrow> time \<Rightarrow> artifact_draft \<Rightarrow> (db, unit) tx" where
  "insert_artifact u i event_id stage code retention a d =
     (let row = artifact_row u i event_id stage code retention a in
      if DIAGNOSTIC_ARTIFACT_MAX_BYTES < utf8_length (json_payload (ad_lines a))
        then Inl (ValueError ''diagnostic artifact exceeds the byte limit'')
      else if \<not> jsonb_ok (ad_lines a) then Inl (OtherError ''UntranslatableCharacter'')
      else if \<not> artifact_checks row then Inl CheckViolation
      else if exists_row (\<lambda>b. art_id b = u \<or> artifact_source b = artifact_source row)
                (t_artifacts d) then Inr ((), d)
      else if \<not> exists_row (\<lambda>x. dep_id x = i) (t_deployments d) \<or>
              \<not> exists_row (\<lambda>e. ev_id e = event_id) (t_deployment_events d)
        then Inl ForeignKeyViolation
      else Inr ((), d\<lparr>t_artifacts := t_artifacts d @ [row]\<rparr>))"

text \<open>The loop over the artifacts; each draws its own \<open>uuid4()\<close>, here paired with it.\<close>

fun insert_diagnostic_artifacts ::
    "uuid \<Rightarrow> int \<Rightarrow> string \<Rightarrow> string \<Rightarrow> time \<Rightarrow> (uuid \<times> artifact_draft) list \<Rightarrow> (db, unit) tx" where
  "insert_diagnostic_artifacts i event_id stage code retention [] = tx_ret ()"
| "insert_diagnostic_artifacts i event_id stage code retention ((u, a) # rest) =
     tx_seq (insert_artifact u i event_id stage code retention a)
       (insert_diagnostic_artifacts i event_id stage code retention rest)"

definition record_diagnostics ::
    "deployment_claim \<Rightarrow> string \<Rightarrow> string \<Rightarrow> (uuid \<times> artifact_draft) list \<Rightarrow> time \<Rightarrow> time \<Rightarrow>
     (db, deployment_event) tx" where
  "record_diagnostics c stage code artifacts retention now =
     (let (event_code, message) = diagnostic_event_summary (map snd artifacts);
          i = dep_id (dc_deployment c) in
      tx_seq (tx_raise_if (retention \<le> 0) (ValueError ''diagnostic retention must be positive''))
       (tx_seq (dep_lock_claim c now)
         (tx_bind (dep_insert_event i stage event_code message now)
           (\<lambda>event_id.
             tx_seq (insert_diagnostic_artifacts i event_id stage code retention artifacts)
               (tx_ret \<lparr>ev_id = event_id, ev_deployment_id = i, ev_stage = stage,
                        ev_code = event_code, ev_message = message, ev_created_at = now\<rparr>)))))"

definition record_reconciliation_diagnostics ::
    "uuid \<Rightarrow> string \<Rightarrow> string \<Rightarrow> (uuid \<times> artifact_draft) list \<Rightarrow> time \<Rightarrow> time \<Rightarrow>
     (db, deployment_event) tx" where
  "record_reconciliation_diagnostics i stage code artifacts retention now =
     (let (event_code, message) = diagnostic_event_summary (map snd artifacts) in
      tx_seq (tx_raise_if (retention \<le> 0) (ValueError ''diagnostic retention must be positive''))
       (tx_bind (tx_read (\<lambda>d. deployment_of d i))
         (\<lambda>row. tx_bind (tx_require DeploymentNotFoundError row)
           (\<lambda>current. tx_seq (tx_raise_if (\<not> recovery_uncertain current)
                               DeploymentReconciliationConflictError)
             (tx_bind (dep_insert_event i stage event_code message now)
               (\<lambda>event_id.
                 tx_seq (insert_diagnostic_artifacts i event_id stage code retention artifacts)
                   (tx_ret \<lparr>ev_id = event_id, ev_deployment_id = i, ev_stage = stage,
                            ev_code = event_code, ev_message = message, ev_created_at = now\<rparr>)))))))"

section \<open>Reading and purging artifacts\<close>

definition without_lines :: "artifact \<Rightarrow> artifact" where
  "without_lines a = a\<lparr>art_lines := None\<rparr>"

definition list_diagnostics :: "uuid \<Rightarrow> time \<Rightarrow> db \<Rightarrow> artifact list" where
  "list_diagnostics i now d =
     map without_lines
       (order_by (\<lambda>a. (art_event_id a, art_captured_at a, art_id a))
         (filter (\<lambda>a. art_deployment_id a = i \<and> now < art_expires_at a) (t_artifacts d)))"

definition get_diagnostic :: "uuid \<Rightarrow> uuid \<Rightarrow> time \<Rightarrow> (db, artifact) tx" where
  "get_diagnostic i artifact_id now d =
     tx_require DeploymentDiagnosticNotFoundError
       (fetch (\<lambda>a. art_deployment_id a = i \<and> art_id a = artifact_id \<and> now < art_expires_at a)
         (t_artifacts d)) d"

definition purgeable :: "time \<Rightarrow> uuid list \<Rightarrow> nat \<Rightarrow> db \<Rightarrow> uuid list" where
  "purgeable now locked limit d =
     map art_id (take limit (order_by (\<lambda>a. (art_expires_at a, art_id a))
       (filter (\<lambda>a. art_expires_at a \<le> now \<and> art_id a \<notin> set locked) (t_artifacts d))))"

definition purge_expired_diagnostics :: "int \<Rightarrow> time \<Rightarrow> uuid list \<Rightarrow> (db, int) tx" where
  "purge_expired_diagnostics limit now locked d =
     (if limit < 1 \<or> 1000 < limit
        then Inl (ValueError ''diagnostic purge limit must be between 1 and 1000'')
      else
        (let ids = purgeable now locked (nat limit) d in
         Inr (int (rowcount (\<lambda>a. art_id a \<in> set ids) (t_artifacts d)),
              d\<lparr>t_artifacts := del (\<lambda>a. art_id a \<in> set ids) (t_artifacts d)\<rparr>)))"

section \<open>The log as its readers see it\<close>

lemma order_by_unique:
  assumes "distinct (map k rows)" "mset rows = mset rows'" "sorted (map k rows')"
  shows "order_by k rows = rows'"
  using assms by (simp add: order_by_def sort_key_inj_key_eq distinct_map)

lemma order_by_sorted: "sorted_wrt (<) (map k rows) \<Longrightarrow> order_by k rows = rows"
  by (rule order_by_unique) (simp_all add: strict_sorted_iff)

lemma order_by_desc:
  fixes k :: "'a \<Rightarrow> int"
  assumes "sorted_wrt (<) (map k rows)"
  shows "order_by (\<lambda>e. - k e) rows = rev rows"
proof (rule order_by_unique)
  have "distinct (map k rows)" using assms by (simp add: strict_sorted_iff)
  then show "distinct (map (\<lambda>e. - k e) rows)" by (simp add: distinct_map inj_on_def)
  have "sorted_wrt (\<lambda>x y. k x < k y) rows" using assms by (simp add: sorted_wrt_map)
  then have "sorted_wrt (\<lambda>x y. k y < k x) (rev rows)" by (simp add: sorted_wrt_rev)
  then have "sorted_wrt (\<lambda>x y. - k x \<le> - k y) (rev rows)"
    by (rule sorted_wrt_mono_rel [rotated]) simp
  then show "sorted (map (\<lambda>e. - k e) (rev rows))" by (simp add: sorted_wrt_map)
qed simp

lemma events_of_sorted: "events_ok d \<Longrightarrow> sorted_wrt (<) (map ev_id (events_of i d))"
  by (auto simp: events_ok_def events_of_def sorted_wrt_map intro: sorted_wrt_filter)

lemma filter_sorted_keys:
  "sorted_wrt (<) (map k rows) \<Longrightarrow> sorted_wrt (<) (map k (filter P rows))"
  by (simp add: sorted_wrt_map sorted_wrt_filter)

lemma list_events_eq:
  assumes "events_ok d"
  shows "list_events i limit d = drop (length (events_of i d) - limit) (events_of i d)"
  unfolding list_events_def order_by_desc [OF events_of_sorted [OF assms]]
  by (simp add: take_rev)

lemma list_events_after_eq:
  assumes "events_ok d"
  shows "list_events_after i a limit d = take limit (filter (\<lambda>e. a < ev_id e) (events_of i d))"
  unfolding list_events_after_def
  by (simp add: order_by_sorted filter_sorted_keys events_of_sorted assms)

text \<open>Reading on after the last event of a page continues exactly where the page
  stopped.\<close>

lemma filter_after_page:
  fixes k :: "'a \<Rightarrow> int"
  assumes "sorted_wrt (<) (map k rows)" "take n (filter (\<lambda>e. a < k e) rows) = p @ [e]"
  shows "drop n (filter (\<lambda>e. a < k e) rows) = filter (\<lambda>x. k e < k x) rows"
proof -
  let ?F = "filter (\<lambda>e. a < k e) rows"
  have eq: "?F = (p @ [e]) @ drop n ?F" by (metis append_take_drop_id assms(2))
  have s: "sorted_wrt (\<lambda>x y. k x < k y) ?F"
    using assms(1) by (simp add: sorted_wrt_map sorted_wrt_filter)
  have "sorted_wrt (\<lambda>x y. k x < k y) ((p @ [e]) @ drop n ?F)" using s eq by simp
  then have lo: "\<forall>x\<in>set p. k x < k e" and hi: "\<forall>x\<in>set (drop n ?F). k e < k x"
    by (auto simp only: sorted_wrt_append list.set set_append)
  have "e \<in> set ?F" using eq by (metis in_set_conv_decomp append_assoc append_Cons append_Nil)
  then have ae: "a < k e" by simp
  have "filter (\<lambda>x. k e < k x) rows = filter (\<lambda>x. k e < k x) ?F"
    using ae by (auto simp: filter_filter intro: filter_cong)
  also have "\<dots> = filter (\<lambda>x. k e < k x) ((p @ [e]) @ drop n ?F)" using eq by simp
  also have "\<dots> = drop n ?F"
    using lo hi by (force simp: filter_empty_conv filter_id_conv)
  finally show ?thesis by simp
qed

lemma list_events_after_continues:
  assumes "events_ok d" "list_events_after i a n d = p @ [e]"
  shows "list_events_after i a n d @ list_events_after i (ev_id e) m d = list_events_after i a (n + m) d"
proof -
  let ?F = "filter (\<lambda>e. a < ev_id e) (events_of i d)"
  from assms have "take n ?F = p @ [e]" by (simp add: list_events_after_eq)
  from filter_after_page [OF events_of_sorted [OF assms(1)] this]
  have "list_events_after i (ev_id e) m d = take m (drop n ?F)"
    by (simp add: list_events_after_eq assms(1))
  then show ?thesis by (simp add: list_events_after_eq assms(1) take_add)
qed

text \<open>A page that is not full has reached the end of the log.\<close>

lemma list_events_after_exhausted:
  assumes "events_ok d" "length (list_events_after i a n d) < n"
  shows "set (list_events_after i a n d) = {e \<in> set (events_of i d). a < ev_id e}"
  using assms by (auto simp: list_events_after_eq)

section \<open>What the artifact table keeps true\<close>

definition artifact_row_ok :: "db \<Rightarrow> artifact \<Rightarrow> bool" where
  "artifact_row_ok d a =
     (artifact_checks a \<and>
      (\<exists>e\<in>set (t_deployment_events d). ev_id e = art_event_id a \<and>
         ev_deployment_id e = art_deployment_id a) \<and>
      (case art_lines a of
         None \<Rightarrow> False
       | Some ls \<Rightarrow> art_line_count a = int (length ls) \<and>
           art_byte_count a = int (utf8_length (json_payload ls))))"

definition artifacts_ok :: "db \<Rightarrow> bool" where
  "artifacts_ok d =
     (distinct (map art_id (t_artifacts d)) \<and> distinct (map artifact_source (t_artifacts d)) \<and>
      (\<forall>a\<in>set (t_artifacts d). artifact_row_ok d a))"

lemma artifacts_ok_frame:
  assumes "artifacts_ok d" "t_artifacts d' = t_artifacts d"
    and "set (t_deployment_events d) \<subseteq> set (t_deployment_events d')"
  shows "artifacts_ok d'"
proof -
  have "artifact_row_ok d a \<Longrightarrow> artifact_row_ok d' a" for a
    using assms(3) unfolding artifact_row_ok_def by blast
  with assms(1,2) show ?thesis unfolding artifacts_ok_def by simp
qed

lemma artifacts_ok_log [simp]: "artifacts_ok d \<Longrightarrow> artifacts_ok (log_event i st c m n d)"
  by (erule artifacts_ok_frame) auto

lemma artifacts_ok_move [simp]: "artifacts_ok d \<Longrightarrow> artifacts_ok (dep_move i f g d)"
  by (erule artifacts_ok_frame) auto

text \<open>Storing one artifact appends at most one row and touches no other table.\<close>

lemma insert_artifact_Inr:
  "insert_artifact u i n stage code retention a d = Inr (r, d') \<Longrightarrow>
   d' = d \<or>
   (d' = d\<lparr>t_artifacts := t_artifacts d @ [artifact_row u i n stage code retention a]\<rparr> \<and>
    artifact_checks (artifact_row u i n stage code retention a) \<and>
    (\<forall>b\<in>set (t_artifacts d). art_id b \<noteq> u \<and>
       artifact_source b \<noteq> artifact_source (artifact_row u i n stage code retention a)))"
  by (auto simp: insert_artifact_def Let_def exists_row_iff split: if_splits)

lemma insert_artifact_ok:
  assumes ok: "artifacts_ok d"
    and run: "insert_artifact u i n stage code retention a d = Inr (r, d')"
    and event: "e \<in> set (t_deployment_events d)" "ev_id e = n" "ev_deployment_id e = i"
  shows "artifacts_ok d'"
  using insert_artifact_Inr [OF run]
proof
  assume "d' = d"
  with ok show ?thesis by simp
next
  let ?row = "artifact_row u i n stage code retention a"
  assume new: "d' = d\<lparr>t_artifacts := t_artifacts d @ [?row]\<rparr> \<and> artifact_checks ?row \<and>
    (\<forall>b\<in>set (t_artifacts d). art_id b \<noteq> u \<and> artifact_source b \<noteq> artifact_source ?row)"
  have id: "art_id ?row = u" by (simp add: artifact_row_def)
  have "artifact_row_ok d ?row"
    using new event by (auto simp: artifact_row_ok_def artifact_row_def)
  moreover have "artifact_row_ok d' b = artifact_row_ok d b" for b
    using new by (simp add: artifact_row_ok_def)
  ultimately show ?thesis
    using ok new by (auto simp: artifacts_ok_def id)
qed

lemma insert_diagnostic_artifacts_frame:
  "insert_diagnostic_artifacts i n stage code retention as d = Inr (r, d') \<Longrightarrow>
   \<exists>rows. d' = d\<lparr>t_artifacts := t_artifacts d @ rows\<rparr> \<and>
     (\<forall>b\<in>set rows. \<exists>(u, a)\<in>set as. b = artifact_row u i n stage code retention a)"
proof (induction as arbitrary: d)
  case Nil
  then show ?case by (intro exI [of _ "[]"]) simp
next
  case (Cons ua rest)
  obtain u a where ua: "ua = (u, a)" by fastforce
  from Cons.prems obtain d1 where
    one: "insert_artifact u i n stage code retention a d = Inr ((), d1)" and
    more: "insert_diagnostic_artifacts i n stage code retention rest d1 = Inr (r, d')"
    by (auto simp: ua)
  from Cons.IH [OF more] obtain rows where
    rows: "d' = d1\<lparr>t_artifacts := t_artifacts d1 @ rows\<rparr>"
      "\<forall>b\<in>set rows. \<exists>(u, a)\<in>set rest. b = artifact_row u i n stage code retention a" by blast
  from insert_artifact_Inr [OF one] show ?case
  proof
    assume "d1 = d"
    with rows show ?thesis by (intro exI [of _ rows]) (auto simp: ua)
  next
    let ?row = "artifact_row u i n stage code retention a"
    assume "d1 = d\<lparr>t_artifacts := t_artifacts d @ [?row]\<rparr> \<and> artifact_checks ?row \<and>
      (\<forall>b\<in>set (t_artifacts d). art_id b \<noteq> u \<and> artifact_source b \<noteq> artifact_source ?row)"
    with rows show ?thesis by (intro exI [of _ "?row # rows"]) (auto simp: ua)
  qed
qed

lemma insert_diagnostic_artifacts_ok:
  "insert_diagnostic_artifacts i n stage code retention as d = Inr (r, d') \<Longrightarrow> artifacts_ok d \<Longrightarrow>
   e \<in> set (t_deployment_events d) \<Longrightarrow> ev_id e = n \<Longrightarrow> ev_deployment_id e = i \<Longrightarrow> artifacts_ok d'"
proof (induction as arbitrary: d)
  case Nil
  then show ?case by simp
next
  case (Cons ua rest)
  obtain u a where ua: "ua = (u, a)" by fastforce
  from Cons.prems(1) obtain d1 where
    one: "insert_artifact u i n stage code retention a d = Inr ((), d1)" and
    more: "insert_diagnostic_artifacts i n stage code retention rest d1 = Inr (r, d')"
    by (auto simp: ua)
  have "e \<in> set (t_deployment_events d1)" using insert_artifact_Inr [OF one] Cons.prems(3) by auto
  with Cons.IH [OF more insert_artifact_ok [OF Cons.prems(2) one Cons.prems(3-5)]] Cons.prems(4,5)
  show ?case by blast
qed

lemma deployments_ok_artifacts [simp]: "deployments_ok (d\<lparr>t_artifacts := as\<rparr>) = deployments_ok d"
  by (simp add: deployments_ok_def dep_keys_ok_def dep_pairs_ok_def one_active_deployment_def events_ok_def)

text \<open>Recording diagnostics logs one event and appends the artifacts under it.\<close>

lemma record_diagnostics_Inr:
  assumes "record_diagnostics c stage code as retention now d = Inr (r, d')"
  obtains rows where "dep_claim_live c now d" "0 < retention"
    "d' = (log_event (dep_id (dc_deployment c)) stage (fst (diagnostic_event_summary (map snd as)))
             (snd (diagnostic_event_summary (map snd as))) now d)
          \<lparr>t_artifacts := t_artifacts d @ rows\<rparr>"
    "\<forall>b\<in>set rows. \<exists>(u, a)\<in>set as. b = artifact_row u (dep_id (dc_deployment c))
       (t_event_seq d + 1) stage code retention a"
    "artifacts_ok d \<Longrightarrow> artifacts_ok d'"
proof -
  let ?i = "dep_id (dc_deployment c)"
  let ?s = "diagnostic_event_summary (map snd as)"
  let ?d = "log_event ?i stage (fst ?s) (snd ?s) now d"
  from assms have run: "insert_diagnostic_artifacts ?i (t_event_seq d + 1) stage code retention as ?d =
      Inr ((), d')" and live: "dep_claim_live c now d" and "0 < retention"
    by (auto simp: record_diagnostics_def dep_lock_claim_eq case_prod_beta Let_def split: if_splits)
  from insert_diagnostic_artifacts_frame [OF run] obtain rows where
    rows: "d' = ?d\<lparr>t_artifacts := t_artifacts ?d @ rows\<rparr>"
      "\<forall>b\<in>set rows. \<exists>(u, a)\<in>set as. b = artifact_row u ?i (t_event_seq d + 1) stage code retention a"
    by blast
  have "artifacts_ok d'" if "artifacts_ok d"
    by (rule insert_diagnostic_artifacts_ok [OF run, where e = "last (t_deployment_events ?d)"])
      (use that in simp_all)
  with that [OF live \<open>0 < retention\<close> _ rows(2)] rows(1) show ?thesis by simp
qed

lemma record_diagnostics_ok:
  assumes "deployments_ok d" "artifacts_ok d"
    and "record_diagnostics c stage code as retention now d = Inr (r, d')"
  shows "deployments_ok d' \<and> artifacts_ok d'"
  using assms(3)
proof (rule record_diagnostics_Inr)
  fix rows
  assume "d' = (log_event (dep_id (dc_deployment c)) stage (fst (diagnostic_event_summary (map snd as)))
             (snd (diagnostic_event_summary (map snd as))) now d)
          \<lparr>t_artifacts := t_artifacts d @ rows\<rparr>" "artifacts_ok d \<Longrightarrow> artifacts_ok d'"
  with assms(1,2) show ?thesis by (simp add: log_event_ok)
qed

lemma record_diagnostics_lost:
  "\<not> dep_claim_live c now d \<Longrightarrow> 0 < retention \<Longrightarrow>
   record_diagnostics c stage code as retention now d = Inl DeploymentClaimLostError"
  by (simp add: record_diagnostics_def dep_lock_claim_eq case_prod_beta Let_def tx_seq_def tx_bind_def
      tx_raise_if_def)

lemma record_reconciliation_diagnostics_ok:
  assumes "deployments_ok d" "artifacts_ok d"
    and "record_reconciliation_diagnostics i stage code as retention now d = Inr (r, d')"
  shows "deployments_ok d' \<and> artifacts_ok d'"
proof -
  let ?s = "diagnostic_event_summary (map snd as)"
  let ?d = "log_event i stage (fst ?s) (snd ?s) now d"
  from assms(3) have run:
    "insert_diagnostic_artifacts i (t_event_seq d + 1) stage code retention as ?d = Inr ((), d')"
    by (auto simp: record_reconciliation_diagnostics_def case_prod_beta)
  from insert_diagnostic_artifacts_frame [OF run] assms(1) have "deployments_ok d'"
    by (auto simp: log_event_ok)
  moreover have "artifacts_ok d'"
    by (rule insert_diagnostic_artifacts_ok [OF run, where e = "last (t_deployment_events ?d)"])
      (use assms(2) in simp_all)
  ultimately show ?thesis ..
qed

text \<open>Purging deletes expired artifacts only, at most \<open>limit\<close> of them.\<close>

lemma length_filter_ids:
  "distinct (map k rows) \<Longrightarrow> length (filter (\<lambda>r. k r \<in> set ids) rows) \<le> length ids"
proof -
  assume d: "distinct (map k rows)"
  let ?F = "filter (\<lambda>r. k r \<in> set ids) rows"
  have "length ?F = card (k ` set ?F)"
    using distinct_map_filter [OF d, of "\<lambda>r. k r \<in> set ids"] by (metis distinct_card length_map set_map)
  also have "\<dots> \<le> card (set ids)" by (rule card_mono) auto
  also have "\<dots> \<le> length ids" by (rule card_length)
  finally show ?thesis .
qed

lemma purgeable_expired:
  assumes "distinct (map art_id (t_artifacts d))" "a \<in> set (t_artifacts d)"
    and "art_id a \<in> set (purgeable now locked n d)"
  shows "art_expires_at a \<le> now"
proof -
  from assms(3) obtain b where b: "art_id b = art_id a" and
    "b \<in> set (take n (order_by (\<lambda>a. (art_expires_at a, art_id a))
       (filter (\<lambda>a. art_expires_at a \<le> now \<and> art_id a \<notin> set locked) (t_artifacts d))))"
    by (auto simp: purgeable_def)
  then have "b \<in> set (t_artifacts d)" "art_expires_at b \<le> now"
    using in_set_takeD by fastforce+
  with same_key_same_row [OF assms(1) _ assms(2) b] show ?thesis by blast
qed

lemma purge_expired_diagnostics_Inr:
  assumes "artifacts_ok d" "purge_expired_diagnostics limit now locked d = Inr (n, d')"
  shows "artifacts_ok d'" "d' = d\<lparr>t_artifacts := t_artifacts d'\<rparr>"
    "\<And>a. a \<in> set (t_artifacts d') \<Longrightarrow> a \<in> set (t_artifacts d)"
    "\<And>a. a \<in> set (t_artifacts d) \<Longrightarrow> now < art_expires_at a \<Longrightarrow> a \<in> set (t_artifacts d')"
    "n \<le> limit" "int (length (t_artifacts d')) + n = int (length (t_artifacts d))"
proof -
  let ?ids = "purgeable now locked (nat limit) d"
  from assms(2) have lim: "1 \<le> limit" and n: "n = int (rowcount (\<lambda>a. art_id a \<in> set ?ids) (t_artifacts d))"
    and d': "d' = d\<lparr>t_artifacts := del (\<lambda>a. art_id a \<in> set ?ids) (t_artifacts d)\<rparr>"
    by (auto simp: purge_expired_diagnostics_def Let_def split: if_splits)
  have keys: "distinct (map art_id (t_artifacts d))" "distinct (map artifact_source (t_artifacts d))"
    using assms(1) by (simp_all add: artifacts_ok_def)
  show "artifacts_ok d'"
    using assms(1) unfolding artifacts_ok_def
    by (simp add: d' distinct_del artifact_row_ok_def)
  show "d' = d\<lparr>t_artifacts := t_artifacts d'\<rparr>" by (simp add: d')
  show "\<And>a. a \<in> set (t_artifacts d') \<Longrightarrow> a \<in> set (t_artifacts d)" by (simp add: d')
  show "a \<in> set (t_artifacts d')" if "a \<in> set (t_artifacts d)" "now < art_expires_at a" for a
    using that purgeable_expired [OF keys(1) that(1), of now locked "nat limit"] by (auto simp: d')
  have "length ?ids \<le> nat limit" by (simp add: purgeable_def)
  then show "n \<le> limit"
    using length_filter_ids [OF keys(1), of ?ids] lim by (simp add: n rowcount_def)
  show "int (length (t_artifacts d')) + n = int (length (t_artifacts d))"
    using sum_length_filter_compl [of "\<lambda>a. art_id a \<in> set ?ids" "t_artifacts d"]
    by (simp add: d' n rowcount_def del_def)
qed

text \<open>What is not purged yet is hidden all the same once it has expired.\<close>

lemma list_diagnostics_set:
  "set (list_diagnostics i now d) =
   without_lines ` {a \<in> set (t_artifacts d). art_deployment_id a = i \<and> now < art_expires_at a}"
  by (simp add: list_diagnostics_def)

end
