(* ===== verification/Worker_World.thy ===== *)
theory Worker_World
  imports Deployment_Events
begin

text \<open>
  What a worker process sees of the outside: the clock, the identifiers it draws and
  the rows that other transactions hold locked.  A worker's state is a pair of an
  arbitrary world and the control database.  Every port is an arbitrary function on the
  whole state, so whatever other processes commit between two statements of the worker
  happens inside a port.
\<close>

record 'w ports =
  p_clock :: "'w \<times> db \<Rightarrow> time \<times> ('w \<times> db)"
  p_uuid :: "'w \<times> db \<Rightarrow> uuid \<times> ('w \<times> db)"
  p_locked :: "'w \<times> db \<Rightarrow> uuid list \<times> ('w \<times> db)"

definition get_act :: "('s \<Rightarrow> 'a \<times> 's) \<Rightarrow> ('s, 'a) act" where
  "get_act f = (\<lambda>s. (Inr (fst (f s)), snd (f s)))"

text \<open>A repository method that starts with \<open>now = datetime.now(UTC)\<close>.\<close>

definition repo_call :: "'w ports \<Rightarrow> (time \<Rightarrow> (db, 'a) tx) \<Rightarrow> ('w \<times> db, 'a) act" where
  "repo_call P m = bind_act (get_act (p_clock P)) (\<lambda>now. tx_act (m now))"

text \<open>One \<open>uuid4()\<close> for each element of a list.\<close>

fun draw_ids :: "'w ports \<Rightarrow> 'a list \<Rightarrow> ('w \<times> db, (uuid \<times> 'a) list) act" where
  "draw_ids P [] = ret []"
| "draw_ids P (a # as) =
     bind_act (get_act (p_uuid P)) (\<lambda>u. bind_act (draw_ids P as) (\<lambda>rest. ret ((u, a) # rest)))"

section \<open>Invariants of programs\<close>

text \<open>\<open>keeps I m\<close>: the program keeps \<open>I\<close>, whether it returns or raises.  \<open>raises_only E I m\<close>:
  from a state with \<open>I\<close> it raises nothing outside \<open>E\<close>.\<close>

definition keeps :: "('s \<Rightarrow> bool) \<Rightarrow> ('s, 'a) act \<Rightarrow> bool" where
  "keeps I m = (\<forall>s. I s \<longrightarrow> I (snd (m s)))"

definition raises_only :: "exn set \<Rightarrow> ('s \<Rightarrow> bool) \<Rightarrow> ('s, 'a) act \<Rightarrow> bool" where
  "raises_only E I m = (\<forall>s e. I s \<longrightarrow> fst (m s) = Inl e \<longrightarrow> e \<in> E)"

definition port_keeps :: "('s \<Rightarrow> bool) \<Rightarrow> ('s \<Rightarrow> 'a \<times> 's) \<Rightarrow> bool" where
  "port_keeps I f = (\<forall>s. I s \<longrightarrow> I (snd (f s)))"

definition ports_keep :: "('w \<times> db \<Rightarrow> bool) \<Rightarrow> 'w ports \<Rightarrow> bool" where
  "ports_keep I P = (port_keeps I (p_clock P) \<and> port_keeps I (p_uuid P) \<and> port_keeps I (p_locked P))"

lemma keepsD: "keeps I m \<Longrightarrow> I s \<Longrightarrow> m s = (r, s') \<Longrightarrow> I s'"
  by (metis keeps_def snd_conv)

lemma raises_onlyD: "raises_only E I m \<Longrightarrow> I s \<Longrightarrow> m s = (Inl e, s') \<Longrightarrow> e \<in> E"
  by (metis raises_only_def fst_conv)

lemma keeps_ret [intro]: "keeps I (ret a)"
  by (simp add: keeps_def ret_def)

lemma keeps_raise [intro]: "keeps I (raise e)"
  by (simp add: keeps_def raise_def)

lemma keeps_bind [intro]: "keeps I m \<Longrightarrow> (\<And>a. keeps I (f a)) \<Longrightarrow> keeps I (bind_act m f)"
  by (force simp: keeps_def bind_act_def split: prod.splits sum.splits)

lemma keeps_seq [intro]: "keeps I m \<Longrightarrow> keeps I n \<Longrightarrow> keeps I (seq_act m n)"
  by (auto simp: seq_act_def)

lemma keeps_try [intro]: "keeps I m \<Longrightarrow> (\<And>e. keeps I (h e)) \<Longrightarrow> keeps I (try_act m h)"
  by (force simp: keeps_def try_act_def split: prod.splits sum.splits)

lemma keeps_suppress [intro]: "keeps I m \<Longrightarrow> keeps I (suppress_all m)"
  by (simp add: keeps_def suppress_all_def)

lemma keeps_get [intro]: "port_keeps I f \<Longrightarrow> keeps I (get_act f)"
  by (simp add: keeps_def get_act_def port_keeps_def)

lemma keeps_tx:
  "(\<And>w d a d'. I (w, d) \<Longrightarrow> t d = Inr (a, d') \<Longrightarrow> I (w, d')) \<Longrightarrow> keeps I (tx_act t)"
  by (auto simp: keeps_def tx_act_def split: sum.splits)

lemma keeps_repo_call:
  "ports_keep I P \<Longrightarrow> (\<And>now w d a d'. I (w, d) \<Longrightarrow> m now d = Inr (a, d') \<Longrightarrow> I (w, d')) \<Longrightarrow>
   keeps I (repo_call P m)"
  unfolding repo_call_def ports_keep_def
  by (intro keeps_bind keeps_get keeps_tx) auto

lemma keeps_draw_ids: "ports_keep I P \<Longrightarrow> keeps I (draw_ids P as)"
  by (induction as) (auto simp: ports_keep_def)

lemma raises_ret [intro]: "raises_only E I (ret a)"
  by (simp add: raises_only_def ret_def)

lemma raises_get [intro]: "raises_only E I (get_act f)"
  by (simp add: raises_only_def get_act_def)

lemma raises_suppress [intro]: "raises_only E I (suppress_all m)"
  by (simp add: raises_only_def suppress_all_def)

lemma raises_bind [intro]:
  assumes "raises_only E I m" "keeps I m" "\<And>a. raises_only E I (f a)"
  shows "raises_only E I (bind_act m f)"
  unfolding raises_only_def
proof (intro allI impI)
  fix s e
  assume s: "I s" and e: "fst (bind_act m f s) = Inl e"
  obtain r s' where m: "m s = (r, s')" by fastforce
  then have "I s'" using assms(2) s by (blast intro: keepsD)
  with m e s assms(1,3) show "e \<in> E"
    by (cases r) (auto simp: bind_act_def raises_only_def)
qed

lemma raises_seq [intro]:
  "raises_only E I m \<Longrightarrow> keeps I m \<Longrightarrow> raises_only E I n \<Longrightarrow> raises_only E I (seq_act m n)"
  by (auto simp: seq_act_def)

lemma raises_try [intro]:
  assumes "keeps I m" "\<And>e. raises_only E I (h e)"
  shows "raises_only E I (try_act m h)"
  unfolding raises_only_def
proof (intro allI impI)
  fix s e
  assume s: "I s" and e: "fst (try_act m h s) = Inl e"
  obtain r s' where m: "m s = (r, s')" by fastforce
  then have "I s'" using assms(1) s by (blast intro: keepsD)
  with m e assms(2) show "e \<in> E" by (cases r) (auto simp: try_act_def raises_only_def)
qed

text \<open>A handler sees only what the body can raise.\<close>

lemma raises_try_only:
  assumes "keeps I m" "raises_only F I m" "\<And>e. e \<in> F \<Longrightarrow> raises_only E I (h e)"
  shows "raises_only E I (try_act m h)"
  unfolding raises_only_def
proof (intro allI impI)
  fix s e
  assume s: "I s" and e: "fst (try_act m h s) = Inl e"
  obtain r s' where m: "m s = (r, s')" by fastforce
  then have "I s'" using assms(1) s by (blast intro: keepsD)
  moreover have "r = Inl e' \<Longrightarrow> e' \<in> F" for e' using m s assms(2) by (auto intro: raises_onlyD)
  ultimately show "e \<in> E" using m e assms(3) by (cases r) (auto simp: try_act_def raises_only_def)
qed

lemma raises_tx:
  "(\<And>w d e. I (w, d) \<Longrightarrow> t d = Inl e \<Longrightarrow> e \<in> E) \<Longrightarrow> raises_only E I (tx_act t)"
  by (auto simp: raises_only_def tx_act_def split: sum.splits)

lemma raises_repo_call:
  "ports_keep I P \<Longrightarrow> (\<And>now w d e. I (w, d) \<Longrightarrow> m now d = Inl e \<Longrightarrow> e \<in> E) \<Longrightarrow>
   raises_only E I (repo_call P m)"
  unfolding repo_call_def ports_keep_def
  by (intro raises_bind raises_get keeps_get raises_tx) auto

lemma raises_mono: "raises_only E I m \<Longrightarrow> E \<subseteq> F \<Longrightarrow> raises_only F I m"
  by (auto simp: raises_only_def)

lemma returns:
  "raises_only {} I m \<Longrightarrow> I s \<Longrightarrow> \<exists>a s'. m s = (Inr a, s')"
  by (metis empty_iff obj_sumE prod.collapse raises_only_def)

section \<open>Answers of programs\<close>

definition answers :: "('a \<Rightarrow> bool) \<Rightarrow> ('s, 'a) act \<Rightarrow> bool" where
  "answers Q m = (\<forall>s a. fst (m s) = Inr a \<longrightarrow> Q a)"

lemma answersD: "answers Q m \<Longrightarrow> m s = (Inr a, s') \<Longrightarrow> Q a"
  by (metis answers_def fst_conv)

lemma answers_ret: "Q a \<Longrightarrow> answers Q (ret a)"
  by (simp add: answers_def ret_def)

lemma answers_bind: "answers R m \<Longrightarrow> (\<And>a. R a \<Longrightarrow> answers Q (f a)) \<Longrightarrow> answers Q (bind_act m f)"
  unfolding answers_def bind_act_def
proof (intro allI impI)
  fix s b
  assume m: "\<forall>s a. fst (m s) = Inr a \<longrightarrow> R a" and f: "\<And>a. R a \<Longrightarrow> \<forall>s b. fst (f a s) = Inr b \<longrightarrow> Q b"
    and b: "fst (case m s of (Inl e, s') \<Rightarrow> (Inl e, s') | (Inr a, s') \<Rightarrow> f a s') = Inr b"
  obtain x s' where x: "m s = (x, s')" by (cases "m s")
  with b obtain a where a: "x = Inr a" by (cases x) simp_all
  have "fst (m s) = Inr a" using x a by simp
  with m have "R a" by blast
  moreover have "fst (f a s') = Inr b" using b x a by simp
  ultimately show "Q b" using f by blast
qed

lemma answers_any: "answers (\<lambda>_. True) m"
  by (simp add: answers_def)

lemma answers_then: "(\<And>a. answers Q (f a)) \<Longrightarrow> answers Q (bind_act m f)"
  by (rule answers_bind [OF answers_any])

lemma answers_seq: "answers Q n \<Longrightarrow> answers Q (seq_act m n)"
  by (simp add: seq_act_def answers_then)

lemma answers_tx: "(\<And>d a d'. t d = Inr (a, d') \<Longrightarrow> Q a) \<Longrightarrow> answers Q (tx_act t)"
  by (auto simp: answers_def tx_act_def split: sum.splits)

lemma bind_cong:
  "(\<And>s a s'. m s = (Inr a, s') \<Longrightarrow> f a s' = g a s') \<Longrightarrow> bind_act m f = bind_act m g"
  by (rule ext) (simp add: bind_act_def split: prod.splits sum.splits)

section \<open>Programs that keep an invariant and raise only some exceptions\<close>

definition safe :: "exn set \<Rightarrow> ('s \<Rightarrow> bool) \<Rightarrow> ('s, 'a) act \<Rightarrow> bool" where
  "safe E I m = (keeps I m \<and> raises_only E I m)"

lemma safe_ret: "safe E I (ret a)"
  by (auto simp: safe_def)

lemma safe_raise: "e \<in> E \<Longrightarrow> safe E I (raise e)"
  by (simp add: safe_def raises_only_def raise_def keeps_def)

lemma safe_bind: "safe E I m \<Longrightarrow> (\<And>a. safe E I (f a)) \<Longrightarrow> safe E I (bind_act m f)"
  by (auto simp: safe_def)

lemma safe_seq: "safe E I m \<Longrightarrow> safe E I n \<Longrightarrow> safe E I (seq_act m n)"
  by (auto simp: safe_def)

lemma safe_mono: "safe E I m \<Longrightarrow> E \<subseteq> F \<Longrightarrow> safe F I m"
  by (auto simp: safe_def intro: raises_mono)

lemma safe_try:
  assumes m: "safe F I m" and h: "\<And>e. e \<in> F \<Longrightarrow> safe E I (h e)"
  shows "safe E I (try_act m h)"
proof -
  have "keeps I (try_act m h)"
    unfolding keeps_def
  proof (intro allI impI)
    fix s assume s: "I s"
    obtain r s' where r: "m s = (r, s')" by (cases "m s")
    have s': "I s'" using m s r by (auto simp: safe_def intro: keepsD)
    show "I (snd (try_act m h s))"
    proof (cases r)
      case (Inl e)
      then have "e \<in> F" using m s r by (auto simp: safe_def intro: raises_onlyD)
      then show ?thesis using h s' r Inl by (simp add: try_act_def safe_def keeps_def)
    qed (use r s' in \<open>simp add: try_act_def\<close>)
  qed
  moreover have "raises_only E I (try_act m h)"
    using m h by (intro raises_try_only [where F = F]) (auto simp: safe_def)
  ultimately show ?thesis by (simp add: safe_def)
qed

lemma safe_get: "port_keeps I f \<Longrightarrow> safe E I (get_act f)"
  by (auto simp: safe_def)

lemma safe_repo_call:
  assumes "ports_keep I P"
    and "\<And>now w d a d'. I (w, d) \<Longrightarrow> m now d = Inr (a, d') \<Longrightarrow> I (w, d')"
    and "\<And>now w d e. I (w, d) \<Longrightarrow> m now d = Inl e \<Longrightarrow> e \<in> E"
  shows "safe E I (repo_call P m)"
  unfolding safe_def by (intro conjI keeps_repo_call [OF assms(1,2)] raises_repo_call [OF assms(1,3)])

lemma safe_returns: "safe {} I m \<Longrightarrow> I s \<Longrightarrow> \<exists>a s'. m s = (Inr a, s') \<and> I s'"
  unfolding safe_def using returns keepsD by metis

section \<open>Weakest preconditions\<close>

named_theorems wp_simps "weakest preconditions of worker programs"

definition wp :: "('s, 'a) act \<Rightarrow> ('a \<Rightarrow> 's \<Rightarrow> bool) \<Rightarrow> (exn \<Rightarrow> 's \<Rightarrow> bool) \<Rightarrow> 's \<Rightarrow> bool" where
  "wp m Q E s = (case m s of (Inr a, s') \<Rightarrow> Q a s' | (Inl e, s') \<Rightarrow> E e s')"

lemma wp_ret [wp_simps]: "wp (ret a) Q E s = Q a s"
  by (simp add: wp_def ret_def)

lemma wp_raise [wp_simps]: "wp (raise e) Q E s = E e s"
  by (simp add: wp_def raise_def)

lemma wp_bind [wp_simps]: "wp (bind_act m f) Q E s = wp m (\<lambda>a. wp (f a) Q E) E s"
  by (simp add: wp_def bind_act_def split: prod.split sum.split)

lemma wp_seq [wp_simps]: "wp (seq_act m n) Q E s = wp m (\<lambda>_. wp n Q E) E s"
  by (simp add: seq_act_def wp_bind)

lemma wp_try [wp_simps]: "wp (try_act m h) Q E s = wp m Q (\<lambda>e. wp (h e) Q E) s"
  by (simp add: wp_def try_act_def split: prod.split sum.split)

lemma wp_get [wp_simps]: "wp (get_act f) Q E s = Q (fst (f s)) (snd (f s))"
  by (simp add: wp_def get_act_def)

lemma wp_if [wp_simps]: "wp (if b then m else n) Q E s = (if b then wp m Q E s else wp n Q E s)"
  by simp

lemma wp_mono:
  "wp m Q E s \<Longrightarrow> (\<And>a s'. Q a s' \<Longrightarrow> Q' a s') \<Longrightarrow> (\<And>e s'. E e s' \<Longrightarrow> E' e s') \<Longrightarrow> wp m Q' E' s"
  by (auto simp: wp_def split: prod.splits sum.splits)

lemma wpD: "wp m Q E s \<Longrightarrow> m s = (Inr a, s') \<Longrightarrow> Q a s'" "wp m Q E s \<Longrightarrow> m s = (Inl e, s') \<Longrightarrow> E e s'"
  by (simp_all add: wp_def)

lemma wpI: "(\<And>a s'. m s = (Inr a, s') \<Longrightarrow> Q a s') \<Longrightarrow> (\<And>e s'. m s = (Inl e, s') \<Longrightarrow> E e s') \<Longrightarrow> wp m Q E s"
  by (auto simp: wp_def split: prod.splits sum.splits)

end
