(* ===== verification/Deployment_Worker.thy ===== *)
theory Deployment_Worker
  imports Worker_World
begin

text \<open>
  \<open>deployments/worker.py\<close>: one pass of the deployment worker.  The runtime processor
  (Git, Docker, the edge) is a parameter: five arbitrary programs on the worker's state,
  which may report progress through the two operations of \<open>RuntimeProgress\<close>.
\<close>

section \<open>The processor and its progress\<close>

datatype recovery_disposition = ACTIVE | SAFE_TO_RETRY | UNCERTAIN

record 's runtime_progress =
  pg_heartbeat :: "('s, unit) act"
  pg_stage :: "deployment_status \<Rightarrow> string \<Rightarrow> string \<Rightarrow> ('s, unit) act"

record 's runtime_processor =
  rp_recover :: "deployment \<Rightarrow> 's runtime_progress \<Rightarrow> ('s, recovery_disposition) act"
  rp_process :: "deployment \<Rightarrow> 's runtime_progress \<Rightarrow> ('s, unit) act"
  rp_cleanup_candidate :: "deployment \<Rightarrow> ('s, unit) act"
  rp_rollback_candidate :: "deployment \<Rightarrow> ('s, unit) act"
  rp_capture_diagnostics ::
    "deployment \<Rightarrow> runtime_failure \<Rightarrow> 's runtime_progress \<Rightarrow> ('s, artifact_draft list) act"

record 's deployment_worker =
  dw_processor :: "'s runtime_processor"
  dw_worker_id :: string
  dw_lease_duration :: time
  dw_max_attempts :: int
  dw_retry_base_delay :: time
  dw_diagnostic_retention :: "time option"
  dw_on_runtime_ready :: "(uuid \<Rightarrow> ('s, unit) act) option"

definition runtime_failure :: "string \<Rightarrow> string \<Rightarrow> bool \<Rightarrow> bool \<Rightarrow> runtime_failure" where
  "runtime_failure stage code retryable cleanup =
     \<lparr>rf_stage = stage, rf_code = code, rf_retryable = retryable, rf_cleanup_candidate = cleanup,
      rf_command_output = None\<rparr>"

definition void :: "('s, 'a) act \<Rightarrow> ('s, unit) act" where
  "void m = bind_act m (\<lambda>_. ret ())"

definition progress_heartbeat :: "'w ports \<Rightarrow> deployment_claim \<Rightarrow> time \<Rightarrow> ('w \<times> db, unit) act" where
  "progress_heartbeat P c lease = void (repo_call P (renew_deployment c lease))"

definition progress_stage ::
    "'w ports \<Rightarrow> deployment_claim \<Rightarrow> time \<Rightarrow> deployment_status \<Rightarrow> string \<Rightarrow> string \<Rightarrow>
     ('w \<times> db, unit) act" where
  "progress_stage P c lease status code message =
     seq_act (void (repo_call P (renew_deployment c lease)))
       (void (repo_call P (advance_deployment c status code message)))"

definition progress_of :: "'w ports \<Rightarrow> deployment_claim \<Rightarrow> time \<Rightarrow> ('w \<times> db) runtime_progress" where
  "progress_of P c lease = \<lparr>pg_heartbeat = progress_heartbeat P c lease, pg_stage = progress_stage P c lease\<rparr>"

section \<open>The worker\<close>

definition deployment_worker_init :: "'s deployment_worker \<Rightarrow> exn + 's deployment_worker" where
  "deployment_worker_init W =
     (if dw_worker_id W = [] \<or> 128 < length (dw_worker_id W)
        then Inl (ValueError ''worker_id must be between 1 and 128 characters'')
      else if dw_lease_duration W \<le> 0 then Inl (ValueError ''lease_duration must be positive'')
      else if dw_max_attempts W < 1 then Inl (ValueError ''max_attempts must be positive'')
      else if (case dw_diagnostic_retention W of None \<Rightarrow> False | Some r \<Rightarrow> r \<le> 0)
        then Inl (ValueError ''diagnostic_retention must be positive'')
      else Inr W)"

definition succeed_claim ::
    "'w ports \<Rightarrow> ('w \<times> db) deployment_worker \<Rightarrow> deployment_claim \<Rightarrow> ('w \<times> db, unit) act" where
  "succeed_claim P W c =
     bind_act (repo_call P (succeed_deployment c))
       (\<lambda>x. case dw_on_runtime_ready W of
              None \<Rightarrow> ret ()
            | Some ready \<Rightarrow> suppress_all (ready (dep_project_id x)))"

text \<open>Rolling the candidate back and storing its diagnostics.  \<open>False\<close> is the early
  \<open>return\<close> on a lost claim; every other exception is swallowed.\<close>

definition capture_and_record ::
    "'w ports \<Rightarrow> ('w \<times> db) deployment_worker \<Rightarrow> deployment_claim \<Rightarrow> runtime_failure \<Rightarrow> time \<Rightarrow>
     ('w \<times> db, bool) act" where
  "capture_and_record P W c f retention =
     try_act
       (bind_act (rp_capture_diagnostics (dw_processor W) (dc_deployment c) f
                    (progress_of P c (dw_lease_duration W)))
         (\<lambda>artifacts. bind_act (draw_ids P artifacts)
           (\<lambda>rows. bind_act
              (repo_call P (record_diagnostics c (rf_stage f) (rf_code f) rows retention))
              (\<lambda>_. ret True))))
       (\<lambda>e. if e = DeploymentClaimLostError then ret False else ret True)"

definition rollback_and_capture ::
    "'w ports \<Rightarrow> ('w \<times> db) deployment_worker \<Rightarrow> deployment_claim \<Rightarrow> runtime_failure \<Rightarrow>
     ('w \<times> db, bool) act" where
  "rollback_and_capture P W c f =
     (case dw_diagnostic_retention W of
        None \<Rightarrow> ret True
      | Some retention \<Rightarrow>
          bind_act
            (try_act (bind_act (rp_rollback_candidate (dw_processor W) (dc_deployment c))
                        (\<lambda>_. ret True)) (\<lambda>_. ret False))
            (\<lambda>rollback_ready. if rollback_ready then capture_and_record P W c f retention
                              else ret True))"

text \<open>The failure that is left to report after the clean-up, \<open>None\<close> if the claim was
  lost on the way.\<close>

definition clean_up ::
    "'w ports \<Rightarrow> ('w \<times> db) deployment_worker \<Rightarrow> deployment_claim \<Rightarrow> runtime_failure \<Rightarrow>
     ('w \<times> db, runtime_failure option) act" where
  "clean_up P W c f =
     (if rf_cleanup_candidate f then
        bind_act (rollback_and_capture P W c f)
          (\<lambda>go_on. if \<not> go_on then ret None else
             try_act
               (bind_act (rp_cleanup_candidate (dw_processor W) (dc_deployment c))
                 (\<lambda>_. ret (Some f)))
               (\<lambda>e. if e = DeploymentClaimLostError then ret None
                    else ret (Some (runtime_failure ''CLEANUP'' ''CANDIDATE_CLEANUP_FAILED'' True True))))
      else ret (Some f))"

definition retry_delay :: "('w \<times> db) deployment_worker \<Rightarrow> deployment_claim \<Rightarrow> time" where
  "retry_delay W c = dw_retry_base_delay W * 2 ^ nat (dc_attempts c - 1)"

definition report_failure ::
    "'w ports \<Rightarrow> ('w \<times> db) deployment_worker \<Rightarrow> deployment_claim \<Rightarrow> runtime_failure \<Rightarrow>
     ('w \<times> db, unit) act" where
  "report_failure P W c f =
     try_act
       (if rf_retryable f \<and> dc_attempts c < dw_max_attempts W then
          bind_act (get_act (p_clock P))
            (\<lambda>t. void (repo_call P
               (retry_deployment c (t + retry_delay W c) (rf_stage f) (rf_code f))))
        else void (repo_call P (fail_deployment c (rf_stage f) (rf_code f))))
       (\<lambda>e. if e = DeploymentClaimLostError then ret () else raise e)"

definition handle_failure ::
    "'w ports \<Rightarrow> ('w \<times> db) deployment_worker \<Rightarrow> deployment_claim \<Rightarrow> runtime_failure \<Rightarrow>
     ('w \<times> db, unit) act" where
  "handle_failure P W c f =
     bind_act (clean_up P W c f)
       (\<lambda>r. case r of None \<Rightarrow> ret () | Some f' \<Rightarrow> report_failure P W c f')"

definition process_claim ::
    "'w ports \<Rightarrow> ('w \<times> db) deployment_worker \<Rightarrow> deployment_claim \<Rightarrow> ('w \<times> db, unit) act" where
  "process_claim P W c =
     (let progress = progress_of P c (dw_lease_duration W);
          go_on = seq_act (rp_process (dw_processor W) (dc_deployment c) progress)
                    (seq_act (progress_heartbeat P c (dw_lease_duration W)) (succeed_claim P W c)) in
      if 1 < dc_attempts c then
        bind_act (rp_recover (dw_processor W) (dc_deployment c) progress)
          (\<lambda>recovery.
             if recovery = ACTIVE then
               seq_act (progress_heartbeat P c (dw_lease_duration W)) (succeed_claim P W c)
             else if recovery = UNCERTAIN then
               handle_failure P W c
                 (runtime_failure ''RECOVERY'' ''RECOVERY_STATE_UNCERTAIN'' True False)
             else if dw_max_attempts W < dc_attempts c then
               handle_failure P W c
                 (runtime_failure ''RECOVERY'' ''WORKER_RECOVERY_EXHAUSTED'' False True)
             else go_on)
      else go_on)"

definition run_claim ::
    "'w ports \<Rightarrow> ('w \<times> db) deployment_worker \<Rightarrow> deployment_claim \<Rightarrow> ('w \<times> db, unit) act" where
  "run_claim P W c =
     try_act (process_claim P W c)
       (\<lambda>e. case e of
              DeploymentClaimLostError \<Rightarrow> ret ()
            | RuntimeFailure f \<Rightarrow> handle_failure P W c f
            | _ \<Rightarrow> handle_failure P W c
                     (runtime_failure ''RUNTIME'' ''UNEXPECTED_RUNTIME_FAILURE'' False True))"

definition claim_next_act ::
    "'w ports \<Rightarrow> string \<Rightarrow> time \<Rightarrow> ('w \<times> db, deployment_claim option) act" where
  "claim_next_act P worker lease =
     bind_act (get_act (p_clock P))
       (\<lambda>now. bind_act (get_act (p_uuid P))
         (\<lambda>token. bind_act (get_act (p_locked P))
           (\<lambda>locked. tx_act (claim_next_deployment worker lease locked token now))))"

definition purge_act :: "'w ports \<Rightarrow> ('w \<times> db, int) act" where
  "purge_act P =
     bind_act (get_act (p_locked P))
       (\<lambda>locked. repo_call P (\<lambda>now. purge_expired_diagnostics 100 now locked))"

definition run_once :: "'w ports \<Rightarrow> ('w \<times> db) deployment_worker \<Rightarrow> ('w \<times> db, bool) act" where
  "run_once P W =
     bind_act (claim_next_act P (dw_worker_id W) (dw_lease_duration W))
       (\<lambda>claim. case claim of
          None \<Rightarrow>
            seq_act (case dw_diagnostic_retention W of
                       None \<Rightarrow> ret ()
                     | Some _ \<Rightarrow> suppress_all (purge_act P))
              (ret False)
        | Some c \<Rightarrow> seq_act (run_claim P W c) (ret True))"

section \<open>The transactions a worker issues keep the invariant\<close>

definition deployment_tables_ok :: "'w \<times> db \<Rightarrow> bool" where
  "deployment_tables_ok s = (deployments_ok (snd s) \<and> artifacts_ok (snd s))"

lemma claim_next_deployment_total:
  "deployments_ok d \<Longrightarrow> claim_next_deployment w l locked t now d \<noteq> Inl e"
proof (cases "claim_row (dj_candidate now locked d) dj_order dj_deployment_id
      (dj_take w t (now + l) now) (t_deployment_jobs d)")
  case None
  then show ?thesis by (simp add: claim_next_deployment_def Let_def)
next
  case (Some jj)
  assume ok: "deployments_ok d"
  from Some obtain job jobs where "claim_row (dj_candidate now locked d) dj_order dj_deployment_id
      (dj_take w t (now + l) now) (t_deployment_jobs d) = Some (job, jobs)" by (cases jj) auto
  from claim_next_deployment_Some [OF ok this] show ?thesis by force
qed

lemma finish_shape_artifacts:
  assumes "deployments_ok d" "artifacts_ok d" "finish_shape c now f g st code message d = Inr (r, d')"
  shows "artifacts_ok d'"
proof -
  have live: "dep_claim_live c now d"
    using assms(3) finish_shape_lost [of c now d] by fastforce
  obtain j x where x: "deployment_of d (dep_id (dc_deployment c)) = Some x"
    by (rule live_claim_rows [OF assms(1) live]) (rule that, assumption)
  have "d' = log_event (dep_id (dc_deployment c)) st code message now
      (dep_move (dep_id (dc_deployment c)) f g d)"
    using assms(3) by (simp add: finish_shape_live [OF assms(1) live x])
  then show ?thesis by (simp add: assms(2))
qed

lemma advance_deployment_artifacts:
  assumes "deployments_ok d" "artifacts_ok d" "advance_deployment c st code message now d = Inr (r, d')"
  shows "artifacts_ok d'"
proof -
  have st: "st \<notin> set [QUEUED, SUCCEEDED, FAILED]"
    using assms(3) by (simp only: advance_deployment_def tx_seq_Inr tx_raise_if_Inr) blast
  have live: "dep_claim_live c now d"
    using assms(3) advance_deployment_lost [OF _ st, of c now d code message] by fastforce
  obtain j x where x: "deployment_of d (dep_id (dc_deployment c)) = Some x"
    by (rule live_claim_rows [OF assms(1) live]) (rule that, assumption)
  show ?thesis
    using assms(3) advance_deployment_live [OF assms(1) live st x, of code message]
    by (auto simp: assms(2))
qed

lemma renew_deployment_artifacts:
  assumes "deployments_ok d" "artifacts_ok d" "renew_deployment c l now d = Inr (r, d')"
  shows "artifacts_ok d'"
proof -
  have live: "dep_claim_live c now d"
    using assms(3) renew_deployment_lost [of c now d l] by fastforce
  show ?thesis
    using assms(3) renew_deployment_live [OF assms(1) live, of l] by (auto simp: assms(2))
qed

lemma claim_next_deployment_artifacts:
  assumes ok: "deployments_ok d" and art: "artifacts_ok d"
    and run: "claim_next_deployment w l locked t now d = Inr (r, d')"
  shows "artifacts_ok d'"
proof (cases "claim_row (dj_candidate now locked d) dj_order dj_deployment_id
      (dj_take w t (now + l) now) (t_deployment_jobs d)")
  case None
  with run art show ?thesis by (simp add: claim_next_deployment_def Let_def)
next
  case (Some jj)
  then obtain job jobs where "claim_row (dj_candidate now locked d) dj_order dj_deployment_id
      (dj_take w t (now + l) now) (t_deployment_jobs d) = Some (job, jobs)" by (cases jj) auto
  from claim_next_deployment_Some [OF ok this] run art show ?thesis by force
qed

lemma deployment_tables_txs:
  assumes "deployment_tables_ok (w, d)"
  shows "renew_deployment c l now d = Inr (e, d') \<Longrightarrow> deployment_tables_ok (w, d')"
    "advance_deployment c st code message now d = Inr (x, d') \<Longrightarrow> deployment_tables_ok (w, d')"
    "succeed_deployment c now d = Inr (x, d') \<Longrightarrow> deployment_tables_ok (w, d')"
    "fail_deployment c sg code now d = Inr (x, d') \<Longrightarrow> deployment_tables_ok (w, d')"
    "retry_deployment c at sg code now d = Inr (x, d') \<Longrightarrow> deployment_tables_ok (w, d')"
    "record_diagnostics c sg code rows retention now d = Inr (v, d') \<Longrightarrow> deployment_tables_ok (w, d')"
    "claim_next_deployment wk l locked t now d = Inr (o', d') \<Longrightarrow> deployment_tables_ok (w, d')"
    "purge_expired_diagnostics limit now locked d = Inr (n, d') \<Longrightarrow> deployment_tables_ok (w, d')"
proof -
  from assms have ok: "deployments_ok d" "artifacts_ok d" by (simp_all add: deployment_tables_ok_def)
  note [simp] = deployment_tables_ok_def
  show "renew_deployment c l now d = Inr (e, d') \<Longrightarrow> deployment_tables_ok (w, d')"
    using renew_deployment_ok [OF ok(1)] renew_deployment_artifacts [OF ok] by auto
  show "advance_deployment c st code message now d = Inr (x, d') \<Longrightarrow> deployment_tables_ok (w, d')"
    using advance_deployment_ok [OF ok(1)] advance_deployment_artifacts [OF ok] by auto
  show "succeed_deployment c now d = Inr (x, d') \<Longrightarrow> deployment_tables_ok (w, d')"
    using succeed_deployment_ok [OF ok(1)] finish_shape_artifacts [OF ok]
    unfolding finish_shapes(1) by fastforce
  show "fail_deployment c sg code now d = Inr (x, d') \<Longrightarrow> deployment_tables_ok (w, d')"
    using fail_deployment_ok [OF ok(1)] finish_shape_artifacts [OF ok]
    unfolding finish_shapes(2) by fastforce
  show "retry_deployment c at sg code now d = Inr (x, d') \<Longrightarrow> deployment_tables_ok (w, d')"
    using retry_deployment_ok [OF ok(1)] finish_shape_artifacts [OF ok]
    unfolding finish_shapes(3) by fastforce
  show "record_diagnostics c sg code rows retention now d = Inr (v, d') \<Longrightarrow> deployment_tables_ok (w, d')"
    using record_diagnostics_ok [OF ok] by simp
  show "claim_next_deployment wk l locked t now d = Inr (o', d') \<Longrightarrow> deployment_tables_ok (w, d')"
    using claim_next_deployment_ok [OF ok(1)] claim_next_deployment_artifacts [OF ok] by auto
  show "deployment_tables_ok (w, d')" if "purge_expired_diagnostics limit now locked d = Inr (n, d')"
  proof -
    note P = purge_expired_diagnostics_Inr [OF ok(2) that]
    have "deployments_ok d'" using ok(1) by (subst P(2)) simp
    with P(1) show ?thesis by simp
  qed
qed

section \<open>A pass always returns\<close>

text \<open>What is asked of the processor: whatever it does to the control database besides
  reporting progress keeps the invariant.  It may raise anything.\<close>

definition progress_keeps :: "('s \<Rightarrow> bool) \<Rightarrow> 's runtime_progress \<Rightarrow> bool" where
  "progress_keeps I p = (keeps I (pg_heartbeat p) \<and> (\<forall>st code m. keeps I (pg_stage p st code m)))"

definition worker_keeps :: "('s \<Rightarrow> bool) \<Rightarrow> 's deployment_worker \<Rightarrow> bool" where
  "worker_keeps I W =
     ((\<forall>x p. progress_keeps I p \<longrightarrow>
        keeps I (rp_recover (dw_processor W) x p) \<and> keeps I (rp_process (dw_processor W) x p)) \<and>
      (\<forall>x f p. progress_keeps I p \<longrightarrow> keeps I (rp_capture_diagnostics (dw_processor W) x f p)) \<and>
      (\<forall>x. keeps I (rp_cleanup_candidate (dw_processor W) x) \<and>
           keeps I (rp_rollback_candidate (dw_processor W) x)) \<and>
      (\<forall>ready u. dw_on_runtime_ready W = Some ready \<longrightarrow> keeps I (ready u)))"

lemma keeps_void [intro]: "keeps I m \<Longrightarrow> keeps I (void m)"
  unfolding void_def by (intro keeps_bind keeps_ret)

lemma raises_void: "raises_only E I m \<Longrightarrow> keeps I m \<Longrightarrow> raises_only E I (void m)"
  unfolding void_def by (intro raises_bind raises_ret)

lemma keeps_if: "keeps I m \<Longrightarrow> keeps I n \<Longrightarrow> keeps I (if b then m else n)"
  by simp

lemma keeps_option:
  "keeps I m \<Longrightarrow> (\<And>a. x = Some a \<Longrightarrow> keeps I (f a)) \<Longrightarrow>
   keeps I (case x of None \<Rightarrow> m | Some a \<Rightarrow> f a)"
  by (cases x) auto

lemmas keeps_rules = keeps_ret keeps_raise keeps_bind keeps_seq keeps_try keeps_suppress keeps_void
  keeps_if keeps_option

lemma deployment_calls_keep:
  assumes "ports_keep deployment_tables_ok P"
  shows "keeps deployment_tables_ok (repo_call P (renew_deployment c l))"
    "keeps deployment_tables_ok (repo_call P (advance_deployment c st code message))"
    "keeps deployment_tables_ok (repo_call P (succeed_deployment c))"
    "keeps deployment_tables_ok (repo_call P (fail_deployment c sg code))"
    "keeps deployment_tables_ok (repo_call P (retry_deployment c at sg code))"
    "keeps deployment_tables_ok (repo_call P (record_diagnostics c sg code rows retention))"
    "keeps deployment_tables_ok (repo_call P (\<lambda>now. purge_expired_diagnostics limit now locked))"
  by (rule keeps_repo_call [OF assms], erule (1) deployment_tables_txs)+

lemma progress_of_keeps:
  "ports_keep deployment_tables_ok P \<Longrightarrow> progress_keeps deployment_tables_ok (progress_of P c l)"
  unfolding progress_keeps_def progress_of_def progress_heartbeat_def progress_stage_def
  by (simp add: keeps_rules deployment_calls_keep)

lemma clean_up_keeps:
  assumes P: "ports_keep deployment_tables_ok P" and W: "worker_keeps deployment_tables_ok W"
  shows "keeps deployment_tables_ok (clean_up P W c f)"
    "raises_only {} deployment_tables_ok (clean_up P W c f)"
proof -
  let ?I = deployment_tables_ok
  have parts: "keeps ?I (rp_rollback_candidate (dw_processor W) x)"
    "keeps ?I (rp_cleanup_candidate (dw_processor W) x)"
    "keeps ?I (rp_capture_diagnostics (dw_processor W) x f (progress_of P c l))" for x f l
    using W progress_of_keeps [OF P] by (auto simp: worker_keeps_def)
  have capture: "keeps ?I (capture_and_record P W c f r)" for r
    unfolding capture_and_record_def
    by (intro keeps_rules parts deployment_calls_keep [OF P] keeps_draw_ids [OF P])
  have quiet: "raises_only {} ?I (capture_and_record P W c f r)" for r
    unfolding capture_and_record_def
    by (intro raises_try keeps_rules parts deployment_calls_keep [OF P] keeps_draw_ids [OF P])
      (simp add: raises_ret)
  have rollback: "keeps ?I (rollback_and_capture P W c f)"
    unfolding rollback_and_capture_def by (intro keeps_rules parts capture)
  have rb_quiet: "raises_only {} ?I (rollback_and_capture P W c f)"
    unfolding rollback_and_capture_def
    by (cases "dw_diagnostic_retention W")
      (auto intro!: raises_bind raises_try raises_ret quiet keeps_rules parts)
  show "keeps ?I (clean_up P W c f)"
    unfolding clean_up_def by (intro keeps_rules rollback parts)
  show "raises_only {} ?I (clean_up P W c f)"
    unfolding clean_up_def
    by (auto intro!: raises_bind raises_try raises_ret rb_quiet rollback keeps_rules parts)
qed

lemma finish_shape_raises:
  assumes "deployments_ok d" "finish_shape c now f g st code message d = Inl e"
  shows "e = DeploymentClaimLostError"
proof (cases "dep_claim_live c now d")
  case False
  with assms(2) show ?thesis by (simp add: finish_shape_lost)
next
  case True
  obtain j x where x: "deployment_of d (dep_id (dc_deployment c)) = Some x"
    by (rule live_claim_rows [OF assms(1) True]) (rule that, assumption)
  with assms(2) show ?thesis by (simp add: finish_shape_live [OF assms(1) True x])
qed

lemma report_failure_keeps:
  assumes P: "ports_keep deployment_tables_ok P"
  shows "keeps deployment_tables_ok (report_failure P W c f)"
    "raises_only {} deployment_tables_ok (report_failure P W c f)"
proof -
  let ?I = deployment_tables_ok
  have clock: "keeps ?I (get_act (p_clock P))" using P by (auto simp: ports_keep_def)
  have lost: "raises_only {DeploymentClaimLostError} ?I (repo_call P (fail_deployment c sg code))"
    "raises_only {DeploymentClaimLostError} ?I (repo_call P (retry_deployment c at sg code))"
    for sg code at
    unfolding finish_shapes
    by (rule raises_repo_call [OF P], auto simp: deployment_tables_ok_def dest: finish_shape_raises)+
  let ?body = "if rf_retryable f \<and> dc_attempts c < dw_max_attempts W then
          bind_act (get_act (p_clock P))
            (\<lambda>t. void (repo_call P
               (retry_deployment c (t + retry_delay W c) (rf_stage f) (rf_code f))))
        else void (repo_call P (fail_deployment c (rf_stage f) (rf_code f)))"
  have body: "keeps ?I ?body" by (intro keeps_rules clock deployment_calls_keep [OF P])
  have only: "raises_only {DeploymentClaimLostError} ?I ?body"
    by (auto intro!: raises_bind raises_void raises_get clock lost keeps_rules
        deployment_calls_keep [OF P])
  show "keeps ?I (report_failure P W c f)"
    unfolding report_failure_def by (intro keeps_try body keeps_rules)
  show "raises_only {} ?I (report_failure P W c f)"
    unfolding report_failure_def
    by (rule raises_try_only [OF body only]) (simp add: raises_ret)
qed

lemma handle_failure_keeps:
  assumes P: "ports_keep deployment_tables_ok P" and W: "worker_keeps deployment_tables_ok W"
  shows "keeps deployment_tables_ok (handle_failure P W c f)"
    "raises_only {} deployment_tables_ok (handle_failure P W c f)"
  unfolding handle_failure_def
  by (auto intro!: keeps_rules raises_bind raises_ret clean_up_keeps [OF P W]
      report_failure_keeps [OF P] split: option.split)

lemma run_claim_keeps:
  assumes P: "ports_keep deployment_tables_ok P" and W: "worker_keeps deployment_tables_ok W"
  shows "keeps deployment_tables_ok (run_claim P W c)"
    "raises_only {} deployment_tables_ok (run_claim P W c)"
proof -
  let ?I = deployment_tables_ok
  have parts: "keeps ?I (rp_recover (dw_processor W) x (progress_of P c l))"
    "keeps ?I (rp_process (dw_processor W) x (progress_of P c l))"
    "\<And>ready u. dw_on_runtime_ready W = Some ready \<Longrightarrow> keeps ?I (ready u)" for x l
    using W progress_of_keeps [OF P] by (auto simp: worker_keeps_def)
  have success: "keeps ?I (succeed_claim P W c)"
    unfolding succeed_claim_def by (intro keeps_rules parts(3) deployment_calls_keep [OF P])
  have beat: "keeps ?I (progress_heartbeat P c l)" for l
    unfolding progress_heartbeat_def by (intro keeps_rules deployment_calls_keep [OF P])
  have body: "keeps ?I (process_claim P W c)"
    unfolding process_claim_def Let_def
    by (intro keeps_rules parts(1,2) success beat handle_failure_keeps [OF P W])
  have handler: "keeps ?I (case e of DeploymentClaimLostError \<Rightarrow> ret ()
      | RuntimeFailure f \<Rightarrow> handle_failure P W c f
      | _ \<Rightarrow> handle_failure P W c
               (runtime_failure ''RUNTIME'' ''UNEXPECTED_RUNTIME_FAILURE'' False True))"
    "raises_only {} ?I (case e of DeploymentClaimLostError \<Rightarrow> ret ()
      | RuntimeFailure f \<Rightarrow> handle_failure P W c f
      | _ \<Rightarrow> handle_failure P W c
               (runtime_failure ''RUNTIME'' ''UNEXPECTED_RUNTIME_FAILURE'' False True))" for e
    by (cases e; simp add: keeps_ret raises_ret handle_failure_keeps [OF P W])+
  show "keeps ?I (run_claim P W c)"
    unfolding run_claim_def by (rule keeps_try [OF body handler(1)])
  show "raises_only {} ?I (run_claim P W c)"
    unfolding run_claim_def by (rule raises_try [OF body handler(2)])
qed

lemma claim_next_act_keeps:
  assumes P: "ports_keep deployment_tables_ok P"
  shows "keeps deployment_tables_ok (claim_next_act P w l)"
    "raises_only {} deployment_tables_ok (claim_next_act P w l)"
proof -
  let ?I = deployment_tables_ok
  have ports: "keeps ?I (get_act (p_clock P))" "keeps ?I (get_act (p_uuid P))"
    "keeps ?I (get_act (p_locked P))" using P by (auto simp: ports_keep_def)
  have tx: "keeps ?I (tx_act (claim_next_deployment w l locked t now))" for locked t now
    by (rule keeps_tx) (erule (1) deployment_tables_txs)
  have total: "raises_only {} ?I (tx_act (claim_next_deployment w l locked t now))" for locked t now
    by (rule raises_tx) (simp add: deployment_tables_ok_def claim_next_deployment_total)
  show "keeps ?I (claim_next_act P w l)"
    unfolding claim_next_act_def by (intro keeps_rules ports tx)
  show "raises_only {} ?I (claim_next_act P w l)"
    unfolding claim_next_act_def by (intro raises_bind raises_get ports total keeps_rules tx)
qed

lemma run_once_keeps:
  assumes P: "ports_keep deployment_tables_ok P" and W: "worker_keeps deployment_tables_ok W"
  shows "keeps deployment_tables_ok (run_once P W)"
    "raises_only {} deployment_tables_ok (run_once P W)"
proof -
  let ?I = deployment_tables_ok
  have purge: "keeps ?I (purge_act P)"
    unfolding purge_act_def
    using P by (intro keeps_rules keeps_get deployment_calls_keep [OF P]) (simp add: ports_keep_def)
  let ?rest = "\<lambda>claim. case claim of
          None \<Rightarrow>
            seq_act (case dw_diagnostic_retention W of
                       None \<Rightarrow> ret ()
                     | Some _ \<Rightarrow> suppress_all (purge_act P))
              (ret False)
        | Some c \<Rightarrow> seq_act (run_claim P W c) (ret True)"
  have rest: "keeps ?I (?rest claim)" for claim
    by (intro keeps_rules purge run_claim_keeps(1) [OF P W])
  have quiet: "raises_only {} ?I (?rest claim)" for claim
    by (auto intro!: raises_seq raises_ret raises_suppress keeps_rules purge
        run_claim_keeps [OF P W] split: option.split)
  show "keeps ?I (run_once P W)"
    unfolding run_once_def by (intro keeps_bind claim_next_act_keeps(1) [OF P] rest)
  show "raises_only {} ?I (run_once P W)"
    unfolding run_once_def
    by (rule raises_bind [OF claim_next_act_keeps(2,1) [OF P] quiet])
qed

end
