(* ===== verification/Deployment_Lifecycle.thy ===== *)
theory Deployment_Lifecycle
  imports Deployment_Worker
begin

text \<open>
  The repository's transactions as one step relation, and the contract they implement:
  a deployment moves through its statuses along \<open>status_next\<close>, one deployment at a
  time.  \<open>deployment_view\<close> is the abstraction, \<open>view_step\<close> the specification; each
  transaction simulates it.  Finished deployments stay as they are because the
  specification gives them no successor.
\<close>

section \<open>The specification\<close>

type_synonym view = "uuid \<Rightarrow> (deployment_status \<times> bool) option"

text \<open>A status with the mark of an uncertain recovery, the one failure that an
  administrator's reconciliation can still turn into a success.\<close>

definition status_of :: "deployment \<Rightarrow> deployment_status \<times> bool" where
  "status_of x = (dep_status x, recovery_uncertain x)"

definition deployment_view :: "db \<Rightarrow> view" where
  "deployment_view d i = map_option status_of (deployment_of d i)"

fun status_next :: "deployment_status \<times> bool \<Rightarrow> deployment_status \<times> bool \<Rightarrow> bool" where
  "status_next (SUCCEEDED, _) _ = False"
| "status_next (FAILED, u) (s, _) = (u \<and> s = SUCCEEDED)"
| "status_next (QUEUED, _) (s, _) = (s = PREPARING)"
| "status_next (_, _) (_, _) = True"

inductive view_step :: "view \<Rightarrow> view \<Rightarrow> bool" where
  stay: "view_step v v"
| create: "v i = None \<Longrightarrow> view_step v (v(i \<mapsto> (QUEUED, False)))"
| move: "v i = Some s \<Longrightarrow> status_next s s' \<Longrightarrow> view_step v (v(i \<mapsto> s'))"

section \<open>The steps\<close>

inductive dep_step :: "db \<Rightarrow> db \<Rightarrow> bool" where
  create: "create_deployment i now p src req res ver snap d = Inr (x, d') \<Longrightarrow> dep_step d d'"
| claim: "claim_next_deployment w l locked t now d = Inr (r, d') \<Longrightarrow> dep_step d d'"
| renew: "renew_deployment c l now d = Inr (e, d') \<Longrightarrow> dep_step d d'"
| advance: "advance_deployment c st code msg now d = Inr (x, d') \<Longrightarrow> dep_step d d'"
| succeed: "succeed_deployment c now d = Inr (x, d') \<Longrightarrow> dep_step d d'"
| fail: "fail_deployment c stg code now d = Inr (x, d') \<Longrightarrow> dep_step d d'"
| retry: "retry_deployment c at stg code now d = Inr (x, d') \<Longrightarrow> dep_step d d'"
| reconcile: "reconcile_succeeded i now d = Inr (x, d') \<Longrightarrow> dep_step d d'"
| diagnose: "record_diagnostics c stg code as retention now d = Inr (ev, d') \<Longrightarrow> dep_step d d'"
| diagnose_uncertain:
    "record_reconciliation_diagnostics i stg code as retention now d = Inr (ev, d') \<Longrightarrow> dep_step d d'"
| purge: "purge_expired_diagnostics lim now locked d = Inr (n, d') \<Longrightarrow> dep_step d d'"

text \<open>What starts the tables: the migrations leave them empty, and the projects' own
  tables are the other components'.\<close>

definition no_deployments :: "db \<Rightarrow> bool" where
  "no_deployments d = (t_deployments d = [] \<and> t_deployment_jobs d = [] \<and>
     t_deployment_events d = [] \<and> t_artifacts d = [])"

definition dep_reachable :: "db \<Rightarrow> bool" where
  "dep_reachable d = (\<exists>d0. no_deployments d0 \<and> dep_step\<^sup>*\<^sup>* d0 d)"

section \<open>What a step changes\<close>

text \<open>Every transaction does one of these; the proofs about all steps go through this
  classification.\<close>

definition moves :: "uuid \<Rightarrow> (deployment \<Rightarrow> deployment) \<Rightarrow> db \<Rightarrow> bool" where
  "moves i f d = ((\<forall>x. dep_id (f x) = dep_id x) \<and>
     (\<exists>x. deployment_of d i = Some x \<and>
        (status_of (f x) = status_of x \<or> status_next (status_of x) (status_of (f x)))))"

inductive dep_change :: "db \<Rightarrow> db \<Rightarrow> bool" where
  none: "dep_change d d"
| created: "deployment_of d (dep_id x) = None \<Longrightarrow> status_of x = (QUEUED, False) \<Longrightarrow>
    dep_change d (d\<lparr>t_deployments := t_deployments d @ [x],
                    t_deployment_jobs := t_deployment_jobs d @ [j]\<rparr>)"
| touched: "moves i f d \<Longrightarrow> dep_change d (dep_move i f g d)"
| moved: "moves i f d \<Longrightarrow> dep_change d (log_event i st c m n (dep_move i f g d))"
| logged: "dep_change d ((log_event i st c m n d)\<lparr>t_artifacts := as\<rparr>)"
| purged: "dep_change d (d\<lparr>t_artifacts := as\<rparr>)"

lemma live_claim_status:
  assumes "deployments_ok d" "dep_claim_live c now d"
  obtains x where "deployment_of d (dep_id (dc_deployment c)) = Some x"
    "dep_status x \<notin> set [QUEUED, SUCCEEDED, FAILED]"
proof -
  obtain j x where "open_deployment c x" "dep_status x \<noteq> QUEUED"
    "deployment_of d (dep_id (dc_deployment c)) = Some x"
    by (rule live_claim_rows [OF assms]) (rule that, assumption+)
  then show ?thesis using that by (auto simp: open_deployment_def terminal_status_def)
qed

lemma processing_next: "dep_status x \<notin> set [QUEUED, SUCCEEDED, FAILED] \<Longrightarrow> status_next (status_of x) s"
  by (cases s; cases "dep_status x") (simp_all add: status_of_def)

lemma finish_shape_change:
  assumes ok: "deployments_ok d" and run: "finish_shape c now f g st code m d = Inr (r, d')"
    and f: "\<And>x. dep_id (f x) = dep_id x"
  shows "dep_change d d'"
proof -
  have live: "dep_claim_live c now d" using run finish_shape_lost [of c now d] by fastforce
  obtain x where x: "deployment_of d (dep_id (dc_deployment c)) = Some x"
    "dep_status x \<notin> set [QUEUED, SUCCEEDED, FAILED]" by (rule live_claim_status [OF ok live])
  have "moves (dep_id (dc_deployment c)) f d"
    using x processing_next f by (simp add: moves_def)
  then show ?thesis
    using run by (auto simp: finish_shape_live [OF ok live x(1)] intro: dep_change.moved)
qed

lemma advance_change:
  assumes ok: "deployments_ok d" and run: "advance_deployment c st code m now d = Inr (r, d')"
  shows "dep_change d d'"
proof -
  have st: "st \<notin> set [QUEUED, SUCCEEDED, FAILED]"
    using run by (simp only: advance_deployment_def tx_seq_Inr tx_raise_if_Inr) blast
  have live: "dep_claim_live c now d"
    using run advance_deployment_lost [OF _ st, of c now d code m] by fastforce
  obtain x where x: "deployment_of d (dep_id (dc_deployment c)) = Some x"
    "dep_status x \<notin> set [QUEUED, SUCCEEDED, FAILED]" by (rule live_claim_status [OF ok live])
  have "moves (dep_id (dc_deployment c)) (\<lambda>x. x\<lparr>dep_status := st, dep_updated_at := now\<rparr>) d"
    using x processing_next by (simp add: moves_def)
  then show ?thesis
    using run by (auto simp: advance_deployment_live [OF ok live st x(1)] intro: dep_change.moved)
qed

lemma renew_change:
  assumes ok: "deployments_ok d" and run: "renew_deployment c l now d = Inr (r, d')"
  shows "dep_change d d'"
proof -
  have live: "dep_claim_live c now d" using run renew_deployment_lost [of c now d l] by fastforce
  obtain x where "deployment_of d (dep_id (dc_deployment c)) = Some x"
    by (rule live_claim_status [OF ok live])
  then have "moves (dep_id (dc_deployment c)) (\<lambda>x. x) d" by (simp add: moves_def)
  then show ?thesis
    using run by (auto simp: renew_deployment_live [OF ok live] intro: dep_change.touched)
qed

lemma claim_change:
  assumes ok: "deployments_ok d" and run: "claim_next_deployment w l locked t now d = Inr (r, d')"
  shows "dep_change d d'"
proof (cases "claim_row (dj_candidate now locked d) dj_order dj_deployment_id
      (dj_take w t (now + l) now) (t_deployment_jobs d)")
  case None
  with run show ?thesis by (simp add: claim_next_deployment_def Let_def dep_change.none)
next
  case (Some jj)
  then obtain job jobs where "claim_row (dj_candidate now locked d) dj_order dj_deployment_id
      (dj_take w t (now + l) now) (t_deployment_jobs d) = Some (job, jobs)" by (cases jj) auto
  then obtain j x where "j \<in> set (t_deployment_jobs d)" "dj_candidate now locked d j"
    "\<forall>k\<in>set (t_deployment_jobs d). dj_candidate now locked d k \<longrightarrow> dj_order j \<le> dj_order k"
    and x: "x \<in> set (t_deployments d)" "dep_id x = dj_deployment_id j"
      "\<not> terminal_status (dep_status x)"
    and eq: "claim_next_deployment w l locked t now d =
       Inr (Some \<lparr>dc_deployment = dep_preparing now x, dc_token = t, dc_worker_id = w,
                 dc_attempts = dj_attempts j + 1, dc_lease_expires_at = now + l\<rparr>,
            log_event (dj_deployment_id j) (deployment_status_value PREPARING) ''JOB_CLAIMED''
              ''Worker claimed the deployment job'' now
              (dep_move (dj_deployment_id j) (dep_preparing now) (dj_take w t (now + l) now) d))"
    by (rule claim_next_deployment_Some [OF ok])
  have "deployment_of d (dj_deployment_id j) = Some x"
    using fetch_key [OF deployments_okD(1) [OF ok] x(1)] x(2) by simp
  moreover have "status_next (status_of x) (status_of (dep_preparing now x))"
    using x(3) by (cases "dep_status x") (simp_all add: status_of_def dep_preparing_def terminal_status_def)
  ultimately have "moves (dj_deployment_id j) (dep_preparing now) d"
    by (simp add: moves_def dep_preparing_def)
  then show ?thesis using run eq by (auto intro: dep_change.moved)
qed

lemma create_change:
  assumes "create_deployment i now p src req res ver snap d = Inr (x, d')"
  shows "dep_change d d'"
proof -
  from assms [unfolded create_deployment_Inr] have
    x: "x = new_deployment i now p src req res ver snap"
      "\<forall>y\<in>set (t_deployments d). dep_id y \<noteq> i" and
    d': "d' = d\<lparr>t_deployments := t_deployments d @ [x],
      t_deployment_jobs := t_deployment_jobs d @ [new_deployment_job i now]\<rparr>" by blast+
  have "deployment_of d (dep_id x) = None" using x by (simp add: new_deployment_def fetch_None_iff)
  moreover have "status_of x = (QUEUED, False)"
    by (simp add: x(1) new_deployment_def status_of_def recovery_uncertain_def)
  ultimately show ?thesis unfolding d' by (rule dep_change.created)
qed

lemma reconcile_change:
  assumes "reconcile_succeeded i now d = Inr (r, d')"
  shows "dep_change d d'"
proof -
  let ?f = "\<lambda>x. x\<lparr>dep_status := SUCCEEDED, dep_failure_stage := None, dep_failure_code := None,
      dep_updated_at := now, dep_terminal_at := Some now\<rparr>"
  from assms obtain x where x: "deployment_of d i = Some x"
    and ready: "dep_status x = SUCCEEDED \<or> recovery_uncertain x"
    by (auto simp: reconcile_succeeded_def split: option.splits if_splits)
  have "moves i ?f d"
    using x ready by (auto simp: moves_def status_of_def recovery_uncertain_def)
  then show ?thesis
    using reconcile_succeeded_Inr [OF assms] by (metis dep_change.moved dep_change.none)
qed

lemma diagnose_change:
  "record_diagnostics c stg code as retention now d = Inr (ev, d') \<Longrightarrow> dep_change d d'"
  by (erule record_diagnostics_Inr) (simp add: dep_change.logged)

lemma diagnose_uncertain_change:
  assumes "record_reconciliation_diagnostics i stg code as retention now d = Inr (ev, d')"
  shows "dep_change d d'"
proof -
  let ?s = "diagnostic_event_summary (map snd as)"
  let ?d = "log_event i stg (fst ?s) (snd ?s) now d"
  from assms have run:
    "insert_diagnostic_artifacts i (t_event_seq d + 1) stg code retention as ?d = Inr ((), d')"
    by (auto simp: record_reconciliation_diagnostics_def case_prod_beta)
  from insert_diagnostic_artifacts_frame [OF run] obtain rows
    where "d' = ?d\<lparr>t_artifacts := t_artifacts ?d @ rows\<rparr>" by blast
  then show ?thesis by (simp only: dep_change.logged)
qed

lemma purge_change:
  "purge_expired_diagnostics lim now locked d = Inr (n, d') \<Longrightarrow> dep_change d d'"
  by (auto simp: purge_expired_diagnostics_def Let_def split: if_splits intro: dep_change.purged)

lemma finish_changes:
  assumes "deployments_ok d"
  shows "succeed_deployment c now d = Inr (r, d') \<Longrightarrow> dep_change d d'"
    "fail_deployment c stg code now d = Inr (r, d') \<Longrightarrow> dep_change d d'"
    "retry_deployment c at stg code now d = Inr (r, d') \<Longrightarrow> dep_change d d'"
  unfolding finish_shapes by (erule finish_shape_change [OF assms]; simp)+

lemma dep_step_change: "dep_step d d' \<Longrightarrow> deployments_ok d \<Longrightarrow> dep_change d d'"
  by (induction rule: dep_step.induct)
    (blast intro: create_change claim_change renew_change advance_change reconcile_change
      diagnose_change diagnose_uncertain_change purge_change finish_changes)+

section \<open>The invariant along the steps\<close>

lemma change_keeps_artifacts:
  "dep_change d d' \<Longrightarrow> t_artifacts d' = t_artifacts d \<Longrightarrow> artifacts_ok d \<Longrightarrow> artifacts_ok d'"
  by (erule artifacts_ok_frame, assumption) (auto elim!: dep_change.cases)

lemma dep_step_ok:
  assumes "dep_step d d'" and ok: "deployments_ok d" "artifacts_ok d"
  shows "deployments_ok d' \<and> artifacts_ok d'"
proof -
  have tables: "deployment_tables_ok ((), d)" using ok by (simp add: deployment_tables_ok_def)
  note T = deployment_tables_txs [OF tables, unfolded deployment_tables_ok_def, simplified]
  from assms(1) show ?thesis
  proof cases
    case (create i now p src req res ver snap x)
    have "artifacts_ok d'"
      by (rule artifacts_ok_frame [OF ok(2)]) (use create in \<open>auto simp: create_deployment_Inr\<close>)
    with create_deployment_ok [OF ok(1) create] show ?thesis ..
  next
    case (reconcile i now x)
    have "artifacts_ok d'" using reconcile_succeeded_Inr [OF reconcile] ok(2) by auto
    with reconcile_succeeded_ok [OF ok(1) reconcile] show ?thesis ..
  next
    case diagnose_uncertain
    then show ?thesis by (rule record_reconciliation_diagnostics_ok [OF ok])
  qed (simp_all add: T)
qed

lemma no_deployments_ok: "no_deployments d \<Longrightarrow> deployments_ok d \<and> artifacts_ok d"
  by (simp add: no_deployments_def deployments_ok_def dep_keys_ok_def dep_pairs_ok_def
      one_active_deployment_def events_ok_def artifacts_ok_def)

lemma dep_steps_ok:
  "dep_step\<^sup>*\<^sup>* d d' \<Longrightarrow> deployments_ok d \<Longrightarrow> artifacts_ok d \<Longrightarrow> deployments_ok d' \<and> artifacts_ok d'"
  by (induction rule: rtranclp_induct) (simp, meson dep_step_ok)

lemma dep_reachable_step: "dep_reachable d \<Longrightarrow> dep_step d d' \<Longrightarrow> dep_reachable d'"
  unfolding dep_reachable_def by (meson rtranclp.rtrancl_into_rtrancl)

lemma dep_reachable_ok: "dep_reachable d \<Longrightarrow> deployments_ok d \<and> artifacts_ok d"
  unfolding dep_reachable_def using no_deployments_ok dep_steps_ok by blast

section \<open>The simulation\<close>

lemma view_move:
  assumes "moves i f d"
  shows "deployment_view (dep_move i f g d) =
    (deployment_view d)(i \<mapsto> status_of (f (the (deployment_of d i))))"
proof
  fix k
  from assms obtain x where f: "\<And>y. dep_id (f y) = dep_id y" and x: "deployment_of d i = Some x"
    by (auto simp: moves_def)
  have moved: "deployment_of (dep_move i f g d) k =
      map_option (\<lambda>y. if dep_id y = i then f y else y) (deployment_of d k)"
    by (simp add: fetch_upd_same f)
  show "deployment_view (dep_move i f g d) k =
    ((deployment_view d)(i \<mapsto> status_of (f (the (deployment_of d i))))) k"
  proof (cases "deployment_of d k")
    case None
    with x have "k \<noteq> i" by auto
    with None show ?thesis unfolding deployment_view_def moved by simp
  next
    case (Some y)
    then have "dep_id y = k" using fetch_SomeD [OF Some] by simp
    with Some x show ?thesis unfolding deployment_view_def moved by (cases "k = i") auto
  qed
qed

lemma view_log [simp]: "deployment_view (log_event i st c m n d) = deployment_view d"
  by (simp add: deployment_view_def fun_eq_iff)

lemma view_artifacts [simp]: "deployment_view (d\<lparr>t_artifacts := as\<rparr>) = deployment_view d"
  by (simp add: deployment_view_def fun_eq_iff)

lemma moves_view_step:
  assumes "moves i f d"
  shows "view_step (deployment_view d) (deployment_view (dep_move i f g d))"
proof -
  from assms obtain x where x: "deployment_of d i = Some x"
    "status_of (f x) = status_of x \<or> status_next (status_of x) (status_of (f x))"
    by (auto simp: moves_def)
  then have v: "deployment_view d i = Some (status_of x)" by (simp add: deployment_view_def)
  from x(2) show ?thesis
  proof
    assume "status_of (f x) = status_of x"
    with v x(1) show ?thesis
      by (simp add: view_move [OF assms] map_upd_triv view_step.stay)
  next
    assume "status_next (status_of x) (status_of (f x))"
    with v x(1) show ?thesis by (simp add: view_move [OF assms] view_step.move)
  qed
qed

lemma change_view_step: "dep_change d d' \<Longrightarrow> view_step (deployment_view d) (deployment_view d')"
proof (induction rule: dep_change.induct)
  case (created d x j)
  have "deployment_view (d\<lparr>t_deployments := t_deployments d @ [x],
      t_deployment_jobs := t_deployment_jobs d @ [j]\<rparr>) =
      (deployment_view d)(dep_id x \<mapsto> (QUEUED, False))"
    using created by (auto simp: deployment_view_def fun_eq_iff fetch_append split: option.splits)
  moreover have "deployment_view d (dep_id x) = None" using created by (simp add: deployment_view_def)
  ultimately show ?case by (simp only: view_step.create)
qed (simp_all add: view_step.stay moves_view_step)

lemma view_steps:
  "dep_step\<^sup>*\<^sup>* d d' \<Longrightarrow> deployments_ok d \<Longrightarrow> artifacts_ok d \<Longrightarrow>
   view_step\<^sup>*\<^sup>* (deployment_view d) (deployment_view d')"
proof (induction rule: rtranclp_induct)
  case (step y z)
  then have "view_step (deployment_view y) (deployment_view z)"
    using dep_steps_ok dep_step_change change_view_step by blast
  with step show ?case by (meson rtranclp.rtrancl_into_rtrancl)
qed simp

lemma view_finished:
  assumes "view_step\<^sup>*\<^sup>* v v'" "v i = Some s" "\<And>s'. \<not> status_next s s'"
  shows "v' i = Some s"
  using assms by (induction rule: rtranclp_induct) (auto elim!: view_step.cases)

lemma change_log: "dep_change d d' \<Longrightarrow> \<exists>es. t_deployment_events d' = t_deployment_events d @ es"
  by (auto elim!: dep_change.cases)

lemma step_logs:
  "dep_step\<^sup>*\<^sup>* d d' \<Longrightarrow> deployments_ok d \<Longrightarrow> artifacts_ok d \<Longrightarrow>
   \<exists>es. t_deployment_events d' = t_deployment_events d @ es"
proof (induction rule: rtranclp_induct)
  case (step y z)
  then have "\<exists>es. t_deployment_events z = t_deployment_events y @ es"
    using dep_steps_ok dep_step_change change_log by blast
  with step show ?case by auto
qed simp

section \<open>Claims\<close>

lemma claim_next_cases:
  assumes ok: "deployments_ok d"
    and run: "claim_next_deployment w l locked t now d = Inr (Some c, d')"
  obtains j x where "j \<in> set (t_deployment_jobs d)" "dj_candidate now locked d j"
    "\<forall>k\<in>set (t_deployment_jobs d). dj_candidate now locked d k \<longrightarrow> dj_order j \<le> dj_order k"
    "x \<in> set (t_deployments d)" "dep_id x = dj_deployment_id j" "\<not> terminal_status (dep_status x)"
    "c = \<lparr>dc_deployment = dep_preparing now x, dc_token = t, dc_worker_id = w,
         dc_attempts = dj_attempts j + 1, dc_lease_expires_at = now + l\<rparr>"
    "d' = log_event (dj_deployment_id j) (deployment_status_value PREPARING) ''JOB_CLAIMED''
            ''Worker claimed the deployment job'' now
            (dep_move (dj_deployment_id j) (dep_preparing now) (dj_take w t (now + l) now) d)"
proof (cases "claim_row (dj_candidate now locked d) dj_order dj_deployment_id
      (dj_take w t (now + l) now) (t_deployment_jobs d)")
  case None
  with run show ?thesis by (simp add: claim_next_deployment_def Let_def)
next
  case (Some jj)
  then obtain job jobs where "claim_row (dj_candidate now locked d) dj_order dj_deployment_id
      (dj_take w t (now + l) now) (t_deployment_jobs d) = Some (job, jobs)" by (cases jj) auto
  then obtain j x where j: "j \<in> set (t_deployment_jobs d)" "dj_candidate now locked d j"
    "\<forall>k\<in>set (t_deployment_jobs d). dj_candidate now locked d k \<longrightarrow> dj_order j \<le> dj_order k"
    and x: "x \<in> set (t_deployments d)" "dep_id x = dj_deployment_id j"
      "\<not> terminal_status (dep_status x)"
    and eq: "claim_next_deployment w l locked t now d =
       Inr (Some \<lparr>dc_deployment = dep_preparing now x, dc_token = t, dc_worker_id = w,
                 dc_attempts = dj_attempts j + 1, dc_lease_expires_at = now + l\<rparr>,
            log_event (dj_deployment_id j) (deployment_status_value PREPARING) ''JOB_CLAIMED''
              ''Worker claimed the deployment job'' now
              (dep_move (dj_deployment_id j) (dep_preparing now) (dj_take w t (now + l) now) d))"
    by (rule claim_next_deployment_Some [OF ok])
  show ?thesis
    by (rule that [OF j x]) (use run eq in auto)
qed

lemma claimed_rows:
  assumes "deployments_ok d" "j \<in> set (t_deployment_jobs d)"
  shows "set (t_deployment_jobs (log_event i st code m n (dep_move (dj_deployment_id j) f g d))) =
    {k \<in> set (t_deployment_jobs d). dj_deployment_id k \<noteq> dj_deployment_id j} \<union> {g j}"
  using set_upd_key [of dj_deployment_id, OF deployments_okD(2) [OF assms(1)] assms(2) refl] by simp

lemma lost_operations:
  assumes "\<not> dep_claim_live c now d"
  shows "renew_deployment c l now d = Inl DeploymentClaimLostError"
    "st \<notin> {QUEUED, SUCCEEDED, FAILED} \<Longrightarrow>
       advance_deployment c st code msg now d = Inl DeploymentClaimLostError"
    "succeed_deployment c now d = Inl DeploymentClaimLostError"
    "fail_deployment c stg code now d = Inl DeploymentClaimLostError"
    "retry_deployment c at stg code now d = Inl DeploymentClaimLostError"
    "0 < retention \<Longrightarrow>
       record_diagnostics c stg code as retention now d = Inl DeploymentClaimLostError"
  using renew_deployment_lost [OF assms] finish_shape_lost [OF assms]
    record_diagnostics_lost [OF assms] advance_deployment_lost [OF assms]
  by (simp_all add: finish_shapes)

lemma one_deployment_facts:
  assumes ok: "deployments_ok d" and "x \<in> set (t_deployments d)"
  shows "active_status (dep_status x) \<Longrightarrow> y \<in> set (t_deployments d) \<Longrightarrow>
      dep_project_id y = dep_project_id x \<Longrightarrow> active_status (dep_status y) \<Longrightarrow> y = x"
    and "\<exists>j\<in>set (t_deployment_jobs d). dj_deployment_id j = dep_id x \<and>
      (dj_state j = J_PENDING \<longleftrightarrow> dep_status x = QUEUED) \<and>
      (dj_state j = J_DONE \<longleftrightarrow> terminal_status (dep_status x))"
proof -
  show "active_status (dep_status x) \<Longrightarrow> y \<in> set (t_deployments d) \<Longrightarrow>
      dep_project_id y = dep_project_id x \<Longrightarrow> active_status (dep_status y) \<Longrightarrow> y = x"
    using deployments_okD(7) [OF ok] assms(2) unfolding one_active_deployment_def by metis
  obtain j where j: "j \<in> set (t_deployment_jobs d)" "dj_deployment_id j = dep_id x"
    by (rule deployment_has_job [OF ok assms(2)])
  have "job_agrees (dj_state j) (dep_status x)" by (rule deployments_okD(5) [OF ok j(1) assms(2) j(2)])
  then show "\<exists>j\<in>set (t_deployment_jobs d). dj_deployment_id j = dep_id x \<and>
      (dj_state j = J_PENDING \<longleftrightarrow> dep_status x = QUEUED) \<and>
      (dj_state j = J_DONE \<longleftrightarrow> terminal_status (dep_status x))"
    using j by (intro bexI [of _ j]) (cases "dj_state j"; auto simp: terminal_status_def)+
qed

lemma claim_next_facts:
  assumes "deployments_ok d" "claim_next_deployment w l locked t now d = Inr (Some c, d')"
  shows "\<exists>j\<in>set (t_deployment_jobs d). dj_candidate now locked d j \<and>
      dep_id (dc_deployment c) = dj_deployment_id j \<and> dc_attempts c = dj_attempts j + 1 \<and>
      (\<forall>k\<in>set (t_deployment_jobs d). dj_candidate now locked d k \<longrightarrow>
         (dj_order j :: time \<times> time \<times> uuid) \<le> dj_order k)"
    and "dep_status (dc_deployment c) = PREPARING" and "dc_token c = t"
    and "\<And>m. m < now + l \<Longrightarrow> dep_claim_live c m d'"
    and "\<And>other. dep_claim_live other now d \<Longrightarrow>
      dep_id (dc_deployment other) \<noteq> dep_id (dc_deployment c) \<and> dep_claim_live other now d'"
proof -
  obtain j x where j: "j \<in> set (t_deployment_jobs d)" "dj_candidate now locked d j"
    "\<forall>k\<in>set (t_deployment_jobs d). dj_candidate now locked d k \<longrightarrow> dj_order j \<le> dj_order k"
    and x: "x \<in> set (t_deployments d)" "dep_id x = dj_deployment_id j"
      "\<not> terminal_status (dep_status x)"
    and c: "c = \<lparr>dc_deployment = dep_preparing now x, dc_token = t, dc_worker_id = w,
         dc_attempts = dj_attempts j + 1, dc_lease_expires_at = now + l\<rparr>"
    and d': "d' = log_event (dj_deployment_id j) (deployment_status_value PREPARING) ''JOB_CLAIMED''
            ''Worker claimed the deployment job'' now
            (dep_move (dj_deployment_id j) (dep_preparing now) (dj_take w t (now + l) now) d)"
    by (rule claim_next_cases [OF assms])
  have rows: "set (t_deployment_jobs d') = {k \<in> set (t_deployment_jobs d).
      dj_deployment_id k \<noteq> dj_deployment_id j} \<union> {dj_take w t (now + l) now j}"
    unfolding d' by (rule claimed_rows [OF assms(1) j(1)])
  have id: "dep_id (dc_deployment c) = dj_deployment_id j" by (simp add: c dep_preparing_def x(2))
  show "\<exists>j\<in>set (t_deployment_jobs d). dj_candidate now locked d j \<and>
      dep_id (dc_deployment c) = dj_deployment_id j \<and> dc_attempts c = dj_attempts j + 1 \<and>
      (\<forall>k\<in>set (t_deployment_jobs d). dj_candidate now locked d k \<longrightarrow>
         (dj_order j :: time \<times> time \<times> uuid) \<le> dj_order k)"
    by (rule bexI [OF _ j(1)]) (use j id in \<open>simp add: c\<close>)
  show "dep_status (dc_deployment c) = PREPARING" "dc_token c = t" by (simp_all add: c dep_preparing_def)
  show "\<And>m. m < now + l \<Longrightarrow> dep_claim_live c m d'"
    using dj.held_take [of _ "now + l" w t now j] x(2)
    by (auto simp: dep_claim_live_def rows c dep_preparing_def dj_held_def dj_take_def)
  fix other assume live: "dep_claim_live other now d"
  then obtain k where k: "k \<in> set (t_deployment_jobs d)"
    "dj_deployment_id k = dep_id (dc_deployment other)"
    "dj_held (dc_worker_id other) (dc_token other) now k" by (auto simp: dep_claim_live_def)
  have "dj_deployment_id k \<noteq> dj_deployment_id j"
  proof
    assume "dj_deployment_id k = dj_deployment_id j"
    then have "k = j" by (rule same_key_same_row [OF deployments_okD(2) [OF assms(1)] k(1) j(1)])
    with k(3) j(2) dj.held_not_claimable show False by (auto simp: dj_candidate_def)
  qed
  with k show "dep_id (dc_deployment other) \<noteq> dep_id (dc_deployment c) \<and> dep_claim_live other now d'"
    unfolding dep_claim_live_def id rows by auto
qed

text \<open>A claim whose token is not the one just stored is not live.\<close>

lemma superseded_not_live:
  assumes "deployments_ok d" "claim_next_deployment w l locked t now d = Inr (Some c, d')"
    and "dep_id (dc_deployment old) = dep_id (dc_deployment c)" "dc_token old \<noteq> t"
  shows "\<not> dep_claim_live old m d'"
proof -
  obtain j x where j: "j \<in> set (t_deployment_jobs d)" "dj_candidate now locked d j"
    "\<forall>k\<in>set (t_deployment_jobs d). dj_candidate now locked d k \<longrightarrow> dj_order j \<le> dj_order k"
    and x: "x \<in> set (t_deployments d)" "dep_id x = dj_deployment_id j"
      "\<not> terminal_status (dep_status x)"
    and c: "c = \<lparr>dc_deployment = dep_preparing now x, dc_token = t, dc_worker_id = w,
         dc_attempts = dj_attempts j + 1, dc_lease_expires_at = now + l\<rparr>"
    and d': "d' = log_event (dj_deployment_id j) (deployment_status_value PREPARING) ''JOB_CLAIMED''
            ''Worker claimed the deployment job'' now
            (dep_move (dj_deployment_id j) (dep_preparing now) (dj_take w t (now + l) now) d)"
    by (rule claim_next_cases [OF assms(1,2)])
  have rows: "set (t_deployment_jobs d') = {k \<in> set (t_deployment_jobs d).
      dj_deployment_id k \<noteq> dj_deployment_id j} \<union> {dj_take w t (now + l) now j}"
    unfolding d' by (rule claimed_rows [OF assms(1) j(1)])
  have "dep_id (dc_deployment old) = dj_deployment_id j"
    using assms(3) x(2) by (simp add: c dep_preparing_def)
  then show ?thesis
    using assms(4) by (auto simp: dep_claim_live_def rows dj_held_def dj_take_def)
qed

end
