(* ===== verification/Deployment_Properties.thy ===== *)
theory Deployment_Properties
  imports Deployment_Lifecycle
begin

text \<open>
  What the deployment tables promise to the rest of the program, for every state the
  repository's transactions reach, and a small database on which each promise is
  exercised.
\<close>

section \<open>A database with one project and one deployment\<close>

definition example_config :: json where
  "example_config = JObj [(''services'', JList []), (''routes'', JList [])]"

definition example_project :: project_row where
  "example_project = \<lparr>prj_id = 1, prj_name = ''demo'', prj_repository_url = ''https://git/demo'',
     prj_branch = ''main'', prj_status = P_READY, prj_config_version = 1,
     prj_deployment_config = Some example_config, prj_created_at = 0, prj_updated_at = 0\<rparr>"

definition example_sha :: string where
  "example_sha = replicate 40 CHR ''a''"

definition example_db :: db where
  "example_db = empty_db\<lparr>t_projects := [example_project]\<rparr>"

definition example_deployment :: deployment where
  "example_deployment = new_deployment 7 100 1 MAIN_HEAD None example_sha 1 JNull"

definition queued_db :: db where
  "queued_db = example_db\<lparr>t_deployments := [example_deployment],
     t_deployment_jobs := [new_deployment_job 7 100]\<rparr>"

lemma example_create:
  "create_deployment 7 100 1 MAIN_HEAD None example_sha 1 JNull example_db =
     Inr (example_deployment, queued_db)"
  by (simp add: create_deployment_Inr example_db_def empty_db_def example_project_def
      example_deployment_def queued_db_def sha_ok_def example_sha_def list_all_iff)

lemma queued_reachable: "dep_reachable queued_db"
proof -
  have "no_deployments example_db" by (simp add: no_deployments_def example_db_def empty_db_def)
  moreover have "dep_step example_db queued_db" by (rule dep_step.create [OF example_create])
  ultimately show ?thesis unfolding dep_reachable_def by blast
qed

lemma queued_rows [simp]:
  "t_deployments queued_db = [example_deployment]"
  "t_deployment_jobs queued_db = [new_deployment_job 7 100]"
  "t_deployment_events queued_db = []" "t_event_seq queued_db = 0" "t_artifacts queued_db = []"
  "t_projects queued_db = [example_project]"
  by (simp_all add: queued_db_def example_db_def empty_db_def)

lemma example_deployment_simps [simp]:
  "dep_id example_deployment = 7" "dep_project_id example_deployment = 1"
  "dep_status example_deployment = QUEUED"
  by (simp_all add: example_deployment_def new_deployment_def)

text \<open>Worker \<open>a\<close> claims it at 100 for 60, and worker \<open>b\<close> after the lease
  has run out.\<close>

definition preparing_db :: "string \<Rightarrow> uuid \<Rightarrow> time \<Rightarrow> db \<Rightarrow> db" where
  "preparing_db w t now d =
     log_event 7 ''PREPARING'' ''JOB_CLAIMED'' ''Worker claimed the deployment job'' now
       (dep_move 7 (dep_preparing now) (dj_take w t (now + 60) now) d)"

definition example_claim :: "string \<Rightarrow> uuid \<Rightarrow> time \<Rightarrow> int \<Rightarrow> deployment_claim" where
  "example_claim w t now n = \<lparr>dc_deployment = dep_preparing now example_deployment, dc_token = t,
     dc_worker_id = w, dc_attempts = n, dc_lease_expires_at = now + 60\<rparr>"

lemma example_first_claim:
  "claim_next_deployment ''a'' 60 [] 11 100 queued_db =
     Inr (Some (example_claim ''a'' 11 100 1), preparing_db ''a'' 11 100 queued_db)"
  by (simp add: claim_next_deployment_def claim_row_def first_by_def order_by_def dj_candidate_def
      dj_claimable_def new_deployment_job_def dj_take_def update_deployments_def returning_def
      example_claim_def preparing_db_def dep_move_def tx_seq_def tx_bind_def tx_require_def
      tx_ret_def upd_def log_event_def dep_insert_event_def)

lemma example_claim_live: "dep_claim_live (example_claim ''a'' 11 100 1) 120 (preparing_db ''a'' 11 100 queued_db)"
  by (simp add: dep_claim_live_def example_claim_def preparing_db_def dep_preparing_def dj_held_def
      dj_take_def upd_def new_deployment_job_def)

text \<open>Worker \<open>a\<close> fails it at 130, and the project is deployed again.\<close>

definition failed_deployment :: deployment where
  "failed_deployment = (dep_preparing 100 example_deployment)\<lparr>dep_status := FAILED,
     dep_failure_stage := Some ''BUILD'', dep_failure_code := Some ''IMAGE_BUILD_FAILED'',
     dep_updated_at := 130, dep_terminal_at := Some 130\<rparr>"

definition failed_db :: db where
  "failed_db = log_event 7 ''FAILED'' ''IMAGE_BUILD_FAILED''
     ''The deployment failed during runtime processing'' 130
     (dep_move 7 (\<lambda>x. x\<lparr>dep_status := FAILED, dep_failure_stage := Some ''BUILD'',
          dep_failure_code := Some ''IMAGE_BUILD_FAILED'', dep_updated_at := 130,
          dep_terminal_at := Some 130\<rparr>) (dj_done 130) (preparing_db ''a'' 11 100 queued_db))"

definition redeployed_db :: db where
  "redeployed_db = failed_db\<lparr>
     t_deployments := t_deployments failed_db @ [new_deployment 8 140 1 MAIN_HEAD None example_sha 1 JNull],
     t_deployment_jobs := t_deployment_jobs failed_db @ [new_deployment_job 8 140]\<rparr>"

lemma preparing_reachable: "dep_reachable (preparing_db ''a'' 11 100 queued_db)"
  using dep_reachable_step [OF queued_reachable dep_step.claim [OF example_first_claim]] .

lemma preparing_deployment:
  "deployment_of (preparing_db ''a'' 11 100 queued_db) 7 = Some (dep_preparing 100 example_deployment)"
  by (simp add: preparing_db_def upd_def dep_preparing_def)

lemma example_failure:
  "fail_deployment (example_claim ''a'' 11 100 1) ''BUILD'' ''IMAGE_BUILD_FAILED'' 130
     (preparing_db ''a'' 11 100 queued_db) = Inr (failed_deployment, failed_db)"
proof -
  have id: "dep_id (dc_deployment (example_claim ''a'' 11 100 1)) = 7"
    by (simp add: example_claim_def dep_preparing_def)
  have live: "dep_claim_live (example_claim ''a'' 11 100 1) 130 (preparing_db ''a'' 11 100 queued_db)"
    by (simp add: dep_claim_live_def example_claim_def preparing_db_def dep_preparing_def dj_held_def
        dj_take_def upd_def new_deployment_job_def)
  have ok: "deployments_ok (preparing_db ''a'' 11 100 queued_db)"
    using dep_reachable_ok [OF preparing_reachable] by blast
  show ?thesis
    unfolding finish_shapes
    by (simp add: finish_shape_live [OF ok live preparing_deployment [folded id]] id
        failed_deployment_def failed_db_def)
qed

lemma failed_reachable: "dep_reachable failed_db"
  using dep_reachable_step [OF preparing_reachable dep_step.fail [OF example_failure]] .

lemma failed_rows [simp]:
  "t_deployments failed_db = [failed_deployment]"
  "t_deployment_jobs failed_db = [dj_done 130 (dj_take ''a'' 11 160 100 (new_deployment_job 7 100))]"
  "t_projects failed_db = [example_project]"
  by (simp_all add: failed_db_def preparing_db_def upd_def dep_preparing_def new_deployment_job_def
      dj_take_def dj_done_def failed_deployment_def)

lemma failed_deployment_simps [simp]:
  "dep_id failed_deployment = 7" "dep_project_id failed_deployment = 1"
  "dep_status failed_deployment = FAILED" "\<not> recovery_uncertain failed_deployment"
  by (simp_all add: failed_deployment_def dep_preparing_def recovery_uncertain_def)

lemma example_redeploy: "dep_step failed_db redeployed_db"
  by (rule dep_step.create [where i = 8 and now = 140 and p = 1 and src = MAIN_HEAD and req = None
        and res = example_sha and ver = 1 and snap = JNull])
    (simp add: create_deployment_Inr redeployed_db_def sha_ok_def example_sha_def list_all_iff
      active_iff_not_terminal dj_done_def dj_take_def new_deployment_job_def example_project_def)

section \<open>Properties\<close>

text \<open>C1. In every state the deployment transactions reach, a project has at most one
  deployment that is still in progress, and the job of a deployment is pending exactly while
  the deployment is queued, claimed while it is being processed and done once it has
  finished.\<close>

theorem one_deployment_in_progress:
  assumes "dep_reachable d" and "x \<in> set (t_deployments d)"
  shows "(active_status (dep_status x) \<longrightarrow>
      (\<forall>y\<in>set (t_deployments d). dep_project_id y = dep_project_id x \<and>
         active_status (dep_status y) \<longrightarrow> y = x)) \<and>
    (\<exists>j\<in>set (t_deployment_jobs d). dj_deployment_id j = dep_id x \<and>
      (dj_state j = J_PENDING \<longleftrightarrow> dep_status x = QUEUED) \<and>
      (dj_state j = J_DONE \<longleftrightarrow> terminal_status (dep_status x)))"
proof -
  have ok: "deployments_ok d" using dep_reachable_ok [OF assms(1)] by blast
  show ?thesis using one_deployment_facts [OF ok assms(2)] by blast
qed

theorem one_deployment_in_progress_witness:
  "\<exists>j\<in>set (t_deployment_jobs queued_db). dj_deployment_id j = 7 \<and>
     (dj_state j = J_PENDING \<longleftrightarrow> dep_status example_deployment = QUEUED) \<and>
     (dj_state j = J_DONE \<longleftrightarrow> terminal_status (dep_status example_deployment))"
  using one_deployment_in_progress [OF queued_reachable, of example_deployment] by simp

text \<open>C2. The transactions refine the status machine: whatever transaction runs, either no
  deployment's status changes, or a new deployment appears as queued, or one deployment
  takes a transition that \<open>status_next\<close> allows and all others keep theirs.\<close>

theorem transactions_refine_status_machine:
  assumes "dep_reachable d" and "dep_step d d'"
  shows "view_step (deployment_view d) (deployment_view d')"
  using dep_step_change [OF assms(2)] dep_reachable_ok [OF assms(1)] change_view_step by blast

theorem transactions_refine_status_machine_witness:
  "view_step (deployment_view queued_db) (deployment_view (preparing_db ''a'' 11 100 queued_db))"
  by (rule transactions_refine_status_machine [OF queued_reachable])
    (rule dep_step.claim [OF example_first_claim])



text \<open>C4. A claim takes the job that is first by availability, creation time and identifier
  among the claimable ones, counts the attempt, moves the deployment to \<open>PREPARING\<close>
  and gives the worker a lease under the token it brought; while another worker's lease is
  live its job is not taken and stays held.\<close>

theorem claim_takes_first_and_spares_held:
  assumes "dep_reachable d" "claim_next_deployment w l locked t now d = Inr (Some c, d')"
  shows "(\<exists>j\<in>set (t_deployment_jobs d). dj_candidate now locked d j \<and>
      dep_id (dc_deployment c) = dj_deployment_id j \<and> dc_attempts c = dj_attempts j + 1 \<and>
      (\<forall>k\<in>set (t_deployment_jobs d). dj_candidate now locked d k \<longrightarrow>
         (dj_available_at j, dj_created_at j, dj_deployment_id j) \<le>
         (dj_available_at k, dj_created_at k, dj_deployment_id k))) \<and>
    dep_status (dc_deployment c) = PREPARING \<and> dc_token c = t \<and>
    (\<forall>m < now + l. dep_claim_live c m d') \<and>
    (\<forall>other. dep_claim_live other now d \<longrightarrow>
      dep_id (dc_deployment other) \<noteq> dep_id (dc_deployment c) \<and> dep_claim_live other now d')"
proof -
  have ok: "deployments_ok d" using dep_reachable_ok [OF assms(1)] by blast
  show ?thesis using claim_next_facts [OF ok assms(2)] by blast
qed

theorem claim_takes_first_and_spares_held_witness:
  "dep_claim_live (example_claim ''a'' 11 100 1) 159 (preparing_db ''a'' 11 100 queued_db)"
  using claim_takes_first_and_spares_held [OF queued_reachable example_first_claim] by simp

text \<open>C5. Once a worker has claimed a deployment, whatever another claim on the same
  deployment under an older token tries on the database it left behind (renewing the
  lease, reporting progress, succeeding, failing, retrying, storing diagnostics) raises
  \<open>DeploymentClaimLostError\<close>, at any time, and changes nothing.\<close>

theorem superseded_claim_is_refused:
  assumes "dep_reachable d" "claim_next_deployment w l locked t now d = Inr (Some c, d')"
    and "dep_id (dc_deployment old) = dep_id (dc_deployment c)" "dc_token old \<noteq> t"
  shows "renew_deployment old l' m d' = Inl DeploymentClaimLostError \<and>
    (st \<notin> {QUEUED, SUCCEEDED, FAILED} \<longrightarrow>
      advance_deployment old st code msg m d' = Inl DeploymentClaimLostError) \<and>
    succeed_deployment old m d' = Inl DeploymentClaimLostError \<and>
    fail_deployment old stage code m d' = Inl DeploymentClaimLostError \<and>
    retry_deployment old at stage code m d' = Inl DeploymentClaimLostError \<and>
    (0 < retention \<longrightarrow>
      record_diagnostics old stage code as retention m d' = Inl DeploymentClaimLostError)"
proof -
  have ok: "deployments_ok d" using dep_reachable_ok [OF assms(1)] by blast
  have "\<not> dep_claim_live old m d'" by (rule superseded_not_live [OF ok assms(2-4)])
  note lost_operations [OF this]
  then show ?thesis by blast
qed

theorem superseded_claim_is_refused_witness:
  "succeed_deployment (example_claim ''b'' 5 40 1) 120 (preparing_db ''a'' 11 100 queued_db) =
     Inl DeploymentClaimLostError"
  using superseded_claim_is_refused [OF queued_reachable example_first_claim,
      of "example_claim ''b'' 5 40 1"]
  by (simp add: example_claim_def dep_preparing_def)



text \<open>C7. A reader that follows the log page by page, asking each time for what comes after
  the last entry it has, sees what one reader with the joined page size would see: no entry
  is skipped and none comes twice; a page that is not full was the end of the log.\<close>

theorem event_pages_continue:
  assumes "dep_reachable d" and "list_events_after i after_id n d = page @ [e]"
  shows "list_events_after i after_id n d @ list_events_after i (ev_id e) m d =
      list_events_after i after_id (n + m) d \<and>
    (length (list_events_after i after_id n d) < n \<longrightarrow>
      set (list_events_after i after_id n d) =
        {x \<in> set (t_deployment_events d). ev_deployment_id x = i \<and> after_id < ev_id x})"
proof -
  have ok: "events_ok d" using dep_reachable_ok [OF assms(1)] deployments_okD(8) by blast
  show ?thesis
    using list_events_after_continues [OF ok assms(2)] list_events_after_exhausted [OF ok]
    by (auto simp: events_of_def)
qed

theorem event_pages_continue_witness:
  "set (list_events_after 7 0 5 failed_db) =
    {x \<in> set (t_deployment_events failed_db). ev_deployment_id x = 7 \<and> 0 < ev_id x}"
proof -
  obtain e1 e2 where page: "list_events_after 7 0 5 failed_db = [e1] @ [e2]"
    by (simp add: list_events_after_def events_of_def failed_db_def preparing_db_def order_by_def)
  show ?thesis using event_pages_continue [OF failed_reachable page, of 0] page by simp
qed

end
