(* ===== verification/Reconciliation_Repository.thy ===== *)
theory Reconciliation_Repository
  imports Deployment_Worker
begin

text \<open>
  \<open>runtime/reconciliation_repository.py\<close> and \<open>runtime/repository.py\<close>: the requests to
  reconcile a deployment whose recovery is uncertain, under the same lease protocol, and
  the record of what runs for each project.
\<close>

section \<open>Rows under a lease\<close>

definition rc_held :: "string \<Rightarrow> uuid \<Rightarrow> time \<Rightarrow> reconciliation_row \<Rightarrow> bool" where
  "rc_held w t now r =
     (rc_state r = RC_CLAIMED \<and> rc_lease_owner r = Some w \<and> rc_claim_token r = Some t \<and>
      null_gt (rc_lease_expires_at r) now)"

definition rc_claimable :: "time \<Rightarrow> reconciliation_row \<Rightarrow> bool" where
  "rc_claimable now r =
     ((rc_state r = RC_PENDING \<and> rc_available_at r \<le> now) \<or>
      (rc_state r = RC_CLAIMED \<and> null_le (rc_lease_expires_at r) now))"

definition rc_take ::
    "string \<Rightarrow> uuid \<Rightarrow> time \<Rightarrow> time \<Rightarrow> reconciliation_row \<Rightarrow> reconciliation_row" where
  "rc_take w t e now r =
     r\<lparr>rc_state := RC_CLAIMED, rc_attempts := rc_attempts r + 1, rc_lease_owner := Some w,
       rc_lease_expires_at := Some e, rc_claim_token := Some t, rc_updated_at := now,
       rc_completed_at := None\<rparr>"

definition rc_extend :: "time \<Rightarrow> time \<Rightarrow> reconciliation_row \<Rightarrow> reconciliation_row" where
  "rc_extend e now r = r\<lparr>rc_lease_expires_at := Some e, rc_updated_at := now\<rparr>"

interpretation rc: lease_table rc_deployment_id rc_held rc_claimable rc_lease_expires_at rc_take rc_extend
proof
  fix w t n r m
  assume "rc_held w t n r" "\<not> null_gt (rc_lease_expires_at r) m"
  then show "rc_claimable m r"
    by (cases "rc_lease_expires_at r") (auto simp: rc_held_def rc_claimable_def)
qed (auto simp: rc_held_def rc_claimable_def rc_take_def rc_extend_def null_gt_not_le)

section \<open>The methods\<close>

definition rc_get :: "uuid \<Rightarrow> db \<Rightarrow> reconciliation option" where
  "rc_get i d = map_option reconciliation.truncate
     (fetch (\<lambda>r. rc_deployment_id r = i) (t_reconciliations d))"

text \<open>\<open>SELECT project.status FROM projects JOIN deployments ON \<dots> WHERE deployment.id = \<dots>\<close>\<close>

definition project_of_deployment :: "uuid \<Rightarrow> db \<Rightarrow> project_row option" where
  "project_of_deployment i d =
     (case deployment_of d i of
        None \<Rightarrow> None
      | Some x \<Rightarrow> project_of d (dep_project_id x))"

definition new_reconciliation ::
    "uuid \<Rightarrow> reconciliation_action \<Rightarrow> reconciliation_requester \<Rightarrow> time \<Rightarrow> time \<Rightarrow> reconciliation_row"
  where
  "new_reconciliation i action requested_by available_at now =
     \<lparr>rc_deployment_id = i, rc_action = action, rc_requested_by = requested_by,
      rc_state = RC_PENDING, rc_result = None, rc_result_code = None, rc_attempts = 0,
      rc_available_at = available_at, rc_created_at = now, rc_updated_at = now,
      rc_completed_at = None, rc_lease_owner = None, rc_lease_expires_at = None,
      rc_claim_token = None\<rparr>"

definition rc_reset ::
    "reconciliation_action \<Rightarrow> reconciliation_requester \<Rightarrow> time \<Rightarrow> reconciliation_row \<Rightarrow>
     reconciliation_row" where
  "rc_reset action requested_by now r =
     r\<lparr>rc_action := action, rc_requested_by := requested_by, rc_state := RC_PENDING,
       rc_result := None, rc_result_code := None, rc_attempts := 0, rc_available_at := now,
       rc_lease_owner := None, rc_lease_expires_at := None, rc_claim_token := None,
       rc_updated_at := now, rc_completed_at := None\<rparr>"

definition insert_reconciliation :: "reconciliation_row \<Rightarrow> (db, reconciliation_row option) tx" where
  "insert_reconciliation r d =
     (if \<not> exists_row (\<lambda>x. dep_id x = rc_deployment_id r) (t_deployments d)
        then Inl ForeignKeyViolation
      else Inr (Some r, d\<lparr>t_reconciliations := t_reconciliations d @ [r]\<rparr>))"

definition rc_request ::
    "uuid \<Rightarrow> reconciliation_action \<Rightarrow> reconciliation_requester \<Rightarrow> time \<Rightarrow> (db, reconciliation) tx" where
  "rc_request i action requested_by now =
     tx_bind (tx_read (project_of_deployment i))
       (\<lambda>project. tx_seq
         (tx_raise_if (case project of None \<Rightarrow> False | Some p \<Rightarrow> prj_status p = P_DELETING)
            ReconciliationProjectDeletingError)
         (tx_bind
           (\<lambda>d. case fetch (\<lambda>r. rc_deployment_id r = i) (t_reconciliations d) of
                  None \<Rightarrow> insert_reconciliation (new_reconciliation i action requested_by now now) d
                | Some r \<Rightarrow>
                    (let P = (\<lambda>r. rc_deployment_id r = i \<and> rc_state r \<noteq> RC_CLAIMED) in
                     Inr (returning P (rc_reset action requested_by now) (t_reconciliations d),
                          d\<lparr>t_reconciliations :=
                              upd P (rc_reset action requested_by now) (t_reconciliations d)\<rparr>)))
           (\<lambda>row. tx_bind (tx_require ReconciliationInProgressError row)
             (\<lambda>r. tx_ret (reconciliation.truncate r)))))"

abbreviation rc_order :: "reconciliation_row \<Rightarrow> time \<times> time \<times> uuid" where
  "rc_order r \<equiv> (rc_available_at r, rc_created_at r, rc_deployment_id r)"

definition rc_claim_next ::
    "string \<Rightarrow> time \<Rightarrow> uuid list \<Rightarrow> uuid \<Rightarrow> time \<Rightarrow> (db, reconciliation_claim option) tx" where
  "rc_claim_next worker lease_duration locked token now d =
     (let lease_expires_at = now + lease_duration in
      case claim_row (\<lambda>r. rc_claimable now r \<and> rc_deployment_id r \<notin> set locked)
             (\<lambda>r. (rc_available_at r, rc_created_at r, rc_deployment_id r))
             rc_deployment_id (rc_take worker token lease_expires_at now) (t_reconciliations d) of
        None \<Rightarrow> Inr (None, d)
      | Some (row, rows) \<Rightarrow>
          Inr (Some \<lparr>rcc_reconciliation = reconciliation.truncate row, rcc_token = token,
                     rcc_worker_id = worker, rcc_lease_expires_at = lease_expires_at\<rparr>,
               d\<lparr>t_reconciliations := rows\<rparr>))"

definition rc_schedule_one :: "time \<Rightarrow> uuid \<times> time \<Rightarrow> (db, unit) tx" where
  "rc_schedule_one now = (\<lambda>(i, available_at) d.
     case project_of_deployment i d of
       None \<Rightarrow> Inr ((), d)
     | Some p \<Rightarrow>
         if prj_status p = P_DELETING then Inr ((), d)
         else if exists_row (\<lambda>r. rc_deployment_id r = i) (t_reconciliations d) then Inr ((), d)
         else tx_bind (insert_reconciliation (new_reconciliation i RECONCILE SYSTEM available_at now))
                (\<lambda>_. tx_ret ()) d)"

fun rc_schedule_all :: "time \<Rightarrow> (uuid \<times> time) list \<Rightarrow> (db, unit) tx" where
  "rc_schedule_all now [] = tx_ret ()"
| "rc_schedule_all now (c # cs) = tx_seq (rc_schedule_one now c) (rc_schedule_all now cs)"

definition rc_schedule_automatic :: "(uuid \<times> time) list \<Rightarrow> time \<Rightarrow> (db, unit) tx" where
  "rc_schedule_automatic candidates now =
     (if candidates = [] then tx_ret () else rc_schedule_all now candidates)"

definition rc_mine :: "reconciliation_claim \<Rightarrow> time \<Rightarrow> reconciliation_row \<Rightarrow> bool" where
  "rc_mine c now r =
     (rc_deployment_id r = rc_deployment_id (rcc_reconciliation c) \<and>
      rc_held (rcc_worker_id c) (rcc_token c) now r)"

definition rc_renew :: "reconciliation_claim \<Rightarrow> time \<Rightarrow> time \<Rightarrow> (db, time) tx" where
  "rc_renew c lease_duration now d =
     (let e = now + lease_duration in
      case returning (rc_mine c now) (rc_extend e now) (t_reconciliations d) of
        None \<Rightarrow> Inl ReconciliationClaimLostError
      | Some _ \<Rightarrow>
          Inr (e, d\<lparr>t_reconciliations := upd (rc_mine c now) (rc_extend e now) (t_reconciliations d)\<rparr>))"

definition rc_lock_claim :: "reconciliation_claim \<Rightarrow> time \<Rightarrow> (db, unit) tx" where
  "rc_lock_claim c now d =
     (case fetch (rc_mine c now) (t_reconciliations d) of
        None \<Rightarrow> Inl ReconciliationClaimLostError
      | Some _ \<Rightarrow> Inr ((), d))"

definition update_reconciliation ::
    "reconciliation_claim \<Rightarrow> (reconciliation_row \<Rightarrow> reconciliation_row) \<Rightarrow> (db, reconciliation) tx" where
  "update_reconciliation c f d =
     (let P = (\<lambda>r. rc_deployment_id r = rc_deployment_id (rcc_reconciliation c)) in
      tx_bind (tx_require (OtherError ''TypeError'') (returning P f (t_reconciliations d)))
        (\<lambda>r d. Inr (reconciliation.truncate r,
                    d\<lparr>t_reconciliations := upd P f (t_reconciliations d)\<rparr>)) d)"

definition rc_finished ::
    "reconciliation_state \<Rightarrow> reconciliation_result \<Rightarrow> string \<Rightarrow> time \<Rightarrow> reconciliation_row \<Rightarrow>
     reconciliation_row" where
  "rc_finished state result result_code now r =
     r\<lparr>rc_state := state, rc_result := Some result, rc_result_code := Some result_code,
       rc_lease_owner := None, rc_lease_expires_at := None, rc_claim_token := None,
       rc_updated_at := now, rc_completed_at := Some now\<rparr>"

definition rc_finish ::
    "reconciliation_claim \<Rightarrow> reconciliation_state \<Rightarrow> reconciliation_result \<Rightarrow> string \<Rightarrow> time \<Rightarrow>
     (db, reconciliation) tx" where
  "rc_finish c state result result_code now =
     tx_seq (rc_lock_claim c now)
       (update_reconciliation c (rc_finished state result result_code now))"

definition rc_resolve ::
    "reconciliation_claim \<Rightarrow> reconciliation_result \<Rightarrow> string \<Rightarrow> time \<Rightarrow> (db, reconciliation) tx" where
  "rc_resolve c result result_code now =
     tx_seq (tx_raise_if (result = RC_UNCERTAIN)
               (ValueError ''UNCERTAIN reconciliation must be blocked''))
       (rc_finish c RC_RESOLVED result result_code now)"

definition rc_block :: "reconciliation_claim \<Rightarrow> string \<Rightarrow> time \<Rightarrow> (db, reconciliation) tx" where
  "rc_block c result_code now = rc_finish c RC_BLOCKED RC_UNCERTAIN result_code now"

definition rc_pending_again :: "time \<Rightarrow> string \<Rightarrow> time \<Rightarrow> reconciliation_row \<Rightarrow> reconciliation_row" where
  "rc_pending_again available_at result_code now r =
     r\<lparr>rc_state := RC_PENDING, rc_result := None, rc_result_code := Some result_code,
       rc_available_at := available_at, rc_lease_owner := None, rc_lease_expires_at := None,
       rc_claim_token := None, rc_updated_at := now, rc_completed_at := None\<rparr>"

definition rc_retry ::
    "reconciliation_claim \<Rightarrow> time \<Rightarrow> string \<Rightarrow> time \<Rightarrow> (db, reconciliation) tx" where
  "rc_retry c available_at result_code now =
     tx_seq (rc_lock_claim c now)
       (update_reconciliation c (rc_pending_again available_at result_code now))"

section \<open>Project runtimes\<close>

definition runtime_of :: "db \<Rightarrow> uuid \<Rightarrow> project_runtime option" where
  "runtime_of d i = fetch (\<lambda>r. pr_project_id r = i) (t_runtimes d)"

definition list_active_runtimes :: "db \<Rightarrow> project_runtime list" where
  "list_active_runtimes d =
     order_by pr_project_id
       (filter (\<lambda>r. pr_active_deployment_id r \<noteq> None \<and> pr_active_network_name r \<noteq> None)
         (t_runtimes d))"

text \<open>The constraints of \<open>project_runtimes\<close> on a gateway row: the port's range, the
  key (\<open>ON CONFLICT (project_id) DO NOTHING\<close>), one project per gateway.\<close>

definition insert_runtime :: "project_runtime \<Rightarrow> (db, unit) tx" where
  "insert_runtime r d =
     (if \<not> (1 \<le> pr_preview_port r \<and> pr_preview_port r \<le> 65535) then Inl CheckViolation
      else if exists_row (\<lambda>s. pr_project_id s = pr_project_id r) (t_runtimes d) then Inr ((), d)
      else if exists_row (\<lambda>s. pr_gateway_container_name s = pr_gateway_container_name r)
                (t_runtimes d) then Inl UniqueViolation
      else if \<not> exists_row (\<lambda>p. prj_id p = pr_project_id r) (t_projects d)
        then Inl ForeignKeyViolation
      else Inr ((), d\<lparr>t_runtimes := t_runtimes d @ [r]\<rparr>))"

definition ensure_gateway :: "uuid \<Rightarrow> string \<Rightarrow> int \<Rightarrow> time \<Rightarrow> (db, project_runtime) tx" where
  "ensure_gateway i gateway port now =
     tx_seq (insert_runtime
               \<lparr>pr_project_id = i, pr_gateway_container_name = gateway, pr_preview_port = port,
                pr_active_deployment_id = None, pr_active_network_name = None,
                pr_active_container_names = [], pr_active_image_names = [], pr_updated_at = now\<rparr>)
      (tx_bind (tx_read (\<lambda>d. runtime_of d i))
        (\<lambda>row. tx_bind (tx_require (OtherError ''TypeError'') row)
          (\<lambda>r. tx_seq (tx_raise_if
                  (pr_gateway_container_name r \<noteq> gateway \<or> pr_preview_port r \<noteq> port)
                  (OtherError ''gateway observation conflicts with stored runtime metadata''))
            (tx_ret r))))"

definition activate_runtime ::
    "uuid \<Rightarrow> uuid \<Rightarrow> string \<Rightarrow> string list \<Rightarrow> string list \<Rightarrow> time \<Rightarrow> (db, project_runtime) tx" where
  "activate_runtime i deployment_id network containers images now =
     tx_bind (tx_read (\<lambda>d. runtime_of d i))
      (\<lambda>row. tx_bind (tx_require (OtherError ''project gateway metadata is missing'') row)
        (\<lambda>previous. tx_seq
          (\<lambda>d. if exists_row (\<lambda>x. dep_id x = deployment_id) (t_deployments d)
               then Inr ((), d\<lparr>t_runtimes := upd (\<lambda>r. pr_project_id r = i)
                      (\<lambda>r. r\<lparr>pr_active_deployment_id := Some deployment_id,
                            pr_active_network_name := Some network,
                            pr_active_container_names := containers,
                            pr_active_image_names := images, pr_updated_at := now\<rparr>)
                      (t_runtimes d)\<rparr>)
               else Inl ForeignKeyViolation)
          (tx_ret previous)))"

section \<open>What the tables keep true\<close>

text \<open>The two \<open>CHECK\<close>s of the table, and what the methods keep beyond them: the result
  of a row is determined by its state.\<close>

definition rc_row_ok :: "reconciliation_row \<Rightarrow> bool" where
  "rc_row_ok r =
     (0 \<le> rc_attempts r \<and>
      (if rc_state r = RC_CLAIMED
       then rc_lease_owner r \<noteq> None \<and> rc_lease_expires_at r \<noteq> None \<and> rc_claim_token r \<noteq> None
       else rc_lease_owner r = None \<and> rc_lease_expires_at r = None \<and> rc_claim_token r = None) \<and>
      (case rc_state r of
         RC_RESOLVED \<Rightarrow> rc_completed_at r \<noteq> None \<and>
           (rc_result r = Some RC_ACTIVE \<or> rc_result r = Some RC_CLEANED)
       | RC_BLOCKED \<Rightarrow> rc_completed_at r \<noteq> None \<and> rc_result r = Some RC_UNCERTAIN
       | _ \<Rightarrow> rc_completed_at r = None \<and> rc_result r = None))"

definition deployment_ids :: "db \<Rightarrow> uuid set" where
  "deployment_ids d = dep_id ` set (t_deployments d)"

lemma deployment_ids_iff: "i \<in> deployment_ids d \<longleftrightarrow> (\<exists>x\<in>set (t_deployments d). dep_id x = i)"
  by (auto simp: deployment_ids_def)

lemma deployment_ids_cong: "t_deployments d' = t_deployments d \<Longrightarrow> deployment_ids d' = deployment_ids d"
  by (simp add: deployment_ids_def)

definition reconciliations_ok :: "db \<Rightarrow> bool" where
  "reconciliations_ok d =
     (distinct (map rc_deployment_id (t_reconciliations d)) \<and>
      (\<forall>r\<in>set (t_reconciliations d). rc_row_ok r \<and> rc_deployment_id r \<in> deployment_ids d))"

lemma reconciliations_okD:
  assumes "reconciliations_ok d"
  shows "distinct (map rc_deployment_id (t_reconciliations d))"
    "\<And>r. r \<in> set (t_reconciliations d) \<Longrightarrow> rc_row_ok r"
  using assms by (simp_all add: reconciliations_ok_def)

lemma reconciliations_ok_frame:
  assumes "reconciliations_ok d" "t_reconciliations d' = t_reconciliations d"
    and "deployment_ids d \<subseteq> deployment_ids d'"
  shows "reconciliations_ok d'"
  using assms unfolding reconciliations_ok_def by auto

text \<open>Every change of the table is a change of one row that keeps its key.\<close>

lemma upd_reconciliations_ok:
  assumes ok: "reconciliations_ok d"
    and f: "\<And>r. rc_deployment_id (f r) = rc_deployment_id r"
    and row: "\<And>r. r \<in> set (t_reconciliations d) \<Longrightarrow> P r \<Longrightarrow> rc_row_ok r \<Longrightarrow> rc_row_ok (f r)"
  shows "reconciliations_ok (d\<lparr>t_reconciliations := upd P f (t_reconciliations d)\<rparr>)"
proof -
  have keys: "map rc_deployment_id (upd P f (t_reconciliations d)) =
      map rc_deployment_id (t_reconciliations d)" using f by simp
  have "\<forall>r\<in>set (upd P f (t_reconciliations d)). rc_row_ok r \<and> rc_deployment_id r \<in> deployment_ids d"
    by (rule ball_upd) (use ok row f in \<open>auto simp: reconciliations_ok_def\<close>)
  then show ?thesis
    using ok keys by (simp add: reconciliations_ok_def deployment_ids_def)
qed

definition rc_claim_live :: "reconciliation_claim \<Rightarrow> time \<Rightarrow> db \<Rightarrow> bool" where
  "rc_claim_live c now d = (\<exists>r\<in>set (t_reconciliations d). rc_mine c now r)"

lemma rc_lock_claim_eq:
  "rc_lock_claim c now d =
     (if rc_claim_live c now d then Inr ((), d) else Inl ReconciliationClaimLostError)"
  by (auto simp: rc_lock_claim_def rc_claim_live_def fetch_None_iff dest: fetch_SomeD
      split: option.splits)

lemma rc_mine_claimed: "rc_mine c now r \<Longrightarrow> rc_state r = RC_CLAIMED"
  by (simp add: rc_mine_def rc_held_def)

text \<open>The row a live claim names, the only one with its key.\<close>

lemma rc_live_row:
  assumes "reconciliations_ok d" "rc_claim_live c now d"
  obtains r where "r \<in> set (t_reconciliations d)" "rc_mine c now r"
    "fetch (\<lambda>r. rc_deployment_id r = rc_deployment_id (rcc_reconciliation c)) (t_reconciliations d) = Some r"
proof -
  from assms(2) obtain r where r: "r \<in> set (t_reconciliations d)" "rc_mine c now r"
    by (auto simp: rc_claim_live_def)
  have "fetch (\<lambda>x. rc_deployment_id x = rc_deployment_id r) (t_reconciliations d) = Some r"
    by (rule fetch_key [OF reconciliations_okD(1) [OF assms(1)] r(1)])
  moreover have "rc_deployment_id r = rc_deployment_id (rcc_reconciliation c)"
    using r(2) by (simp add: rc_mine_def)
  ultimately show ?thesis using that r by simp
qed

lemma update_reconciliation_live:
  assumes "reconciliations_ok d" "rc_claim_live c now d"
  obtains r where "r \<in> set (t_reconciliations d)" "rc_mine c now r"
    "update_reconciliation c f d = Inr (reconciliation.truncate (f r),
       d\<lparr>t_reconciliations :=
           upd (\<lambda>r. rc_deployment_id r = rc_deployment_id (rcc_reconciliation c)) f
             (t_reconciliations d)\<rparr>)"
proof -
  obtain r where r: "r \<in> set (t_reconciliations d)" "rc_mine c now r"
    "fetch (\<lambda>r. rc_deployment_id r = rc_deployment_id (rcc_reconciliation c)) (t_reconciliations d) = Some r"
    by (rule rc_live_row [OF assms]) (rule that, assumption+)
  have "update_reconciliation c f d = Inr (reconciliation.truncate (f r),
       d\<lparr>t_reconciliations :=
           upd (\<lambda>r. rc_deployment_id r = rc_deployment_id (rcc_reconciliation c)) f
             (t_reconciliations d)\<rparr>)"
    using r(3) by (simp add: update_reconciliation_def Let_def returning_def tx_bind_def tx_require_def)
  with r(1,2) show ?thesis by (rule that)
qed

lemma locked_update_ok:
  assumes ok: "reconciliations_ok d"
    and run: "tx_seq (rc_lock_claim c now) (update_reconciliation c f) d = Inr (x, d')"
    and f: "\<And>r. rc_deployment_id (f r) = rc_deployment_id r"
    and row: "\<And>r. rc_row_ok r \<Longrightarrow> rc_state r = RC_CLAIMED \<Longrightarrow> rc_row_ok (f r)"
  shows "reconciliations_ok d'"
proof -
  from run have live: "rc_claim_live c now d" and upd: "update_reconciliation c f d = Inr (x, d')"
    by (auto simp: rc_lock_claim_eq split: if_splits)
  obtain r where r: "r \<in> set (t_reconciliations d)" "rc_mine c now r"
    "update_reconciliation c f d = Inr (reconciliation.truncate (f r),
       d\<lparr>t_reconciliations :=
           upd (\<lambda>r. rc_deployment_id r = rc_deployment_id (rcc_reconciliation c)) f
             (t_reconciliations d)\<rparr>)"
    by (rule update_reconciliation_live [OF ok live]) (rule that, assumption+)
  have only: "s = r" if "s \<in> set (t_reconciliations d)"
    "rc_deployment_id s = rc_deployment_id (rcc_reconciliation c)" for s
    by (rule same_key_same_row [OF reconciliations_okD(1) [OF ok] that(1) r(1)])
      (use that(2) r(2) in \<open>simp add: rc_mine_def\<close>)
  have "d' = d\<lparr>t_reconciliations :=
           upd (\<lambda>r. rc_deployment_id r = rc_deployment_id (rcc_reconciliation c)) f
             (t_reconciliations d)\<rparr>" using upd r(3) by simp
  moreover have "reconciliations_ok (d\<lparr>t_reconciliations :=
           upd (\<lambda>r. rc_deployment_id r = rc_deployment_id (rcc_reconciliation c)) f
             (t_reconciliations d)\<rparr>)"
  proof (rule upd_reconciliations_ok [OF ok f])
    fix s
    assume "s \<in> set (t_reconciliations d)"
      "rc_deployment_id s = rc_deployment_id (rcc_reconciliation c)" "rc_row_ok s"
    with only [of s] row [of r] rc_mine_claimed [OF r(2)] show "rc_row_ok (f s)" by simp
  qed
  ultimately show ?thesis by simp
qed

lemma rc_finish_ok:
  assumes "reconciliations_ok d" "rc_finish c st res code now d = Inr (x, d')"
    and "st = RC_RESOLVED \<and> res \<noteq> RC_UNCERTAIN \<or> st = RC_BLOCKED \<and> res = RC_UNCERTAIN"
  shows "reconciliations_ok d'"
proof (rule locked_update_ok [OF assms(1) assms(2) [unfolded rc_finish_def]])
  show "rc_row_ok r \<Longrightarrow> rc_state r = RC_CLAIMED \<Longrightarrow> rc_row_ok (rc_finished st res code now r)" for r
    using assms(3) by (cases res) (auto simp: rc_row_ok_def rc_finished_def)
qed (simp add: rc_finished_def)

lemma rc_resolve_ok:
  "reconciliations_ok d \<Longrightarrow> rc_resolve c res code now d = Inr (x, d') \<Longrightarrow> reconciliations_ok d'"
  by (auto simp: rc_resolve_def intro: rc_finish_ok)

lemma rc_block_ok:
  "reconciliations_ok d \<Longrightarrow> rc_block c code now d = Inr (x, d') \<Longrightarrow> reconciliations_ok d'"
  by (auto simp: rc_block_def intro: rc_finish_ok)

lemma rc_retry_ok:
  assumes "reconciliations_ok d" "rc_retry c at code now d = Inr (x, d')"
  shows "reconciliations_ok d'"
  by (rule locked_update_ok [OF assms(1) assms(2) [unfolded rc_retry_def]])
    (auto simp: rc_row_ok_def rc_pending_again_def)

lemma rc_renew_ok:
  assumes "reconciliations_ok d" "rc_renew c l now d = Inr (e, d')"
  shows "reconciliations_ok d'"
proof -
  have "d' = d\<lparr>t_reconciliations := upd (rc_mine c now) (rc_extend (now + l) now) (t_reconciliations d)\<rparr>"
    using assms(2) by (auto simp: rc_renew_def Let_def split: option.splits)
  moreover have "reconciliations_ok (d\<lparr>t_reconciliations :=
      upd (rc_mine c now) (rc_extend (now + l) now) (t_reconciliations d)\<rparr>)"
    by (rule upd_reconciliations_ok [OF assms(1)])
      (auto simp: rc_extend_def rc_row_ok_def dest!: rc_mine_claimed)
  ultimately show ?thesis by simp
qed

lemma rc_claim_next_ok:
  assumes ok: "reconciliations_ok d" and run: "rc_claim_next w l locked t now d = Inr (r, d')"
  shows "reconciliations_ok d'"
proof (cases "claim_row (\<lambda>r. rc_claimable now r \<and> rc_deployment_id r \<notin> set locked)
      (\<lambda>r. (rc_available_at r, rc_created_at r, rc_deployment_id r)) rc_deployment_id
      (rc_take w t (now + l) now) (t_reconciliations d)")
  case None
  with run ok show ?thesis by (simp add: rc_claim_next_def Let_def)
next
  case (Some rr)
  obtain row rows where rr: "rr = (row, rows)" by fastforce
  obtain c where c: "c \<in> set (t_reconciliations d)"
    "rc_claimable now c \<and> rc_deployment_id c \<notin> set locked"
    "rows = upd (\<lambda>x. rc_deployment_id x = rc_deployment_id c) (rc_take w t (now + l) now) (t_reconciliations d)"
    by (rule claim_row_SomeD [OF Some [unfolded rr] reconciliations_okD(1) [OF ok]]) (rule that, assumption+)
  have "reconciliations_ok (d\<lparr>t_reconciliations :=
      upd (\<lambda>x. rc_deployment_id x = rc_deployment_id c) (rc_take w t (now + l) now) (t_reconciliations d)\<rparr>)"
  proof (rule upd_reconciliations_ok [OF ok])
    fix s
    assume s: "s \<in> set (t_reconciliations d)" "rc_deployment_id s = rc_deployment_id c" "rc_row_ok s"
    then have "s = c" using same_key_same_row [OF reconciliations_okD(1) [OF ok] _ c(1)] by blast
    with c(2) s(3) show "rc_row_ok (rc_take w t (now + l) now s)"
      by (auto simp: rc_row_ok_def rc_take_def rc_claimable_def)
  qed (simp add: rc_take_def)
  with run Some show ?thesis by (auto simp: rc_claim_next_def Let_def rr c(3))
qed

lemma insert_reconciliation_ok:
  assumes "reconciliations_ok d" "insert_reconciliation r d = Inr (x, d')"
    and "rc_row_ok r" "\<forall>s\<in>set (t_reconciliations d). rc_deployment_id s \<noteq> rc_deployment_id r"
  shows "reconciliations_ok d'"
proof -
  from assms(2) have "rc_deployment_id r \<in> deployment_ids d"
    "d' = d\<lparr>t_reconciliations := t_reconciliations d @ [r]\<rparr>"
    by (auto simp: insert_reconciliation_def exists_row_iff deployment_ids_iff split: if_splits)
  with assms(1,3,4) show ?thesis
    by (auto simp: reconciliations_ok_def cong: deployment_ids_cong)
qed

lemma new_reconciliation_ok [simp]: "rc_row_ok (new_reconciliation i a q at now)"
  by (simp add: rc_row_ok_def new_reconciliation_def)

lemma new_reconciliation_id [simp]: "rc_deployment_id (new_reconciliation i a q at now) = i"
  by (simp add: new_reconciliation_def)

lemma rc_request_ok:
  assumes ok: "reconciliations_ok d" and run: "rc_request i a q now d = Inr (x, d')"
  shows "reconciliations_ok d'"
proof (cases "fetch (\<lambda>r. rc_deployment_id r = i) (t_reconciliations d)")
  case None
  with run obtain row where "insert_reconciliation (new_reconciliation i a q now now) d = Inr (row, d')"
    by (auto simp: rc_request_def)
  with None show ?thesis
    by (auto simp: fetch_None_iff intro: insert_reconciliation_ok [OF ok])
next
  case (Some r)
  have "reconciliations_ok (d\<lparr>t_reconciliations :=
      upd (\<lambda>r. rc_deployment_id r = i \<and> rc_state r \<noteq> RC_CLAIMED) (rc_reset a q now) (t_reconciliations d)\<rparr>)"
    by (rule upd_reconciliations_ok [OF ok]) (auto simp: rc_reset_def rc_row_ok_def)
  with Some run show ?thesis by (auto simp: rc_request_def Let_def)
qed

lemma rc_schedule_one_ok:
  assumes "reconciliations_ok d" "rc_schedule_one now c d = Inr (u, d')"
  shows "reconciliations_ok d'"
  using assms
  by (cases c) (auto simp: rc_schedule_one_def exists_row_iff intro: insert_reconciliation_ok
      split: option.splits if_splits)

lemma rc_schedule_all_ok:
  "reconciliations_ok d \<Longrightarrow> rc_schedule_all now cs d = Inr (u, d') \<Longrightarrow> reconciliations_ok d'"
  by (induction cs arbitrary: d) (auto dest: rc_schedule_one_ok)

lemma rc_schedule_automatic_ok:
  "reconciliations_ok d \<Longrightarrow> rc_schedule_automatic cs now d = Inr (u, d') \<Longrightarrow> reconciliations_ok d'"
  by (auto simp: rc_schedule_automatic_def intro: rc_schedule_all_ok split: if_splits)

end
