(* ===== verification/Project_Schemas.thy ===== *)
theory Project_Schemas
  imports Reconciliation_Repository
begin

text \<open>
  \<open>projects/schemas.py\<close>: the shapes a request must have (names, paths, ports,
  uniqueness, routes that name their services), and the public view of a stored
  configuration, from which secrets are withheld.  The regular expressions are matched
  by hand; characters are code points below 256.
\<close>

section \<open>Text\<close>

definition is_space :: "char \<Rightarrow> bool" where
  "is_space c = (of_char c \<in> set [9, 10, 11, 12, 13, 28, 29, 30, 31, 32, 133, 160 :: nat])"

definition strip :: "string \<Rightarrow> string" where
  "strip s = rev (dropWhile is_space (rev (dropWhile is_space s)))"

fun split_on :: "char \<Rightarrow> string \<Rightarrow> string list" where
  "split_on c [] = [[]]"
| "split_on c (x # xs) =
     (if x = c then [] # split_on c xs
      else (case split_on c xs of [] \<Rightarrow> [[x]] | w # ws \<Rightarrow> (x # w) # ws))"

definition in_range :: "char \<Rightarrow> char \<Rightarrow> char \<Rightarrow> bool" where
  "in_range lo hi c = (of_char lo \<le> (of_char c :: nat) \<and> (of_char c :: nat) \<le> of_char hi)"

definition is_lower :: "char \<Rightarrow> bool" where "is_lower c = in_range CHR ''a'' CHR ''z'' c"
definition is_upper :: "char \<Rightarrow> bool" where "is_upper c = in_range CHR ''A'' CHR ''Z'' c"
definition is_digit :: "char \<Rightarrow> bool" where "is_digit c = in_range CHR ''0'' CHR ''9'' c"

definition starts_with :: "string \<Rightarrow> string \<Rightarrow> bool" where
  "starts_with prefix s = (take (length prefix) s = prefix)"

text \<open>\<open>^[a-z][a-z0-9-]{0,31}$\<close>, \<open>^[A-Z_][A-Z0-9_]{0,127}$\<close>, \<open>^[0-9a-f]{64}$\<close> and
  \<open>^/(?:[A-Za-z0-9._~-]+(?:/[A-Za-z0-9._~-]+)*)?$\<close>.\<close>

fun service_name_matches :: "string \<Rightarrow> bool" where
  "service_name_matches [] = False"
| "service_name_matches (c # cs) =
     (is_lower c \<and> length cs \<le> 31 \<and>
      list_all (\<lambda>x. is_lower x \<or> is_digit x \<or> x = CHR ''-'') cs)"

fun environment_name_matches :: "string \<Rightarrow> bool" where
  "environment_name_matches [] = False"
| "environment_name_matches (c # cs) =
     ((is_upper c \<or> c = CHR ''_'') \<and> length cs \<le> 127 \<and>
      list_all (\<lambda>x. is_upper x \<or> is_digit x \<or> x = CHR ''_'') cs)"

definition fingerprint_matches :: "string \<Rightarrow> bool" where
  "fingerprint_matches s = (length s = 64 \<and> list_all (\<lambda>c. c \<in> set ''0123456789abcdef'') s)"

definition path_char :: "char \<Rightarrow> bool" where
  "path_char c = (is_upper c \<or> is_lower c \<or> is_digit c \<or> c \<in> set ''._~-'')"

fun http_path_matches :: "string \<Rightarrow> bool" where
  "http_path_matches [] = False"
| "http_path_matches (c # cs) =
     (c = CHR ''/'' \<and>
      (cs = [] \<or> list_all (\<lambda>seg. seg \<noteq> [] \<and> list_all path_char seg) (split_on CHR ''/'' cs)))"

definition unique :: "'a list \<Rightarrow> bool" where
  "unique xs = (length xs = length (remdups xs))"

lemma unique_iff [simp]: "unique xs \<longleftrightarrow> distinct xs"
  by (simp add: unique_def eq_commute [of "length xs"] length_remdups_eq)

section \<open>Requests\<close>

record project_create =
  pc_name :: string
  pc_repository_url :: string

text \<open>The bounds are on the text as sent, the result is stripped.\<close>

definition validate_project_create :: "project_create \<Rightarrow> exn + project_create" where
  "validate_project_create r =
     (if \<not> (1 \<le> length (pc_name r) \<and> length (pc_name r) \<le> 100 \<and>
            20 \<le> length (pc_repository_url r) \<and> length (pc_repository_url r) \<le> 2048)
        then Inl (ValueError ''length'')
      else if strip (pc_name r) = [] \<or> strip (pc_repository_url r) = []
        then Inl (ValueError ''must not be blank'')
      else Inr \<lparr>pc_name = strip (pc_name r), pc_repository_url = strip (pc_repository_url r)\<rparr>)"

record deletion_request =
  dr_confirmation :: string
  dr_delete_managed_database :: bool
  dr_managed_database_confirmation :: "string option"

definition validate_deletion_request :: "deletion_request \<Rightarrow> bool" where
  "validate_deletion_request r =
     (length (dr_confirmation r) = 36 \<and>
      (case dr_managed_database_confirmation r of None \<Rightarrow> True | Some s \<Rightarrow> length s \<le> 128))"

definition repository_relative_path :: "string \<Rightarrow> exn + string" where
  "repository_relative_path value =
     (let normalized = strip value;
          invalid = normalized = [] \<or> starts_with ''/'' normalized \<or>
            list_ex (\<lambda>part. part \<in> set [[], ''.'', ''..'']) (split_on CHR ''/'' normalized) in
      if normalized \<noteq> ''.'' \<and> invalid
        then Inl (ValueError ''must be a canonical repository-relative path'')
      else Inr normalized)"

datatype variable_kind = PLAIN | SECRET

record environment_variable =
  var_name :: string
  var_kind :: variable_kind
  var_value :: "string option"

definition validate_environment_variable :: "environment_variable \<Rightarrow> bool" where
  "validate_environment_variable v =
     (1 \<le> length (var_name v) \<and> length (var_name v) \<le> 128 \<and>
      environment_name_matches (var_name v) \<and>
      \<not> starts_with ''DATABASE_'' (var_name v) \<and> \<not> starts_with ''HEIMDALL_'' (var_name v) \<and>
      (case var_value v of
         None \<Rightarrow> var_kind v \<noteq> PLAIN
       | Some s \<Rightarrow> length s \<le> 8192 \<and> CHR 0x00 \<notin> set s))"

record service_config =
  sc_name :: string
  sc_context :: string
  sc_dockerfile :: string
  sc_internal_port :: int
  sc_health_path :: string
  sc_environment :: "environment_variable list"
  sc_project_database_access :: bool

text \<open>The validators of \<open>ServiceBuild\<close> replace the two paths by their stripped form.\<close>

definition validate_service_config :: "service_config \<Rightarrow> exn + service_config" where
  "validate_service_config s =
     (if 512 < length (sc_context s) \<or> 512 < length (sc_dockerfile s)
        then Inl (ValueError ''length'')
      else case repository_relative_path (sc_context s) of
        Inl e \<Rightarrow> Inl e
      | Inr context \<Rightarrow>
      (case repository_relative_path (sc_dockerfile s) of
        Inl e \<Rightarrow> Inl e
      | Inr dockerfile \<Rightarrow>
          if \<not> service_name_matches (sc_name s) then Inl (ValueError ''must be a lowercase DNS label'')
          else if \<not> (1 \<le> sc_internal_port s \<and> sc_internal_port s \<le> 65535)
            then Inl (ValueError ''internal_port'')
          else if \<not> (length (sc_health_path s) \<le> 1024 \<and> http_path_matches (sc_health_path s))
            then Inl (ValueError ''must be a canonical absolute path'')
          else if 64 < length (sc_environment s) \<or>
                  \<not> list_all validate_environment_variable (sc_environment s)
            then Inl (ValueError ''environment'')
          else if \<not> unique (map var_name (sc_environment s))
            then Inl (ValueError ''environment variable names must be unique per service'')
          else Inr (s\<lparr>sc_context := context, sc_dockerfile := dockerfile\<rparr>)))"

record route_config =
  rtc_path :: string
  rtc_service :: string

definition validate_route_config :: "route_config \<Rightarrow> bool" where
  "validate_route_config r =
     (length (rtc_path r) \<le> 1024 \<and> 1 \<le> length (rtc_service r) \<and> length (rtc_service r) \<le> 32 \<and>
      http_path_matches (rtc_path r) \<and>
      \<not> (rtc_path r \<noteq> ''/'' \<and> last (rtc_path r) = CHR ''/''))"

record settings_update =
  su_expected_version :: int
  su_services :: "service_config list"
  su_routes :: "route_config list"

fun sequence_results :: "(exn + 'a) list \<Rightarrow> exn + 'a list" where
  "sequence_results [] = Inr []"
| "sequence_results (Inl e # rs) = Inl e"
| "sequence_results (Inr a # rs) =
     (case sequence_results rs of Inl e \<Rightarrow> Inl e | Inr as \<Rightarrow> Inr (a # as))"

definition validate_relationships :: "settings_update \<Rightarrow> exn + settings_update" where
  "validate_relationships u =
     (if \<not> unique (map sc_name (su_services u)) then Inl (ValueError ''service names must be unique'')
      else if \<not> unique (map rtc_path (su_routes u)) then Inl (ValueError ''route paths must be unique'')
      else if ''/'' \<notin> set (map rtc_path (su_routes u))
        then Inl (ValueError ''one route must own the root path'')
      else if \<not> list_all (\<lambda>r. rtc_service r \<in> set (map sc_name (su_services u))) (su_routes u)
        then Inl (ValueError ''routes reference unknown services'')
      else Inr u)"

definition validate_settings_update :: "settings_update \<Rightarrow> exn + settings_update" where
  "validate_settings_update u =
     (if \<not> (1 \<le> length (su_services u) \<and> length (su_services u) \<le> 16 \<and>
            1 \<le> length (su_routes u) \<and> length (su_routes u) \<le> 64 \<and> 0 \<le> su_expected_version u)
        then Inl (ValueError ''length'')
      else case sequence_results (map validate_service_config (su_services u)) of
        Inl e \<Rightarrow> Inl e
      | Inr services \<Rightarrow>
          if \<not> list_all validate_route_config (su_routes u) then Inl (ValueError ''routes'')
          else validate_relationships (u\<lparr>su_services := services\<rparr>))"

section \<open>Snapshots\<close>

text \<open>\<open>service.model_dump(mode="json", by_alias=True, exclude={"environment"})\<close> and
  \<open>route.model_dump(mode="json", by_alias=True)\<close>.\<close>

definition dump_service :: "service_config \<Rightarrow> (string \<times> json) list" where
  "dump_service s =
     [(''name'', JStr (sc_name s)),
      (''build'', JObj [(''context'', JStr (sc_context s)), (''dockerfile'', JStr (sc_dockerfile s))]),
      (''internalPort'', JInt (sc_internal_port s)),
      (''healthPath'', JStr (sc_health_path s)),
      (''projectDatabaseAccess'', JBool (sc_project_database_access s))]"

definition dump_route :: "route_config \<Rightarrow> json" where
  "dump_route r = JObj [(''path'', JStr (rtc_path r)), (''service'', JStr (rtc_service r))]"

text \<open>\<open>ProjectSettingsUpdate.snapshot\<close>: the configuration with secrets reduced to
  whether a value was given.\<close>

definition snapshot_variable :: "environment_variable \<Rightarrow> json" where
  "snapshot_variable v =
     (case var_kind v of
        PLAIN \<Rightarrow> JObj [(''name'', JStr (var_name v)), (''kind'', JStr ''PLAIN''),
                   (''value'', (case var_value v of None \<Rightarrow> JNull | Some s \<Rightarrow> JStr s))]
      | SECRET \<Rightarrow> JObj [(''name'', JStr (var_name v)), (''kind'', JStr ''SECRET''),
                    (''configured'', JBool (var_value v \<noteq> None))])"

definition snapshot :: "settings_update \<Rightarrow> json" where
  "snapshot u =
     JObj [(''services'', JList (map (\<lambda>s. JObj (dump_service s @
              [(''environment'', JList (map snapshot_variable (sc_environment s)))])) (su_services u))),
           (''routes'', JList (map dump_route (su_routes u)))]"

text \<open>\<open>_public_deployment_config\<close>: what a reader of a project is shown.  A shape the
  code would stumble over (an item that is not an object, a variable without a name) is
  \<open>None\<close> of the inner results.\<close>

fun json_items :: "json option \<Rightarrow> json list option" where
  "json_items None = Some []"
| "json_items (Some (JList xs)) = Some xs"
| "json_items (Some _) = None"

fun public_variable :: "json \<Rightarrow> json option" where
  "public_variable (JObj v) =
     (if jget ''kind'' v = Some (JStr ''SECRET'')
      then map_option (\<lambda>n. JObj [(''name'', n), (''kind'', JStr ''SECRET''), (''configured'', JBool True)])
             (jget ''name'' v)
      else (case (jget ''name'' v, jget ''value'' v) of
              (Some n, Some x) \<Rightarrow> Some (JObj [(''name'', n), (''kind'', JStr ''PLAIN''), (''value'', x)])
            | _ \<Rightarrow> None))"
| "public_variable _ = None"

fun all_some :: "'a option list \<Rightarrow> 'a list option" where
  "all_some [] = Some []"
| "all_some (None # xs) = None"
| "all_some (Some x # xs) = map_option ((#) x) (all_some xs)"

fun public_service :: "json \<Rightarrow> json option" where
  "public_service (JObj s) =
     (case json_items (jget ''environment'' s) of
        None \<Rightarrow> None
      | Some vars \<Rightarrow>
          map_option (\<lambda>vs. JObj (filter (\<lambda>(k, _). k \<noteq> ''environment'') s @ [(''environment'', JList vs)]))
            (all_some (map public_variable vars)))"
| "public_service _ = None"

fun public_deployment_config :: "json option \<Rightarrow> json option option" where
  "public_deployment_config None = Some None"
| "public_deployment_config (Some (JObj c)) =
     (case (json_items (jget ''services'' c), json_items (jget ''routes'' c)) of
        (Some services, Some routes) \<Rightarrow>
          map_option (\<lambda>ss. Some (JObj [(''services'', JList ss), (''routes'', JList routes)]))
            (all_some (map public_service services))
      | _ \<Rightarrow> None)"
| "public_deployment_config (Some _) = None"

section \<open>What validation establishes\<close>

lemma sequence_results_Inr:
  "sequence_results (map f xs) = Inr ys \<longleftrightarrow> list_all2 (\<lambda>x y. f x = Inr y) xs ys"
proof (induction xs arbitrary: ys)
  case Nil
  then show ?case by auto
next
  case (Cons x xs)
  show ?case
    by (cases "f x"; cases ys; cases "sequence_results (map f xs)") (simp_all flip: Cons.IH)
qed

definition relative_path_ok :: "string \<Rightarrow> bool" where
  "relative_path_ok p =
     (p = ''.'' \<or> (p \<noteq> [] \<and> hd p \<noteq> CHR ''/'' \<and>
        (\<forall>part\<in>set (split_on CHR ''/'' p). part \<notin> set [[], ''.'', ''..''])))"

lemma starts_with_single: "starts_with [c] s \<longleftrightarrow> s \<noteq> [] \<and> hd s = c"
  by (cases s) (auto simp: starts_with_def)

lemma repository_relative_path_Inr:
  assumes "repository_relative_path v = Inr p"
  shows "p = strip v" "relative_path_ok p"
proof -
  let ?invalid = "strip v = [] \<or> starts_with ''/'' (strip v) \<or>
    list_ex (\<lambda>part. part \<in> set [[], ''.'', ''..'']) (split_on CHR ''/'' (strip v))"
  from assms have "(Inr (strip v) :: exn + string) = Inr p"
    by (simp only: repository_relative_path_def Let_def sum.distinct split: if_split_asm)
  then show p: "p = strip v" by simp
  have "\<not> (strip v \<noteq> ''.'' \<and> ?invalid)"
    using assms by (simp only: repository_relative_path_def Let_def sum.distinct not_False_eq_True
        split: if_split_asm)
  then show "relative_path_ok p"
    unfolding relative_path_ok_def p starts_with_single list_ex_iff by blast
qed

definition service_ok :: "service_config \<Rightarrow> bool" where
  "service_ok s =
     (service_name_matches (sc_name s) \<and> relative_path_ok (sc_context s) \<and>
      relative_path_ok (sc_dockerfile s) \<and> 1 \<le> sc_internal_port s \<and> sc_internal_port s \<le> 65535 \<and>
      http_path_matches (sc_health_path s) \<and>
      (\<forall>v\<in>set (sc_environment s). validate_environment_variable v) \<and>
      distinct (map var_name (sc_environment s)))"

lemma validate_service_config_Inr:
  "validate_service_config s = Inr s' \<Longrightarrow>
   service_ok s' \<and> s' = s\<lparr>sc_context := sc_context s', sc_dockerfile := sc_dockerfile s'\<rparr>"
  by (auto simp: validate_service_config_def service_ok_def list_all_iff
      dest: repository_relative_path_Inr split: if_splits sum.splits)

definition settings_ok :: "settings_update \<Rightarrow> bool" where
  "settings_ok u =
     (su_services u \<noteq> [] \<and> su_routes u \<noteq> [] \<and> (\<forall>s\<in>set (su_services u). service_ok s) \<and>
      (\<forall>r\<in>set (su_routes u). validate_route_config r) \<and>
      distinct (map sc_name (su_services u)) \<and> distinct (map rtc_path (su_routes u)) \<and>
      ''/'' \<in> rtc_path ` set (su_routes u) \<and>
      rtc_service ` set (su_routes u) \<subseteq> sc_name ` set (su_services u))"

lemma validate_settings_update_Inr:
  assumes "validate_settings_update u = Inr u'"
  shows "settings_ok u'"
proof -
  from assms obtain services where
    seq: "sequence_results (map validate_service_config (su_services u)) = Inr services" and
    routes: "list_all validate_route_config (su_routes u)" and
    len: "1 \<le> length (su_services u)" "1 \<le> length (su_routes u)" and
    rel: "validate_relationships (u\<lparr>su_services := services\<rparr>) = Inr u'"
    by (auto simp: validate_settings_update_def split: if_splits sum.splits)
  from seq have all2: "list_all2 (\<lambda>x y. validate_service_config x = Inr y) (su_services u) services"
    by (simp add: sequence_results_Inr)
  have "\<forall>s\<in>set services. service_ok s"
    using all2 by (auto simp: list_all2_conv_all_nth in_set_conv_nth dest!: validate_service_config_Inr)
  moreover have "services \<noteq> []" using all2 len by (auto dest: list_all2_lengthD)
  ultimately show ?thesis
    using rel routes len
    by (auto simp: validate_relationships_def settings_ok_def list_all_iff split: if_splits)
qed

end
