(* ===== verification/Runtime_Models.thy ===== *)
theory Runtime_Models
  imports Project_Schemas
begin

text \<open>
  \<open>runtime/models.py\<close>: reading a deployment's immutable configuration snapshot.  The
  snapshot is an untyped JSON document, so every access may meet a value of the wrong
  type; each such case is an error of the model.  A \<open>PurePosixPath\<close> is the list of its
  parts.
\<close>

record runtime_environment =
  re_name :: string
  re_value :: string

record runtime_secret =
  rs_name :: string
  rs_reference :: string
  rs_fingerprint :: string
  rs_container_path :: string

record runtime_database =
  rd_host :: string
  rd_port :: int
  rd_database_name :: string
  rd_username :: string
  rd_schema_name :: string
  rd_credential_reference :: string
  rd_credential_fingerprint :: string
  rd_container_path :: string

record runtime_service =
  rsv_name :: string
  rsv_build_context :: "string list"
  rsv_dockerfile :: "string list"
  rsv_internal_port :: int
  rsv_health_path :: string
  rsv_environment :: "runtime_environment list"
  rsv_secrets :: "runtime_secret list"
  rsv_project_database_access :: bool

record runtime_route =
  rrt_path :: string
  rrt_service :: string

record runtime_deployment =
  rdp_services :: "runtime_service list"
  rdp_routes :: "runtime_route list"
  rdp_database :: "runtime_database option"

definition config_error :: "string \<Rightarrow> exn + 'a" where
  "config_error m = Inl (RuntimeConfigurationError m)"

definition bind_sum :: "exn + 'a \<Rightarrow> ('a \<Rightarrow> exn + 'b) \<Rightarrow> exn + 'b" where
  "bind_sum m f = (case m of Inl e \<Rightarrow> Inl e | Inr a \<Rightarrow> f a)"

lemma bind_sum_simps [simp]: "bind_sum (Inl e) f = Inl e" "bind_sum (Inr a) f = f a"
  by (simp_all add: bind_sum_def)

lemma bind_sum_Inr: "bind_sum m f = Inr b \<longleftrightarrow> (\<exists>a. m = Inr a \<and> f a = Inr b)"
  by (cases m) auto

section \<open>Paths\<close>

text \<open>\<open>PurePosixPath(value).parts\<close> of a relative path.\<close>

definition posix_parts :: "string \<Rightarrow> string list" where
  "posix_parts s = filter (\<lambda>p. p \<notin> set [[], ''.'']) (split_on CHR ''/'' s)"

fun relative_path :: "json option \<Rightarrow> string \<Rightarrow> exn + string list" where
  "relative_path (Some (JStr value)) label =
     (if value = [] then config_error (label @ '' is required'')
      else if value = ''.'' then Inr (posix_parts value)
      else if starts_with ''/'' value \<or> list_ex (\<lambda>part. part = ''..'') (posix_parts value)
        then config_error (label @ '' must be a canonical relative path'')
      else Inr (posix_parts value))"
| "relative_path _ label = config_error (label @ '' is required'')"

section \<open>Services\<close>

text \<open>\<open>str.lower\<close> on the characters an environment name has.\<close>

definition lower_char :: "char \<Rightarrow> char" where
  "lower_char c = (if is_upper c then char_of (of_char c + 32 :: nat) else c)"

definition environment_secret_target :: "string \<Rightarrow> string" where
  "environment_secret_target name = ''/run/secrets/heimdall/environment/'' @ map lower_char name"

datatype parsed_variable = Environment runtime_environment | Secret runtime_secret

text \<open>\<open>isinstance(x, str)\<close> on the result of \<open>dict.get\<close>.\<close>

fun json_text :: "json option \<Rightarrow> string option" where
  "json_text (Some (JStr s)) = Some s"
| "json_text _ = None"

fun parse_variable :: "string list \<Rightarrow> json \<Rightarrow> exn + (string \<times> parsed_variable)" where
  "parse_variable names (JObj v) =
     (case json_text (jget ''name'' v) of
        None \<Rightarrow> config_error ''invalid or duplicate environment name''
      | Some name \<Rightarrow>
          if \<not> environment_name_matches name \<or> name \<in> set names
            then config_error ''invalid or duplicate environment name''
          else if jget ''kind'' v = Some (JStr ''PLAIN'') then
            (case json_text (jget ''value'' v) of
               None \<Rightarrow> config_error ''plain environment value must be text''
             | Some x \<Rightarrow> Inr (name, Environment \<lparr>re_name = name, re_value = x\<rparr>))
          else if jget ''kind'' v = Some (JStr ''SECRET'') then
            (case json_text (jget ''secretReference'' v) of
               None \<Rightarrow> config_error ''secret reference is required''
             | Some reference \<Rightarrow>
                 if reference = [] then config_error ''secret reference is required''
                 else
                   (case json_text (jget ''secretFingerprint'' v) of
                      None \<Rightarrow> config_error ''secret fingerprint is required''
                    | Some fingerprint \<Rightarrow>
                        if fingerprint_matches fingerprint
                        then Inr (name, Secret \<lparr>rs_name = name, rs_reference = reference,
                               rs_fingerprint = fingerprint,
                               rs_container_path = environment_secret_target name\<rparr>)
                        else config_error ''secret fingerprint is required''))
          else config_error ''unknown environment kind'')"
| "parse_variable names _ = config_error ''environment variable must be an object''"

fun parse_variables :: "string list \<Rightarrow> json list \<Rightarrow> exn + parsed_variable list" where
  "parse_variables names [] = Inr []"
| "parse_variables names (v # vs) =
     bind_sum (parse_variable names v)
       (\<lambda>(name, p). bind_sum (parse_variables (name # names) vs) (\<lambda>ps. Inr (p # ps)))"

fun environments :: "parsed_variable list \<Rightarrow> runtime_environment list" where
  "environments [] = []"
| "environments (Environment e # ps) = e # environments ps"
| "environments (Secret s # ps) = environments ps"

fun mounted_secrets :: "parsed_variable list \<Rightarrow> runtime_secret list" where
  "mounted_secrets [] = []"
| "mounted_secrets (Environment e # ps) = mounted_secrets ps"
| "mounted_secrets (Secret s # ps) = s # mounted_secrets ps"

text \<open>The accessors of \<open>_service\<close>, each with its type test.\<close>

fun as_service_name :: "json option \<Rightarrow> exn + string" where
  "as_service_name (Some (JStr s)) =
     (if service_name_matches s then Inr s else config_error ''invalid service name'')"
| "as_service_name _ = config_error ''invalid service name''"

fun as_build :: "json option \<Rightarrow> exn + (string \<times> json) list" where
  "as_build (Some (JObj b)) = Inr b"
| "as_build _ = config_error ''service build must be an object''"

fun as_port :: "string \<Rightarrow> json option \<Rightarrow> exn + int" where
  "as_port m (Some (JInt p)) = (if 1 \<le> p \<and> p \<le> 65535 then Inr p else config_error m)"
| "as_port m _ = config_error m"

fun as_health_path :: "json option \<Rightarrow> exn + string" where
  "as_health_path (Some (JStr p)) =
     (if http_path_matches p then Inr p else config_error ''invalid health path'')"
| "as_health_path _ = config_error ''invalid health path''"

fun as_environment :: "json option \<Rightarrow> exn + json list" where
  "as_environment None = Inr []"
| "as_environment (Some (JList vs)) = Inr vs"
| "as_environment (Some _) = config_error ''service environment must be a list''"

fun as_access :: "json option \<Rightarrow> exn + bool" where
  "as_access None = Inr False"
| "as_access (Some (JBool b)) = Inr b"
| "as_access (Some _) = config_error ''project database access must be boolean''"

fun parse_service :: "json \<Rightarrow> exn + runtime_service" where
  "parse_service (JObj v) =
     bind_sum (as_service_name (jget ''name'' v)) (\<lambda>name.
     bind_sum (as_build (jget ''build'' v)) (\<lambda>build.
     bind_sum (relative_path (jget ''context'' build) ''build context'') (\<lambda>context.
     bind_sum (relative_path (jget ''dockerfile'' build) ''Dockerfile'') (\<lambda>dockerfile.
     bind_sum (as_port ''invalid internal port'' (jget ''internalPort'' v)) (\<lambda>port.
     bind_sum (as_health_path (jget ''healthPath'' v)) (\<lambda>health_path.
     bind_sum (as_environment (jget ''environment'' v)) (\<lambda>raw_environment.
     bind_sum (parse_variables [] raw_environment) (\<lambda>variables.
     bind_sum (as_access (jget ''projectDatabaseAccess'' v)) (\<lambda>database_access.
       Inr \<lparr>rsv_name = name, rsv_build_context = context, rsv_dockerfile = dockerfile,
            rsv_internal_port = port, rsv_health_path = health_path,
            rsv_environment = environments variables, rsv_secrets = mounted_secrets variables,
            rsv_project_database_access = database_access\<rparr>)))))))))"
| "parse_service _ = config_error ''service must be an object''"

section \<open>Routes, the database, the whole\<close>

text \<open>\<open>service not in service_names\<close>: an array or an object cannot be hashed.\<close>

fun parse_route_service :: "string list \<Rightarrow> json option \<Rightarrow> exn + string" where
  "parse_route_service names (Some (JStr s)) =
     (if s \<in> set names then Inr s else config_error ''route references an unknown service'')"
| "parse_route_service names (Some (JList _)) = Inl (OtherError ''TypeError'')"
| "parse_route_service names (Some (JObj _)) = Inl (OtherError ''TypeError'')"
| "parse_route_service names _ = config_error ''route references an unknown service''"

fun parse_route_path :: "json option \<Rightarrow> exn + string" where
  "parse_route_path (Some (JStr path)) =
     (if \<not> http_path_matches path \<or> (path \<noteq> ''/'' \<and> last path = CHR ''/'')
      then config_error ''invalid route path'' else Inr path)"
| "parse_route_path _ = config_error ''invalid route path''"

fun parse_route :: "string list \<Rightarrow> json \<Rightarrow> exn + runtime_route" where
  "parse_route names (JObj v) =
     bind_sum (parse_route_path (jget ''path'' v)) (\<lambda>path.
     bind_sum (parse_route_service names (jget ''service'' v)) (\<lambda>service.
       Inr \<lparr>rrt_path = path, rrt_service = service\<rparr>))"
| "parse_route names _ = config_error ''route must be an object''"

fun required_text :: "string \<Rightarrow> (string \<times> json) list \<Rightarrow> exn + string" where
  "required_text k v =
     (case jget k v of
        Some (JStr s) \<Rightarrow>
          if s = [] then config_error ''managed database metadata is incomplete'' else Inr s
      | _ \<Rightarrow> config_error ''managed database metadata is incomplete'')"

fun parse_database :: "json option \<Rightarrow> exn + runtime_database option" where
  "parse_database None = Inr None"
| "parse_database (Some JNull) = Inr None"
| "parse_database (Some (JObj v)) =
     bind_sum (required_text ''host'' v) (\<lambda>host.
     bind_sum (required_text ''databaseName'' v) (\<lambda>database_name.
     bind_sum (required_text ''username'' v) (\<lambda>username.
     bind_sum (required_text ''schemaName'' v) (\<lambda>schema_name.
     bind_sum (required_text ''credentialReference'' v) (\<lambda>reference.
     bind_sum (required_text ''credentialFingerprint'' v) (\<lambda>fingerprint.
     bind_sum (as_port ''managed database port is invalid'' (jget ''port'' v)) (\<lambda>port.
       if \<not> fingerprint_matches fingerprint
         then config_error ''managed database fingerprint is invalid''
       else Inr (Some \<lparr>rd_host = host, rd_port = port, rd_database_name = database_name,
              rd_username = username, rd_schema_name = schema_name,
              rd_credential_reference = reference, rd_credential_fingerprint = fingerprint,
              rd_container_path = ''/run/secrets/heimdall/project-database-password''\<rparr>))))))))"
| "parse_database (Some _) = config_error ''managed database metadata must be an object''"

fun nonempty_list :: "string \<Rightarrow> json option \<Rightarrow> exn + json list" where
  "nonempty_list m (Some (JList (x # xs))) = Inr (x # xs)"
| "nonempty_list m _ = config_error m"

fun from_snapshot :: "json \<Rightarrow> exn + runtime_deployment" where
  "from_snapshot (JObj doc) =
     bind_sum (nonempty_list ''deployment snapshot requires services'' (jget ''services'' doc))
       (\<lambda>raw_services.
     bind_sum (nonempty_list ''deployment snapshot requires routes'' (jget ''routes'' doc))
       (\<lambda>raw_routes.
     bind_sum (sequence_results (map parse_service raw_services)) (\<lambda>services.
     let names = map rsv_name services in
     if \<not> unique names then config_error ''service names must be unique''
     else bind_sum (sequence_results (map (parse_route names) raw_routes)) (\<lambda>routes.
     let paths = map rrt_path routes in
     if \<not> unique paths \<or> ''/'' \<notin> set paths
       then config_error ''routes must be unique and include root''
     else bind_sum (parse_database (jget ''managedDatabase'' doc)) (\<lambda>database.
       if list_ex rsv_project_database_access services \<and> database = None
         then config_error ''database metadata is required by a service''
       else Inr \<lparr>rdp_services = services, rdp_routes = routes, rdp_database = database\<rparr>)))))"
| "from_snapshot _ = config_error ''deployment snapshot must be an object''"

definition from_deployment :: "deployment \<Rightarrow> exn + runtime_deployment" where
  "from_deployment x = from_snapshot (dep_config_snapshot x)"

section \<open>What an accepted snapshot guarantees\<close>

lemma config_error_Inr [simp]: "config_error m \<noteq> Inr x"
  by (simp add: config_error_def)

lemma parse_variable_Inr:
  assumes "parse_variable names v = Inr (n, p)"
  shows "environment_name_matches n \<and> n \<notin> set names \<and>
   (case p of Environment e \<Rightarrow> re_name e = n
    | Secret s \<Rightarrow> rs_name s = n \<and> rs_reference s \<noteq> [] \<and> fingerprint_matches (rs_fingerprint s) \<and>
        rs_container_path s = environment_secret_target n)"
proof -
  from assms obtain f where v: "v = JObj f" by (cases v) auto
  show ?thesis
    using assms unfolding v parse_variable.simps
    by (simp split: option.split_asm if_split_asm) auto
qed

fun parsed_name :: "parsed_variable \<Rightarrow> string" where
  "parsed_name (Environment e) = re_name e"
| "parsed_name (Secret s) = rs_name s"

lemma parse_variables_names:
  "parse_variables names vs = Inr ps \<Longrightarrow>
   distinct (map parsed_name ps) \<and> set (map parsed_name ps) \<inter> set names = {} \<and>
   (\<forall>p\<in>set ps. environment_name_matches (parsed_name p))"
proof (induction vs arbitrary: names ps)
  case Nil
  then show ?case by simp
next
  case (Cons v vs)
  from Cons.prems obtain n p qs where head: "parse_variable names v = Inr (n, p)"
    and rest: "parse_variables (n # names) vs = Inr qs" and ps: "ps = p # qs"
    by (auto simp: bind_sum_Inr)
  have "parsed_name p = n"
    using parse_variable_Inr [OF head] by (cases p) auto
  with parse_variable_Inr [OF head] Cons.IH [OF rest] show ?case by (auto simp: ps)
qed

lemma secrets_in: "s \<in> set (mounted_secrets ps) \<longleftrightarrow> Secret s \<in> set ps"
  by (induction ps rule: mounted_secrets.induct) auto

lemma parse_variables_secret:
  "parse_variables names vs = Inr ps \<Longrightarrow> Secret s \<in> set ps \<Longrightarrow>
   rs_reference s \<noteq> [] \<and> fingerprint_matches (rs_fingerprint s) \<and>
   rs_container_path s = environment_secret_target (rs_name s)"
proof (induction vs arbitrary: names ps)
  case Nil
  then show ?case by simp
next
  case (Cons v vs)
  from Cons.prems obtain n p qs where head: "parse_variable names v = Inr (n, p)"
    and rest: "parse_variables (n # names) vs = Inr qs" and ps: "ps = p # qs"
    by (auto simp: bind_sum_Inr)
  with Cons.prems(2) parse_variable_Inr [OF head] Cons.IH [OF rest] show ?case by auto
qed

lemma secrets_names_distinct: "distinct (map parsed_name ps) \<Longrightarrow> distinct (map rs_name (mounted_secrets ps))"
proof (induction ps rule: mounted_secrets.induct)
  case (3 s ps)
  have "rs_name s \<notin> rs_name ` set (mounted_secrets ps)"
  proof
    assume "rs_name s \<in> rs_name ` set (mounted_secrets ps)"
    then obtain t where "Secret t \<in> set ps" "rs_name t = rs_name s" by (auto simp: secrets_in)
    with 3(2) show False by (metis distinct.simps(2) image_eqI list.simps(9) parsed_name.simps(2) set_map)
  qed
  with 3 show ?case by simp
qed auto

text \<open>Names that differ have mount points that differ: lower-casing loses nothing on the
  characters a name may have.\<close>

lemma lower_char_inj:
  assumes "is_upper a \<or> is_digit a \<or> a = CHR ''_''" "is_upper b \<or> is_digit b \<or> b = CHR ''_''"
    and "lower_char a = lower_char b"
  shows "a = b"
proof -
  have code: "is_upper c \<longleftrightarrow> 65 \<le> (of_char c :: nat) \<and> (of_char c :: nat) \<le> 90"
    "is_digit c \<longleftrightarrow> 48 \<le> (of_char c :: nat) \<and> (of_char c :: nat) \<le> 57"
    "c = CHR ''_'' \<Longrightarrow> (of_char c :: nat) = 95" for c
    by (simp_all add: is_upper_def is_digit_def in_range_def)
  have low: "of_char (lower_char c) = (if is_upper c then of_char c + 32 else of_char c :: nat)" for c
    by (simp add: lower_char_def code(1))
  have eq: "(of_char (lower_char a) :: nat) = of_char (lower_char b)" using assms(3) by simp
  have "(of_char a :: nat) = of_char b"
    using assms(1,2) eq unfolding low code(1,2) using code(3) [of a] code(3) [of b]
    by (elim disjE; simp split: if_split_asm)
  then show ?thesis by simp
qed

lemma environment_name_chars:
  "environment_name_matches n \<Longrightarrow> c \<in> set n \<Longrightarrow> is_upper c \<or> is_digit c \<or> c = CHR ''_''"
  by (cases n) (auto simp: list_all_iff)

lemma environment_secret_target_inj:
  assumes "environment_name_matches m" "environment_name_matches n"
    and "environment_secret_target m = environment_secret_target n"
  shows "m = n"
proof -
  have "map lower_char m = map lower_char n"
    using assms(3) unfolding environment_secret_target_def by (simp only: same_append_eq)
  moreover have "inj_on lower_char (set m \<union> set n)"
  proof (rule inj_onI)
    fix a b
    assume a: "a \<in> set m \<union> set n" and b: "b \<in> set m \<union> set n"
      and eq: "lower_char a = lower_char b"
    have chars: "is_upper c \<or> is_digit c \<or> c = CHR ''_''" if "c \<in> set m \<union> set n" for c
      using that environment_name_chars [OF assms(1)] environment_name_chars [OF assms(2)]
      by (elim UnE) simp_all
    from chars [OF a] chars [OF b] eq show "a = b" by (rule lower_char_inj)
  qed
  ultimately show ?thesis by (simp only: inj_on_map_eq_map)
qed

lemma secret_mounts_distinct:
  assumes "parse_variables [] vs = Inr ps"
  shows "distinct (map rs_container_path (mounted_secrets ps))"
proof -
  note N = parse_variables_names [OF assms]
  have path: "rs_container_path s = environment_secret_target (rs_name s)"
    "environment_name_matches (rs_name s)" if "s \<in> set (mounted_secrets ps)" for s
  proof -
    have s: "Secret s \<in> set ps" using that by (simp only: secrets_in)
    show "rs_container_path s = environment_secret_target (rs_name s)"
      using parse_variables_secret [OF assms s] by blast
    show "environment_name_matches (rs_name s)" using N s parsed_name.simps(2) [of s] by metis
  qed
  have "inj_on rs_container_path (set (mounted_secrets ps))"
  proof (rule inj_onI)
    fix s t
    assume s: "s \<in> set (mounted_secrets ps)" and t: "t \<in> set (mounted_secrets ps)"
      and eq: "rs_container_path s = rs_container_path t"
    have "environment_secret_target (rs_name s) = environment_secret_target (rs_name t)"
      using eq path(1) [OF s] path(1) [OF t] by (simp only:)
    with path(2) [OF s] path(2) [OF t] have "rs_name s = rs_name t"
      by (rule environment_secret_target_inj)
    then show "s = t"
      using secrets_names_distinct [of ps] N s t by (metis distinct_map inj_on_def)
  qed
  moreover have "distinct (mounted_secrets ps)" using secrets_names_distinct N by (metis distinct_map)
  ultimately show ?thesis by (simp add: distinct_map)
qed

lemma parse_service_Inr:
  assumes "parse_service v = Inr s"
  shows "service_name_matches (rsv_name s)" "1 \<le> rsv_internal_port s" "rsv_internal_port s \<le> 65535"
    "http_path_matches (rsv_health_path s)" "distinct (map rs_container_path (rsv_secrets s))"
    "''..'' \<notin> set (rsv_build_context s)" "''..'' \<notin> set (rsv_dockerfile s)"
proof -
  from assms obtain f where v: "v = JObj f" by (cases v) (auto simp: config_error_def)
  have path: "''..'' \<notin> set ps" if "relative_path x label = Inr ps" for x label ps
    using that by (cases "(x, label)" rule: relative_path.cases)
      (auto simp: config_error_def list_ex_iff posix_parts_def split: if_splits)
  have port: "1 \<le> p \<and> p \<le> 65535" if "as_port m x = Inr p" for m x p
    using that by (cases "(m, x)" rule: as_port.cases) (auto simp: config_error_def split: if_splits)
  have health: "http_path_matches p" if "as_health_path x = Inr p" for x p
    using that by (cases x rule: as_health_path.cases) (auto simp: config_error_def split: if_splits)
  have name: "service_name_matches p" if "as_service_name x = Inr p" for x p
    using that by (cases x rule: as_service_name.cases) (auto simp: config_error_def split: if_splits)
  from assms obtain n b c d p h vs ps a where
    parts: "as_service_name (jget ''name'' f) = Inr n" "as_build (jget ''build'' f) = Inr b"
      "relative_path (jget ''context'' b) ''build context'' = Inr c"
      "relative_path (jget ''dockerfile'' b) ''Dockerfile'' = Inr d"
      "as_port ''invalid internal port'' (jget ''internalPort'' f) = Inr p"
      "as_health_path (jget ''healthPath'' f) = Inr h" "parse_variables [] vs = Inr ps"
    and s: "s = \<lparr>rsv_name = n, rsv_build_context = c, rsv_dockerfile = d,
            rsv_internal_port = p, rsv_health_path = h,
            rsv_environment = environments ps, rsv_secrets = mounted_secrets ps,
            rsv_project_database_access = a\<rparr>"
    unfolding v parse_service.simps bind_sum_Inr by blast
  show "service_name_matches (rsv_name s)" "1 \<le> rsv_internal_port s" "rsv_internal_port s \<le> 65535"
    "http_path_matches (rsv_health_path s)" "distinct (map rs_container_path (rsv_secrets s))"
    "''..'' \<notin> set (rsv_build_context s)" "''..'' \<notin> set (rsv_dockerfile s)"
    unfolding s runtime_service.simps
    using name [OF parts(1)] port [OF parts(5)] health [OF parts(6)]
      secret_mounts_distinct [OF parts(7)] path [OF parts(3)] path [OF parts(4)]
    by blast+
qed

end
