(* ===== verification/Project_Repository.thy ===== *)
theory Project_Repository
  imports Runtime_Models
begin

text \<open>
  \<open>projects/repository.py\<close>, the part that is not about deletion: creating, reading and
  configuring projects.  A configuration change is optimistic: it names the version it
  was made from and takes effect on that version only.
\<close>

definition has_managed_database :: "uuid \<Rightarrow> db \<Rightarrow> bool" where
  "has_managed_database i d = exists_row (\<lambda>r. res_project_id r = i) (t_database_resources d)"

definition project_with :: "bool \<Rightarrow> project_row \<Rightarrow> project" where
  "project_with b p = project_row.extend p (project.fields b)"

text \<open>A row selected with the \<open>EXISTS (\<dots>) AS has_managed_database\<close> column, and
  \<open>_project(row)\<close> on a row without it (\<open>row.get("has_managed_database", False)\<close>).\<close>

definition selected_project :: "db \<Rightarrow> project_row \<Rightarrow> project" where
  "selected_project d p = project_with (has_managed_database (prj_id p) d) p"

definition returned_project :: "project_row \<Rightarrow> project" where
  "returned_project p = project_with False p"

definition new_project :: "uuid \<Rightarrow> string \<Rightarrow> string \<Rightarrow> time \<Rightarrow> project_row" where
  "new_project i name repository_url now =
     \<lparr>prj_id = i, prj_name = name, prj_repository_url = repository_url, prj_branch = ''main'',
      prj_status = P_DRAFT, prj_config_version = 0, prj_deployment_config = None,
      prj_created_at = now, prj_updated_at = now\<rparr>"

definition create_project :: "uuid \<Rightarrow> string \<Rightarrow> string \<Rightarrow> time \<Rightarrow> (db, project) tx" where
  "create_project i name repository_url now d =
     (if exists_row (\<lambda>p. prj_id p = i \<or> prj_name p = name \<or> prj_repository_url p = repository_url)
           (t_projects d)
      then Inl ProjectConflictError
      else Inr (returned_project (new_project i name repository_url now),
                d\<lparr>t_projects := t_projects d @ [new_project i name repository_url now]\<rparr>))"

definition list_projects :: "db \<Rightarrow> project list" where
  "list_projects d =
     map (selected_project d) (order_by (\<lambda>p. (- prj_updated_at p, prj_id p)) (t_projects d))"

definition get_project :: "uuid \<Rightarrow> (db, project) tx" where
  "get_project i d =
     tx_require ProjectNotFoundError (map_option (selected_project d) (project_of d i)) d"

definition secret_key :: "environment_secret \<Rightarrow> uuid \<times> string \<times> string" where
  "secret_key s = (es_project_id s, es_service_name s, es_variable_name s)"

definition get_environment_secret ::
    "uuid \<Rightarrow> string \<Rightarrow> string \<Rightarrow> db \<Rightarrow> environment_secret option" where
  "get_environment_secret i service variable d =
     fetch (\<lambda>s. secret_key s = (i, service, variable)) (t_environment_secrets d)"

section \<open>Settings\<close>

definition configured :: "json \<Rightarrow> time \<Rightarrow> project_row \<Rightarrow> project_row" where
  "configured config now p =
     p\<lparr>prj_deployment_config := Some config, prj_config_version := prj_config_version p + 1,
       prj_status := P_READY, prj_updated_at := now\<rparr>"

definition secret_checks :: "environment_secret \<Rightarrow> bool" where
  "secret_checks s = (0 < es_secret_version s \<and> fingerprint_matches (es_secret_fingerprint s))"

text \<open>\<open>INSERT \<dots> ON CONFLICT (project_id, service_name, variable_name) DO UPDATE\<close>.\<close>

definition upsert_secret :: "environment_secret \<Rightarrow> (db, unit) tx" where
  "upsert_secret s d =
     (if \<not> secret_checks s then Inl CheckViolation
      else if exists_row (\<lambda>x. secret_key x = secret_key s) (t_environment_secrets d)
        then Inr ((), d\<lparr>t_environment_secrets :=
               upd (\<lambda>x. secret_key x = secret_key s)
                 (\<lambda>x. x\<lparr>es_secret_reference := es_secret_reference s,
                        es_secret_version := es_secret_version s,
                        es_secret_fingerprint := es_secret_fingerprint s,
                        es_updated_at := es_updated_at s\<rparr>) (t_environment_secrets d)\<rparr>)
      else if \<not> exists_row (\<lambda>p. prj_id p = es_project_id s) (t_projects d)
        then Inl ForeignKeyViolation
      else Inr ((), d\<lparr>t_environment_secrets := t_environment_secrets d @ [s]\<rparr>))"

fun upsert_secrets :: "environment_secret list \<Rightarrow> (db, unit) tx" where
  "upsert_secrets [] = tx_ret ()"
| "upsert_secrets (s # ss) = tx_seq (upsert_secret s) (upsert_secrets ss)"

text \<open>\<open>for \<dots> in existing_keys - active_keys: DELETE\<close>.  The deletions commute, so the set's
  order does not matter.\<close>

definition delete_inactive_secrets :: "uuid \<Rightarrow> environment_secret list \<Rightarrow> db \<Rightarrow> db" where
  "delete_inactive_secrets i secrets d =
     (let active_keys = map (\<lambda>s. (es_service_name s, es_variable_name s)) secrets in
      d\<lparr>t_environment_secrets :=
          del (\<lambda>s. es_project_id s = i \<and> (es_service_name s, es_variable_name s) \<notin> set active_keys)
            (t_environment_secrets d)\<rparr>)"

definition update_settings_row ::
    "uuid \<Rightarrow> int \<Rightarrow> json \<Rightarrow> environment_secret list \<Rightarrow> time \<Rightarrow> (db, project) tx" where
  "update_settings_row i expected_version config secrets now d =
     (let P = (\<lambda>p. prj_id p = i \<and> prj_config_version p = expected_version \<and>
                   prj_status p \<noteq> P_DELETING);
          d1 = d\<lparr>t_projects := upd P (configured config now) (t_projects d)\<rparr> in
      case returning P (configured config now) (t_projects d) of
        Some row \<Rightarrow>
          tx_seq (upsert_secrets secrets) (tx_ret (returned_project row))
            (delete_inactive_secrets i secrets d1)
      | None \<Rightarrow>
          (case project_of d i of
             None \<Rightarrow> Inl ProjectNotFoundError
           | Some p \<Rightarrow>
               if prj_status p = P_DELETING then Inl (ProjectDeletionConflictError ''PROJECT_DELETING'')
               else Inl ProjectVersionConflictError))"

section \<open>What the tables keep true\<close>

lemma upd_key_image:
  assumes "\<And>r. k (f r) = k r"
  shows "k ` set (upd P f rows) = k ` set rows"
proof -
  have "map k (upd P f rows) = map k rows" by (rule upd_keys) (rule assms)
  then have "set (map k (upd P f rows)) = set (map k rows)" by (rule arg_cong)
  then show ?thesis by (simp only: set_map)
qed

definition project_row_ok :: "project_row \<Rightarrow> bool" where
  "project_row_ok p =
     (0 \<le> prj_config_version p \<and> prj_branch p = ''main'' \<and>
      (prj_status p = P_READY \<longrightarrow> prj_deployment_config p \<noteq> None \<and> 0 < prj_config_version p))"

definition project_ids :: "db \<Rightarrow> uuid set" where
  "project_ids d = prj_id ` set (t_projects d)"

lemma project_ids_iff: "exists_row (\<lambda>p. prj_id p = i) (t_projects d) \<longleftrightarrow> i \<in> project_ids d"
  by (auto simp: exists_row_iff project_ids_def)

lemma project_ids_cong: "t_projects d' = t_projects d \<Longrightarrow> project_ids d' = project_ids d"
  by (simp add: project_ids_def)

definition secrets_ok :: "db \<Rightarrow> bool" where
  "secrets_ok d =
     (distinct (map secret_key (t_environment_secrets d)) \<and>
      (\<forall>s\<in>set (t_environment_secrets d). secret_checks s \<and> es_project_id s \<in> project_ids d))"

definition projects_ok :: "db \<Rightarrow> bool" where
  "projects_ok d =
     (distinct (map prj_id (t_projects d)) \<and> distinct (map prj_name (t_projects d)) \<and>
      distinct (map prj_repository_url (t_projects d)) \<and>
      (\<forall>p\<in>set (t_projects d). project_row_ok p) \<and> secrets_ok d)"

lemma projects_okD:
  assumes "projects_ok d"
  shows "distinct (map prj_id (t_projects d))" "secrets_ok d"
    "\<And>p. p \<in> set (t_projects d) \<Longrightarrow> project_row_ok p"
  using assms by (simp_all add: projects_ok_def)

lemma projects_ok_frame:
  "projects_ok d \<Longrightarrow> t_projects d' = t_projects d \<Longrightarrow>
   t_environment_secrets d' = t_environment_secrets d \<Longrightarrow> projects_ok d'"
  by (simp add: projects_ok_def secrets_ok_def project_ids_def)

lemma create_project_ok:
  assumes "projects_ok d" "create_project i name url now d = Inr (p, d')"
  shows "projects_ok d'"
  using assms
  by (auto simp: create_project_def projects_ok_def secrets_ok_def project_ids_def exists_row_iff
      new_project_def project_row_ok_def split: if_splits)

definition secret_update :: "environment_secret \<Rightarrow> environment_secret \<Rightarrow> environment_secret" where
  "secret_update s x =
     x\<lparr>es_secret_reference := es_secret_reference s, es_secret_version := es_secret_version s,
       es_secret_fingerprint := es_secret_fingerprint s, es_updated_at := es_updated_at s\<rparr>"

lemma secret_update_key [simp]: "secret_key (secret_update s x) = secret_key x"
  by (simp add: secret_update_def secret_key_def)

lemma secret_key_project: "secret_key x = secret_key y \<Longrightarrow> es_project_id x = es_project_id y"
  by (simp add: secret_key_def)

lemma upsert_secret_Inr:
  "upsert_secret s d = Inr (u, d') \<longleftrightarrow>
   secret_checks s \<and>
   (if exists_row (\<lambda>x. secret_key x = secret_key s) (t_environment_secrets d)
    then d' = d\<lparr>t_environment_secrets := upd (\<lambda>x. secret_key x = secret_key s) (secret_update s)
           (t_environment_secrets d)\<rparr>
    else es_project_id s \<in> project_ids d \<and>
         d' = d\<lparr>t_environment_secrets := t_environment_secrets d @ [s]\<rparr>)"
  by (auto simp: upsert_secret_def secret_update_def [abs_def] project_ids_iff)

lemma upsert_secret_frame: "upsert_secret s d = Inr (u, d') \<Longrightarrow>
   d' = d\<lparr>t_environment_secrets := t_environment_secrets d'\<rparr>"
  by (auto simp: upsert_secret_Inr split: if_splits)

lemma upsert_secret_ok:
  assumes ok: "secrets_ok d" and run: "upsert_secret s d = Inr (u, d')"
  shows "secrets_ok d'"
proof (cases "exists_row (\<lambda>x. secret_key x = secret_key s) (t_environment_secrets d)")
  case True
  let ?rows = "upd (\<lambda>x. secret_key x = secret_key s) (secret_update s) (t_environment_secrets d)"
  have d': "d' = d\<lparr>t_environment_secrets := ?rows\<rparr>" and s: "secret_checks s"
    using run True by (simp_all add: upsert_secret_Inr)
  have keys: "map secret_key ?rows = map secret_key (t_environment_secrets d)" by simp
  have "\<forall>x\<in>set ?rows. secret_checks x \<and> es_project_id x \<in> project_ids d"
    by (rule ball_upd) (use ok s in \<open>auto simp: secrets_ok_def secret_checks_def secret_update_def\<close>)
  then show ?thesis using ok keys by (simp add: secrets_ok_def d' project_ids_def)
next
  case False
  with run have d': "d' = d\<lparr>t_environment_secrets := t_environment_secrets d @ [s]\<rparr>"
    and s: "secret_checks s" "es_project_id s \<in> project_ids d"
    by (simp_all add: upsert_secret_Inr)
  have "secret_key s \<notin> secret_key ` set (t_environment_secrets d)"
    using False by (auto simp: exists_row_iff)
  with ok s show ?thesis by (simp add: secrets_ok_def d' project_ids_def)
qed

lemma upsert_secret_keys:
  assumes "upsert_secret s d = Inr (u, d')"
  shows "secret_key ` set (t_environment_secrets d') = insert (secret_key s) (secret_key ` set (t_environment_secrets d))"
proof (cases "exists_row (\<lambda>x. secret_key x = secret_key s) (t_environment_secrets d)")
  case True
  then have "secret_key s \<in> secret_key ` set (t_environment_secrets d)"
    unfolding exists_row_iff by (metis image_eqI)
  moreover have "secret_key ` set (t_environment_secrets d') = secret_key ` set (t_environment_secrets d)"
    using assms True by (simp add: upsert_secret_Inr upd_key_image)
  ultimately show ?thesis by blast
next
  case False
  with assms show ?thesis by (simp add: upsert_secret_Inr)
qed

lemma upsert_secrets_spec:
  "upsert_secrets ss d = Inr (u, d') \<Longrightarrow> secrets_ok d \<Longrightarrow>
   secrets_ok d' \<and> d' = d\<lparr>t_environment_secrets := t_environment_secrets d'\<rparr> \<and>
   secret_key ` set (t_environment_secrets d') =
     secret_key ` set ss \<union> secret_key ` set (t_environment_secrets d)"
proof (induction ss arbitrary: d)
  case Nil
  then show ?case by simp
next
  case (Cons s ss)
  from Cons.prems(1) obtain d1 where one: "upsert_secret s d = Inr ((), d1)"
    and rest: "upsert_secrets ss d1 = Inr (u, d')" by auto
  have same: "d1 = d\<lparr>t_environment_secrets := t_environment_secrets d1\<rparr>"
    by (rule upsert_secret_frame [OF one])
  note IH = Cons.IH [OF rest upsert_secret_ok [OF Cons.prems(2) one]]
  from IH have d': "d' = d1\<lparr>t_environment_secrets := t_environment_secrets d'\<rparr>" by blast
  have "d' = d\<lparr>t_environment_secrets := t_environment_secrets d'\<rparr>"
    by (subst d', subst same) simp
  with IH upsert_secret_keys [OF one] show ?case by simp
qed

text \<open>A successful change: the version was the expected one and has been incremented,
  and exactly the secrets of the new configuration remain.\<close>

lemma update_settings_row_Inr:
  assumes ok: "projects_ok d" and run: "update_settings_row i v config ss now d = Inr (p, d')"
    and mine: "\<forall>s\<in>set ss. es_project_id s = i"
  obtains q where "q \<in> set (t_projects d)" "prj_id q = i" "prj_config_version q = v"
    "prj_status q \<noteq> P_DELETING" "p = returned_project (configured config now q)"
    "d' = d\<lparr>t_projects := upd (\<lambda>p. prj_id p = i) (configured config now) (t_projects d),
            t_environment_secrets := t_environment_secrets d'\<rparr>"
    "secrets_ok d'"
    "{k. (i, k) \<in> secret_key ` set (t_environment_secrets d')} =
       (\<lambda>s. (es_service_name s, es_variable_name s)) ` set ss"
proof -
  let ?P = "\<lambda>p. prj_id p = i \<and> prj_config_version p = v \<and> prj_status p \<noteq> P_DELETING"
  let ?d1 = "d\<lparr>t_projects := upd ?P (configured config now) (t_projects d)\<rparr>"
  let ?d2 = "delete_inactive_secrets i ss ?d1"
  from run obtain row where row: "returning ?P (configured config now) (t_projects d) = Some row"
    and ups: "upsert_secrets ss ?d2 = Inr ((), d')" and p: "p = returned_project row"
    by (auto simp: update_settings_row_def Let_def split: option.splits if_splits)
  from returning_SomeD [OF row] obtain q where q: "q \<in> set (t_projects d)" "?P q"
    "row = configured config now q" by blast
  have only: "r = q" if "r \<in> set (t_projects d)" "prj_id r = i" for r
    by (rule same_key_same_row [OF projects_okD(1) [OF ok] that(1) q(1)]) (use that(2) q(2) in simp)
  have upd: "upd ?P (configured config now) (t_projects d) =
      upd (\<lambda>p. prj_id p = i) (configured config now) (t_projects d)"
  proof (rule upd_cong)
    fix r assume r: "r \<in> set (t_projects d)"
    show "?P r = (prj_id r = i)"
    proof
      assume "prj_id r = i"
      with only [OF r] have "r = q" .
      with q(2) show "?P r" by simp
    qed simp
  qed
  have ids': "project_ids ?d1 = project_ids d"
    by (simp add: project_ids_def upd_key_image configured_def)
  have sub: "secrets_ok ?d2"
    using projects_okD(2) [OF ok] ids'
    by (auto simp: secrets_ok_def delete_inactive_secrets_def Let_def distinct_del project_ids_def)
  note U = upsert_secrets_spec [OF ups sub]
  have keys: "{k. (i, k) \<in> secret_key ` set (t_environment_secrets d')} =
       (\<lambda>s. (es_service_name s, es_variable_name s)) ` set ss"
  proof (rule set_eqI)
    fix k :: "string \<times> string"
    have "(i, k) \<in> secret_key ` set (t_environment_secrets d') \<longleftrightarrow>
        (i, k) \<in> secret_key ` set ss \<or> (i, k) \<in> secret_key ` set (t_environment_secrets ?d2)"
      using U by simp
    also have "\<dots> \<longleftrightarrow> k \<in> (\<lambda>s. (es_service_name s, es_variable_name s)) ` set ss"
    proof -
      have "(i, k) \<in> secret_key ` set (t_environment_secrets ?d2) \<Longrightarrow>
          k \<in> (\<lambda>s. (es_service_name s, es_variable_name s)) ` set ss"
        by (auto simp: delete_inactive_secrets_def Let_def secret_key_def)
      moreover have "(i, k) \<in> secret_key ` set ss \<longleftrightarrow>
          k \<in> (\<lambda>s. (es_service_name s, es_variable_name s)) ` set ss"
        using mine by (auto simp: secret_key_def image_iff)
      ultimately show ?thesis by blast
    qed
    finally show "k \<in> {k. (i, k) \<in> secret_key ` set (t_environment_secrets d')} \<longleftrightarrow>
        k \<in> (\<lambda>s. (es_service_name s, es_variable_name s)) ` set ss" by simp
  qed
  have "d' = d\<lparr>t_projects := upd (\<lambda>p. prj_id p = i) (configured config now) (t_projects d),
            t_environment_secrets := t_environment_secrets d'\<rparr>"
  proof -
    have "d' = ?d2\<lparr>t_environment_secrets := t_environment_secrets d'\<rparr>" using U by blast
    then show ?thesis by (simp add: delete_inactive_secrets_def Let_def upd)
  qed
  with that q p U keys show ?thesis by simp
qed

lemma update_settings_row_ok:
  assumes ok: "projects_ok d" and run: "update_settings_row i v config ss now d = Inr (p, d')"
    and mine: "\<forall>s\<in>set ss. es_project_id s = i"
  shows "projects_ok d'"
proof -
  from run ok mine obtain q where
    d': "d' = d\<lparr>t_projects := upd (\<lambda>p. prj_id p = i) (configured config now) (t_projects d),
            t_environment_secrets := t_environment_secrets d'\<rparr>" and sec: "secrets_ok d'"
    by (blast elim: update_settings_row_Inr)
  let ?rows = "upd (\<lambda>p. prj_id p = i) (configured config now) (t_projects d)"
  have rows: "t_projects d' = ?rows" by (subst d') simp
  have "map prj_id ?rows = map prj_id (t_projects d)" "map prj_name ?rows = map prj_name (t_projects d)"
    "map prj_repository_url ?rows = map prj_repository_url (t_projects d)"
    by (simp_all add: configured_def)
  moreover have "\<forall>p\<in>set ?rows. project_row_ok p"
    by (rule ball_upd) (use projects_okD(3) [OF ok] in \<open>auto simp: project_row_ok_def configured_def\<close>)
  ultimately show ?thesis using ok sec by (simp add: projects_ok_def rows)
qed

end
