(* ===== verification/Secret_Store.thy ===== *)
theory Secret_Store
  imports Project_Repository "HOL-Library.AList"
begin

text \<open>
  \<open>secrets/store.py\<close>: secrets as write-once private files below a runtime root.  The
  part of the file system below the root is a tree of entries with their permission bits
  and whether this process owns them; \<open>Special\<close> is anything that is neither a regular
  file nor a directory (\<open>O_NOFOLLOW\<close> and \<open>follow_symlinks=False\<close> make a link one of
  these).  What an operation has created stays there when it raises.  \<open>sha\<close> is
  \<open>hashlib.sha256(\<dots>).hexdigest()\<close>.
\<close>

section \<open>Files\<close>

datatype entry =
    Regular nat bool string
  | Directory nat bool "(string \<times> entry) list"
  | Special

record secret_state =
  ss_root :: "entry option"
  ss_locks :: "uuid list"

record stored_secret =
  st_reference :: string
  st_version :: int
  st_fingerprint :: string

text \<open>Modes \<open>0o700\<close>, \<open>0o600\<close> and \<open>0o400\<close>; \<open>mode & 0o077\<close> is the last six bits.\<close>

definition mode_700 :: nat where "mode_700 = 448"
definition mode_600 :: nat where "mode_600 = 384"
definition mode_400 :: nat where "mode_400 = 256"

definition is_private :: "nat \<Rightarrow> bool" where
  "is_private mode = (mode mod 64 = 0)"

fun lookup_path :: "string list \<Rightarrow> entry \<Rightarrow> entry option" where
  "lookup_path [] e = Some e"
| "lookup_path (p # ps) (Directory m own es) =
     (case map_of es p of None \<Rightarrow> None | Some e \<Rightarrow> lookup_path ps e)"
| "lookup_path (p # ps) _ = None"

definition secret_error :: "string \<Rightarrow> exn + 'a" where
  "secret_error m = Inl (SecretStoreError m)"

lemma secret_error_Inr [simp]: "secret_error m \<noteq> Inr x"
  by (simp add: secret_error_def)

text \<open>\<open>str.encode("utf-8")\<close> and \<open>bytes.decode("utf-8")\<close> below code point 256.\<close>

definition utf8_char :: "char \<Rightarrow> string" where
  "utf8_char c =
     (let n = of_char c :: nat in
      if n < 128 then [c] else [char_of (192 + n div 64), char_of (128 + n mod 64)])"

definition utf8_encode :: "string \<Rightarrow> string" where
  "utf8_encode s = concat (map utf8_char s)"

fun utf8_decode :: "string \<Rightarrow> string option" where
  "utf8_decode [] = Some []"
| "utf8_decode [c] = (if of_char c < (128 :: nat) then Some [c] else None)"
| "utf8_decode (c # x # cs) =
     (let n = of_char c :: nat; m = of_char x :: nat in
      if n < 128 then map_option ((#) c) (utf8_decode (x # cs))
      else if n \<in> set [194, 195] \<and> 128 \<le> m \<and> m < 192
        then map_option ((#) (char_of ((n - 192) * 64 + (m - 128)))) (utf8_decode cs)
      else None)"

section \<open>Paths\<close>

fun join_path :: "string list \<Rightarrow> string" where
  "join_path [] = ''.''"
| "join_path [p] = p"
| "join_path (p # ps) = p @ ''/'' @ join_path ps"

definition safe_relative :: "string \<Rightarrow> exn + string list" where
  "safe_relative value =
     (let parts = posix_parts value in
      if starts_with ''/'' value \<or> parts = [] \<or> list_ex (\<lambda>p. p \<in> set [[], ''.'', ''..'']) parts
        then secret_error ''secret reference must be a canonical relative path''
      else Inr parts)"

fun int_digits :: "int \<Rightarrow> string" where
  "int_digits n = (if n < 0 then ''-'' @ digits (nat (- n)) else digits (nat n))"

definition secret_file_name :: "int \<Rightarrow> string" where
  "secret_file_name version = ''v'' @ int_digits version @ ''.secret''"

section \<open>Creating and reading\<close>

text \<open>\<open>_ensure_private_directory\<close> below the root: every missing directory is made with
  mode \<open>0o700\<close>, the last one's mode is set.\<close>

fun ensure_private_directory :: "string list \<Rightarrow> entry \<Rightarrow> (exn + unit) \<times> entry" where
  "ensure_private_directory [] (Directory m own es) =
     (if own then (Inr (), Directory mode_700 own es)
      else (Inl (OtherError ''PermissionError''), Directory m own es))"
| "ensure_private_directory [] e =
     (secret_error ''secret directory is not a private directory'', e)"
| "ensure_private_directory (p # ps) (Directory m own es) =
     (let child = (case map_of es p of None \<Rightarrow> Directory mode_700 True [] | Some e \<Rightarrow> e);
          (r, child') = ensure_private_directory ps child in
      (r, Directory m own (AList.update p child' es)))"
| "ensure_private_directory (p # ps) e =
     (secret_error ''secret directory is not a private directory'', e)"

definition read_private_file :: "entry option \<Rightarrow> exn + string" where
  "read_private_file e =
     (case e of
        Some (Regular mode own payload) \<Rightarrow>
          if is_private mode then Inr payload
          else secret_error ''secret file permissions are too broad''
      | _ \<Rightarrow> secret_error ''secret file is missing or unsafe'')"

text \<open>A new regular file in an existing directory; \<open>_write_once\<close> leaves one of mode
  \<open>0o400\<close>.\<close>

fun put_file :: "nat \<Rightarrow> string list \<Rightarrow> string \<Rightarrow> string \<Rightarrow> entry \<Rightarrow> entry" where
  "put_file mode [] name payload (Directory m own es) =
     Directory m own (AList.update name (Regular mode True payload) es)"
| "put_file mode (p # ps) name payload (Directory m own es) =
     (case map_of es p of
        None \<Rightarrow> Directory m own es
      | Some e \<Rightarrow> Directory m own (AList.update p (put_file mode ps name payload e) es))"
| "put_file mode ps name payload e = e"

definition write_once :: "string list \<Rightarrow> string \<Rightarrow> string \<Rightarrow> entry \<Rightarrow> entry" where
  "write_once = put_file mode_400"

definition root_entry :: "secret_state \<Rightarrow> entry" where
  "root_entry s = (case ss_root s of None \<Rightarrow> Directory mode_700 True [] | Some e \<Rightarrow> e)"

text \<open>\<open>create\<close>; \<open>token\<close> is \<open>secrets.token_urlsafe(32)\<close>.\<close>

definition store_secret ::
    "(string \<Rightarrow> string) \<Rightarrow> string \<Rightarrow> string list \<Rightarrow> int \<Rightarrow> string option \<Rightarrow> entry \<Rightarrow>
     (exn + stored_secret) \<times> entry" where
  "store_secret sha token parts version value e =
     (let name = secret_file_name version;
          payload = utf8_encode (case value of None \<Rightarrow> token | Some v \<Rightarrow> v);
          fingerprint = sha payload;
          stored = (\<lambda>f. \<lparr>st_reference = join_path (parts @ [name]), st_version = version,
                         st_fingerprint = f\<rparr>) in
      case lookup_path (parts @ [name]) e of
        None \<Rightarrow> (Inr (stored fingerprint), write_once parts name payload e)
      | Some x \<Rightarrow>
          (case read_private_file (Some x) of
             Inl err \<Rightarrow> (Inl err, e)
           | Inr existing \<Rightarrow>
               if sha existing \<noteq> fingerprint \<and> value \<noteq> None
                 then (secret_error ''secret version already exists with different content'', e)
               else (Inr (stored (sha existing)), e)))"

definition create_secret ::
    "(string \<Rightarrow> string) \<Rightarrow> string \<Rightarrow> string \<Rightarrow> int \<Rightarrow> string option \<Rightarrow>
     (secret_state, stored_secret) act" where
  "create_secret sha token reference_root version value = (\<lambda>s.
     case safe_relative reference_root of
       Inl err \<Rightarrow> (Inl err, s)
     | Inr parts \<Rightarrow>
         (case ensure_private_directory [] (root_entry s) of
            (Inl err, e) \<Rightarrow> (Inl err, s\<lparr>ss_root := Some e\<rparr>)
          | (Inr _, e) \<Rightarrow>
              (case ensure_private_directory parts e of
                 (Inl err, e') \<Rightarrow> (Inl err, s\<lparr>ss_root := Some e'\<rparr>)
               | (Inr _, e') \<Rightarrow>
                   (let (r, e'') = store_secret sha token parts version value e'
                    in (r, s\<lparr>ss_root := Some e''\<rparr>)))))"

definition resolve_secret ::
    "(string \<Rightarrow> string) \<Rightarrow> string \<Rightarrow> string \<Rightarrow> secret_state \<Rightarrow> exn + string" where
  "resolve_secret sha reference fingerprint s =
     bind_sum (safe_relative reference) (\<lambda>parts.
     bind_sum (read_private_file (case ss_root s of None \<Rightarrow> None | Some e \<Rightarrow> lookup_path parts e))
       (\<lambda>payload.
       if sha payload \<noteq> fingerprint
         then secret_error ''secret fingerprint does not match metadata''
       else Inr payload))"

definition read_secret ::
    "(string \<Rightarrow> string) \<Rightarrow> string \<Rightarrow> string \<Rightarrow> secret_state \<Rightarrow> exn + string" where
  "read_secret sha reference fingerprint s =
     bind_sum (resolve_secret sha reference fingerprint s) (\<lambda>payload.
       case utf8_decode payload of
         None \<Rightarrow> Inl (OtherError ''UnicodeDecodeError'')
       | Some v \<Rightarrow> Inr v)"

section \<open>Project locks\<close>

text \<open>\<open>project_operation_lock\<close>: the lock files of other processes are the list of their
  projects.  A blocking acquisition waits until the project is free; a program runs under
  the lock and releases it whatever happens.\<close>

fun private_directory :: "entry \<Rightarrow> bool" where
  "private_directory (Directory mode own es) = (own \<and> mode = mode_700)"
| "private_directory _ = False"

fun ensure_private_directory_strict :: "string list \<Rightarrow> entry \<Rightarrow> (exn + unit) \<times> entry" where
  "ensure_private_directory_strict [] e = (Inr (), e)"
| "ensure_private_directory_strict (p # ps) (Directory m own es) =
     (case map_of es p of
        Some e \<Rightarrow>
          if \<not> private_directory e
            then (secret_error ''unsafe project secret subtree'', Directory m own es)
          else (let (r, e') = ensure_private_directory_strict ps e
                in (r, Directory m own (AList.update p e' es)))
      | None \<Rightarrow>
          (let (r, e') = ensure_private_directory_strict ps (Directory mode_700 True [])
           in (r, Directory m own (AList.update p e' es))))"
| "ensure_private_directory_strict (p # ps) e = (Inl (OtherError ''OSError''), e)"

definition acquire_project_lock :: "uuid \<Rightarrow> bool \<Rightarrow> (secret_state, unit) act" where
  "acquire_project_lock i blocking = (\<lambda>s.
     let e = root_entry s in
     if \<not> private_directory e then (secret_error ''unsafe project secret subtree'', s)
     else case ensure_private_directory_strict [''.locks'', ''projects''] e of
       (Inl err, e') \<Rightarrow> (Inl err, s\<lparr>ss_root := Some e'\<rparr>)
     | (Inr _, e') \<Rightarrow>
         (case lookup_path [''.locks'', ''projects'', uuid_str i @ ''.lock''] e' of
            Some (Regular mode own payload) \<Rightarrow>
              if \<not> (own \<and> mode = mode_600)
                then (secret_error ''project operation lock is unsafe'', s\<lparr>ss_root := Some e'\<rparr>)
              else if i \<in> set (ss_locks s) \<and> \<not> blocking
                then (Inl SecretStoreBusyError, s\<lparr>ss_root := Some e'\<rparr>)
              else (Inr (), s\<lparr>ss_root := Some e', ss_locks := i # removeAll i (ss_locks s)\<rparr>)
          | Some _ \<Rightarrow> (Inl (OtherError ''OSError''), s\<lparr>ss_root := Some e'\<rparr>)
          | None \<Rightarrow>
              (let e'' = put_file mode_600 [''.locks'', ''projects''] (uuid_str i @ ''.lock'') [] e' in
               if i \<in> set (ss_locks s) \<and> \<not> blocking
                 then (Inl SecretStoreBusyError, s\<lparr>ss_root := Some e''\<rparr>)
               else (Inr (), s\<lparr>ss_root := Some e'', ss_locks := i # removeAll i (ss_locks s)\<rparr>))))"

definition release_project_lock :: "uuid \<Rightarrow> (secret_state, unit) act" where
  "release_project_lock i = (\<lambda>s. (Inr (), s\<lparr>ss_locks := removeAll i (ss_locks s)\<rparr>))"

text \<open>\<open>with store.project_operation_lock(i): m\<close> over a state that contains the store.\<close>

definition with_project_lock ::
    "uuid \<Rightarrow> bool \<Rightarrow> (secret_state \<times> 'd, 'a) act \<Rightarrow> (secret_state \<times> 'd, 'a) act" where
  "with_project_lock i blocking m = (\<lambda>(s, d).
     case acquire_project_lock i blocking s of
       (Inl e, s') \<Rightarrow> (Inl e, (s', d))
     | (Inr _, s') \<Rightarrow>
         (let (r, (s'', d')) = m (s', d) in (r, (snd (release_project_lock i s''), d'))))"

section \<open>Deleting a project's secrets\<close>

fun entry_private :: "entry \<Rightarrow> bool" where
  "entry_private (Regular mode own payload) = (own \<and> is_private mode)"
| "entry_private (Directory mode own es) =
     (own \<and> mode = mode_700 \<and> list_all (\<lambda>(n, e). entry_private e) es)"
| "entry_private Special = False"

definition validate_tree :: "(string \<times> entry) list \<Rightarrow> bool" where
  "validate_tree es = list_all (\<lambda>(n, e). entry_private e) es"

text \<open>The directory of a project, if the way to it exists and is private.\<close>

datatype subtree = Absent | Unsafe exn | Subtree "(string \<times> entry) list" "(string \<times> entry) list"

definition unsafe :: subtree where
  "unsafe = Unsafe (SecretStoreError ''unsafe project secret subtree'')"

definition open_project_subtree :: "uuid \<Rightarrow> secret_state \<Rightarrow> subtree" where
  "open_project_subtree i s =
     (case ss_root s of
        None \<Rightarrow> Absent
      | Some (Directory mode own es) \<Rightarrow>
          if \<not> private_directory (Directory mode own es) then unsafe
          else (case map_of es ''projects'' of
                  None \<Rightarrow> Absent
                | Some (Directory pmode pown ps) \<Rightarrow>
                    if \<not> private_directory (Directory pmode pown ps) then unsafe
                    else (case map_of ps (uuid_str i) of
                            None \<Rightarrow> Absent
                          | Some (Directory tmode town ts) \<Rightarrow>
                              if private_directory (Directory tmode town ts) then Subtree ps ts
                              else unsafe
                          | Some _ \<Rightarrow> unsafe)
                | Some _ \<Rightarrow> unsafe)
      | Some _ \<Rightarrow> Unsafe (OtherError ''NotADirectoryError''))"

definition set_projects :: "(string \<times> entry) list \<Rightarrow> secret_state \<Rightarrow> secret_state" where
  "set_projects ps s =
     (case ss_root s of
        Some (Directory mode own es) \<Rightarrow>
          s\<lparr>ss_root := Some (Directory mode own
               (AList.update ''projects'' (Directory mode_700 True ps) es))\<rparr>
      | _ \<Rightarrow> s)"

definition delete_project_subtree :: "uuid \<Rightarrow> (secret_state, unit) act" where
  "delete_project_subtree i = (\<lambda>s.
     case open_project_subtree i s of
       Absent \<Rightarrow> (Inr (), s)
     | Unsafe e \<Rightarrow> (Inl e, s)
     | Subtree ps ts \<Rightarrow>
         if \<not> validate_tree ts
           then (secret_error ''unsafe project secret subtree'', s)
         else (Inr (), set_projects (AList.delete (uuid_str i) ps) s))"

definition project_subtree_absent :: "uuid \<Rightarrow> (secret_state, bool) act" where
  "project_subtree_absent i = (\<lambda>s.
     case open_project_subtree i s of
       Absent \<Rightarrow> (Inr True, s)
     | Unsafe e \<Rightarrow> (Inl e, s)
     | Subtree ps ts \<Rightarrow>
         if \<not> validate_tree ts
           then (secret_error ''unsafe project secret subtree'', s)
         else (Inr False, s))"

section \<open>Encoding\<close>

lemma utf8_char_cases:
  obtains (one) "utf8_char c = [c]" "of_char c < (128 :: nat)"
  | (two) a b where "utf8_char c = [a, b]" "of_char a \<in> {194, 195 :: nat}"
      "of_char b = 128 + of_char c mod (64 :: nat)" "(of_char a :: nat) - 192 = of_char c div 64"
      "128 \<le> (of_char c :: nat)"
proof (cases "of_char c < (128 :: nat)")
  case True
  then show ?thesis using one by (simp add: utf8_char_def Let_def)
next
  case False
  have lt: "of_char c < (256 :: nat)" by simp
  define q where "q = (of_char c :: nat) div 64"
  have q: "q = 2 \<or> q = 3" using False lt unfolding q_def by linarith
  have a: "of_char (char_of (192 + q) :: char) = 192 + q" using q by auto
  have b: "of_char (char_of (128 + of_char c mod 64 :: nat) :: char) = 128 + of_char c mod (64 :: nat)"
    by (subst of_char_of) simp
  have "utf8_char c = [char_of (192 + q), char_of (128 + of_char c mod (64 :: nat))]"
    using False by (simp add: utf8_char_def Let_def q_def)
  then show ?thesis
    by (rule two) (use a b q False in \<open>auto simp: q_def\<close>)
qed

lemma utf8_roundtrip: "utf8_decode (utf8_encode s) = Some s"
proof (induction s)
  case Nil
  then show ?case by (simp add: utf8_encode_def)
next
  case (Cons c s)
  have enc: "utf8_encode (c # s) = utf8_char c @ utf8_encode s" by (simp add: utf8_encode_def)
  show ?case
  proof (cases c rule: utf8_char_cases)
    case one
    with Cons.IH show ?thesis unfolding enc
      by (cases "utf8_encode s") (simp_all add: Let_def)
  next
    case (two a b)
    have lt: "of_char c mod (64 :: nat) < 64" by simp
    have n: "(of_char a - 192) * 64 + (of_char b - 128) = (of_char c :: nat)"
      using two(3,4) div_mult_mod_eq [of "of_char c :: nat" 64] by simp
    have guard: "\<not> of_char a < (128 :: nat)" "of_char a \<in> set [194, 195 :: nat]"
      "128 \<le> (of_char b :: nat)" "of_char b < (192 :: nat)"
      using two(2,3) lt by auto
    show ?thesis
      unfolding enc two(1) using Cons.IH guard n by (simp add: Let_def)
  qed
qed

section \<open>A stored secret stays what it is\<close>

definition has_file :: "string list \<Rightarrow> string \<Rightarrow> entry \<Rightarrow> bool" where
  "has_file q payload e = (\<exists>mode own. lookup_path q e = Some (Regular mode own payload) \<and> is_private mode)"

lemma lookup_append:
  "lookup_path (ps @ qs) e = (case lookup_path ps e of None \<Rightarrow> None | Some x \<Rightarrow> lookup_path qs x)"
  by (induction ps e rule: lookup_path.induct) (auto split: option.splits)

lemma lookup_not_directory [simp]:
  "lookup_path ps (Regular a b c) \<noteq> Some (Directory m own es)"
  "lookup_path ps Special \<noteq> Some (Directory m own es)"
  by (cases ps; simp)+

lemma lookup_put_same:
  "lookup_path ps e = Some (Directory m own es) \<Longrightarrow>
   lookup_path (ps @ [n]) (put_file mode ps n payload e) = Some (Regular mode True payload)"
  by (induction mode ps n payload e rule: put_file.induct)
    (auto simp: update_conv split: option.splits)

lemma root_entry_update [simp]: "root_entry (s\<lparr>ss_root := Some e\<rparr>) = e"
  by (simp add: root_entry_def)

lemma lookup_put_other:
  "lookup_path q e = Some (Regular qm qo qp) \<Longrightarrow> lookup_path (ps @ [n]) e = None \<Longrightarrow>
   lookup_path q (put_file mode ps n payload e) = Some (Regular qm qo qp)"
proof (induction mode ps n payload e arbitrary: q rule: put_file.induct)
  case (1 mode name payload m own es)
  then show ?case by (cases q) (auto simp: update_conv split: option.splits)
next
  case (2 mode p ps name payload m own es)
  then show ?case by (cases q) (auto simp: update_conv split: option.splits)
qed auto

lemma ensure_keeps_file:
  "lookup_path q e = Some (Regular qm qo qp) \<Longrightarrow>
   lookup_path q (snd (ensure_private_directory ps e)) = Some (Regular qm qo qp)"
proof (induction ps e arbitrary: q rule: ensure_private_directory.induct)
  case (1 m own es)
  then show ?case by (cases q) auto
next
  case (3 p ps m own es)
  then obtain q1 qs where q: "q = q1 # qs" by (cases q) auto
  show ?case
  proof (cases "q1 = p")
    case True
    with 3(2) q obtain x where x: "map_of es p = Some x" "lookup_path qs x = Some (Regular qm qo qp)"
      by (auto split: option.splits)
    with 3(1) [of x qs] True q show ?thesis by (simp add: case_prod_beta update_conv Let_def)
  next
    case False
    with 3(2) q show ?thesis by (simp add: case_prod_beta update_conv Let_def)
  qed
qed auto

lemma ensure_makes_directory:
  "ensure_private_directory ps e = (Inr u, e') \<Longrightarrow> \<exists>own es. lookup_path ps e' = Some (Directory mode_700 own es)"
proof (induction ps e arbitrary: e' rule: ensure_private_directory.induct)
  case (1 m own es)
  then show ?case by (auto split: if_splits)
next
  case (3 p ps m own es)
  let ?child = "case map_of es p of None \<Rightarrow> Directory mode_700 True [] | Some e \<Rightarrow> e"
  obtain r c' where r: "ensure_private_directory ps ?child = (r, c')" by fastforce
  with 3(2) have "r = Inr u" "e' = Directory m own (AList.update p c' es)" by (simp_all add: Let_def)
  with 3(1) [OF refl, of c'] r show ?case by (simp add: update_conv)
qed (auto simp: secret_error_def)

lemma store_secret_keeps_file:
  "lookup_path q e = Some (Regular qm qo qp) \<Longrightarrow>
   lookup_path q (snd (store_secret sha token parts version value e)) = Some (Regular qm qo qp)"
  by (auto simp: store_secret_def Let_def write_once_def lookup_put_other split: option.splits sum.splits)

lemma create_secret_keeps_file:
  assumes "lookup_path q (root_entry s) = Some (Regular qm qo qp)"
  shows "lookup_path q (root_entry (snd (create_secret sha token root version value s))) =
    Some (Regular qm qo qp)"
proof (cases "safe_relative root")
  case (Inl e)
  with assms show ?thesis by (simp add: create_secret_def)
next
  case (Inr parts)
  obtain r1 e1 where e1: "ensure_private_directory [] (root_entry s) = (r1, e1)" by fastforce
  obtain r2 e2 where e2: "ensure_private_directory parts e1 = (r2, e2)" by fastforce
  obtain r3 e3 where e3: "store_secret sha token parts version value e2 = (r3, e3)" by fastforce
  have k1: "lookup_path q e1 = Some (Regular qm qo qp)"
    using ensure_keeps_file [OF assms, of "[]"] e1 by simp
  then have k2: "lookup_path q e2 = Some (Regular qm qo qp)"
    using ensure_keeps_file [of q e1 qm qo qp parts] e2 by simp
  then have k3: "lookup_path q e3 = Some (Regular qm qo qp)"
    using store_secret_keeps_file [of q e2 qm qo qp sha token parts version "value"] e3 by simp
  show ?thesis
    using k1 k2 k3 by (simp add: create_secret_def Inr e1 e2 e3 split: sum.splits)
qed

lemma read_private_file_Inr:
  "read_private_file x = Inr payload \<longleftrightarrow>
   (\<exists>mode own. x = Some (Regular mode own payload) \<and> is_private mode)"
  by (cases x) (auto simp: read_private_file_def split: entry.splits)

lemma read_secret_Inr:
  "read_secret sha reference fp s = Inr v \<longleftrightarrow>
   (\<exists>parts mode own payload. safe_relative reference = Inr parts \<and>
      (\<exists>e. ss_root s = Some e \<and> lookup_path parts e = Some (Regular mode own payload)) \<and>
      is_private mode \<and> sha payload = fp \<and> utf8_decode payload = Some v)"
proof -
  have dec: "(case utf8_decode p of None \<Rightarrow> Inl (OtherError ''UnicodeDecodeError'') | Some v \<Rightarrow> Inr v) =
      (Inr v :: exn + string) \<longleftrightarrow> utf8_decode p = Some v" for p
    by (cases "utf8_decode p") auto
  have sha: "(if sha p \<noteq> fp then secret_error m else Inr p) = (Inr q :: exn + string) \<longleftrightarrow>
      sha p = fp \<and> p = q" for p q m by auto
  show ?thesis
    unfolding read_secret_def resolve_secret_def bind_sum_Inr read_private_file_Inr dec sha
    by (cases "ss_root s") auto
qed

lemma create_secret_root: "ss_root (snd (create_secret sha token root version value s)) \<noteq> None \<or>
   snd (create_secret sha token root version value s) = s"
  by (auto simp: create_secret_def Let_def split: sum.splits prod.splits)

lemma create_secret_keeps_secret:
  assumes "read_secret sha reference fp s = Inr v"
  shows "read_secret sha reference fp (snd (create_secret sha token root version value s)) = Inr v"
proof -
  let ?s = "snd (create_secret sha token root version value s)"
  from assms obtain parts mode own payload e where
    e: "safe_relative reference = Inr parts" "ss_root s = Some e"
      "lookup_path parts e = Some (Regular mode own payload)" "is_private mode"
      "sha payload = fp" "utf8_decode payload = Some v"
    unfolding read_secret_Inr by blast
  have "lookup_path parts (root_entry s) = Some (Regular mode own payload)"
    using e(2,3) by (simp add: root_entry_def)
  from create_secret_keeps_file [OF this]
  have k: "lookup_path parts (root_entry ?s) = Some (Regular mode own payload)" .
  show ?thesis
  proof (cases "ss_root ?s")
    case None
    with create_secret_root [of sha token root version "value" s] assms show ?thesis by auto
  next
    case (Some e')
    with k e show ?thesis unfolding read_secret_Inr by (auto simp: root_entry_def)
  qed
qed

section \<open>Reading back what was stored\<close>

definition plain_part :: "string \<Rightarrow> bool" where
  "plain_part p = (p \<noteq> [] \<and> p \<noteq> ''.'' \<and> p \<noteq> ''..'' \<and> CHR ''/'' \<notin> set p)"

lemma split_on_no_sep: "c \<notin> set s \<Longrightarrow> split_on c s = [s]"
  by (induction s) auto

lemma split_on_join: "c \<notin> set p \<Longrightarrow> split_on c (p @ c # s) = p # split_on c s"
  by (induction p) auto

lemma split_join_path:
  "\<forall>p\<in>set ps. plain_part p \<Longrightarrow> ps \<noteq> [] \<Longrightarrow> split_on CHR ''/'' (join_path ps) = ps"
proof (induction ps rule: join_path.induct)
  case (2 p)
  then show ?case by (simp add: plain_part_def split_on_no_sep)
next
  case (3 p q ps)
  then show ?case by (simp add: plain_part_def split_on_join)
qed simp

lemma posix_parts_join:
  assumes "\<forall>p\<in>set ps. plain_part p" "ps \<noteq> []"
  shows "posix_parts (join_path ps) = ps"
  unfolding posix_parts_def split_join_path [OF assms]
  using assms(1) by (auto simp: filter_id_conv plain_part_def)

lemma join_path_relative:
  assumes "\<forall>p\<in>set ps. plain_part p" "ps \<noteq> []"
  shows "\<not> starts_with ''/'' (join_path ps)"
proof -
  obtain p qs where ps: "ps = p # qs" using assms(2) by (cases ps) auto
  with assms(1) obtain c cs where p: "p = c # cs" "c \<noteq> CHR ''/''"
    by (cases p) (auto simp: plain_part_def)
  then show ?thesis by (cases qs) (simp_all add: ps starts_with_single)
qed

lemma safe_relative_join:
  assumes "\<forall>p\<in>set ps. plain_part p" "ps \<noteq> []"
  shows "safe_relative (join_path ps) = Inr ps"
proof -
  have "\<not> list_ex (\<lambda>p. p \<in> set [[], ''.'', ''..'']) ps"
    using assms(1) by (auto simp: list_ex_iff plain_part_def)
  then show ?thesis
    using posix_parts_join [OF assms] join_path_relative [OF assms] assms(2)
    by (simp add: safe_relative_def Let_def)
qed

lemma split_on_parts: "p \<in> set (split_on c s) \<Longrightarrow> c \<notin> set p"
proof (induction s arbitrary: p)
  case Nil
  then show ?case by simp
next
  case (Cons x s)
  then show ?case by (auto split: if_splits list.splits)
qed

lemma safe_relative_plain:
  assumes "safe_relative v = Inr ps"
  shows "ps \<noteq> []" "\<forall>p\<in>set ps. plain_part p"
proof -
  from assms have ps: "ps = posix_parts v" "ps \<noteq> []" "\<not> list_ex (\<lambda>p. p \<in> set [[], ''.'', ''..'']) ps"
    unfolding safe_relative_def Let_def by (auto simp only: secret_error_Inr sum.inject split: if_split_asm)
  then show "ps \<noteq> []" by simp
  show "\<forall>p\<in>set ps. plain_part p"
  proof
    fix p assume p: "p \<in> set ps"
    then have "p \<in> set (split_on CHR ''/'' v)" unfolding ps(1) posix_parts_def by simp
    then have "CHR ''/'' \<notin> set p" by (rule split_on_parts)
    moreover have "p \<notin> set [[], ''.'', ''..'']" using ps(3) p unfolding list_ex_iff by blast
    ultimately show "plain_part p" by (simp add: plain_part_def)
  qed
qed

lemma hex_digit_in: "n < 16 \<Longrightarrow> hex_digit n \<in> set ''0123456789abcdef''"
  unfolding hex_digit_def by (rule nth_mem) simp

declare digits.simps [simp del]

lemma digits_no_slash: "CHR ''/'' \<notin> set (digits n)"
proof (induction n rule: digits.induct)
  case (1 n)
  have slash: "hex_digit k \<noteq> CHR ''/''" if "k < 16" for k
    using hex_digit_in [OF that] by (auto simp del: set_simps) auto
  have "n mod 10 < 10" by simp
  then have last: "hex_digit (n mod 10) \<noteq> CHR ''/''" by (intro slash) simp
  show ?case
  proof (cases "n < 10")
    case True
    then show ?thesis using slash [of n] by (subst digits.simps) auto
  next
    case False
    with 1 last show ?thesis by (subst digits.simps) auto
  qed
qed

lemma secret_file_name_plain: "plain_part (secret_file_name version)"
  using digits_no_slash by (auto simp: plain_part_def secret_file_name_def)

definition collision_free :: "(string \<Rightarrow> string) \<Rightarrow> string \<Rightarrow> bool" where
  "collision_free sha v = (\<forall>p. sha p = sha (utf8_encode v) \<longrightarrow> p = utf8_encode v)"

lemma store_secret_reads_back:
  assumes free: "collision_free sha v" and parts: "parts \<noteq> []" "\<forall>p\<in>set parts. plain_part p"
    and dir: "lookup_path parts e = Some (Directory m own es)"
    and run: "store_secret sha token parts version (Some v) e = (Inr st, e')"
    and root: "ss_root s = Some e'"
  shows "read_secret sha (st_reference st) (st_fingerprint st) s = Inr v"
proof -
  let ?path = "parts @ [secret_file_name version]"
  have path: "safe_relative (join_path ?path) = Inr ?path"
    by (rule safe_relative_join) (use parts secret_file_name_plain in auto)
  show ?thesis
  proof (cases "lookup_path ?path e")
    case None
    with run have st: "st_reference st = join_path ?path" "st_fingerprint st = sha (utf8_encode v)"
      and e': "e' = put_file mode_400 parts (secret_file_name version) (utf8_encode v) e"
      by (auto simp: store_secret_def Let_def write_once_def)
    have "lookup_path ?path e' = Some (Regular mode_400 True (utf8_encode v))"
      unfolding e' by (rule lookup_put_same [OF dir])
    then show ?thesis
      unfolding read_secret_Inr st using path root utf8_roundtrip [of v]
      by (auto simp: is_private_def mode_400_def)
  next
    case (Some x)
    from run Some obtain old where old: "read_private_file (Some x) = Inr old"
      and same: "sha old = sha (utf8_encode v)" and e': "e' = e"
      and st: "st_reference st = join_path ?path" "st_fingerprint st = sha old"
      by (auto simp: store_secret_def Let_def secret_error_def split: sum.splits if_splits)
    have "old = utf8_encode v" using free same by (simp add: collision_free_def)
    with old Some path root e' utf8_roundtrip [of v] show ?thesis
      unfolding read_secret_Inr st read_private_file_Inr by auto
  qed
qed

lemma create_secret_reads_back:
  assumes free: "collision_free sha v"
    and run: "create_secret sha token root version (Some v) s = (Inr st, s')"
  shows "read_secret sha (st_reference st) (st_fingerprint st) s' = Inr v"
proof -
  from run obtain parts where parts: "safe_relative root = Inr parts"
    by (cases "safe_relative root") (auto simp: create_secret_def)
  obtain r1 e1 where e1: "ensure_private_directory [] (root_entry s) = (r1, e1)" by fastforce
  obtain r2 e2 where e2: "ensure_private_directory parts e1 = (r2, e2)" by fastforce
  obtain r3 e3 where e3: "store_secret sha token parts version (Some v) e2 = (r3, e3)" by fastforce
  from run obtain u1 u2 where r: "r1 = Inr u1" "r2 = Inr u2" "r3 = Inr st" "s' = s\<lparr>ss_root := Some e3\<rparr>"
    by (cases r1; cases r2) (auto simp: create_secret_def parts e1 e2 e3)
  from ensure_makes_directory [of parts e1 u2 e2] e2 r obtain own es where
    "lookup_path parts e2 = Some (Directory mode_700 own es)" by blast
  from store_secret_reads_back [OF free safe_relative_plain [OF parts] this e3 [unfolded r(3)]] r(4)
  show ?thesis by simp
qed

section \<open>A deleted subtree is gone, and only it\<close>

lemma delete_then_absent:
  assumes "distinct (map fst ps)" "open_project_subtree i s = Subtree ps ts" "validate_tree ts"
  shows "delete_project_subtree i s = (Inr (), set_projects (AList.delete (uuid_str i) ps) s)"
    "open_project_subtree i (set_projects (AList.delete (uuid_str i) ps) s) = Absent"
    "j \<noteq> i \<Longrightarrow> open_project_subtree j (set_projects (AList.delete (uuid_str i) ps) s) =
       (case open_project_subtree j s of
          Subtree _ us \<Rightarrow> Subtree (AList.delete (uuid_str i) ps) us
        | x \<Rightarrow> x)"
proof -
  show "delete_project_subtree i s = (Inr (), set_projects (AList.delete (uuid_str i) ps) s)"
    using assms(2,3) by (simp add: delete_project_subtree_def)
  from assms(2) obtain mode own es pmode pown where
    root: "ss_root s = Some (Directory mode own es)" "private_directory (Directory mode own es)"
    and projects: "map_of es ''projects'' = Some (Directory pmode pown ps)"
      "private_directory (Directory pmode pown ps)"
    by (auto simp: open_project_subtree_def unsafe_def split: option.splits entry.splits if_splits)
  let ?s = "set_projects (AList.delete (uuid_str i) ps) s"
  let ?es = "AList.update ''projects'' (Directory mode_700 True (AList.delete (uuid_str i) ps)) es"
  have s': "ss_root ?s = Some (Directory mode own ?es)" using root(1) by (simp add: set_projects_def)
  have ps': "map_of ?es ''projects'' = Some (Directory mode_700 True (AList.delete (uuid_str i) ps))"
    by (simp add: update_conv)
  show "open_project_subtree i ?s = Absent"
    using s' ps' root(2) by (simp add: open_project_subtree_def delete_conv)
  show "open_project_subtree j ?s = (case open_project_subtree j s of
          Subtree _ us \<Rightarrow> Subtree (AList.delete (uuid_str i) ps) us | x \<Rightarrow> x)" if "j \<noteq> i"
    using s' ps' root projects that
    by (simp add: open_project_subtree_def delete_conv uuid_str_inj unsafe_def
        split: option.splits entry.splits)
qed

end
