(* ===== verification/Project_Service.thy ===== *)
theory Project_Service
  imports Secret_Store
begin

text \<open>
  \<open>projects/service.py\<close>: what the API does with projects, its errors as \<open>AppError\<close>s, and
  the settings update, which writes new secret versions to the store before it writes the
  configuration to the database.  The Git client is a parameter (a subprocess); the state
  is the secret store with the database.
\<close>

record commit =
  cm_sha :: string
  cm_author_name :: string
  cm_committed_at :: time
  cm_subject :: string

record git_client =
  git_validate_main :: "string \<Rightarrow> exn + unit"
  git_recent_commits :: "string \<Rightarrow> exn + commit list"

text \<open>\<open>except \<dots> as error: raise AppError(\<dots>) from error\<close>.\<close>

definition tx_map_error :: "(exn \<Rightarrow> exn) \<Rightarrow> ('d, 'a) tx \<Rightarrow> ('d, 'a) tx" where
  "tx_map_error h m d = (case m d of Inl e \<Rightarrow> Inl (h e) | Inr r \<Rightarrow> Inr r)"

definition tx_lift :: "exn + 'a \<Rightarrow> ('d, 'a) tx" where
  "tx_lift r d = (case r of Inl e \<Rightarrow> Inl e | Inr a \<Rightarrow> Inr (a, d))"

lemma tx_map_error_Inr [simp]: "tx_map_error h m d = Inr x \<longleftrightarrow> m d = Inr x"
  by (auto simp: tx_map_error_def split: sum.splits)

lemma tx_map_error_Inl [simp]: "tx_map_error h m d = Inl e \<longleftrightarrow> (\<exists>e'. m d = Inl e' \<and> e = h e')"
  by (auto simp: tx_map_error_def split: sum.splits)

lemma tx_lift_Inr [simp]: "tx_lift r d = Inr (a, d') \<longleftrightarrow> r = Inr a \<and> d' = d"
  by (auto simp: tx_lift_def split: sum.splits)

lemma tx_lift_Inl [simp]: "tx_lift r d = Inl e \<longleftrightarrow> r = Inl e"
  by (auto simp: tx_lift_def split: sum.splits)

section \<open>Projects\<close>

definition service_create ::
    "git_client \<Rightarrow> project_create \<Rightarrow> uuid \<Rightarrow> time \<Rightarrow> (db, project) tx" where
  "service_create git request i now =
     tx_map_error
       (\<lambda>e. case e of
              GitAccessError m \<Rightarrow> AppError 422 ''REPOSITORY_UNAVAILABLE'' m
            | ProjectConflictError \<Rightarrow>
                AppError 409 ''PROJECT_CONFLICT'' ''Project name or repository already exists''
            | _ \<Rightarrow> e)
       (tx_seq (tx_lift (git_validate_main git (pc_repository_url request)))
         (create_project i (pc_name request) (pc_repository_url request) now))"

definition project_not_found :: "exn \<Rightarrow> exn" where
  "project_not_found e =
     (if e = ProjectNotFoundError
      then AppError 404 ''PROJECT_NOT_FOUND'' ''Project was not found'' else e)"

definition project_deleting :: exn where
  "project_deleting = AppError 409 ''PROJECT_DELETING'' ''Project deletion is in progress''"

definition service_get_project :: "uuid \<Rightarrow> (db, project) tx" where
  "service_get_project i = tx_map_error project_not_found (get_project i)"

definition ensure_ready :: "project \<Rightarrow> (db, project) tx" where
  "ensure_ready p =
     tx_seq (tx_raise_if (prj_status p = P_DELETING) project_deleting)
       (tx_seq (tx_raise_if (prj_status p \<noteq> P_READY \<or> prj_deployment_config p = None)
                  (AppError 409 ''PROJECT_NOT_READY'' ''Complete project settings before deployment''))
         (tx_ret p))"

definition service_ready :: "uuid \<Rightarrow> (db, project) tx" where
  "service_ready i = tx_bind (service_get_project i) ensure_ready"

definition service_commits :: "git_client \<Rightarrow> uuid \<Rightarrow> (db, commit list) tx" where
  "service_commits git i =
     tx_bind (service_get_project i)
       (\<lambda>p. tx_map_error
          (\<lambda>e. case e of GitAccessError m \<Rightarrow> AppError 503 ''REPOSITORY_UNAVAILABLE'' m | _ \<Rightarrow> e)
          (tx_lift (git_recent_commits git (prj_repository_url p))))"

section \<open>Settings\<close>

text \<open>The secret store of the service, if one is configured, by its digest function.\<close>

definition store_act :: "(secret_state, 'a) act \<Rightarrow> (secret_state \<times> db, 'a) act" where
  "store_act m = (\<lambda>(s, d). let (r, s') = m s in (r, (s', d)))"

definition secret_root :: "uuid \<Rightarrow> string \<Rightarrow> string \<Rightarrow> string" where
  "secret_root i service variable =
     ''projects/'' @ uuid_str i @ ''/environment/'' @ service @ ''/'' @ map lower_char variable"

definition secret_variable_json :: "string \<Rightarrow> environment_secret \<Rightarrow> json" where
  "secret_variable_json name s =
     JObj [(''name'', JStr name), (''kind'', JStr ''SECRET''),
           (''secretReference'', JStr (es_secret_reference s)),
           (''secretVersion'', JInt (es_secret_version s)),
           (''secretFingerprint'', JStr (es_secret_fingerprint s))]"

definition resolved_secret ::
    "uuid \<Rightarrow> string \<Rightarrow> string \<Rightarrow> time \<Rightarrow> environment_secret option \<Rightarrow> stored_secret \<Rightarrow>
     environment_secret" where
  "resolved_secret i service variable now current stored =
     \<lparr>es_project_id = i, es_service_name = service, es_variable_name = variable,
      es_secret_reference = st_reference stored, es_secret_version = st_version stored,
      es_secret_fingerprint = st_fingerprint stored,
      es_created_at = (case current of Some c \<Rightarrow> es_created_at c | None \<Rightarrow> now),
      es_updated_at = now\<rparr>"

definition resolve_variable ::
    "(string \<Rightarrow> string) option \<Rightarrow> uuid \<Rightarrow> string \<Rightarrow> time \<Rightarrow> environment_variable \<Rightarrow>
     (secret_state \<times> db, json \<times> environment_secret option) act" where
  "resolve_variable sha i service now v =
     (case var_kind v of
        PLAIN \<Rightarrow>
          ret (JObj [(''name'', JStr (var_name v)), (''kind'', JStr ''PLAIN''),
                 (''value'', (case var_value v of None \<Rightarrow> JNull | Some s \<Rightarrow> JStr s))], None)
      | SECRET \<Rightarrow>
          bind_act (tx_act (tx_read (get_environment_secret i service (var_name v))))
            (\<lambda>current.
               bind_act
                 (case var_value v of
                    None \<Rightarrow>
                      (case current of
                         None \<Rightarrow> raise (AppError 400 ''SECRET_VALUE_REQUIRED''
                                    (''Provide a value for '' @ service @ ''.'' @ var_name v))
                       | Some c \<Rightarrow> ret c)
                  | Some secret_value \<Rightarrow>
                      (case sha of
                         None \<Rightarrow> raise (AppError 503 ''SECRET_STORAGE_UNAVAILABLE''
                                    ''Project secret storage is not configured'')
                       | Some digest \<Rightarrow>
                           bind_act
                             (store_act (create_secret digest [] (secret_root i service (var_name v))
                                (case current of None \<Rightarrow> 1 | Some c \<Rightarrow> es_secret_version c + 1)
                                (Some secret_value)))
                             (\<lambda>stored. ret (resolved_secret i service (var_name v) now current stored))))
                 (\<lambda>resolved. ret (secret_variable_json (var_name v) resolved, Some resolved))))"

fun resolve_variables ::
    "(string \<Rightarrow> string) option \<Rightarrow> uuid \<Rightarrow> string \<Rightarrow> time \<Rightarrow> environment_variable list \<Rightarrow>
     (secret_state \<times> db, json list \<times> environment_secret list) act" where
  "resolve_variables sha i service now [] = ret ([], [])"
| "resolve_variables sha i service now (v # vs) =
     bind_act (resolve_variable sha i service now v)
       (\<lambda>(j, s). bind_act (resolve_variables sha i service now vs)
          (\<lambda>(js, ss). ret (j # js, (case s of None \<Rightarrow> ss | Some x \<Rightarrow> x # ss))))"

fun resolve_services ::
    "(string \<Rightarrow> string) option \<Rightarrow> uuid \<Rightarrow> time \<Rightarrow> service_config list \<Rightarrow>
     (secret_state \<times> db, json list \<times> environment_secret list) act" where
  "resolve_services sha i now [] = ret ([], [])"
| "resolve_services sha i now (s # ss) =
     bind_act (resolve_variables sha i (sc_name s) now (sc_environment s))
       (\<lambda>(vars, secrets). bind_act (resolve_services sha i now ss)
          (\<lambda>(services, more).
             ret (JObj (dump_service s @ [(''environment'', JList vars)]) # services, secrets @ more)))"

definition resolve_configuration ::
    "(string \<Rightarrow> string) option \<Rightarrow> uuid \<Rightarrow> settings_update \<Rightarrow> time \<Rightarrow>
     (secret_state \<times> db, json \<times> environment_secret list) act" where
  "resolve_configuration sha i u now =
     bind_act (resolve_services sha i now (su_services u))
       (\<lambda>(services, secrets).
          ret (JObj [(''services'', JList services), (''routes'', JList (map dump_route (su_routes u)))],
               secrets))"

definition update_settings_unlocked ::
    "(string \<Rightarrow> string) option \<Rightarrow> uuid \<Rightarrow> settings_update \<Rightarrow> time \<Rightarrow> time \<Rightarrow>
     (secret_state \<times> db, project) act" where
  "update_settings_unlocked sha i u now1 now2 =
     bind_act (tx_act (service_get_project i))
       (\<lambda>current.
          if prj_status current = P_DELETING then raise project_deleting
          else if prj_config_version current \<noteq> su_expected_version u
            then raise (AppError 409 ''PROJECT_VERSION_CONFLICT''
                          ''Reload the project and apply settings again'')
          else bind_act (resolve_configuration sha i u now1)
            (\<lambda>(config, secrets).
               tx_act (update_settings_row i (su_expected_version u) config secrets now2)))"

definition settings_error :: "exn \<Rightarrow> exn" where
  "settings_error e =
     (case e of
        ProjectNotFoundError \<Rightarrow> AppError 404 ''PROJECT_NOT_FOUND'' ''Project was not found''
      | ProjectVersionConflictError \<Rightarrow>
          AppError 409 ''PROJECT_VERSION_CONFLICT'' ''Reload the project and apply settings again''
      | ProjectDeletionConflictError code \<Rightarrow>
          if code \<noteq> ''PROJECT_DELETING'' then e else project_deleting
      | SecretStoreError m \<Rightarrow>
          AppError 500 ''SECRET_STORAGE_FAILED'' ''Could not store the project secret safely''
      | SecretStoreBusyError \<Rightarrow>
          AppError 500 ''SECRET_STORAGE_FAILED'' ''Could not store the project secret safely''
      | _ \<Rightarrow> e)"

definition update_settings ::
    "(string \<Rightarrow> string) option \<Rightarrow> uuid \<Rightarrow> settings_update \<Rightarrow> time \<Rightarrow> time \<Rightarrow>
     (secret_state \<times> db, project) act" where
  "update_settings sha i u now1 now2 =
     try_act
       (case sha of
          None \<Rightarrow> update_settings_unlocked sha i u now1 now2
        | Some _ \<Rightarrow> with_project_lock i True (update_settings_unlocked sha i u now1 now2))
       (\<lambda>e. raise (settings_error e))"

section \<open>Resolving a configuration leaves the database alone\<close>

definition db_kept :: "(secret_state \<times> db, 'a) act \<Rightarrow> bool" where
  "db_kept m = (\<forall>s d. snd (snd (m (s, d))) = d)"

lemma db_kept_rules:
  "db_kept (ret a)" "db_kept (raise e)" "db_kept (tx_act (tx_read f))" "db_kept (store_act n)"
  by (auto simp: db_kept_def ret_def raise_def tx_act_def tx_read_def store_act_def split: prod.splits)

lemma db_kept_bind: "db_kept m \<Longrightarrow> (\<And>a. db_kept (f a)) \<Longrightarrow> db_kept (bind_act m f)"
  unfolding db_kept_def bind_act_def by (auto split: prod.splits sum.splits) (metis snd_conv)+

lemma resolve_variable_db: "db_kept (resolve_variable sha i service now v)"
  unfolding resolve_variable_def
  by (auto intro!: db_kept_bind db_kept_rules split: variable_kind.split option.split)

lemma resolve_variables_db: "db_kept (resolve_variables sha i service now vs)"
  by (induction vs) (auto intro!: db_kept_bind db_kept_rules resolve_variable_db)

lemma resolve_services_db: "db_kept (resolve_services sha i now ss)"
  by (induction ss) (auto intro!: db_kept_bind db_kept_rules resolve_variables_db)

lemma resolve_configuration_db: "db_kept (resolve_configuration sha i u now)"
  unfolding resolve_configuration_def
  by (auto intro!: db_kept_bind db_kept_rules resolve_services_db)

lemma db_keptD: "db_kept m \<Longrightarrow> m (s, d) = (r, (s', d')) \<Longrightarrow> d' = d"
  by (metis db_kept_def snd_conv)

section \<open>What it resolves to\<close>

text \<open>A secret that a deployment can use.\<close>

definition usable_secret :: "uuid \<Rightarrow> string \<Rightarrow> string \<Rightarrow> environment_secret \<Rightarrow> bool" where
  "usable_secret i service variable s =
     (secret_key s = (i, service, variable) \<and> es_secret_reference s \<noteq> [] \<and> secret_checks s)"

definition stored_secrets_usable :: "db \<Rightarrow> bool" where
  "stored_secrets_usable d =
     (\<forall>s\<in>set (t_environment_secrets d). es_secret_reference s \<noteq> [] \<and> secret_checks s)"

definition digest_ok :: "(string \<Rightarrow> string) option \<Rightarrow> bool" where
  "digest_ok sha = (\<forall>f x. sha = Some f \<longrightarrow> fingerprint_matches (f x))"

lemma join_path_nonempty: "\<forall>p\<in>set ps. p \<noteq> [] \<Longrightarrow> join_path ps \<noteq> []"
  by (induction ps rule: join_path.induct) auto

lemma create_secret_Inr:
  assumes "create_secret f token root version v s = (Inr st, s')"
  shows "st_version st = version" "st_reference st \<noteq> []" "\<exists>x. st_fingerprint st = f x"
proof -
  from assms obtain parts where parts: "safe_relative root = Inr parts"
    by (cases "safe_relative root") (auto simp: create_secret_def)
  obtain r1 e1 where e1: "ensure_private_directory [] (root_entry s) = (r1, e1)" by fastforce
  obtain r2 e2 where e2: "ensure_private_directory parts e1 = (r2, e2)" by fastforce
  obtain r3 e3 where e3: "store_secret f token parts version v e2 = (r3, e3)" by fastforce
  from assms have r3: "r3 = Inr st"
    by (cases r1; cases r2) (auto simp: create_secret_def parts e1 e2 e3)
  from e3 [unfolded r3] have st: "st_version st = version \<and>
      st_reference st = join_path (parts @ [secret_file_name version]) \<and> (\<exists>x. st_fingerprint st = f x)"
    by (auto simp: store_secret_def Let_def secret_error_def split: option.splits sum.splits if_splits)
  have "join_path (parts @ [secret_file_name version]) \<noteq> []"
    by (rule join_path_nonempty)
      (use safe_relative_plain [OF parts] secret_file_name_plain [of version] in \<open>auto simp: plain_part_def\<close>)
  with st show "st_version st = version" "st_reference st \<noteq> []" "\<exists>x. st_fingerprint st = f x"
    by auto
qed

lemma bind_act_Inr:
  "bind_act m f s = (Inr b, s'') \<longleftrightarrow> (\<exists>a s'. m s = (Inr a, s') \<and> f a s' = (Inr b, s''))"
  by (auto simp: bind_act_def split: prod.splits sum.splits)

text \<open>Each resolved variable is one the runtime accepts under its own name.\<close>

definition accepted_as :: "environment_variable \<Rightarrow> json \<Rightarrow> bool" where
  "accepted_as v j =
     (\<forall>names. var_name v \<notin> set names \<longrightarrow> (\<exists>p. parse_variable names j = Inr (var_name v, p)))"

lemma accepted_plain:
  assumes "environment_name_matches (var_name v)"
  shows "accepted_as v (JObj [(''name'', JStr (var_name v)), (''kind'', JStr ''PLAIN''),
           (''value'', JStr x)])"
  using assms by (simp add: accepted_as_def jget_def)

lemma accepted_secret:
  assumes "environment_name_matches (var_name v)" "usable_secret i service (var_name v) c"
  shows "accepted_as v (secret_variable_json (var_name v) c)"
  using assms
  by (simp add: accepted_as_def secret_variable_json_def jget_def usable_secret_def secret_checks_def)

lemma resolve_variable_accepted:
  assumes v: "validate_environment_variable v" and ok: "stored_secrets_usable d" and sha: "digest_ok sha"
    and run: "resolve_variable sha i service now v (s, d) = (Inr (j, x), (s', d'))"
  shows "accepted_as v j"
    "case x of None \<Rightarrow> var_kind v = PLAIN | Some c \<Rightarrow> var_kind v = SECRET \<and> secret_key c = (i, service, var_name v)"
proof -
  have name: "environment_name_matches (var_name v)"
    using v by (simp add: validate_environment_variable_def)
  have "accepted_as v j \<and> (case x of None \<Rightarrow> var_kind v = PLAIN
    | Some c \<Rightarrow> var_kind v = SECRET \<and> secret_key c = (i, service, var_name v))"
  proof (cases "var_kind v")
    case PLAIN
    with v obtain y where y: "var_value v = Some y"
      by (auto simp: validate_environment_variable_def split: option.splits)
    with run PLAIN accepted_plain [OF name, of y] show ?thesis
      by (auto simp: resolve_variable_def ret_def)
  next
    case SECRET
    let ?current = "get_environment_secret i service (var_name v) d"
    have stored: "usable_secret i service (var_name v) c" if "?current = Some c" for c
      using fetch_SomeD [OF that [unfolded get_environment_secret_def]] ok
      by (auto simp: usable_secret_def stored_secrets_usable_def)
    have "\<exists>c. x = Some c \<and> j = secret_variable_json (var_name v) c \<and> usable_secret i service (var_name v) c"
    proof (cases "var_value v")
      case None
      with run SECRET obtain c where "?current = Some c" "x = Some c"
          "j = secret_variable_json (var_name v) c"
        by (cases ?current)
          (auto simp: resolve_variable_def bind_act_def tx_act_def tx_read_def ret_def raise_def)
      with stored show ?thesis by blast
    next
      case (Some y)
      with run SECRET obtain f st s1 where f: "sha = Some f"
        and st: "create_secret f [] (secret_root i service (var_name v))
             (case ?current of None \<Rightarrow> 1 | Some c \<Rightarrow> es_secret_version c + 1) (Some y) s = (Inr st, s1)"
        and x: "x = Some (resolved_secret i service (var_name v) now ?current st)"
          "j = secret_variable_json (var_name v) (resolved_secret i service (var_name v) now ?current st)"
        by (cases sha)
          (auto simp: resolve_variable_def bind_act_def tx_act_def tx_read_def ret_def raise_def
            store_act_def split: prod.splits sum.splits)
      have pos: "0 < (case ?current of None \<Rightarrow> 1 | Some c \<Rightarrow> es_secret_version c + 1)"
        using stored by (auto simp: usable_secret_def secret_checks_def split: option.splits)
      have "usable_secret i service (var_name v) (resolved_secret i service (var_name v) now ?current st)"
        using create_secret_Inr [OF st] pos sha f
        by (auto simp: usable_secret_def secret_key_def secret_checks_def resolved_secret_def digest_ok_def)
      with x show ?thesis by blast
    qed
    with SECRET accepted_secret [OF name] show ?thesis by (auto simp: usable_secret_def)
  qed
  then show "accepted_as v j"
    "case x of None \<Rightarrow> var_kind v = PLAIN | Some c \<Rightarrow> var_kind v = SECRET \<and> secret_key c = (i, service, var_name v)"
    by simp_all
qed

lemma resolve_variables_accepted:
  assumes "\<forall>v\<in>set vs. validate_environment_variable v" "stored_secrets_usable d" "digest_ok sha"
    and "resolve_variables sha i service now vs (s, d) = (Inr (js, cs), (s', d'))"
  shows "list_all2 accepted_as vs js \<and> (\<forall>c\<in>set cs. es_project_id c = i \<and> es_service_name c = service)"
  using assms
proof (induction vs arbitrary: s js cs)
  case Nil
  then show ?case by (simp add: ret_def)
next
  case (Cons v vs)
  from Cons.prems(4) obtain j x s1 d1 js1 cs1 where
    one: "resolve_variable sha i service now v (s, d) = (Inr (j, x), (s1, d1))"
    and rest: "resolve_variables sha i service now vs (s1, d1) = (Inr (js1, cs1), (s', d'))"
    and eq: "js = j # js1" "cs = (case x of None \<Rightarrow> cs1 | Some c \<Rightarrow> c # cs1)"
    by (auto simp: bind_act_Inr ret_def)
  have d1: "d1 = d" by (rule db_keptD [OF resolve_variable_db one])
  have valid: "validate_environment_variable v" "\<forall>v\<in>set vs. validate_environment_variable v"
    using Cons.prems(1) by simp_all
  have key: "case x of None \<Rightarrow> var_kind v = PLAIN
      | Some c \<Rightarrow> var_kind v = SECRET \<and> secret_key c = (i, service, var_name v)"
    by (rule resolve_variable_accepted(2) [OF valid(1) Cons.prems(2,3) one])
  have "accepted_as v j" by (rule resolve_variable_accepted(1) [OF valid(1) Cons.prems(2,3) one])
  moreover from Cons.IH [OF valid(2) Cons.prems(2,3) rest [unfolded d1]]
  have "list_all2 accepted_as vs js1" "\<forall>c\<in>set cs1. es_project_id c = i \<and> es_service_name c = service"
    by blast+
  ultimately show ?case
    using key by (cases x) (auto simp: eq secret_key_def)
qed

lemma parse_variables_accepted:
  "list_all2 accepted_as vs js \<Longrightarrow> distinct (map var_name vs) \<Longrightarrow>
   set (map var_name vs) \<inter> set names = {} \<Longrightarrow> \<exists>ps. parse_variables names js = Inr ps"
proof (induction vs arbitrary: js names)
  case Nil
  then show ?case by simp
next
  case (Cons v vs)
  then obtain j js1 where js: "js = j # js1" and j: "accepted_as v j" and rest: "list_all2 accepted_as vs js1"
    by (cases js) auto
  from j Cons.prems(3) obtain p where p: "parse_variable names j = Inr (var_name v, p)"
    unfolding accepted_as_def by auto
  have "set (map var_name vs) \<inter> set (var_name v # names) = {}"
    using Cons.prems(2,3) by auto
  from Cons.IH [OF rest _ this] Cons.prems(2) obtain ps
    where "parse_variables (var_name v # names) js1 = Inr ps" by auto
  with p show ?case by (simp add: js)
qed

lemma relative_path_accepted:
  assumes "relative_path_ok p"
  shows "relative_path (Some (JStr p)) label = Inr (posix_parts p)"
proof (cases "p = ''.''")
  case True
  then show ?thesis by simp
next
  case False
  with assms have p: "p \<noteq> []" "hd p \<noteq> CHR ''/''"
    "\<forall>part\<in>set (split_on CHR ''/'' p). part \<notin> set [[], ''.'', ''..'']"
    unfolding relative_path_ok_def by blast+
  have "\<not> starts_with ''/'' p" using p(2) by (simp add: starts_with_single)
  moreover have "\<not> list_ex (\<lambda>part. part = ''..'') (posix_parts p)"
    using p(3) by (auto simp: list_ex_iff posix_parts_def)
  ultimately show ?thesis using p(1) False by (simp only: relative_path.simps if_False simp_thms)
qed

text \<open>What the runtime makes of a service: its name, port, paths and database access are
  those of the settings.\<close>

definition same_service :: "service_config \<Rightarrow> runtime_service \<Rightarrow> bool" where
  "same_service s r =
     (rsv_name r = sc_name s \<and> rsv_internal_port r = sc_internal_port s \<and>
      rsv_health_path r = sc_health_path s \<and>
      rsv_build_context r = posix_parts (sc_context s) \<and>
      rsv_dockerfile r = posix_parts (sc_dockerfile s) \<and>
      rsv_project_database_access r = sc_project_database_access s)"

lemma parse_dumped_service:
  assumes ok: "service_ok s" and js: "list_all2 accepted_as (sc_environment s) js"
  shows "\<exists>r. parse_service (JObj (dump_service s @ [(''environment'', JList js)])) = Inr r \<and> same_service s r"
proof -
  let ?f = "dump_service s @ [(''environment'', JList js)]"
  let ?b = "[(''context'', JStr (sc_context s)), (''dockerfile'', JStr (sc_dockerfile s))]"
  have gets: "jget ''name'' ?f = Some (JStr (sc_name s))"
    "jget ''build'' ?f = Some (JObj ?b)"
    "jget ''internalPort'' ?f = Some (JInt (sc_internal_port s))"
    "jget ''healthPath'' ?f = Some (JStr (sc_health_path s))"
    "jget ''environment'' ?f = Some (JList js)"
    "jget ''projectDatabaseAccess'' ?f = Some (JBool (sc_project_database_access s))"
    "jget ''context'' ?b = Some (JStr (sc_context s))"
    "jget ''dockerfile'' ?b = Some (JStr (sc_dockerfile s))"
    by (simp_all add: jget_def dump_service_def)
  have parts: "as_service_name (jget ''name'' ?f) = Inr (sc_name s)"
    "as_build (jget ''build'' ?f) = Inr ?b"
    "relative_path (jget ''context'' ?b) ''build context'' = Inr (posix_parts (sc_context s))"
    "relative_path (jget ''dockerfile'' ?b) ''Dockerfile'' = Inr (posix_parts (sc_dockerfile s))"
    "as_port ''invalid internal port'' (jget ''internalPort'' ?f) = Inr (sc_internal_port s)"
    "as_health_path (jget ''healthPath'' ?f) = Inr (sc_health_path s)"
    "as_environment (jget ''environment'' ?f) = Inr js"
    "as_access (jget ''projectDatabaseAccess'' ?f) = Inr (sc_project_database_access s)"
    unfolding gets using ok by (auto simp: service_ok_def relative_path_accepted simp del: relative_path.simps)
  obtain ps where ps: "parse_variables [] js = Inr ps"
    using parse_variables_accepted [OF js, of "[]"] ok by (auto simp: service_ok_def)
  show ?thesis
    unfolding parse_service.simps parts ps bind_sum_simps
    by (simp add: same_service_def)
qed

lemma resolve_services_accepted:
  assumes "\<forall>c\<in>set ss. service_ok c" "stored_secrets_usable d" "digest_ok sha"
    and "resolve_services sha i now ss (s, d) = (Inr (js, cs), (s', d'))"
  shows "\<exists>rs. sequence_results (map parse_service js) = Inr rs \<and> list_all2 same_service ss rs"
    "\<forall>c\<in>set cs. es_project_id c = i"
  using assms
proof (induction ss arbitrary: s js cs)
  case Nil
  {
    case 1
    then show ?case by (simp add: ret_def)
  next
    case 2
    then show ?case by (simp add: ret_def)
  }
next
  case (Cons x xs)
  have split: "\<exists>vars ms s1 js1 cs1. resolve_variables sha i (sc_name x) now (sc_environment x) (s, d) =
        (Inr (vars, ms), (s1, d)) \<and>
      resolve_services sha i now xs (s1, d) = (Inr (js1, cs1), (s', d')) \<and>
      js = JObj (dump_service x @ [(''environment'', JList vars)]) # js1 \<and> cs = ms @ cs1"
    if "resolve_services sha i now (x # xs) (s, d) = (Inr (js, cs), (s', d'))" for s js cs
  proof -
    from that obtain vars ms s1 d1 js1 cs1 where
      one: "resolve_variables sha i (sc_name x) now (sc_environment x) (s, d) = (Inr (vars, ms), (s1, d1))"
      and rest: "resolve_services sha i now xs (s1, d1) = (Inr (js1, cs1), (s', d'))"
      "js = JObj (dump_service x @ [(''environment'', JList vars)]) # js1" "cs = ms @ cs1"
      by (auto simp: bind_act_Inr ret_def)
    moreover have "d1 = d" by (rule db_keptD [OF resolve_variables_db one])
    ultimately show ?thesis by blast
  qed
  {
    case 1
    from split [OF 1(4)] obtain vars ms s1 js1 cs1 where
      one: "resolve_variables sha i (sc_name x) now (sc_environment x) (s, d) = (Inr (vars, ms), (s1, d))"
      and rest: "resolve_services sha i now xs (s1, d) = (Inr (js1, cs1), (s', d'))"
      and js: "js = JObj (dump_service x @ [(''environment'', JList vars)]) # js1" by blast
    have ok: "service_ok x" "\<forall>c\<in>set xs. service_ok c" using 1(1) by simp_all
    then have "\<forall>v\<in>set (sc_environment x). validate_environment_variable v" by (simp add: service_ok_def)
    from resolve_variables_accepted [OF this 1(2,3) one] have "list_all2 accepted_as (sc_environment x) vars"
      by blast
    from parse_dumped_service [OF ok(1) this] obtain r where
      r: "parse_service (JObj (dump_service x @ [(''environment'', JList vars)])) = Inr r" "same_service x r"
      by blast
    from Cons.IH(1) [OF ok(2) 1(2,3) rest] obtain rs where
      "sequence_results (map parse_service js1) = Inr rs" "list_all2 same_service xs rs" by blast
    with r show ?case by (simp add: js del: parse_service.simps)
  next
    case 2
    from split [OF 2(4)] obtain vars ms s1 js1 cs1 where
      one: "resolve_variables sha i (sc_name x) now (sc_environment x) (s, d) = (Inr (vars, ms), (s1, d))"
      and rest: "resolve_services sha i now xs (s1, d) = (Inr (js1, cs1), (s', d'))"
      and cs: "cs = ms @ cs1" by blast
    have ok: "service_ok x" "\<forall>c\<in>set xs. service_ok c" using 2(1) by simp_all
    then have "\<forall>v\<in>set (sc_environment x). validate_environment_variable v" by (simp add: service_ok_def)
    from resolve_variables_accepted [OF this 2(2,3) one] Cons.IH(2) [OF ok(2) 2(2,3) rest]
    show ?case by (auto simp: cs)
  }
qed

section \<open>A stored configuration can be deployed\<close>

lemma parse_dumped_routes:
  assumes "\<forall>r\<in>set rs. validate_route_config r \<and> rtc_service r \<in> set names"
  shows "sequence_results (map (parse_route names) (map dump_route rs)) =
    Inr (map (\<lambda>r. \<lparr>rrt_path = rtc_path r, rrt_service = rtc_service r\<rparr>) rs)"
  using assms
proof (induction rs)
  case Nil
  then show ?case by simp
next
  case (Cons r rs)
  have "parse_route names (dump_route r) = Inr \<lparr>rrt_path = rtc_path r, rrt_service = rtc_service r\<rparr>"
    using Cons.prems by (auto simp: dump_route_def jget_def validate_route_config_def)
  with Cons show ?case by simp
qed

lemma same_service_names: "list_all2 same_service ss rs \<Longrightarrow> map rsv_name rs = map sc_name ss"
  by (induction rule: list_all2_induct) (auto simp: same_service_def)

lemma same_service_access:
  "list_all2 same_service ss rs \<Longrightarrow>
   list_ex rsv_project_database_access rs = list_ex sc_project_database_access ss"
  by (induction rule: list_all2_induct) (auto simp: same_service_def)

text \<open>With the metadata of the managed database appended, as a deployment request does.\<close>

definition with_metadata :: "json \<Rightarrow> (string \<times> json) list option \<Rightarrow> json" where
  "with_metadata config metadata =
     (case (config, metadata) of
        (JObj doc, Some m) \<Rightarrow> JObj (AList.update ''managedDatabase'' (JObj m) doc)
      | _ \<Rightarrow> config)"

lemma nonempty_list_Inr: "xs \<noteq> [] \<Longrightarrow> nonempty_list m (Some (JList xs)) = Inr xs"
  by (cases xs) auto

lemma resolved_configuration_deploys:
  assumes ok: "settings_ok u" and usable: "stored_secrets_usable d" and sha: "digest_ok sha"
    and run: "resolve_configuration sha i u now (s, d) = (Inr (config, cs), (s', d'))"
    and access: "list_ex sc_project_database_access (su_services u) \<longrightarrow> metadata \<noteq> None"
    and meta: "parse_database (map_option JObj metadata) = Inr database"
  shows "\<exists>rs. from_snapshot (with_metadata config metadata) = Inr
      \<lparr>rdp_services = rs,
       rdp_routes = map (\<lambda>r. \<lparr>rrt_path = rtc_path r, rrt_service = rtc_service r\<rparr>) (su_routes u),
       rdp_database = database\<rparr> \<and> list_all2 same_service (su_services u) rs"
proof -
  from run obtain js where js: "resolve_services sha i now (su_services u) (s, d) = (Inr (js, cs), (s', d'))"
    and config: "config = JObj [(''services'', JList js), (''routes'', JList (map dump_route (su_routes u)))]"
    by (auto simp: resolve_configuration_def bind_act_Inr ret_def)
  have d': "d' = d" by (rule db_keptD [OF resolve_services_db js])
  have services: "\<forall>c\<in>set (su_services u). service_ok c" using ok by (simp add: settings_ok_def)
  from resolve_services_accepted(1) [OF services usable sha js [unfolded d']] obtain rs where
    seq: "sequence_results (map parse_service js) = Inr rs" and same: "list_all2 same_service (su_services u) rs"
    by blast
  note names = same_service_names [OF same]
  have len: "rs \<noteq> []" "js \<noteq> []" "su_routes u \<noteq> []"
    using ok same seq by (auto simp: settings_ok_def)
  have routes: "sequence_results (map (parse_route (map rsv_name rs)) (map dump_route (su_routes u))) =
      Inr (map (\<lambda>r. \<lparr>rrt_path = rtc_path r, rrt_service = rtc_service r\<rparr>) (su_routes u))"
    by (rule parse_dumped_routes) (use ok names in \<open>auto simp: settings_ok_def\<close>)
  have paths: "map rrt_path (map (\<lambda>r. \<lparr>rrt_path = rtc_path r, rrt_service = rtc_service r\<rparr>) (su_routes u)) =
      map rtc_path (su_routes u)" by simp
  obtain doc where doc: "with_metadata config metadata = JObj doc"
    "jget ''services'' doc = Some (JList js)" "jget ''routes'' doc = Some (JList (map dump_route (su_routes u)))"
    "jget ''managedDatabase'' doc = map_option JObj metadata"
    by (cases metadata) (auto simp: with_metadata_def config jget_def)
  have raw: "nonempty_list m (Some (JList js)) = Inr js"
    "nonempty_list m (Some (JList (map dump_route (su_routes u)))) = Inr (map dump_route (su_routes u))" for m
    by (rule nonempty_list_Inr, use len in simp)+
  have "list_ex rsv_project_database_access rs \<longrightarrow> database \<noteq> None"
    using access meta same_service_access [OF same]
    by (cases metadata) (auto simp: bind_sum_Inr config_error_def split: if_splits)
  then have c4: "\<not> (list_ex rsv_project_database_access rs \<and> database = None)" by blast
  have c1: "unique (map rsv_name rs)" and c2: "unique (map rtc_path (su_routes u))"
    and c3: "''/'' \<in> set (map rtc_path (su_routes u))"
    using ok by (simp_all add: settings_ok_def names)
  have "from_snapshot (with_metadata config metadata) = Inr
      \<lparr>rdp_services = rs,
       rdp_routes = map (\<lambda>r. \<lparr>rrt_path = rtc_path r, rrt_service = rtc_service r\<rparr>) (su_routes u),
       rdp_database = database\<rparr>"
    unfolding doc(1) from_snapshot.simps doc(2-4) raw bind_sum_simps seq Let_def routes paths meta
    using c1 c2 c3 c4 by (simp only: simp_thms if_True if_False)
  with same show ?thesis by blast
qed

end
