(* ===== verification/Project_Database.thy ===== *)
theory Project_Database
  imports Project_Service "HOL-Library.Char_ord" "HOL-Library.List_Lexorder"
begin

text \<open>
  \<open>project_database/repository.py\<close> and \<open>project_database/service.py\<close>: the managed
  database of a project, provisioned phase by phase under optimistic versions.  The
  provisioner, which talks to the project's PostgreSQL server, is a parameter: its lock
  and its steps are arbitrary programs on the state.
\<close>

section \<open>The repository\<close>

definition get_resource :: "uuid \<Rightarrow> db \<Rightarrow> database_resource option" where
  "get_resource i d = fetch (\<lambda>r. res_project_id r = i) (t_database_resources d)"

definition new_resource :: "uuid \<Rightarrow> uuid \<Rightarrow> time \<Rightarrow> database_resource" where
  "new_resource u i now =
     \<lparr>res_id = u, res_project_id = i, res_desired_state = ''ACTIVE'', res_status = DB_PROVISIONING,
      res_phase = INTENT_RECORDED, res_database_name = ''hd_db_'' @ uuid_hex u,
      res_role_name = ''hd_role_'' @ uuid_hex u, res_schema_name = ''app'',
      res_credential_reference = None, res_credential_version = None,
      res_credential_fingerprint = None, res_state_version = 0, res_failure_stage = None,
      res_failure_code = None, res_created_at = now, res_updated_at = now\<rparr>"

definition ensure_intent :: "uuid \<Rightarrow> uuid \<Rightarrow> time \<Rightarrow> (db, database_resource) tx" where
  "ensure_intent i u now d =
     (case project_of d i of
        Some p \<Rightarrow>
          if prj_status p = P_DELETING then Inl ProjectDatabaseProjectDeletingError
          else (case get_resource i d of
            Some r \<Rightarrow> Inr (r, d)
          | None \<Rightarrow>
              if exists_row (\<lambda>r. res_id r = u \<or>
                   res_database_name r = res_database_name (new_resource u i now) \<or>
                   res_role_name r = res_role_name (new_resource u i now)) (t_database_resources d)
                then Inl UniqueViolation
              else Inr (new_resource u i now,
                        d\<lparr>t_database_resources := t_database_resources d @ [new_resource u i now]\<rparr>))
      | None \<Rightarrow>
          (case get_resource i d of Some r \<Rightarrow> Inr (r, d) | None \<Rightarrow> Inl ForeignKeyViolation))"

text \<open>\<open>_update\<close>: the assignments, one version further, on exactly the version read.  A row
  that violates the credential check of the table is refused.\<close>

definition credentials_check :: "database_resource \<Rightarrow> bool" where
  "credentials_check r =
     ((res_credential_reference r = None \<and> res_credential_version r = None \<and>
       res_credential_fingerprint r = None) \<or>
      (res_credential_reference r \<noteq> None \<and>
       (case res_credential_version r of None \<Rightarrow> False | Some v \<Rightarrow> 0 < v) \<and>
       (case res_credential_fingerprint r of None \<Rightarrow> False | Some f \<Rightarrow> fingerprint_matches f)))"

definition update_resource ::
    "database_resource \<Rightarrow> (database_resource \<Rightarrow> database_resource) \<Rightarrow> time \<Rightarrow>
     (db, database_resource) tx" where
  "update_resource r f now d =
     (let P = (\<lambda>x. res_id x = res_id r \<and> res_state_version x = res_state_version r);
          g = (\<lambda>x. (f x)\<lparr>res_state_version := res_state_version x + 1, res_updated_at := now\<rparr>) in
      case returning P g (t_database_resources d) of
        None \<Rightarrow> Inl ProjectDatabaseVersionConflict
      | Some x \<Rightarrow>
          if \<not> credentials_check x then Inl CheckViolation
          else Inr (x, d\<lparr>t_database_resources := upd P g (t_database_resources d)\<rparr>))"

definition begin_retry :: "database_resource \<Rightarrow> time \<Rightarrow> (db, database_resource) tx" where
  "begin_retry r =
     update_resource r (\<lambda>x. x\<lparr>res_status := DB_PROVISIONING, res_failure_stage := None,
                              res_failure_code := None\<rparr>)"

definition record_secret :: "database_resource \<Rightarrow> stored_secret \<Rightarrow> time \<Rightarrow> (db, database_resource) tx" where
  "record_secret r s =
     update_resource r (\<lambda>x. x\<lparr>res_credential_reference := Some (st_reference s),
                              res_credential_version := Some (st_version s),
                              res_credential_fingerprint := Some (st_fingerprint s),
                              res_phase := SECRET_READY\<rparr>)"

definition advance_resource :: "database_resource \<Rightarrow> database_phase \<Rightarrow> time \<Rightarrow> (db, database_resource) tx" where
  "advance_resource r phase =
     (if phase = PHASE_ACTIVE
      then update_resource r (\<lambda>x. x\<lparr>res_phase := phase, res_status := DB_ACTIVE\<rparr>)
      else update_resource r (\<lambda>x. x\<lparr>res_phase := phase\<rparr>))"

definition mark_failed :: "database_resource \<Rightarrow> string \<Rightarrow> string \<Rightarrow> time \<Rightarrow> (db, database_resource) tx" where
  "mark_failed r st code =
     update_resource r (\<lambda>x. x\<lparr>res_status := DB_FAILED, res_failure_stage := Some st,
                              res_failure_code := Some code\<rparr>)"

section \<open>The service\<close>

record 's provisioner =
  pv_acquire :: "uuid \<Rightarrow> ('s, unit) act"
  pv_release :: "uuid \<Rightarrow> ('s, unit) act"
  pv_ensure_role :: "uuid \<Rightarrow> string \<Rightarrow> string \<Rightarrow> ('s, unit) act"
  pv_ensure_database :: "uuid \<Rightarrow> string \<Rightarrow> ('s, unit) act"
  pv_ensure_privileges :: "string \<Rightarrow> string \<Rightarrow> string \<Rightarrow> ('s, unit) act"
  pv_verify_login :: "string \<Rightarrow> string \<Rightarrow> string \<Rightarrow> string \<Rightarrow> ('s, unit) act"

record database_service =
  ds_sha :: "string \<Rightarrow> string"
  ds_token :: string
  ds_runtime_host :: string
  ds_runtime_port :: int

datatype database_read =
    NotCreated "string list"
  | FromResource database_resource string int "string list"

fun connected_names :: "json list \<Rightarrow> exn + string list" where
  "connected_names [] = Inr []"
| "connected_names (JObj s # ss) =
     (if jget ''projectDatabaseAccess'' s = Some (JBool True)
      then (case jget ''name'' s of
              Some (JStr n) \<Rightarrow> bind_sum (connected_names ss) (\<lambda>ns. Inr (n # ns))
            | None \<Rightarrow> Inl (OtherError ''KeyError'')
            | Some _ \<Rightarrow> Inl (OtherError ''TypeError''))
      else connected_names ss)"
| "connected_names (_ # ss) = Inl (OtherError ''AttributeError'')"

definition connected_services :: "project \<Rightarrow> exn + string list" where
  "connected_services p =
     (case prj_deployment_config p of
        None \<Rightarrow> Inr []
      | Some (JObj c) \<Rightarrow>
          (case json_items (jget ''services'' c) of
             None \<Rightarrow> Inl (OtherError ''TypeError'')
           | Some ss \<Rightarrow> bind_sum (connected_names ss) (\<lambda>ns. Inr (sort ns)))
      | Some _ \<Rightarrow> Inl (OtherError ''AttributeError''))"

definition not_requested :: exn where
  "not_requested = AppError 409 ''PROJECT_DATABASE_NOT_REQUESTED''
     ''Enable PostgreSQL for at least one service first''"

definition database_status :: "database_service \<Rightarrow> uuid \<Rightarrow> (db, database_read) tx" where
  "database_status S i =
     tx_bind (service_get_project i) (\<lambda>project.
     tx_bind (tx_lift (connected_services project)) (\<lambda>connected.
     tx_seq (tx_raise_if (connected = []) not_requested)
       (tx_bind (tx_read (get_resource i)) (\<lambda>resource.
          tx_ret (case resource of
                    None \<Rightarrow> NotCreated connected
                  | Some r \<Rightarrow> FromResource r (ds_runtime_host S) (ds_runtime_port S) connected)))))"

definition act_try_finally :: "('s, 'a) act \<Rightarrow> ('s, unit) act \<Rightarrow> ('s, 'a) act" where
  "act_try_finally m n = (\<lambda>s. let (r, s') = m s in
     case n s' of (Inl e, s'') \<Rightarrow> (Inl e, s'') | (Inr _, s'') \<Rightarrow> (r, s''))"

definition credential ::
    "database_service \<Rightarrow> database_resource \<Rightarrow> (secret_state \<times> db, string) act" where
  "credential S r =
     (case (res_credential_reference r, res_credential_fingerprint r) of
        (Some reference, Some fingerprint) \<Rightarrow>
          store_act (\<lambda>s. (read_secret (ds_sha S) reference fingerprint s, s))
      | _ \<Rightarrow> raise (SecretStoreError ''database credential metadata is incomplete''))"

definition credential_root :: "database_resource \<Rightarrow> string" where
  "credential_root r =
     ''projects/'' @ uuid_str (res_project_id r) @ ''/database/'' @ uuid_str (res_id r) @ ''/credentials''"

text \<open>The steps of \<open>_reconcile\<close>; the instants of the updates come from the clock port.\<close>

definition clock_tx :: "(secret_state \<times> db \<Rightarrow> time) \<Rightarrow> (time \<Rightarrow> (db, 'a) tx) \<Rightarrow> (secret_state \<times> db, 'a) act" where
  "clock_tx clock m = (\<lambda>s. tx_act (m (clock s)) s)"

definition reconcile_step ::
    "(secret_state \<times> db \<Rightarrow> time) \<Rightarrow> database_phase \<Rightarrow> database_phase \<Rightarrow>
     (database_resource \<Rightarrow> (secret_state \<times> db, unit) act) \<Rightarrow> database_resource \<Rightarrow>
     (secret_state \<times> db, database_resource) act" where
  "reconcile_step clock phase next_phase work r =
     (if res_phase r = phase
      then seq_act (work r) (clock_tx clock (advance_resource r next_phase))
      else ret r)"

definition reconcile_resource ::
    "database_service \<Rightarrow> (secret_state \<times> db) provisioner \<Rightarrow> (secret_state \<times> db \<Rightarrow> time) \<Rightarrow>
     database_resource \<Rightarrow> (secret_state \<times> db, database_resource) act" where
  "reconcile_resource S V clock r0 =
     bind_act
       (if res_phase r0 = INTENT_RECORDED
        then bind_act (store_act (create_secret (ds_sha S) (ds_token S) (credential_root r0) 1 None))
               (\<lambda>secret. clock_tx clock (record_secret r0 secret))
        else ret r0)
       (\<lambda>r1. bind_act (credential S r1)
       (\<lambda>password.
        bind_act (reconcile_step clock SECRET_READY ROLE_READY
                    (\<lambda>r. pv_ensure_role V (res_id r) (res_role_name r) password) r1)
       (\<lambda>r2. bind_act (reconcile_step clock ROLE_READY DATABASE_READY
                    (\<lambda>r. pv_ensure_database V (res_id r) (res_database_name r)) r2)
       (\<lambda>r3. bind_act (reconcile_step clock DATABASE_READY PRIVILEGES_READY
                    (\<lambda>r. pv_ensure_privileges V (res_database_name r) (res_role_name r)
                           (res_schema_name r)) r3)
       (\<lambda>r4. reconcile_step clock PRIVILEGES_READY PHASE_ACTIVE
                    (\<lambda>r. pv_verify_login V (res_database_name r) (res_role_name r)
                           (res_schema_name r) password) r4)))))"

text \<open>The body under the two locks: \<open>locked_ready\<close> reads the project as \<open>ready\<close> does.  The
  result carries whether the resource was found active.\<close>

definition provision_locked ::
    "database_service \<Rightarrow> (secret_state \<times> db) provisioner \<Rightarrow> (secret_state \<times> db \<Rightarrow> time) \<Rightarrow> uuid \<Rightarrow>
     database_resource \<Rightarrow> (secret_state \<times> db, database_resource \<times> string list) act" where
  "provision_locked S V clock i r =
     bind_act (tx_act (tx_bind (service_ready i) (\<lambda>p. tx_lift (connected_services p))))
       (\<lambda>connected.
          if res_status r = DB_ACTIVE then ret (r, connected)
          else bind_act (if res_status r = DB_FAILED then clock_tx clock (begin_retry r) else ret r)
            (\<lambda>r. bind_act (reconcile_resource S V clock r) (\<lambda>r. ret (r, connected))))"

text \<open>The two \<open>except\<close> clauses: a failure is written to the row as it is now.\<close>

definition provisioning_failed ::
    "(secret_state \<times> db \<Rightarrow> time) \<Rightarrow> uuid \<Rightarrow> database_resource \<Rightarrow> string \<Rightarrow> string \<Rightarrow>
     (secret_state \<times> db, 'a) act" where
  "provisioning_failed clock i r st code =
     bind_act (tx_act (tx_read (get_resource i)))
       (\<lambda>latest. bind_act (clock_tx clock
                     (mark_failed (case latest of None \<Rightarrow> r | Some l \<Rightarrow> l) st code))
          (\<lambda>_. raise (AppError 503 ''PROJECT_DATABASE_PROVISIONING_FAILED''
                 ''Managed PostgreSQL provisioning did not complete'')))"

definition provision_handler ::
    "(secret_state \<times> db \<Rightarrow> time) \<Rightarrow> uuid \<Rightarrow> database_resource \<Rightarrow> exn \<Rightarrow>
     (secret_state \<times> db, 'a) act" where
  "provision_handler clock i r e =
     (case e of
        ProjectDatabaseVersionConflict \<Rightarrow>
          raise (AppError 409 ''PROJECT_DATABASE_CONFLICT''
                   ''Database provisioning changed; reload its status'')
      | ProjectDatabaseProvisioningError st code \<Rightarrow> provisioning_failed clock i r st code
      | SecretStoreError m \<Rightarrow> provisioning_failed clock i r ''SECRET'' ''SECRET_FAILED''
      | SecretStoreBusyError \<Rightarrow> provisioning_failed clock i r ''SECRET'' ''SECRET_FAILED''
      | _ \<Rightarrow> raise e)"

definition provision ::
    "database_service \<Rightarrow> (secret_state \<times> db) provisioner option \<Rightarrow> (secret_state \<times> db \<Rightarrow> time) \<Rightarrow>
     uuid \<Rightarrow> uuid \<Rightarrow> (secret_state \<times> db, database_read) act" where
  "provision S V clock u i =
     bind_act (tx_act (service_ready i)) (\<lambda>project.
     bind_act (tx_act (tx_lift (connected_services project))) (\<lambda>connected.
       if connected = [] then raise not_requested
       else case V of
         None \<Rightarrow> raise (AppError 503 ''PROJECT_DATABASE_DISABLED''
                          ''Managed project PostgreSQL is not configured'')
       | Some v \<Rightarrow>
           bind_act
             (try_act (clock_tx clock (ensure_intent i u))
               (\<lambda>e. if e = ProjectDatabaseProjectDeletingError then raise project_deleting else raise e))
             (\<lambda>r. bind_act
               (try_act
                 (seq_act (pv_acquire v (res_id r))
                   (act_try_finally (provision_locked S v clock i r) (pv_release v (res_id r))))
                 (provision_handler clock i r))
               (\<lambda>(r, connected).
                  ret (FromResource r (ds_runtime_host S) (ds_runtime_port S) connected)))))"

text \<open>\<open>require_active\<close> and \<open>deployment_metadata\<close>.\<close>

definition require_active :: "project \<Rightarrow> (db, unit) tx" where
  "require_active p =
     tx_bind (tx_lift (connected_services p)) (\<lambda>connected.
       if connected = [] then tx_ret ()
       else tx_bind (tx_read (get_resource (prj_id p))) (\<lambda>resource.
         tx_raise_if (case resource of None \<Rightarrow> True | Some r \<Rightarrow> res_status r \<noteq> DB_ACTIVE)
           (AppError 409 ''PROJECT_DATABASE_NOT_ACTIVE''
              ''Provision the project database before deployment'')))"

definition metadata_json :: "database_service \<Rightarrow> database_resource \<Rightarrow> (string \<times> json) list option" where
  "metadata_json S r =
     (case (res_credential_reference r, res_credential_version r, res_credential_fingerprint r) of
        (Some reference, Some version, Some fingerprint) \<Rightarrow>
          Some [(''resourceId'', JStr (uuid_str (res_id r))),
                (''databaseName'', JStr (res_database_name r)),
                (''username'', JStr (res_role_name r)),
                (''schemaName'', JStr (res_schema_name r)),
                (''host'', JStr (ds_runtime_host S)),
                (''port'', JInt (ds_runtime_port S)),
                (''credentialReference'', JStr reference),
                (''credentialVersion'', JInt version),
                (''credentialFingerprint'', JStr fingerprint)]
      | _ \<Rightarrow> None)"

definition deployment_metadata ::
    "database_service \<Rightarrow> project \<Rightarrow> (db, (string \<times> json) list option) tx" where
  "deployment_metadata S p =
     tx_bind (tx_lift (connected_services p)) (\<lambda>connected.
       if connected = [] then tx_ret None
       else tx_seq (require_active p)
         (tx_bind (tx_read (get_resource (prj_id p))) (\<lambda>resource.
            tx_bind (tx_require (AppError 409 ''PROJECT_DATABASE_CREDENTIAL_NOT_READY''
                                   ''Project database credential metadata is incomplete'')
                       (case resource of None \<Rightarrow> None | Some r \<Rightarrow> metadata_json S r))
              (\<lambda>m. tx_ret (Some m)))))"

section \<open>What the table keeps true\<close>

definition resource_row_ok :: "database_resource \<Rightarrow> bool" where
  "resource_row_ok r =
     (credentials_check r \<and> 0 \<le> res_state_version r \<and>
      (res_status r = DB_ACTIVE \<longrightarrow> res_phase r = PHASE_ACTIVE) \<and>
      (res_phase r \<noteq> INTENT_RECORDED \<longrightarrow> res_credential_reference r \<noteq> None))"

definition resources_ok :: "db \<Rightarrow> bool" where
  "resources_ok d =
     (distinct (map res_id (t_database_resources d)) \<and>
      distinct (map res_project_id (t_database_resources d)) \<and>
      (\<forall>r\<in>set (t_database_resources d). resource_row_ok r \<and> res_project_id r \<in> project_ids d))"

lemma resources_okD:
  assumes "resources_ok d"
  shows "distinct (map res_id (t_database_resources d))"
    "distinct (map res_project_id (t_database_resources d))"
    "\<And>r. r \<in> set (t_database_resources d) \<Longrightarrow> resource_row_ok r"
  using assms by (simp_all add: resources_ok_def)

text \<open>An update takes effect on exactly the version it was read at, and moves it on by
  one: an update from a stale reading is refused.\<close>

definition bumped :: "(database_resource \<Rightarrow> database_resource) \<Rightarrow> time \<Rightarrow> database_resource \<Rightarrow> database_resource" where
  "bumped f now x = (f x)\<lparr>res_state_version := res_state_version x + 1, res_updated_at := now\<rparr>"

lemma update_resource_Inr:
  assumes ok: "resources_ok d" and run: "update_resource r f now d = Inr (x, d')"
  obtains y where "y \<in> set (t_database_resources d)" "res_id y = res_id r"
    "res_state_version y = res_state_version r" "x = bumped f now y" "credentials_check x"
    "d' = d\<lparr>t_database_resources :=
       upd (\<lambda>z. res_id z = res_id r) (bumped f now) (t_database_resources d)\<rparr>"
proof -
  let ?P = "\<lambda>x. res_id x = res_id r \<and> res_state_version x = res_state_version r"
  from run have x: "returning ?P (bumped f now) (t_database_resources d) = Some x" "credentials_check x"
    and d': "d' = d\<lparr>t_database_resources := upd ?P (bumped f now) (t_database_resources d)\<rparr>"
    by (auto simp: update_resource_def Let_def bumped_def [abs_def] split: option.splits if_splits)
  from returning_SomeD [OF x(1)] obtain y where y: "y \<in> set (t_database_resources d)" "?P y"
    "x = bumped f now y" by blast
  have "upd ?P (bumped f now) (t_database_resources d) =
      upd (\<lambda>z. res_id z = res_id r) (bumped f now) (t_database_resources d)"
  proof (rule upd_cong)
    fix z assume z: "z \<in> set (t_database_resources d)"
    show "?P z = (res_id z = res_id r)"
    proof
      assume "res_id z = res_id r"
      then have "res_id z = res_id y" using y(2) by simp
      with resources_okD(1) [OF ok] z y(1) have "z = y" by (blast intro: same_key_same_row)
      with y(2) show "?P z" by simp
    qed simp
  qed
  with that y x(2) d' show ?thesis by simp
qed

lemma update_resource_stale:
  assumes "\<forall>x\<in>set (t_database_resources d). res_id x = res_id r \<longrightarrow> res_state_version x \<noteq> res_state_version r"
  shows "update_resource r f now d = Inl ProjectDatabaseVersionConflict"
  using assms by (auto simp: update_resource_def Let_def returning_def fetch_None_iff
      split: option.splits dest: fetch_SomeD)

lemma update_resource_ok:
  assumes ok: "resources_ok d" and run: "update_resource r f now d = Inr (x, d')"
    and f: "\<And>y. res_id (f y) = res_id y" "\<And>y. res_project_id (f y) = res_project_id y"
    and row: "\<And>y. resource_row_ok y \<Longrightarrow> res_id y = res_id r \<Longrightarrow> credentials_check (f y) \<Longrightarrow> resource_row_ok (f y)"
  shows "resources_ok d'"
proof -
  from ok run obtain y where
    y: "y \<in> set (t_database_resources d)" "res_id y = res_id r" "x = bumped f now y" "credentials_check x"
    and d': "d' = d\<lparr>t_database_resources :=
       upd (\<lambda>z. res_id z = res_id r) (bumped f now) (t_database_resources d)\<rparr>"
    by (blast elim: update_resource_Inr)
  let ?rows = "upd (\<lambda>z. res_id z = res_id r) (bumped f now) (t_database_resources d)"
  have cc: "credentials_check (bumped f now z) = credentials_check (f z)" for z
    by (simp add: credentials_check_def bumped_def)
  have keys: "map res_id ?rows = map res_id (t_database_resources d)"
    "map res_project_id ?rows = map res_project_id (t_database_resources d)"
    by (simp_all add: bumped_def f)
  have "\<forall>z\<in>set ?rows. resource_row_ok z \<and> res_project_id z \<in> project_ids d"
  proof (rule ball_upd)
    show "\<forall>z\<in>set (t_database_resources d). resource_row_ok z \<and> res_project_id z \<in> project_ids d"
      using ok by (simp add: resources_ok_def)
    fix z
    assume z: "z \<in> set (t_database_resources d)" "res_id z = res_id r"
      "resource_row_ok z \<and> res_project_id z \<in> project_ids d"
    then have "res_id z = res_id y" using y(2) by simp
    with resources_okD(1) [OF ok] z(1) y(1) have "z = y" by (blast intro: same_key_same_row)
    with y(3,4) cc have "credentials_check (f z)" by simp
    with row z(2,3) have "resource_row_ok (f z)" by blast
    moreover have "0 \<le> res_state_version z" using z(3) by (simp add: resource_row_ok_def)
    ultimately show "resource_row_ok (bumped f now z) \<and> res_project_id (bumped f now z) \<in> project_ids d"
      using z(3) f cc by (auto simp: resource_row_ok_def bumped_def credentials_check_def)
  qed
  with ok keys show ?thesis by (simp add: resources_ok_def d' project_ids_def)
qed

lemma ensure_intent_ok:
  assumes ok: "resources_ok d" and run: "ensure_intent i u now d = Inr (r, d')"
  shows "resources_ok d'"
proof (cases "d' = d")
  case True
  with ok show ?thesis by simp
next
  case False
  with run obtain p where p: "project_of d i = Some p" and none: "get_resource i d = None"
    and fresh: "\<not> exists_row (\<lambda>r. res_id r = u \<or>
                   res_database_name r = res_database_name (new_resource u i now) \<or>
                   res_role_name r = res_role_name (new_resource u i now)) (t_database_resources d)"
    and d': "d' = d\<lparr>t_database_resources := t_database_resources d @ [new_resource u i now]\<rparr>"
    by (auto simp: ensure_intent_def split: option.splits if_splits)
  have "i \<in> project_ids d" using fetch_SomeD [OF p] by (auto simp: project_ids_def)
  moreover have "i \<notin> res_project_id ` set (t_database_resources d)"
    using none by (auto simp: get_resource_def fetch_None_iff)
  moreover have "u \<notin> res_id ` set (t_database_resources d)" using fresh by (auto simp: exists_row_iff)
  moreover have "resource_row_ok (new_resource u i now)"
    by (simp add: new_resource_def resource_row_ok_def credentials_check_def)
  moreover have "res_id (new_resource u i now) = u" "res_project_id (new_resource u i now) = i"
    by (simp_all add: new_resource_def)
  ultimately show ?thesis using ok by (simp add: resources_ok_def d' project_ids_def)
qed

lemma begin_retry_ok:
  "resources_ok d \<Longrightarrow> begin_retry r now d = Inr (x, d') \<Longrightarrow> resources_ok d'"
  unfolding begin_retry_def
  by (erule (1) update_resource_ok) (auto simp: resource_row_ok_def credentials_check_def)

lemma mark_failed_ok:
  "resources_ok d \<Longrightarrow> mark_failed r st code now d = Inr (x, d') \<Longrightarrow> resources_ok d'"
  unfolding mark_failed_def
  by (erule (1) update_resource_ok) (auto simp: resource_row_ok_def credentials_check_def)

lemma resources_ok_frame:
  "resources_ok d \<Longrightarrow> t_database_resources d' = t_database_resources d \<Longrightarrow> project_ids d \<subseteq> project_ids d' \<Longrightarrow>
   resources_ok d'"
  by (auto simp: resources_ok_def)

section \<open>What a step does not do\<close>

text \<open>\<open>_reconcile\<close> on a resource whose phase is already the last one: the status is left as
  it is, whatever it is.\<close>

lemma reconcile_resource_active_phase:
  assumes "res_phase r = PHASE_ACTIVE" "res_credential_reference r = Some reference"
    "res_credential_fingerprint r = Some fp" "read_secret (ds_sha S) reference fp s = Inr password"
  shows "reconcile_resource S V clock r (s, d) = (Inr r, (s, d))"
  using assms
  by (simp add: reconcile_resource_def reconcile_step_def credential_def bind_act_def ret_def store_act_def)

end
