(* ===== verification/Deployment_Service.thy ===== *)
theory Deployment_Service
  imports Project_Database
begin

text \<open>
  \<open>deployments/service.py\<close> and the request schema of \<open>deployments/schemas.py\<close>: choosing
  the commit and freezing the configuration of a new deployment, and turning the errors of
  the repository and of the log gateways into \<open>AppError\<close>s.
\<close>

section \<open>Requests\<close>

record source_input =
  si_type :: deployment_source
  si_commit_sha :: "string option"

definition validate_source :: "source_input \<Rightarrow> exn + source_input" where
  "validate_source s =
     (if si_type s = MAIN_HEAD \<and> si_commit_sha s \<noteq> None
        then Inl (ValueError ''MAIN_HEAD must not include commitSha'')
      else if si_type s = MAIN_COMMIT \<and>
              (case si_commit_sha s of None \<Rightarrow> True | Some c \<Rightarrow> \<not> sha_ok c)
        then Inl (ValueError ''MAIN_COMMIT requires a lowercase full commit SHA'')
      else Inr s)"

text \<open>\<open>any(service.get("projectDatabaseAccess") is True for service in \<dots>)\<close>.\<close>

fun any_database_access :: "json list \<Rightarrow> exn + bool" where
  "any_database_access [] = Inr False"
| "any_database_access (JObj s # ss) =
     (if jget ''projectDatabaseAccess'' s = Some (JBool True) then Inr True
      else any_database_access ss)"
| "any_database_access (_ # ss) = Inl (OtherError ''AttributeError'')"

definition config_services :: "project \<Rightarrow> exn + json list" where
  "config_services p =
     (case prj_deployment_config p of
        None \<Rightarrow> Inr []
      | Some (JObj c) \<Rightarrow>
          (case json_items (jget ''services'' c) of
             None \<Rightarrow> Inl (OtherError ''TypeError'') | Some ss \<Rightarrow> Inr ss)
      | Some _ \<Rightarrow> Inl (OtherError ''AttributeError''))"

definition request_metadata ::
    "database_service option \<Rightarrow> project \<Rightarrow> (db, (string \<times> json) list option) tx" where
  "request_metadata S p =
     (case S of
        Some s \<Rightarrow> deployment_metadata s p
      | None \<Rightarrow>
          tx_bind (tx_lift (bind_sum (config_services p) any_database_access)) (\<lambda>access.
            tx_seq (tx_raise_if access
                      (AppError 503 ''PROJECT_DATABASE_UNAVAILABLE''
                         ''Managed project PostgreSQL is not configured''))
              (tx_ret None)))"

definition resolve_commit :: "source_input \<Rightarrow> commit list \<Rightarrow> exn + string" where
  "resolve_commit source commits =
     (if commits = []
        then Inl (AppError 422 ''MAIN_HAS_NO_COMMITS'' ''The main branch has no commits'')
      else if si_type source = MAIN_HEAD then Inr (cm_sha (hd commits))
      else (case fetch (\<lambda>c. Some (cm_sha c) = si_commit_sha source) commits of
              None \<Rightarrow> Inl (AppError 422 ''COMMIT_NOT_IN_RECENT_MAIN''
                             ''Select a commit from the recent main commit list'')
            | Some c \<Rightarrow> Inr (cm_sha c)))"

definition request_error :: "exn \<Rightarrow> exn" where
  "request_error e =
     (if e = ActiveDeploymentError
        then AppError 409 ''ACTIVE_DEPLOYMENT_EXISTS'' ''Wait for the active deployment to finish''
      else if e = DeploymentProjectDeletingError then project_deleting
      else e)"

definition request_deployment ::
    "git_client \<Rightarrow> database_service option \<Rightarrow> uuid \<Rightarrow> source_input \<Rightarrow> uuid \<Rightarrow> time \<Rightarrow>
     (db, deployment) tx" where
  "request_deployment git S project_id source i now =
     tx_bind (service_ready project_id) (\<lambda>project.
     tx_bind (request_metadata S project) (\<lambda>metadata.
     tx_bind (service_commits git project_id) (\<lambda>commits.
     tx_bind (tx_lift (resolve_commit source commits)) (\<lambda>resolved_sha.
       let config = (case prj_deployment_config project of None \<Rightarrow> JObj [] | Some c \<Rightarrow> c) in
       tx_map_error request_error
         (create_deployment i now (prj_id project) (si_type source) (si_commit_sha source)
            resolved_sha (prj_config_version project) (with_metadata config metadata))))))"

section \<open>Reading\<close>

definition deployment_not_found :: "exn \<Rightarrow> exn" where
  "deployment_not_found e =
     (if e = DeploymentNotFoundError
      then AppError 404 ''DEPLOYMENT_NOT_FOUND'' ''Deployment was not found'' else e)"

definition service_get_deployment :: "uuid \<Rightarrow> (db, deployment) tx" where
  "service_get_deployment i = tx_map_error deployment_not_found (get_deployment i)"

definition service_list_for_project :: "uuid \<Rightarrow> (db, deployment list) tx" where
  "service_list_for_project i =
     tx_bind (service_get_project i) (\<lambda>_. tx_read (list_deployments_for_project i))"

definition service_list_recent :: "(db, deployment list) tx" where
  "service_list_recent = tx_read (list_recent_deployments 100)"

definition service_events :: "uuid \<Rightarrow> (db, deployment_event list) tx" where
  "service_events i = tx_bind (service_get_deployment i) (\<lambda>_. tx_read (list_events i 100))"

definition service_diagnostics :: "uuid \<Rightarrow> time \<Rightarrow> (db, artifact list) tx" where
  "service_diagnostics i now =
     tx_bind (service_get_deployment i) (\<lambda>_. tx_read (list_diagnostics i now))"

definition service_diagnostic :: "uuid \<Rightarrow> uuid \<Rightarrow> time \<Rightarrow> (db, artifact) tx" where
  "service_diagnostic i artifact_id now =
     tx_bind (service_get_deployment i) (\<lambda>_.
       tx_map_error
         (\<lambda>e. if e = DeploymentDiagnosticNotFoundError
              then AppError 404 ''DEPLOYMENT_DIAGNOSTIC_NOT_FOUND''
                     ''Deployment diagnostic was not found or has expired'' else e)
         (get_diagnostic i artifact_id now))"

definition service_reconcile_succeeded :: "uuid \<Rightarrow> time \<Rightarrow> (db, deployment) tx" where
  "service_reconcile_succeeded i now =
     tx_map_error
       (\<lambda>e. if e = DeploymentReconciliationConflictError
            then AppError 409 ''DEPLOYMENT_RECONCILIATION_CONFLICT''
                   ''Deployment state cannot be reconciled as active''
            else deployment_not_found e)
       (reconcile_succeeded i now)"

section \<open>Log gateways\<close>

text \<open>The two tables of errors, with the default their lookups fall back to.  A gateway is a
  parameter: what it answers for a deployment.\<close>

definition service_log_error :: "string \<Rightarrow> string \<Rightarrow> exn" where
  "service_log_error fallback code =
     (let entry = (\<lambda>c.
        if c = ''SERVICE_LOG_SERVICE_NOT_FOUND'' then
          Some (AppError 400 c ''Select a service from the immutable deployment snapshot'')
        else if c = ''SERVICE_LOGS_UNAVAILABLE'' then
          Some (AppError 409 c
            ''The service container has not been created or is no longer available'')
        else if c = ''RUNTIME_LOG_BROKER_UNAVAILABLE'' then
          Some (AppError 503 c ''The runtime Worker log broker is unavailable'')
        else if c = ''SERVICE_LOG_REDACTION_UNAVAILABLE'' then
          Some (AppError 503 c
            ''Service logs were withheld because secret redaction could not be prepared'')
        else if c = ''RUNTIME_LOG_STREAM_BUSY'' then
          Some (AppError 503 c
            ''The runtime Worker has reached the live service log connection limit'')
        else if c = ''RUNTIME_LOG_STREAM_UNAVAILABLE'' then
          Some (AppError 503 c ''The runtime Worker live log broker is unavailable'')
        else None)
      in case entry code of
           Some e \<Rightarrow> e
         | None \<Rightarrow> (case entry fallback of Some e \<Rightarrow> e | None \<Rightarrow> OtherError ''KeyError''))"

definition event_stream_error :: "string \<Rightarrow> exn" where
  "event_stream_error code =
     (if code = ''DEPLOYMENT_EVENT_STREAM_BUSY'' then
        AppError 503 code ''The deployment event stream connection limit has been reached''
      else AppError 503 ''DEPLOYMENT_EVENT_STREAM_UNAVAILABLE''
             ''The deployment event stream is unavailable'')"

definition gateway_result :: "(exn \<Rightarrow> exn) \<Rightarrow> exn \<Rightarrow> (exn + 'a) option \<Rightarrow> exn + 'a" where
  "gateway_result h unavailable r =
     (case r of None \<Rightarrow> Inl unavailable | Some (Inl e) \<Rightarrow> Inl (h e) | Some (Inr a) \<Rightarrow> Inr a)"

definition open_event_stream ::
    "(uuid \<Rightarrow> int \<Rightarrow> exn + 'a) option \<Rightarrow> uuid \<Rightarrow> int \<Rightarrow> (db, 'a) tx" where
  "open_event_stream gateway i after_id =
     tx_bind (service_get_deployment i) (\<lambda>_. tx_lift
       (gateway_result
          (\<lambda>e. case e of DeploymentEventStreamError c \<Rightarrow> event_stream_error c | _ \<Rightarrow> e)
          (AppError 503 ''DEPLOYMENT_EVENT_STREAM_UNAVAILABLE''
             ''The deployment event stream is unavailable'')
          (map_option (\<lambda>g. g i after_id) gateway)))"

definition service_logs ::
    "(uuid \<Rightarrow> string option \<Rightarrow> exn + 'a) option \<Rightarrow> uuid \<Rightarrow> string option \<Rightarrow> (db, 'a) tx" where
  "service_logs gateway i service =
     tx_bind (service_get_deployment i) (\<lambda>_. tx_lift
       (gateway_result
          (\<lambda>e. case e of ServiceLogError c \<Rightarrow> service_log_error ''RUNTIME_LOG_BROKER_UNAVAILABLE'' c
               | _ \<Rightarrow> e)
          (AppError 503 ''RUNTIME_LOG_BROKER_UNAVAILABLE''
             ''The runtime Worker log broker is unavailable'')
          (map_option (\<lambda>g. g i service) gateway)))"

definition open_service_log_stream ::
    "(uuid \<Rightarrow> string option \<Rightarrow> exn + 'a) option \<Rightarrow> uuid \<Rightarrow> string option \<Rightarrow> (db, 'a) tx" where
  "open_service_log_stream gateway i service =
     tx_bind (service_get_deployment i) (\<lambda>_. tx_lift
       (gateway_result
          (\<lambda>e. case e of ServiceLogError c \<Rightarrow> service_log_error ''RUNTIME_LOG_STREAM_UNAVAILABLE'' c
               | _ \<Rightarrow> e)
          (AppError 503 ''RUNTIME_LOG_STREAM_UNAVAILABLE''
             ''The runtime Worker live log broker is unavailable'')
          (map_option (\<lambda>g. g i service) gateway)))"

section \<open>What a request freezes\<close>

lemma service_ready_Inr:
  "service_ready i d = Inr (p, d') \<longleftrightarrow>
   (\<exists>q. project_of d i = Some q \<and> p = selected_project d q \<and> prj_status q = P_READY \<and>
      prj_deployment_config q \<noteq> None) \<and> d' = d"
proof -
  have fields: "prj_status (selected_project d q) = prj_status q"
    "prj_deployment_config (selected_project d q) = prj_deployment_config q" for q
    by (simp_all add: selected_project_def project_with_def project_row.defs)
  show ?thesis
    by (auto simp: service_ready_def service_get_project_def get_project_def ensure_ready_def fields)
qed

lemma connected_names_access:
  "connected_names ss = Inr ns \<Longrightarrow> (ns = [] \<longleftrightarrow> any_database_access ss = Inr False)"
  by (induction ss arbitrary: ns rule: connected_names.induct)
    (auto simp: bind_sum_Inr split: option.splits json.splits if_splits)

text \<open>A commit that is resolved comes from the list that was read, and is the requested one
  if one was requested.\<close>

lemma resolve_commit_Inr:
  "resolve_commit source commits = Inr sha \<Longrightarrow>
   \<exists>c\<in>set commits. cm_sha c = sha \<and>
     (si_type source = MAIN_HEAD \<longrightarrow> c = hd commits) \<and>
     (si_type source = MAIN_COMMIT \<longrightarrow> si_commit_sha source = Some sha)"
  by (cases "si_type source")
    (auto simp: resolve_commit_def split: if_splits option.splits dest: fetch_SomeD)

lemma request_deployment_Inr:
  assumes "request_deployment git S project_id source i now d = Inr (x, d')"
  obtains q metadata commits sha where
    "project_of d project_id = Some q" "prj_status q = P_READY"
    "request_metadata S (selected_project d q) d = Inr (metadata, d)"
    "git_recent_commits git (prj_repository_url q) = Inr commits"
    "resolve_commit source commits = Inr sha"
    "create_deployment i now project_id (si_type source) (si_commit_sha source) sha
       (prj_config_version q) (with_metadata (the (prj_deployment_config q)) metadata) d = Inr (x, d')"
proof -
  have kept: "request_metadata S p e = Inr (m, e') \<Longrightarrow> e' = e" for p e m e'
    by (auto simp: request_metadata_def deployment_metadata_def require_active_def
        split: option.splits if_splits)
  have fields: "prj_id (selected_project d q) = prj_id q"
    "prj_deployment_config (selected_project d q) = prj_deployment_config q"
    "prj_config_version (selected_project d q) = prj_config_version q"
    "prj_repository_url (selected_project d q) = prj_repository_url q" for q
    by (simp_all add: selected_project_def project_with_def project_row.defs)
  from assms obtain q metadata d1 commits sha where
    q: "project_of d project_id = Some q" "prj_status q = P_READY" "prj_deployment_config q \<noteq> None"
    and m: "request_metadata S (selected_project d q) d = Inr (metadata, d1)"
    and c: "service_commits git project_id d1 = Inr (commits, d1)" "resolve_commit source commits = Inr sha"
    and x: "create_deployment i now (prj_id q) (si_type source) (si_commit_sha source) sha
       (prj_config_version q) (with_metadata (the (prj_deployment_config q)) metadata) d1 = Inr (x, d')"
    unfolding request_deployment_def
    by (auto simp: service_ready_Inr fields Let_def service_commits_def service_get_project_def get_project_def
        split: option.splits)
  have d1: "d1 = d" using kept [OF m] .
  have id: "prj_id q = project_id" using fetch_SomeD [OF q(1)] by simp
  have "git_recent_commits git (prj_repository_url q) = Inr commits"
    using c(1) q(1) by (auto simp: d1 service_commits_def service_get_project_def get_project_def fields)
  with that q m c(2) x show ?thesis by (simp add: d1 id)
qed

end
