(* ===== verification/Reconciliation_Worker.thy ===== *)
theory Reconciliation_Worker
  imports Deployment_Service
begin

text \<open>
  \<open>runtime/reconciliation_worker.py\<close> and \<open>runtime/reconciliation_service.py\<close>: one pass of
  the worker that decides what an uncertain deployment left behind, and the two requests
  of an administrator.  The processor is a parameter, as for the deployment worker.
\<close>

section \<open>The worker\<close>

record 's reconciliation_processor =
  rcp_recover :: "deployment \<Rightarrow> ('s, unit) act \<Rightarrow> ('s, recovery_disposition) act"
  rcp_cleanup_candidate_verified :: "deployment \<Rightarrow> ('s, unit) act \<Rightarrow> ('s, unit) act"
  rcp_prepare_reconciliation_cleanup :: "deployment \<Rightarrow> ('s, unit) act \<Rightarrow> ('s, unit) act"
  rcp_capture_diagnostics ::
    "deployment \<Rightarrow> runtime_failure \<Rightarrow> ('s, unit) act \<Rightarrow> ('s, artifact_draft list) act"

record 's reconciliation_worker =
  rw_processor :: "'s reconciliation_processor"
  rw_worker_id :: string
  rw_lease_duration :: time
  rw_retention_duration :: time
  rw_max_attempts :: int
  rw_retry_base_delay :: time
  rw_diagnostic_retention :: "time option"
  rw_on_runtime_ready :: "(uuid \<Rightarrow> ('s, unit) act) option"

definition reconciliation_worker_init :: "'s reconciliation_worker \<Rightarrow> exn + 's reconciliation_worker" where
  "reconciliation_worker_init W =
     (if rw_worker_id W = [] \<or> 128 < length (rw_worker_id W)
        then Inl (ValueError ''worker_id must be between 1 and 128 characters'')
      else if rw_lease_duration W \<le> 0 then Inl (ValueError ''lease duration must be positive'')
      else if rw_retention_duration W \<le> 0 then Inl (ValueError ''retention duration must be positive'')
      else if rw_max_attempts W < 1 then Inl (ValueError ''max attempts must be positive'')
      else if (case rw_diagnostic_retention W of None \<Rightarrow> False | Some r \<Rightarrow> r \<le> 0)
        then Inl (ValueError ''diagnostic retention must be positive'')
      else Inr W)"

definition rc_heartbeat :: "'w ports \<Rightarrow> reconciliation_claim \<Rightarrow> time \<Rightarrow> ('w \<times> db, unit) act" where
  "rc_heartbeat P c lease = void (repo_call P (rc_renew c lease))"

text \<open>\<open>_capture_before_cleanup\<close>: everything but a lost claim is swallowed.\<close>

definition swallow_but_lost :: "('s, unit) act \<Rightarrow> ('s, unit) act" where
  "swallow_but_lost m =
     try_act m (\<lambda>e. if e = ReconciliationClaimLostError then raise e else ret ())"

definition capture_before_cleanup ::
    "'w ports \<Rightarrow> ('w \<times> db) reconciliation_worker \<Rightarrow> deployment \<Rightarrow> ('w \<times> db, unit) act \<Rightarrow> string \<Rightarrow>
     ('w \<times> db, unit) act" where
  "capture_before_cleanup P W x progress code =
     (case rw_diagnostic_retention W of
        None \<Rightarrow> ret ()
      | Some retention \<Rightarrow>
          bind_act
            (try_act
              (bind_act (rcp_prepare_reconciliation_cleanup (rw_processor W) x progress) (\<lambda>_. ret True))
              (\<lambda>e. if e = ReconciliationClaimLostError then raise e else ret False))
            (\<lambda>prepared. if \<not> prepared then ret () else
              swallow_but_lost
                (bind_act (rcp_capture_diagnostics (rw_processor W) x
                             (runtime_failure ''RECONCILIATION'' code False False) progress)
                  (\<lambda>artifacts. bind_act (draw_ids P artifacts)
                    (\<lambda>rows. void (repo_call P
                       (record_reconciliation_diagnostics (dep_id x) ''RECONCILIATION'' code rows
                          retention)))))))"

definition clean_candidate ::
    "'w ports \<Rightarrow> ('w \<times> db) reconciliation_worker \<Rightarrow> reconciliation_claim \<Rightarrow> deployment \<Rightarrow> string \<Rightarrow>
     string \<Rightarrow> ('w \<times> db, unit) act" where
  "clean_candidate P W c x capture_code result_code =
     (let progress = rc_heartbeat P c (rw_lease_duration W) in
      seq_act (capture_before_cleanup P W x progress capture_code)
       (seq_act (rcp_cleanup_candidate_verified (rw_processor W) x progress)
         (seq_act progress
           (void (repo_call P (rc_resolve c RC_CLEANED result_code))))))"

definition restore_active ::
    "'w ports \<Rightarrow> ('w \<times> db) reconciliation_worker \<Rightarrow> reconciliation_claim \<Rightarrow> deployment \<Rightarrow>
     ('w \<times> db, unit) act" where
  "restore_active P W c x =
     seq_act (rc_heartbeat P c (rw_lease_duration W))
       (bind_act (repo_call P (service_reconcile_succeeded (dep_id x)))
         (\<lambda>reconciled.
            seq_act (case rw_on_runtime_ready W of
                       None \<Rightarrow> ret ()
                     | Some ready \<Rightarrow> suppress_all (ready (dep_project_id reconciled)))
              (void (repo_call P (rc_resolve c RC_ACTIVE ''ACTIVE_GENERATION_RECONCILED'')))))"

definition rc_process ::
    "'w ports \<Rightarrow> ('w \<times> db) reconciliation_worker \<Rightarrow> reconciliation_claim \<Rightarrow> ('w \<times> db, unit) act" where
  "rc_process P W c =
     (if rw_max_attempts W < rc_attempts (rcc_reconciliation c) then
        void (repo_call P (rc_block c ''RECONCILIATION_ATTEMPTS_EXHAUSTED''))
      else
        bind_act (tx_act (service_get_deployment (rc_deployment_id (rcc_reconciliation c))))
         (\<lambda>x. bind_act (rcp_recover (rw_processor W) x (rc_heartbeat P c (rw_lease_duration W)))
           (\<lambda>disposition.
              if disposition = ACTIVE then restore_active P W c x
              else if disposition = SAFE_TO_RETRY then
                clean_candidate P W c x ''INACTIVE_CANDIDATE_CLEANUP'' ''INACTIVE_CANDIDATE_CLEANED''
              else if rc_action (rcc_reconciliation c) = FORCE_CLEANUP then
                clean_candidate P W c x ''FORCED_CANDIDATE_CLEANUP'' ''FORCED_CANDIDATE_CLEANUP''
              else void (repo_call P (rc_block c ''RECOVERY_STATE_UNCERTAIN'')))))"

definition unless_lost :: "('s, unit) act \<Rightarrow> ('s, unit) act" where
  "unless_lost m = try_act m (\<lambda>e. if e = ReconciliationClaimLostError then ret () else raise e)"

definition rc_retry_delay :: "'s reconciliation_worker \<Rightarrow> reconciliation_claim \<Rightarrow> time" where
  "rc_retry_delay W c = rw_retry_base_delay W * 2 ^ nat (rc_attempts (rcc_reconciliation c) - 1)"

definition rc_handle_failure ::
    "'w ports \<Rightarrow> ('w \<times> db) reconciliation_worker \<Rightarrow> reconciliation_claim \<Rightarrow> runtime_failure \<Rightarrow>
     ('w \<times> db, unit) act" where
  "rc_handle_failure P W c f =
     unless_lost
       (if rf_retryable f \<and> rc_attempts (rcc_reconciliation c) < rw_max_attempts W then
          bind_act (get_act (p_clock P))
            (\<lambda>t. void (repo_call P (rc_retry c (t + rc_retry_delay W c) (rf_code f))))
        else void (repo_call P (rc_block c (rf_code f))))"

definition rc_run_claim ::
    "'w ports \<Rightarrow> ('w \<times> db) reconciliation_worker \<Rightarrow> reconciliation_claim \<Rightarrow> ('w \<times> db, unit) act" where
  "rc_run_claim P W c =
     try_act (rc_process P W c)
       (\<lambda>e. case e of
              ReconciliationClaimLostError \<Rightarrow> ret ()
            | AppError _ _ _ \<Rightarrow>
                unless_lost (void (repo_call P (rc_block c ''RECONCILIATION_DEPLOYMENT_CONFLICT'')))
            | RuntimeFailure f \<Rightarrow> rc_handle_failure P W c f
            | _ \<Rightarrow> rc_handle_failure P W c
                     (runtime_failure ''RECONCILIATION'' ''UNEXPECTED_RECONCILIATION_FAILURE'' True False))"

text \<open>The candidates of the automatic schedule.\<close>

definition schedule_candidates :: "time \<Rightarrow> deployment list \<Rightarrow> (uuid \<times> time) list" where
  "schedule_candidates retention xs =
     map (\<lambda>x. (dep_id x, the (dep_terminal_at x) + retention))
       (filter (\<lambda>x. dep_terminal_at x \<noteq> None) xs)"

definition rc_claim_act :: "'w ports \<Rightarrow> ('w \<times> db) reconciliation_worker \<Rightarrow>
    ('w \<times> db, reconciliation_claim option) act" where
  "rc_claim_act P W =
     bind_act (get_act (p_clock P)) (\<lambda>now. bind_act (get_act (p_uuid P)) (\<lambda>token.
       bind_act (get_act (p_locked P)) (\<lambda>locked.
         tx_act (rc_claim_next (rw_worker_id W) (rw_lease_duration W) locked token now))))"

definition rc_run_once ::
    "'w ports \<Rightarrow> ('w \<times> db) reconciliation_worker \<Rightarrow> ('w \<times> db, bool) act" where
  "rc_run_once P W =
     bind_act (get_act (p_clock P)) (\<lambda>now.
     bind_act (tx_act (tx_read (list_uncertain_before (now - rw_retention_duration W) 100))) (\<lambda>eligible.
     seq_act
       (repo_call P (rc_schedule_automatic
          (schedule_candidates (rw_retention_duration W) eligible)))
       (bind_act (rc_claim_act P W)
         (\<lambda>claim. case claim of
            None \<Rightarrow> ret False
          | Some c \<Rightarrow> seq_act (rc_run_claim P W c) (ret True)))))"

section \<open>The service\<close>

record reconciliation_view =
  rv_deployment_id :: uuid
  rv_state :: string
  rv_action :: reconciliation_action
  rv_requested_by :: reconciliation_requester
  rv_result :: "reconciliation_result option"
  rv_result_code :: "string option"
  rv_attempts :: int
  rv_available_at :: time
  rv_updated_at :: time
  rv_completed_at :: "time option"

fun reconciliation_state_value :: "reconciliation_state \<Rightarrow> string" where
  "reconciliation_state_value RC_PENDING = ''PENDING''"
| "reconciliation_state_value RC_CLAIMED = ''CLAIMED''"
| "reconciliation_state_value RC_RESOLVED = ''RESOLVED''"
| "reconciliation_state_value RC_BLOCKED = ''BLOCKED''"

definition view_of :: "reconciliation \<Rightarrow> reconciliation_view" where
  "view_of r =
     \<lparr>rv_deployment_id = rc_deployment_id r, rv_state = reconciliation_state_value (rc_state r),
      rv_action = rc_action r, rv_requested_by = rc_requested_by r, rv_result = rc_result r,
      rv_result_code = rc_result_code r, rv_attempts = rc_attempts r,
      rv_available_at = rc_available_at r, rv_updated_at = rc_updated_at r,
      rv_completed_at = rc_completed_at r\<rparr>"

definition require_uncertain :: "deployment \<Rightarrow> (db, unit) tx" where
  "require_uncertain x =
     tx_raise_if (\<not> (recovery_uncertain x \<and> dep_terminal_at x \<noteq> None))
       (AppError 409 ''RUNTIME_RECONCILIATION_NOT_REQUIRED''
          ''Only an uncertain failed deployment can be reconciled'')"

definition rc_service_get :: "time \<Rightarrow> uuid \<Rightarrow> (db, reconciliation_view) tx" where
  "rc_service_get retention i =
     tx_bind (service_get_deployment i) (\<lambda>x.
     tx_bind (tx_read (rc_get i)) (\<lambda>item. case item of
       Some r \<Rightarrow> tx_ret (view_of r)
     | None \<Rightarrow> tx_seq (require_uncertain x)
         (tx_ret \<lparr>rv_deployment_id = dep_id x, rv_state = ''RETAINED'', rv_action = RECONCILE,
            rv_requested_by = SYSTEM, rv_result = None, rv_result_code = None, rv_attempts = 0,
            rv_available_at = the (dep_terminal_at x) + retention,
            rv_updated_at = dep_updated_at x, rv_completed_at = None\<rparr>)))"

definition rc_service_request ::
    "uuid \<Rightarrow> reconciliation_action \<Rightarrow> string option \<Rightarrow> time \<Rightarrow> (db, reconciliation_view) tx" where
  "rc_service_request i action confirmation now =
     tx_bind (service_get_deployment i) (\<lambda>x.
     tx_seq (require_uncertain x)
      (tx_seq (tx_raise_if (action = FORCE_CLEANUP \<and> confirmation \<noteq> Some (uuid_str (dep_id x)))
                 (AppError 422 ''DEPLOYMENT_CONFIRMATION_MISMATCH''
                    ''Enter the full deployment ID to confirm forced cleanup''))
       (tx_seq (tx_raise_if (action = RECONCILE \<and> confirmation \<noteq> None)
                  (AppError 422 ''UNEXPECTED_DEPLOYMENT_CONFIRMATION''
                     ''Safe reconciliation does not accept a cleanup confirmation''))
         (tx_bind
           (tx_map_error
             (\<lambda>e. if e = ReconciliationInProgressError
                  then AppError 409 ''RUNTIME_RECONCILIATION_IN_PROGRESS''
                         ''Wait for the current runtime reconciliation to finish''
                  else if e = ReconciliationProjectDeletingError then project_deleting
                  else e)
             (rc_request (dep_id x) action ADMIN now))
           (\<lambda>item. tx_ret (view_of item))))))"

section \<open>The transactions keep the invariants\<close>

definition recovery_tables_ok :: "'w \<times> db \<Rightarrow> bool" where
  "recovery_tables_ok s =
     (deployments_ok (snd s) \<and> artifacts_ok (snd s) \<and> reconciliations_ok (snd s))"

lemma deployments_ok_reconciliations [simp]:
  "deployments_ok (d\<lparr>t_reconciliations := rs\<rparr>) = deployments_ok d"
  "artifacts_ok (d\<lparr>t_reconciliations := rs\<rparr>) = artifacts_ok d"
  by (simp_all add: deployments_ok_def dep_keys_ok_def dep_pairs_ok_def one_active_deployment_def
      events_ok_def artifacts_ok_def artifact_row_ok_def)

text \<open>The methods of the reconciliation repository touch no other table.\<close>

definition only_reconciliations :: "(db, 'a) tx \<Rightarrow> bool" where
  "only_reconciliations m = (\<forall>d a d'. m d = Inr (a, d') \<longrightarrow> (\<exists>rs. d' = d\<lparr>t_reconciliations := rs\<rparr>))"

lemma same_reconciliations: "\<exists>rs. d = d\<lparr>t_reconciliations := rs\<rparr>"
  by (rule exI [of _ "t_reconciliations d"]) simp

lemma only_reconciliations_bind:
  assumes "only_reconciliations m" "\<And>a. only_reconciliations (f a)"
  shows "only_reconciliations (tx_bind m f)"
  unfolding only_reconciliations_def
proof (intro allI impI)
  fix d b d'
  assume "tx_bind m f d = Inr (b, d')"
  then obtain a d1 where "m d = Inr (a, d1)" "f a d1 = Inr (b, d')" by auto
  with assms obtain rs rs' where "d1 = d\<lparr>t_reconciliations := rs\<rparr>" "d' = d1\<lparr>t_reconciliations := rs'\<rparr>"
    unfolding only_reconciliations_def by meson
  then show "\<exists>rs. d' = d\<lparr>t_reconciliations := rs\<rparr>" by auto
qed

lemma only_reconciliations_seq:
  "only_reconciliations m \<Longrightarrow> only_reconciliations n \<Longrightarrow> only_reconciliations (tx_seq m n)"
  by (simp add: tx_seq_def only_reconciliations_bind)

lemma only_reconciliations_reads:
  "only_reconciliations (tx_ret a)" "only_reconciliations (tx_read f)"
  "only_reconciliations (tx_raise_if b e)" "only_reconciliations (tx_require e x)"
  "only_reconciliations (rc_lock_claim c now)"
  by (auto simp: only_reconciliations_def same_reconciliations rc_lock_claim_eq split: if_splits)

lemma only_reconciliations_methods:
  "only_reconciliations (rc_renew c l now)" "only_reconciliations (rc_resolve c res code now)"
  "only_reconciliations (rc_block c code now)" "only_reconciliations (rc_retry c at code now)"
  "only_reconciliations (rc_claim_next w l locked t now)" "only_reconciliations (rc_schedule_all now cs)"
proof -
  have upd: "only_reconciliations (update_reconciliation c f)" for f
    by (auto simp: only_reconciliations_def update_reconciliation_def Let_def)
  show "only_reconciliations (rc_resolve c res code now)" "only_reconciliations (rc_block c code now)"
    "only_reconciliations (rc_retry c at code now)"
    unfolding rc_resolve_def rc_block_def rc_retry_def rc_finish_def
    by (intro only_reconciliations_seq only_reconciliations_reads upd)+
  show "only_reconciliations (rc_renew c l now)"
    by (auto simp: only_reconciliations_def rc_renew_def Let_def split: option.splits)
  show "only_reconciliations (rc_claim_next w l locked t now)"
    by (auto simp: only_reconciliations_def rc_claim_next_def Let_def same_reconciliations
        split: option.splits prod.splits)
  have one: "only_reconciliations (rc_schedule_one now x)" for x
    by (cases x) (auto simp: only_reconciliations_def rc_schedule_one_def same_reconciliations
        insert_reconciliation_def split: option.splits if_splits)
  show "only_reconciliations (rc_schedule_all now cs)"
    by (induction cs) (auto intro: only_reconciliations_seq only_reconciliations_reads one)
qed

lemma only_reconciliationsD:
  "only_reconciliations m \<Longrightarrow> m d = Inr (a, d') \<Longrightarrow> deployments_ok d \<Longrightarrow> artifacts_ok d \<Longrightarrow>
   deployments_ok d' \<and> artifacts_ok d'"
  unfolding only_reconciliations_def by fastforce

lemma recovery_txs:
  assumes "recovery_tables_ok (w, d)"
  shows "rc_renew c l now d = Inr (e, d') \<Longrightarrow> recovery_tables_ok (w, d')"
    "rc_resolve c res code now d = Inr (x, d') \<Longrightarrow> recovery_tables_ok (w, d')"
    "rc_block c code now d = Inr (x, d') \<Longrightarrow> recovery_tables_ok (w, d')"
    "rc_retry c at code now d = Inr (x, d') \<Longrightarrow> recovery_tables_ok (w, d')"
    "rc_claim_next wk l locked t now d = Inr (o', d') \<Longrightarrow> recovery_tables_ok (w, d')"
    "rc_schedule_automatic cs now d = Inr (u, d') \<Longrightarrow> recovery_tables_ok (w, d')"
proof -
  note ok = assms [unfolded recovery_tables_ok_def snd_conv]
  note D = only_reconciliationsD [OF _ _ conjunct1 [OF ok] conjunct1 [OF conjunct2 [OF ok]]]
  note R = conjunct2 [OF conjunct2 [OF ok]]
  note [simp] = recovery_tables_ok_def
  show "rc_renew c l now d = Inr (e, d') \<Longrightarrow> recovery_tables_ok (w, d')"
    using D [OF only_reconciliations_methods(1)] rc_renew_ok [OF R] by simp
  show "rc_resolve c res code now d = Inr (x, d') \<Longrightarrow> recovery_tables_ok (w, d')"
    using D [OF only_reconciliations_methods(2)] rc_resolve_ok [OF R] by simp
  show "rc_block c code now d = Inr (x, d') \<Longrightarrow> recovery_tables_ok (w, d')"
    using D [OF only_reconciliations_methods(3)] rc_block_ok [OF R] by simp
  show "rc_retry c at code now d = Inr (x, d') \<Longrightarrow> recovery_tables_ok (w, d')"
    using D [OF only_reconciliations_methods(4)] rc_retry_ok [OF R] by simp
  show "rc_claim_next wk l locked t now d = Inr (o', d') \<Longrightarrow> recovery_tables_ok (w, d')"
    using D [OF only_reconciliations_methods(5)] rc_claim_next_ok [OF R] by simp
  show "rc_schedule_automatic cs now d = Inr (u, d') \<Longrightarrow> recovery_tables_ok (w, d')"
    using D [OF only_reconciliations_methods(6), of now cs u d'] rc_schedule_automatic_ok [OF R] ok
    by (auto simp: rc_schedule_automatic_def split: if_splits)
qed

lemma deployment_ids_move:
  "(\<And>x. dep_id (f x) = dep_id x) \<Longrightarrow> deployment_ids (dep_move i f g d) = deployment_ids d"
  by (simp add: deployment_ids_def upd_key_image)

lemma reconcile_succeeded_recovery:
  assumes "recovery_tables_ok (w, d)" "service_reconcile_succeeded i now d = Inr (x, d')"
  shows "recovery_tables_ok (w, d')"
proof -
  from assms(2) have run: "reconcile_succeeded i now d = Inr (x, d')"
    by (simp add: service_reconcile_succeeded_def)
  from assms(1) have ok: "deployments_ok d" "artifacts_ok d" "reconciliations_ok d"
    by (simp_all add: recovery_tables_ok_def)
  have "reconciliations_ok d'" "artifacts_ok d'"
    using reconcile_succeeded_Inr [OF run] ok
    by (auto intro!: reconciliations_ok_frame [OF ok(3)]
        simp: deployment_ids_def upd_key_image)
  with reconcile_succeeded_ok [OF ok(1) run] show ?thesis by (simp add: recovery_tables_ok_def)
qed

lemma record_reconciliation_diagnostics_recovery:
  assumes "recovery_tables_ok (w, d)"
    "record_reconciliation_diagnostics i st code rows retention now d = Inr (x, d')"
  shows "recovery_tables_ok (w, d')"
proof -
  let ?s = "diagnostic_event_summary (map snd rows)"
  let ?d = "log_event i st (fst ?s) (snd ?s) now d"
  from assms(1) have ok: "deployments_ok d" "artifacts_ok d" "reconciliations_ok d"
    by (simp_all add: recovery_tables_ok_def)
  from assms(2) have run:
    "insert_diagnostic_artifacts i (t_event_seq d + 1) st code retention rows ?d = Inr ((), d')"
    by (auto simp: record_reconciliation_diagnostics_def case_prod_beta)
  from insert_diagnostic_artifacts_frame [OF run] have "reconciliations_ok d'"
    by (auto intro!: reconciliations_ok_frame [OF ok(3)] simp: deployment_ids_def)
  with record_reconciliation_diagnostics_ok [OF ok(1,2) assms(2)] show ?thesis
    by (simp add: recovery_tables_ok_def)
qed

section \<open>A pass always returns\<close>

definition reconciler_keeps :: "('s \<Rightarrow> bool) \<Rightarrow> 's reconciliation_worker \<Rightarrow> bool" where
  "reconciler_keeps I W =
     ((\<forall>x b. keeps I b \<longrightarrow>
        keeps I (rcp_recover (rw_processor W) x b) \<and>
        keeps I (rcp_cleanup_candidate_verified (rw_processor W) x b) \<and>
        keeps I (rcp_prepare_reconciliation_cleanup (rw_processor W) x b)) \<and>
      (\<forall>x f b. keeps I b \<longrightarrow> keeps I (rcp_capture_diagnostics (rw_processor W) x f b)) \<and>
      (\<forall>ready u. rw_on_runtime_ready W = Some ready \<longrightarrow> keeps I (ready u)))"

lemma recovery_calls_keep:
  assumes "ports_keep recovery_tables_ok P"
  shows "keeps recovery_tables_ok (repo_call P (rc_renew c l))"
    "keeps recovery_tables_ok (repo_call P (rc_resolve c res code))"
    "keeps recovery_tables_ok (repo_call P (rc_block c code))"
    "keeps recovery_tables_ok (repo_call P (rc_retry c at code))"
    "keeps recovery_tables_ok (repo_call P (rc_schedule_automatic cs))"
    "keeps recovery_tables_ok (repo_call P (service_reconcile_succeeded i))"
    "keeps recovery_tables_ok (repo_call P (record_reconciliation_diagnostics i st code rows retention))"
  by (rule keeps_repo_call [OF assms], erule (1) recovery_txs)+
    (rule keeps_repo_call [OF assms], erule (1) reconcile_succeeded_recovery
      record_reconciliation_diagnostics_recovery)+

lemma locked_raises_lost:
  assumes "reconciliations_ok d" "tx_seq (rc_lock_claim c now) (update_reconciliation c f) d = Inl e"
  shows "e = ReconciliationClaimLostError"
proof (cases "rc_claim_live c now d")
  case False
  with assms(2) show ?thesis by (auto simp: rc_lock_claim_eq)
next
  case True
  obtain r where "update_reconciliation c f d = Inr (reconciliation.truncate (f r),
       d\<lparr>t_reconciliations :=
           upd (\<lambda>r. rc_deployment_id r = rc_deployment_id (rcc_reconciliation c)) f
             (t_reconciliations d)\<rparr>)"
    by (rule update_reconciliation_live [OF assms(1) True]) (rule that, assumption)
  with assms(2) True show ?thesis by (auto simp: rc_lock_claim_eq)
qed

lemma rc_handlers:
  assumes P: "ports_keep recovery_tables_ok P"
  shows "keeps recovery_tables_ok (unless_lost (void (repo_call P (rc_block c code))))"
    "raises_only {} recovery_tables_ok (unless_lost (void (repo_call P (rc_block c code))))"
    "keeps recovery_tables_ok (rc_handle_failure P W c f)"
    "raises_only {} recovery_tables_ok (rc_handle_failure P W c f)"
proof -
  let ?I = recovery_tables_ok
  have clock: "keeps ?I (get_act (p_clock P))" using P by (auto simp: ports_keep_def)
  have lost: "raises_only {ReconciliationClaimLostError} ?I (repo_call P (rc_block c code))"
    "raises_only {ReconciliationClaimLostError} ?I (repo_call P (rc_retry c at code))" for code at
    unfolding rc_block_def rc_finish_def rc_retry_def
    by (rule raises_repo_call [OF P], auto simp: recovery_tables_ok_def dest: locked_raises_lost
        simp del: tx_seq_Inl)+
  have quiet: "raises_only {} ?I (unless_lost m)"
    if "keeps ?I m" "raises_only {ReconciliationClaimLostError} ?I m" for m :: "('w \<times> db, unit) act"
    unfolding unless_lost_def by (rule raises_try_only [OF that]) (simp add: raises_ret)
  have block: "keeps ?I (void (repo_call P (rc_block c code)))"
    "raises_only {ReconciliationClaimLostError} ?I (void (repo_call P (rc_block c code)))" for code
    by (intro keeps_rules recovery_calls_keep [OF P], intro raises_void lost recovery_calls_keep [OF P])
  show "keeps ?I (unless_lost (void (repo_call P (rc_block c code))))"
    unfolding unless_lost_def by (intro keeps_rules recovery_calls_keep [OF P])
  show "raises_only {} ?I (unless_lost (void (repo_call P (rc_block c code))))"
    by (rule quiet [OF block])
  let ?body = "if rf_retryable f \<and> rc_attempts (rcc_reconciliation c) < rw_max_attempts W then
          bind_act (get_act (p_clock P))
            (\<lambda>t. void (repo_call P (rc_retry c (t + rc_retry_delay W c) (rf_code f))))
        else void (repo_call P (rc_block c (rf_code f)))"
  have body: "keeps ?I ?body" by (intro keeps_rules clock recovery_calls_keep [OF P])
  moreover have "raises_only {ReconciliationClaimLostError} ?I ?body"
    by (auto intro!: raises_bind raises_void raises_get clock lost keeps_rules recovery_calls_keep [OF P])
  ultimately show "raises_only {} ?I (rc_handle_failure P W c f)"
    unfolding rc_handle_failure_def by (rule quiet)
  show "keeps ?I (rc_handle_failure P W c f)"
    unfolding rc_handle_failure_def unless_lost_def by (intro keeps_try body keeps_rules)
qed

lemma rc_run_claim_keeps:
  assumes P: "ports_keep recovery_tables_ok P" and W: "reconciler_keeps recovery_tables_ok W"
  shows "keeps recovery_tables_ok (rc_run_claim P W c)"
    "raises_only {} recovery_tables_ok (rc_run_claim P W c)"
proof -
  let ?I = recovery_tables_ok
  have beat: "keeps ?I (rc_heartbeat P c l)" for l
    unfolding rc_heartbeat_def by (intro keeps_rules recovery_calls_keep [OF P])
  have parts: "keeps ?I (rcp_recover (rw_processor W) x (rc_heartbeat P c l))"
    "keeps ?I (rcp_cleanup_candidate_verified (rw_processor W) x (rc_heartbeat P c l))"
    "keeps ?I (rcp_prepare_reconciliation_cleanup (rw_processor W) x (rc_heartbeat P c l))"
    "keeps ?I (rcp_capture_diagnostics (rw_processor W) x f (rc_heartbeat P c l))"
    "\<And>ready u. rw_on_runtime_ready W = Some ready \<Longrightarrow> keeps ?I (ready u)" for x f l
    using W beat by (auto simp: reconciler_keeps_def)
  have capture: "keeps ?I (capture_before_cleanup P W x (rc_heartbeat P c l) code)" for x l code
    unfolding capture_before_cleanup_def swallow_but_lost_def
    by (intro keeps_rules parts recovery_calls_keep [OF P] keeps_draw_ids [OF P])
  have clean: "keeps ?I (clean_candidate P W c x code code')" for x code code'
    unfolding clean_candidate_def Let_def
    by (intro keeps_rules capture parts beat recovery_calls_keep [OF P])
  have restore: "keeps ?I (restore_active P W c x)" for x
    unfolding restore_active_def
    by (intro keeps_rules beat parts recovery_calls_keep [OF P])
  have get: "keeps ?I (tx_act (service_get_deployment i))" for i
    by (rule keeps_tx) (auto simp: service_get_deployment_def get_deployment_def)
  have body: "keeps ?I (rc_process P W c)"
    unfolding rc_process_def
    by (intro keeps_rules get parts restore clean recovery_calls_keep [OF P])
  have handler: "keeps ?I (case e of
              ReconciliationClaimLostError \<Rightarrow> ret ()
            | AppError _ _ _ \<Rightarrow>
                unless_lost (void (repo_call P (rc_block c ''RECONCILIATION_DEPLOYMENT_CONFLICT'')))
            | RuntimeFailure f \<Rightarrow> rc_handle_failure P W c f
            | _ \<Rightarrow> rc_handle_failure P W c
                     (runtime_failure ''RECONCILIATION'' ''UNEXPECTED_RECONCILIATION_FAILURE'' True False))"
    "raises_only {} ?I (case e of
              ReconciliationClaimLostError \<Rightarrow> ret ()
            | AppError _ _ _ \<Rightarrow>
                unless_lost (void (repo_call P (rc_block c ''RECONCILIATION_DEPLOYMENT_CONFLICT'')))
            | RuntimeFailure f \<Rightarrow> rc_handle_failure P W c f
            | _ \<Rightarrow> rc_handle_failure P W c
                     (runtime_failure ''RECONCILIATION'' ''UNEXPECTED_RECONCILIATION_FAILURE'' True False))"
    for e
    by (cases e; simp add: keeps_ret raises_ret rc_handlers [OF P])+
  show "keeps ?I (rc_run_claim P W c)"
    unfolding rc_run_claim_def by (rule keeps_try [OF body handler(1)])
  show "raises_only {} ?I (rc_run_claim P W c)"
    unfolding rc_run_claim_def by (rule raises_try [OF body handler(2)])
qed

lemma rc_schedule_total: "rc_schedule_automatic cs now d \<noteq> Inl e"
proof -
  have one: "rc_schedule_one now x d \<noteq> Inl e" for x d e
    by (cases x) (auto simp: rc_schedule_one_def insert_reconciliation_def project_of_deployment_def
        exists_row_iff dest!: fetch_SomeD split: option.splits if_splits)
  have "rc_schedule_all now cs d \<noteq> Inl e" for d
    by (induction cs arbitrary: d) (auto simp: one)
  then show ?thesis by (simp add: rc_schedule_automatic_def)
qed

lemma rc_run_once_keeps:
  assumes P: "ports_keep recovery_tables_ok P" and W: "reconciler_keeps recovery_tables_ok W"
  shows "keeps recovery_tables_ok (rc_run_once P W)"
    "raises_only {} recovery_tables_ok (rc_run_once P W)"
proof -
  let ?I = recovery_tables_ok
  have ports: "keeps ?I (get_act (p_clock P))" "keeps ?I (get_act (p_uuid P))"
    "keeps ?I (get_act (p_locked P))" using P by (auto simp: ports_keep_def)
  have read: "keeps ?I (tx_act (tx_read f))" "raises_only {} ?I (tx_act (tx_read f))" for f :: "db \<Rightarrow> 'b"
    by (rule keeps_tx, simp, rule raises_tx, simp)
  have claim: "keeps ?I (tx_act (rc_claim_next wk l locked t now))"
    "raises_only {} ?I (tx_act (rc_claim_next wk l locked t now))" for wk l locked t now
    by (rule keeps_tx, erule (1) recovery_txs, rule raises_tx)
      (auto simp: rc_claim_next_def Let_def split: option.splits prod.splits)
  have schedule: "raises_only {} ?I (repo_call P (rc_schedule_automatic cs))" for cs
    by (rule raises_repo_call [OF P]) (simp add: rc_schedule_total)
  have act: "keeps ?I (rc_claim_act P W)" "raises_only {} ?I (rc_claim_act P W)"
    unfolding rc_claim_act_def
    by (intro keeps_rules ports claim, intro raises_bind raises_get ports claim keeps_rules)
  show "keeps ?I (rc_run_once P W)"
    unfolding rc_run_once_def
    by (intro keeps_rules ports read act recovery_calls_keep [OF P] rc_run_claim_keeps(1) [OF P W])
  have rest: "raises_only {} ?I (case claim of None \<Rightarrow> ret False
      | Some c \<Rightarrow> seq_act (rc_run_claim P W c) (ret True))"
    "keeps ?I (case claim of None \<Rightarrow> ret False
      | Some c \<Rightarrow> seq_act (rc_run_claim P W c) (ret True))" for claim
    by (auto intro!: raises_seq raises_ret keeps_rules rc_run_claim_keeps [OF P W] split: option.split)
  show "raises_only {} ?I (rc_run_once P W)"
    unfolding rc_run_once_def
    by (intro raises_bind raises_seq raises_get ports read schedule act rest keeps_rules
        recovery_calls_keep [OF P] rc_run_claim_keeps(1) [OF P W])
qed

end
