(* ===== verification/Worker_Properties.thy ===== *)
theory Worker_Properties
  imports Deployment_Properties Reconciliation_Worker
begin

text \<open>
  What a pass of the two workers does: it returns whatever its processor raises, it keeps
  the tables' invariants, and a processed deployment ends as the worker's rules say.
\<close>

section \<open>Single calls at a known instant\<close>

text \<open>The clock reads \<open>now\<close> and nobody else commits meanwhile.\<close>

definition clock_reads :: "'w ports \<Rightarrow> 'w \<Rightarrow> time \<Rightarrow> bool" where
  "clock_reads P w now = (\<forall>d. p_clock P (w, d) = (now, (w, d)))"

lemma repo_call_at:
  "clock_reads P w now \<Longrightarrow> repo_call P m (w, d) =
     (case m now d of Inl e \<Rightarrow> (Inl e, (w, d)) | Inr (a, d') \<Rightarrow> (Inr a, (w, d')))"
  by (simp add: repo_call_def clock_reads_def act_simps get_act_def)

lemma void_at:
  "void m s = (case m s of (Inl e, s') \<Rightarrow> (Inl e, s') | (Inr a, s') \<Rightarrow> (Inr (), s'))"
  by (simp add: void_def act_simps)

lemma report_failure_lost:
  assumes "clock_reads P w now" "\<not> dep_claim_live c now d"
  shows "report_failure P W c f (w, d) = (Inr (), (w, d))"
proof -
  have "retry_deployment c at st code now d = Inl DeploymentClaimLostError"
    "fail_deployment c st code now d = Inl DeploymentClaimLostError" for at st code
    by (rule lost_operations [OF assms(2)])+
  then show ?thesis
    using assms(1) by (simp add: report_failure_def repo_call_at void_at act_simps get_act_def clock_reads_def)
qed

lemma finished_rows:
  assumes ok: "deployments_ok d" and live: "dep_claim_live c now d"
    and id: "\<And>x. dep_id (f x) = dep_id x" "\<And>j. dj_deployment_id (g j) = dj_deployment_id j"
    and d': "d' = log_event (dep_id (dc_deployment c)) st code m now (dep_move (dep_id (dc_deployment c)) f g d)"
  obtains j x where "deployment_of d (dep_id (dc_deployment c)) = Some x"
    "deployment_of d' (dep_id (dc_deployment c)) = Some (f x)"
    "g j \<in> set (t_deployment_jobs d')" "dj_deployment_id j = dep_id (dc_deployment c)"
proof -
  obtain j x where
    j: "j \<in> set (t_deployment_jobs d)" "dj_deployment_id j = dep_id (dc_deployment c)"
      "dj_held (dc_worker_id c) (dc_token c) now j"
    and x: "x \<in> set (t_deployments d)" "dep_id x = dep_id (dc_deployment c)" "open_deployment c x"
      "dep_status x \<noteq> QUEUED" "deployment_of d (dep_id (dc_deployment c)) = Some x"
    by (rule live_claim_rows [OF ok live]) (rule that, assumption+)
  have "deployment_of d' (dep_id (dc_deployment c)) = Some (f x)"
    using x by (simp add: d' fetch_upd_same id)
  moreover have "g j \<in> set (t_deployment_jobs d')" using j(1,2) by (auto simp: d' set_upd)
  ultimately show ?thesis using that x(5) j(2) by blast
qed

lemma report_failure_live:
  assumes ok: "deployments_ok d" and live: "dep_claim_live c now d" and clock: "clock_reads P w now"
  obtains d' x j where "report_failure P W c f (w, d) = (Inr (), (w, d'))"
    "deployment_of d' (dep_id (dc_deployment c)) = Some x"
    "j \<in> set (t_deployment_jobs d')" "dj_deployment_id j = dep_id (dc_deployment c)"
    "dep_failure_stage x = Some (rf_stage f)" "dep_failure_code x = Some (rf_code f)"
    "if rf_retryable f \<and> dc_attempts c < dw_max_attempts W
     then dep_status x = QUEUED \<and> dj_state j = J_PENDING \<and>
       dj_available_at j = now + dw_retry_base_delay W * 2 ^ nat (dc_attempts c - 1)
     else dep_status x = FAILED \<and> dep_terminal_at x = Some now \<and> dj_state j = J_DONE"
proof -
  let ?i = "dep_id (dc_deployment c)"
  obtain x0 where x0: "deployment_of d ?i = Some x0" by (rule live_claim_status [OF ok live])
  show ?thesis
  proof (cases "rf_retryable f \<and> dc_attempts c < dw_max_attempts W")
    case True
    let ?at = "now + retry_delay W c"
    let ?f = "\<lambda>x. x\<lparr>dep_status := QUEUED, dep_failure_stage := Some (rf_stage f),
      dep_failure_code := Some (rf_code f), dep_updated_at := now, dep_terminal_at := None\<rparr>"
    let ?d = "log_event ?i (deployment_status_value QUEUED) ''DEPLOYMENT_RETRY_SCHEDULED''
     ''A retryable runtime failure was scheduled for retry'' now
      (dep_move ?i ?f (dj_pending_again ?at now) d)"
    have run: "retry_deployment c ?at (rf_stage f) (rf_code f) now d = Inr (?f x0, ?d)"
      unfolding finish_shapes by (rule finish_shape_live [OF ok live x0])
    obtain j x where r: "deployment_of d ?i = Some x" "deployment_of ?d ?i = Some (?f x)"
      "dj_pending_again ?at now j \<in> set (t_deployment_jobs ?d)" "dj_deployment_id j = ?i"
      by (rule finished_rows [OF ok live _ _ refl, where f = ?f and g = "dj_pending_again ?at now"])
        (auto simp: dj_pending_again_def)
    show ?thesis
    proof (rule that [OF _ r(2,3)])
      show "report_failure P W c f (w, d) = (Inr (), (w, ?d))"
        using run True clock
        by (simp add: report_failure_def repo_call_at void_at act_simps get_act_def clock_reads_def)
    qed (use True r(4) in \<open>simp_all add: dj_pending_again_def retry_delay_def\<close>)
  next
    case False
    let ?f = "\<lambda>x. x\<lparr>dep_status := FAILED, dep_failure_stage := Some (rf_stage f),
      dep_failure_code := Some (rf_code f), dep_updated_at := now, dep_terminal_at := Some now\<rparr>"
    let ?d = "log_event ?i (deployment_status_value FAILED) (rf_code f)
     ''The deployment failed during runtime processing'' now (dep_move ?i ?f (dj_done now) d)"
    have run: "fail_deployment c (rf_stage f) (rf_code f) now d = Inr (?f x0, ?d)"
      unfolding finish_shapes by (rule finish_shape_live [OF ok live x0])
    obtain j x where r: "deployment_of d ?i = Some x" "deployment_of ?d ?i = Some (?f x)"
      "dj_done now j \<in> set (t_deployment_jobs ?d)" "dj_deployment_id j = ?i"
      by (rule finished_rows [OF ok live _ _ refl, where f = ?f and g = "dj_done now"])
        (auto simp: dj_done_def)
    show ?thesis
    proof (rule that [OF _ r(2,3)])
      show "report_failure P W c f (w, d) = (Inr (), (w, ?d))"
        using run False clock
        by (auto simp: report_failure_def repo_call_at void_at act_simps get_act_def clock_reads_def)
    qed (use False r(4) in \<open>auto simp: dj_done_def\<close>)
  qed
qed

lemma renewed_still_live:
  assumes ok: "deployments_ok d" and live: "dep_claim_live c now d" and l: "0 < l"
    and run: "renew_deployment c l now d = Inr (e, d')"
  shows "dep_claim_live c now d'"
proof -
  from live obtain j where j: "j \<in> set (t_deployment_jobs d)"
    "dj_deployment_id j = dep_id (dc_deployment c)"
    "dj_held (dc_worker_id c) (dc_token c) now j" by (auto simp: dep_claim_live_def)
  have "dj_extend (now + l) now j \<in> set (t_deployment_jobs d')"
    using run j(1,2) by (auto simp: renew_deployment_live [OF ok live] set_upd)
  moreover have "dj_held (dc_worker_id c) (dc_token c) now (dj_extend (now + l) now j)"
    using dj.extend_holds(1) [OF j(3)] l by simp
  moreover have "dj_deployment_id (dj_extend (now + l) now j) = dep_id (dc_deployment c)"
    using j(2) by simp
  ultimately show ?thesis unfolding dep_claim_live_def by blast
qed

lemma processed_claim_succeeds:
  assumes ok: "deployments_ok e" and live: "dep_claim_live c now e" and clock: "clock_reads P v now"
    and fresh: "dc_attempts c \<le> 1" and lease: "0 < dw_lease_duration W"
    and quiet: "dw_on_runtime_ready W = None"
    and process: "rp_process (dw_processor W) (dc_deployment c) (progress_of P c (dw_lease_duration W))
      (w, d) = (Inr (), (v, e))"
  obtains d' x j where "run_claim P W c (w, d) = (Inr (), (v, d'))"
    "deployment_of d' (dep_id (dc_deployment c)) = Some x" "dep_status x = SUCCEEDED"
    "dep_terminal_at x = Some now" "j \<in> set (t_deployment_jobs d')"
    "dj_deployment_id j = dep_id (dc_deployment c)" "dj_state j = J_DONE"
proof -
  let ?i = "dep_id (dc_deployment c)"
  let ?l = "dw_lease_duration W"
  have beat: "renew_deployment c ?l now e =
      Inr (now + ?l, dep_move ?i (\<lambda>x. x) (dj_extend (now + ?l) now) e)"
    by (rule renew_deployment_live [OF ok live])
  let ?e = "dep_move ?i (\<lambda>x. x) (dj_extend (now + ?l) now) e"
  have ok': "deployments_ok ?e" by (rule renew_deployment_ok [OF ok beat])
  have live': "dep_claim_live c now ?e" by (rule renewed_still_live [OF ok live lease beat])
  let ?f = "\<lambda>x. x\<lparr>dep_status := SUCCEEDED, dep_failure_stage := None, dep_failure_code := None,
            dep_updated_at := now, dep_terminal_at := Some now\<rparr>"
  let ?d = "log_event ?i (deployment_status_value SUCCEEDED) ''DEPLOYMENT_SUCCEEDED''
    ''The preview deployment is active'' now (dep_move ?i ?f (dj_done now) ?e)"
  obtain j x where r: "deployment_of ?e ?i = Some x" "deployment_of ?d ?i = Some (?f x)"
    "dj_done now j \<in> set (t_deployment_jobs ?d)" "dj_deployment_id j = ?i"
    by (rule finished_rows [OF ok' live' _ _ refl, where f = ?f and g = "dj_done now"])
      (auto simp: dj_done_def)
  have fin: "succeed_deployment c now ?e = Inr (?f x, ?d)"
    unfolding finish_shapes by (rule finish_shape_live [OF ok' live' r(1)])
  show ?thesis
  proof (rule that [OF _ r(2) _ _ r(3)])
    show "run_claim P W c (w, d) = (Inr (), (v, ?d))"
      using process fresh beat fin clock quiet
      by (simp add: run_claim_def process_claim_def succeed_claim_def progress_heartbeat_def
          repo_call_at void_at act_simps)
  qed (use r(4) in \<open>simp_all add: dj_done_def\<close>)
qed

section \<open>Example parts\<close>

definition example_ports :: "time \<Rightarrow> unit ports" where
  "example_ports now = \<lparr>p_clock = (\<lambda>s. (now, s)), p_uuid = (\<lambda>s. (11, s)), p_locked = (\<lambda>s. ([], s))\<rparr>"

definition quiet_processor :: "(unit \<times> db) runtime_processor" where
  "quiet_processor = \<lparr>rp_recover = (\<lambda>_ _. ret SAFE_TO_RETRY), rp_process = (\<lambda>_ _. ret ()),
     rp_cleanup_candidate = (\<lambda>_. ret ()), rp_rollback_candidate = (\<lambda>_. ret ()),
     rp_capture_diagnostics = (\<lambda>_ _ _. ret [])\<rparr>"

definition example_worker :: "(unit \<times> db) deployment_worker" where
  "example_worker = \<lparr>dw_processor = quiet_processor, dw_worker_id = ''a'', dw_lease_duration = 60,
     dw_max_attempts = 3, dw_retry_base_delay = 10, dw_diagnostic_retention = None,
     dw_on_runtime_ready = None\<rparr>"

definition quiet_reconciler :: "(unit \<times> db) reconciliation_worker" where
  "quiet_reconciler = \<lparr>rw_processor =
       \<lparr>rcp_recover = (\<lambda>_ _. ret UNCERTAIN), rcp_cleanup_candidate_verified = (\<lambda>_ _. ret ()),
        rcp_prepare_reconciliation_cleanup = (\<lambda>_ _. ret ()),
        rcp_capture_diagnostics = (\<lambda>_ _ _. ret [])\<rparr>,
     rw_worker_id = ''r'', rw_lease_duration = 60, rw_retention_duration = 3600,
     rw_max_attempts = 3, rw_retry_base_delay = 10, rw_diagnostic_retention = None,
     rw_on_runtime_ready = None\<rparr>"

lemma example_ports_keep: "ports_keep I (example_ports now)"
  by (simp add: ports_keep_def port_keeps_def example_ports_def)

lemma example_clock: "clock_reads (example_ports now) () now"
  by (simp add: clock_reads_def example_ports_def)

lemma example_worker_keeps: "worker_keeps I example_worker"
  by (auto simp: worker_keeps_def example_worker_def quiet_processor_def)

lemma quiet_reconciler_keeps: "reconciler_keeps I quiet_reconciler"
  by (auto simp: reconciler_keeps_def quiet_reconciler_def)

lemma preparing_ok: "deployments_ok (preparing_db ''a'' 11 100 queued_db)"
  using dep_reachable_ok [OF preparing_reachable] by blast

section \<open>Properties\<close>

text \<open>C8. A pass of the deployment worker always returns: from tables that satisfy the
  invariant, whatever the runtime processor raises or does, \<open>run_once\<close> comes back
  with whether it had work and leaves tables that satisfy the invariant.  The ports, through
  which other processes may commit in between, and the processor are only asked to keep the
  invariant themselves.\<close>

theorem deployment_worker_pass_returns:
  assumes "deployment_tables_ok s" "ports_keep deployment_tables_ok P"
    and "worker_keeps deployment_tables_ok W"
  shows "\<exists>worked s'. run_once P W s = (Inr worked, s') \<and> deployment_tables_ok s'"
proof -
  obtain b s' where run: "run_once P W s = (Inr b, s')"
    using returns [OF run_once_keeps(2) [OF assms(2,3)] assms(1)] by blast
  with keepsD [OF run_once_keeps(1) [OF assms(2,3)] assms(1)] show ?thesis by blast
qed

theorem deployment_worker_pass_returns_witness:
  "\<exists>worked s'. run_once (example_ports 100) example_worker ((), queued_db) = (Inr worked, s') \<and>
     deployment_tables_ok s'"
  by (rule deployment_worker_pass_returns [OF _ example_ports_keep example_worker_keeps])
    (use dep_reachable_ok [OF queued_reachable] in \<open>simp add: deployment_tables_ok_def\<close>)



text \<open>C10. What a failure leads to: if the claim has been lost, nothing is written; otherwise
  a retryable failure below the attempt limit puts the deployment back in the queue, to be
  available after the base delay doubled once per earlier attempt, and every other failure
  ends the deployment as \<open>FAILED\<close> with its job done.  The stage and the code of the
  failure are stored either way.\<close>

theorem failure_is_retried_or_final:
  assumes "deployments_ok d" "clock_reads P w now"
  shows "if dep_claim_live c now d
    then \<exists>d' x j. report_failure P W c f (w, d) = (Inr (), (w, d')) \<and>
      deployment_of d' (dep_id (dc_deployment c)) = Some x \<and>
      j \<in> set (t_deployment_jobs d') \<and> dj_deployment_id j = dep_id (dc_deployment c) \<and>
      dep_failure_stage x = Some (rf_stage f) \<and> dep_failure_code x = Some (rf_code f) \<and>
      (if rf_retryable f \<and> dc_attempts c < dw_max_attempts W
       then dep_status x = QUEUED \<and> dj_state j = J_PENDING \<and>
         dj_available_at j = now + dw_retry_base_delay W * 2 ^ nat (dc_attempts c - 1)
       else dep_status x = FAILED \<and> dep_terminal_at x = Some now \<and> dj_state j = J_DONE)
    else report_failure P W c f (w, d) = (Inr (), (w, d))"
proof (cases "dep_claim_live c now d")
  case True
  show ?thesis
    by (rule report_failure_live [OF assms(1) True assms(2), where W = W and f = f]) (use True in auto)
next
  case False
  with report_failure_lost [OF assms(2)] show ?thesis by simp
qed

theorem failure_is_retried_or_final_witness:
  "\<exists>d' x j. report_failure (example_ports 120) example_worker (example_claim ''a'' 11 100 1)
       (runtime_failure ''BUILD'' ''IMAGE_BUILD_FAILED'' True True)
       ((), preparing_db ''a'' 11 100 queued_db) = (Inr (), ((), d')) \<and>
     deployment_of d' 7 = Some x \<and> dep_status x = QUEUED \<and>
     j \<in> set (t_deployment_jobs d') \<and> dj_deployment_id j = 7 \<and> dj_available_at j = 130"
proof -
  have id: "dep_id (dc_deployment (example_claim ''a'' 11 100 1)) = 7"
    by (simp add: example_claim_def dep_preparing_def)
  show ?thesis
    using failure_is_retried_or_final [OF preparing_ok example_clock, of "example_claim ''a'' 11 100 1"
        120 example_worker "runtime_failure ''BUILD'' ''IMAGE_BUILD_FAILED'' True True"]
      example_claim_live id
    by (auto simp: runtime_failure_def example_worker_def example_claim_def)
qed

text \<open>C11. A pass of the reconciliation worker always returns as well, and keeps the
  invariants of deployments, artifacts and reconciliations, whatever its processor raises.\<close>

theorem reconciliation_pass_returns:
  assumes "recovery_tables_ok s" "ports_keep recovery_tables_ok P"
    and "reconciler_keeps recovery_tables_ok W"
  shows "\<exists>worked s'. rc_run_once P W s = (Inr worked, s') \<and> recovery_tables_ok s'"
proof -
  obtain b s' where run: "rc_run_once P W s = (Inr b, s')"
    using returns [OF rc_run_once_keeps(2) [OF assms(2,3)] assms(1)] by blast
  with keepsD [OF rc_run_once_keeps(1) [OF assms(2,3)] assms(1)] show ?thesis by blast
qed

theorem reconciliation_pass_returns_witness:
  "\<exists>worked s'. rc_run_once (example_ports 9000) quiet_reconciler ((), failed_db) = (Inr worked, s') \<and>
     recovery_tables_ok s'"
proof (rule reconciliation_pass_returns [OF _ example_ports_keep quiet_reconciler_keeps])
  show "recovery_tables_ok ((), failed_db)"
    using dep_reachable_ok [OF failed_reachable]
    by (simp add: recovery_tables_ok_def reconciliations_ok_def failed_db_def preparing_db_def
        queued_db_def example_db_def empty_db_def)
qed

end
