(* ===== verification/Secret_Versions.thy ===== *)
theory Secret_Versions
  imports Secret_Store
begin

text \<open>
  A version of a secret is written once (\<open>secrets/store.py\<close>, \<open>create\<close>): what the
  first call leaves on disk decides what a later call for the same version does.
\<close>

section \<open>Storing a version twice\<close>

text \<open>A directory that \<open>_ensure_private_directory\<close> has made stays as it is when it is
  asked for again, also after a file has been put into it.\<close>

fun made :: "string list \<Rightarrow> entry \<Rightarrow> bool" where
  "made [] (Directory m own es) = (own \<and> m = mode_700)"
| "made (p # ps) (Directory m own es) = (case map_of es p of None \<Rightarrow> False | Some e \<Rightarrow> made ps e)"
| "made _ _ = False"

lemma update_present: "map_of es p = Some e \<Longrightarrow> AList.update p e es = es"
  by (induction es) (auto split: if_splits)

lemma ensure_makes: "ensure_private_directory ps e = (Inr u, e') \<Longrightarrow> made ps e'"
  by (induction ps e arbitrary: e' rule: ensure_private_directory.induct)
    (auto simp: secret_error_def AList.update_conv' split: if_splits prod.splits)

lemma ensure_made: "made ps e \<Longrightarrow> ensure_private_directory ps e = (Inr (), e)"
  by (induction ps e rule: made.induct) (auto simp: update_present split: option.splits)

lemma made_put: "made ps e \<Longrightarrow> made ps (put_file m ps n payload e)"
  by (induction ps e rule: made.induct) (auto simp: AList.update_conv' split: option.splits)

lemma root_made:
  "made [] e \<Longrightarrow> made [] (put_file m ps n payload e)"
  "made [] e \<Longrightarrow> made [] (snd (ensure_private_directory ps e))"
  by (cases ps; cases e; auto split: option.splits prod.splits)+

lemma created_file:
  assumes run: "create_secret sha token root version value s = (Inr st, s')"
  obtains parts e mode own payload where "safe_relative root = Inr parts" "ss_root s' = Some e"
    "made [] e" "made parts e"
    "lookup_path (parts @ [secret_file_name version]) e = Some (Regular mode own payload)"
    "is_private mode" "sha payload = st_fingerprint st"
proof -
  from run obtain parts where parts: "safe_relative root = Inr parts"
    by (cases "safe_relative root") (auto simp: create_secret_def)
  obtain r1 e1 where e1: "ensure_private_directory [] (root_entry s) = (r1, e1)" by fastforce
  obtain r2 e2 where e2: "ensure_private_directory parts e1 = (r2, e2)" by fastforce
  obtain r3 e3 where e3: "store_secret sha token parts version value e2 = (r3, e3)" by fastforce
  from run have r: "\<exists>u. r1 = Inr u" "\<exists>u. r2 = Inr u" "r3 = Inr st" "ss_root s' = Some e3"
    by (cases r1; cases r2; auto simp: create_secret_def parts e1 e2 e3)+
  have made1: "made [] e1" using e1 r(1) ensure_makes by blast
  then have root2: "made [] e2" using root_made(2) [OF made1, of parts] e2 by simp
  have parts2: "made parts e2" using e2 r(2) ensure_makes by blast
  obtain own2 es2 where dir: "lookup_path parts e2 = Some (Directory mode_700 own2 es2)"
    using ensure_makes_directory e2 r(2) by blast
  show ?thesis
  proof (cases "lookup_path (parts @ [secret_file_name version]) e2")
    case None
    let ?p = "utf8_encode (case value of None \<Rightarrow> token | Some v \<Rightarrow> v)"
    from e3 r(3) None have "e3 = put_file mode_400 parts (secret_file_name version) ?p e2"
      "st_fingerprint st = sha ?p"
      by (auto simp: store_secret_def Let_def write_once_def)
    then show ?thesis
      using that [OF parts r(4)] root_made(1) [OF root2] made_put [OF parts2] lookup_put_same [OF dir]
      by (simp add: is_private_def mode_400_def)
  next
    case (Some x)
    from e3 r(3) Some obtain existing where "read_private_file (Some x) = Inr existing" "e3 = e2"
      "st_fingerprint st = sha existing"
      by (auto simp: store_secret_def Let_def secret_error_def split: sum.splits if_splits)
    then show ?thesis
      using that [OF parts r(4)] root2 parts2 Some by (auto simp: read_private_file_Inr)
  qed
qed

text \<open>The version's file is written once: asking for the same version with another content
  raises and leaves the store as it was.\<close>

lemma create_secret_again:
  assumes "create_secret sha token root version value s0 = (Inr st, s)"
    and "sha (utf8_encode v) \<noteq> st_fingerprint st"
  shows "create_secret sha token' root version (Some v) s =
    (Inl (SecretStoreError ''secret version already exists with different content''), s)"
proof -
  obtain parts e mode own payload where f: "safe_relative root = Inr parts" "ss_root s = Some e"
    "made [] e" "made parts e"
    "lookup_path (parts @ [secret_file_name version]) e = Some (Regular mode own payload)"
    "is_private mode" "sha payload = st_fingerprint st" by (rule created_file [OF assms(1)])
  have "root_entry s = e" by (simp add: root_entry_def f(2))
  moreover have "s\<lparr>ss_root := Some e\<rparr> = s" using f(2) by simp
  ultimately show ?thesis
    using assms(2) f(7)
    by (simp add: create_secret_def f(1,5,6) ensure_made [OF f(3)] ensure_made [OF f(4)]
        store_secret_def Let_def read_private_file_def secret_error_def)
qed

end
