(* ===== verification/Configuration_Properties.thy ===== *)
theory Configuration_Properties
  imports Worker_Properties Secret_Versions
begin

text \<open>
  What a project's configuration promises: stored secrets, settings and their versions, the
  documents a deployment is parsed from, and the managed database's resource.
\<close>

section \<open>The resource under its versions\<close>

lemma update_current_resource:
  assumes ok: "resources_ok d" and r: "get_resource i d = Some r"
    and f: "\<And>x. res_id (f x) = res_id x" "\<And>x. res_project_id (f x) = res_project_id x"
    and row: "\<And>x. resource_row_ok x \<Longrightarrow> credentials_check (f x) \<Longrightarrow> resource_row_ok (f x)"
    and credentials: "credentials_check (bumped f now r)"
  obtains d' where "update_resource r f now d = Inr (bumped f now r, d')" "resources_ok d'"
    "get_resource i d' = Some (bumped f now r)" "t_projects d' = t_projects d"
proof -
  note D = resources_okD [OF ok]
  let ?P = "\<lambda>x. res_id x = res_id r \<and> res_state_version x = res_state_version r"
  from r have mem: "r \<in> set (t_database_resources d)" "res_project_id r = i"
    using fetch_SomeD [of _ _ r] by (auto simp: get_resource_def)
  have "fetch ?P (t_database_resources d) = Some r"
    by (rule fetch_unique [where k = res_id and P = ?P, OF D(1) mem(1)]) simp_all
  then have run: "update_resource r f now d = Inr (bumped f now r,
      d\<lparr>t_database_resources := upd ?P (bumped f now) (t_database_resources d)\<rparr>)"
    using credentials by (simp add: update_resource_def returning_def bumped_def [abs_def])
  let ?d = "d\<lparr>t_database_resources := upd ?P (bumped f now) (t_database_resources d)\<rparr>"
  have "resources_ok ?d"
    by (rule update_resource_ok [OF ok run f]) (blast intro: row)
  moreover have "get_resource i ?d = Some (bumped f now r)"
  proof -
    have "fetch (\<lambda>x. res_project_id x = i) (upd ?P (bumped f now) (t_database_resources d)) =
        map_option (\<lambda>x. if ?P x then bumped f now x else x)
          (fetch (\<lambda>x. res_project_id x = i) (t_database_resources d))"
      by (rule fetch_upd_same) (simp add: bumped_def f)
    then show ?thesis using r by (simp add: get_resource_def)
  qed
  ultimately show ?thesis using that [OF run] by simp
qed

text \<open>Reading the project under the locks does not depend on the resource.\<close>

lemma ready_connected_frame:
  assumes "tx_bind (service_ready i) (\<lambda>p. tx_lift (connected_services p)) d = Inr (connected, d)"
    and "t_projects d' = t_projects d"
  shows "tx_bind (service_ready i) (\<lambda>p. tx_lift (connected_services p)) d' = Inr (connected, d')"
proof -
  from assms(1) obtain q where q: "project_of d i = Some q" "prj_status q = P_READY"
    "prj_deployment_config q \<noteq> None" "connected_services (selected_project d q) = Inr connected"
    by (auto simp: service_ready_Inr)
  have "connected_services (selected_project d' q) = connected_services (selected_project d q)"
    by (simp add: connected_services_def selected_project_def project_with_def
        project_row.defs project.defs)
  with q assms(2) have "service_ready i d' = Inr (selected_project d' q, d')"
    "connected_services (selected_project d' q) = Inr connected"
    by (auto simp: service_ready_Inr)
  then show ?thesis by (simp add: tx_bind_def tx_lift_def)
qed

section \<open>Example parts\<close>

definition example_store :: secret_state where
  "example_store = \<lparr>ss_root = None, ss_locks = []\<rparr>"

lemma example_secret_computes:
  "case create_secret (\<lambda>p. p) ''t'' ''projects/p'' 1 (Some ''pw'') example_store of
     (Inr st, s) \<Rightarrow> st_fingerprint st = ''pw'' \<and> st_reference st = ''projects/p/v1.secret''
   | _ \<Rightarrow> False"
  by code_simp

lemma example_secret:
  obtains st s where "create_secret (\<lambda>p. p) ''t'' ''projects/p'' 1 (Some ''pw'') example_store = (Inr st, s)"
    "st_fingerprint st = ''pw''" "st_reference st = ''projects/p/v1.secret''"
  using example_secret_computes by (auto split: prod.splits sum.splits)

section \<open>Secrets\<close>

text \<open>C12. A secret that was stored reads back as it was given, through the reference and the
  fingerprint the store returned, provided that no other content has its digest.  This holds
  whether the file was just written or had been there with the same content.\<close>

theorem stored_secret_reads_back:
  assumes "create_secret sha token root version (Some v) s = (Inr st, s')" and "collision_free sha v"
  shows "read_secret sha (st_reference st) (st_fingerprint st) s' = Inr v"
  by (rule create_secret_reads_back [OF assms(2,1)])

theorem stored_secret_reads_back_witness:
  "\<exists>s'. read_secret (\<lambda>p. p) ''projects/p/v1.secret'' ''pw'' s' = Inr ''pw''"
proof (rule example_secret)
  fix st s' assume st: "st_fingerprint st = ''pw''" "st_reference st = ''projects/p/v1.secret''"
    and run: "create_secret (\<lambda>p. p) ''t'' ''projects/p'' 1 (Some ''pw'') example_store = (Inr st, s')"
  have "collision_free (\<lambda>p. p) ''pw''" by (simp add: collision_free_def)
  from stored_secret_reads_back [OF run this] st show ?thesis by auto
qed

text \<open>Storing never changes a secret that is already there: whatever is created later,
  under this reference or another, with success or not, a reading that succeeded before
  succeeds with the same value.\<close>

theorem stored_secret_is_kept:
  assumes "read_secret sha reference fp s = Inr v"
  shows "read_secret sha reference fp (snd (create_secret sha token root version value s)) = Inr v"
  by (rule create_secret_keeps_secret [OF assms])

theorem stored_secret_is_kept_witness:
  "\<exists>s'. read_secret (\<lambda>p. p) ''projects/p/v1.secret'' ''pw''
     (snd (create_secret (\<lambda>p. p) ''t'' ''projects/p'' 1 (Some ''other'') s')) = Inr ''pw''"
proof (rule example_secret)
  fix st s' assume st: "st_fingerprint st = ''pw''" "st_reference st = ''projects/p/v1.secret''"
    and run: "create_secret (\<lambda>p. p) ''t'' ''projects/p'' 1 (Some ''pw'') example_store = (Inr st, s')"
  have "collision_free (\<lambda>p. p) ''pw''" by (simp add: collision_free_def)
  from create_secret_reads_back [OF this run] st
  have "read_secret (\<lambda>p. p) ''projects/p/v1.secret'' ''pw'' s' = Inr ''pw''" by simp
  from stored_secret_is_kept [OF this] show ?thesis by blast
qed



text \<open>Deleting a project's secrets removes its subtree and nothing else: afterwards the
  subtree is absent, deleting again does nothing, and every other project's subtree is
  opened as before.\<close>

theorem secret_subtree_deletion:
  assumes "distinct (map fst ps)" "open_project_subtree i s = Subtree ps ts" "validate_tree ts"
  shows "\<exists>s'. delete_project_subtree i s = (Inr (), s') \<and>
    project_subtree_absent i s' = (Inr True, s') \<and> delete_project_subtree i s' = (Inr (), s') \<and>
    (\<forall>j us. j \<noteq> i \<longrightarrow> open_project_subtree j s = Subtree ps us \<longrightarrow>
       (\<exists>ps'. open_project_subtree j s' = Subtree ps' us))"
proof -
  note D = delete_then_absent [OF assms]
  let ?s = "set_projects (AList.delete (uuid_str i) ps) s"
  have "open_project_subtree j ?s = Subtree (AList.delete (uuid_str i) ps) us"
    if "j \<noteq> i" "open_project_subtree j s = Subtree ps us" for j us
    using D(3) [OF that(1)] that(2) by simp
  then show ?thesis
    using D(1,2)
    by (intro exI [of _ ?s]) (auto simp: project_subtree_absent_def delete_project_subtree_def)
qed

theorem secret_subtree_deletion_witness:
  "\<exists>s'. delete_project_subtree 7 \<lparr>ss_root = Some (Directory mode_700 True
      [(''projects'', Directory mode_700 True [(uuid_str 7, Directory mode_700 True
         [(''v1.secret'', Regular mode_400 True ''pw'')])])]), ss_locks = []\<rparr> = (Inr (), s')"
proof -
  let ?ts = "[(''v1.secret'', Regular mode_400 True ''pw'')]"
  let ?ps = "[(uuid_str 7, Directory mode_700 True ?ts)]"
  let ?s = "\<lparr>ss_root = Some (Directory mode_700 True [(''projects'', Directory mode_700 True ?ps)]),
    ss_locks = []\<rparr>"
  have "open_project_subtree 7 ?s = Subtree ?ps ?ts" by (simp add: open_project_subtree_def)
  moreover have "validate_tree ?ts" by (simp add: validate_tree_def is_private_def mode_400_def)
  ultimately show ?thesis using secret_subtree_deletion [of ?ps 7 ?s ?ts] by auto
qed

end
