(* ===== verification/Settings_Properties.thy ===== *)
theory Settings_Properties
  imports Configuration_Properties
begin

text \<open>
  Settings updates, the configuration that deployments freeze and parse, and the managed
  database a deployment may ask for.
\<close>

section \<open>Settings\<close>



text \<open>The answer to a settings update says that the project has no managed database
  whether it has one or not, because the updated row is returned without that column; a
  reading right after it says the truth.\<close>

theorem settings_answer_hides_managed_database:
  assumes "projects_ok d" "update_settings_row i version config secrets now d = Inr (p, d')"
    and "\<forall>s\<in>set secrets. es_project_id s = i" and "has_managed_database i d"
  shows "\<not> prj_has_managed_database p \<and>
    (\<exists>q. get_project i d' = Inr (q, d') \<and> prj_has_managed_database q)"
proof -
  obtain r where r: "r \<in> set (t_projects d)" "prj_id r = i" "prj_config_version r = version"
    "prj_status r \<noteq> P_DELETING" "p = returned_project (configured config now r)"
    "d' = d\<lparr>t_projects := upd (\<lambda>p. prj_id p = i) (configured config now) (t_projects d),
            t_environment_secrets := t_environment_secrets d'\<rparr>"
    "secrets_ok d'"
    "{k. (i, k) \<in> secret_key ` set (t_environment_secrets d')} =
       (\<lambda>s. (es_service_name s, es_variable_name s)) ` set secrets"
    by (rule update_settings_row_Inr [OF assms(1-3)])
  have "project_of d i = Some r" using fetch_key [OF projects_okD(1) [OF assms(1)] r(1)] r(2) by simp
  then have found: "project_of d' i = Some (configured config now r)"
    by (subst r(6)) (simp add: fetch_upd_same configured_def r(2))
  have "t_database_resources d' = t_database_resources d" by (subst r(6)) simp
  with assms(4) have kept: "has_managed_database i d'" by (simp add: has_managed_database_def)
  have "\<not> prj_has_managed_database p"
    by (simp add: r(5) returned_project_def project_with_def project_row.defs project.defs)
  moreover have "get_project i d' = Inr (selected_project d' (configured config now r), d')"
    using found by (simp add: get_project_def tx_require_def)
  moreover have "prj_has_managed_database (selected_project d' (configured config now r))"
    using kept r(2) by (simp add: selected_project_def project_with_def configured_def
        project_row.defs project.defs)
  ultimately show ?thesis by blast
qed

theorem settings_answer_hides_managed_database_witness:
  "\<exists>p d'. update_settings_row 1 1 example_config [] 9
      (example_db\<lparr>t_database_resources := [new_resource 9 1 0]\<rparr>) = Inr (p, d') \<and>
    \<not> prj_has_managed_database p \<and> has_managed_database 1 d'"
proof -
  let ?d = "example_db\<lparr>t_database_resources := [new_resource 9 1 0]\<rparr>"
  have ok: "projects_ok ?d"
    by (simp add: projects_ok_def example_db_def empty_db_def secrets_ok_def project_row_ok_def
        example_project_def)
  have has: "has_managed_database 1 ?d"
    by (simp add: has_managed_database_def exists_row_iff new_resource_def)
  obtain p d' where run: "update_settings_row 1 1 example_config [] 9 ?d = Inr (p, d')"
    and kept: "t_database_resources d' = t_database_resources ?d"
    by (simp add: update_settings_row_def example_db_def empty_db_def example_project_def
        returning_def tx_seq_def tx_bind_def tx_ret_def delete_inactive_secrets_def)
  from settings_answer_hides_managed_database [OF ok run _ has] kept has
  show ?thesis by (auto simp: run has_managed_database_def)
qed

section \<open>Configurations that deployments parse\<close>


definition example_update :: settings_update where
  "example_update = \<lparr>su_expected_version = 1,
     su_services = [\<lparr>sc_name = ''api'', sc_context = ''.'', sc_dockerfile = ''Dockerfile'',
       sc_internal_port = 8080, sc_health_path = ''/'', sc_environment =
         [\<lparr>var_name = ''MODE'', var_kind = PLAIN, var_value = Some ''x''\<rparr>],
       sc_project_database_access = False\<rparr>],
     su_routes = [\<lparr>rtc_path = ''/'', rtc_service = ''api''\<rparr>]\<rparr>"


lemma parsed_route_service: "parse_route names v = Inr t \<Longrightarrow> rrt_service t \<in> set names"
proof (cases v)
  fix f assume v: "v = JObj f" and run: "parse_route names v = Inr t"
  then obtain path where "parse_route_service names (jget ''service'' f) = Inr (rrt_service t)"
    by (auto simp: bind_sum_Inr)
  then show ?thesis
    by (cases "(names, jget ''service'' f)" rule: parse_route_service.cases) (auto split: if_splits)
qed auto

lemma sequence_results_set:
  assumes "sequence_results (map f xs) = Inr ys" and "y \<in> set ys"
  shows "\<exists>x. f x = Inr y"
proof -
  have "list_all2 (\<lambda>x y. f x = Inr y) xs ys" using assms(1) by (simp add: sequence_results_Inr)
  then show ?thesis using assms(2) by (induction rule: list_all2_induct) auto
qed

lemma if_Inl_Inr: "(if b then config_error m else x) = Inr r \<longleftrightarrow> \<not> b \<and> x = Inr r"
  by simp

lemma from_snapshot_parts:
  assumes "from_snapshot (JObj doc) = Inr r"
  obtains raw routes where
    "sequence_results (map parse_service raw) = Inr (rdp_services r)"
    "sequence_results (map (parse_route (map rsv_name (rdp_services r))) routes) = Inr (rdp_routes r)"
    "distinct (map rsv_name (rdp_services r))" "distinct (map rrt_path (rdp_routes r))"
    "''/'' \<in> set (map rrt_path (rdp_routes r))"
    "\<not> (list_ex rsv_project_database_access (rdp_services r) \<and> rdp_database r = None)"
proof -
  from assms obtain raw routes services rs database where
    "sequence_results (map parse_service raw) = Inr services" "unique (map rsv_name services)"
    "sequence_results (map (parse_route (map rsv_name services)) routes) = Inr rs"
    "\<not> (\<not> unique (map rrt_path rs) \<or> ''/'' \<notin> set (map rrt_path rs))"
    "\<not> (list_ex rsv_project_database_access services \<and> database = None)"
    "Inr \<lparr>rdp_services = services, rdp_routes = rs, rdp_database = database\<rparr> = (Inr r :: exn + runtime_deployment)"
    unfolding from_snapshot.simps bind_sum_Inr Let_def if_Inl_Inr by blast
  then show ?thesis using that by auto
qed

text \<open>C16. What the runtime's parser accepts, it can build and mount: the services have
  different names, ports within range, and build paths that stay inside the repository; the
  files that two secrets of a service are mounted at are different; every route leads to one
  of the services, one of them is the root, no path is routed twice, and a service that uses
  the database comes with its metadata.\<close>

theorem parsed_deployment_is_consistent:
  assumes "from_deployment x = Inr r"
  shows "distinct (map rsv_name (rdp_services r)) \<and>
    (\<forall>s\<in>set (rdp_services r). 1 \<le> rsv_internal_port s \<and> rsv_internal_port s \<le> 65535 \<and>
       ''..'' \<notin> set (rsv_build_context s) \<and> ''..'' \<notin> set (rsv_dockerfile s) \<and>
       distinct (map rs_container_path (rsv_secrets s)) \<and>
       (rsv_project_database_access s \<longrightarrow> rdp_database r \<noteq> None)) \<and>
    distinct (map rrt_path (rdp_routes r)) \<and> ''/'' \<in> rrt_path ` set (rdp_routes r) \<and>
    rrt_service ` set (rdp_routes r) \<subseteq> rsv_name ` set (rdp_services r)"
proof -
  from assms obtain doc where doc: "dep_config_snapshot x = JObj doc"
    by (cases "dep_config_snapshot x") (auto simp: from_deployment_def)
  have run: "from_snapshot (JObj doc) = Inr r" using assms by (simp add: from_deployment_def doc)
  obtain raw routes where
    services: "sequence_results (map parse_service raw) = Inr (rdp_services r)" and
    routes: "sequence_results (map (parse_route (map rsv_name (rdp_services r))) routes) =
      Inr (rdp_routes r)" and
    checks: "distinct (map rsv_name (rdp_services r))" "distinct (map rrt_path (rdp_routes r))"
      "''/'' \<in> set (map rrt_path (rdp_routes r))"
      "\<not> (list_ex rsv_project_database_access (rdp_services r) \<and> rdp_database r = None)"
    by (rule from_snapshot_parts [OF run])
  have raw: "\<exists>v. parse_service v = Inr s" if "s \<in> set (rdp_services r)" for s
    using sequence_results_set [OF services that] .
  have each: "1 \<le> rsv_internal_port s \<and> rsv_internal_port s \<le> 65535 \<and>
       ''..'' \<notin> set (rsv_build_context s) \<and> ''..'' \<notin> set (rsv_dockerfile s) \<and>
       distinct (map rs_container_path (rsv_secrets s))" if s: "s \<in> set (rdp_services r)" for s
  proof -
    from raw [OF s]
    obtain v where "parse_service v = Inr s" ..
    from parse_service_Inr [OF this] show ?thesis by simp
  qed
  have "rrt_service t \<in> set (map rsv_name (rdp_services r))" if "t \<in> set (rdp_routes r)" for t
  proof -
    from sequence_results_set [OF routes that]
    obtain v where "parse_route (map rsv_name (rdp_services r)) v = Inr t" ..
    then show ?thesis by (rule parsed_route_service)
  qed
  then show ?thesis using checks each by (auto simp: list_ex_iff)
qed

definition example_document :: json where
  "example_document = JObj
     [(''services'', JList [JObj
        [(''name'', JStr ''api''),
         (''build'', JObj [(''context'', JStr ''.''), (''dockerfile'', JStr ''Dockerfile'')]),
         (''internalPort'', JInt 8080), (''healthPath'', JStr ''/''),
         (''projectDatabaseAccess'', JBool False), (''environment'', JList [])]]),
      (''routes'', JList [JObj [(''path'', JStr ''/''), (''service'', JStr ''api'')]])]"

theorem parsed_deployment_is_consistent_witness:
  "\<exists>r. from_deployment (example_deployment\<lparr>dep_config_snapshot := example_document\<rparr>) = Inr r \<and>
     ''/'' \<in> rrt_path ` set (rdp_routes r)"
proof -
  let ?x = "example_deployment\<lparr>dep_config_snapshot := example_document\<rparr>"
  have "case from_snapshot example_document of Inr r \<Rightarrow> True | Inl e \<Rightarrow> False" by code_simp
  then obtain r where "from_deployment ?x = Inr r"
    by (auto simp: from_deployment_def split: sum.splits)
  with parsed_deployment_is_consistent [OF this] show ?thesis by blast
qed

end
