(* ===== verification/Database_Properties.thy ===== *)
theory Database_Properties
  imports Settings_Properties
begin

text \<open>
  The managed database's resource, the deployments that are requested from a project, and
  the diagnostics they leave.
\<close>

section \<open>The resource\<close>

text \<open>The resource of a managed database is changed under optimistic versions: every
  change made from the row as it is now succeeds, moves the version on by one and keeps the
  table's invariant; made from a reading of another version it raises
  \<open>ProjectDatabaseVersionConflict\<close>.\<close>

theorem resource_changes_are_versioned:
  assumes "resources_ok d" "get_resource i d = Some r"
    and "res_id old = res_id r" "res_state_version old \<noteq> res_state_version r"
  shows "(\<exists>d'. mark_failed r st code now d = Inr (bumped (\<lambda>x. x\<lparr>res_status := DB_FAILED,
        res_failure_stage := Some st, res_failure_code := Some code\<rparr>) now r, d') \<and> resources_ok d' \<and>
      (\<exists>r'. get_resource i d' = Some r' \<and> res_state_version r' = res_state_version r + 1)) \<and>
    mark_failed old st code now d = Inl ProjectDatabaseVersionConflict \<and>
    begin_retry old now d = Inl ProjectDatabaseVersionConflict \<and>
    record_secret old secret now d = Inl ProjectDatabaseVersionConflict \<and>
    advance_resource old phase now d = Inl ProjectDatabaseVersionConflict"
proof -
  let ?f = "\<lambda>x. x\<lparr>res_status := DB_FAILED, res_failure_stage := Some st, res_failure_code := Some code\<rparr>"
  have r: "r \<in> set (t_database_resources d)" using assms(2) by (auto simp: get_resource_def dest: fetch_SomeD)
  have "credentials_check (bumped ?f now r)"
    using resources_okD(3) [OF assms(1) r] by (simp add: resource_row_ok_def credentials_check_def bumped_def)
  then obtain d' where "update_resource r ?f now d = Inr (bumped ?f now r, d')" "resources_ok d'"
    "get_resource i d' = Some (bumped ?f now r)" "t_projects d' = t_projects d"
    by (rule update_current_resource [OF assms(1,2), where f = ?f, rotated 3])
      (auto simp: resource_row_ok_def credentials_check_def)
  moreover have "res_state_version (bumped ?f now r) = res_state_version r + 1" by (simp add: bumped_def)
  moreover have stale: "\<forall>x\<in>set (t_database_resources d). res_id x = res_id old \<longrightarrow>
      res_state_version x \<noteq> res_state_version old"
  proof (intro ballI impI)
    fix x assume x: "x \<in> set (t_database_resources d)" "res_id x = res_id old"
    with assms(3) have "x = r" by (intro same_key_same_row [OF resources_okD(1) [OF assms(1)] x(1) r]) simp
    with assms(4) show "res_state_version x \<noteq> res_state_version old" by simp
  qed
  ultimately show ?thesis
    unfolding mark_failed_def begin_retry_def record_secret_def advance_resource_def
    by (simp add: update_resource_stale [OF stale])
qed

lemma bind_tx_act: "m d = Inr (a, d) \<Longrightarrow> bind_act (tx_act m) f (s, d) = f a (s, d)"
  by (simp add: act_simps)

lemma provision_locked_eq:
  assumes "tx_bind (service_ready i) (\<lambda>p. tx_lift (connected_services p)) d = Inr (connected, d)"
    and "res_status r \<noteq> DB_ACTIVE"
  shows "provision_locked S V clock i r (s, d) =
    bind_act (if res_status r = DB_FAILED then clock_tx clock (begin_retry r) else ret r)
      (\<lambda>r. bind_act (reconcile_resource S V clock r) (\<lambda>r. ret (r, connected))) (s, d)"
  unfolding provision_locked_def
    bind_tx_act [where m = "tx_bind (service_ready i) (\<lambda>p. tx_lift (connected_services p))"
      and d = d and a = connected, OF assms(1)]
  using assms(2) by simp

text \<open>A resource that was active and is marked as failed (which happens when the operation
  lock cannot be taken while it is provisioned again) never becomes active by provisioning:
  the next attempt sets it to \<open>PROVISIONING\<close>, finds no phase left to run and returns
  it so, and every later attempt returns it unchanged, whatever the provisioner would do.\<close>

theorem failed_active_resource_is_stuck:
  assumes "resources_ok d" "get_resource i d = Some r" "res_phase r = PHASE_ACTIVE"
    and "res_credential_reference r = Some reference" "res_credential_fingerprint r = Some fp"
    and "read_secret (ds_sha S) reference fp s = Inr password"
    and "tx_bind (service_ready i) (\<lambda>p. tx_lift (connected_services p)) d = Inr (connected, d)"
  shows "\<exists>r1 d1 r2 d2.
    (provision_handler clock i r (ProjectDatabaseProvisioningError st code) (s, d) ::
       (exn + (database_resource \<times> string list)) \<times> secret_state \<times> db) =
      (Inl (AppError 503 ''PROJECT_DATABASE_PROVISIONING_FAILED''
              ''Managed PostgreSQL provisioning did not complete''), (s, d1)) \<and>
    get_resource i d1 = Some r1 \<and> res_status r1 = DB_FAILED \<and> res_phase r1 = PHASE_ACTIVE \<and>
    provision_locked S V clock i r1 (s, d1) = (Inr (r2, connected), (s, d2)) \<and>
    get_resource i d2 = Some r2 \<and> res_status r2 = DB_PROVISIONING \<and>
    provision_locked S V clock i r2 (s, d2) = (Inr (r2, connected), (s, d2))"
proof -
  have r: "r \<in> set (t_database_resources d)" using assms(2) by (auto simp: get_resource_def dest: fetch_SomeD)
  have check: "credentials_check r"
    using resources_okD(3) [OF assms(1) r] by (simp add: resource_row_ok_def)
  let ?f = "\<lambda>x. x\<lparr>res_status := DB_FAILED, res_failure_stage := Some st, res_failure_code := Some code\<rparr>"
  let ?r1 = "bumped ?f (clock (s, d)) r"
  have "credentials_check ?r1" using check by (simp add: credentials_check_def bumped_def)
  then obtain d1 where d1: "update_resource r ?f (clock (s, d)) d = Inr (?r1, d1)" "resources_ok d1"
    "get_resource i d1 = Some ?r1" "t_projects d1 = t_projects d"
    by (rule update_current_resource [OF assms(1,2), where f = ?f, rotated 3])
      (auto simp: resource_row_ok_def credentials_check_def)
  let ?g = "\<lambda>x. x\<lparr>res_status := DB_PROVISIONING, res_failure_stage := None, res_failure_code := None\<rparr>"
  let ?r2 = "bumped ?g (clock (s, d1)) ?r1"
  have "credentials_check ?r2" using check by (simp add: credentials_check_def bumped_def)
  then obtain d2 where d2: "update_resource ?r1 ?g (clock (s, d1)) d1 = Inr (?r2, d2)" "resources_ok d2"
    "get_resource i d2 = Some ?r2" "t_projects d2 = t_projects d1"
    by (rule update_current_resource [OF d1(2,3), where f = ?g, rotated 3])
      (auto simp: resource_row_ok_def credentials_check_def)
  have conn: "tx_bind (service_ready i) (\<lambda>p. tx_lift (connected_services p)) d1 = Inr (connected, d1)"
    "tx_bind (service_ready i) (\<lambda>p. tx_lift (connected_services p)) d2 = Inr (connected, d2)"
    using ready_connected_frame [OF assms(7)] d1(4) d2(4) by simp_all
  have active: "reconcile_resource S V clock ?r2 (s, e) = (Inr ?r2, (s, e))" for e
    by (rule reconcile_resource_active_phase) (use assms(3-6) in \<open>simp_all add: bumped_def\<close>)
  have status: "res_status ?r1 = DB_FAILED" "res_status ?r2 = DB_PROVISIONING" "res_phase ?r1 = PHASE_ACTIVE"
    using assms(3) by (simp_all add: bumped_def)
  have "provision_handler clock i r (ProjectDatabaseProvisioningError st code) (s, d) =
      (Inl (AppError 503 ''PROJECT_DATABASE_PROVISIONING_FAILED''
              ''Managed PostgreSQL provisioning did not complete'') ::
         exn + (database_resource \<times> string list), (s, d1))"
    using d1(1) assms(2)
    by (simp add: provision_handler_def provisioning_failed_def clock_tx_def mark_failed_def act_simps tx_read_def)
  moreover have "provision_locked S V clock i ?r1 (s, d1) = (Inr (?r2, connected), (s, d2))"
    using d2(1) status active
    by (simp add: provision_locked_eq [OF conn(1)] clock_tx_def begin_retry_def act_simps)
  moreover have "provision_locked S V clock i ?r2 (s, d2) = (Inr (?r2, connected), (s, d2))"
    using status active by (simp add: provision_locked_eq [OF conn(2)] act_simps)
  ultimately show ?thesis using d1(3) d2(3) status by blast
qed

definition example_fingerprint :: string where
  "example_fingerprint = replicate 64 CHR ''a''"

definition example_resource :: database_resource where
  "example_resource = (new_resource 9 1 0)\<lparr>res_status := DB_ACTIVE, res_phase := PHASE_ACTIVE,
     res_credential_reference := Some ''credentials/v1.secret'', res_credential_version := Some 1,
     res_credential_fingerprint := Some example_fingerprint\<rparr>"

definition connected_project :: project_row where
  "connected_project = example_project\<lparr>prj_deployment_config := Some (JObj [(''services'',
     JList [JObj [(''name'', JStr ''api''), (''projectDatabaseAccess'', JBool True)]])])\<rparr>"

definition resource_db :: db where
  "resource_db = example_db\<lparr>t_projects := [connected_project], t_database_resources := [example_resource]\<rparr>"

lemma resource_db_ok: "resources_ok resource_db"
proof -
  have "fingerprint_matches example_fingerprint" by code_simp
  then show ?thesis
    by (simp add: resources_ok_def resource_row_ok_def credentials_check_def resource_db_def
        example_resource_def new_resource_def project_ids_def connected_project_def example_project_def)
qed

lemma resource_db_found: "get_resource 1 resource_db = Some example_resource"
  by (simp add: get_resource_def resource_db_def example_resource_def new_resource_def)

definition credential_store :: secret_state where
  "credential_store = \<lparr>ss_root = Some (Directory mode_700 True [(''credentials'',
     Directory mode_700 True [(''v1.secret'', Regular mode_400 True ''pw'')])]), ss_locks = []\<rparr>"

definition example_database_service :: database_service where
  "example_database_service = \<lparr>ds_sha = (\<lambda>_. example_fingerprint), ds_token = ''t'',
     ds_runtime_host = ''db'', ds_runtime_port = 5432\<rparr>"

theorem resource_changes_are_versioned_witness:
  "mark_failed (example_resource\<lparr>res_state_version := 4\<rparr>) ''LOCK'' ''OPERATION_LOCK_FAILED'' 9 resource_db =
     Inl ProjectDatabaseVersionConflict"
  using resource_changes_are_versioned [OF resource_db_ok resource_db_found,
      of "example_resource\<lparr>res_state_version := 4\<rparr>"]
  by (simp add: example_resource_def new_resource_def)

definition silent_provisioner :: "(secret_state \<times> db) provisioner" where
  "silent_provisioner = \<lparr>pv_acquire = \<lambda>_. ret (), pv_release = \<lambda>_. ret (), pv_ensure_role = \<lambda>_ _ _. ret (),
     pv_ensure_database = \<lambda>_ _. ret (), pv_ensure_privileges = \<lambda>_ _ _. ret (),
     pv_verify_login = \<lambda>_ _ _ _. ret ()\<rparr>"

theorem failed_active_resource_is_stuck_witness:
  "\<exists>r d'. get_resource 1 d' = Some r \<and> res_status r = DB_PROVISIONING \<and>
     provision_locked example_database_service silent_provisioner (\<lambda>_. 9) 1 r (credential_store, d') =
       (Inr (r, [''api'']), (credential_store, d'))"
proof -
  have read: "read_secret (ds_sha example_database_service) ''credentials/v1.secret'' example_fingerprint
      credential_store = Inr ''pw''" by code_simp
  have conn: "tx_bind (service_ready 1) (\<lambda>p. tx_lift (connected_services p)) resource_db =
      Inr ([''api''], resource_db)"
    by (simp add: service_ready_Inr resource_db_def connected_services_def selected_project_def
        project_with_def project_row.defs project.defs connected_project_def example_project_def jget_def)
  show ?thesis
    using failed_active_resource_is_stuck [OF resource_db_ok resource_db_found _ _ _ read conn,
        of "\<lambda>_. 9" "''LOCK''" "''OPERATION_LOCK_FAILED''" silent_provisioner]
    by (auto simp: example_resource_def)
qed

section \<open>Requesting a deployment\<close>

text \<open>C17. A deployment that is requested successfully belongs to a project that was ready and
  had no other deployment in progress; it starts queued, on the first commit of the list for
  \<open>MAIN_HEAD\<close> and on the requested one, found in the list, for
  \<open>MAIN_COMMIT\<close>; and it freezes the configuration version and document the project had
  at that moment.\<close>

theorem requested_deployment_is_frozen:
  assumes "request_deployment git S project_id source i now d = Inr (x, d')"
  shows "\<exists>q commits metadata. project_of d project_id = Some q \<and> prj_status q = P_READY \<and>
    git_recent_commits git (prj_repository_url q) = Inr commits \<and>
    (\<exists>c\<in>set commits. cm_sha c = dep_resolved_commit_sha x \<and>
       (si_type source = MAIN_HEAD \<longrightarrow> c = hd commits) \<and>
       (si_type source = MAIN_COMMIT \<longrightarrow> si_commit_sha source = Some (cm_sha c))) \<and>
    dep_project_id x = project_id \<and> dep_status x = QUEUED \<and>
    dep_config_version x = prj_config_version q \<and>
    dep_config_snapshot x = with_metadata (the (prj_deployment_config q)) metadata \<and>
    (\<forall>y\<in>set (t_deployments d). dep_project_id y = project_id \<longrightarrow> \<not> active_status (dep_status y)) \<and>
    t_deployments d' = t_deployments d @ [x]"
proof (rule request_deployment_Inr [OF assms])
  fix q metadata commits sha
  assume q: "project_of d project_id = Some q" "prj_status q = P_READY"
    and commits: "git_recent_commits git (prj_repository_url q) = Inr commits"
    and sha: "resolve_commit source commits = Inr sha"
    and run: "create_deployment i now project_id (si_type source) (si_commit_sha source) sha
       (prj_config_version q) (with_metadata (the (prj_deployment_config q)) metadata) d = Inr (x, d')"
  note C = run [unfolded create_deployment_Inr]
  from resolve_commit_Inr [OF sha] obtain c where "c \<in> set commits" "cm_sha c = sha"
    "si_type source = MAIN_HEAD \<longrightarrow> c = hd commits"
    "si_type source = MAIN_COMMIT \<longrightarrow> si_commit_sha source = Some sha" by blast
  moreover have "\<forall>y\<in>set (t_deployments d). dep_project_id y = project_id \<longrightarrow> \<not> active_status (dep_status y)"
    using C by blast
  moreover have "t_deployments d' = t_deployments d @ [x]" using C by auto
  moreover have "dep_resolved_commit_sha x = sha" "dep_project_id x = project_id" "dep_status x = QUEUED"
    "dep_config_version x = prj_config_version q"
    "dep_config_snapshot x = with_metadata (the (prj_deployment_config q)) metadata"
    using C by (simp_all add: new_deployment_def)
  ultimately show ?thesis using q commits
    by (intro exI [of _ q] exI [of _ commits] exI [of _ metadata]) (auto intro!: bexI [of _ c])
qed

definition example_git :: git_client where
  "example_git = \<lparr>git_validate_main = (\<lambda>_. Inr ()),
     git_recent_commits = (\<lambda>_. Inr [\<lparr>cm_sha = example_sha, cm_author_name = ''a'',
       cm_committed_at = 0, cm_subject = ''s''\<rparr>])\<rparr>"

theorem requested_deployment_is_frozen_witness:
  "\<exists>x d'. request_deployment example_git None 1 \<lparr>si_type = MAIN_HEAD, si_commit_sha = None\<rparr> 7 100 example_db =
     Inr (x, d') \<and> dep_config_snapshot x = example_config \<and> t_deployments d' = [x]"
proof -
  have ready: "service_ready 1 example_db = Inr (selected_project example_db example_project, example_db)"
    by (simp add: service_ready_Inr example_db_def empty_db_def example_project_def)
  have meta: "request_metadata None (selected_project example_db example_project) example_db =
      Inr (None, example_db)"
    by (simp add: request_metadata_def config_services_def selected_project_def project_with_def
        project_row.defs project.defs example_project_def example_config_def jget_def ex_bool_eq)
  have commits: "service_commits example_git 1 example_db =
      Inr ([\<lparr>cm_sha = example_sha, cm_author_name = ''a'', cm_committed_at = 0, cm_subject = ''s''\<rparr>], example_db)"
    by (simp add: service_commits_def service_get_project_def get_project_def tx_require_def
        example_db_def empty_db_def example_project_def example_git_def)
  have run: "request_deployment example_git None 1 \<lparr>si_type = MAIN_HEAD, si_commit_sha = None\<rparr> 7 100
      example_db = Inr (new_deployment 7 100 1 MAIN_HEAD None example_sha 1 example_config,
        example_db\<lparr>t_deployments := [new_deployment 7 100 1 MAIN_HEAD None example_sha 1 example_config],
          t_deployment_jobs := [new_deployment_job 7 100]\<rparr>)"
    using ready meta commits
    by (simp add: request_deployment_def resolve_commit_def Let_def with_metadata_def
        create_deployment_Inr selected_project_def project_with_def project_row.defs project.defs
        example_project_def example_db_def empty_db_def sha_ok_def example_sha_def list_all_iff
        example_config_def)
  show ?thesis using requested_deployment_is_frozen [OF run] run by (simp add: new_deployment_def)
qed

section \<open>Diagnostics\<close>

text \<open>C18. Every diagnostic artifact in a reachable state is stored whole and within the limit:
  its payload has at most 262144 bytes as UTF-8 JSON, the byte and line counts beside it are
  those of the payload, it hangs on an event of its own deployment, and no two artifacts
  have the same source.\<close>

theorem stored_artifacts_are_bounded:
  assumes "dep_reachable d" "a \<in> set (t_artifacts d)"
  shows "\<exists>ls. art_lines a = Some ls \<and> art_byte_count a = int (utf8_length (json_payload ls)) \<and>
    art_byte_count a \<le> 262144 \<and> art_line_count a = int (length ls) \<and>
    (\<exists>e\<in>set (t_deployment_events d). ev_id e = art_event_id a \<and>
       ev_deployment_id e = art_deployment_id a) \<and>
    (\<forall>b\<in>set (t_artifacts d). artifact_source b = artifact_source a \<longrightarrow> b = a)"
proof -
  have ok: "artifacts_ok d" using dep_reachable_ok [OF assms(1)] by blast
  then have row: "artifact_row_ok d a" and distinct: "distinct (map artifact_source (t_artifacts d))"
    using assms(2) by (simp_all add: artifacts_ok_def)
  have "b = a" if "b \<in> set (t_artifacts d)" "artifact_source b = artifact_source a" for b
    using distinct that assms(2) by (auto simp: distinct_map dest: inj_onD)
  moreover obtain ls where "art_lines a = Some ls" using row
    by (auto simp: artifact_row_ok_def split: option.splits)
  ultimately show ?thesis
    using row by (auto simp: artifact_row_ok_def artifact_checks_def)
qed

definition example_draft :: artifact_draft where
  "example_draft = \<lparr>ad_kind = COMMAND_OUTPUT, ad_capture_status = CAPTURED, ad_capture_code = None,
     ad_operation = Some ''build'', ad_service_name = None, ad_return_code = Some 1,
     ad_container_status = None, ad_container_exit_code = None,
     ad_lines = [\<lparr>dl_stream = STDERR, dl_message = ''boom'', dl_timestamp = None\<rparr>],
     ad_truncated = False, ad_captured_at = 120\<rparr>"

lemma example_diagnostics:
  "\<exists>ev d. record_diagnostics (example_claim ''a'' 11 100 1) ''BUILD'' ''IMAGE_BUILD_FAILED'' [(5, example_draft)]
      86400 120 (preparing_db ''a'' 11 100 queued_db) = Inr (ev, d) \<and> t_artifacts d \<noteq> []"
proof -
  have id: "dep_id (dc_deployment (example_claim ''a'' 11 100 1)) = 7"
    by (simp add: example_claim_def dep_preparing_def)
  have bytes: "utf8_length (json_payload (ad_lines example_draft)) \<le> 100" by code_simp
  have safe: "jsonb_ok (ad_lines example_draft)" by code_simp
  let ?d = "log_event 7 ''BUILD'' ''DIAGNOSTIC_LOG_CAPTURED''
    ''Stored 1 of 1 bounded diagnostic artifacts'' 120 (preparing_db ''a'' 11 100 queued_db)"
  have summary: "diagnostic_event_summary [example_draft] =
      (''DIAGNOSTIC_LOG_CAPTURED'', ''Stored 1 of 1 bounded diagnostic artifacts'')" by code_simp
  have seq: "t_event_seq (preparing_db ''a'' 11 100 queued_db) = 1"
    "t_artifacts (preparing_db ''a'' 11 100 queued_db) = []"
    "t_deployments (preparing_db ''a'' 11 100 queued_db) = [dep_preparing 100 example_deployment]"
    by (simp_all add: preparing_db_def upd_def)
  have checks: "artifact_checks (artifact_row 5 7 2 ''BUILD'' ''IMAGE_BUILD_FAILED'' 86400 example_draft)"
    using bytes by (simp add: artifact_checks_def artifact_row_def) (simp add: example_draft_def)
  have "insert_artifact 5 7 2 ''BUILD'' ''IMAGE_BUILD_FAILED'' 86400 example_draft ?d =
      Inr ((), ?d\<lparr>t_artifacts := [artifact_row 5 7 2 ''BUILD'' ''IMAGE_BUILD_FAILED'' 86400 example_draft]\<rparr>)"
    using bytes safe checks
    by (simp add: insert_artifact_def DIAGNOSTIC_ARTIFACT_MAX_BYTES_def exists_row_iff seq
        dep_preparing_def)
  moreover have "dep_insert_event 7 ''BUILD'' ''DIAGNOSTIC_LOG_CAPTURED''
      ''Stored 1 of 1 bounded diagnostic artifacts'' 120 (preparing_db ''a'' 11 100 queued_db) =
      Inr (2, ?d)" by (simp add: seq)
  ultimately show ?thesis
    using example_claim_live
    by (simp add: record_diagnostics_def summary id dep_lock_claim_eq seq tx_seq_def tx_bind_def
        tx_raise_if_def tx_ret_def del: dep_insert_event_Inr)
qed

theorem stored_artifacts_are_bounded_witness:
  "\<exists>d a. dep_reachable d \<and> a \<in> set (t_artifacts d) \<and> art_byte_count a \<le> 262144"
proof -
  obtain ev d where run: "record_diagnostics (example_claim ''a'' 11 100 1) ''BUILD'' ''IMAGE_BUILD_FAILED''
      [(5, example_draft)] 86400 120 (preparing_db ''a'' 11 100 queued_db) = Inr (ev, d)"
    and some: "t_artifacts d \<noteq> []" using example_diagnostics by blast
  have reach: "dep_reachable d" by (rule dep_reachable_step [OF preparing_reachable dep_step.diagnose [OF run]])
  from some obtain a where a: "a \<in> set (t_artifacts d)" by (cases "t_artifacts d") auto
  from stored_artifacts_are_bounded [OF reach a] reach a show ?thesis by blast
qed

end
