(* ===== verification/Route_Repository.thy ===== *)
theory Route_Repository
  imports Project_Service "HOL-Library.Char_ord" "HOL-Library.List_Lexorder"
begin

text \<open>
  \<open>public_routes/repository.py\<close>: the public hostname of a project and the job that
  brings the edge to its desired state.  Every change of the desired state is a new
  revision; the job carries the revision it is for, and a claim is good for its revision
  only.  The repository reads the time from \<open>clock_timestamp()\<close> in its statements: each
  statement's reading is an argument.
\<close>

section \<open>Rows and their constraints\<close>

fun double_dash :: "string \<Rightarrow> bool" where
  "double_dash (a # b # cs) = ((a = CHR ''-'' \<and> b = CHR ''-'') \<or> double_dash (b # cs))"
| "double_dash _ = False"

definition alnum :: "char \<Rightarrow> bool" where
  "alnum c = (is_lower c \<or> is_digit c)"

text \<open>\<open>^[a-z0-9](?:[a-z0-9-]{0,61}[a-z0-9])?$\<close>\<close>

definition subdomain_matches :: "string \<Rightarrow> bool" where
  "subdomain_matches s =
     (s \<noteq> [] \<and> length s \<le> 63 \<and> alnum (hd s) \<and> alnum (last s) \<and>
      list_all (\<lambda>c. alnum c \<or> c = CHR ''-'') s)"

definition route_checks :: "public_route \<Rightarrow> bool" where
  "route_checks r =
     (subdomain_matches (rt_subdomain r) \<and> \<not> double_dash (rt_subdomain r) \<and>
      rt_hostname r = map lower_char (rt_hostname r) \<and> 0 < rt_desired_revision r \<and>
      (case rt_applied_revision r of
         None \<Rightarrow> rt_applied_hostname r = None
       | Some n \<Rightarrow> 0 < n \<and> n \<le> rt_desired_revision r) \<and>
      (rt_status r = R_ACTIVE \<longrightarrow>
         rt_desired_state r = ENABLED \<and> rt_applied_revision r = Some (rt_desired_revision r) \<and>
         rt_applied_hostname r = Some (rt_hostname r)) \<and>
      (rt_status r = R_INACTIVE \<longrightarrow>
         rt_desired_state r = DISABLED \<and> rt_applied_revision r = Some (rt_desired_revision r) \<and>
         rt_applied_hostname r = None))"

text \<open>The unique indexes on \<open>hostname\<close> and \<open>applied_hostname\<close>.\<close>

definition route_clash :: "public_route \<Rightarrow> public_route list \<Rightarrow> bool" where
  "route_clash r rows =
     exists_row (\<lambda>s. rt_project_id s \<noteq> rt_project_id r \<and>
        (rt_hostname s = rt_hostname r \<or>
         (rt_applied_hostname r \<noteq> None \<and> rt_applied_hostname s = rt_applied_hostname r))) rows"

definition rj_held :: "string \<Rightarrow> uuid \<Rightarrow> time \<Rightarrow> route_job \<Rightarrow> bool" where
  "rj_held w t now j =
     (rj_state j = RJ_CLAIMED \<and> rj_lease_owner j = Some w \<and> rj_claim_token j = Some t \<and>
      null_gt (rj_lease_expires_at j) now)"

definition rj_claimable :: "time \<Rightarrow> route_job \<Rightarrow> bool" where
  "rj_claimable now j =
     ((rj_state j = RJ_PENDING \<and> rj_available_at j \<le> now) \<or>
      (rj_state j = RJ_CLAIMED \<and> null_le (rj_lease_expires_at j) now))"

definition rj_take :: "string \<Rightarrow> uuid \<Rightarrow> time \<Rightarrow> time \<Rightarrow> route_job \<Rightarrow> route_job" where
  "rj_take w t e now j =
     j\<lparr>rj_state := RJ_CLAIMED, rj_attempts := rj_attempts j + 1, rj_lease_owner := Some w,
       rj_lease_expires_at := Some e, rj_claim_token := Some t, rj_last_error_code := None,
       rj_updated_at := now, rj_completed_at := None\<rparr>"

definition rj_extend :: "time \<Rightarrow> time \<Rightarrow> route_job \<Rightarrow> route_job" where
  "rj_extend e now j = j\<lparr>rj_lease_expires_at := Some e, rj_updated_at := now\<rparr>"

interpretation rj: lease_table rj_project_id rj_held rj_claimable rj_lease_expires_at rj_take rj_extend
proof
  fix w t n r m
  assume "rj_held w t n r" "\<not> null_gt (rj_lease_expires_at r) m"
  then show "rj_claimable m r"
    by (cases "rj_lease_expires_at r") (auto simp: rj_held_def rj_claimable_def)
qed (auto simp: rj_held_def rj_claimable_def rj_take_def rj_extend_def null_gt_not_le)

section \<open>Statements the methods share\<close>

text \<open>\<open>UPDATE project_public_routes SET f WHERE P RETURNING *\<close>; the condition names the
  project, so at most one row changes.\<close>

definition update_route ::
    "(public_route \<Rightarrow> bool) \<Rightarrow> (public_route \<Rightarrow> public_route) \<Rightarrow> (db, public_route option) tx" where
  "update_route P f d =
     (case returning P f (t_routes d) of
        None \<Rightarrow> Inr (None, d)
      | Some r \<Rightarrow>
          if \<not> route_checks r then Inl CheckViolation
          else if route_clash r (t_routes d) then Inl UniqueViolation
          else Inr (Some r, d\<lparr>t_routes := upd P f (t_routes d)\<rparr>))"

definition insert_route :: "public_route \<Rightarrow> (db, public_route) tx" where
  "insert_route r d =
     (if \<not> route_checks r then Inl CheckViolation
      else if exists_row (\<lambda>s. rt_project_id s = rt_project_id r) (t_routes d) \<or>
              route_clash r (t_routes d) then Inl UniqueViolation
      else if \<not> exists_row (\<lambda>p. prj_id p = rt_project_id r) (t_projects d)
        then Inl ForeignKeyViolation
      else Inr (r, d\<lparr>t_routes := t_routes d @ [r]\<rparr>))"

definition new_route_job :: "uuid \<Rightarrow> int \<Rightarrow> time \<Rightarrow> route_job" where
  "new_route_job i revision now =
     \<lparr>rj_project_id = i, rj_desired_revision = revision, rj_state = RJ_PENDING, rj_attempts = 0,
      rj_available_at = now, rj_lease_owner = None, rj_lease_expires_at = None,
      rj_claim_token = None, rj_last_error_code = None, rj_created_at = now,
      rj_updated_at = now, rj_completed_at = None\<rparr>"

definition rj_reset :: "int \<Rightarrow> time \<Rightarrow> route_job \<Rightarrow> route_job" where
  "rj_reset revision now j =
     j\<lparr>rj_desired_revision := revision, rj_state := RJ_PENDING, rj_attempts := 0,
       rj_available_at := now, rj_lease_owner := None, rj_lease_expires_at := None,
       rj_claim_token := None, rj_last_error_code := None, rj_updated_at := now,
       rj_completed_at := None\<rparr>"

definition upsert_route_job :: "uuid \<Rightarrow> int \<Rightarrow> time \<Rightarrow> (db, unit) tx" where
  "upsert_route_job i revision now d =
     Inr ((), if exists_row (\<lambda>j. rj_project_id j = i) (t_route_jobs d)
              then d\<lparr>t_route_jobs := upd (\<lambda>j. rj_project_id j = i) (rj_reset revision now) (t_route_jobs d)\<rparr>
              else d\<lparr>t_route_jobs := t_route_jobs d @ [new_route_job i revision now]\<rparr>)"

definition lock_project_mutation :: "uuid \<Rightarrow> (db, unit) tx" where
  "lock_project_mutation i d =
     (case project_of d i of
        None \<Rightarrow> Inr ((), d)
      | Some p \<Rightarrow> tx_raise_if (prj_status p = P_DELETING) PublicRouteProjectDeletingError d)"

definition assert_hostname_available :: "uuid \<Rightarrow> string \<Rightarrow> (db, unit) tx" where
  "assert_hostname_available i hostname d =
     tx_raise_if (exists_row (\<lambda>r. rt_project_id r \<noteq> i \<and>
         (rt_hostname r = hostname \<or> rt_applied_hostname r = Some hostname)) (t_routes d))
       PublicRouteConflictError d"

text \<open>The job of a claim, live for its revision.\<close>

definition rj_mine :: "route_claim \<Rightarrow> time \<Rightarrow> route_job \<Rightarrow> bool" where
  "rj_mine c now j =
     (rj_project_id j = rt_project_id (rtc_route c) \<and> rj_desired_revision j = rtc_desired_revision c \<and>
      rj_held (rtc_worker_id c) (rtc_token c) now j)"

text \<open>The route of a claim, with its own revision and a live job for it: the condition of
  every statement that changes it.\<close>

definition route_mine :: "route_claim \<Rightarrow> time \<Rightarrow> db \<Rightarrow> public_route \<Rightarrow> bool" where
  "route_mine c now d r =
     (rt_project_id r = rt_project_id (rtc_route c) \<and> rt_desired_revision r = rtc_desired_revision c \<and>
      exists_row (\<lambda>j. rj_project_id j = rt_project_id r \<and> rj_desired_revision j = rt_desired_revision r \<and>
        rj_held (rtc_worker_id c) (rtc_token c) now j) (t_route_jobs d))"

definition route_lock_claim :: "route_claim \<Rightarrow> time \<Rightarrow> (db, unit) tx" where
  "route_lock_claim c now d =
     (if exists_row (\<lambda>j. rj_mine c now j \<and>
           exists_row (\<lambda>r. rt_project_id r = rj_project_id j \<and>
             rt_desired_revision r = rj_desired_revision j) (t_routes d)) (t_route_jobs d)
      then Inr ((), d) else Inl PublicRouteClaimLostError)"

text \<open>\<open>UPDATE public_route_jobs\<close> on the claimed job, with the check that it touched one row.\<close>

definition update_claimed_job :: "route_claim \<Rightarrow> (route_job \<Rightarrow> route_job) \<Rightarrow> time \<Rightarrow> (db, unit) tx" where
  "update_claimed_job c f now d =
     (if rowcount (rj_mine c now) (t_route_jobs d) \<noteq> 1 then Inl PublicRouteClaimLostError
      else Inr ((), d\<lparr>t_route_jobs := upd (rj_mine c now) f (t_route_jobs d)\<rparr>))"

definition rj_finished :: "route_job_state \<Rightarrow> string option \<Rightarrow> time \<Rightarrow> route_job \<Rightarrow> route_job" where
  "rj_finished st code now j =
     j\<lparr>rj_state := st, rj_lease_owner := None, rj_lease_expires_at := None, rj_claim_token := None,
       rj_last_error_code := code, rj_updated_at := now, rj_completed_at := Some now\<rparr>"

definition finish_route_job ::
    "route_claim \<Rightarrow> route_job_state \<Rightarrow> string option \<Rightarrow> time \<Rightarrow> (db, unit) tx" where
  "finish_route_job c st code now = update_claimed_job c (rj_finished st code now) now"

section \<open>The desired state\<close>

definition get_route :: "uuid \<Rightarrow> (db, public_route) tx" where
  "get_route i d = tx_require PublicRouteNotFoundError (route_of d i) d"

definition new_route :: "uuid \<Rightarrow> string \<Rightarrow> string \<Rightarrow> time \<Rightarrow> public_route" where
  "new_route i subdomain hostname now =
     \<lparr>rt_project_id = i, rt_subdomain = subdomain, rt_hostname = hostname,
      rt_desired_state = ENABLED, rt_status = R_PENDING, rt_desired_revision = 1,
      rt_applied_revision = None, rt_applied_hostname = None, rt_last_error_code = None,
      rt_created_at = now, rt_updated_at = now\<rparr>"

definition rt_enable :: "string \<Rightarrow> string \<Rightarrow> int \<Rightarrow> time \<Rightarrow> public_route \<Rightarrow> public_route" where
  "rt_enable subdomain hostname revision now r =
     r\<lparr>rt_subdomain := subdomain, rt_hostname := hostname, rt_desired_state := ENABLED,
       rt_status := R_PENDING, rt_desired_revision := revision, rt_last_error_code := None,
       rt_updated_at := now\<rparr>"

definition rt_disable :: "int \<Rightarrow> time \<Rightarrow> public_route \<Rightarrow> public_route" where
  "rt_disable revision now r =
     r\<lparr>rt_desired_state := DISABLED, rt_status := R_PENDING, rt_desired_revision := revision,
       rt_last_error_code := None, rt_updated_at := now\<rparr>"

text \<open>Replacing the row and its job, the tail of \<open>set_enabled\<close> and \<open>disable\<close>.\<close>

definition replace_route ::
    "uuid \<Rightarrow> (public_route \<Rightarrow> public_route) \<Rightarrow> int \<Rightarrow> time \<Rightarrow> (db, public_route) tx" where
  "replace_route i f revision now =
     tx_bind (update_route (\<lambda>r. rt_project_id r = i) f) (\<lambda>row.
     tx_seq (upsert_route_job i revision now)
       (tx_require (OtherError ''TypeError'') row))"

definition set_enabled :: "uuid \<Rightarrow> string \<Rightarrow> string \<Rightarrow> time \<Rightarrow> (db, public_route) tx" where
  "set_enabled i subdomain hostname now d =
     (let body =
        tx_seq (lock_project_mutation i)
         (tx_bind (tx_read (\<lambda>d. route_of d i)) (\<lambda>current.
          tx_seq (assert_hostname_available i hostname)
           (case current of
              None \<Rightarrow>
                tx_bind (insert_route (new_route i subdomain hostname now)) (\<lambda>row.
                tx_seq (upsert_route_job i 1 now) (tx_ret row))
            | Some r \<Rightarrow>
                (let unchanged = (rt_desired_state r = ENABLED \<and> rt_hostname r = hostname);
                     revision = (if unchanged then rt_desired_revision r else rt_desired_revision r + 1) in
                 if unchanged \<and> rt_status r \<in> set [R_PENDING, R_APPLYING, R_ACTIVE]
                 then tx_ret r
                 else replace_route i (rt_enable subdomain hostname revision now) revision now))))
      in case body d of Inl UniqueViolation \<Rightarrow> Inl PublicRouteConflictError | x \<Rightarrow> x)"

text \<open>What \<open>disable\<close> and \<open>disable_for_deletion\<close> do to a route that exists.\<close>

definition disable_current :: "uuid \<Rightarrow> time \<Rightarrow> public_route \<Rightarrow> (db, public_route) tx" where
  "disable_current i now r =
     (let unchanged = (rt_desired_state r = DISABLED);
          revision = (if unchanged then rt_desired_revision r else rt_desired_revision r + 1) in
      if unchanged \<and> rt_status r \<in> set [R_PENDING, R_APPLYING, R_INACTIVE] then tx_ret r
      else replace_route i (rt_disable revision now) revision now)"

definition disable_route :: "uuid \<Rightarrow> time \<Rightarrow> (db, public_route) tx" where
  "disable_route i now =
     tx_seq (lock_project_mutation i)
      (tx_bind (tx_read (\<lambda>d. route_of d i)) (\<lambda>current.
       tx_bind (tx_require PublicRouteNotFoundError current) (disable_current i now)))"

definition disable_for_deletion :: "uuid \<Rightarrow> time \<Rightarrow> (db, public_route option) tx" where
  "disable_for_deletion i now d =
     (case project_of d i of
        None \<Rightarrow> Inl PublicRouteProjectDeletingError
      | Some p \<Rightarrow>
          if prj_status p \<noteq> P_DELETING then Inl PublicRouteProjectDeletingError
          else (case route_of d i of
                  None \<Rightarrow> Inr (None, d)
                | Some r \<Rightarrow> tx_bind (disable_current i now r) (\<lambda>row. tx_ret (Some row)) d))"

definition deletion_is_applied :: "uuid \<Rightarrow> db \<Rightarrow> bool" where
  "deletion_is_applied i d =
     (\<not> exists_row (\<lambda>r. rt_project_id r = i \<and>
        \<not> (rt_desired_state r = DISABLED \<and> rt_status r = R_INACTIVE \<and>
           rt_applied_revision r = Some (rt_desired_revision r) \<and> rt_applied_hostname r = None))
       (t_routes d))"

definition list_applied :: "db \<Rightarrow> public_route list" where
  "list_applied d =
     order_by (\<lambda>r. (the (rt_applied_hostname r), rt_project_id r))
       (filter (\<lambda>r. rt_applied_hostname r \<noteq> None) (t_routes d))"

definition wake_pending :: "uuid \<Rightarrow> time \<Rightarrow> (db, unit) tx" where
  "wake_pending i now d =
     (let code = Some ''GATEWAY_START_FAILED'';
          P = (\<lambda>j. rj_project_id j = i \<and> rj_state j = RJ_PENDING \<and> rj_last_error_code j = code \<and>
                exists_row (\<lambda>r. rt_project_id r = rj_project_id j \<and> rt_desired_state r = ENABLED \<and>
                  rt_status r = R_PENDING \<and> rt_desired_revision r = rj_desired_revision j \<and>
                  rt_last_error_code r = code) (t_routes d)) in
      Inr ((), d\<lparr>t_route_jobs := upd P (\<lambda>j. j\<lparr>rj_available_at := min (rj_available_at j) now,
                                            rj_updated_at := now\<rparr>) (t_route_jobs d)\<rparr>))"

section \<open>The life of a claim\<close>

definition rj_candidate :: "time \<Rightarrow> uuid list \<Rightarrow> db \<Rightarrow> route_job \<Rightarrow> bool" where
  "rj_candidate now locked d j =
     (rj_claimable now j \<and>
      exists_row (\<lambda>r. rt_project_id r = rj_project_id j \<and> rt_desired_revision r = rj_desired_revision j)
        (t_routes d) \<and>
      rj_project_id j \<notin> set locked)"

definition rt_claimed :: "time \<Rightarrow> public_route \<Rightarrow> public_route" where
  "rt_claimed now r = r\<lparr>rt_status := R_APPLYING, rt_last_error_code := None, rt_updated_at := now\<rparr>"

definition route_claim_next ::
    "string \<Rightarrow> time \<Rightarrow> uuid list \<Rightarrow> uuid \<Rightarrow> time \<Rightarrow> time \<Rightarrow> (db, route_claim option) tx" where
  "route_claim_next worker lease locked token t1 t2 d =
     (case claim_row (rj_candidate t1 locked d)
             (\<lambda>j. (rj_available_at j, rj_created_at j, rj_project_id j))
             rj_project_id (rj_take worker token (t1 + lease) t1) (t_route_jobs d) of
        None \<Rightarrow> Inr (None, d)
      | Some (job, jobs) \<Rightarrow>
          tx_seq (\<lambda>d. Inr ((), d\<lparr>t_route_jobs := jobs\<rparr>))
           (\<lambda>d. tx_bind
              (update_route
                 (\<lambda>r. rt_project_id r = rj_project_id job \<and> rt_desired_revision r = rj_desired_revision job \<and>
                    exists_row (\<lambda>j. rj_project_id j = rt_project_id r \<and>
                      rj_desired_revision j = rt_desired_revision r \<and> rj_held worker token t2 j)
                      (t_route_jobs d))
                 (rt_claimed t2))
              (\<lambda>row. tx_bind (tx_require PublicRouteClaimLostError row)
                (\<lambda>r. tx_ret (Some \<lparr>rtc_route = r, rtc_token = token, rtc_worker_id = worker,
                       rtc_desired_revision = rj_desired_revision job, rtc_attempts = rj_attempts job,
                       rtc_lease_expires_at = t1 + lease\<rparr>))) d) d)"

definition renew_route :: "route_claim \<Rightarrow> time \<Rightarrow> time \<Rightarrow> (db, time) tx" where
  "renew_route c lease now d =
     (let P = (\<lambda>j. rj_mine c now j \<and>
                exists_row (\<lambda>r. rt_project_id r = rj_project_id j \<and>
                  rt_desired_revision r = rj_desired_revision j) (t_routes d)) in
      case returning P (rj_extend (now + lease) now) (t_route_jobs d) of
        None \<Rightarrow> Inl PublicRouteClaimLostError
      | Some _ \<Rightarrow> Inr (now + lease,
          d\<lparr>t_route_jobs := upd P (rj_extend (now + lease) now) (t_route_jobs d)\<rparr>))"

text \<open>The common shape of \<open>complete\<close>, \<open>fail\<close> and \<open>_reschedule\<close>: lock the claim,
  update the route it is for, then the job.\<close>

definition update_claimed_route ::
    "route_claim \<Rightarrow> (public_route \<Rightarrow> public_route) \<Rightarrow> time \<Rightarrow> (db, public_route) tx" where
  "update_claimed_route c f now d =
     tx_bind (update_route (route_mine c now d) f) (tx_require PublicRouteClaimLostError) d"

definition rt_applied :: "public_route \<Rightarrow> time \<Rightarrow> public_route \<Rightarrow> public_route" where
  "rt_applied current now r =
     (if rt_desired_state current = ENABLED
      then r\<lparr>rt_status := R_ACTIVE, rt_applied_revision := Some (rt_desired_revision r),
             rt_applied_hostname := Some (rt_hostname current), rt_last_error_code := None,
             rt_updated_at := now\<rparr>
      else r\<lparr>rt_status := R_INACTIVE, rt_applied_revision := Some (rt_desired_revision r),
             rt_applied_hostname := None, rt_last_error_code := None, rt_updated_at := now\<rparr>)"

definition complete_route :: "route_claim \<Rightarrow> time \<Rightarrow> time \<Rightarrow> time \<Rightarrow> (db, public_route) tx" where
  "complete_route c t1 t2 t3 =
     tx_seq (route_lock_claim c t1)
      (tx_bind (tx_read (\<lambda>d. route_of d (rt_project_id (rtc_route c)))) (\<lambda>row.
       tx_bind (tx_require (OtherError ''TypeError'') row) (\<lambda>current.
       tx_bind (update_claimed_route c (rt_applied current t2) t2)
         (\<lambda>r. tx_seq (finish_route_job c RJ_SUCCEEDED None t3) (tx_ret r)))))"

definition rt_stopped :: "route_status \<Rightarrow> string \<Rightarrow> time \<Rightarrow> public_route \<Rightarrow> public_route" where
  "rt_stopped st code now r =
     r\<lparr>rt_status := st, rt_last_error_code := Some code, rt_updated_at := now\<rparr>"

definition rj_again :: "time \<Rightarrow> string \<Rightarrow> time \<Rightarrow> route_job \<Rightarrow> route_job" where
  "rj_again available_at code now j =
     j\<lparr>rj_state := RJ_PENDING, rj_available_at := available_at, rj_lease_owner := None,
       rj_lease_expires_at := None, rj_claim_token := None, rj_last_error_code := Some code,
       rj_updated_at := now, rj_completed_at := None\<rparr>"

definition reschedule_route ::
    "route_claim \<Rightarrow> time \<Rightarrow> string \<Rightarrow> time \<Rightarrow> time \<Rightarrow> time \<Rightarrow> (db, public_route) tx" where
  "reschedule_route c available_at code t1 t2 t3 =
     tx_seq (route_lock_claim c t1)
      (tx_bind (update_claimed_route c (rt_stopped R_PENDING code t2) t2)
       (\<lambda>r. tx_seq (update_claimed_job c (rj_again available_at code t3) t3) (tx_ret r)))"

definition defer_route_not_ready ::
    "route_claim \<Rightarrow> time \<Rightarrow> string \<Rightarrow> time \<Rightarrow> time \<Rightarrow> time \<Rightarrow> (db, public_route) tx" where
  "defer_route_not_ready = reschedule_route"

definition retry_route ::
    "route_claim \<Rightarrow> time \<Rightarrow> string \<Rightarrow> time \<Rightarrow> time \<Rightarrow> time \<Rightarrow> (db, public_route) tx" where
  "retry_route = reschedule_route"

definition fail_route ::
    "route_claim \<Rightarrow> string \<Rightarrow> bool \<Rightarrow> time \<Rightarrow> time \<Rightarrow> time \<Rightarrow> (db, public_route) tx" where
  "fail_route c code uncertain t1 t2 t3 =
     tx_seq (route_lock_claim c t1)
      (tx_bind (update_claimed_route c (rt_stopped (if uncertain then R_UNCERTAIN else R_FAILED) code t2) t2)
       (\<lambda>r. tx_seq (finish_route_job c RJ_FAILED (Some code) t3) (tx_ret r)))"

end
