(* ===== verification/Route_Invariants.thy ===== *)
theory Route_Invariants
  imports Route_Repository
begin

text \<open>
  What the two route tables keep true: a job for each route, of the same revision and in a
  state that agrees with the route's status, and the ownership of hostnames: no hostname
  that one route wants or has applied is wanted or applied by another.
\<close>

section \<open>The invariant\<close>

definition rj_row_ok :: "route_job \<Rightarrow> bool" where
  "rj_row_ok j =
     (0 \<le> rj_attempts j \<and>
      (if rj_state j = RJ_CLAIMED
       then rj_lease_owner j \<noteq> None \<and> rj_lease_expires_at j \<noteq> None \<and> rj_claim_token j \<noteq> None
       else rj_lease_owner j = None \<and> rj_lease_expires_at j = None \<and> rj_claim_token j = None) \<and>
      (rj_completed_at j \<noteq> None \<longleftrightarrow> rj_state j = RJ_SUCCEEDED \<or> rj_state j = RJ_FAILED))"

fun route_agrees :: "route_job_state \<Rightarrow> route_status \<Rightarrow> bool" where
  "route_agrees RJ_PENDING s = (s = R_PENDING)"
| "route_agrees RJ_CLAIMED s = (s = R_APPLYING)"
| "route_agrees RJ_SUCCEEDED s = (s = R_ACTIVE \<or> s = R_INACTIVE)"
| "route_agrees RJ_FAILED s = (s = R_FAILED \<or> s = R_UNCERTAIN)"

definition names_apart :: "public_route \<Rightarrow> public_route \<Rightarrow> bool" where
  "names_apart r s =
     (rt_hostname r \<noteq> rt_hostname s \<and> rt_applied_hostname r \<noteq> Some (rt_hostname s) \<and>
      rt_applied_hostname s \<noteq> Some (rt_hostname r) \<and>
      (rt_applied_hostname r \<noteq> None \<longrightarrow> rt_applied_hostname s \<noteq> rt_applied_hostname r))"

definition route_keys_ok :: "db \<Rightarrow> bool" where
  "route_keys_ok d = (distinct (map rt_project_id (t_routes d)) \<and>
     distinct (map rj_project_id (t_route_jobs d)) \<and>
     rt_project_id ` set (t_routes d) = rj_project_id ` set (t_route_jobs d))"

definition route_pair_ok :: "public_route \<Rightarrow> route_job \<Rightarrow> bool" where
  "route_pair_ok r j =
     (rj_desired_revision j = rt_desired_revision r \<and> route_agrees (rj_state j) (rt_status r))"

definition routes_ok :: "db \<Rightarrow> bool" where
  "routes_ok d =
     (route_keys_ok d \<and> (\<forall>r\<in>set (t_routes d). route_checks r) \<and>
      (\<forall>j\<in>set (t_route_jobs d). rj_row_ok j) \<and>
      (\<forall>r\<in>set (t_routes d). \<forall>j\<in>set (t_route_jobs d).
         rj_project_id j = rt_project_id r \<longrightarrow> route_pair_ok r j) \<and>
      (\<forall>r\<in>set (t_routes d). \<forall>s\<in>set (t_routes d). r \<noteq> s \<longrightarrow> names_apart r s))"

lemma routes_okD:
  assumes "routes_ok d"
  shows "distinct (map rt_project_id (t_routes d))" "distinct (map rj_project_id (t_route_jobs d))"
    "rt_project_id ` set (t_routes d) = rj_project_id ` set (t_route_jobs d)"
    "\<And>r. r \<in> set (t_routes d) \<Longrightarrow> route_checks r"
    "\<And>j. j \<in> set (t_route_jobs d) \<Longrightarrow> rj_row_ok j"
    "\<And>r j. r \<in> set (t_routes d) \<Longrightarrow> j \<in> set (t_route_jobs d) \<Longrightarrow>
       rj_project_id j = rt_project_id r \<Longrightarrow> route_pair_ok r j"
    "\<And>r s. r \<in> set (t_routes d) \<Longrightarrow> s \<in> set (t_routes d) \<Longrightarrow> r \<noteq> s \<Longrightarrow> names_apart r s"
  using assms by (simp_all add: routes_ok_def route_keys_ok_def)

lemma job_of_route:
  assumes "routes_ok d" "r \<in> set (t_routes d)"
  obtains j where "j \<in> set (t_route_jobs d)" "rj_project_id j = rt_project_id r"
proof -
  have "rt_project_id r \<in> rj_project_id ` set (t_route_jobs d)"
    using assms(2) by (simp flip: routes_okD(3) [OF assms(1)])
  then show ?thesis using that by auto
qed

lemma route_of_job:
  assumes "routes_ok d" "j \<in> set (t_route_jobs d)"
  obtains r where "r \<in> set (t_routes d)" "rt_project_id r = rj_project_id j"
proof -
  have "rj_project_id j \<in> rt_project_id ` set (t_routes d)"
    using assms(2) by (simp add: routes_okD(3) [OF assms(1)])
  then show ?thesis using that by auto
qed

section \<open>Moves\<close>

lemma upd_one_key:
  assumes "distinct (map k rows)" "r \<in> set rows" "k r = i" "k (f r) = i"
  shows "map k (upd (\<lambda>x. k x = i) f rows) = map k rows"
proof -
  have "k (f x) = i" if "x \<in> set rows" "k x = i" for x
    using same_key_same_row [OF assms(1) that(1) assms(2)] that(2) assms(3,4) by simp
  then show ?thesis by (simp add: upd_def)
qed

text \<open>Every method changes one route and its job.\<close>

definition route_move ::
    "uuid \<Rightarrow> (public_route \<Rightarrow> public_route) \<Rightarrow> (route_job \<Rightarrow> route_job) \<Rightarrow> db \<Rightarrow> db" where
  "route_move i f g d =
     d\<lparr>t_routes := upd (\<lambda>r. rt_project_id r = i) f (t_routes d),
       t_route_jobs := upd (\<lambda>j. rj_project_id j = i) g (t_route_jobs d)\<rparr>"

lemma route_move_simps [simp]:
  "t_routes (route_move i f g d) = upd (\<lambda>r. rt_project_id r = i) f (t_routes d)"
  "t_route_jobs (route_move i f g d) = upd (\<lambda>j. rj_project_id j = i) g (t_route_jobs d)"
  "t_projects (route_move i f g d) = t_projects d"
  "t_deletion_jobs (route_move i f g d) = t_deletion_jobs d"
  by (simp_all add: route_move_def)

lemma route_move_ok:
  assumes ok: "routes_ok d"
    and r: "r \<in> set (t_routes d)" "rt_project_id r = i"
    and j: "j \<in> set (t_route_jobs d)" "rj_project_id j = i"
    and f: "rt_project_id (f r) = i" and g: "rj_project_id (g j) = i"
    and rows: "route_checks (f r)" "rj_row_ok (g j)" and pair: "route_pair_ok (f r) (g j)"
    and apart: "\<And>s. s \<in> set (t_routes d) \<Longrightarrow> s \<noteq> r \<Longrightarrow> names_apart (f r) s"
  shows "routes_ok (route_move i f g d)"
proof -
  note D = routes_okD [OF ok]
  have routes: "set (upd (\<lambda>x. rt_project_id x = i) f (t_routes d)) =
      {s \<in> set (t_routes d). rt_project_id s \<noteq> i} \<union> {f r}"
    by (rule set_upd_key [of rt_project_id, OF D(1) r])
  have jobs: "set (upd (\<lambda>x. rj_project_id x = i) g (t_route_jobs d)) =
      {k \<in> set (t_route_jobs d). rj_project_id k \<noteq> i} \<union> {g j}"
    by (rule set_upd_key [of rj_project_id, OF D(2) j])
  have keys: "map rt_project_id (upd (\<lambda>x. rt_project_id x = i) f (t_routes d)) = map rt_project_id (t_routes d)"
    "map rj_project_id (upd (\<lambda>x. rj_project_id x = i) g (t_route_jobs d)) = map rj_project_id (t_route_jobs d)"
    by (rule upd_one_key [where k = rt_project_id and f = f, OF D(1) r f],
      rule upd_one_key [where k = rj_project_id and f = g, OF D(2) j g])
  have sym: "names_apart a b \<longleftrightarrow> names_apart b a" for a b by (auto simp: names_apart_def)
  have "route_keys_ok (route_move i f g d)"
  proof -
    have "rt_project_id ` set (t_routes (route_move i f g d)) = rt_project_id ` set (t_routes d)"
      "rj_project_id ` set (t_route_jobs (route_move i f g d)) = rj_project_id ` set (t_route_jobs d)"
      unfolding route_move_simps by (metis keys(1) set_map, metis keys(2) set_map)
    then show ?thesis using D(1-3) keys by (simp add: route_keys_ok_def)
  qed
  moreover have "\<forall>a\<in>set (t_routes (route_move i f g d)). \<forall>b\<in>set (t_route_jobs (route_move i f g d)).
      rj_project_id b = rt_project_id a \<longrightarrow> route_pair_ok a b"
    unfolding route_move_simps routes jobs using D(6) f g pair by auto
  moreover have "\<forall>a\<in>set (t_routes (route_move i f g d)). \<forall>b\<in>set (t_routes (route_move i f g d)).
      a \<noteq> b \<longrightarrow> names_apart a b"
    unfolding route_move_simps routes using D(7) apart sym r(2) by blast
  moreover have "\<forall>a\<in>set (t_routes (route_move i f g d)). route_checks a"
    unfolding route_move_simps routes using D(4) rows(1) by blast
  moreover have "\<forall>b\<in>set (t_route_jobs (route_move i f g d)). rj_row_ok b"
    unfolding route_move_simps jobs using D(5) rows(2) by blast
  ultimately show ?thesis unfolding routes_ok_def by blast
qed

section \<open>What each method does, as an equation\<close>

definition route_claim_live :: "route_claim \<Rightarrow> time \<Rightarrow> db \<Rightarrow> bool" where
  "route_claim_live c now d = (\<exists>j\<in>set (t_route_jobs d). rj_mine c now j)"

text \<open>A live claim determines its job and its route, which is being applied.\<close>

lemma live_route_rows:
  assumes "routes_ok d" "route_claim_live c now d"
  obtains j r where "j \<in> set (t_route_jobs d)" "rj_mine c now j" "rj_project_id j = rt_project_id (rtc_route c)"
    "r \<in> set (t_routes d)" "rt_project_id r = rt_project_id (rtc_route c)"
    "rt_desired_revision r = rtc_desired_revision c" "rt_status r = R_APPLYING"
    "route_of d (rt_project_id (rtc_route c)) = Some r"
proof -
  from assms(2) obtain j where j: "j \<in> set (t_route_jobs d)" "rj_mine c now j"
    by (auto simp: route_claim_live_def)
  obtain r where r: "r \<in> set (t_routes d)" "rt_project_id r = rj_project_id j"
    by (rule route_of_job [OF assms(1) j(1)])
  have pair: "route_pair_ok r j" by (rule routes_okD(6) [OF assms(1) r(1) j(1)]) (simp add: r(2))
  have "route_of d (rj_project_id j) = Some r"
    using fetch_key [OF routes_okD(1) [OF assms(1)] r(1)] r(2) by simp
  then show ?thesis
    using that [OF j _ r(1)] pair j(2) r(2) by (auto simp: rj_mine_def rj_held_def route_pair_ok_def)
qed

lemma route_lock_claim_eq:
  assumes "routes_ok d"
  shows "route_lock_claim c now d =
    (if route_claim_live c now d then Inr ((), d) else Inl PublicRouteClaimLostError)"
proof (cases "route_claim_live c now d")
  case True
  obtain j r where "j \<in> set (t_route_jobs d)" "rj_mine c now j" "rj_project_id j = rt_project_id (rtc_route c)"
    "r \<in> set (t_routes d)" "rt_project_id r = rt_project_id (rtc_route c)"
    "rt_desired_revision r = rtc_desired_revision c" "rt_status r = R_APPLYING"
    "route_of d (rt_project_id (rtc_route c)) = Some r"
    by (rule live_route_rows [OF assms True]) (rule that, assumption+)
  then show ?thesis
    using True by (auto simp: route_lock_claim_def exists_row_iff rj_mine_def)
next
  case False
  then show ?thesis by (auto simp: route_lock_claim_def exists_row_iff route_claim_live_def)
qed

lemma no_clash:
  assumes "routes_ok d" "r \<in> set (t_routes d)" "rt_project_id r' = rt_project_id r"
    and apart: "\<And>s. s \<in> set (t_routes d) \<Longrightarrow> s \<noteq> r \<Longrightarrow> names_apart r' s"
  shows "\<not> route_clash r' (t_routes d)"
proof
  assume "route_clash r' (t_routes d)"
  then obtain s where s: "s \<in> set (t_routes d)" "rt_project_id s \<noteq> rt_project_id r"
    "rt_hostname s = rt_hostname r' \<or>
     (rt_applied_hostname r' \<noteq> None \<and> rt_applied_hostname s = rt_applied_hostname r')"
    by (auto simp: route_clash_def exists_row_iff assms(3))
  then have "s \<noteq> r" by auto
  from apart [OF s(1) this] s(3) show False by (auto simp: names_apart_def)
qed

lemma fetch_cong: "(\<And>x. x \<in> set rows \<Longrightarrow> P x = Q x) \<Longrightarrow> fetch P rows = fetch Q rows"
  by (induction rows) auto

lemma not_enabled: "s \<noteq> ENABLED \<longleftrightarrow> s = DISABLED"
  by (cases s) simp_all

lemma lock_then:
  assumes "routes_ok d" "route_claim_live c now d"
  shows "tx_seq (route_lock_claim c now) m d = m d"
  using assms by (simp add: tx_seq_def tx_bind_def route_lock_claim_eq)

lemma read_then: "tx_bind (tx_read f) m d = m (f d) d"
  by (simp add: tx_bind_def tx_read_def)

lemma require_then: "tx_bind (tx_require e (Some x)) m d = m x d"
  by (simp add: tx_bind_def tx_require_def)

lemma update_route_at:
  assumes ok: "routes_ok d" and r: "r \<in> set (t_routes d)" "rt_project_id r = i"
    and P: "\<And>s. s \<in> set (t_routes d) \<Longrightarrow> P s = (rt_project_id s = i)"
    and f: "rt_project_id (f r) = i" and checks: "route_checks (f r)"
    and apart: "\<And>s. s \<in> set (t_routes d) \<Longrightarrow> s \<noteq> r \<Longrightarrow> names_apart (f r) s"
  shows "update_route P f d =
    Inr (Some (f r), d\<lparr>t_routes := upd (\<lambda>s. rt_project_id s = i) f (t_routes d)\<rparr>)"
proof -
  have upd: "upd P f (t_routes d) = upd (\<lambda>s. rt_project_id s = i) f (t_routes d)"
    by (rule upd_cong) (rule P)
  have "fetch P (t_routes d) = fetch (\<lambda>s. rt_project_id s = i) (t_routes d)"
    by (rule fetch_cong) (rule P)
  then have "fetch P (t_routes d) = Some r"
    using fetch_key [OF routes_okD(1) [OF ok] r(1)] r(2) by simp
  moreover have "\<not> route_clash (f r) (t_routes d)"
    by (rule no_clash [OF ok r(1) _ apart]) (simp add: f r(2))
  ultimately show ?thesis
    using checks by (simp add: update_route_def returning_def upd)
qed

lemma update_claimed_job_eq:
  assumes ok: "routes_ok d" and live: "route_claim_live c now d"
    and jobs: "t_route_jobs e = t_route_jobs d"
  shows "update_claimed_job c g now e = Inr ((), e\<lparr>t_route_jobs :=
    upd (\<lambda>j. rj_project_id j = rt_project_id (rtc_route c)) g (t_route_jobs e)\<rparr>)"
proof -
  obtain j r where j: "j \<in> set (t_route_jobs d)" "rj_mine c now j" "rj_project_id j = rt_project_id (rtc_route c)"
    "r \<in> set (t_routes d)" "rt_project_id r = rt_project_id (rtc_route c)"
    "rt_desired_revision r = rtc_desired_revision c" "rt_status r = R_APPLYING"
    "route_of d (rt_project_id (rtc_route c)) = Some r"
    by (rule live_route_rows [OF ok live]) (rule that, assumption+)
  have "rowcount (rj_mine c now) (t_route_jobs d) = 1"
    by (rule rowcount_key [where k = rj_project_id and P = "rj_mine c now", OF routes_okD(2) [OF ok] j(1,2)])
      (simp add: rj_mine_def j(3))
  moreover have "upd (rj_mine c now) g (t_route_jobs d) =
      upd (\<lambda>j. rj_project_id j = rt_project_id (rtc_route c)) g (t_route_jobs d)"
  proof (rule upd_cong)
    fix k assume k: "k \<in> set (t_route_jobs d)"
    show "rj_mine c now k = (rj_project_id k = rt_project_id (rtc_route c))"
      using same_key_same_row [OF routes_okD(2) [OF ok] k j(1)] j(2,3) by (auto simp: rj_mine_def)
  qed
  ultimately show ?thesis by (simp add: update_claimed_job_def jobs)
qed

text \<open>The route statement of a claim, with the claim still live.\<close>

lemma update_claimed_route_eq:
  assumes ok: "routes_ok d" and live: "route_claim_live c now d"
    and r: "route_of d (rt_project_id (rtc_route c)) = Some r"
    and f: "rt_project_id (f r) = rt_project_id r" and checks: "route_checks (f r)"
    and apart: "\<And>s. s \<in> set (t_routes d) \<Longrightarrow> s \<noteq> r \<Longrightarrow> names_apart (f r) s"
  shows "update_claimed_route c f now d = Inr (f r, d\<lparr>t_routes :=
    upd (\<lambda>s. rt_project_id s = rt_project_id (rtc_route c)) f (t_routes d)\<rparr>)"
proof -
  obtain j r' where j: "j \<in> set (t_route_jobs d)" "rj_mine c now j" "rj_project_id j = rt_project_id (rtc_route c)"
    and r': "r' \<in> set (t_routes d)" "rt_project_id r' = rt_project_id (rtc_route c)"
    "rt_desired_revision r' = rtc_desired_revision c" "rt_status r' = R_APPLYING"
    "route_of d (rt_project_id (rtc_route c)) = Some r'"
    by (rule live_route_rows [OF ok live]) (rule that, assumption+)
  have [simp]: "r' = r" using r r'(5) by simp
  have "update_route (route_mine c now d) f d = Inr (Some (f r), d\<lparr>t_routes :=
      upd (\<lambda>s. rt_project_id s = rt_project_id (rtc_route c)) f (t_routes d)\<rparr>)"
  proof (rule update_route_at [OF ok, where r = r])
    fix s assume s: "s \<in> set (t_routes d)"
    show "route_mine c now d s = (rt_project_id s = rt_project_id (rtc_route c))"
    proof
      assume same: "rt_project_id s = rt_project_id (rtc_route c)"
      then have "s = r" using same_key_same_row [OF routes_okD(1) [OF ok] s r'(1)] r'(2) by simp
      then show "route_mine c now d s"
        using r' j by (auto simp: route_mine_def exists_row_iff rj_mine_def)
    qed (simp add: route_mine_def)
  qed (use r' f checks apart in simp_all)
  then show ?thesis by (simp add: update_claimed_route_def tx_bind_def tx_require_def)
qed

text \<open>The end of a claim: the lock, the route, the job.\<close>

lemma route_claim_ends:
  assumes ok: "routes_ok d" and live: "route_claim_live c t2 d" "route_claim_live c t3 d"
    and r: "route_of d (rt_project_id (rtc_route c)) = Some r"
    and f: "rt_project_id (f r) = rt_project_id r" and checks: "route_checks (f r)"
    and apart: "\<And>s. s \<in> set (t_routes d) \<Longrightarrow> s \<noteq> r \<Longrightarrow> names_apart (f r) s"
  shows "tx_bind (update_claimed_route c f t2) (\<lambda>x. tx_seq (update_claimed_job c g t3) (tx_ret x)) d =
    Inr (f r, route_move (rt_project_id (rtc_route c)) f g d)"
proof -
  let ?e = "d\<lparr>t_routes := upd (\<lambda>s. rt_project_id s = rt_project_id (rtc_route c)) f (t_routes d)\<rparr>"
  have "update_claimed_route c f t2 d = Inr (f r, ?e)"
    by (rule update_claimed_route_eq [where f = f, OF ok live(1) r f checks apart])
  moreover have "update_claimed_job c g t3 ?e = Inr ((), ?e\<lparr>t_route_jobs :=
      upd (\<lambda>j. rj_project_id j = rt_project_id (rtc_route c)) g (t_route_jobs ?e)\<rparr>)"
    by (rule update_claimed_job_eq [OF ok live(2)]) simp
  ultimately show ?thesis by (simp add: tx_bind_def tx_seq_def tx_ret_def route_move_def)
qed

section \<open>Ending a claim\<close>

lemma route_live_earlier:
  "route_claim_live c n d \<Longrightarrow> m \<le> n \<Longrightarrow> route_claim_live c m d"
  unfolding route_claim_live_def rj_mine_def rj_held_def using null_gt_earlier by blast

text \<open>A claim that ends with the route's status \<open>st\<close> and the job's state, by functions that keep
  the keys.\<close>

lemma end_claim_ok:
  assumes ok: "routes_ok d" and live: "route_claim_live c now d"
    and r: "route_of d (rt_project_id (rtc_route c)) = Some r"
    and f: "rt_project_id (f r) = rt_project_id r" "rt_desired_revision (f r) = rt_desired_revision r"
    and g: "\<And>j. rj_project_id (g j) = rj_project_id j" "\<And>j. rj_desired_revision (g j) = rj_desired_revision j"
    and rows: "route_checks (f r)" "\<And>j. rj_row_ok j \<Longrightarrow> rj_row_ok (g j)"
    and agrees: "\<And>j. route_agrees (rj_state (g j)) (rt_status (f r))"
    and apart: "\<And>s. s \<in> set (t_routes d) \<Longrightarrow> s \<noteq> r \<Longrightarrow> names_apart (f r) s"
  shows "routes_ok (route_move (rt_project_id (rtc_route c)) f g d)"
proof -
  obtain j r' where j: "j \<in> set (t_route_jobs d)" "rj_mine c now j" "rj_project_id j = rt_project_id (rtc_route c)"
    and r': "r' \<in> set (t_routes d)" "rt_project_id r' = rt_project_id (rtc_route c)"
    "rt_desired_revision r' = rtc_desired_revision c" "rt_status r' = R_APPLYING"
    "route_of d (rt_project_id (rtc_route c)) = Some r'"
    by (rule live_route_rows [OF ok live]) (rule that, assumption+)
  have [simp]: "r' = r" using r r'(5) by simp
  have "route_pair_ok (f r) (g j)"
    using routes_okD(6) [OF ok r'(1) j(1)] j(3) r'(2) f(2) g(2) agrees by (simp add: route_pair_ok_def)
  then show ?thesis
    using r' j f g rows(1) rows(2) [OF routes_okD(5) [OF ok j(1)]] apart
    by (intro route_move_ok [OF ok _ _ j(1)]) simp_all
qed

lemma applying_route:
  assumes "routes_ok d" "route_claim_live c now d"
    and "route_of d (rt_project_id (rtc_route c)) = Some r"
  shows "r \<in> set (t_routes d)" "rt_project_id r = rt_project_id (rtc_route c)" "rt_status r = R_APPLYING"
    "rt_desired_revision r = rtc_desired_revision c" "route_checks r"
    "\<And>s. s \<in> set (t_routes d) \<Longrightarrow> s \<noteq> r \<Longrightarrow> names_apart r s"
proof -
  obtain j r' where "j \<in> set (t_route_jobs d)" "rj_mine c now j" "rj_project_id j = rt_project_id (rtc_route c)"
    and r': "r' \<in> set (t_routes d)" "rt_project_id r' = rt_project_id (rtc_route c)"
    "rt_desired_revision r' = rtc_desired_revision c" "rt_status r' = R_APPLYING"
    "route_of d (rt_project_id (rtc_route c)) = Some r'"
    by (rule live_route_rows [OF assms(1,2)]) (rule that, assumption+)
  have "r' = r" using assms(3) r'(5) by simp
  with r' show "r \<in> set (t_routes d)" "rt_project_id r = rt_project_id (rtc_route c)"
    "rt_status r = R_APPLYING" "rt_desired_revision r = rtc_desired_revision c" by simp_all
  then show "route_checks r" "\<And>s. s \<in> set (t_routes d) \<Longrightarrow> s \<noteq> r \<Longrightarrow> names_apart r s"
    using routes_okD(4,7) [OF assms(1)] by blast+
qed

lemma complete_route_live:
  assumes ok: "routes_ok d" and lives: "route_claim_live c t1 d" "route_claim_live c t2 d"
    and live: "route_claim_live c t3 d"
    and r: "route_of d (rt_project_id (rtc_route c)) = Some r"
  shows "complete_route c t1 t2 t3 d = Inr (rt_applied r t2 r,
      route_move (rt_project_id (rtc_route c)) (rt_applied r t2) (rj_finished RJ_SUCCEEDED None t3) d)"
    and "routes_ok (route_move (rt_project_id (rtc_route c)) (rt_applied r t2)
      (rj_finished RJ_SUCCEEDED None t3) d)"
proof -
  note R = applying_route [OF ok live r]
  let ?f = "rt_applied r t2"
  have f: "rt_project_id (?f r) = rt_project_id r" "rt_desired_revision (?f r) = rt_desired_revision r"
    by (simp_all add: rt_applied_def)
  have checks: "route_checks (?f r)" using R(5) by (auto simp: route_checks_def rt_applied_def not_enabled)
  have apart: "names_apart (?f r) s" if "s \<in> set (t_routes d)" "s \<noteq> r" for s
    using R(6) [OF that] by (auto simp: names_apart_def rt_applied_def)
  have "tx_bind (update_claimed_route c ?f t2)
      (\<lambda>x. tx_seq (update_claimed_job c (rj_finished RJ_SUCCEEDED None t3) t3) (tx_ret x)) d =
    Inr (?f r, route_move (rt_project_id (rtc_route c)) ?f (rj_finished RJ_SUCCEEDED None t3) d)"
    by (rule route_claim_ends [where f = ?f, OF ok lives(2) live r f(1) checks apart])
  then show "complete_route c t1 t2 t3 d = Inr (rt_applied r t2 r,
      route_move (rt_project_id (rtc_route c)) (rt_applied r t2) (rj_finished RJ_SUCCEEDED None t3) d)"
    by (simp add: complete_route_def lock_then [OF ok lives(1)] read_then require_then r finish_route_job_def)
  show "routes_ok (route_move (rt_project_id (rtc_route c)) ?f (rj_finished RJ_SUCCEEDED None t3) d)"
  proof (rule end_claim_ok [where f = ?f, OF ok live r f _ _ checks _ _ apart])
    show "rj_row_ok j \<Longrightarrow> rj_row_ok (rj_finished RJ_SUCCEEDED None t3 j)" for j
      by (simp add: rj_row_ok_def rj_finished_def)
  qed (simp_all add: rj_finished_def rt_applied_def)
qed

text \<open>Rescheduling and failing.\<close>

lemma stop_route_live:
  assumes ok: "routes_ok d" and lives: "route_claim_live c t1 d" "route_claim_live c t2 d"
    and live: "route_claim_live c t3 d"
    and r: "route_of d (rt_project_id (rtc_route c)) = Some r"
    and st: "st \<noteq> R_ACTIVE" "st \<noteq> R_INACTIVE"
    and g: "\<And>j. rj_project_id (g j) = rj_project_id j" "\<And>j. rj_desired_revision (g j) = rj_desired_revision j"
      "\<And>j. rj_row_ok j \<Longrightarrow> rj_row_ok (g j)" "\<And>j. route_agrees (rj_state (g j)) st"
  shows "tx_seq (route_lock_claim c t1) (tx_bind (update_claimed_route c (rt_stopped st code t2) t2)
       (\<lambda>r. tx_seq (update_claimed_job c g t3) (tx_ret r))) d = Inr (rt_stopped st code t2 r,
      route_move (rt_project_id (rtc_route c)) (rt_stopped st code t2) g d)"
    and "routes_ok (route_move (rt_project_id (rtc_route c)) (rt_stopped st code t2) g d)"
proof -
  note R = applying_route [OF ok live r]
  let ?f = "rt_stopped st code t2"
  have f: "rt_project_id (?f r) = rt_project_id r" "rt_desired_revision (?f r) = rt_desired_revision r"
    by (simp_all add: rt_stopped_def)
  have checks: "route_checks (?f r)" using R(5) st by (auto simp: route_checks_def rt_stopped_def split: option.splits)
  have apart: "names_apart (?f r) s" if "s \<in> set (t_routes d)" "s \<noteq> r" for s
    using R(6) [OF that] by (auto simp: names_apart_def rt_stopped_def)
  show "tx_seq (route_lock_claim c t1) (tx_bind (update_claimed_route c (rt_stopped st code t2) t2)
       (\<lambda>r. tx_seq (update_claimed_job c g t3) (tx_ret r))) d = Inr (rt_stopped st code t2 r,
      route_move (rt_project_id (rtc_route c)) (rt_stopped st code t2) g d)"
    unfolding lock_then [OF ok lives(1)]
    by (rule route_claim_ends [where f = ?f, OF ok lives(2) live r f(1) checks apart])
  show "routes_ok (route_move (rt_project_id (rtc_route c)) ?f g d)"
    by (rule end_claim_ok [where f = ?f, OF ok live r f g(1,2) checks g(3) _ apart])
      (simp_all add: g(4) rt_stopped_def)
qed

text \<open>Without a live claim at each of its statements every method of a claim is refused.\<close>

definition route_live3 :: "route_claim \<Rightarrow> time \<Rightarrow> time \<Rightarrow> time \<Rightarrow> db \<Rightarrow> bool" where
  "route_live3 c t1 t2 t3 d =
     (route_claim_live c t1 d \<and> route_claim_live c t2 d \<and> route_claim_live c t3 d)"

lemma route_live3_later:
  "route_claim_live c t3 d \<Longrightarrow> t1 \<le> t3 \<Longrightarrow> t2 \<le> t3 \<Longrightarrow> route_live3 c t1 t2 t3 d"
  by (auto simp: route_live3_def intro: route_live_earlier)

lemma route_claim_lost_shape:
  assumes ok: "routes_ok d" and lost: "\<not> route_live3 c t1 t2 t3 d"
    and f: "\<And>r. route_of d (rt_project_id (rtc_route c)) = Some r \<Longrightarrow> route_claim_live c t2 d \<Longrightarrow>
      rt_project_id (f r) = rt_project_id r \<and> route_checks (f r) \<and>
      (\<forall>s\<in>set (t_routes d). s \<noteq> r \<longrightarrow> names_apart (f r) s)"
  shows "tx_seq (route_lock_claim c t1)
      (tx_bind (update_claimed_route c f t2) (\<lambda>r. tx_seq (update_claimed_job c g t3) (tx_ret r))) d =
    Inl PublicRouteClaimLostError"
proof (cases "route_claim_live c t1 d")
  case False
  then show ?thesis by (simp add: route_lock_claim_eq [OF ok] tx_seq_def tx_bind_def)
next
  case t1: True
  show ?thesis
  proof (cases "route_claim_live c t2 d")
    case False
    have "\<not> route_mine c t2 d s" for s
      using False by (auto simp: route_mine_def exists_row_iff route_claim_live_def rj_mine_def)
    then have "update_claimed_route c f t2 d = Inl PublicRouteClaimLostError"
      by (simp add: update_claimed_route_def update_route_def tx_bind_def tx_require_def
          returning_None_iff [THEN iffD2])
    then show ?thesis unfolding lock_then [OF ok t1] by (simp add: tx_bind_def)
  next
    case True
    obtain j r where r: "route_of d (rt_project_id (rtc_route c)) = Some r"
      by (rule live_route_rows [OF ok True]) (rule that, assumption)
    from f [OF this True] have F: "rt_project_id (f r) = rt_project_id r" "route_checks (f r)"
      "\<And>s. s \<in> set (t_routes d) \<Longrightarrow> s \<noteq> r \<Longrightarrow> names_apart (f r) s" by blast+
    have route: "update_claimed_route c f t2 d = Inr (f r, d\<lparr>t_routes :=
        upd (\<lambda>s. rt_project_id s = rt_project_id (rtc_route c)) f (t_routes d)\<rparr>)"
      by (rule update_claimed_route_eq [where f = f, OF ok True r F])
    have "\<not> route_claim_live c t3 d" using lost t1 True by (simp add: route_live3_def)
    then have "filter (rj_mine c t3) (t_route_jobs d) = []"
      by (auto simp: route_claim_live_def filter_empty_conv)
    then have "rowcount (rj_mine c t3) (t_route_jobs d) = 0" by (simp add: rowcount_def)
    then show ?thesis
      unfolding lock_then [OF ok t1] by (simp add: tx_bind_def tx_seq_def route update_claimed_job_def)
  qed
qed

lemma applied_keeps:
  assumes "routes_ok d" "route_claim_live c now d" "route_of d (rt_project_id (rtc_route c)) = Some r"
  shows "rt_project_id (rt_applied r t r) = rt_project_id r \<and> route_checks (rt_applied r t r) \<and>
      (\<forall>s\<in>set (t_routes d). s \<noteq> r \<longrightarrow> names_apart (rt_applied r t r) s)"
proof -
  note R = applying_route [OF assms]
  have "route_checks (rt_applied r t r)" using R(5) by (auto simp: route_checks_def rt_applied_def not_enabled)
  moreover have "names_apart (rt_applied r t r) s" if "s \<in> set (t_routes d)" "s \<noteq> r" for s
    using R(6) [OF that] by (auto simp: names_apart_def rt_applied_def)
  ultimately show ?thesis by (simp add: rt_applied_def)
qed

lemma stopped_keeps:
  assumes "routes_ok d" "route_claim_live c now d" "route_of d (rt_project_id (rtc_route c)) = Some r"
    and "st \<noteq> R_ACTIVE" "st \<noteq> R_INACTIVE"
  shows "rt_project_id (rt_stopped st code t r) = rt_project_id r \<and> route_checks (rt_stopped st code t r) \<and>
      (\<forall>s\<in>set (t_routes d). s \<noteq> r \<longrightarrow> names_apart (rt_stopped st code t r) s)"
proof -
  note R = applying_route [OF assms(1-3)]
  have "route_checks (rt_stopped st code t r)"
    using R(5) assms(4,5) by (auto simp: route_checks_def rt_stopped_def split: option.splits)
  moreover have "names_apart (rt_stopped st code t r) s" if "s \<in> set (t_routes d)" "s \<noteq> r" for s
    using R(6) [OF that] by (auto simp: names_apart_def rt_stopped_def)
  ultimately show ?thesis by (simp add: rt_stopped_def)
qed

lemma route_claim_lost:
  assumes ok: "routes_ok d" and lost: "\<not> route_live3 c t1 t2 t3 d"
  shows "complete_route c t1 t2 t3 d = Inl PublicRouteClaimLostError"
    "reschedule_route c at code t1 t2 t3 d = Inl PublicRouteClaimLostError"
    "fail_route c code b t1 t2 t3 d = Inl PublicRouteClaimLostError"
proof -
  show "reschedule_route c at code t1 t2 t3 d = Inl PublicRouteClaimLostError"
    unfolding reschedule_route_def by (intro route_claim_lost_shape [OF ok lost] stopped_keeps [OF ok]) simp_all
  show "fail_route c code b t1 t2 t3 d = Inl PublicRouteClaimLostError"
    unfolding fail_route_def finish_route_job_def
    by (intro route_claim_lost_shape [OF ok lost] stopped_keeps [OF ok]) simp_all
  show "complete_route c t1 t2 t3 d = Inl PublicRouteClaimLostError"
  proof (cases "route_claim_live c t1 d")
    case False
    then show ?thesis by (simp add: complete_route_def route_lock_claim_eq [OF ok] tx_seq_def tx_bind_def)
  next
    case True
    obtain j r where r: "route_of d (rt_project_id (rtc_route c)) = Some r"
      by (rule live_route_rows [OF ok True]) (rule that, assumption)
    have "tx_seq (route_lock_claim c t1) (tx_bind (update_claimed_route c (rt_applied r t2) t2)
        (\<lambda>x. tx_seq (update_claimed_job c (rj_finished RJ_SUCCEEDED None t3) t3) (tx_ret x))) d =
      Inl PublicRouteClaimLostError"
      by (rule route_claim_lost_shape [OF ok lost]) (use r applied_keeps [OF ok] in auto)
    then show ?thesis
      by (simp add: complete_route_def lock_then [OF ok True] read_then require_then r finish_route_job_def)
  qed
qed

lemma renew_route_lost: "\<not> route_claim_live c t d \<Longrightarrow> renew_route c l t d = Inl PublicRouteClaimLostError"
  by (auto simp: renew_route_def Let_def returning_def fetch_None_iff route_claim_live_def
      split: option.splits dest: fetch_SomeD)

lemma renew_route_live:
  assumes ok: "routes_ok d" and live: "route_claim_live c now d" and l: "0 < l"
  shows "renew_route c l now d = Inr (now + l,
      route_move (rt_project_id (rtc_route c)) (\<lambda>r. r) (rj_extend (now + l) now) d)"
    and "routes_ok (route_move (rt_project_id (rtc_route c)) (\<lambda>r. r) (rj_extend (now + l) now) d)"
proof -
  let ?i = "rt_project_id (rtc_route c)"
  obtain j r where j: "j \<in> set (t_route_jobs d)" "rj_mine c now j" "rj_project_id j = ?i"
    and r: "r \<in> set (t_routes d)" "rt_project_id r = ?i"
    "rt_desired_revision r = rtc_desired_revision c" "rt_status r = R_APPLYING" "route_of d ?i = Some r"
    by (rule live_route_rows [OF ok live]) (rule that, assumption+)
  let ?P = "\<lambda>j. rj_mine c now j \<and> exists_row (\<lambda>r. rt_project_id r = rj_project_id j \<and>
    rt_desired_revision r = rj_desired_revision j) (t_routes d)"
  have P: "?P k = (rj_project_id k = ?i)" if k: "k \<in> set (t_route_jobs d)" for k
  proof
    assume "rj_project_id k = ?i"
    then have "k = j" using same_key_same_row [OF routes_okD(2) [OF ok] k j(1)] j(3) by simp
    then show "?P k" using j r by (auto simp: exists_row_iff rj_mine_def)
  qed (simp add: rj_mine_def)
  have "fetch ?P (t_route_jobs d) = fetch (\<lambda>k. rj_project_id k = ?i) (t_route_jobs d)"
    by (rule fetch_cong) (rule P)
  then have "fetch ?P (t_route_jobs d) = Some j"
    using fetch_key [OF routes_okD(2) [OF ok] j(1)] j(3) by simp
  moreover have "upd ?P (rj_extend (now + l) now) (t_route_jobs d) =
      upd (\<lambda>k. rj_project_id k = ?i) (rj_extend (now + l) now) (t_route_jobs d)"
    by (rule upd_cong) (rule P)
  ultimately show "renew_route c l now d = Inr (now + l, route_move ?i (\<lambda>r. r) (rj_extend (now + l) now) d)"
    by (simp add: renew_route_def Let_def returning_def route_move_def)
  show "routes_ok (route_move ?i (\<lambda>r. r) (rj_extend (now + l) now) d)"
  proof (rule route_move_ok [OF ok r(1,2) j(1,3)])
    have pair: "route_pair_ok r j" using routes_okD(6) [OF ok r(1) j(1)] j(3) r(2) by simp
    then show "route_pair_ok r (rj_extend (now + l) now j)" by (simp add: route_pair_ok_def rj_extend_def)
    show "rj_row_ok (rj_extend (now + l) now j)"
      using routes_okD(5) [OF ok j(1)] j(2) by (auto simp: rj_row_ok_def rj_extend_def rj_mine_def rj_held_def)
  qed (use r j(3) routes_okD(4,7) [OF ok] in auto)
qed

section \<open>Claiming and waking\<close>

abbreviation rj_order :: "route_job \<Rightarrow> time \<times> time \<times> uuid" where
  "rj_order j \<equiv> (rj_available_at j, rj_created_at j, rj_project_id j)"

lemma route_claim_next_live:
  assumes ok: "routes_ok d" and t: "t2 < t1 + l"
    and run: "route_claim_next w l locked t t1 t2 d = x"
  obtains "\<forall>j\<in>set (t_route_jobs d). \<not> rj_candidate t1 locked d j" "x = Inr (None, d)"
  | j r where "j \<in> set (t_route_jobs d)" "rj_candidate t1 locked d j"
    "\<forall>k\<in>set (t_route_jobs d). rj_candidate t1 locked d k \<longrightarrow> rj_order j \<le> rj_order k"
    "r \<in> set (t_routes d)" "rt_project_id r = rj_project_id j"
    "x = Inr (Some \<lparr>rtc_route = rt_claimed t2 r, rtc_token = t, rtc_worker_id = w,
           rtc_desired_revision = rt_desired_revision r, rtc_attempts = rj_attempts j + 1,
           rtc_lease_expires_at = t1 + l\<rparr>,
         route_move (rj_project_id j) (rt_claimed t2) (rj_take w t (t1 + l) t1) d)"
    "routes_ok (route_move (rj_project_id j) (rt_claimed t2) (rj_take w t (t1 + l) t1) d)"
proof (cases "claim_row (rj_candidate t1 locked d) rj_order rj_project_id
      (rj_take w t (t1 + l) t1) (t_route_jobs d)")
  case None
  then have "\<forall>j\<in>set (t_route_jobs d). \<not> rj_candidate t1 locked d j" by (simp only: claim_row_None_iff)
  moreover have "x = Inr (None, d)" using run None by (simp add: route_claim_next_def)
  ultimately show ?thesis by (rule that(1))
next
  case (Some jj)
  then obtain job jobs where claim: "claim_row (rj_candidate t1 locked d) rj_order rj_project_id
      (rj_take w t (t1 + l) t1) (t_route_jobs d) = Some (job, jobs)" by (cases jj) auto
  obtain j where j: "j \<in> set (t_route_jobs d)" "rj_candidate t1 locked d j"
    "\<forall>k\<in>set (t_route_jobs d). rj_candidate t1 locked d k \<longrightarrow> rj_order j \<le> rj_order k"
    "job = rj_take w t (t1 + l) t1 j"
    "jobs = upd (\<lambda>k. rj_project_id k = rj_project_id j) (rj_take w t (t1 + l) t1) (t_route_jobs d)"
    by (rule claim_row_SomeD [OF claim routes_okD(2) [OF ok]]) (rule that, assumption+)
  obtain r where r: "r \<in> set (t_routes d)" "rt_project_id r = rj_project_id j"
    by (rule route_of_job [OF ok j(1)])
  have pair: "route_pair_ok r j" by (rule routes_okD(6) [OF ok r(1) j(1)]) (simp add: r(2))
  let ?d = "d\<lparr>t_route_jobs := jobs\<rparr>"
  let ?P = "\<lambda>r. rt_project_id r = rj_project_id job \<and> rt_desired_revision r = rj_desired_revision job \<and>
      exists_row (\<lambda>j. rj_project_id j = rt_project_id r \<and>
        rj_desired_revision j = rt_desired_revision r \<and> rj_held w t t2 j) jobs"
  have taken: "job \<in> set jobs" "rj_held w t t2 job" "rj_project_id job = rj_project_id j"
    "rj_desired_revision job = rt_desired_revision r"
    using j(1,4,5) rj.held_take [OF t] pair by (auto simp: set_upd route_pair_ok_def rj_take_def)
  have P: "?P s = (rt_project_id s = rj_project_id j)" if s: "s \<in> set (t_routes d)" for s
  proof
    assume same: "rt_project_id s = rj_project_id j"
    then have "s = r" using same_key_same_row [OF routes_okD(1) [OF ok] s r(1)] r(2) by simp
    then show "?P s" using taken r(2) by (auto simp: exists_row_iff)
  qed (simp add: taken)
  have checks: "route_checks (rt_claimed t2 r)"
    using routes_okD(4) [OF ok r(1)] by (auto simp: route_checks_def rt_claimed_def split: option.splits)
  have apart: "names_apart (rt_claimed t2 r) s" if "s \<in> set (t_routes d)" "s \<noteq> r" for s
    using routes_okD(7) [OF ok r(1) that(1)] that(2) by (auto simp: names_apart_def rt_claimed_def)
  have "fetch ?P (t_routes d) = fetch (\<lambda>s. rt_project_id s = rj_project_id j) (t_routes d)"
    by (rule fetch_cong) (rule P)
  then have found: "fetch ?P (t_routes d) = Some r"
    using fetch_key [OF routes_okD(1) [OF ok] r(1)] r(2) by simp
  have upd: "upd ?P (rt_claimed t2) (t_routes d) =
      upd (\<lambda>s. rt_project_id s = rj_project_id j) (rt_claimed t2) (t_routes d)"
    by (rule upd_cong) (rule P)
  have clash: "\<not> route_clash (rt_claimed t2 r) (t_routes d)"
    by (rule no_clash [OF ok r(1) _ apart]) (simp add: rt_claimed_def)
  have "x = Inr (Some \<lparr>rtc_route = rt_claimed t2 r, rtc_token = t, rtc_worker_id = w,
           rtc_desired_revision = rt_desired_revision r, rtc_attempts = rj_attempts j + 1,
           rtc_lease_expires_at = t1 + l\<rparr>,
         route_move (rj_project_id j) (rt_claimed t2) (rj_take w t (t1 + l) t1) d)"
    unfolding run [symmetric]
    using found upd checks clash claim taken(4)
    by (simp add: route_claim_next_def tx_seq_def tx_bind_def update_route_def returning_def
        tx_require_def tx_ret_def route_move_def j(4,5) rj_take_def rt_claimed_def [abs_def])
  moreover have "routes_ok (route_move (rj_project_id j) (rt_claimed t2) (rj_take w t (t1 + l) t1) d)"
  proof (rule route_move_ok [OF ok r(1,2) j(1) refl])
    show "rj_row_ok (rj_take w t (t1 + l) t1 j)"
      using routes_okD(5) [OF ok j(1)] by (simp add: rj_row_ok_def rj_take_def)
    show "route_pair_ok (rt_claimed t2 r) (rj_take w t (t1 + l) t1 j)"
      using pair by (simp add: route_pair_ok_def rt_claimed_def rj_take_def)
  qed (use checks apart r(2) in \<open>simp_all add: rt_claimed_def\<close>)
  ultimately show ?thesis by (rule that(2) [OF j(1-3) r])
qed

section \<open>Changing the desired state\<close>

definition hostname_free :: "uuid \<Rightarrow> string \<Rightarrow> db \<Rightarrow> bool" where
  "hostname_free i h d =
     (\<forall>s\<in>set (t_routes d). rt_project_id s \<noteq> i \<longrightarrow> rt_hostname s \<noteq> h \<and> rt_applied_hostname s \<noteq> Some h)"

lemma assert_hostname_available_eq:
  "assert_hostname_available i h d =
     (if hostname_free i h d then Inr ((), d) else Inl PublicRouteConflictError)"
  by (auto simp: assert_hostname_available_def hostname_free_def exists_row_iff tx_raise_if_def)

lemma route_ofD: "route_of d i = Some r \<Longrightarrow> r \<in> set (t_routes d) \<and> rt_project_id r = i"
  by (auto dest: fetch_SomeD)

lemma upsert_route_job_eq:
  assumes ok: "routes_ok d" and r: "route_of d i = Some r" and jobs: "t_route_jobs e = t_route_jobs d"
  shows "upsert_route_job i revision now e =
    Inr ((), e\<lparr>t_route_jobs := upd (\<lambda>j. rj_project_id j = i) (rj_reset revision now) (t_route_jobs e)\<rparr>)"
proof -
  from route_ofD [OF r] obtain j where "j \<in> set (t_route_jobs d)" "rj_project_id j = i"
    using job_of_route [OF ok] by metis
  then have "exists_row (\<lambda>j. rj_project_id j = i) (t_route_jobs e)" by (auto simp: exists_row_iff jobs)
  then show ?thesis by (simp add: upsert_route_job_def)
qed

lemma replace_route_eq:
  assumes ok: "routes_ok d" and r: "route_of d i = Some r"
    and f: "rt_project_id (f r) = i" and checks: "route_checks (f r)"
    and apart: "\<And>s. s \<in> set (t_routes d) \<Longrightarrow> s \<noteq> r \<Longrightarrow> names_apart (f r) s"
  shows "replace_route i f revision now d = Inr (f r, route_move i f (rj_reset revision now) d)"
proof -
  note R = route_ofD [OF r]
  have "update_route (\<lambda>r. rt_project_id r = i) f d =
      Inr (Some (f r), d\<lparr>t_routes := upd (\<lambda>s. rt_project_id s = i) f (t_routes d)\<rparr>)"
    by (rule update_route_at [where f = f, OF ok conjunct1 [OF R] conjunct2 [OF R] refl f checks apart])
  then show ?thesis
    by (simp add: replace_route_def tx_bind_def tx_seq_def upsert_route_job_eq [OF ok r]
        tx_require_def route_move_def)
qed

lemma replace_route_ok:
  assumes ok: "routes_ok d" and r: "route_of d i = Some r"
    and f: "rt_project_id (f r) = i" "rt_desired_revision (f r) = revision" "rt_status (f r) = R_PENDING"
    and checks: "route_checks (f r)"
    and apart: "\<And>s. s \<in> set (t_routes d) \<Longrightarrow> s \<noteq> r \<Longrightarrow> names_apart (f r) s"
  shows "routes_ok (route_move i f (rj_reset revision now) d)"
proof -
  note R = conjunct1 [OF route_ofD [OF r]] conjunct2 [OF route_ofD [OF r]]
  obtain j where j: "j \<in> set (t_route_jobs d)" "rj_project_id j = i"
    using job_of_route [OF ok R(1)] R(2) by metis
  show ?thesis
  proof (rule route_move_ok [where f = f, OF ok R j f(1) _ checks _ _ apart])
    show "rj_row_ok (rj_reset revision now j)" by (simp add: rj_row_ok_def rj_reset_def)
    show "route_pair_ok (f r) (rj_reset revision now j)" by (simp add: route_pair_ok_def rj_reset_def f(2,3))
  qed (simp_all add: rj_reset_def j(2))
qed

lemma checked_enabled:
  "route_checks (rt_enable s h n now r) \<longleftrightarrow>
     subdomain_matches s \<and> \<not> double_dash s \<and> h = map lower_char h \<and> 0 < n \<and>
     (case rt_applied_revision r of None \<Rightarrow> rt_applied_hostname r = None | Some k \<Rightarrow> 0 < k \<and> k \<le> n)"
  by (cases "rt_applied_revision r") (auto simp: route_checks_def rt_enable_def)

lemma checked_disabled:
  "route_checks r \<Longrightarrow> rt_desired_revision r \<le> n \<Longrightarrow> route_checks (rt_disable n now r)"
  by (auto simp: route_checks_def rt_disable_def split: option.splits)

lemma enabled_apart:
  assumes ok: "routes_ok d" and r: "route_of d i = Some r" and free: "hostname_free i h d"
    and s: "s \<in> set (t_routes d)" "s \<noteq> r"
  shows "names_apart (rt_enable sub h n now r) s"
proof -
  note R = route_ofD [OF r]
  have "rt_project_id s \<noteq> i"
    using same_key_same_row [OF routes_okD(1) [OF ok] s(1) conjunct1 [OF R]] R s(2) by auto
  moreover have "names_apart r s" by (rule routes_okD(7) [OF ok]) (use R s in auto)
  ultimately show ?thesis using free s(1) by (auto simp: names_apart_def rt_enable_def hostname_free_def)
qed

lemma disabled_apart:
  assumes ok: "routes_ok d" and r: "route_of d i = Some r" and s: "s \<in> set (t_routes d)" "s \<noteq> r"
  shows "names_apart (rt_disable n now r) s"
proof -
  have "names_apart r s" by (rule routes_okD(7) [OF ok]) (use route_ofD [OF r] s in auto)
  then show ?thesis by (simp add: names_apart_def rt_disable_def)
qed

text \<open>A new route comes with its job.\<close>

definition route_add :: "public_route \<Rightarrow> time \<Rightarrow> db \<Rightarrow> db" where
  "route_add r now d =
     d\<lparr>t_routes := t_routes d @ [r],
       t_route_jobs := t_route_jobs d @ [new_route_job (rt_project_id r) (rt_desired_revision r) now]\<rparr>"

lemma route_add_ok:
  assumes ok: "routes_ok d" and none: "route_of d i = None" and checks: "route_checks (new_route i s h now)"
    and free: "hostname_free i h d"
  shows "routes_ok (route_add (new_route i s h now) now d)"
proof -
  let ?r = "new_route i s h now"
  note D = routes_okD [OF ok]
  have fresh: "i \<notin> rt_project_id ` set (t_routes d)" using none by (auto simp: fetch_None_iff)
  then have fresh': "i \<notin> rj_project_id ` set (t_route_jobs d)" using D(3) by simp
  have id [simp]: "rt_project_id ?r = i" "rt_desired_revision ?r = 1" "rt_applied_hostname ?r = None"
    "rt_hostname ?r = h" "rj_project_id (new_route_job i 1 now) = i"
    by (simp_all add: new_route_def new_route_job_def)
  have "route_keys_ok (route_add ?r now d)"
    using D(1-3) fresh fresh' by (simp add: route_keys_ok_def route_add_def)
  moreover have "\<forall>a\<in>set (t_routes (route_add ?r now d)). route_checks a"
    using D(4) checks by (simp add: route_add_def)
  moreover have "\<forall>b\<in>set (t_route_jobs (route_add ?r now d)). rj_row_ok b"
    using D(5) by (simp add: route_add_def) (simp add: rj_row_ok_def new_route_job_def)
  moreover have "\<forall>a\<in>set (t_routes (route_add ?r now d)). \<forall>b\<in>set (t_route_jobs (route_add ?r now d)).
      rj_project_id b = rt_project_id a \<longrightarrow> route_pair_ok a b"
  proof -
    have "route_pair_ok ?r (new_route_job i 1 now)"
      by (simp add: route_pair_ok_def new_route_def new_route_job_def)
    then show ?thesis using D(6) fresh fresh' by (force simp: route_add_def)
  qed
  moreover have "\<forall>a\<in>set (t_routes (route_add ?r now d)). \<forall>b\<in>set (t_routes (route_add ?r now d)).
      a \<noteq> b \<longrightarrow> names_apart a b"
  proof -
    have "names_apart ?r a \<and> names_apart a ?r" if "a \<in> set (t_routes d)" for a
      using free fresh that by (auto simp: names_apart_def hostname_free_def)
    then show ?thesis using D(7) by (auto simp: route_add_def)
  qed
  ultimately show ?thesis unfolding routes_ok_def by blast
qed

text \<open>\<open>set_enabled\<close>: a new route, the route as it is, or a new revision of it.\<close>

definition next_revision :: "bool \<Rightarrow> public_route \<Rightarrow> int" where
  "next_revision unchanged r = (if unchanged then rt_desired_revision r else rt_desired_revision r + 1)"

definition settled_enabled :: "public_route \<Rightarrow> string \<Rightarrow> bool" where
  "settled_enabled r h = (rt_desired_state r = ENABLED \<and> rt_hostname r = h)"

lemma set_enabled_eq:
  assumes ok: "routes_ok d" and p: "project_of d i = Some p" "prj_status p \<noteq> P_DELETING"
    and free: "hostname_free i h d"
    and name: "subdomain_matches s" "\<not> double_dash s" "h = map lower_char h"
  shows "set_enabled i s h now d =
     (case route_of d i of
        None \<Rightarrow> Inr (new_route i s h now, route_add (new_route i s h now) now d)
      | Some r \<Rightarrow>
          if settled_enabled r h \<and> rt_status r \<in> {R_PENDING, R_APPLYING, R_ACTIVE} then Inr (r, d)
          else let n = next_revision (settled_enabled r h) r
            in Inr (rt_enable s h n now r, route_move i (rt_enable s h n now) (rj_reset n now) d))"
proof (cases "route_of d i")
  case None
  have checks: "route_checks (new_route i s h now)"
    using name by (simp add: route_checks_def new_route_def)
  have "\<not> route_clash (new_route i s h now) (t_routes d)"
    using free by (auto simp: route_clash_def exists_row_iff hostname_free_def new_route_def)
  moreover have "\<not> exists_row (\<lambda>r. rt_project_id r = i) (t_routes d)"
    using None by (auto simp: exists_row_iff fetch_None_iff)
  moreover have "exists_row (\<lambda>q. prj_id q = i) (t_projects d)"
    using fetch_SomeD [OF p(1)] by (auto simp: exists_row_iff)
  moreover have "\<not> exists_row (\<lambda>j. rj_project_id j = i) (t_route_jobs d)"
  proof -
    have "i \<notin> rt_project_id ` set (t_routes d)" using None by (auto simp: fetch_None_iff)
    then show ?thesis using routes_okD(3) [OF ok] by (auto simp: exists_row_iff)
  qed
  moreover have id: "rt_project_id (new_route i s h now) = i" "rt_desired_revision (new_route i s h now) = 1"
    by (simp_all add: new_route_def)
  ultimately show ?thesis
    using None p free checks
    by (simp add: set_enabled_def tx_seq_def tx_bind_def lock_project_mutation_def tx_raise_if_def
        tx_read_def assert_hostname_available_eq insert_route_def upsert_route_job_def tx_ret_def
        route_add_def)
next
  case (Some r)
  note R = route_ofD [OF Some]
  let ?n = "next_revision (settled_enabled r h) r"
  have base: "route_checks r" using R routes_okD(4) [OF ok] by blast
  have checks: "route_checks (rt_enable s h ?n now r)"
    using name base unfolding checked_enabled
    by (auto simp: route_checks_def next_revision_def split: option.splits)
  have "replace_route i (rt_enable s h ?n now) ?n now d =
      Inr (rt_enable s h ?n now r, route_move i (rt_enable s h ?n now) (rj_reset ?n now) d)"
    by (rule replace_route_eq [where f = "rt_enable s h ?n now", OF ok Some _ checks enabled_apart [OF ok Some free]])
      (simp add: rt_enable_def R)
  then show ?thesis
    using Some p free
    by (auto simp: set_enabled_def tx_seq_def tx_bind_def lock_project_mutation_def tx_raise_if_def
        tx_read_def assert_hostname_available_eq tx_ret_def Let_def next_revision_def settled_enabled_def)
qed

text \<open>The exceptions, in the order the code meets them.\<close>

lemma set_enabled_refused:
  "project_of d i = Some p \<Longrightarrow> prj_status p = P_DELETING \<Longrightarrow>
     set_enabled i s h now d = Inl PublicRouteProjectDeletingError"
  "project_of d i = Some p \<Longrightarrow> prj_status p \<noteq> P_DELETING \<Longrightarrow> \<not> hostname_free i h d \<Longrightarrow>
     set_enabled i s h now d = Inl PublicRouteConflictError"
  by (simp_all add: set_enabled_def tx_seq_def tx_bind_def lock_project_mutation_def tx_raise_if_def
        tx_read_def assert_hostname_available_eq)

text \<open>\<open>disable\<close> and \<open>disable_for_deletion\<close>.\<close>

lemma disable_current_eq:
  assumes ok: "routes_ok d" and r: "route_of d i = Some r"
  shows "disable_current i now r d =
     (if rt_desired_state r = DISABLED \<and> rt_status r \<in> {R_PENDING, R_APPLYING, R_INACTIVE} then Inr (r, d)
      else let n = next_revision (rt_desired_state r = DISABLED) r
        in Inr (rt_disable n now r, route_move i (rt_disable n now) (rj_reset n now) d))"
proof -
  note R = route_ofD [OF r]
  let ?n = "next_revision (rt_desired_state r = DISABLED) r"
  have base: "route_checks r" using R routes_okD(4) [OF ok] by blast
  have checks: "route_checks (rt_disable ?n now r)"
    by (rule checked_disabled [OF base]) (simp add: next_revision_def)
  have "replace_route i (rt_disable ?n now) ?n now d =
      Inr (rt_disable ?n now r, route_move i (rt_disable ?n now) (rj_reset ?n now) d)"
    by (rule replace_route_eq [where f = "rt_disable ?n now", OF ok r _ checks disabled_apart [OF ok r]])
      (simp add: rt_disable_def R)
  then show ?thesis
    by (auto simp: disable_current_def Let_def next_revision_def tx_ret_def)
qed

lemma desired_change_ok:
  assumes ok: "routes_ok d" and r: "route_of d i = Some r"
  shows "routes_ok (route_move i (rt_disable (next_revision b r) now) (rj_reset (next_revision b r) now) d)"
    and "\<lbrakk>hostname_free i h d; subdomain_matches s; \<not> double_dash s; h = map lower_char h\<rbrakk> \<Longrightarrow>
      routes_ok (route_move i (rt_enable s h (next_revision b r) now) (rj_reset (next_revision b r) now) d)"
proof -
  note R = route_ofD [OF r]
  have base: "route_checks r" using R routes_okD(4) [OF ok] by blast
  have checks: "route_checks (rt_disable (next_revision b r) now r)"
    by (rule checked_disabled [OF base]) (simp add: next_revision_def)
  show "routes_ok (route_move i (rt_disable (next_revision b r) now) (rj_reset (next_revision b r) now) d)"
    by (rule replace_route_ok [where f = "rt_disable (next_revision b r) now", OF ok r _ _ _ checks disabled_apart [OF ok r]])
      (simp_all add: rt_disable_def R)
  assume free: "hostname_free i h d" and name: "subdomain_matches s" "\<not> double_dash s" "h = map lower_char h"
  have checks': "route_checks (rt_enable s h (next_revision b r) now r)"
    using name base unfolding checked_enabled
    by (auto simp: route_checks_def next_revision_def split: option.splits)
  show "routes_ok (route_move i (rt_enable s h (next_revision b r) now) (rj_reset (next_revision b r) now) d)"
    by (rule replace_route_ok [where f = "rt_enable s h (next_revision b r) now", OF ok r _ _ _ checks'
        enabled_apart [OF ok r free]]) (simp_all add: rt_enable_def R)
qed

end
