(* ===== verification/Route_Service.thy ===== *)
theory Route_Service
  imports Route_Invariants
begin

text \<open>
  \<open>public_routes/service.py\<close>, the request schema of \<open>public_routes/schemas.py\<close> and the
  canonical hostnames of \<open>config.py\<close>: which subdomains a project may ask for and how the
  repository's refusals are answered.
\<close>

section \<open>Names\<close>

text \<open>\<open>rstrip(".")\<close>\<close>

definition rstrip_dots :: "string \<Rightarrow> string" where
  "rstrip_dots s = rev (dropWhile (\<lambda>c. c = CHR ''.'') (rev s))"

text \<open>\<open>DNS_LABEL\<close> is the pattern of a subdomain.  \<open>_hostname\<close> of the configuration.\<close>

definition canonical_hostname :: "string \<Rightarrow> string \<Rightarrow> exn + string" where
  "canonical_hostname name value =
     (let hostname = rstrip_dots (map lower_char (strip value)) in
      if 253 < length hostname \<or> CHR ''.'' \<notin> set hostname
        then Inl (ValueError (name @ '' must be a canonical hostname''))
      else if \<not> list_all subdomain_matches (split_on CHR ''.'' hostname)
        then Inl (ValueError (name @ '' must be a canonical hostname''))
      else Inr hostname)"

definition is_ascii :: "char \<Rightarrow> bool" where
  "is_ascii c = (of_char c < (128 :: nat))"

definition normalize_subdomain :: "string \<Rightarrow> string" where
  "normalize_subdomain value = map lower_char (strip value)"

definition validate_subdomain :: "string \<Rightarrow> exn + string" where
  "validate_subdomain value =
     (if \<not> list_all is_ascii value \<or> \<not> subdomain_matches value
        then Inl (ValueError ''must be a lowercase ASCII DNS label'')
      else if double_dash value
        then Inl (ValueError ''must not contain consecutive separators'')
      else Inr value)"

text \<open>The whole field: normalised, of 1 to 63 characters, validated.\<close>

definition route_update :: "string \<Rightarrow> exn + string" where
  "route_update value =
     (let s = normalize_subdomain value in
      if s = [] then Inl (ValueError ''string_too_short'')
      else if 63 < length s then Inl (ValueError ''string_too_long'')
      else validate_subdomain s)"

section \<open>The service\<close>

record route_service =
  rs_deployment_base_domain :: string
  rs_reserved_subdomains :: "string list"

definition route_not_found :: exn where
  "route_not_found =
     AppError 404 ''PUBLIC_ROUTE_NOT_FOUND'' ''The project does not have a public hostname''"

definition route_error :: "exn \<Rightarrow> exn" where
  "route_error e =
     (if e = PublicRouteNotFoundError then route_not_found
      else if e = PublicRouteProjectDeletingError then project_deleting
      else e)"

definition route_set_error :: "exn \<Rightarrow> exn" where
  "route_set_error e =
     (if e = PublicRouteConflictError
        then AppError 409 ''PUBLIC_HOSTNAME_CONFLICT''
               ''The requested public hostname is already reserved''
      else if e = PublicRouteProjectDeletingError then project_deleting
      else e)"

definition service_get_route :: "uuid \<Rightarrow> (db, public_route) tx" where
  "service_get_route i =
     tx_bind (service_get_project i) (\<lambda>_.
       tx_map_error (\<lambda>e. if e = PublicRouteNotFoundError then route_not_found else e) (get_route i))"

definition service_set_route ::
    "route_service \<Rightarrow> uuid \<Rightarrow> string \<Rightarrow> time \<Rightarrow> (db, public_route) tx" where
  "service_set_route S i subdomain now =
     tx_bind (service_get_project i) (\<lambda>_.
       tx_seq (tx_raise_if (subdomain \<in> set (rs_reserved_subdomains S))
                 (AppError 422 ''PUBLIC_SUBDOMAIN_RESERVED''
                    ''The requested public subdomain is reserved''))
        (let hostname = subdomain @ ''.'' @ rs_deployment_base_domain S in
         tx_seq (tx_raise_if (253 < length hostname)
                   (AppError 422 ''PUBLIC_HOSTNAME_TOO_LONG''
                      ''The requested public hostname is too long''))
           (tx_map_error route_set_error (set_enabled i subdomain hostname now))))"

definition service_disable_route :: "uuid \<Rightarrow> time \<Rightarrow> (db, public_route) tx" where
  "service_disable_route i now =
     tx_bind (service_get_project i) (\<lambda>_. tx_map_error route_error (disable_route i now))"

definition wake_pending_for_runtime :: "uuid \<Rightarrow> time \<Rightarrow> (db, unit) tx" where
  "wake_pending_for_runtime = wake_pending"

definition service_disable_for_deletion :: "uuid \<Rightarrow> time \<Rightarrow> (db, public_route option) tx" where
  "service_disable_for_deletion = disable_for_deletion"

definition service_deletion_is_applied :: "uuid \<Rightarrow> db \<Rightarrow> bool" where
  "service_deletion_is_applied = deletion_is_applied"

section \<open>Accepted names\<close>

lemma lower_not_upper: "is_upper c \<Longrightarrow> is_lower (lower_char c)"
proof -
  assume u: "is_upper c"
  then have "65 \<le> (of_char c :: nat)" "(of_char c :: nat) \<le> 90" by (simp_all add: is_upper_def in_range_def)
  then show ?thesis using u by (simp add: lower_char_def is_lower_def in_range_def)
qed

lemma lower_alnum: "alnum c \<or> c = CHR ''-'' \<or> c = CHR ''.'' \<Longrightarrow> lower_char c = c"
  by (auto simp: lower_char_def alnum_def is_upper_def is_lower_def is_digit_def in_range_def)

lemma ascii_alnum: "alnum c \<or> c = CHR ''-'' \<Longrightarrow> is_ascii c"
  by (auto simp: is_ascii_def alnum_def is_lower_def is_digit_def in_range_def)

lemma subdomain_matchesD:
  assumes "subdomain_matches s"
  shows "s \<noteq> []" "length s \<le> 63" "\<And>c. c \<in> set s \<Longrightarrow> alnum c \<or> c = CHR ''-''" "CHR ''.'' \<notin> set s"
proof -
  show all: "s \<noteq> []" "length s \<le> 63" "\<And>c. c \<in> set s \<Longrightarrow> alnum c \<or> c = CHR ''-''"
    using assms by (auto simp: subdomain_matches_def list_all_iff)
  show "CHR ''.'' \<notin> set s"
  proof
    assume "CHR ''.'' \<in> set s"
    from all(3) [OF this] show False
      by (simp add: alnum_def is_lower_def is_digit_def in_range_def)
  qed
qed

lemma route_update_Inr:
  "route_update value = Inr s \<longleftrightarrow>
     s = normalize_subdomain value \<and> subdomain_matches s \<and> \<not> double_dash s"
proof -
  have "list_all is_ascii t" if "subdomain_matches t" for t
    using subdomain_matchesD(3) [OF that] ascii_alnum by (auto simp: list_all_iff)
  moreover have "t \<noteq> [] \<and> \<not> 63 < length t" if "subdomain_matches t" for t
    using subdomain_matchesD(1,2) [OF that] by simp
  ultimately show ?thesis by (auto simp: route_update_def validate_subdomain_def Let_def)
qed

text \<open>Splitting at the dots and joining again.\<close>

lemma split_on_nonempty [simp]: "split_on c s \<noteq> []"
  by (cases s) (auto split: list.splits)

lemma split_on_label: "c \<notin> set w \<Longrightarrow> split_on c w = [w]"
  by (induction w) auto

lemma split_on_append: "c \<notin> set w \<Longrightarrow> split_on c (w @ c # s) = w # split_on c s"
  by (induction w) auto

lemma split_on_chars: "x \<in> set s \<Longrightarrow> x \<noteq> c \<Longrightarrow> \<exists>w\<in>set (split_on c s). x \<in> set w"
proof (induction s)
  case (Cons y ys)
  then show ?case by (cases "split_on c ys") (auto split: if_splits)
qed simp

definition hostname_matches :: "string \<Rightarrow> bool" where
  "hostname_matches s =
     (s \<noteq> [] \<and> length s \<le> 253 \<and> 2 \<le> length (split_on CHR ''.'' s) \<and>
      list_all subdomain_matches (split_on CHR ''.'' s))"

lemma hostname_lower:
  assumes "list_all subdomain_matches (split_on CHR ''.'' s)"
  shows "map lower_char s = s"
proof (rule map_idI)
  fix c assume c: "c \<in> set s"
  show "lower_char c = c"
  proof (cases "c = CHR ''.''")
    case False
    from split_on_chars [OF c this] obtain w where "w \<in> set (split_on CHR ''.'' s)" "c \<in> set w" by blast
    then have "alnum c \<or> c = CHR ''-''"
      using assms by (auto simp: list_all_iff dest: subdomain_matchesD(3))
    then show ?thesis using lower_alnum by blast
  qed (simp add: lower_alnum)
qed

lemma canonical_hostname_Inr:
  assumes "canonical_hostname name value = Inr h"
  shows "hostname_matches h" "map lower_char h = h"
proof -
  have h: "list_all subdomain_matches (split_on CHR ''.'' h)" "length h \<le> 253" "CHR ''.'' \<in> set h"
    using assms by (auto simp: canonical_hostname_def Let_def split: if_splits)
  from h(3) have "2 \<le> length (split_on CHR ''.'' h)"
  proof (induction h)
    case (Cons x xs)
    then show ?case by (cases "split_on CHR ''.'' xs") (auto simp: Suc_le_eq)
  qed simp
  with h show "hostname_matches h" by (auto simp: hostname_matches_def)
  show "map lower_char h = h" by (rule hostname_lower [OF h(1)])
qed

text \<open>The hostname of an accepted subdomain under a canonical base domain.\<close>

lemma public_hostname:
  assumes "subdomain_matches s" "hostname_matches base" "length (s @ ''.'' @ base) \<le> 253"
  shows "hostname_matches (s @ ''.'' @ base)" "map lower_char (s @ ''.'' @ base) = s @ ''.'' @ base"
proof -
  have split: "split_on CHR ''.'' (s @ CHR ''.'' # base) = s # split_on CHR ''.'' base"
    by (rule split_on_append) (rule subdomain_matchesD(4) [OF assms(1)])
  then show "hostname_matches (s @ ''.'' @ base)"
    using assms by (auto simp: hostname_matches_def Suc_le_eq)
  have "list_all subdomain_matches (split_on CHR ''.'' (s @ ''.'' @ base))"
    using assms(1,2) split by (simp add: hostname_matches_def)
  then show "map lower_char (s @ ''.'' @ base) = s @ ''.'' @ base" by (rule hostname_lower)
qed

end
