(* ===== verification/Edge_Config.thy ===== *)
theory Edge_Config
  imports Route_Service Worker_World
begin

text \<open>
  \<open>runtime/edge.py\<close>: the nginx configuration of the edge.  It is rendered from the routes,
  tested, switched in with a journal beside it, reloaded, probed and only then made final;
  a failure on the way puts the previous configuration back.  The configuration directory
  is part of the worker's state; Docker, the probe, the \<open>json\<close> module and the outcome of
  every file operation are parameters.
\<close>

section \<open>Rendering\<close>

record edge_route_target =
  et_project_id :: uuid
  et_hostname :: string
  et_gateway_alias :: string

record edge_route_change =
  ech_hostname :: string
  ech_enabled :: bool
  ech_previous_hostname :: "string option"

definition name_char :: "char \<Rightarrow> bool" where
  "name_char c = (is_upper c \<or> is_lower c \<or> is_digit c)"

text \<open>\<open>^[A-Za-z0-9][A-Za-z0-9_.-]{0,127}$\<close>\<close>

definition docker_name_matches :: "string \<Rightarrow> bool" where
  "docker_name_matches s =
     (s \<noteq> [] \<and> length s \<le> 128 \<and> name_char (hd s) \<and>
      list_all (\<lambda>c. name_char c \<or> c \<in> set ''_.-'') s)"

text \<open>\<open>"\n".join\<close>\<close>

fun join_lines :: "string list \<Rightarrow> string" where
  "join_lines [] = []"
| "join_lines [x] = x"
| "join_lines (x # xs) = x @ CHR 0x0A # join_lines xs"

definition MAX_ROUTES :: nat where "MAX_ROUTES = 1000"
definition MAX_CONFIG_BYTES :: nat where "MAX_CONFIG_BYTES = 1048576"

definition NO_ROUTES_CONFIG :: string where
  "NO_ROUTES_CONFIG = ''# No active public project routes.'' @ [CHR 0x0A]"

definition edge_error :: "string \<Rightarrow> exn" where "edge_error code = EdgeRuntimeError code False False"
definition edge_retryable :: "string \<Rightarrow> exn" where "edge_retryable code = EdgeRuntimeError code True False"
definition edge_uncertain :: "string \<Rightarrow> exn" where "edge_uncertain code = EdgeRuntimeError code False True"

definition edge_section :: "edge_route_target \<Rightarrow> string" where
  "edge_section r =
     (let upstream = ''hm_edge_p'' @ take 12 (uuid_hex (et_project_id r)) in
      join_lines
        [''upstream '' @ upstream @ '' {'',
         ''    zone '' @ upstream @ '' 64k;'',
         ''    resolver 127.0.0.11 valid=10s ipv6=off;'',
         ''    server '' @ et_gateway_alias r @ '':8080 resolve;'',
         ''}'',
         '''',
         ''server {'',
         ''    listen 80;'',
         ''    server_name '' @ et_hostname r @ '';'',
         '''',
         ''    location / {'',
         ''        proxy_pass http://'' @ upstream @ '';'',
         ''        proxy_http_version 1.1;'',
         ''        proxy_set_header Connection '' @ [CHR 0x22, CHR 0x22, CHR '';''],
         ''        proxy_set_header Host $host;'',
         ''        proxy_set_header X-Forwarded-For $remote_addr;'',
         ''        proxy_set_header X-Forwarded-Host $host;'',
         ''        proxy_set_header X-Forwarded-Proto $scheme;'',
         ''    }'',
         ''}'',
         ''''])"

fun edge_sections :: "string list \<Rightarrow> edge_route_target list \<Rightarrow> exn + string list" where
  "edge_sections hostnames [] = Inr []"
| "edge_sections hostnames (r # rs) =
     (if \<not> hostname_matches (et_hostname r) \<or> \<not> docker_name_matches (et_gateway_alias r) \<or>
         et_hostname r \<in> set hostnames
      then Inl (edge_error ''EDGE_ROUTE_SNAPSHOT_INVALID'')
      else (case edge_sections (et_hostname r # hostnames) rs of
              Inl e \<Rightarrow> Inl e | Inr sections \<Rightarrow> Inr (edge_section r # sections)))"

definition render_edge_routes :: "edge_route_target list \<Rightarrow> exn + string" where
  "render_edge_routes routes =
     (if MAX_ROUTES < length routes then Inl (edge_error ''EDGE_ROUTE_LIMIT_EXCEEDED'')
      else (case edge_sections [] (order_by et_hostname routes) of
         Inl e \<Rightarrow> Inl e
       | Inr sections \<Rightarrow>
           (let rendered = join_lines
              ((''# Generated by Heimdall Routing Worker. Do not edit.'' @ [CHR 0x0A]) # sections) in
            if MAX_CONFIG_BYTES < utf8_length rendered
            then Inl (edge_error ''EDGE_ROUTE_CONFIG_TOO_LARGE'') else Inr rendered)))"

section \<open>The manager's surroundings\<close>

type_synonym files = "string \<Rightarrow> string option"
type_synonym ('x, 'd) edge_state = "(files \<times> 'x) \<times> 'd"
type_synonym 's heartbeat = "('s, unit) act"
type_synonym 's runner = "string list \<Rightarrow> time \<Rightarrow> 's heartbeat option \<Rightarrow> bool \<Rightarrow> ('s, command_result) act"

text \<open>\<open>em_io_fails\<close> says whether the next file operation fails with an \<open>OSError\<close>;
  \<open>em_mkstemp\<close> is the random part of the name \<open>mkstemp\<close> ends its search with (all its names
  may be taken, which is an error); \<open>em_number_is\<close> compares a number literal that is
  not an integer with an integer.\<close>

record 's edge_manager =
  em_runner :: "'s runner"
  em_probe_management :: "string \<Rightarrow> 's heartbeat \<Rightarrow> ('s, unit) act"
  em_probe_routed :: "string \<Rightarrow> 's heartbeat \<Rightarrow> ('s, unit) act"
  em_probe_not_found :: "string \<Rightarrow> 's heartbeat \<Rightarrow> ('s, unit) act"
  em_config_root :: string
  em_config_root_is_directory :: bool
  em_management_hostname :: string
  em_docker_executable :: string
  em_nginx_image :: string
  em_edge_network_name :: string
  em_edge_container_name :: string
  em_command_timeout :: time
  em_loads :: "string \<Rightarrow> json option"
  em_dumps :: "json \<Rightarrow> string"
  em_number_is :: "string \<Rightarrow> int \<Rightarrow> bool"
  em_io_fails :: "'s \<Rightarrow> bool \<times> 's"
  em_mkstemp :: "'s \<Rightarrow> string \<times> 's"

definition edge_manager_init :: "'s edge_manager \<Rightarrow> exn + 's edge_manager" where
  "edge_manager_init M =
     (if \<not> hostname_matches (em_management_hostname M)
        then Inl (ValueError ''management hostname must be canonical'')
      else if \<not> docker_name_matches (em_edge_network_name M)
        then Inl (ValueError ''edge network name is invalid'')
      else if \<not> docker_name_matches (em_edge_container_name M)
        then Inl (ValueError ''edge container name is invalid'')
      else Inr M)"

abbreviation os_error :: exn where "os_error \<equiv> OtherError ''OSError''"

subsection \<open>Files\<close>

definition get_files :: "(('x, 'd) edge_state, files) act" where
  "get_files = (\<lambda>s. (Inr (fst (fst s)), s))"

definition file_op :: "('x, 'd) edge_state edge_manager \<Rightarrow> (files \<Rightarrow> files) \<Rightarrow> (('x, 'd) edge_state, unit) act" where
  "file_op M f =
     bind_act (get_act (em_io_fails M))
       (\<lambda>b. if b then raise os_error else (\<lambda>((fs, x), d). (Inr (), ((f fs, x), d))))"

definition unlink_missing_ok ::
    "('x, 'd) edge_state edge_manager \<Rightarrow> string \<Rightarrow> (('x, 'd) edge_state, unit) act" where
  "unlink_missing_ok M path = file_op M (\<lambda>fs. fs(path := None))"

definition fsync_directory :: "('x, 'd) edge_state edge_manager \<Rightarrow> (('x, 'd) edge_state, unit) act" where
  "fsync_directory M = file_op M (\<lambda>fs. fs)"

definition os_replace ::
    "('x, 'd) edge_state edge_manager \<Rightarrow> string \<Rightarrow> string \<Rightarrow> (('x, 'd) edge_state, unit) act" where
  "os_replace M source target = file_op M (\<lambda>fs. fs(target := fs source, source := None))"

definition read_text ::
    "('x, 'd) edge_state edge_manager \<Rightarrow> string \<Rightarrow> (('x, 'd) edge_state, string) act" where
  "read_text M path =
     seq_act (file_op M (\<lambda>fs. fs))
       (bind_act get_files (\<lambda>fs. case fs path of None \<Rightarrow> raise os_error | Some t \<Rightarrow> ret t))"

text \<open>\<open>try: m finally: cleanup\<close>, and \<open>except BaseException: cleanup; raise\<close>.\<close>

definition on_error :: "('s, 'a) act \<Rightarrow> ('s, unit) act \<Rightarrow> ('s, 'a) act" where
  "on_error m cleanup = try_act m (\<lambda>e. seq_act cleanup (raise e))"

definition finally_act :: "('s, 'a) act \<Rightarrow> ('s, unit) act \<Rightarrow> ('s, 'a) act" where
  "finally_act m cleanup = bind_act (on_error m cleanup) (\<lambda>a. seq_act cleanup (ret a))"

definition mkstemp :: "('x, 'd) edge_state edge_manager \<Rightarrow> (('x, 'd) edge_state, string) act" where
  "mkstemp M =
     bind_act (get_act (em_mkstemp M)) (\<lambda>random.
       let path = ''.public-routes-'' @ random @ ''.tmp'' in
       bind_act get_files (\<lambda>fs.
         if fs path \<noteq> None then raise os_error
         else seq_act (file_op M (\<lambda>fs. fs(path := Some ''''))) (ret path)))"

definition private_temporary ::
    "('x, 'd) edge_state edge_manager \<Rightarrow> string \<Rightarrow> (('x, 'd) edge_state, string) act" where
  "private_temporary M value =
     bind_act (mkstemp M) (\<lambda>path.
      seq_act (on_error (file_op M (\<lambda>fs. fs(path := Some value))) (unlink_missing_ok M path))
        (ret path))"

definition atomic_write ::
    "('x, 'd) edge_state edge_manager \<Rightarrow> string \<Rightarrow> string \<Rightarrow> (('x, 'd) edge_state, unit) act" where
  "atomic_write M path value =
     bind_act (private_temporary M value) (\<lambda>temporary.
       on_error (seq_act (os_replace M temporary path) (fsync_directory M))
         (unlink_missing_ok M temporary))"

definition ensure_config_root :: "'s edge_manager \<Rightarrow> ('s, unit) act" where
  "ensure_config_root M =
     (if em_config_root_is_directory M then ret () else raise (edge_error ''EDGE_CONFIG_ROOT_INVALID''))"

section \<open>The journal\<close>

datatype transaction_phase = PREPARED | COMMITTED

fun phase_value :: "transaction_phase \<Rightarrow> string" where
  "phase_value PREPARED = ''PREPARED''"
| "phase_value COMMITTED = ''COMMITTED''"

record edge_transaction =
  tr_previous :: string
  tr_candidate :: string
  tr_previous_hostname :: "string option"
  tr_phase :: transaction_phase

definition current_name :: string where "current_name = ''public-routes.conf''"
definition journal_name :: string where "journal_name = ''.routing-transaction.json''"

definition bounded_config :: "json \<Rightarrow> bool" where
  "bounded_config v = (case v of JStr s \<Rightarrow> utf8_length s \<le> MAX_CONFIG_BYTES | _ \<Rightarrow> False)"

definition is_version_2 :: "(string \<Rightarrow> int \<Rightarrow> bool) \<Rightarrow> json \<Rightarrow> bool" where
  "is_version_2 number_is v =
     (case v of JInt n \<Rightarrow> n = 2 | JFloat l \<Rightarrow> number_is l 2 | _ \<Rightarrow> False)"

definition transaction_json :: "edge_transaction \<Rightarrow> json" where
  "transaction_json t =
     JObj [(''candidate'', JStr (tr_candidate t)), (''phase'', JStr (phase_value (tr_phase t))),
           (''previous'', JStr (tr_previous t)),
           (''previous_hostname'',
              (case tr_previous_hostname t of None \<Rightarrow> JNull | Some h \<Rightarrow> JStr h)),
           (''version'', JInt 2)]"

definition parse_transaction :: "(string \<Rightarrow> int \<Rightarrow> bool) \<Rightarrow> json \<Rightarrow> edge_transaction option" where
  "parse_transaction number_is payload =
     (case payload of
        JObj kvs \<Rightarrow>
          if set (map fst kvs) \<noteq> set [''version'', ''previous'', ''candidate'', ''phase'', ''previous_hostname'']
          then None
          else (case (jget ''previous'' kvs, jget ''candidate'' kvs, jget ''phase'' kvs,
                      jget ''previous_hostname'' kvs, jget ''version'' kvs) of
             (Some (JStr p), Some (JStr c), Some (JStr ph), Some hn, Some v) \<Rightarrow>
               if (ph \<noteq> ''PREPARED'' \<and> ph \<noteq> ''COMMITTED'') \<or> \<not> is_version_2 number_is v \<or>
                  \<not> bounded_config (JStr p) \<or> \<not> bounded_config (JStr c) \<or>
                  (case hn of JNull \<Rightarrow> False | JStr h \<Rightarrow> \<not> hostname_matches h | _ \<Rightarrow> True)
               then None
               else Some \<lparr>tr_previous = p, tr_candidate = c,
                          tr_previous_hostname = (case hn of JStr h \<Rightarrow> Some h | _ \<Rightarrow> None),
                          tr_phase = (if ph = ''PREPARED'' then PREPARED else COMMITTED)\<rparr>
           | _ \<Rightarrow> None)
      | _ \<Rightarrow> None)"

definition read_transaction ::
    "('x, 'd) edge_state edge_manager \<Rightarrow> (('x, 'd) edge_state, edge_transaction option) act" where
  "read_transaction M =
     bind_act get_files (\<lambda>fs.
       if fs journal_name = None then ret None
       else bind_act
         (try_act (bind_act (read_text M journal_name) (\<lambda>t.
              case em_loads M t of
                None \<Rightarrow> raise (edge_uncertain ''EDGE_TRANSACTION_JOURNAL_INVALID'') | Some j \<Rightarrow> ret j))
            (\<lambda>e. if e = os_error then raise (edge_uncertain ''EDGE_TRANSACTION_JOURNAL_INVALID'') else raise e))
         (\<lambda>payload. case parse_transaction (em_number_is M) payload of
            None \<Rightarrow> raise (edge_uncertain ''EDGE_TRANSACTION_JOURNAL_INVALID'')
          | Some t \<Rightarrow> ret (Some t)))"

definition write_transaction ::
    "('x, 'd) edge_state edge_manager \<Rightarrow> edge_transaction \<Rightarrow> (('x, 'd) edge_state, unit) act" where
  "write_transaction M t =
     try_act (atomic_write M journal_name (em_dumps M (transaction_json t) @ [CHR 0x0A]))
       (\<lambda>e. if e = os_error then raise (edge_retryable ''EDGE_TRANSACTION_JOURNAL_WRITE_FAILED'')
            else raise e)"

definition mark_transaction_committed ::
    "('x, 'd) edge_state edge_manager \<Rightarrow> edge_transaction \<Rightarrow> (('x, 'd) edge_state, unit) act" where
  "mark_transaction_committed M t = write_transaction M (t\<lparr>tr_phase := COMMITTED\<rparr>)"

definition remove_transaction_journal ::
    "('x, 'd) edge_state edge_manager \<Rightarrow> (('x, 'd) edge_state, unit) act" where
  "remove_transaction_journal M =
     try_act (seq_act (unlink_missing_ok M journal_name) (fsync_directory M))
       (\<lambda>e. if e = os_error then raise (edge_uncertain ''EDGE_TRANSACTION_JOURNAL_CLEAR_FAILED'')
            else raise e)"

definition validate_interrupted ::
    "('x, 'd) edge_state edge_manager \<Rightarrow> (('x, 'd) edge_state, bool) act" where
  "validate_interrupted M =
     bind_act (read_transaction M) (\<lambda>transaction. case transaction of
        None \<Rightarrow> ret False
      | Some t \<Rightarrow>
          bind_act get_files (\<lambda>fs.
            if fs current_name = None
            then raise (edge_uncertain ''EDGE_CONFIG_CHANGED_DURING_RECOVERY'')
            else bind_act (read_text M current_name) (\<lambda>current.
              if current \<noteq> tr_previous t \<and> current \<noteq> tr_candidate t
              then raise (edge_uncertain ''EDGE_CONFIG_CHANGED_DURING_RECOVERY'')
              else ret True)))"

definition recover_interrupted ::
    "('x, 'd) edge_state edge_manager \<Rightarrow> (('x, 'd) edge_state, bool) act" where
  "recover_interrupted M = seq_act (ensure_config_root M) (validate_interrupted M)"

section \<open>Talking to Docker\<close>

definition exact_labels :: "json option \<Rightarrow> string \<Rightarrow> bool" where
  "exact_labels labels kind =
     (case labels of
        Some (JObj l) \<Rightarrow> jget ''heimdall.managed'' l = Some (JStr ''true'') \<and>
                         jget ''heimdall.kind'' l = Some (JStr kind)
      | _ \<Rightarrow> False)"

definition edge_run ::
    "'s edge_manager \<Rightarrow> string list \<Rightarrow> 's heartbeat \<Rightarrow> string \<Rightarrow> ('s, command_result) act" where
  "edge_run M arguments heartbeat code =
     try_act (em_runner M (em_docker_executable M # arguments) (em_command_timeout M) (Some heartbeat) True)
       (\<lambda>e. case e of CommandExecutionError _ \<Rightarrow> raise (edge_retryable code) | _ \<Rightarrow> raise e)"

definition dq :: string where "dq = [CHR 0x22]"

definition edge_inspect_format :: string where
  "edge_inspect_format =
     ''{'' @ dq @ ''labels'' @ dq @ '':{{json .Config.Labels}},'' @
     dq @ ''image'' @ dq @ '':{{json .Config.Image}},'' @
     dq @ ''running'' @ dq @ '':{{json .State.Running}},'' @
     dq @ ''networks'' @ dq @ '':{{json .NetworkSettings.Networks}}}''"

text \<open>What \<open>docker inspect\<close> must show of the edge container.\<close>

definition edge_container_ok :: "'s edge_manager \<Rightarrow> json option \<Rightarrow> bool" where
  "edge_container_ok M observation =
     (case observation of
        Some (JObj o') \<Rightarrow>
          exact_labels (jget ''labels'' o') ''edge-gateway'' \<and>
          jget ''image'' o' = Some (JStr (em_nginx_image M)) \<and>
          jget ''running'' o' = Some (JBool True) \<and>
          (case jget ''networks'' o' of
             Some (JObj networks) \<Rightarrow> em_edge_network_name M \<in> set (map fst networks)
           | _ \<Rightarrow> False)
      | _ \<Rightarrow> False)"

definition verify_edge :: "'s edge_manager \<Rightarrow> 's heartbeat \<Rightarrow> ('s, unit) act" where
  "verify_edge M heartbeat =
     bind_act (edge_run M [''network'', ''inspect'', ''--format'', ''{{json .Labels}}'', em_edge_network_name M]
                 heartbeat ''EDGE_NETWORK_UNAVAILABLE'') (\<lambda>network.
       if \<not> exact_labels (em_loads M (cr_stdout network)) ''edge-network''
       then raise (edge_error ''EDGE_NETWORK_CONFLICT'')
       else bind_act (edge_run M [''inspect'', ''--format'', edge_inspect_format, em_edge_container_name M]
                        heartbeat ''EDGE_GATEWAY_UNAVAILABLE'') (\<lambda>edge.
         if \<not> edge_container_ok M (em_loads M (cr_stdout edge))
         then raise (edge_error ''EDGE_GATEWAY_CONFLICT'')
         else ret ()))"

definition read_edge_file :: "'s edge_manager \<Rightarrow> string \<Rightarrow> 's heartbeat \<Rightarrow> ('s, string) act" where
  "read_edge_file M path heartbeat =
     bind_act (edge_run M [''exec'', em_edge_container_name M, ''cat'', path] heartbeat
                 ''EDGE_CONFIG_SNAPSHOT_FAILED'') (\<lambda>result.
       if cr_stdout_truncated result \<or> cr_stdout result = []
       then raise (edge_retryable ''EDGE_CONFIG_SNAPSHOT_FAILED'')
       else ret (cr_stdout result))"

definition bind_mount :: "'s edge_manager \<Rightarrow> string \<Rightarrow> string \<Rightarrow> string" where
  "bind_mount M name target =
     ''type=bind,src='' @ em_config_root M @ ''/'' @ name @ '',dst='' @ target @ '',readonly''"

definition test_config ::
    "('x, 'd) edge_state edge_manager \<Rightarrow> string \<Rightarrow> ('x, 'd) edge_state heartbeat \<Rightarrow>
     (('x, 'd) edge_state, unit) act" where
  "test_config M candidate_path heartbeat =
     bind_act (read_edge_file M ''/etc/nginx/nginx.conf'' heartbeat) (\<lambda>main_config.
     bind_act (read_edge_file M ''/tmp/heimdall-edge-conf/management.conf'' heartbeat) (\<lambda>management_config.
     bind_act (private_temporary M main_config) (\<lambda>main_path.
     bind_act (private_temporary M management_config) (\<lambda>management_path.
       finally_act
         (bind_act (edge_run M
            [''run'', ''--rm'', ''--network'', em_edge_network_name M,
             ''--mount'', bind_mount M main_path ''/etc/nginx/nginx.conf'',
             ''--mount'', bind_mount M management_path ''/tmp/heimdall-edge-conf/management.conf'',
             ''--mount'', bind_mount M candidate_path ''/etc/nginx/routes/public-routes.conf'',
             em_nginx_image M, ''nginx'', ''-t''] heartbeat ''EDGE_CONFIG_INVALID'') (\<lambda>_. ret ()))
         (seq_act (unlink_missing_ok M main_path) (unlink_missing_ok M management_path))))))"

definition reload_edge :: "'s edge_manager \<Rightarrow> 's heartbeat \<Rightarrow> ('s, unit) act" where
  "reload_edge M heartbeat =
     seq_act (verify_edge M heartbeat)
       (bind_act (edge_run M [''exec'', em_edge_container_name M, ''nginx'', ''-s'', ''reload''] heartbeat
                    ''EDGE_RELOAD_FAILED'') (\<lambda>_. ret ()))"

fun each :: "('a \<Rightarrow> ('s, unit) act) \<Rightarrow> 'a list \<Rightarrow> ('s, unit) act" where
  "each f [] = ret ()"
| "each f (x # xs) = seq_act (f x) (each f xs)"

definition probe_candidate ::
    "'s edge_manager \<Rightarrow> edge_route_target list \<Rightarrow> edge_route_change option \<Rightarrow> 's heartbeat \<Rightarrow> bool \<Rightarrow>
     ('s, unit) act" where
  "probe_candidate M routes change heartbeat probe_all_routes =
     seq_act (em_probe_management M (em_management_hostname M) heartbeat)
      (seq_act (if probe_all_routes then each (\<lambda>r. em_probe_routed M (et_hostname r) heartbeat) routes
                else ret ())
        (case change of
           None \<Rightarrow> ret ()
         | Some c \<Rightarrow>
             if ech_enabled c then
               seq_act (em_probe_routed M (ech_hostname c) heartbeat)
                 (case ech_previous_hostname c of
                    None \<Rightarrow> ret ()
                  | Some h \<Rightarrow> if h \<noteq> ech_hostname c then em_probe_not_found M h heartbeat else ret ())
             else em_probe_not_found M (ech_hostname c) heartbeat))"

section \<open>Applying a configuration\<close>

definition restore_config ::
    "('x, 'd) edge_state edge_manager \<Rightarrow> string \<Rightarrow> string \<Rightarrow> edge_route_change option \<Rightarrow>
     ('x, 'd) edge_state heartbeat \<Rightarrow> (('x, 'd) edge_state, unit) act" where
  "restore_config M candidate previous change heartbeat =
     seq_act
       (bind_act get_files (\<lambda>fs.
          if fs current_name = None then raise (edge_uncertain ''EDGE_CONFIG_CHANGED_DURING_RESTORE'')
          else bind_act (read_text M current_name) (\<lambda>current.
            if current \<noteq> candidate then raise (edge_uncertain ''EDGE_CONFIG_CHANGED_DURING_RESTORE'')
            else ret ())))
      (seq_act (atomic_write M current_name previous)
      (seq_act (reload_edge M heartbeat)
      (seq_act (em_probe_management M (em_management_hostname M) heartbeat)
      (seq_act
         (case change of
            None \<Rightarrow> ret ()
          | Some c \<Rightarrow>
              seq_act (case ech_previous_hostname c of None \<Rightarrow> ret () | Some h \<Rightarrow> em_probe_routed M h heartbeat)
                (if ech_enabled c \<and> ech_previous_hostname c \<noteq> Some (ech_hostname c)
                 then em_probe_not_found M (ech_hostname c) heartbeat else ret ()))
        (remove_transaction_journal M)))))"

text \<open>The handler of \<open>apply\<close> while \<open>switched and not finalized\<close>.\<close>

definition restore_and_raise ::
    "('x, 'd) edge_state edge_manager \<Rightarrow> string \<Rightarrow> string \<Rightarrow> edge_route_change option \<Rightarrow>
     ('x, 'd) edge_state heartbeat \<Rightarrow> exn \<Rightarrow> (('x, 'd) edge_state, 'a) act" where
  "restore_and_raise M rendered previous change heartbeat e =
     seq_act
       (try_act (restore_config M rendered previous change heartbeat)
          (\<lambda>r. case r of EdgeRuntimeError _ _ _ \<Rightarrow> raise (edge_uncertain ''EDGE_STATE_UNCERTAIN'')
                       | _ \<Rightarrow> raise r))
       (raise e)"

text \<open>Up to \<open>os.replace\<close>: what was served before and the transaction of the journal.  The
  \<open>finally\<close> clause unlinks the candidate unless it has been moved into place.\<close>

definition switch_config ::
    "('x, 'd) edge_state edge_manager \<Rightarrow> string \<Rightarrow> string \<Rightarrow> edge_route_change option \<Rightarrow>
     ('x, 'd) edge_state heartbeat \<Rightarrow> ('x, 'd) edge_state heartbeat \<Rightarrow>
     (('x, 'd) edge_state, edge_transaction) act" where
  "switch_config M rendered candidate_path change heartbeat fence =
     on_error
       (seq_act (test_config M candidate_path heartbeat)
       (seq_act fence
         (bind_act
            (bind_act get_files (\<lambda>fs.
               if fs current_name \<noteq> None then read_text M current_name
               else seq_act (atomic_write M current_name NO_ROUTES_CONFIG) (ret NO_ROUTES_CONFIG)))
            (\<lambda>previous.
               let transaction =
                 \<lparr>tr_previous = previous, tr_candidate = rendered,
                  tr_previous_hostname =
                    (case change of None \<Rightarrow> None | Some c \<Rightarrow> ech_previous_hostname c),
                  tr_phase = PREPARED\<rparr> in
               seq_act (write_transaction M transaction)
                 (seq_act (os_replace M candidate_path current_name) (ret transaction))))))
       (unlink_missing_ok M candidate_path)"

definition serve_config ::
    "('x, 'd) edge_state edge_manager \<Rightarrow> edge_route_target list \<Rightarrow> string \<Rightarrow> edge_transaction \<Rightarrow>
     edge_route_change option \<Rightarrow> ('x, 'd) edge_state heartbeat \<Rightarrow> ('x, 'd) edge_state heartbeat \<Rightarrow>
     ('x, 'd) edge_state heartbeat \<Rightarrow> bool \<Rightarrow> (('x, 'd) edge_state, unit) act" where
  "serve_config M routes rendered transaction change heartbeat fence finalize probe_all_routes =
     (let undo = restore_and_raise M rendered (tr_previous transaction) change heartbeat in
      seq_act
        (try_act
           (seq_act (fsync_directory M)
           (seq_act (reload_edge M heartbeat)
           (seq_act (probe_candidate M routes change heartbeat probe_all_routes)
             fence)))
           undo)
       (seq_act
          (try_act finalize
             (\<lambda>e. if e = EdgeFinalizeRejectedError then undo e
                  else raise (edge_uncertain ''EDGE_FINALIZE_UNCERTAIN'')))
         (seq_act (mark_transaction_committed M transaction)
           (remove_transaction_journal M))))"

definition apply_edge ::
    "('x, 'd) edge_state edge_manager \<Rightarrow> edge_route_target list \<Rightarrow> edge_route_change option \<Rightarrow>
     ('x, 'd) edge_state heartbeat \<Rightarrow> ('x, 'd) edge_state heartbeat \<Rightarrow>
     ('x, 'd) edge_state heartbeat \<Rightarrow> bool \<Rightarrow> (('x, 'd) edge_state, unit) act" where
  "apply_edge M routes change heartbeat fence finalize probe_all_routes =
     (case render_edge_routes routes of
        Inl e \<Rightarrow> raise e
      | Inr rendered \<Rightarrow>
          seq_act (ensure_config_root M)
         (seq_act (bind_act (validate_interrupted M) (\<lambda>_. ret ()))
         (seq_act heartbeat
         (seq_act fence
         (seq_act (verify_edge M heartbeat)
           (bind_act (private_temporary M rendered) (\<lambda>candidate_path.
            bind_act (switch_config M rendered candidate_path change heartbeat fence) (\<lambda>transaction.
              serve_config M routes rendered transaction change heartbeat fence finalize
                probe_all_routes))))))))"

end
