(* ===== verification/Edge_Network.thy ===== *)
theory Edge_Network
  imports Edge_Config Deployment_Worker
begin

text \<open>
  \<open>runtime/edge_network.py\<close> and \<open>runtime/gateway_identity.py\<close>: attaching a project's
  gateway container to the edge network under its alias.
\<close>

definition project_gateway_name :: "uuid \<Rightarrow> string" where
  "project_gateway_name i = ''hm-p'' @ take 12 (uuid_hex i) @ ''-gateway''"

definition project_gateway_alias :: "uuid \<Rightarrow> string" where
  "project_gateway_alias = project_gateway_name"

text \<open>\<open>^[A-Za-z0-9][A-Za-z0-9_.-]{0,254}$\<close>\<close>

definition docker_resource_name_matches :: "string \<Rightarrow> bool" where
  "docker_resource_name_matches s =
     (s \<noteq> [] \<and> length s \<le> 255 \<and> name_char (hd s) \<and>
      list_all (\<lambda>c. name_char c \<or> c \<in> set ''_.-'') s)"

record 's edge_connector =
  cn_runner :: "'s runner"
  cn_executable :: string
  cn_network_name :: string
  cn_command_timeout :: time
  cn_loads :: "string \<Rightarrow> json option"

definition edge_connector_init :: "'s edge_connector \<Rightarrow> exn + 's edge_connector" where
  "edge_connector_init N =
     (if \<not> docker_resource_name_matches (cn_network_name N)
        then Inl (ValueError ''edge network name must be a valid Docker resource name'')
      else if cn_command_timeout N \<le> 0
        then Inl (ValueError ''edge network command timeout must be positive'')
      else Inr N)"

definition no_result :: command_result where
  "no_result = \<lparr>cr_returncode = -1, cr_stdout = [], cr_stderr = [], cr_stdout_truncated = False,
     cr_stderr_truncated = False\<rparr>"

definition run_ignored ::
    "'s edge_connector \<Rightarrow> string list \<Rightarrow> 's heartbeat \<Rightarrow> ('s, command_result) act" where
  "run_ignored N arguments heartbeat =
     try_act (cn_runner N (cn_executable N # arguments) (cn_command_timeout N) (Some heartbeat) False)
       (\<lambda>e. case e of CommandExecutionError _ \<Rightarrow> ret no_result | _ \<Rightarrow> raise e)"

definition matches_labels :: "json option \<Rightarrow> (string \<times> string) list \<Rightarrow> bool" where
  "matches_labels labels wanted =
     (case labels of
        Some (JObj l) \<Rightarrow> list_all (\<lambda>(name, value). jget name l = Some (JStr value)) wanted
      | _ \<Rightarrow> False)"

definition has_labels :: "'s edge_connector \<Rightarrow> string \<Rightarrow> (string \<times> string) list \<Rightarrow> bool" where
  "has_labels N output wanted = matches_labels (cn_loads N output) wanted"

definition has_network_alias :: "'s edge_connector \<Rightarrow> string \<Rightarrow> string \<Rightarrow> string \<Rightarrow> bool" where
  "has_network_alias N output network_name alias =
     (case cn_loads N output of
        Some (JObj networks) \<Rightarrow>
          (case jget network_name networks of
             Some (JObj network) \<Rightarrow>
               (case jget ''Aliases'' network of
                  Some (JList aliases) \<Rightarrow> JStr alias \<in> set aliases
                | _ \<Rightarrow> False)
           | _ \<Rightarrow> False)
      | _ \<Rightarrow> False)"

definition activation :: "string \<Rightarrow> bool \<Rightarrow> exn" where
  "activation code retryable = RuntimeFailure (runtime_failure ''ACTIVATION'' code retryable True)"

definition gateway_format :: string where
  "gateway_format =
     ''{'' @ dq @ ''labels'' @ dq @ '':{{json .Config.Labels}},'' @
     dq @ ''running'' @ dq @ '':{{json .State.Running}}}''"

text \<open>What \<open>docker inspect\<close> of the gateway says: \<open>None\<close> for a container that is not this
  project's gateway, otherwise whether it runs.\<close>

definition gateway_running :: "'s edge_connector \<Rightarrow> uuid \<Rightarrow> string \<Rightarrow> bool option" where
  "gateway_running N i output =
     (case cn_loads N output of
        Some (JObj o') \<Rightarrow>
          if \<not> matches_labels (jget ''labels'' o')
                 [(''heimdall.managed'', ''true''), (''heimdall.project-id'', uuid_str i),
                  (''heimdall.kind'', ''gateway'')] then None
          else (case jget ''running'' o' of Some (JBool b) \<Rightarrow> Some b | _ \<Rightarrow> None)
      | _ \<Rightarrow> None)"

definition ensure_gateway_attached ::
    "'s edge_connector \<Rightarrow> uuid \<Rightarrow> 's heartbeat \<Rightarrow> ('s, unit) act" where
  "ensure_gateway_attached N i heartbeat =
     (let gateway_name = project_gateway_name i; alias = project_gateway_alias i in
      bind_act (run_ignored N [''network'', ''inspect'', ''--format'', ''{{json .Labels}}'', cn_network_name N]
                  heartbeat) (\<lambda>network.
      if cr_returncode network \<noteq> 0 then raise (activation ''EDGE_NETWORK_UNAVAILABLE'' True)
      else if \<not> has_labels N (cr_stdout network)
                [(''heimdall.managed'', ''true''), (''heimdall.kind'', ''edge-network'')]
        then raise (activation ''EDGE_NETWORK_NAME_CONFLICT'' False)
      else bind_act (run_ignored N [''inspect'', ''--format'', gateway_format, gateway_name] heartbeat) (\<lambda>gateway.
        if cr_returncode gateway \<noteq> 0 then raise (activation ''GATEWAY_START_FAILED'' True)
        else (case gateway_running N i (cr_stdout gateway) of
            None \<Rightarrow> raise (activation ''GATEWAY_NAME_CONFLICT'' False)
          | Some False \<Rightarrow> raise (activation ''GATEWAY_START_FAILED'' True)
          | Some True \<Rightarrow>
              bind_act (run_ignored N [''network'', ''connect'', ''--alias'', alias, cn_network_name N, gateway_name]
                          heartbeat) (\<lambda>_.
              bind_act (run_ignored N [''inspect'', ''--format'', ''{{json .NetworkSettings.Networks}}'', gateway_name]
                          heartbeat) (\<lambda>attached.
                if cr_returncode attached \<noteq> 0 \<or>
                   \<not> has_network_alias N (cr_stdout attached) (cn_network_name N) alias
                then raise (activation ''GATEWAY_EDGE_NETWORK_CONNECT_FAILED'' True)
                else ret ()))))))"

section \<open>Names\<close>

lemma hex_digit_name: "n < 16 \<Longrightarrow> name_char (hex_digit n)"
proof -
  assume "n < 16"
  then have "n \<in> set [0..<16]" by simp
  moreover have "list_all (\<lambda>n. name_char (hex_digit n)) [0..<16]" by code_simp
  ultimately show ?thesis by (simp only: list_all_iff)
qed

lemma hex_fixed_name: "c \<in> set (hex_fixed n v) \<Longrightarrow> name_char c"
  by (induction n arbitrary: v) (auto simp: hex_digit_name)

lemma gateway_name_matches: "docker_name_matches (project_gateway_name i)"
proof -
  have digits: "name_char c" if "c \<in> set (take 12 (uuid_hex i))" for c
    using that hex_fixed_name by (auto simp: uuid_hex_def dest: in_set_takeD)
  let ?P = "\<lambda>c. name_char c \<or> c \<in> set ''_.-''"
  have ends: "list_all ?P ''hm-p''" "list_all ?P ''-gateway''" "name_char CHR ''h''" by code_simp+
  have "list_all ?P (take 12 (uuid_hex i))" using digits by (simp only: list_all_iff) blast
  with ends have all: "list_all ?P (project_gateway_name i)"
    by (simp only: project_gateway_name_def list_all_append simp_thms)
  have len: "length (project_gateway_name i) = 24" by (simp add: project_gateway_name_def uuid_hex_def)
  have hd: "hd (project_gateway_name i) = CHR ''h''" by (simp add: project_gateway_name_def)
  have "project_gateway_name i \<noteq> []" using len by (metis list.size(3) zero_neq_numeral)
  then show ?thesis
    unfolding docker_name_matches_def len hd using all ends(3) by (intro conjI) simp_all
qed

end
