(* ===== verification/Route_Worker.thy ===== *)
theory Route_Worker
  imports Edge_Network
begin

text \<open>
  \<open>public_routes/worker.py\<close>: one pass of the routing worker.  The edge network and the edge
  configuration are parameters, as they are constructor arguments of the class; the object's
  \<open>_reconciliation_required\<close> and the configuration directory are part of the state.  The
  repository's statements read the clock of the database, one reading each.
\<close>

type_synonym 'x routing_state = "(bool \<times> 'x, db) edge_state"

record 's route_worker =
  rw_ensure_gateway_attached :: "uuid \<Rightarrow> 's heartbeat \<Rightarrow> ('s, unit) act"
  rw_apply :: "edge_route_target list \<Rightarrow> edge_route_change option \<Rightarrow> 's heartbeat \<Rightarrow> 's heartbeat \<Rightarrow>
     's heartbeat \<Rightarrow> bool \<Rightarrow> ('s, unit) act"
  rw_worker_id :: string
  rw_lease_duration :: time
  rw_max_attempts :: int
  rw_retry_base_delay :: time
  rw_retry_max_delay :: time

definition route_worker_init :: "'s route_worker \<Rightarrow> exn + 's route_worker" where
  "route_worker_init W =
     (if rw_worker_id W = [] \<or> 128 < length (rw_worker_id W)
        then Inl (ValueError ''worker_id must be between 1 and 128 characters'')
      else if rw_lease_duration W \<le> 0 then Inl (ValueError ''lease_duration must be positive'')
      else if rw_max_attempts W < 1 then Inl (ValueError ''max_attempts must be positive'')
      else if rw_retry_base_delay W \<le> 0 \<or> rw_retry_max_delay W < rw_retry_base_delay W
        then Inl (ValueError ''routing retry delays are invalid'')
      else Inr W)"

definition get_required :: "('x routing_state, bool) act" where
  "get_required = (\<lambda>s. (Inr (fst (snd (fst s))), s))"

definition set_required :: "bool \<Rightarrow> ('x routing_state, unit) act" where
  "set_required b = (\<lambda>((fs, c, x), d). (Inr (), ((fs, b, x), d)))"

text \<open>A repository method of three statements, and reading the applied routes.\<close>

definition repo_call3 ::
    "'w ports \<Rightarrow> (time \<Rightarrow> time \<Rightarrow> time \<Rightarrow> (db, 'a) tx) \<Rightarrow> ('w \<times> db, 'a) act" where
  "repo_call3 P m =
     bind_act (get_act (p_clock P)) (\<lambda>t1. bind_act (get_act (p_clock P)) (\<lambda>t2.
       repo_call P (\<lambda>t3. m t1 t2 t3)))"

definition applied_routes :: "('w \<times> db, public_route list) act" where
  "applied_routes = tx_act (tx_read list_applied)"

definition route_heartbeat :: "'w ports \<Rightarrow> route_claim \<Rightarrow> time \<Rightarrow> ('w \<times> db, unit) act" where
  "route_heartbeat P c lease = void (repo_call P (renew_route c lease))"

definition applied_target :: "public_route \<Rightarrow> exn + edge_route_target" where
  "applied_target r =
     (case rt_applied_hostname r of
        None \<Rightarrow> Inl (ValueError ''applied route snapshot is missing its hostname'')
      | Some h \<Rightarrow> Inr \<lparr>et_project_id = rt_project_id r, et_hostname = h,
                      et_gateway_alias = project_gateway_alias (rt_project_id r)\<rparr>)"

text \<open>Tuples are sorted by their first component, which is the primary key.\<close>

definition applied_snapshot :: "public_route list \<Rightarrow> (string \<times> int option \<times> string) list" where
  "applied_snapshot routes =
     order_by fst
       (map (\<lambda>r. (uuid_str (rt_project_id r), rt_applied_revision r, the (rt_applied_hostname r)))
          (filter (\<lambda>r. rt_applied_hostname r \<noteq> None) routes))"

definition lift_sum :: "exn + 'a \<Rightarrow> ('s, 'a) act" where
  "lift_sum x = (case x of Inl e \<Rightarrow> raise e | Inr a \<Rightarrow> ret a)"

definition snapshot_fence :: "(string \<times> int option \<times> string) list \<Rightarrow> ('w \<times> db, unit) act" where
  "snapshot_fence expected_snapshot =
     bind_act applied_routes (\<lambda>routes.
       if applied_snapshot routes \<noteq> expected_snapshot then raise PublicRouteSnapshotChangedError
       else ret ())"

definition reconcile_startup :: "('w \<times> db) route_worker \<Rightarrow> ('w \<times> db, bool) act" where
  "reconcile_startup W =
     bind_act applied_routes (\<lambda>routes.
     bind_act (lift_sum (sequence_results (map applied_target routes))) (\<lambda>targets.
       try_act
         (seq_act (each (\<lambda>r. rw_ensure_gateway_attached W (rt_project_id r) (ret ())) routes)
           (seq_act (rw_apply W targets None (ret ()) (snapshot_fence (applied_snapshot routes)) (ret ()) True)
             (ret True)))
         (\<lambda>e. case e of
            RuntimeFailure _ \<Rightarrow> ret False
          | EdgeRuntimeError _ _ _ \<Rightarrow> ret False
          | PublicRouteSnapshotChangedError \<Rightarrow> ret False
          | _ \<Rightarrow> raise e)))"

definition route_retry_delay :: "'s route_worker \<Rightarrow> int \<Rightarrow> time" where
  "route_retry_delay W attempts =
     min (rw_retry_base_delay W * 2 ^ nat (min (max (attempts - 1) 0) 16)) (rw_retry_max_delay W)"

definition unless_lost :: "('s, unit) act \<Rightarrow> ('s, unit) act" where
  "unless_lost m = try_act m (\<lambda>e. if e = PublicRouteClaimLostError then ret () else raise e)"

definition defer_not_ready ::
    "'w ports \<Rightarrow> ('w \<times> db) route_worker \<Rightarrow> route_claim \<Rightarrow> string \<Rightarrow> ('w \<times> db, unit) act" where
  "defer_not_ready P W c code =
     unless_lost
       (bind_act (get_act (p_clock P)) (\<lambda>now.
          void (repo_call3 P
            (defer_route_not_ready c (now + route_retry_delay W (rtc_attempts c)) code))))"

definition route_handle_failure ::
    "'w ports \<Rightarrow> ('w \<times> db) route_worker \<Rightarrow> route_claim \<Rightarrow> string \<Rightarrow> bool \<Rightarrow> bool \<Rightarrow> ('w \<times> db, unit) act" where
  "route_handle_failure P W c code retryable uncertain =
     unless_lost
       (if uncertain then void (repo_call3 P (fail_route c code True))
        else if retryable \<and> rtc_attempts c < rw_max_attempts W then
          bind_act (get_act (p_clock P)) (\<lambda>now.
            void (repo_call3 P
              (retry_route c (now + route_retry_delay W (rtc_attempts c)) code)))
        else void (repo_call3 P (fail_route c code False)))"

text \<open>The targets of a pass: a dictionary by project in insertion order.\<close>

fun dict_set :: "'k \<Rightarrow> 'v \<Rightarrow> ('k \<times> 'v) list \<Rightarrow> ('k \<times> 'v) list" where
  "dict_set k v [] = [(k, v)]"
| "dict_set k v ((k', v') # xs) = (if k' = k then (k, v) # xs else (k', v') # dict_set k v xs)"

definition dict_pop :: "'k \<Rightarrow> ('k \<times> 'v) list \<Rightarrow> ('k \<times> 'v) list" where
  "dict_pop k xs = filter (\<lambda>(k', v). k' \<noteq> k) xs"

definition planned_targets :: "public_route \<Rightarrow> edge_route_target list \<Rightarrow> edge_route_target list" where
  "planned_targets route applied =
     (let targets = fold (\<lambda>t. dict_set (et_project_id t) t) applied [] in
      map snd
        (if rt_desired_state route = ENABLED
         then dict_set (rt_project_id route)
                \<lparr>et_project_id = rt_project_id route, et_hostname = rt_hostname route,
                 et_gateway_alias = project_gateway_alias (rt_project_id route)\<rparr> targets
         else dict_pop (rt_project_id route) targets))"

definition planned_change :: "public_route \<Rightarrow> edge_route_change" where
  "planned_change route =
     (let enabled = (rt_desired_state route = ENABLED) in
      \<lparr>ech_hostname =
         (case rt_applied_hostname route of
            None \<Rightarrow> rt_hostname route
          | Some h \<Rightarrow> if enabled then rt_hostname route else h),
       ech_enabled = enabled, ech_previous_hostname = rt_applied_hostname route\<rparr>)"

definition route_fence ::
    "'w ports \<Rightarrow> route_claim \<Rightarrow> time \<Rightarrow> (string \<times> int option \<times> string) list \<Rightarrow> ('w \<times> db, unit) act" where
  "route_fence P c lease expected_snapshot =
     seq_act (route_heartbeat P c lease) (snapshot_fence expected_snapshot)"

definition route_finalize :: "'w ports \<Rightarrow> route_claim \<Rightarrow> ('w \<times> db, unit) act" where
  "route_finalize P c =
     try_act (void (repo_call3 P (complete_route c)))
       (\<lambda>e. if e = PublicRouteClaimLostError then raise EdgeFinalizeRejectedError else raise e)"

definition process_route ::
    "'w ports \<Rightarrow> ('w \<times> db) route_worker \<Rightarrow> route_claim \<Rightarrow> ('w \<times> db, unit) act" where
  "process_route P W c =
     (let route = rtc_route c; heartbeat = route_heartbeat P c (rw_lease_duration W) in
      seq_act
        (if rt_desired_state route = ENABLED
         then rw_ensure_gateway_attached W (rt_project_id route) heartbeat else ret ())
       (bind_act applied_routes (\<lambda>routes.
        bind_act (lift_sum (sequence_results
            (map applied_target (filter (\<lambda>r. rt_applied_hostname r \<noteq> None) routes)))) (\<lambda>applied.
          rw_apply W (planned_targets route applied) (Some (planned_change route)) heartbeat
            (route_fence P c (rw_lease_duration W) (applied_snapshot routes))
            (route_finalize P c) False))))"

definition route_failed ::
    "'x ports \<Rightarrow> ('x \<times> db) route_worker \<Rightarrow> (bool \<Rightarrow> ('x \<times> db, unit) act) \<Rightarrow> route_claim \<Rightarrow> exn \<Rightarrow>
     ('x \<times> db, unit) act" where
  "route_failed P W set_flag c e =
     (case e of
        EdgeFinalizeRejectedError \<Rightarrow> ret ()
      | PublicRouteClaimLostError \<Rightarrow> ret ()
      | PublicRouteSnapshotChangedError \<Rightarrow>
          unless_lost (bind_act (get_act (p_clock P)) (\<lambda>now.
            void (repo_call3 P (retry_route c now ''ROUTING_SNAPSHOT_CHANGED''))))
      | RuntimeFailure f \<Rightarrow>
          if rf_code f \<in> set [''GATEWAY_START_FAILED''] then defer_not_ready P W c (rf_code f)
          else route_handle_failure P W c (rf_code f) (rf_retryable f) False
      | EdgeRuntimeError code retryable uncertain \<Rightarrow>
          seq_act (if code = ''EDGE_FINALIZE_UNCERTAIN'' then set_flag True else ret ())
            (route_handle_failure P W c code retryable uncertain)
      | _ \<Rightarrow> route_handle_failure P W c ''UNEXPECTED_ROUTING_FAILURE'' False False)"

definition route_claim_act ::
    "'w ports \<Rightarrow> string \<Rightarrow> time \<Rightarrow> ('w \<times> db, route_claim option) act" where
  "route_claim_act P worker lease =
     bind_act (get_act (p_uuid P)) (\<lambda>token.
     bind_act (get_act (p_locked P)) (\<lambda>locked.
     bind_act (get_act (p_clock P)) (\<lambda>t1.
     repo_call P (\<lambda>t2. route_claim_next worker lease locked token t1 t2))))"

definition route_run_once ::
    "(files \<times> bool \<times> 'x) ports \<Rightarrow> 'x routing_state route_worker \<Rightarrow> ('x routing_state, bool) act" where
  "route_run_once P W =
     bind_act get_required (\<lambda>required.
     bind_act (if required then reconcile_startup W else ret True) (\<lambda>ready.
       if \<not> ready then ret False
       else seq_act (set_required False)
         (bind_act (route_claim_act P (rw_worker_id W) (rw_lease_duration W)) (\<lambda>claim. case claim of
            None \<Rightarrow> ret False
          | Some c \<Rightarrow>
              seq_act (try_act (process_route P W c) (route_failed P W set_required c)) (ret True)))))"

end
