(* ===== verification/Route_Lifecycle.thy ===== *)
theory Route_Lifecycle
  imports Route_Worker
begin

text \<open>
  The transactions of the route repository as one step relation, and what every run of them
  keeps: the invariant of the two tables, and revisions that only grow, which is what fences
  an old claim off.
\<close>

section \<open>Steps\<close>

text \<open>The service asks for hostnames of the edge's form only; \<open>elsewhere\<close> are the transactions of
  the other repositories.\<close>

inductive route_step :: "db \<Rightarrow> db \<Rightarrow> bool" where
  enable: "hostname_matches h \<Longrightarrow> set_enabled i s h now d = Inr (r, d') \<Longrightarrow> route_step d d'"
| disable: "disable_route i now d = Inr (r, d') \<Longrightarrow> route_step d d'"
| deletion: "disable_for_deletion i now d = Inr (r', d') \<Longrightarrow> route_step d d'"
| wake: "wake_pending i now d = Inr ((), d') \<Longrightarrow> route_step d d'"
| claim: "t2 < t1 + l \<Longrightarrow> route_claim_next w l locked t t1 t2 d = Inr (c', d') \<Longrightarrow> route_step d d'"
| renew: "0 < l \<Longrightarrow> renew_route c l now d = Inr (e, d') \<Longrightarrow> route_step d d'"
| complete: "complete_route c t1 t2 t3 d = Inr (r, d') \<Longrightarrow> route_step d d'"
| reschedule: "reschedule_route c at code t1 t2 t3 d = Inr (r, d') \<Longrightarrow> route_step d d'"
| fail: "fail_route c code b t1 t2 t3 d = Inr (r, d') \<Longrightarrow> route_step d d'"
| elsewhere: "t_routes d' = t_routes d \<Longrightarrow> t_route_jobs d' = t_route_jobs d \<Longrightarrow> route_step d d'"

inductive_cases route_stepE: "route_step d d'"

section \<open>One route at a time\<close>

text \<open>What a step does to the tables: nothing, a new route, or a change of one route and its
  job that does not lower the revision, and keeps the wish of the revision it keeps.\<close>

definition same_wish :: "public_route \<Rightarrow> public_route \<Rightarrow> bool" where
  "same_wish r s = (rt_hostname s = rt_hostname r \<and> rt_desired_state s = rt_desired_state r)"

definition later_wish :: "public_route \<Rightarrow> public_route \<Rightarrow> bool" where
  "later_wish r s =
     (rt_desired_revision r < rt_desired_revision s \<or>
      rt_desired_revision r = rt_desired_revision s \<and> same_wish r s)"

lemma later_wish_refl [simp]: "later_wish r r"
  by (simp add: later_wish_def same_wish_def)

lemma later_wish_trans: "later_wish r s \<Longrightarrow> later_wish s t \<Longrightarrow> later_wish r t"
  by (auto simp: later_wish_def same_wish_def)

text \<open>The hostnames a change may leave behind.\<close>

definition names_from :: "public_route \<Rightarrow> public_route \<Rightarrow> bool" where
  "names_from r s =
     ((rt_hostname s = rt_hostname r \<or> hostname_matches (rt_hostname s)) \<and>
      rt_applied_hostname s \<in> {rt_applied_hostname r, None, Some (rt_hostname r)})"

text \<open>While its project is being deleted a route whose removal has been applied is left alone.\<close>

definition project_fenced :: "db \<Rightarrow> uuid \<Rightarrow> bool" where
  "project_fenced d i = (\<exists>p. project_of d i = Some p \<and> prj_status p = P_DELETING)"

definition rests :: "bool \<Rightarrow> public_route \<Rightarrow> public_route \<Rightarrow> bool" where
  "rests fenced r s = (fenced \<and> rt_desired_state r = DISABLED \<and> rt_status r = R_INACTIVE \<longrightarrow> s = r)"

lemma rests_simps [simp]:
  "rests False r s" "rests b r r" "rt_status r = R_APPLYING \<Longrightarrow> rests b r s"
  by (simp_all add: rests_def)

definition changes_route :: "db \<Rightarrow> db \<Rightarrow> bool" where
  "changes_route d d' =
     (t_routes d' = t_routes d \<and> t_route_jobs d' = t_route_jobs d \<or>
      (\<exists>r now. hostname_matches (rt_hostname r) \<and> rt_applied_hostname r = None \<and> route_of d (rt_project_id r) = None \<and>
         \<not> project_fenced d (rt_project_id r) \<and> t_routes d' = t_routes d @ [r] \<and>
         t_route_jobs d' = t_route_jobs d @ [new_route_job (rt_project_id r) (rt_desired_revision r) now]) \<or>
      (\<exists>i r f g. route_of d i = Some r \<and> rt_project_id (f r) = i \<and>
         later_wish r (f r) \<and> names_from r (f r) \<and> rests (project_fenced d i) r (f r) \<and>
         t_routes d' = upd (\<lambda>x. rt_project_id x = i) f (t_routes d) \<and>
         t_route_jobs d' = upd (\<lambda>j. rj_project_id j = i) g (t_route_jobs d)))"

lemma changes_none: "t_routes d' = t_routes d \<Longrightarrow> t_route_jobs d' = t_route_jobs d \<Longrightarrow> changes_route d d'"
  by (simp add: changes_route_def)

lemma changes_new:
  "hostname_matches (rt_hostname r) \<Longrightarrow> rt_applied_hostname r = None \<Longrightarrow>
   route_of d (rt_project_id r) = None \<Longrightarrow> \<not> project_fenced d (rt_project_id r) \<Longrightarrow> t_routes d' = t_routes d @ [r] \<Longrightarrow>
   t_route_jobs d' = t_route_jobs d @ [new_route_job (rt_project_id r) (rt_desired_revision r) now] \<Longrightarrow>
   changes_route d d'"
  unfolding changes_route_def by (rule disjI2, rule disjI1) (auto simp: fetch_None_iff)

lemma changes_move:
  "route_of d i = Some r \<Longrightarrow> rt_project_id (f r) = i \<Longrightarrow> later_wish r (f r) \<Longrightarrow>
   names_from r (f r) \<Longrightarrow> rests (project_fenced d i) r (f r) \<Longrightarrow>
   changes_route d (route_move i f g d)"
  unfolding changes_route_def by (rule disjI2, rule disjI2) auto

text \<open>\<open>set_enabled\<close> from its result: the guards it passed, and the three ways it ends.\<close>

lemma set_enabled_Inr:
  assumes ok: "routes_ok d" and run: "set_enabled i s h now d = Inr (x, d')"
  obtains "hostname_free i h d" "\<And>p. project_of d i = Some p \<Longrightarrow> prj_status p \<noteq> P_DELETING"
    "route_of d i = None" "x = new_route i s h now" "route_checks x" "d' = route_add x now d"
  | "hostname_free i h d" "\<And>p. project_of d i = Some p \<Longrightarrow> prj_status p \<noteq> P_DELETING"
    "route_of d i = Some x" "settled_enabled x h" "rt_status x \<in> set [R_PENDING, R_APPLYING, R_ACTIVE]" "d' = d"
  | r n where "hostname_free i h d" "\<And>p. project_of d i = Some p \<Longrightarrow> prj_status p \<noteq> P_DELETING"
    "route_of d i = Some r" "n = next_revision (settled_enabled r h) r"
    "x = rt_enable s h n now r" "route_checks x"
    "d' = route_move i (rt_enable s h n now) (rj_reset n now) d"
proof -
  have alive: "prj_status p \<noteq> P_DELETING" if "project_of d i = Some p" for p
    using run set_enabled_refused(1) [OF that] by fastforce
  have free: "hostname_free i h d"
    using run alive by (cases "hostname_free i h d"; cases "project_of d i")
      (auto simp: set_enabled_refused set_enabled_def tx_seq_def tx_bind_def lock_project_mutation_def
        tx_raise_if_def tx_read_def assert_hostname_available_eq)
  have lock: "lock_project_mutation i d = Inr ((), d)"
    using alive by (auto simp: lock_project_mutation_def tx_raise_if_def split: option.splits)
  show ?thesis
  proof (cases "route_of d i")
    case None
    have id: "rt_project_id (new_route i s h now) = i" "rt_desired_revision (new_route i s h now) = 1"
      by (simp_all add: new_route_def)
    have "\<not> exists_row (\<lambda>j. rj_project_id j = i) (t_route_jobs d)"
    proof -
      have "i \<notin> rt_project_id ` set (t_routes d)" using None by (auto simp: fetch_None_iff)
      then show ?thesis using routes_okD(3) [OF ok] by (auto simp: exists_row_iff)
    qed
    then have "x = new_route i s h now \<and> route_checks x \<and> d' = route_add x now d"
      using run None free id
      by (auto simp: set_enabled_def tx_seq_def tx_bind_def lock tx_read_def assert_hostname_available_eq
          insert_route_def upsert_route_job_def tx_ret_def route_add_def
          split: if_splits sum.splits prod.splits exn.splits)
    then show ?thesis using that(1) [OF free alive None] by blast
  next
    case (Some r)
    let ?n = "next_revision (settled_enabled r h) r"
    show ?thesis
    proof (cases "settled_enabled r h \<and> rt_status r \<in> set [R_PENDING, R_APPLYING, R_ACTIVE]")
      case True
      then have "x = r \<and> d' = d"
        using run Some free
        by (auto simp: set_enabled_def tx_seq_def tx_bind_def lock tx_read_def assert_hostname_available_eq
            tx_ret_def Let_def settled_enabled_def)
      then show ?thesis using that(2) [OF free alive] Some True by blast
    next
      case False
      have "replace_route i (rt_enable s h ?n now) ?n now d = Inr (x, d')"
        using run Some free False
        by (auto simp: set_enabled_def tx_seq_def tx_bind_def lock tx_read_def assert_hostname_available_eq
            tx_ret_def Let_def settled_enabled_def next_revision_def
            split: if_splits sum.splits exn.splits)
      moreover have "route_checks (rt_enable s h ?n now r)"
      proof (rule ccontr)
        assume "\<not> ?thesis"
        then have "update_route (\<lambda>r. rt_project_id r = i) (rt_enable s h ?n now) d = Inl CheckViolation"
          using Some by (simp add: update_route_def returning_def)
        with \<open>replace_route i (rt_enable s h ?n now) ?n now d = Inr (x, d')\<close> show False
          by (simp add: replace_route_def tx_bind_def)
      qed
      moreover from this have "replace_route i (rt_enable s h ?n now) ?n now d =
          Inr (rt_enable s h ?n now r, route_move i (rt_enable s h ?n now) (rj_reset ?n now) d)"
        by (intro replace_route_eq [OF ok Some] enabled_apart [OF ok Some free])
          (simp_all add: rt_enable_def route_ofD [OF Some])
      ultimately have "x = rt_enable s h ?n now r" "route_checks x"
        "d' = route_move i (rt_enable s h ?n now) (rj_reset ?n now) d" by simp_all
      then show ?thesis using that(3) [OF free alive Some refl] by blast
    qed
  qed
qed

lemma set_enabled_ok:
  assumes ok: "routes_ok d" and name: "hostname_matches h" and run: "set_enabled i s h now d = Inr (x, d')"
  shows "routes_ok d' \<and> changes_route d d'"
proof (rule set_enabled_Inr [OF ok run])
  assume alive: "\<And>p. project_of d i = Some p \<Longrightarrow> prj_status p \<noteq> P_DELETING"
    and N: "hostname_free i h d" "route_of d i = None" "x = new_route i s h now" "route_checks x"
    "d' = route_add x now d"
  have id: "rt_project_id (new_route i s h now) = i" by (simp add: new_route_def)
  have "routes_ok d'" using route_add_ok [OF ok N(2)] N by simp
  moreover have "changes_route d d'"
    by (rule changes_new [where r = "new_route i s h now" and now = now])
      (simp_all add: id N(2,3,5) route_add_def project_fenced_def alive, simp_all add: new_route_def name)
  ultimately show "routes_ok d' \<and> changes_route d d'" ..
next
  assume "d' = d"
  then show "routes_ok d' \<and> changes_route d d'" using ok by (simp add: changes_none)
next
  fix r n
  assume alive: "\<And>p. project_of d i = Some p \<Longrightarrow> prj_status p \<noteq> P_DELETING"
    and N: "hostname_free i h d" "route_of d i = Some r" "n = next_revision (settled_enabled r h) r"
    "x = rt_enable s h n now r" "route_checks x" "d' = route_move i (rt_enable s h n now) (rj_reset n now) d"
  note R = route_ofD [OF N(2)]
  have f: "rt_project_id (rt_enable s h n now r) = i" "rt_desired_revision (rt_enable s h n now r) = n"
    "rt_status (rt_enable s h n now r) = R_PENDING" using R by (simp_all add: rt_enable_def)
  have checks: "route_checks (rt_enable s h n now r)" using N(4,5) by simp
  have "routes_ok d'"
    unfolding N(6) by (rule replace_route_ok [where f = "rt_enable s h n now", OF ok N(2) f checks
        enabled_apart [OF ok N(2,1)]])
  have "later_wish r (rt_enable s h n now r)"
    using N(3) by (simp add: next_revision_def later_wish_def same_wish_def
        settled_enabled_def rt_enable_def)
  moreover have "\<not> project_fenced d i" using alive by (auto simp: project_fenced_def)
  ultimately have "changes_route d d'"
    unfolding N(6) by (intro changes_move [where f = "rt_enable s h n now", OF N(2) f(1)])
      (simp_all add: names_from_def rt_enable_def name)
  with \<open>routes_ok d'\<close> show "routes_ok d' \<and> changes_route d d'" ..
qed

lemma disable_current_ok:
  assumes ok: "routes_ok d" and r: "route_of d i = Some r" and run: "disable_current i now r d = Inr (x, d')"
  shows "routes_ok d' \<and> changes_route d d'"
proof -
  let ?n = "next_revision (rt_desired_state r = DISABLED) r"
  from run disable_current_eq [OF ok r, of now]
  have "d' = d \<or> (rt_desired_state r = DISABLED \<longrightarrow> rt_status r \<noteq> R_INACTIVE) \<and>
      d' = route_move i (rt_disable ?n now) (rj_reset ?n now) d"
    by (auto simp: Let_def split: if_splits)
  moreover have "routes_ok (route_move i (rt_disable ?n now) (rj_reset ?n now) d)"
    by (rule desired_change_ok(1) [OF ok r])
  moreover have "changes_route d (route_move i (rt_disable ?n now) (rj_reset ?n now) d)"
    if "rt_desired_state r = DISABLED \<longrightarrow> rt_status r \<noteq> R_INACTIVE"
    by (rule changes_move [OF r])
      (use that in \<open>auto simp: rt_disable_def route_ofD [OF r] next_revision_def later_wish_def same_wish_def
         names_from_def rests_def\<close>)
  ultimately show ?thesis using ok changes_none by auto
qed

lemma disable_route_ok:
  assumes ok: "routes_ok d" and run: "disable_route i now d = Inr (x, d')"
  shows "routes_ok d' \<and> changes_route d d'"
proof -
  obtain r where r: "route_of d i = Some r" "disable_current i now r d = Inr (x, d')"
    using run by (auto simp: disable_route_def lock_project_mutation_def tx_raise_if_def split: option.splits if_splits)
  show ?thesis by (rule disable_current_ok [OF ok r])
qed

lemma disable_for_deletion_ok:
  assumes ok: "routes_ok d" and run: "disable_for_deletion i now d = Inr (x, d')"
  shows "routes_ok d' \<and> changes_route d d'"
proof -
  have "d' = d \<or> (\<exists>r y. route_of d i = Some r \<and> disable_current i now r d = Inr (y, d'))"
    using run by (auto simp: disable_for_deletion_def split: option.splits if_splits)
  then show ?thesis using ok changes_none disable_current_ok [OF ok] by blast
qed

lemma wake_pending_ok:
  assumes ok: "routes_ok d" and run: "wake_pending i now d = Inr ((), d')"
  shows "routes_ok d' \<and> changes_route d d'"
proof -
  let ?g = "\<lambda>j. j\<lparr>rj_available_at := min (rj_available_at j) now, rj_updated_at := now\<rparr>"
  obtain P where jobs: "t_route_jobs d' = upd P ?g (t_route_jobs d)" "t_routes d' = t_routes d"
    and key: "\<And>j. P j \<Longrightarrow> rj_project_id j = i"
    using run by (auto simp: wake_pending_def Let_def)
  have same: "rj_project_id (?g j) = rj_project_id j" "rj_row_ok (?g j) = rj_row_ok j"
    "route_pair_ok r (?g j) = route_pair_ok r j" for r j
    by (simp_all add: rj_row_ok_def route_pair_ok_def)
  have keys: "map rj_project_id (t_route_jobs d') = map rj_project_id (t_route_jobs d)"
    unfolding jobs by (rule upd_keys) (rule same)
  have set_keys: "rj_project_id ` set (t_route_jobs d') = rj_project_id ` set (t_route_jobs d)"
    using arg_cong [OF keys, of set] by simp
  have job: "\<exists>k\<in>set (t_route_jobs d). j = k \<or> j = ?g k" if "j \<in> set (t_route_jobs d')" for j
    using that by (auto simp: jobs set_upd)
  have "routes_ok d'"
    unfolding routes_ok_def route_keys_ok_def jobs(2) keys set_keys
  proof (intro conjI ballI impI)
    fix j assume "j \<in> set (t_route_jobs d')"
    from job [OF this] show "rj_row_ok j" using routes_okD(5) [OF ok] same(2) by blast
  next
    fix r j assume r: "r \<in> set (t_routes d)" and j: "j \<in> set (t_route_jobs d')" "rj_project_id j = rt_project_id r"
    from job [OF j(1)] obtain k where k: "k \<in> set (t_route_jobs d)" "j = k \<or> j = ?g k" by blast
    then have "rj_project_id k = rt_project_id r" using j(2) same(1) by metis
    then have "route_pair_ok r k" by (rule routes_okD(6) [OF ok r k(1)])
    then show "route_pair_ok r j" using k(2) same(3) by blast
  qed (use routes_okD [OF ok] in auto)
  moreover have "changes_route d d'"
  proof (cases "route_of d i")
    case None
    have "\<not> P j" if j: "j \<in> set (t_route_jobs d)" for j
    proof
      assume "P j"
      then have "rj_project_id j = i" by (rule key)
      moreover obtain r where "r \<in> set (t_routes d)" "rt_project_id r = rj_project_id j"
        by (rule route_of_job [OF ok j])
      ultimately show False using None by (auto simp: fetch_None_iff)
    qed
    then have "t_route_jobs d' = t_route_jobs d" unfolding jobs by (rule upd_id)
    then show ?thesis using jobs(2) by (intro changes_none)
  next
    case (Some r)
    let ?h = "\<lambda>j. if P j then ?g j else j"
    have "upd P ?g (t_route_jobs d) = upd (\<lambda>j. rj_project_id j = i) ?h (t_route_jobs d)"
      by (auto simp: upd_def key)
    then show ?thesis
      unfolding changes_route_def using Some jobs route_ofD [OF Some]
      by (intro disjI2, intro exI [of _ i] exI [of _ r] exI [of _ "\<lambda>r. r"] exI [of _ ?h]) (simp add: names_from_def)
  qed
  ultimately show ?thesis ..
qed

lemma claim_step_ok:
  assumes ok: "routes_ok d" and t: "t2 < t1 + l"
    and run: "route_claim_next w l locked t t1 t2 d = Inr (c', d')"
  shows "routes_ok d' \<and> changes_route d d'"
proof (rule route_claim_next_live [OF ok t run])
  assume "Inr (c', d') = (Inr (None, d) :: exn + _)"
  then show ?thesis using ok by (simp add: changes_none)
next
  fix j r
  assume A: "r \<in> set (t_routes d)" "rt_project_id r = rj_project_id j"
    and j: "j \<in> set (t_route_jobs d)" "rj_candidate t1 locked d j"
    and eq: "Inr (c', d') = (Inr (Some \<lparr>rtc_route = rt_claimed t2 r, rtc_token = t, rtc_worker_id = w,
           rtc_desired_revision = rt_desired_revision r, rtc_attempts = rj_attempts j + 1,
           rtc_lease_expires_at = t1 + l\<rparr>,
         route_move (rj_project_id j) (rt_claimed t2) (rj_take w t (t1 + l) t1) d) :: exn + _)"
    and ok': "routes_ok (route_move (rj_project_id j) (rt_claimed t2) (rj_take w t (t1 + l) t1) d)"
  have r: "route_of d (rj_project_id j) = Some r"
    using fetch_key [OF routes_okD(1) [OF ok] A(1)] A(2) by simp
  have "route_agrees (rj_state j) (rt_status r)"
    using routes_okD(6) [OF ok A(1) j(1)] A(2) by (simp add: route_pair_ok_def)
  then have status: "rt_status r \<noteq> R_INACTIVE" using j(2) by (cases "rj_state j") (auto simp: rj_candidate_def rj_claimable_def)
  have "changes_route d (route_move (rj_project_id j) (rt_claimed t2) (rj_take w t (t1 + l) t1) d)"
    by (rule changes_move [OF r]) (simp_all add: status rests_def rt_claimed_def A(2) later_wish_def same_wish_def names_from_def)
  then show ?thesis using eq ok' by simp
qed

text \<open>The four methods of a claim: each is refused, or moves the claim's own route.\<close>

lemma renew_step_ok:
  assumes ok: "routes_ok d" and l: "0 < l" and run: "renew_route c l now d = Inr (e, d')"
  shows "routes_ok d' \<and> changes_route d d'"
proof -
  have live: "route_claim_live c now d" using run renew_route_lost [of c now d l] by fastforce
  obtain j r where r: "route_of d (rt_project_id (rtc_route c)) = Some r"
    by (rule live_route_rows [OF ok live]) (rule that, assumption)
  have "changes_route d (route_move (rt_project_id (rtc_route c)) (\<lambda>r. r) (rj_extend (now + l) now) d)"
    by (rule changes_move [OF r]) (simp_all add: route_ofD [OF r] names_from_def)
  then show ?thesis using renew_route_live [OF ok live l] run by simp
qed

lemma complete_step_ok:
  assumes ok: "routes_ok d" and run: "complete_route c t1 t2 t3 d = Inr (x, d')"
  shows "routes_ok d' \<and> changes_route d d'"
proof -
  have "route_live3 c t1 t2 t3 d" using run route_claim_lost(1) [OF ok, of c t1 t2 t3] by fastforce
  then have live: "route_claim_live c t1 d" "route_claim_live c t2 d" "route_claim_live c t3 d"
    by (simp_all add: route_live3_def)
  obtain j r where r: "route_of d (rt_project_id (rtc_route c)) = Some r" and busy: "rt_status r = R_APPLYING"
    by (rule live_route_rows [OF ok live(1)]) (rule that, assumption+)
  have "changes_route d (route_move (rt_project_id (rtc_route c)) (rt_applied r t2) (rj_finished RJ_SUCCEEDED None t3) d)"
    by (rule changes_move [OF r]) (simp_all add: route_ofD [OF r] busy rt_applied_def later_wish_def same_wish_def names_from_def)
  then show ?thesis using complete_route_live [OF ok live r] run by simp
qed

lemma stop_step_ok:
  assumes ok: "routes_ok d"
    and st: "st \<noteq> R_ACTIVE" "st \<noteq> R_INACTIVE"
    and g: "\<And>j. rj_project_id (g j) = rj_project_id j" "\<And>j. rj_desired_revision (g j) = rj_desired_revision j"
      "\<And>j. rj_row_ok j \<Longrightarrow> rj_row_ok (g j)" "\<And>j. route_agrees (rj_state (g j)) st"
    and run: "tx_seq (route_lock_claim c t1) (tx_bind (update_claimed_route c (rt_stopped st code t2) t2)
       (\<lambda>r. tx_seq (update_claimed_job c g t3) (tx_ret r))) d = Inr (x, d')"
  shows "routes_ok d' \<and> changes_route d d'"
proof -
  have "route_live3 c t1 t2 t3 d"
  proof (rule ccontr)
    assume lost: "\<not> ?thesis"
    have "tx_seq (route_lock_claim c t1) (tx_bind (update_claimed_route c (rt_stopped st code t2) t2)
        (\<lambda>r. tx_seq (update_claimed_job c g t3) (tx_ret r))) d = Inl PublicRouteClaimLostError"
      by (rule route_claim_lost_shape [OF ok lost]) (rule stopped_keeps [OF ok _ _ st])
    with run show False by simp
  qed
  then have live: "route_claim_live c t1 d" "route_claim_live c t2 d" "route_claim_live c t3 d"
    by (simp_all add: route_live3_def)
  obtain j r where r: "route_of d (rt_project_id (rtc_route c)) = Some r" and busy: "rt_status r = R_APPLYING"
    by (rule live_route_rows [OF ok live(1)]) (rule that, assumption+)
  note S = stop_route_live [where g = g, OF ok live r st g, of code]
  have "changes_route d (route_move (rt_project_id (rtc_route c)) (rt_stopped st code t2) g d)"
    by (rule changes_move [OF r]) (simp_all add: route_ofD [OF r] busy rt_stopped_def later_wish_def same_wish_def names_from_def)
  then show ?thesis using S run by simp
qed

lemma reschedule_step_ok:
  "routes_ok d \<Longrightarrow> reschedule_route c at code t1 t2 t3 d = Inr (x, d') \<Longrightarrow> routes_ok d' \<and> changes_route d d'"
  unfolding reschedule_route_def
  by (rule stop_step_ok [where g = "rj_again at code t3" and st = R_PENDING])
    (auto simp: rj_again_def rj_row_ok_def)

lemma fail_step_ok:
  "routes_ok d \<Longrightarrow> fail_route c code b t1 t2 t3 d = Inr (x, d') \<Longrightarrow> routes_ok d' \<and> changes_route d d'"
  unfolding fail_route_def finish_route_job_def
  by (rule stop_step_ok [where g = "rj_finished RJ_FAILED (Some code) t3"
        and st = "if b then R_UNCERTAIN else R_FAILED"])
    (auto simp: rj_finished_def rj_row_ok_def)

lemma routes_ok_cong:
  "t_routes d' = t_routes d \<Longrightarrow> t_route_jobs d' = t_route_jobs d \<Longrightarrow> routes_ok d' = routes_ok d"
  by (simp add: routes_ok_def route_keys_ok_def)

lemma route_step_changes:
  assumes "route_step d d'" "routes_ok d"
  shows "routes_ok d' \<and> changes_route d d'"
  using assms(1)
proof cases
  case (elsewhere)
  then show ?thesis using assms(2) routes_ok_cong changes_none by blast
qed ((drule (1) set_enabled_ok [OF assms(2)] | drule disable_route_ok [OF assms(2)] |
    drule disable_for_deletion_ok [OF assms(2)] | drule wake_pending_ok [OF assms(2)] |
    drule (1) claim_step_ok [OF assms(2)] | drule (1) renew_step_ok [OF assms(2)] |
    drule complete_step_ok [OF assms(2)] | drule reschedule_step_ok [OF assms(2)] |
    drule fail_step_ok [OF assms(2)]), assumption)+

lemma route_steps_ok:
  "route_step\<^sup>*\<^sup>* d d' \<Longrightarrow> routes_ok d \<Longrightarrow> routes_ok d'"
  by (induction rule: rtranclp_induct) (auto dest: route_step_changes)

definition no_routes :: "db \<Rightarrow> bool" where
  "no_routes d = (t_routes d = [] \<and> t_route_jobs d = [])"

definition route_reachable :: "db \<Rightarrow> bool" where
  "route_reachable d = (\<exists>d0. no_routes d0 \<and> route_step\<^sup>*\<^sup>* d0 d)"

lemma no_routes_ok: "no_routes d \<Longrightarrow> routes_ok d"
  by (simp add: no_routes_def routes_ok_def route_keys_ok_def)

lemma route_reachable_ok: "route_reachable d \<Longrightarrow> routes_ok d"
  using no_routes_ok route_steps_ok by (auto simp: route_reachable_def)

lemma route_reachable_step: "route_reachable d \<Longrightarrow> route_step d d' \<Longrightarrow> route_reachable d'"
  by (auto simp: route_reachable_def intro: rtranclp.rtrancl_into_rtrancl)

section \<open>Revisions only grow\<close>

lemma wish_step:
  assumes ok: "routes_ok d" and step: "route_step d d'" and r: "route_of d i = Some r"
  shows "\<exists>r'. route_of d' i = Some r' \<and> later_wish r r'"
  using conjunct2 [OF route_step_changes [OF step ok]] unfolding changes_route_def
proof (elim disjE exE conjE)
  fix x assume "t_routes d' = t_routes d @ [x]"
  then show ?thesis using r by (simp add: fetch_append)
next
  fix k x f
  assume A: "route_of d k = Some x" "rt_project_id (f x) = k" "later_wish x (f x)"
    "t_routes d' = upd (\<lambda>x. rt_project_id x = k) f (t_routes d)"
  note D = routes_okD(1) [OF ok]
  have keys: "map rt_project_id (t_routes d') = map rt_project_id (t_routes d)"
    unfolding A(4) by (rule upd_one_key [where k = rt_project_id and f = f, OF D _ _ A(2)])
      (use route_ofD [OF A(1)] in auto)
  let ?y = "if i = k then f x else r"
  have y: "?y \<in> set (t_routes d')"
    using route_ofD [OF A(1)] route_ofD [OF r] by (simp add: A(4) set_upd)
  have id: "rt_project_id ?y = i" using A(2) route_ofD [OF r] by simp
  have "distinct (map rt_project_id (t_routes d'))" using D by (simp only: keys)
  from fetch_key [OF this y] have "route_of d' i = Some ?y" by (simp only: id)
  moreover have "later_wish r ?y"
    using A(1,3) r by auto
  ultimately show ?thesis by blast
qed (use r in simp)

lemma wish_steps:
  "route_step\<^sup>*\<^sup>* d d' \<Longrightarrow> routes_ok d \<Longrightarrow> route_of d i = Some r \<Longrightarrow>
   \<exists>r'. route_of d' i = Some r' \<and> later_wish r r'"
proof (induction rule: rtranclp_induct)
  case (step e f)
  then obtain r1 where r1: "route_of e i = Some r1" "later_wish r r1" by blast
  have "routes_ok e" by (rule route_steps_ok [OF step.hyps(1) step.prems(1)])
  from wish_step [OF this step.hyps(2) r1(1)] r1(2) show ?case by (blast intro: later_wish_trans)
qed auto

text \<open>A claim of an older revision is dead at every instant.\<close>

lemma old_revision_not_live:
  assumes "routes_ok d" "route_of d (rt_project_id (rtc_route c)) = Some r"
    and "rtc_desired_revision c < rt_desired_revision r"
  shows "\<not> route_claim_live c now d"
proof
  assume "route_claim_live c now d"
  then obtain j r' where "route_of d (rt_project_id (rtc_route c)) = Some r'"
    "rt_desired_revision r' = rtc_desired_revision c"
    by (rule live_route_rows [OF assms(1)]) (rule that, assumption+)
  with assms(2,3) show False by simp
qed

section \<open>The wish of a claim\<close>

lemma claim_next_claims:
  assumes ok: "routes_ok d" and t: "t2 < t1 + l"
    and run: "route_claim_next w l locked t t1 t2 d = Inr (Some c, d')"
  shows "route_of d' (rt_project_id (rtc_route c)) = Some (rtc_route c) \<and>
    rt_desired_revision (rtc_route c) = rtc_desired_revision c"
proof (rule route_claim_next_live [OF ok t run])
  fix j r
  assume A: "r \<in> set (t_routes d)" "rt_project_id r = rj_project_id j"
    and eq: "Inr (Some c, d') = (Inr (Some \<lparr>rtc_route = rt_claimed t2 r, rtc_token = t, rtc_worker_id = w,
           rtc_desired_revision = rt_desired_revision r, rtc_attempts = rj_attempts j + 1,
           rtc_lease_expires_at = t1 + l\<rparr>,
         route_move (rj_project_id j) (rt_claimed t2) (rj_take w t (t1 + l) t1) d) :: exn + _)"
  have c: "rtc_route c = rt_claimed t2 r" "rtc_desired_revision c = rt_desired_revision r"
    and d': "t_routes d' = upd (\<lambda>x. rt_project_id x = rj_project_id j) (rt_claimed t2) (t_routes d)"
    using eq by simp_all
  have id: "rt_project_id (rt_claimed t2 r) = rj_project_id j" by (simp add: rt_claimed_def A(2))
  have "distinct (map rt_project_id (t_routes d'))"
    unfolding d' using routes_okD(1) [OF ok] by (simp add: rt_claimed_def)
  moreover have "rt_claimed t2 r \<in> set (t_routes d')" unfolding d' using A by (auto simp: set_upd)
  ultimately have "route_of d' (rt_project_id (rt_claimed t2 r)) = Some (rt_claimed t2 r)" by (rule fetch_key)
  then show ?thesis by (simp add: c rt_claimed_def)
qed simp

lemma live_claim_wish:
  assumes ok: "routes_ok d0" and t: "t2 < t1 + l"
    and run: "route_claim_next w l locked t t1 t2 d0 = Inr (Some c, d1)"
    and steps: "route_step\<^sup>*\<^sup>* d1 d" and live: "route_claim_live c now d"
  obtains r where "route_of d (rt_project_id (rtc_route c)) = Some r" "same_wish (rtc_route c) r"
proof -
  have ok1: "routes_ok d1" using claim_step_ok [OF ok t run] by simp
  note C = claim_next_claims [OF ok t run]
  obtain r where r: "route_of d (rt_project_id (rtc_route c)) = Some r" "later_wish (rtc_route c) r"
    using wish_steps [OF steps ok1 conjunct1 [OF C]] by blast
  obtain j r' where "route_of d (rt_project_id (rtc_route c)) = Some r'"
    "rt_desired_revision r' = rtc_desired_revision c"
    by (rule live_route_rows [OF route_steps_ok [OF steps ok1] live]) (rule that, assumption+)
  then have "rt_desired_revision r = rt_desired_revision (rtc_route c)" using r(1) C by simp
  then show ?thesis using that [OF r(1)] r(2) by (simp add: later_wish_def)
qed

section \<open>A removed route of a project that is being deleted\<close>

lemma deletion_applied_step:
  assumes ok: "routes_ok d" and step: "route_step d d'"
    and fenced: "project_fenced d i" and applied: "deletion_is_applied i d"
  shows "deletion_is_applied i d'"
  using conjunct2 [OF route_step_changes [OF step ok]] unfolding changes_route_def
proof (elim disjE exE conjE)
  fix x assume "t_routes d' = t_routes d @ [x]" "\<not> project_fenced d (rt_project_id x)"
  then show ?thesis using applied fenced by (auto simp: deletion_is_applied_def exists_row_iff)
next
  fix k x f
  assume A: "route_of d k = Some x" "rt_project_id (f x) = k" "rests (project_fenced d k) x (f x)"
    "t_routes d' = upd (\<lambda>x. rt_project_id x = k) f (t_routes d)"
  note X = conjunct1 [OF route_ofD [OF A(1)]] conjunct2 [OF route_ofD [OF A(1)]]
  have "set (t_routes d') = {y \<in> set (t_routes d). rt_project_id y \<noteq> k} \<union> {f x}"
    unfolding A(4) by (rule set_upd_key [of rt_project_id, OF routes_okD(1) [OF ok] X])
  moreover have "f x = x" if "k = i"
    using A(3) fenced applied X that by (auto simp: rests_def deletion_is_applied_def exists_row_iff)
  ultimately show ?thesis
    using applied A(2) X by (cases "k = i") (auto simp: deletion_is_applied_def exists_row_iff)
qed (use applied in \<open>simp add: deletion_is_applied_def\<close>)

section \<open>Names of the edge's form\<close>

definition edge_names_ok :: "db \<Rightarrow> bool" where
  "edge_names_ok d =
     (\<forall>r\<in>set (t_routes d). hostname_matches (rt_hostname r) \<and>
        (\<forall>h. rt_applied_hostname r = Some h \<longrightarrow> hostname_matches h))"

lemma edge_names_change:
  assumes ok: "routes_ok d" and names: "edge_names_ok d" and c: "changes_route d d'"
  shows "edge_names_ok d'"
  using c unfolding changes_route_def
proof (elim disjE exE conjE)
  fix i r f
  assume r: "route_of d i = Some r" "names_from r (f r)"
    and d': "t_routes d' = upd (\<lambda>x. rt_project_id x = i) f (t_routes d)"
  note R = conjunct1 [OF route_ofD [OF r(1)]] conjunct2 [OF route_ofD [OF r(1)]]
  have "set (t_routes d') = {x \<in> set (t_routes d). rt_project_id x \<noteq> i} \<union> {f r}"
    unfolding d' by (rule set_upd_key [of rt_project_id, OF routes_okD(1) [OF ok] R])
  moreover have "hostname_matches (rt_hostname (f r)) \<and>
      (\<forall>h. rt_applied_hostname (f r) = Some h \<longrightarrow> hostname_matches h)"
    using names R(1) r(2) by (auto simp: edge_names_ok_def names_from_def)
  ultimately show ?thesis using names by (auto simp: edge_names_ok_def)
qed (use names in \<open>auto simp: edge_names_ok_def\<close>)

lemma edge_names_steps:
  "route_step\<^sup>*\<^sup>* d d' \<Longrightarrow> routes_ok d \<Longrightarrow> edge_names_ok d \<Longrightarrow> edge_names_ok d'"
proof (induction rule: rtranclp_induct)
  case (step e f)
  have "routes_ok e" by (rule route_steps_ok [OF step.hyps(1) step.prems(1)])
  then show ?case using edge_names_change route_step_changes [OF step.hyps(2)] step by blast
qed

lemma route_reachable_names: "route_reachable d \<Longrightarrow> edge_names_ok d"
  unfolding route_reachable_def
proof (elim exE conjE)
  fix d0 assume d0: "no_routes d0" "route_step\<^sup>*\<^sup>* d0 d"
  have "edge_names_ok d0" using d0(1) by (simp add: no_routes_def edge_names_ok_def)
  then show "edge_names_ok d" by (rule edge_names_steps [OF d0(2) no_routes_ok [OF d0(1)]])
qed

end
