(* ===== verification/Route_Passes.thy ===== *)
theory Route_Passes
  imports Route_Lifecycle
begin

text \<open>
  Passes of the routing worker: what they keep of the route tables and what they can raise,
  whatever the edge does; and the plan a pass hands to the edge.
\<close>

section \<open>Repository calls from a worker\<close>

definition route_tables_ok :: "'w \<times> db \<Rightarrow> bool" where
  "route_tables_ok s = routes_ok (snd s)"

lemma keeps_repo_call3:
  assumes "ports_keep I P"
    and "\<And>t1 t2 t3 w d a d'. I (w, d) \<Longrightarrow> m t1 t2 t3 d = Inr (a, d') \<Longrightarrow> I (w, d')"
  shows "keeps I (repo_call3 P m)"
proof -
  have "keeps I (get_act (p_clock P))" using assms(1) by (auto simp: ports_keep_def)
  then show ?thesis
    unfolding repo_call3_def by (intro keeps_bind keeps_repo_call [OF assms(1)]) (auto intro: assms(2))
qed

lemma raises_repo_call3:
  assumes "ports_keep I P"
    and "\<And>t1 t2 t3 w d e. I (w, d) \<Longrightarrow> m t1 t2 t3 d = Inl e \<Longrightarrow> e \<in> E"
    and "\<And>t1 t2 t3 w d a d'. I (w, d) \<Longrightarrow> m t1 t2 t3 d = Inr (a, d') \<Longrightarrow> I (w, d')"
  shows "raises_only E I (repo_call3 P m)"
proof -
  have clock: "keeps I (get_act (p_clock P))" using assms(1) by (auto simp: ports_keep_def)
  have calls: "keeps I (repo_call P (m t1 t2))" "raises_only E I (repo_call P (m t1 t2))" for t1 t2
    by (rule keeps_repo_call [OF assms(1)], erule (1) assms(3))
      (rule raises_repo_call [OF assms(1)], erule (1) assms(2))
  show ?thesis
    unfolding repo_call3_def by (intro raises_bind raises_get clock calls keeps_bind)
qed

lemma route_txs:
  assumes "route_tables_ok (w, d)"
  shows "0 < l \<Longrightarrow> renew_route c l now d = Inr (e, d') \<Longrightarrow> route_tables_ok (w, d')"
    "complete_route c t1 t2 t3 d = Inr (x, d') \<Longrightarrow> route_tables_ok (w, d')"
    "reschedule_route c at code t1 t2 t3 d = Inr (x, d') \<Longrightarrow> route_tables_ok (w, d')"
    "fail_route c code b t1 t2 t3 d = Inr (x, d') \<Longrightarrow> route_tables_ok (w, d')"
    "route_claim_next wk l locked t t1 t2 d = Inr (c', d') \<Longrightarrow> t2 < t1 + l \<Longrightarrow> route_tables_ok (w, d')"
proof -
  have ok: "routes_ok d" using assms by (simp add: route_tables_ok_def)
  note [simp] = route_tables_ok_def
  show "0 < l \<Longrightarrow> renew_route c l now d = Inr (e, d') \<Longrightarrow> route_tables_ok (w, d')"
    using renew_step_ok [OF ok] by simp
  show "complete_route c t1 t2 t3 d = Inr (x, d') \<Longrightarrow> route_tables_ok (w, d')"
    using complete_step_ok [OF ok] by simp
  show "reschedule_route c at code t1 t2 t3 d = Inr (x, d') \<Longrightarrow> route_tables_ok (w, d')"
    using reschedule_step_ok [OF ok] by simp
  show "fail_route c code b t1 t2 t3 d = Inr (x, d') \<Longrightarrow> route_tables_ok (w, d')"
    using fail_step_ok [OF ok] by simp
  show "route_claim_next wk l locked t t1 t2 d = Inr (c', d') \<Longrightarrow> t2 < t1 + l \<Longrightarrow> route_tables_ok (w, d')"
    using claim_step_ok [OF ok] by simp
qed

lemma live3_cases:
  assumes ok: "routes_ok d" and live: "route_live3 c t1 t2 t3 d"
  obtains r where "route_of d (rt_project_id (rtc_route c)) = Some r"
    "route_claim_live c t1 d" "route_claim_live c t2 d" "route_claim_live c t3 d"
proof -
  have L: "route_claim_live c t1 d" "route_claim_live c t2 d" "route_claim_live c t3 d"
    using live by (simp_all add: route_live3_def)
  obtain j r where "route_of d (rt_project_id (rtc_route c)) = Some r"
    by (rule live_route_rows [OF ok L(1)]) (rule that, assumption)
  then show ?thesis by (rule that [OF _ L])
qed

text \<open>Under the invariant a claim's methods raise nothing but the loss of the claim.\<close>

lemma route_calls_raise:
  assumes ok: "routes_ok d"
  shows "complete_route c t1 t2 t3 d = Inl e \<Longrightarrow> e = PublicRouteClaimLostError"
    "reschedule_route c at code t1 t2 t3 d = Inl e \<Longrightarrow> e = PublicRouteClaimLostError"
    "fail_route c code b t1 t2 t3 d = Inl e \<Longrightarrow> e = PublicRouteClaimLostError"
    "0 < l \<Longrightarrow> renew_route c l t1 d = Inl e \<Longrightarrow> e = PublicRouteClaimLostError"
proof -
  show "e = PublicRouteClaimLostError" if run: "complete_route c t1 t2 t3 d = Inl e"
  proof (cases "route_live3 c t1 t2 t3 d")
    case True
    then obtain r where "route_of d (rt_project_id (rtc_route c)) = Some r"
      "route_claim_live c t1 d" "route_claim_live c t2 d" "route_claim_live c t3 d"
      by (rule live3_cases [OF ok]) (rule that, assumption+)
    with run show ?thesis using complete_route_live(1) [OF ok] by simp
  qed (use run route_claim_lost(1) [OF ok] in simp)
  have stop: "e = PublicRouteClaimLostError"
    if st: "st \<noteq> R_ACTIVE" "st \<noteq> R_INACTIVE"
      and g: "\<And>j. rj_project_id (g j) = rj_project_id j" "\<And>j. rj_desired_revision (g j) = rj_desired_revision j"
      "\<And>j. rj_row_ok j \<Longrightarrow> rj_row_ok (g j)" "\<And>j. route_agrees (rj_state (g j)) st"
      and run: "tx_seq (route_lock_claim c t1) (tx_bind (update_claimed_route c (rt_stopped st code t2) t2)
         (\<lambda>r. tx_seq (update_claimed_job c g t3) (tx_ret r))) d = Inl e" for st g code
  proof (cases "route_live3 c t1 t2 t3 d")
    case True
    then obtain r where r: "route_of d (rt_project_id (rtc_route c)) = Some r"
      and L: "route_claim_live c t1 d" "route_claim_live c t2 d" "route_claim_live c t3 d"
      by (rule live3_cases [OF ok]) (rule that, assumption+)
    with run show ?thesis using stop_route_live(1) [where g = g, OF ok L r st g, of code] by simp
  next
    case False
    have "tx_seq (route_lock_claim c t1) (tx_bind (update_claimed_route c (rt_stopped st code t2) t2)
        (\<lambda>r. tx_seq (update_claimed_job c g t3) (tx_ret r))) d = Inl PublicRouteClaimLostError"
      by (rule route_claim_lost_shape [OF ok False]) (rule stopped_keeps [OF ok _ _ st])
    with run show ?thesis by simp
  qed
  show "reschedule_route c at code t1 t2 t3 d = Inl e \<Longrightarrow> e = PublicRouteClaimLostError"
    unfolding reschedule_route_def
    by (rule stop [where g = "rj_again at code t3" and st = R_PENDING]) (auto simp: rj_again_def rj_row_ok_def)
  show "fail_route c code b t1 t2 t3 d = Inl e \<Longrightarrow> e = PublicRouteClaimLostError"
    unfolding fail_route_def finish_route_job_def
    by (rule stop [where g = "rj_finished RJ_FAILED (Some code) t3"
          and st = "if b then R_UNCERTAIN else R_FAILED"]) (auto simp: rj_finished_def rj_row_ok_def)
  show "0 < l \<Longrightarrow> renew_route c l t1 d = Inl e \<Longrightarrow> e = PublicRouteClaimLostError"
    using renew_route_live(1) [OF ok] renew_route_lost by (cases "route_claim_live c t1 d") auto
qed

text \<open>A lease that runs out between the two statements of \<open>claim_next\<close> rolls it back.\<close>

lemma route_claim_next_late:
  assumes ok: "routes_ok d" and late: "t1 + l \<le> t2"
  shows "route_claim_next w l locked t t1 t2 d = Inr (None, d) \<or>
    route_claim_next w l locked t t1 t2 d = Inl PublicRouteClaimLostError"
proof (cases "claim_row (rj_candidate t1 locked d) rj_order rj_project_id
      (rj_take w t (t1 + l) t1) (t_route_jobs d)")
  case None
  then show ?thesis by (simp add: route_claim_next_def)
next
  case (Some jj)
  then obtain job jobs where claim: "claim_row (rj_candidate t1 locked d) rj_order rj_project_id
      (rj_take w t (t1 + l) t1) (t_route_jobs d) = Some (job, jobs)" by (cases jj) auto
  obtain j where j: "j \<in> set (t_route_jobs d)" "job = rj_take w t (t1 + l) t1 j"
    "jobs = upd (\<lambda>k. rj_project_id k = rj_project_id j) (rj_take w t (t1 + l) t1) (t_route_jobs d)"
    by (rule claim_row_SomeD [OF claim routes_okD(2) [OF ok]]) (rule that, assumption+)
  have "\<not> rj_held w t t2 k" if "k \<in> set jobs" "rj_project_id k = rj_project_id j" for k
    using that late by (auto simp: j(3) set_upd rj_take_def rj_held_def)
  then have "\<not> (rt_project_id r = rj_project_id job \<and> rt_desired_revision r = rj_desired_revision job \<and>
      exists_row (\<lambda>j. rj_project_id j = rt_project_id r \<and>
        rj_desired_revision j = rt_desired_revision r \<and> rj_held w t t2 j) jobs)" for r
    by (auto simp: exists_row_iff j(2) rj_take_def)
  then have "returning (\<lambda>r. rt_project_id r = rj_project_id job \<and> rt_desired_revision r = rj_desired_revision job \<and>
      exists_row (\<lambda>j. rj_project_id j = rt_project_id r \<and>
        rj_desired_revision j = rt_desired_revision r \<and> rj_held w t t2 j) jobs) (rt_claimed t2) (t_routes d) = None"
    unfolding returning_None_iff by blast
  then show ?thesis
    by (simp add: route_claim_next_def claim tx_seq_def tx_bind_def update_route_def tx_require_def)
qed

lemma route_calls:
  assumes P: "ports_keep route_tables_ok P"
  shows "keeps route_tables_ok (repo_call3 P (complete_route c))"
    "keeps route_tables_ok (repo_call3 P (reschedule_route c at code))"
    "keeps route_tables_ok (repo_call3 P (fail_route c code b))"
    "0 < l \<Longrightarrow> keeps route_tables_ok (repo_call P (renew_route c l))"
    "raises_only {PublicRouteClaimLostError} route_tables_ok (repo_call3 P (reschedule_route c at code))"
    "raises_only {PublicRouteClaimLostError} route_tables_ok (repo_call3 P (fail_route c code b))"
proof -
  show "keeps route_tables_ok (repo_call3 P (complete_route c))"
    "keeps route_tables_ok (repo_call3 P (reschedule_route c at code))"
    "keeps route_tables_ok (repo_call3 P (fail_route c code b))"
    by (rule keeps_repo_call3 [OF P], erule (1) route_txs)+
  show "0 < l \<Longrightarrow> keeps route_tables_ok (repo_call P (renew_route c l))"
    by (rule keeps_repo_call [OF P], erule (2) route_txs)
  show "raises_only {PublicRouteClaimLostError} route_tables_ok (repo_call3 P (reschedule_route c at code))"
    by (rule raises_repo_call3 [OF P], unfold route_tables_ok_def)
      (auto dest: route_calls_raise(2) reschedule_step_ok)
  show "raises_only {PublicRouteClaimLostError} route_tables_ok (repo_call3 P (fail_route c code b))"
    by (rule raises_repo_call3 [OF P], unfold route_tables_ok_def)
      (auto dest: route_calls_raise(3) fail_step_ok)
qed

section \<open>A pass\<close>

text \<open>What is asked of the edge: besides what it is handed it keeps the tables' invariant.  It may
  raise anything.\<close>

definition edge_keeps :: "('s \<Rightarrow> bool) \<Rightarrow> 's route_worker \<Rightarrow> bool" where
  "edge_keeps I W =
     ((\<forall>i h. keeps I h \<longrightarrow> keeps I (rw_ensure_gateway_attached W i h)) \<and>
      (\<forall>ts ch h fn fi b. keeps I h \<longrightarrow> keeps I fn \<longrightarrow> keeps I fi \<longrightarrow> keeps I (rw_apply W ts ch h fn fi b)))"

lemma keeps_unless_lost [intro]: "keeps I m \<Longrightarrow> keeps I (unless_lost m)"
  unfolding unless_lost_def by (intro keeps_try keeps_if keeps_ret keeps_raise)

lemma raises_unless_lost:
  assumes "keeps I m" "raises_only {PublicRouteClaimLostError} I m"
  shows "raises_only {} I (unless_lost m)"
  unfolding unless_lost_def by (rule raises_try_only [OF assms]) (simp add: raises_ret)

lemma route_handlers:
  assumes P: "ports_keep route_tables_ok P"
  shows "keeps route_tables_ok (defer_not_ready P W c code)"
    "keeps route_tables_ok (route_handle_failure P W c code rt un)"
    "raises_only {} route_tables_ok (defer_not_ready P W c code)"
    "raises_only {} route_tables_ok (route_handle_failure P W c code rt un)"
proof -
  let ?I = route_tables_ok
  have clock: "keeps ?I (get_act (p_clock P))" using P by (auto simp: ports_keep_def)
  note calls = route_calls [OF P]
  have d: "keeps ?I (bind_act (get_act (p_clock P)) (\<lambda>now.
          void (repo_call3 P (defer_route_not_ready c (now + route_retry_delay W (rtc_attempts c)) code))))"
    "raises_only {PublicRouteClaimLostError} ?I (bind_act (get_act (p_clock P)) (\<lambda>now.
          void (repo_call3 P (defer_route_not_ready c (now + route_retry_delay W (rtc_attempts c)) code))))"
    unfolding defer_route_not_ready_def
    by (intro keeps_rules clock calls raises_bind raises_get raises_void)+
  have r: "keeps ?I (bind_act (get_act (p_clock P)) (\<lambda>now.
            void (repo_call3 P (retry_route c (now + route_retry_delay W (rtc_attempts c)) code))))"
    "raises_only {PublicRouteClaimLostError} ?I (bind_act (get_act (p_clock P)) (\<lambda>now.
            void (repo_call3 P (retry_route c (now + route_retry_delay W (rtc_attempts c)) code))))"
    unfolding retry_route_def
    by (intro keeps_rules clock calls raises_bind raises_get raises_void)+
  have f: "keeps ?I (void (repo_call3 P (fail_route c code b)))"
    "raises_only {PublicRouteClaimLostError} ?I (void (repo_call3 P (fail_route c code b)))" for b
    by (intro keeps_rules calls raises_void)+
  show "keeps ?I (defer_not_ready P W c code)" "raises_only {} ?I (defer_not_ready P W c code)"
    unfolding defer_not_ready_def by (intro keeps_unless_lost d raises_unless_lost)+
  show "keeps ?I (route_handle_failure P W c code rt un)"
    "raises_only {} ?I (route_handle_failure P W c code rt un)"
    unfolding route_handle_failure_def
    by (auto intro!: keeps_unless_lost raises_unless_lost r f)
qed

lemma set_required_keeps:
  "keeps route_tables_ok (set_required b)" "raises_only {} route_tables_ok (set_required b)"
  by (auto simp: keeps_def raises_only_def set_required_def route_tables_ok_def)

lemma route_failed_keeps:
  assumes P: "ports_keep route_tables_ok P"
    and flag: "\<And>b. keeps route_tables_ok (set_flag b)" "\<And>b. raises_only {} route_tables_ok (set_flag b)"
  shows "keeps route_tables_ok (route_failed P W set_flag c e)"
    "raises_only {} route_tables_ok (route_failed P W set_flag c e)"
proof -
  let ?I = route_tables_ok
  have clock: "keeps ?I (get_act (p_clock P))" using P by (auto simp: ports_keep_def)
  note calls = route_calls [OF P]
  note H = route_handlers [OF P]
  have s: "keeps ?I (bind_act (get_act (p_clock P)) (\<lambda>now.
            void (repo_call3 P (retry_route c now ''ROUTING_SNAPSHOT_CHANGED''))))"
    "raises_only {PublicRouteClaimLostError} ?I (bind_act (get_act (p_clock P)) (\<lambda>now.
            void (repo_call3 P (retry_route c now ''ROUTING_SNAPSHOT_CHANGED''))))"
    unfolding retry_route_def
    by (intro keeps_rules clock calls raises_bind raises_get raises_void)+
  have u: "keeps ?I (seq_act (if b then set_flag True else ret ()) (route_handle_failure P W c code rt un))"
    "raises_only {} ?I (seq_act (if b then set_flag True else ret ()) (route_handle_failure P W c code rt un))"
    for b code rt un
    by (cases b) (auto intro!: keeps_rules raises_seq raises_ret flag H)
  show "keeps ?I (route_failed P W set_flag c e)" "raises_only {} ?I (route_failed P W set_flag c e)"
    unfolding route_failed_def
    by (cases e; simp add: keeps_ret raises_ret keeps_unless_lost [OF s(1)] raises_unless_lost [OF s] H u del: list.set)+
qed

lemma snapshot_fence_keeps:
  "keeps route_tables_ok (snapshot_fence x)"
proof -
  have "keeps route_tables_ok applied_routes"
    unfolding applied_routes_def by (rule keeps_tx) (simp add: tx_read_def)
  then show ?thesis unfolding snapshot_fence_def by (intro keeps_bind) (auto intro: keeps_rules)
qed

lemma keeps_each: "(\<And>x. keeps I (f x)) \<Longrightarrow> keeps I (each f xs)"
  by (induction xs) (auto intro: keeps_rules)

lemma keeps_lift_sum: "keeps I (lift_sum x)"
  by (cases x) (auto simp: lift_sum_def intro: keeps_rules)

lemma process_route_keeps:
  assumes P: "ports_keep route_tables_ok P" and W: "edge_keeps route_tables_ok W"
    and l: "0 < rw_lease_duration W"
  shows "keeps route_tables_ok (process_route P W c)"
proof -
  let ?I = route_tables_ok
  have h: "keeps ?I (route_heartbeat P c (rw_lease_duration W))"
    unfolding route_heartbeat_def by (intro keeps_rules route_calls(4) [OF P l])
  have fence: "keeps ?I (route_fence P c (rw_lease_duration W) x)" for x
    unfolding route_fence_def by (intro keeps_rules h snapshot_fence_keeps)
  have fin: "keeps ?I (route_finalize P c)"
    unfolding route_finalize_def by (intro keeps_rules route_calls [OF P])
  have read: "keeps ?I applied_routes"
    unfolding applied_routes_def by (rule keeps_tx) (simp add: tx_read_def)
  have parts: "keeps ?I (rw_ensure_gateway_attached W i (route_heartbeat P c (rw_lease_duration W)))"
    "keeps ?I (rw_apply W ts ch (route_heartbeat P c (rw_lease_duration W))
       (route_fence P c (rw_lease_duration W) x) (route_finalize P c) b)" for i ts ch x b
    using W h fence fin by (auto simp: edge_keeps_def)
  show ?thesis
    unfolding process_route_def Let_def by (intro keeps_rules parts read keeps_lift_sum)
qed

lemma reconcile_startup_keeps:
  assumes W: "edge_keeps route_tables_ok W"
  shows "keeps route_tables_ok (reconcile_startup W)"
proof -
  let ?I = route_tables_ok
  have read: "keeps ?I applied_routes"
    unfolding applied_routes_def by (rule keeps_tx) (simp add: tx_read_def)
  have parts: "keeps ?I (rw_ensure_gateway_attached W i (ret ()))"
    "keeps ?I (rw_apply W ts ch (ret ()) (snapshot_fence x) (ret ()) b)" for i ts ch x b
    using W unfolding edge_keeps_def by (blast intro: keeps_ret snapshot_fence_keeps)+
  have handler: "keeps ?I (case e of RuntimeFailure _ \<Rightarrow> ret False | EdgeRuntimeError _ _ _ \<Rightarrow> ret False
      | PublicRouteSnapshotChangedError \<Rightarrow> ret False | _ \<Rightarrow> raise e)" for e
    by (cases e) (simp_all add: keeps_ret keeps_raise)
  show ?thesis
    unfolding reconcile_startup_def by (intro keeps_rules read keeps_lift_sum parts handler keeps_each)
qed

lemma bind_ret: "bind_act (ret a) f = f a"
  by (simp add: bind_act_def ret_def)

definition lease_outlasts :: "'w ports \<Rightarrow> time \<Rightarrow> bool" where
  "lease_outlasts P l = (\<forall>s. fst (p_clock P (snd (p_clock P s))) < fst (p_clock P s) + l)"

lemma route_claim_act_keeps:
  assumes P: "ports_keep route_tables_ok P" and l: "lease_outlasts P l"
  shows "keeps route_tables_ok (route_claim_act P w l)"
    "raises_only {} route_tables_ok (route_claim_act P w l)"
proof -
  let ?I = route_tables_ok
  have ports: "keeps ?I (get_act (p_clock P))" "keeps ?I (get_act (p_uuid P))"
    "keeps ?I (get_act (p_locked P))" using P by (auto simp: ports_keep_def)
  let ?body = "\<lambda>token locked. bind_act (get_act (p_clock P)) (\<lambda>t1.
      repo_call P (\<lambda>t2. route_claim_next w l locked token t1 t2))"
  have body: "?I (snd (?body token locked s)) \<and> (\<exists>a. fst (?body token locked s) = Inr a)"
    if s: "?I s" for token locked s
  proof -
    obtain t1 s1 where c1: "p_clock P s = (t1, s1)" by (rule prod.exhaust)
    obtain t2 s2 where c2: "p_clock P s1 = (t2, s2)" by (rule prod.exhaust)
    have "fst (p_clock P (snd (p_clock P s))) < fst (p_clock P s) + l"
      using l unfolding lease_outlasts_def by (rule spec)
    then have t: "t2 < t1 + l" by (simp add: c1 c2)
    have next_ok: "?I (snd (p_clock P u))" if "?I u" for u
      using P that unfolding ports_keep_def port_keeps_def by blast
    have "?I s2" using next_ok [OF next_ok [OF s]] by (simp add: c1 c2)
    then obtain w0 d where s2: "s2 = (w0, d)" "routes_ok d" by (cases s2) (auto simp: route_tables_ok_def)
    obtain a d' where run: "route_claim_next w l locked token t1 t2 d = Inr (a, d')"
      using route_claim_next_live [where w = w and locked = locked and t = token, OF s2(2) t refl] by blast
    then have "routes_ok d'" using claim_step_ok [OF s2(2) t run] by simp
    then show ?thesis
      using c1 c2 run s2 by (simp add: bind_act_def get_act_def repo_call_def tx_act_def route_tables_ok_def)
  qed
  then have b: "keeps ?I (?body token locked)" "raises_only {} ?I (?body token locked)" for token locked
    unfolding keeps_def raises_only_def by (blast, metis sum.distinct(1))
  show "keeps ?I (route_claim_act P w l)" "raises_only {} ?I (route_claim_act P w l)"
    unfolding route_claim_act_def by (intro keeps_bind raises_bind raises_get ports b)+
qed

lemma route_run_once_keeps:
  assumes P: "ports_keep route_tables_ok P" and W: "edge_keeps route_tables_ok W"
    and l: "0 < rw_lease_duration W" "lease_outlasts P (rw_lease_duration W)"
  shows "keeps route_tables_ok (route_run_once P W)"
    and "route_tables_ok s \<Longrightarrow> get_required s = (Inr False, s) \<Longrightarrow> \<exists>b s'. route_run_once P W s = (Inr b, s')"
proof -
  let ?I = route_tables_ok
  let ?rest = "seq_act (set_required False)
         (bind_act (route_claim_act P (rw_worker_id W) (rw_lease_duration W)) (\<lambda>claim. case claim of
            None \<Rightarrow> ret False
          | Some c \<Rightarrow>
              seq_act (try_act (process_route P W c) (route_failed P W set_required c)) (ret True)))"
  note claim = route_claim_act_keeps [OF P l(2)]
  note process = process_route_keeps [OF P W l(1)]
  note failed = route_failed_keeps [OF P set_required_keeps]
  have rest: "keeps ?I ?rest" "raises_only {} ?I ?rest"
    by (auto intro!: keeps_rules raises_seq raises_bind raises_try raises_ret claim process failed
        set_required_keeps split: option.split)
  have read: "keeps ?I get_required" by (simp add: keeps_def get_required_def)
  show "keeps ?I (route_run_once P W)"
    unfolding route_run_once_def
    by (intro keeps_rules read reconcile_startup_keeps [OF W] rest(1))
  assume s: "?I s" and no: "get_required s = (Inr False, s)"
  obtain b s' where "?rest s = (Inr b, s')" using returns [OF rest(2) s] by blast
  then show "\<exists>b s'. route_run_once P W s = (Inr b, s')"
    by (simp add: route_run_once_def bind_act_def [of get_required] no bind_ret)
qed

end
