(* ===== verification/Edge_Plans.thy ===== *)
theory Edge_Plans
  imports Route_Passes
begin

text \<open>
  The configuration a pass asks the edge for: it renders whenever the route tables are as the
  repository keeps them, the byte limit is never met before the limit on the number of routes,
  and the hostnames are those of the applied routes with the claimed route's wish put in.
\<close>

section \<open>Rendering, route by route\<close>

definition target_ok :: "edge_route_target \<Rightarrow> bool" where
  "target_ok t = (hostname_matches (et_hostname t) \<and> docker_name_matches (et_gateway_alias t))"

lemma edge_sections_eq:
  "edge_sections hs ts =
     (if (\<forall>t\<in>set ts. target_ok t) \<and> distinct (map et_hostname ts) \<and> et_hostname ` set ts \<inter> set hs = {}
      then Inr (map edge_section ts) else Inl (edge_error ''EDGE_ROUTE_SNAPSHOT_INVALID''))"
proof (induction ts arbitrary: hs)
  case (Cons t ts)
  then show ?case by (auto simp: target_ok_def)
qed simp

definition ascii :: "string \<Rightarrow> bool" where
  "ascii s = list_all is_ascii s"

lemma ascii_simps [simp]:
  "ascii []" "ascii (c # s) = (is_ascii c \<and> ascii s)" "ascii (s @ t) = (ascii s \<and> ascii t)"
  by (simp_all add: ascii_def)

lemma utf8_length_ascii: "ascii s \<Longrightarrow> utf8_length s = length s"
  by (induction s) (simp_all add: utf8_length_def is_ascii_def)

lemma ascii_join: "(\<And>s. s \<in> set ss \<Longrightarrow> ascii s) \<Longrightarrow> ascii (join_lines ss)"
  by (induction ss rule: join_lines.induct) (auto simp: is_ascii_def)

lemma length_join_lines:
  "ss \<noteq> [] \<Longrightarrow> length (join_lines ss) = sum_list (map length ss) + (length ss - 1)"
  by (induction ss rule: join_lines.induct) auto

lemma name_char_ascii: "name_char c \<or> c = CHR ''_'' \<or> c = CHR ''.'' \<or> c = CHR ''-'' \<Longrightarrow> is_ascii c"
  by (auto simp: name_char_def is_ascii_def is_upper_def is_lower_def is_digit_def in_range_def)

lemma docker_name_ascii: "docker_name_matches s \<Longrightarrow> ascii s"
  using name_char_ascii by (auto simp: docker_name_matches_def ascii_def list_all_iff)

lemma hostname_ascii: "hostname_matches h \<Longrightarrow> ascii h"
proof -
  assume h: "hostname_matches h"
  have "is_ascii c" if c: "c \<in> set h" for c
  proof (cases "c = CHR ''.''")
    case False
    from split_on_chars [OF c False] obtain w where "w \<in> set (split_on CHR ''.'' h)" "c \<in> set w" by blast
    then show ?thesis
      using h by (auto simp: hostname_matches_def list_all_iff dest: subdomain_matchesD(3) intro: ascii_alnum)
  qed (simp add: is_ascii_def)
  then show ?thesis by (simp add: ascii_def list_all_iff)
qed

lemma hex_ascii: "ascii (take n (uuid_hex i))"
  using hex_fixed_name name_char_ascii
  by (auto simp: ascii_def list_all_iff uuid_hex_def dest: in_set_takeD)

lemma edge_section_size:
  "length (edge_section t) = 524 + length (et_gateway_alias t) + length (et_hostname t)"
  by (simp add: edge_section_def Let_def uuid_hex_def)

lemma edge_section_ascii: "target_ok t \<Longrightarrow> ascii (edge_section t)"
proof -
  assume t: "target_ok t"
  have fixed: "list_all is_ascii (concat [''upstream  {'', ''    zone  64k;'', ''hm_edge_p'',
     ''    resolver 127.0.0.11 valid=10s ipv6=off;'', ''    server '', '':8080 resolve;'', ''}'',
     ''server {'', ''    listen 80;'', ''    server_name '', ''    location / {'',
     ''        proxy_pass http://'', ''        proxy_http_version 1.1;'',
     ''        proxy_set_header Connection '' @ [CHR 0x22, CHR 0x22, CHR '';''],
     ''        proxy_set_header Host $host;'', ''        proxy_set_header X-Forwarded-For $remote_addr;'',
     ''        proxy_set_header X-Forwarded-Host $host;'', ''        proxy_set_header X-Forwarded-Proto $scheme;'',
     ''    }''])"
    by code_simp
  have "ascii (et_gateway_alias t)" "ascii (et_hostname t)"
    using t docker_name_ascii hostname_ascii by (auto simp: target_ok_def)
  with fixed hex_ascii [of 12 "et_project_id t"] show ?thesis
    unfolding edge_section_def Let_def by (intro ascii_join) (auto simp: is_ascii_def)
qed

definition edge_file :: "edge_route_target list \<Rightarrow> string" where
  "edge_file ts = join_lines
     ((''# Generated by Heimdall Routing Worker. Do not edit.'' @ [CHR 0x0A]) #
      map edge_section (order_by et_hostname ts))"

lemma sum_list_bounded: "(\<And>x. x \<in> set xs \<Longrightarrow> x \<le> (k::nat)) \<Longrightarrow> sum_list xs \<le> length xs * k"
  by (induction xs) fastforce+

text \<open>A thousand routes of names within their limits stay below the limit of one MiB.\<close>

lemma edge_file_fits:
  assumes ok: "\<forall>t\<in>set ts. target_ok t" and n: "length ts \<le> MAX_ROUTES"
  shows "utf8_length (edge_file ts) < MAX_CONFIG_BYTES"
proof -
  let ?ss = "map edge_section (order_by et_hostname ts)"
  let ?h = "''# Generated by Heimdall Routing Worker. Do not edit.'' @ [CHR 0x0A]"
  have h: "ascii ?h" by (simp add: is_ascii_def)
  have sections: "ascii s \<and> length s \<le> 905" if "s \<in> set ?ss" for s
  proof -
    from that obtain t where t: "t \<in> set ts" "s = edge_section t" by auto
    then have "target_ok t" using ok by blast
    then show ?thesis
      using edge_section_ascii by (auto simp: t(2) edge_section_size target_ok_def hostname_matches_def docker_name_matches_def)
  qed
  have len: "length ?ss \<le> 1000" using n by (simp add: order_by_def MAX_ROUTES_def)
  have "ascii (edge_file ts)"
    unfolding edge_file_def by (rule ascii_join) (use h sections in \<open>auto simp del: ascii_simps\<close>)
  then have "utf8_length (edge_file ts) = length (edge_file ts)" by (rule utf8_length_ascii)
  also have "\<dots> = sum_list (map length (?h # ?ss)) + (length (?h # ?ss) - 1)"
    unfolding edge_file_def by (rule length_join_lines) simp
  also have "\<dots> = 53 + sum_list (map length ?ss) + length ?ss" by simp
  also have "sum_list (map length ?ss) \<le> length (map length ?ss) * 905"
    by (rule sum_list_bounded) (use sections in auto)
  also have "53 + length (map length ?ss) * 905 + length ?ss \<le> 53 + 1000 * 905 + 1000"
    using len by simp
  finally show ?thesis by (simp add: MAX_CONFIG_BYTES_def)
qed

lemma order_by_map_distinct: "distinct (map k (order_by k xs)) = distinct (map k xs)"
proof -
  have "mset (map k (order_by k xs)) = mset (map k xs)" by (simp add: order_by_def)
  then show ?thesis by (rule mset_eq_imp_distinct_iff)
qed

lemma render_eq:
  "render_edge_routes ts =
     (if MAX_ROUTES < length ts then Inl (edge_error ''EDGE_ROUTE_LIMIT_EXCEEDED'')
      else if (\<forall>t\<in>set ts. target_ok t) \<and> distinct (map et_hostname ts) then Inr (edge_file ts)
      else Inl (edge_error ''EDGE_ROUTE_SNAPSHOT_INVALID''))"
proof -
  have "edge_sections [] (order_by et_hostname ts) =
     (if (\<forall>t\<in>set ts. target_ok t) \<and> distinct (map et_hostname ts)
      then Inr (map edge_section (order_by et_hostname ts))
      else Inl (edge_error ''EDGE_ROUTE_SNAPSHOT_INVALID''))"
    by (simp add: edge_sections_eq order_by_map_distinct)
  moreover have "\<not> MAX_CONFIG_BYTES < utf8_length (edge_file ts)"
    if "\<not> MAX_ROUTES < length ts" "\<forall>t\<in>set ts. target_ok t"
    using edge_file_fits [OF that(2)] that(1) by simp
  ultimately show ?thesis by (simp add: render_edge_routes_def edge_file_def Let_def)
qed

section \<open>The plan\<close>

lemma dict_set_new: "k \<notin> fst ` set xs \<Longrightarrow> dict_set k v xs = xs @ [(k, v)]"
  by (induction xs) auto

lemma dict_fold:
  "distinct (map f ts) \<Longrightarrow> f ` set ts \<inter> fst ` set acc = {} \<Longrightarrow>
   fold (\<lambda>t. dict_set (f t) t) ts acc = acc @ map (\<lambda>t. (f t, t)) ts"
  by (induction ts arbitrary: acc) (auto simp: dict_set_new)

text \<open>With distinct keys a dictionary update replaces one value or appends it.\<close>

lemma dict_set_old:
  "distinct (map fst xs) \<Longrightarrow> k \<in> fst ` set xs \<Longrightarrow>
   dict_set k v xs = map (\<lambda>(a, b). (a, if a = k then v else b)) xs"
proof (induction xs)
  case (Cons x xs)
  obtain a b where x: "x = (a, b)" by (cases x)
  show ?case
  proof (cases "a = k")
    case True
    have "map (\<lambda>(a, b). (a, if a = k then v else b)) xs = xs"
      using Cons.prems(1) True x by (intro map_idI) force
    then show ?thesis using True x by simp
  next
    case False
    then show ?thesis using Cons x by auto
  qed
qed simp

text \<open>The targets of the plan: those of the other projects, and the wish of this one.\<close>

definition wished_target :: "public_route \<Rightarrow> edge_route_target list" where
  "wished_target r =
     (if rt_desired_state r = ENABLED
      then [\<lparr>et_project_id = rt_project_id r, et_hostname = rt_hostname r,
             et_gateway_alias = project_gateway_alias (rt_project_id r)\<rparr>] else [])"

lemma planned_set:
  assumes d: "distinct (map et_project_id applied)"
  shows "set (planned_targets r applied) =
      {t \<in> set applied. et_project_id t \<noteq> rt_project_id r} \<union> set (wished_target r)"
    and "length (planned_targets r applied) \<le> length applied + 1"
    and "distinct (map et_project_id (planned_targets r applied))"
proof -
  let ?xs = "map (\<lambda>t. (et_project_id t, t)) applied"
  let ?k = "rt_project_id r"
  have fold: "fold (\<lambda>t. dict_set (et_project_id t) t) applied [] = ?xs"
    using dict_fold [OF d, of "[]"] by simp
  have keys: "distinct (map fst ?xs)" using d by (simp add: comp_def)
  let ?v = "\<lparr>et_project_id = ?k, et_hostname = rt_hostname r, et_gateway_alias = project_gateway_alias ?k\<rparr>"
  have new: "map snd (dict_set ?k ?v ?xs) =
      (if ?k \<in> et_project_id ` set applied then map (\<lambda>t. if et_project_id t = ?k then ?v else t) applied
       else applied @ [?v])"
    using dict_set_old [OF keys, of ?k ?v] dict_set_new [of ?k ?xs ?v]
    by (auto simp: comp_def image_image)
  have gone: "map snd (dict_pop ?k ?xs) = filter (\<lambda>t. et_project_id t \<noteq> ?k) applied"
    by (simp add: dict_pop_def filter_map comp_def)
  have plan: "planned_targets r applied =
      (if rt_desired_state r = ENABLED
       then if ?k \<in> et_project_id ` set applied then map (\<lambda>t. if et_project_id t = ?k then ?v else t) applied
         else applied @ [?v]
       else filter (\<lambda>t. et_project_id t \<noteq> ?k) applied)"
    unfolding planned_targets_def Let_def fold by (simp only: new [symmetric] gone [symmetric] if_distrib [of "map snd"])
  show "set (planned_targets r applied) =
      {t \<in> set applied. et_project_id t \<noteq> ?k} \<union> set (wished_target r)"
    unfolding plan by (auto simp: wished_target_def rev_image_eqI)
  show "length (planned_targets r applied) \<le> length applied + 1"
    unfolding plan by (simp add: le_SucI)
  have same: "map et_project_id (map (\<lambda>t. if et_project_id t = ?k then ?v else t) applied) = map et_project_id applied"
    by simp
  show "distinct (map et_project_id (planned_targets r applied))"
    unfolding plan using d by (auto simp: same distinct_map_filter simp del: map_map)
qed

text \<open>The applied routes of a database and their targets.\<close>

definition target_of :: "public_route \<Rightarrow> edge_route_target" where
  "target_of r = \<lparr>et_project_id = rt_project_id r, et_hostname = the (rt_applied_hostname r),
     et_gateway_alias = project_gateway_alias (rt_project_id r)\<rparr>"

definition applied_targets :: "db \<Rightarrow> edge_route_target list" where
  "applied_targets d = map target_of (list_applied d)"

lemma sequence_results_total: "sequence_results (map (\<lambda>x. Inr (f x)) xs) = Inr (map f xs)"
  by (induction xs) auto

lemma set_list_applied: "set (list_applied d) = {r \<in> set (t_routes d). rt_applied_hostname r \<noteq> None}"
  by (auto simp: list_applied_def)

lemma applied_targets_eq:
  "sequence_results (map applied_target (filter (\<lambda>r. rt_applied_hostname r \<noteq> None) (list_applied d))) =
     Inr (applied_targets d)"
  "sequence_results (map applied_target (list_applied d)) = Inr (applied_targets d)"
proof -
  have all: "filter (\<lambda>r. rt_applied_hostname r \<noteq> None) (list_applied d) = list_applied d"
    using set_list_applied [of d] by (auto simp: filter_id_conv)
  have "map applied_target (list_applied d) = map (\<lambda>r. Inr (target_of r)) (list_applied d)"
    using set_list_applied [of d] by (auto simp: applied_target_def target_of_def)
  then show "sequence_results (map applied_target (list_applied d)) = Inr (applied_targets d)"
    unfolding applied_targets_def by (simp only: sequence_results_total)
  then show "sequence_results (map applied_target (filter (\<lambda>r. rt_applied_hostname r \<noteq> None) (list_applied d))) =
     Inr (applied_targets d)" by (simp only: all)
qed

lemma applied_ids:
  assumes "routes_ok d"
  shows "distinct (map et_project_id (applied_targets d))"
proof -
  have "map et_project_id (applied_targets d) = map rt_project_id (list_applied d)"
    by (simp add: applied_targets_def target_of_def comp_def)
  moreover have "mset (map rt_project_id (list_applied d)) =
      mset (map rt_project_id (filter (\<lambda>r. rt_applied_hostname r \<noteq> None) (t_routes d)))"
    by (simp add: list_applied_def order_by_def)
  moreover have "distinct (map rt_project_id (filter (\<lambda>r. rt_applied_hostname r \<noteq> None) (t_routes d)))"
    by (rule distinct_map_filter [OF routes_okD(1) [OF assms]])
  ultimately show ?thesis by (metis mset_eq_imp_distinct_iff)
qed

text \<open>Distinct projects have distinct hostnames in the plan, and all have the edge's form.\<close>

lemma plan_names:
  assumes ok: "routes_ok d" and names: "edge_names_ok d"
    and r: "route_of d (rt_project_id c) = Some r" "same_wish c r"
    and t: "t \<in> set (planned_targets c (applied_targets d))"
  shows "target_ok t"
    and "u \<in> set (planned_targets c (applied_targets d)) \<Longrightarrow> et_hostname t = et_hostname u \<Longrightarrow> t = u"
proof -
  note R = conjunct1 [OF route_ofD [OF r(1)]] conjunct2 [OF route_ofD [OF r(1)]]
  have origin: "(\<exists>s\<in>set (t_routes d). rt_applied_hostname s \<noteq> None \<and> rt_project_id s \<noteq> rt_project_id c \<and> x = target_of s) \<or>
      (rt_desired_state c = ENABLED \<and> x = \<lparr>et_project_id = rt_project_id c, et_hostname = rt_hostname r,
         et_gateway_alias = project_gateway_alias (rt_project_id c)\<rparr>)"
    if "x \<in> set (planned_targets c (applied_targets d))" for x
    using that r(2) unfolding planned_set(1) [OF applied_ids [OF ok]]
    by (auto simp: applied_targets_def set_list_applied wished_target_def same_wish_def target_of_def split: if_splits)
  have gateway: "docker_name_matches (project_gateway_alias i)" for i
    by (simp add: project_gateway_alias_def gateway_name_matches)
  show "target_ok t"
    using origin [OF t] names R gateway by (auto simp: target_ok_def target_of_def edge_names_ok_def)
  assume u: "u \<in> set (planned_targets c (applied_targets d))" and same: "et_hostname t = et_hostname u"
  have apart: "names_apart a b" if "a \<in> set (t_routes d)" "b \<in> set (t_routes d)" "rt_project_id a \<noteq> rt_project_id b" for a b
    by (rule routes_okD(7) [OF ok that(1,2)]) (use that(3) in auto)
  have key: "a = b" if "a \<in> set (t_routes d)" "b \<in> set (t_routes d)" "rt_project_id a = rt_project_id b" for a b
    by (rule same_key_same_row [OF routes_okD(1) [OF ok] that])
  from origin [OF t] origin [OF u] show "t = u"
  proof (elim disjE bexE conjE)
    fix a b
    assume a: "a \<in> set (t_routes d)" "rt_applied_hostname a \<noteq> None" "t = target_of a"
      and b: "b \<in> set (t_routes d)" "rt_applied_hostname b \<noteq> None" "u = target_of b"
    have "rt_applied_hostname a = rt_applied_hostname b"
      using same a b by (auto simp: target_of_def)
    then have "rt_project_id a = rt_project_id b"
      using apart [OF a(1) b(1)] a(2) unfolding names_apart_def by metis
    then show ?thesis using key [OF a(1) b(1)] a(3) b(3) by simp
  next
    fix a
    assume a: "a \<in> set (t_routes d)" "rt_applied_hostname a \<noteq> None" "rt_project_id a \<noteq> rt_project_id c" "t = target_of a"
      and b: "u = \<lparr>et_project_id = rt_project_id c, et_hostname = rt_hostname r,
         et_gateway_alias = project_gateway_alias (rt_project_id c)\<rparr>"
    have "names_apart a r" by (rule apart [OF a(1) R(1)]) (simp add: a(3) R(2))
    moreover have "rt_applied_hostname a = Some (rt_hostname r)" using same a b by (auto simp: target_of_def)
    ultimately show ?thesis by (simp add: names_apart_def)
  next
    fix a
    assume a: "a \<in> set (t_routes d)" "rt_applied_hostname a \<noteq> None" "rt_project_id a \<noteq> rt_project_id c" "u = target_of a"
      and b: "t = \<lparr>et_project_id = rt_project_id c, et_hostname = rt_hostname r,
         et_gateway_alias = project_gateway_alias (rt_project_id c)\<rparr>"
    have "names_apart a r" by (rule apart [OF a(1) R(1)]) (simp add: a(3) R(2))
    moreover have "rt_applied_hostname a = Some (rt_hostname r)" using same a b by (auto simp: target_of_def)
    ultimately show ?thesis by (simp add: names_apart_def)
  qed simp
qed

lemma plan_renders:
  assumes "routes_ok d" "edge_names_ok d"
    and "route_of d (rt_project_id c) = Some r" "same_wish c r"
    and "length (list_applied d) < MAX_ROUTES"
  shows "render_edge_routes (planned_targets c (applied_targets d)) =
    Inr (edge_file (planned_targets c (applied_targets d)))"
proof -
  let ?ts = "planned_targets c (applied_targets d)"
  note N = plan_names [OF assms(1-4)]
  have "length ?ts \<le> MAX_ROUTES"
    using planned_set(2) [OF applied_ids [OF assms(1)], of c] assms(5) by (simp add: applied_targets_def)
  moreover have "distinct ?ts"
    using planned_set(3) [OF applied_ids [OF assms(1)], of c] by (simp add: distinct_map)
  then have "distinct (map et_hostname ?ts)"
    using N(2) by (auto simp: distinct_map inj_on_def)
  ultimately show ?thesis using N(1) by (simp add: render_eq)
qed

end
