(* ===== verification/Edge_Outcomes.thy ===== *)
theory Edge_Outcomes
  imports Edge_Plans
begin

text \<open>
  What an application of a configuration leaves in the configuration directory, on every way out.
\<close>

section \<open>The surroundings leave the directory alone\<close>

abbreviation files_of :: "('x, 'd) edge_state \<Rightarrow> files" where
  "files_of s \<equiv> fst (fst s)"

abbreviation rest_of :: "('x, 'd) edge_state \<Rightarrow> 'x \<times> 'd" where
  "rest_of s \<equiv> (snd (fst s), snd s)"

text \<open>\<open>D\<close> is a fact about the rest of the state that the surroundings keep.\<close>

definition untouched ::
    "('x \<times> 'd \<Rightarrow> bool) \<Rightarrow> ('x, 'd) edge_state \<Rightarrow> ('x, 'd) edge_state \<Rightarrow> bool" where
  "untouched D s s' = (files_of s' = files_of s \<and> (D (rest_of s) \<longrightarrow> D (rest_of s')))"

definition aside :: "('x \<times> 'd \<Rightarrow> bool) \<Rightarrow> (('x, 'd) edge_state \<Rightarrow> 'a \<times> ('x, 'd) edge_state) \<Rightarrow> bool" where
  "aside D f = (\<forall>s. untouched D s (snd (f s)))"

definition surroundings ::
    "('x \<times> 'd \<Rightarrow> bool) \<Rightarrow> ('x, 'd) edge_state edge_manager \<Rightarrow> ('x, 'd) edge_state heartbeat \<Rightarrow> bool" where
  "surroundings D M heartbeat =
     ((\<forall>args t ch. aside D (em_runner M args t (Some heartbeat) ch)) \<and>
      (\<forall>h. aside D (em_probe_management M h heartbeat)) \<and> (\<forall>h. aside D (em_probe_routed M h heartbeat)) \<and>
      (\<forall>h. aside D (em_probe_not_found M h heartbeat)) \<and> aside D heartbeat \<and>
      aside D (em_io_fails M) \<and> aside D (em_mkstemp M))"

text \<open>The directory has the files of \<open>base\<close>, and perhaps temporary ones besides.\<close>

definition kept :: "files \<Rightarrow> files \<Rightarrow> bool" where
  "kept base fs = (\<forall>n. base n \<noteq> None \<or> n = current_name \<or> n = journal_name \<longrightarrow> fs n = base n)"

definition J :: "('x \<times> 'd \<Rightarrow> bool) \<Rightarrow> files \<Rightarrow> bool \<Rightarrow> ('x, 'd) edge_state \<Rightarrow> bool" where
  "J D base b s = (kept base (files_of s) \<and> (b \<longrightarrow> D (rest_of s)))"

lemma J_untouched: "untouched D s s' \<Longrightarrow> J D base b s \<Longrightarrow> J D base b s'"
  by (auto simp: untouched_def J_def)

lemma aside_wp:
  assumes "aside D m" "J D base b s"
  shows "wp m (\<lambda>_. J D base b) (\<lambda>_. J D base b) s"
proof -
  have "untouched D s (snd (m s))" using assms(1) unfolding aside_def by (rule spec)
  then have "J D base b (snd (m s))" using assms(2) by (rule J_untouched)
  then show ?thesis by (auto simp: wp_def split: prod.split sum.split)
qed

lemma aside_port:
  assumes "aside D f" "J D base b s"
  shows "J D base b (snd (f s))" "files_of (snd (f s)) = files_of s"
proof -
  have u: "untouched D s (snd (f s))" using assms(1) unfolding aside_def by (rule spec)
  then show "J D base b (snd (f s))" using assms(2) by (rule J_untouched)
  show "files_of (snd (f s)) = files_of s" using u by (simp add: untouched_def)
qed

lemma names_differ [simp]: "journal_name \<noteq> current_name" "current_name \<noteq> journal_name"
  by (simp_all add: journal_name_def current_name_def)

lemma kept_weaken:
  "kept (base(n := Some v)) fs \<Longrightarrow> base n = None \<Longrightarrow> n \<notin> {current_name, journal_name} \<Longrightarrow> kept base fs"
  by (auto simp: kept_def split: if_splits)

lemma J_weaken:
  "J D (base(n := Some v)) b s \<Longrightarrow> base n = None \<Longrightarrow> n \<notin> {current_name, journal_name} \<Longrightarrow> J D base b s"
  by (auto simp: J_def intro: kept_weaken)

lemma J_file:
  "J D base b s \<Longrightarrow> n = current_name \<or> n = journal_name \<or> base n \<noteq> None \<Longrightarrow> files_of s n = base n"
  by (auto simp: J_def kept_def)

section \<open>File operations\<close>

lemma surroundingsD:
  assumes "surroundings D M heartbeat"
  shows "aside D (em_runner M args t (Some heartbeat) ch)" "aside D (em_probe_management M h heartbeat)"
    "aside D (em_probe_routed M h heartbeat)" "aside D (em_probe_not_found M h heartbeat)" "aside D heartbeat"
    "aside D (em_io_fails M)" "aside D (em_mkstemp M)"
  using assms unfolding surroundings_def by blast+

lemma file_op_wp:
  assumes env: "surroundings D M heartbeat" and s: "J D base b s"
    and f: "\<And>fs. kept base fs \<Longrightarrow> kept base' (f fs)"
  shows "wp (file_op M f) (\<lambda>_. J D base' b) (\<lambda>e s'. e = os_error \<and> J D base b s') s"
proof -
  let ?s = "snd (em_io_fails M s)"
  have "J D base b ?s" by (rule aside_port(1) [OF surroundingsD(6) [OF env] s])
  then show ?thesis
    using f by (auto simp: file_op_def wp_simps) (auto simp: wp_def J_def split: prod.splits)
qed

lemma unlink_wp:
  assumes env: "surroundings D M heartbeat" and s: "J D base b s"
    and n: "base n = None" "n \<notin> {current_name, journal_name}"
  shows "wp (unlink_missing_ok M n) (\<lambda>_. J D base b) (\<lambda>_. J D base b) s"
proof (rule wp_mono)
  show "wp (unlink_missing_ok M n) (\<lambda>_. J D base b) (\<lambda>e s'. e = os_error \<and> J D base b s') s"
    unfolding unlink_missing_ok_def by (rule file_op_wp [OF env s]) (use n in \<open>auto simp: kept_def\<close>)
qed auto

lemma get_files_wp [wp_simps]: "wp get_files Q E s = Q (files_of s) s"
  by (simp add: wp_def get_files_def)

lemma mkstemp_wp:
  assumes env: "surroundings D M heartbeat" and s: "J D base b s"
  shows "wp (mkstemp M)
    (\<lambda>n s'. J D (base(n := Some '''')) b s' \<and> base n = None \<and> n \<notin> {current_name, journal_name})
    (\<lambda>_. J D base b) s"
proof -
  let ?n = "''.public-routes-'' @ fst (em_mkstemp M s) @ ''.tmp''" and ?s = "snd (em_mkstemp M s)"
  have s1: "J D base b ?s" by (rule aside_port(1) [OF surroundingsD(7) [OF env] s])
  have n: "?n \<notin> {current_name, journal_name}" by (simp add: current_name_def journal_name_def)
  have new: "base ?n = None" if "files_of ?s ?n = None"
    using that s1 unfolding J_def kept_def by metis
  have create: "wp (file_op M (\<lambda>fs. fs(?n := Some ''''))) (\<lambda>_. J D (base(?n := Some '''')) b)
      (\<lambda>e s'. e = os_error \<and> J D base b s') ?s"
    by (rule file_op_wp [OF env s1]) (auto simp: kept_def)
  have "wp (file_op M (\<lambda>fs. fs(?n := Some ''''))) (\<lambda>_ s'. J D (base(?n := Some '''')) b s' \<and>
      base ?n = None \<and> ?n \<notin> {current_name, journal_name}) (\<lambda>_. J D base b) ?s"
    if "files_of ?s ?n = None"
    using n new [OF that] by (intro wp_mono [OF create]) blast+
  then show ?thesis
    using s1 unfolding mkstemp_def wp_bind wp_get Let_def get_files_wp wp_if wp_seq wp_ret wp_raise
    by (simp del: append.simps)
qed

lemma private_temporary_wp:
  assumes env: "surroundings D M heartbeat" and s: "J D base b s"
  shows "wp (private_temporary M v)
    (\<lambda>n s'. J D (base(n := Some v)) b s' \<and> base n = None \<and> n \<notin> {current_name, journal_name})
    (\<lambda>_. J D base b) s"
  unfolding private_temporary_def wp_bind
proof (rule wp_mono [OF mkstemp_wp [OF env s]])
  fix n s2
  assume "J D (base(n := Some '''')) b s2 \<and> base n = None \<and> n \<notin> {current_name, journal_name}"
  then have s2: "J D (base(n := Some '''')) b s2" and new: "base n = None"
    and n: "n \<notin> {current_name, journal_name}" by auto
  have put: "wp (file_op M (\<lambda>fs. fs(n \<mapsto> v))) (\<lambda>_. J D (base(n := Some v)) b)
      (\<lambda>e s'. e = os_error \<and> J D (base(n := Some [])) b s') s2"
    by (rule file_op_wp [OF env s2]) (auto simp: kept_def)
  have "wp (on_error (file_op M (\<lambda>fs. fs(n \<mapsto> v))) (unlink_missing_ok M n))
      (\<lambda>_. J D (base(n := Some v)) b) (\<lambda>_. J D base b) s2"
    unfolding on_error_def wp_simps
  proof (rule wp_mono [OF put])
    fix e s3 assume "e = os_error \<and> J D (base(n := Some [])) b s3"
    then have "J D base b s3" using J_weaken [where base = base, OF _ new n] by blast
    from unlink_wp [where base = base, OF env this new n]
    show "wp (unlink_missing_ok M n) (\<lambda>_. J D base b) (\<lambda>_. J D base b) s3" .
  qed
  then show "wp (seq_act (on_error (file_op M (\<lambda>fs. fs(n \<mapsto> v))) (unlink_missing_ok M n)) (ret n))
      (\<lambda>n s'. J D (base(n := Some v)) b s' \<and> base n = None \<and> n \<notin> {current_name, journal_name})
      (\<lambda>_. J D base b) s2"
    unfolding wp_seq wp_ret by (rule wp_mono) (use new n in auto)
qed

lemma os_replace_wp:
  assumes env: "surroundings D M heartbeat" and s: "J D (base(c := Some v)) b s"
    and c: "base c = None" "c \<notin> {current_name, journal_name}"
    and path: "path = current_name \<or> path = journal_name"
  shows "wp (os_replace M c path) (\<lambda>_. J D (base(path := Some v)) b)
    (\<lambda>e s'. e = os_error \<and> J D (base(c := Some v)) b s') s"
  unfolding os_replace_def
proof (rule file_op_wp [OF env s])
  fix fs assume k: "kept (base(c := Some v)) fs"
  then have "fs c = Some v" by (auto simp: kept_def)
  then show "kept (base(path := Some v)) (fs(path := fs c, c := None))"
    using k c path by (auto simp: kept_def split: if_splits)
qed

lemma fsync_wp:
  assumes env: "surroundings D M heartbeat" and s: "J D base b s"
  shows "wp (fsync_directory M) (\<lambda>_. J D base b) (\<lambda>e s'. e = os_error \<and> J D base b s') s"
  unfolding fsync_directory_def by (rule file_op_wp [OF env s])

text \<open>An atomic write that raises has either changed nothing or written the whole value.\<close>

definition J2 :: "('x \<times> 'd \<Rightarrow> bool) \<Rightarrow> files \<Rightarrow> files \<Rightarrow> bool \<Rightarrow> ('x, 'd) edge_state \<Rightarrow> bool" where
  "J2 D base base' b s = (J D base b s \<or> J D base' b s)"

lemma atomic_write_wp:
  assumes env: "surroundings D M heartbeat" and s: "J D base b s"
    and path: "path = current_name \<or> path = journal_name"
  shows "wp (atomic_write M path v) (\<lambda>_. J D (base(path := Some v)) b)
    (\<lambda>_. J2 D base (base(path := Some v)) b) s"
  unfolding atomic_write_def wp_bind
proof (rule wp_mono [OF private_temporary_wp [OF env s]])
  fix n s1
  assume "J D (base(n := Some v)) b s1 \<and> base n = None \<and> n \<notin> {current_name, journal_name}"
  then have s1: "J D (base(n := Some v)) b s1" and n: "base n = None" "n \<notin> {current_name, journal_name}" by auto
  have n': "(base(path := Some v)) n = None" using n path by auto
  let ?E = "J2 D base (base(path := Some v)) b"
  have gone: "wp (unlink_missing_ok M n) (\<lambda>_. ?E) (\<lambda>_. ?E) s2" if "?E s2" for s2
    using that unfolding J2_def
  proof
    assume "J D base b s2"
    from unlink_wp [where base = base, OF env this n]
    show "wp (unlink_missing_ok M n) (\<lambda>_ s. J D base b s \<or> J D (base(path := Some v)) b s)
      (\<lambda>_ s. J D base b s \<or> J D (base(path := Some v)) b s) s2" by (rule wp_mono) auto
  next
    assume "J D (base(path := Some v)) b s2"
    from unlink_wp [where base = "base(path := Some v)", OF env this n' n(2)]
    show "wp (unlink_missing_ok M n) (\<lambda>_ s. J D base b s \<or> J D (base(path := Some v)) b s)
      (\<lambda>_ s. J D base b s \<or> J D (base(path := Some v)) b s) s2" by (rule wp_mono) auto
  qed
  show "wp (on_error (seq_act (os_replace M n path) (fsync_directory M)) (unlink_missing_ok M n))
      (\<lambda>_. J D (base(path := Some v)) b) (\<lambda>_. ?E) s1"
    unfolding on_error_def wp_try wp_seq wp_raise
  proof (rule wp_mono [OF os_replace_wp [where base = base, OF env s1 n path]])
    fix s2 assume "J D (base(path := Some v)) b s2"
    from fsync_wp [OF env this]
    show "wp (fsync_directory M) (\<lambda>_. J D (base(path := Some v)) b)
        (\<lambda>e. wp (unlink_missing_ok M n) (\<lambda>_. ?E) (\<lambda>_. ?E)) s2"
      by (rule wp_mono) (simp, rule gone, simp only: J2_def, blast)
  next
    fix e s2 assume "e = os_error \<and> J D (base(n := Some v)) b s2"
    then have "J D base b s2" using J_weaken [where base = base, OF _ n] by blast
    then show "wp (unlink_missing_ok M n) (\<lambda>_. ?E) (\<lambda>_. ?E) s2" using gone by (simp add: J2_def)
  qed
qed (simp add: J2_def)

lemma read_text_wp:
  assumes env: "surroundings D M heartbeat" and s: "J D base b s"
    and path: "path = current_name \<or> path = journal_name"
  shows "wp (read_text M path) (\<lambda>t s'. base path = Some t \<and> J D base b s')
    (\<lambda>e s'. e = os_error \<and> J D base b s') s"
  unfolding read_text_def wp_simps
proof (rule wp_mono [OF file_op_wp [OF env s]])
  fix s1 assume s1: "J D base b s1"
  have "files_of s1 path = base path" by (rule J_file [OF s1]) (use path in auto)
  then show "wp (case files_of s1 path of None \<Rightarrow> raise os_error | Some t \<Rightarrow> ret t)
      (\<lambda>t s'. base path = Some t \<and> J D base b s') (\<lambda>e s'. e = os_error \<and> J D base b s') s1"
    using s1 by (auto simp: wp_simps split: option.split)
qed auto

section \<open>Programs that leave the two files as they are\<close>

definition stays :: "('x \<times> 'd \<Rightarrow> bool) \<Rightarrow> (('x, 'd) edge_state, 'a) act \<Rightarrow> bool" where
  "stays D m = (\<forall>base b s. J D base b s \<longrightarrow> wp m (\<lambda>_. J D base b) (\<lambda>_. J D base b) s)"

lemma staysD: "stays D m \<Longrightarrow> J D base b s \<Longrightarrow> wp m (\<lambda>_. J D base b) (\<lambda>_. J D base b) s"
  unfolding stays_def by blast

lemma stays_ret: "stays D (ret a)"
  by (simp add: stays_def wp_simps)

lemma stays_raise: "stays D (raise e)"
  by (simp add: stays_def wp_simps)

lemma stays_get: "stays D get_files"
  by (simp add: stays_def wp_simps)

lemma stays_bind: "stays D m \<Longrightarrow> (\<And>a. stays D (f a)) \<Longrightarrow> stays D (bind_act m f)"
  unfolding stays_def wp_simps by (blast intro: wp_mono)

lemma stays_seq: "stays D m \<Longrightarrow> stays D n \<Longrightarrow> stays D (seq_act m n)"
  unfolding seq_act_def by (rule stays_bind)

lemma stays_try: "stays D m \<Longrightarrow> (\<And>e. stays D (h e)) \<Longrightarrow> stays D (try_act m h)"
  unfolding stays_def wp_simps by (blast intro: wp_mono)

lemma stays_if: "stays D m \<Longrightarrow> stays D n \<Longrightarrow> stays D (if b then m else n)"
  by simp

lemma stays_option: "stays D m \<Longrightarrow> (\<And>a. stays D (f a)) \<Longrightarrow> stays D (case x of None \<Rightarrow> m | Some a \<Rightarrow> f a)"
  by (cases x) auto

lemma stays_each: "(\<And>x. stays D (f x)) \<Longrightarrow> stays D (each f xs)"
  by (induction xs) (auto intro: stays_ret stays_seq)

lemma aside_stays: "aside D m \<Longrightarrow> stays D m"
  unfolding stays_def using aside_wp by blast

lemmas stays_rules = stays_ret stays_raise stays_get stays_bind stays_seq stays_try stays_if stays_option

lemma read_text_stays:
  "surroundings D M heartbeat \<Longrightarrow> path = current_name \<or> path = journal_name \<Longrightarrow> stays D (read_text M path)"
  unfolding stays_def by (blast intro: wp_mono [OF read_text_wp])

lemma edge_run_stays: "surroundings D M heartbeat \<Longrightarrow> stays D (edge_run M args heartbeat code)"
proof -
  assume env: "surroundings D M heartbeat"
  have handler: "stays D (case e of CommandExecutionError _ \<Rightarrow> raise (edge_retryable code) | _ \<Rightarrow> raise e)" for e
    by (cases e) (simp_all add: stays_raise)
  show ?thesis
    unfolding edge_run_def by (rule stays_try [OF aside_stays [OF surroundingsD(1) [OF env]] handler])
qed

lemma verify_edge_stays: "surroundings D M heartbeat \<Longrightarrow> stays D (verify_edge M heartbeat)"
  unfolding verify_edge_def by (intro stays_rules edge_run_stays)

lemma reload_edge_stays: "surroundings D M heartbeat \<Longrightarrow> stays D (reload_edge M heartbeat)"
  unfolding reload_edge_def by (intro stays_rules edge_run_stays verify_edge_stays)

lemma probe_candidate_stays:
  "surroundings D M heartbeat \<Longrightarrow> stays D (probe_candidate M routes change heartbeat b)"
  unfolding probe_candidate_def
  by (intro stays_rules stays_each aside_stays surroundingsD(2,3,4))

lemma read_edge_file_stays: "surroundings D M heartbeat \<Longrightarrow> stays D (read_edge_file M path heartbeat)"
  unfolding read_edge_file_def by (intro stays_rules edge_run_stays)

lemma read_transaction_stays: "surroundings D M heartbeat \<Longrightarrow> stays D (read_transaction M)"
  unfolding read_transaction_def
  by (intro stays_rules read_text_stays [OF _ disjI2 [OF refl]]) assumption+

lemma validate_interrupted_stays: "surroundings D M heartbeat \<Longrightarrow> stays D (validate_interrupted M)"
  unfolding validate_interrupted_def
  by (intro stays_rules read_text_stays [OF _ disjI1 [OF refl]] read_transaction_stays) assumption+

lemma test_config_stays:
  assumes env: "surroundings D M heartbeat"
  shows "stays D (test_config M candidate heartbeat)"
proof -
  let ?run = "\<lambda>args. bind_act (edge_run M args heartbeat ''EDGE_CONFIG_INVALID'') (\<lambda>_. ret ())"
  have temps: "stays D (bind_act (private_temporary M x) (\<lambda>p. bind_act (private_temporary M y) (\<lambda>q'.
      finally_act (?run (f p q')) (seq_act (unlink_missing_ok M p) (unlink_missing_ok M q')))))" for x y f
    unfolding stays_def
  proof (intro allI impI)
    fix base b s
    assume s: "J D base b s"
    show "wp (bind_act (private_temporary M x) (\<lambda>p. bind_act (private_temporary M y) (\<lambda>q'.
      finally_act (?run (f p q')) (seq_act (unlink_missing_ok M p) (unlink_missing_ok M q')))))
      (\<lambda>_. J D base b) (\<lambda>_. J D base b) s"
      unfolding wp_bind
    proof (rule wp_mono [OF private_temporary_wp [OF env s]])
      fix p s1
      assume "J D (base(p := Some x)) b s1 \<and> base p = None \<and> p \<notin> {current_name, journal_name}"
      then have s1: "J D (base(p := Some x)) b s1" and p: "base p = None" "p \<notin> {current_name, journal_name}" by auto
      show "wp (private_temporary M y) (\<lambda>q'. wp (finally_act (?run (f p q'))
          (seq_act (unlink_missing_ok M p) (unlink_missing_ok M q'))) (\<lambda>_. J D base b) (\<lambda>_. J D base b))
          (\<lambda>_. J D base b) s1"
      proof (rule wp_mono [OF private_temporary_wp [OF env s1]])
        fix r s2
        assume A: "J D (base(p := Some x, r := Some y)) b s2 \<and> (base(p := Some x)) r = None \<and>
          r \<notin> {current_name, journal_name}"
        have r: "base r = None" "r \<notin> {current_name, journal_name}"
          using A by (auto split: if_splits)
        have s2: "J D base b s2"
          using A J_weaken [where base = "base(p := Some x)" and n = r] J_weaken [where base = base and n = p, OF _ p]
          by blast
        have gone: "wp (seq_act (unlink_missing_ok M p) (unlink_missing_ok M r)) (\<lambda>_. J D base b) (\<lambda>_. J D base b) s3"
          if "J D base b s3" for s3
          unfolding wp_seq by (rule wp_mono [OF unlink_wp [where base = base, OF env that p]])
            (auto intro: unlink_wp [where base = base, OF env _ r])
        have "stays D (?run (f p r))" by (intro stays_rules edge_run_stays env)
        from staysD [OF this s2]
        show "wp (finally_act (?run (f p r)) (seq_act (unlink_missing_ok M p) (unlink_missing_ok M r)))
            (\<lambda>_. J D base b) (\<lambda>_. J D base b) s2"
          unfolding finally_act_def on_error_def wp_bind wp_try
          by (rule wp_mono) (auto simp: wp_bind wp_raise wp_ret seq_act_def [of "seq_act _ _"]
              intro: wp_mono [OF gone])
      next
        fix e s2 assume "J D (base(p := Some x)) b s2"
        then show "J D base b s2" by (rule J_weaken [where base = base, OF _ p])
      qed
    qed
  qed
  show ?thesis
    unfolding test_config_def by (intro stays_bind read_edge_file_stays env temps)
qed

section \<open>The steps of an application\<close>

definition journal_text :: "'s edge_manager \<Rightarrow> edge_transaction \<Rightarrow> string" where
  "journal_text M t = em_dumps M (transaction_json t) @ [CHR 0x0A]"

lemma write_transaction_wp:
  assumes env: "surroundings D M heartbeat" and s: "J D base b s"
  shows "wp (write_transaction M t) (\<lambda>_. J D (base(journal_name := Some (journal_text M t))) b)
    (\<lambda>_. J2 D base (base(journal_name := Some (journal_text M t))) b) s"
proof -
  have "wp (atomic_write M journal_name (journal_text M t))
      (\<lambda>_. J D (base(journal_name := Some (journal_text M t))) b)
      (\<lambda>_. J2 D base (base(journal_name := Some (journal_text M t))) b) s"
    by (rule atomic_write_wp [OF env s]) simp
  then show ?thesis
    unfolding write_transaction_def wp_try journal_text_def by (rule wp_mono) (auto simp: wp_raise)
qed

lemma remove_journal_wp:
  assumes env: "surroundings D M heartbeat" and s: "J D base b s"
  shows "wp (remove_transaction_journal M) (\<lambda>_. J D (base(journal_name := None)) b)
    (\<lambda>_. J2 D base (base(journal_name := None)) b) s"
  unfolding remove_transaction_journal_def wp_try wp_seq unlink_missing_ok_def
proof (rule wp_mono [OF file_op_wp [OF env s]])
  fix fs assume "kept base fs"
  then show "kept (base(journal_name := None)) (fs(journal_name := None))"
    by (auto simp: kept_def split: if_splits)
next
  fix s1 assume "J D (base(journal_name := None)) b s1"
  from fsync_wp [OF env this]
  show "wp (fsync_directory M) (\<lambda>_. J D (base(journal_name := None)) b)
      (\<lambda>e. wp (if e = os_error then raise (edge_uncertain ''EDGE_TRANSACTION_JOURNAL_CLEAR_FAILED'')
               else raise e) (\<lambda>_. J D (base(journal_name := None)) b)
             (\<lambda>_. J2 D base (base(journal_name := None)) b)) s1"
    by (rule wp_mono) (simp, simp only: wp_if wp_raise J2_def if_cancel, blast)
next
  fix e s1 assume "e = os_error \<and> J D base b s1"
  then show "wp (if e = os_error then raise (edge_uncertain ''EDGE_TRANSACTION_JOURNAL_CLEAR_FAILED'')
      else raise e) (\<lambda>_. J D (base(journal_name := None)) b) (\<lambda>_. J2 D base (base(journal_name := None)) b) s1"
    by (simp add: wp_simps J2_def)
qed

text \<open>What an error may leave: the previous configuration, or the candidate with \<open>D\<close> or with the
  journal that names both.\<close>

definition left_by_error ::
    "('x \<times> 'd \<Rightarrow> bool) \<Rightarrow> string option set \<Rightarrow> string \<Rightarrow> string \<Rightarrow> ('x, 'd) edge_state \<Rightarrow> bool" where
  "left_by_error D before candidate journal s =
     (files_of s current_name \<in> before \<or>
      files_of s current_name = Some candidate \<and>
        (D (rest_of s) \<or> files_of s journal_name = Some journal))"

lemma left_candidate:
  "J F base b s \<Longrightarrow> base current_name = Some candidate \<Longrightarrow> base journal_name = Some journal \<Longrightarrow>
   left_by_error D before candidate journal s"
  by (simp add: left_by_error_def J_file)

lemma left_finalized:
  "J D base True s \<Longrightarrow> base current_name = Some candidate \<Longrightarrow> left_by_error D before candidate journal s"
  by (simp add: left_by_error_def J_file) (simp add: J_def)

lemma left_before:
  "J F base b s \<Longrightarrow> base current_name \<in> before \<Longrightarrow> left_by_error D before candidate journal s"
  by (simp add: left_by_error_def J_file)

lemma stays_seq_wp:
  assumes "stays D m" "J D base b s"
    and "\<And>s'. J D base b s' \<Longrightarrow> wp n Q E s'" "\<And>e s'. J D base b s' \<Longrightarrow> E e s'"
  shows "wp (seq_act m n) Q E s"
  unfolding wp_seq by (rule wp_mono [OF staysD [OF assms(1,2)]]) (rule assms(3,4), assumption)+

lemma restore_wp:
  assumes env: "surroundings F M heartbeat" and s: "J F base b s"
    and base: "base current_name = Some candidate" "base journal_name = Some journal"
  shows "wp (restore_config M candidate previous change heartbeat)
    (\<lambda>_. J F (base(current_name := Some previous, journal_name := None)) b)
    (\<lambda>_. left_by_error D {Some previous} candidate journal) s"
proof -
  let ?E = "left_by_error D {Some previous} candidate journal"
  let ?Q = "J F (base(current_name := Some previous, journal_name := None)) b"
  let ?base = "base(current_name := Some previous)"
  have early: "?E s1" if "J F base b s1" for s1
    by (rule left_candidate [OF that base])
  have late: "?E s1" if "J F ?base b s1" for s1
    by (rule left_before [OF that]) simp
  have check: "stays F (bind_act get_files (\<lambda>fs.
          if fs current_name = None then raise (edge_uncertain ''EDGE_CONFIG_CHANGED_DURING_RESTORE'')
          else bind_act (read_text M current_name) (\<lambda>current.
            if current \<noteq> candidate then raise (edge_uncertain ''EDGE_CONFIG_CHANGED_DURING_RESTORE'')
            else ret ())))"
    by (intro stays_rules read_text_stays [OF env] disjI1 refl)
  have gone: "wp (remove_transaction_journal M) (\<lambda>_. ?Q) (\<lambda>_. ?E) s1" if "J F ?base b s1" for s1
  proof (rule wp_mono [OF remove_journal_wp [OF env that]])
    fix e s2 assume "J2 F ?base (?base(journal_name := None)) b s2"
    then show "?E s2" unfolding J2_def
      by (elim disjE) (rule late, assumption, erule left_before, simp)
  qed
  have undone: "wp (seq_act (reload_edge M heartbeat)
      (seq_act (em_probe_management M (em_management_hostname M) heartbeat)
      (seq_act
         (case change of
            None \<Rightarrow> ret ()
          | Some c \<Rightarrow>
              seq_act (case ech_previous_hostname c of None \<Rightarrow> ret () | Some h \<Rightarrow> em_probe_routed M h heartbeat)
                (if ech_enabled c \<and> ech_previous_hostname c \<noteq> Some (ech_hostname c)
                 then em_probe_not_found M (ech_hostname c) heartbeat else ret ()))
        (remove_transaction_journal M)))) (\<lambda>_. ?Q) (\<lambda>_. ?E) s1" if "J F ?base b s1" for s1
    by (intro stays_seq_wp [where D = F and base = ?base and b = b] that gone stays_rules
        reload_edge_stays [OF env] aside_stays late) (assumption | rule surroundingsD [OF env])+
  have put: "wp (atomic_write M current_name previous) (\<lambda>_. J F ?base b) (\<lambda>_. ?E) s1" if "J F base b s1" for s1
  proof (rule wp_mono [OF atomic_write_wp [OF env that]])
    fix e s2 assume "J2 F base ?base b s2"
    then show "?E s2" unfolding J2_def by (elim disjE) (rule early late, assumption)+
  qed simp_all
  have rest: "wp (seq_act (atomic_write M current_name previous) n) (\<lambda>_. ?Q) (\<lambda>_. ?E) s1"
    if s1: "J F base b s1" and n: "\<And>s2. J F ?base b s2 \<Longrightarrow> wp n (\<lambda>_. ?Q) (\<lambda>_. ?E) s2" for n s1
    unfolding wp_seq by (rule wp_mono [OF put [OF s1]]) (rule n, assumption)+
  show ?thesis
    unfolding restore_config_def by (rule stays_seq_wp [OF check s]) (rule rest, assumption, rule undone, assumption, rule early)
qed

text \<open>Putting the previous configuration back and raising again.\<close>

lemma restore_and_raise_wp:
  assumes env: "surroundings F M heartbeat" and s: "J F base b s"
    and base: "base current_name = Some candidate" "base journal_name = Some journal"
  shows "wp (restore_and_raise M candidate previous change heartbeat e) Q
    (\<lambda>_. left_by_error D {Some previous} candidate journal) s"
  unfolding restore_and_raise_def wp_seq wp_try wp_raise
proof (rule wp_mono [OF restore_wp [OF env s base]])
  fix u s1 assume "J F (base(current_name := Some previous, journal_name := None)) b s1"
  then show "left_by_error D {Some previous} candidate journal s1" by (rule left_before) simp
next
  fix r s1 assume left: "left_by_error D {Some previous} candidate journal s1"
  show "wp (case r of EdgeRuntimeError _ _ _ \<Rightarrow> raise (edge_uncertain ''EDGE_STATE_UNCERTAIN'') | _ \<Rightarrow> raise r)
      (\<lambda>_. left_by_error D {Some previous} candidate journal)
      (\<lambda>_. left_by_error D {Some previous} candidate journal) s1"
    using left by (cases r) (simp_all add: wp_raise)
qed

text \<open>The finalizer: it leaves the files alone, and takes a state with \<open>F\<close> to one with \<open>D\<close> when it
  returns.\<close>

definition finalizes ::
    "('x \<times> 'd \<Rightarrow> bool) \<Rightarrow> ('x \<times> 'd \<Rightarrow> bool) \<Rightarrow> ('x, 'd) edge_state heartbeat \<Rightarrow> bool" where
  "finalizes F D finalize =
     (\<forall>s. files_of (snd (finalize s)) = files_of s \<and>
        (F (rest_of s) \<longrightarrow> (if fst (finalize s) = Inr () then D else F) (rest_of (snd (finalize s)))))"

lemma finalize_wp:
  assumes "finalizes F D finalize" "J F base True s"
  shows "wp finalize (\<lambda>_. J D base True) (\<lambda>_. J F base True) s"
proof -
  have A: "files_of (snd (finalize s)) = files_of s \<and>
      (F (rest_of s) \<longrightarrow> (if fst (finalize s) = Inr () then D else F) (rest_of (snd (finalize s))))"
    using assms(1) unfolding finalizes_def by (rule spec)
  then show ?thesis
    using assms(2) by (cases "finalize s") (auto simp: wp_def J_def split: sum.split)
qed

section \<open>The application\<close>

definition previous_config :: "files \<Rightarrow> string" where
  "previous_config fs = (case fs current_name of None \<Rightarrow> NO_ROUTES_CONFIG | Some p \<Rightarrow> p)"

text \<open>What was there, or the empty configuration written in its place.\<close>

definition before_switch :: "files \<Rightarrow> string option set" where
  "before_switch fs = {fs current_name, Some (previous_config fs)}"

definition transaction_of :: "edge_route_change option \<Rightarrow> string \<Rightarrow> string \<Rightarrow> edge_transaction" where
  "transaction_of change previous rendered =
     \<lparr>tr_previous = previous, tr_candidate = rendered,
      tr_previous_hostname = (case change of None \<Rightarrow> None | Some c \<Rightarrow> ech_previous_hostname c),
      tr_phase = PREPARED\<rparr>"

lemma read_previous_wp:
  assumes env: "surroundings D M heartbeat" and s: "J D base b s"
  shows "wp (bind_act get_files (\<lambda>fs.
               if fs current_name \<noteq> None then read_text M current_name
               else seq_act (atomic_write M current_name NO_ROUTES_CONFIG) (ret NO_ROUTES_CONFIG)))
    (\<lambda>p s'. p = previous_config base \<and> J D (base(current_name := Some p)) b s')
    (\<lambda>_ s'. files_of s' current_name \<in> before_switch base \<and> (\<exists>base'. J D base' b s' \<and>
        (\<forall>n. n \<noteq> current_name \<longrightarrow> base' n = base n))) s"
proof (cases "base current_name")
  case None
  then have prev: "previous_config base = NO_ROUTES_CONFIG" by (simp add: previous_config_def)
  have "files_of s current_name = None" using J_file [OF s] None by simp
  moreover have "wp (seq_act (atomic_write M current_name NO_ROUTES_CONFIG) (ret NO_ROUTES_CONFIG))
      (\<lambda>p s'. p = previous_config base \<and> J D (base(current_name := Some p)) b s')
      (\<lambda>_ s'. files_of s' current_name \<in> before_switch base \<and> (\<exists>base'. J D base' b s' \<and>
        (\<forall>n. n \<noteq> current_name \<longrightarrow> base' n = base n))) s"
    unfolding wp_seq wp_ret
  proof (rule wp_mono [OF atomic_write_wp [OF env s]])
    fix e s1 assume "J2 D base (base(current_name := Some NO_ROUTES_CONFIG)) b s1"
    then show "files_of s1 current_name \<in> before_switch base \<and> (\<exists>base'. J D base' b s1 \<and>
        (\<forall>n. n \<noteq> current_name \<longrightarrow> base' n = base n))"
      unfolding J2_def
    proof
      assume j: "J D base b s1"
      then show ?thesis using J_file [OF j] by (auto simp: before_switch_def)
    next
      assume j: "J D (base(current_name := Some NO_ROUTES_CONFIG)) b s1"
      then have "files_of s1 current_name = Some NO_ROUTES_CONFIG" using J_file [OF j] by simp
      then show ?thesis using j prev
        by (intro conjI exI [of _ "base(current_name := Some NO_ROUTES_CONFIG)"]) (simp_all add: before_switch_def)
    qed
  qed (simp_all add: prev)
  ultimately show ?thesis by (simp add: wp_simps)
next
  case (Some p)
  then have prev: "previous_config base = p" by (simp add: previous_config_def)
  have same: "base(current_name := Some p) = base" using Some by auto
  have "files_of s current_name \<noteq> None" using J_file [OF s] Some by simp
  moreover have "wp (read_text M current_name)
      (\<lambda>p s'. p = previous_config base \<and> J D (base(current_name := Some p)) b s')
      (\<lambda>_ s'. files_of s' current_name \<in> before_switch base \<and> (\<exists>base'. J D base' b s' \<and>
        (\<forall>n. n \<noteq> current_name \<longrightarrow> base' n = base n))) s"
  proof (rule wp_mono [OF read_text_wp [OF env s]])
    fix e s1 assume "e = os_error \<and> J D base b s1"
    then have j: "J D base b s1" by simp
    then show "files_of s1 current_name \<in> before_switch base \<and> (\<exists>base'. J D base' b s1 \<and>
        (\<forall>n. n \<noteq> current_name \<longrightarrow> base' n = base n))"
      using J_file [OF j] by (auto simp: before_switch_def)
  qed (use Some prev same in auto)
  ultimately show ?thesis by (simp add: wp_simps)
qed

lemma unlink_current_wp:
  assumes env: "surroundings D M heartbeat" and n: "n \<noteq> current_name" and s: "files_of s current_name \<in> X"
  shows "wp (unlink_missing_ok M n) (\<lambda>_ s'. files_of s' current_name \<in> X)
    (\<lambda>_ s'. files_of s' current_name \<in> X) s"
proof -
  have "J D (files_of s) False s" by (simp add: J_def kept_def)
  from aside_port(2) [OF surroundingsD(6) [OF env] this]
  have "files_of (snd (em_io_fails M s)) = files_of s" .
  then show ?thesis
    using n s by (auto simp: unlink_missing_ok_def file_op_def wp_simps)
      (auto simp: wp_def split: prod.splits)
qed

lemma switch_config_wp:
  assumes env: "surroundings D M heartbeat" and fence: "aside D fence"
    and s: "J D (base(c := Some rendered)) b s" and c: "base c = None" "c \<notin> {current_name, journal_name}"
  shows "wp (switch_config M rendered c change heartbeat fence)
    (\<lambda>t s'. t = transaction_of change (previous_config base) rendered \<and>
       J D (base(journal_name := Some (journal_text M t), current_name := Some rendered)) b s')
    (\<lambda>_ s'. files_of s' current_name \<in> before_switch base) s"
proof -
  let ?b = "base(c := Some rendered)" and ?p = "previous_config base"
  let ?t = "transaction_of change ?p rendered"
  let ?X = "before_switch base"
  let ?E = "\<lambda>_ s'. files_of s' current_name \<in> ?X"
  have cc: "c \<noteq> current_name" "c \<noteq> journal_name" using c(2) by auto
  have prev: "previous_config ?b = ?p" "before_switch ?b = ?X"
    using cc(1) by (simp_all add: previous_config_def before_switch_def)
  have at_base: "files_of s1 current_name \<in> ?X" if "J D ?b b s1" for s1
    using J_file [OF that] cc(1) by (simp add: before_switch_def)
  let ?base1 = "?b(current_name := Some ?p)"
  let ?base2 = "base(current_name := Some ?p, journal_name := Some (journal_text M ?t))"
  have move: "?base1(journal_name := Some (journal_text M ?t)) = ?base2(c := Some rendered)"
    using cc by (auto simp: fun_eq_iff)
  have c2: "?base2 c = None" using c(1) cc by simp
  have final: "?base2(current_name := Some rendered) =
      base(journal_name := Some (journal_text M ?t), current_name := Some rendered)"
    by (auto simp: fun_eq_iff)
  have replace: "wp (seq_act (os_replace M c current_name) (ret ?t))
      (\<lambda>t s'. t = ?t \<and> J D (base(journal_name := Some (journal_text M t), current_name := Some rendered)) b s')
      ?E s1" if s1: "J D (?base2(c := Some rendered)) b s1" for s1
    unfolding wp_seq wp_ret
  proof (rule wp_mono [OF os_replace_wp [where base = ?base2, OF env s1 c2 c(2) disjI1 [OF refl]]])
    fix e s2 assume "e = os_error \<and> J D (?base2(c := Some rendered)) b s2"
    then have j: "J D (?base2(c := Some rendered)) b s2" by simp
    show "files_of s2 current_name \<in> ?X" using J_file [OF j] cc by (simp add: before_switch_def)
  qed (simp only: final simp_thms)
  have journal: "wp (write_transaction M ?t) (\<lambda>_. J D (?base2(c := Some rendered)) b) ?E s1"
    if s1: "J D ?base1 b s1" for s1
  proof (rule wp_mono [OF write_transaction_wp [OF env s1]])
    fix u s2 assume "J D (?base1(journal_name := Some (journal_text M ?t))) b s2"
    then show "J D (?base2(c := Some rendered)) b s2" by (simp only: move)
  next
    fix e s2 assume "J2 D ?base1 (?base1(journal_name := Some (journal_text M ?t))) b s2"
    then show "files_of s2 current_name \<in> ?X"
      unfolding J2_def by (elim disjE) (drule J_file [OF _ disjI1 [OF refl]], simp add: before_switch_def)+
  qed
  let ?read = "bind_act get_files (\<lambda>fs.
               if fs current_name \<noteq> None then read_text M current_name
               else seq_act (atomic_write M current_name NO_ROUTES_CONFIG) (ret NO_ROUTES_CONFIG))"
  have read: "wp (bind_act ?read (\<lambda>previous.
               let transaction =
                 \<lparr>tr_previous = previous, tr_candidate = rendered,
                  tr_previous_hostname =
                    (case change of None \<Rightarrow> None | Some c \<Rightarrow> ech_previous_hostname c),
                  tr_phase = PREPARED\<rparr> in
               seq_act (write_transaction M transaction)
                 (seq_act (os_replace M c current_name) (ret transaction))))
      (\<lambda>t s'. t = ?t \<and> J D (base(journal_name := Some (journal_text M t), current_name := Some rendered)) b s')
      ?E s1" if s1: "J D ?b b s1" for s1
    unfolding wp_bind [where m = ?read] Let_def
  proof (rule wp_mono [OF read_previous_wp [OF env s1]])
    fix p s2
    assume A: "p = previous_config ?b \<and> J D (?b(current_name := Some p)) b s2"
    then have p: "p = ?p" by (simp add: prev)
    have s2: "J D ?base1 b s2" using conjunct2 [OF A] unfolding p .
    show "wp (seq_act (write_transaction M \<lparr>tr_previous = p, tr_candidate = rendered,
          tr_previous_hostname = (case change of None \<Rightarrow> None | Some c \<Rightarrow> ech_previous_hostname c), tr_phase = PREPARED\<rparr>)
          (seq_act (os_replace M c current_name) (ret \<lparr>tr_previous = p, tr_candidate = rendered,
          tr_previous_hostname = (case change of None \<Rightarrow> None | Some c \<Rightarrow> ech_previous_hostname c), tr_phase = PREPARED\<rparr>)))
        (\<lambda>t s'. t = ?t \<and> J D (base(journal_name := Some (journal_text M t), current_name := Some rendered)) b s') ?E s2"
      unfolding p transaction_of_def [symmetric] wp_seq [where m = "write_transaction M ?t"]
      by (rule wp_mono [OF journal [OF s2]]) (rule replace, assumption+)
  qed (simp add: prev)
  have body: "wp (seq_act (test_config M c heartbeat) (seq_act fence (bind_act ?read (\<lambda>previous.
               let transaction =
                 \<lparr>tr_previous = previous, tr_candidate = rendered,
                  tr_previous_hostname =
                    (case change of None \<Rightarrow> None | Some c \<Rightarrow> ech_previous_hostname c),
                  tr_phase = PREPARED\<rparr> in
               seq_act (write_transaction M transaction)
                 (seq_act (os_replace M c current_name) (ret transaction))))))
      (\<lambda>t s'. t = ?t \<and> J D (base(journal_name := Some (journal_text M t), current_name := Some rendered)) b s')
      ?E s"
    by (intro stays_seq_wp [where D = D and base = ?b and b = b] s test_config_stays [OF env]
        aside_stays [OF fence] read at_base)
  show ?thesis
    unfolding switch_config_def on_error_def wp_try wp_seq [where n = "raise _"] wp_raise
    by (rule wp_mono [OF body]) (assumption, rule unlink_current_wp [OF env cc(1)])
qed

lemma serve_config_wp:
  assumes env: "surroundings F M heartbeat" "surroundings D M heartbeat"
    and fence: "aside F fence" and fin: "finalizes F D finalize"
    and s: "J F base True s" and base: "base current_name = Some rendered"
      "base journal_name = Some (journal_text M t)"
  shows "wp (serve_config M routes rendered t change heartbeat fence finalize pr)
    (\<lambda>_. J D (base(journal_name := None)) True)
    (\<lambda>_. left_by_error D {Some (tr_previous t)} rendered (journal_text M t)) s"
proof -
  let ?E = "left_by_error D {Some (tr_previous t)} rendered (journal_text M t)"
  let ?Q = "J D (base(journal_name := None)) True"
  have undo: "wp (restore_and_raise M rendered (tr_previous t) change heartbeat e) Q (\<lambda>_. ?E) s1"
    if "J F base True s1" for e Q s1
    by (rule restore_and_raise_wp [OF env(1) that base])
  have body: "stays F (seq_act (fsync_directory M) (seq_act (reload_edge M heartbeat)
      (seq_act (probe_candidate M routes change heartbeat pr) fence)))"
  proof -
    have "stays F (fsync_directory M)"
      unfolding stays_def by (blast intro: wp_mono [OF fsync_wp [OF env(1)]])
    then show ?thesis
      by (intro stays_seq reload_edge_stays [OF env(1)] probe_candidate_stays [OF env(1)] aside_stays [OF fence])
  qed
  have closing: "wp (seq_act (mark_transaction_committed M t) (remove_transaction_journal M)) (\<lambda>_. ?Q) (\<lambda>_. ?E) s1"
    if s1: "J D base True s1" for s1
  proof -
    let ?base = "base(journal_name := Some (journal_text M (t\<lparr>tr_phase := COMMITTED\<rparr>)))"
    have up: "?base(journal_name := None) = base(journal_name := None)" by simp
    have left: "?E s2" if "J D base True s2 \<or> J D ?base True s2 \<or> J D (base(journal_name := None)) True s2" for s2
      using that by (elim disjE) (erule left_finalized, simp add: base(1))+
    show ?thesis
      unfolding wp_seq mark_transaction_committed_def
    proof (rule wp_mono [OF write_transaction_wp [OF env(2) s1]])
      fix u s2 assume s2: "J D ?base True s2"
      show "wp (remove_transaction_journal M) (\<lambda>_. ?Q) (\<lambda>_. ?E) s2"
      proof (rule wp_mono [OF remove_journal_wp [OF env(2) s2]])
        fix u s3 assume "J D (?base(journal_name := None)) True s3"
        then show "?Q s3" by (simp only: up)
      next
        fix e s3 assume "J2 D ?base (?base(journal_name := None)) True s3"
        then show "?E s3" unfolding J2_def up by (intro left) blast
      qed
    next
      fix e s2 assume "J2 D base ?base True s2"
      then show "?E s2" unfolding J2_def by (intro left) blast
    qed
  qed
  have fin': "wp (seq_act (try_act finalize (\<lambda>e. if e = EdgeFinalizeRejectedError
            then restore_and_raise M rendered (tr_previous t) change heartbeat e
            else raise (edge_uncertain ''EDGE_FINALIZE_UNCERTAIN'')))
         (seq_act (mark_transaction_committed M t) (remove_transaction_journal M)))
      (\<lambda>_. ?Q) (\<lambda>_. ?E) s1" if s1: "J F base True s1" for s1
    unfolding wp_seq [where m = "try_act _ _"] wp_try
  proof (rule wp_mono [OF finalize_wp [OF fin s1]])
    fix u s2 assume "J D base True s2"
    then show "wp (seq_act (mark_transaction_committed M t) (remove_transaction_journal M)) (\<lambda>_. ?Q) (\<lambda>_. ?E) s2"
      by (rule closing)
  next
    fix e s2 assume s2: "J F base True s2"
    then show "wp (if e = EdgeFinalizeRejectedError
          then restore_and_raise M rendered (tr_previous t) change heartbeat e
          else raise (edge_uncertain ''EDGE_FINALIZE_UNCERTAIN''))
        (\<lambda>_. wp (seq_act (mark_transaction_committed M t) (remove_transaction_journal M)) (\<lambda>_. ?Q) (\<lambda>_. ?E)) (\<lambda>_. ?E) s2"
    proof (cases "e = EdgeFinalizeRejectedError")
      case True
      show ?thesis unfolding wp_if if_P [OF True] by (rule undo [OF s2])
    next
      case False
      show ?thesis unfolding wp_if if_not_P [OF False] wp_raise by (rule left_candidate [OF s2 base])
    qed
  qed
  show ?thesis
    unfolding serve_config_def Let_def wp_seq [where m = "try_act (seq_act (fsync_directory M) _) _"] wp_try
    by (rule wp_mono [OF staysD [OF body s]]) (rule fin', assumption, rule undo, assumption)
qed

text \<open>Every way out of an application.\<close>

lemma apply_edge_wp:
  assumes env: "surroundings F M heartbeat" "surroundings D M heartbeat"
    and fence: "aside F fence" and fin: "finalizes F D finalize" and F: "F (rest_of s)"
  shows "wp (apply_edge M routes change heartbeat fence finalize pr)
    (\<lambda>_ s'. \<exists>rendered. render_edge_routes routes = Inr rendered \<and>
       J D ((files_of s)(current_name := Some rendered, journal_name := None)) True s')
    (\<lambda>_ s'. files_of s' current_name \<in> before_switch (files_of s) \<or>
       (\<exists>rendered. render_edge_routes routes = Inr rendered \<and>
          files_of s' current_name = Some rendered \<and>
          (D (rest_of s') \<or> files_of s' journal_name =
             Some (journal_text M (transaction_of change (previous_config (files_of s)) rendered))))) s"
proof (cases "render_edge_routes routes")
  case (Inl e)
  then show ?thesis by (simp add: apply_edge_def wp_raise before_switch_def)
next
  case (Inr rendered)
  let ?base = "files_of s"
  let ?t = "transaction_of change (previous_config ?base) rendered"
  let ?E = "\<lambda>(_::exn) s'. files_of s' current_name \<in> before_switch ?base \<or>
       (files_of s' current_name = Some rendered \<and>
          (D (rest_of s') \<or> files_of s' journal_name = Some (journal_text M ?t)))"
  let ?Q = "\<lambda>_. J D (?base(current_name := Some rendered, journal_name := None)) True"
  have s: "J F ?base True s" using F by (simp add: J_def kept_def)
  have early: "?E e s1" if "J F ?base True s1" for e s1
    using J_file [OF that, of current_name] by (simp add: before_switch_def)
  have left: "?E e s1" if "left_by_error D {Some (tr_previous ?t)} rendered (journal_text M ?t) s1" for e s1
    using that by (auto simp: left_by_error_def transaction_of_def before_switch_def)
  have serve: "wp (serve_config M routes rendered t change heartbeat fence finalize pr) ?Q ?E s1"
    if t: "t = ?t \<and> J F (?base(journal_name := Some (journal_text M t), current_name := Some rendered)) True s1" for t s1
  proof -
    let ?b2 = "?base(journal_name := Some (journal_text M ?t), current_name := Some rendered)"
    have same: "?b2(journal_name := None) = ?base(current_name := Some rendered, journal_name := None)"
      by (auto simp: fun_eq_iff)
    have eq: "t = ?t" using t by simp
    have s1: "J F ?b2 True s1" using conjunct2 [OF t] unfolding eq .
    show ?thesis
      unfolding eq
    proof (rule wp_mono [OF serve_config_wp [OF env fence fin s1]])
      fix u s2 assume "J D (?b2(journal_name := None)) True s2"
      then show "?Q u s2" by (simp only: same)
    qed (simp_all add: left)
  qed
  have temp: "wp (bind_act (private_temporary M rendered) (\<lambda>candidate_path.
            bind_act (switch_config M rendered candidate_path change heartbeat fence) (\<lambda>transaction.
              serve_config M routes rendered transaction change heartbeat fence finalize pr))) ?Q ?E s1"
    if s1: "J F ?base True s1" for s1
    unfolding wp_bind
  proof (rule wp_mono [OF private_temporary_wp [OF env(1) s1]])
    fix c s2 assume "J F (?base(c := Some rendered)) True s2 \<and> ?base c = None \<and> c \<notin> {current_name, journal_name}"
    then have c: "J F (?base(c := Some rendered)) True s2" "?base c = None" "c \<notin> {current_name, journal_name}" by auto
    show "wp (switch_config M rendered c change heartbeat fence)
        (\<lambda>t. wp (serve_config M routes rendered t change heartbeat fence finalize pr) ?Q ?E) ?E s2"
      by (rule wp_mono [OF switch_config_wp [where base = ?base, OF env(1) fence c]]) (rule serve, assumption, simp)
  qed (rule early)
  have root: "stays F (ensure_config_root M)"
    unfolding ensure_config_root_def by (intro stays_rules)
  have valid: "stays F (bind_act (validate_interrupted M) (\<lambda>_. ret ()))"
    by (intro stays_rules validate_interrupted_stays [OF env(1)])
  have "wp (apply_edge M routes change heartbeat fence finalize pr) ?Q ?E s"
    unfolding apply_edge_def Inr sum.case
    by (intro stays_seq_wp [where D = F and base = ?base and b = True] s root valid temp early
        aside_stays [OF fence] aside_stays [OF surroundingsD(5) [OF env(1)]] verify_edge_stays [OF env(1)])
  then show ?thesis by (rule wp_mono) (auto simp: Inr)
qed

end
