(* ===== verification/Route_Delivery.thy ===== *)
theory Route_Delivery
  imports Edge_Outcomes
begin

text \<open>
  The routing worker and the edge together: after a pass that returns, the configuration file
  of the edge is the rendering of the applied routes of the database.
\<close>

section \<open>Snapshots determine the targets\<close>

lemma map_fst_pair: "map fst (map (\<lambda>r. (f r, g r)) xs) = map f xs"
  by (simp add: comp_def)

lemma set_applied_snapshot:
  "set (applied_snapshot (list_applied d)) =
     (\<lambda>r. (uuid_str (rt_project_id r), rt_applied_revision r, the (rt_applied_hostname r))) ` set (list_applied d)"
  using set_list_applied [of d] by (auto simp: applied_snapshot_def)

lemma snapshot_targets:
  assumes "applied_snapshot (list_applied d) = applied_snapshot (list_applied e)"
  shows "set (applied_targets d) \<subseteq> set (applied_targets e)"
proof
  fix t assume "t \<in> set (applied_targets d)"
  then obtain r where r: "r \<in> set (list_applied d)" "t = target_of r" by (auto simp: applied_targets_def)
  then have "(uuid_str (rt_project_id r), rt_applied_revision r, the (rt_applied_hostname r)) \<in>
      set (applied_snapshot (list_applied e))"
    unfolding assms [symmetric] set_applied_snapshot by blast
  then obtain q where q: "q \<in> set (list_applied e)" "uuid_str (rt_project_id r) = uuid_str (rt_project_id q)"
    "the (rt_applied_hostname r) = the (rt_applied_hostname q)"
    unfolding set_applied_snapshot by auto
  then have "t = target_of q" using r(2) by (simp add: target_of_def uuid_str_inj)
  then show "t \<in> set (applied_targets e)" using q(1) by (simp add: applied_targets_def)
qed

lemma snapshot_targets_eq:
  "applied_snapshot (list_applied d) = applied_snapshot (list_applied e) \<Longrightarrow>
   set (applied_targets d) = set (applied_targets e)"
  using snapshot_targets [of d e] snapshot_targets [of e d] by auto

lemma list_applied_cong: "t_routes d = t_routes e \<Longrightarrow> list_applied d = list_applied e"
  by (simp add: list_applied_def)

text \<open>The file depends on the set of targets only.\<close>

lemma edge_file_set:
  assumes "set ts = set us" "distinct (map et_hostname ts)" "distinct (map et_hostname us)"
  shows "edge_file ts = edge_file us"
proof -
  have "distinct ts" "distinct us" using assms(2,3) by (simp_all add: distinct_map)
  then have "mset ts = mset us" using assms(1) by (simp add: set_eq_iff_mset_eq_distinct)
  then have "mset ts = mset (order_by et_hostname us)" by (simp add: order_by_def)
  moreover have "inj_on et_hostname (set ts)" using assms(2) by (simp add: distinct_map)
  moreover have "sorted (map et_hostname (order_by et_hostname us))" by (simp add: order_by_def)
  ultimately have "order_by et_hostname ts = order_by et_hostname us"
    unfolding order_by_def [of _ ts] by (rule sort_key_inj_key_eq)
  then show ?thesis by (simp add: edge_file_def)
qed

lemma applied_hostnames_distinct:
  assumes "routes_ok d"
  shows "distinct (map et_hostname (applied_targets d))"
proof -
  have inj: "t = u" if t: "t \<in> set (applied_targets d)" and u: "u \<in> set (applied_targets d)"
    and eq: "et_hostname t = et_hostname u" for t u
  proof -
    from t obtain r where r: "r \<in> set (t_routes d)" "rt_applied_hostname r \<noteq> None" "t = target_of r"
      by (auto simp: applied_targets_def set_list_applied)
    from u obtain q where q: "q \<in> set (t_routes d)" "rt_applied_hostname q \<noteq> None" "u = target_of q"
      by (auto simp: applied_targets_def set_list_applied)
    have "rt_applied_hostname r = rt_applied_hostname q"
      using eq r q by (auto simp: target_of_def)
    then have "\<not> names_apart r q" using r(2) by (simp add: names_apart_def)
    then have "r = q" using routes_okD(7) [OF assms r(1) q(1)] by blast
    then show "t = u" using r q by simp
  qed
  have "distinct (applied_targets d)" using applied_ids [OF assms] by (simp add: distinct_map)
  then show ?thesis using inj by (auto simp: distinct_map inj_on_def)
qed

section \<open>The plan of a claim, and what completing it applies\<close>

definition plan_stands :: "route_claim \<Rightarrow> db \<Rightarrow> db \<Rightarrow> 'x \<times> db \<Rightarrow> bool" where
  "plan_stands c d1 planned y =
     (route_step\<^sup>*\<^sup>* d1 (snd y) \<and>
      applied_snapshot (list_applied (snd y)) = applied_snapshot (list_applied planned))"

definition plan_applied :: "route_claim \<Rightarrow> db \<Rightarrow> db \<Rightarrow> 'x \<times> db \<Rightarrow> bool" where
  "plan_applied c d1 planned y =
     (route_step\<^sup>*\<^sup>* d1 (snd y) \<and>
      set (applied_targets (snd y)) = set (planned_targets (rtc_route c) (applied_targets planned)))"

text \<open>What the rest of the world does meanwhile: steps of the repository that leave the applied
  routes alone, as every step but \<open>complete\<close> does, and nothing in the directory.\<close>

definition edge_quiet :: "(('x, db) edge_state \<Rightarrow> 'a \<times> ('x, db) edge_state) \<Rightarrow> bool" where
  "edge_quiet f =
     (\<forall>s. files_of (snd (f s)) = files_of s \<and> route_step\<^sup>*\<^sup>* (snd s) (snd (snd (f s))) \<and>
        applied_snapshot (list_applied (snd (snd (f s)))) = applied_snapshot (list_applied (snd s)))"

lemma quiet_aside:
  assumes "edge_quiet f"
  shows "aside (plan_stands c d1 planned) f" "aside (plan_applied c d1 planned) f"
proof -
  have Q: "files_of (snd (f s)) = files_of s \<and> route_step\<^sup>*\<^sup>* (snd s) (snd (snd (f s))) \<and>
        applied_snapshot (list_applied (snd (snd (f s)))) = applied_snapshot (list_applied (snd s))" for s
    using assms unfolding edge_quiet_def by (rule spec)
  show "aside (plan_stands c d1 planned) f"
    unfolding aside_def untouched_def
  proof (intro allI conjI impI)
    fix s show "files_of (snd (f s)) = files_of s" using Q [of s] by blast
    assume "plan_stands c d1 planned (rest_of s)"
    then show "plan_stands c d1 planned (rest_of (snd (f s)))"
      unfolding plan_stands_def using Q [of s] rtranclp_trans [of route_step d1 "snd s"] by simp
  qed
  show "aside (plan_applied c d1 planned) f"
    unfolding aside_def untouched_def
  proof (intro allI conjI impI)
    fix s show "files_of (snd (f s)) = files_of s" using Q [of s] by blast
    assume "plan_applied c d1 planned (rest_of s)"
    then show "plan_applied c d1 planned (rest_of (snd (f s)))"
      unfolding plan_applied_def using Q [of s] snapshot_targets_eq [of "snd (snd (f s))" "snd s"]
        rtranclp_trans [of route_step d1 "snd s"] by simp
  qed
qed

lemma image_filter_id:
  "(\<And>q. k (f q) = g q) \<Longrightarrow> f ` {q \<in> A. g q \<noteq> i} = {t \<in> f ` A. k t \<noteq> i}"
  by auto

lemma complete_applies:
  assumes claim: "routes_ok d0" "t2 < t1 + l" "route_claim_next w l locked t t1 t2 d0 = Inr (Some c, d1)"
    and planned: "routes_ok planned"
    and F: "plan_stands c d1 planned (x, d)" and run: "complete_route c u1 u2 u3 d = Inr (r', d')"
  shows "plan_applied c d1 planned (x, d')"
proof -
  have steps: "route_step\<^sup>*\<^sup>* d1 d"
    and snap: "applied_snapshot (list_applied d) = applied_snapshot (list_applied planned)"
    using F by (simp_all add: plan_stands_def)
  have ok1: "routes_ok d1" using claim_step_ok [OF claim] by simp
  have ok: "routes_ok d" by (rule route_steps_ok [OF steps ok1])
  have "route_live3 c u1 u2 u3 d" using run route_claim_lost(1) [OF ok, of c u1 u2 u3] by fastforce
  then have live: "route_claim_live c u1 d" "route_claim_live c u2 d" "route_claim_live c u3 d"
    by (simp_all add: route_live3_def)
  obtain r where r: "route_of d (rt_project_id (rtc_route c)) = Some r" "same_wish (rtc_route c) r"
    by (rule live_claim_wish [OF claim steps live(1)]) (rule that)
  let ?i = "rt_project_id (rtc_route c)"
  note R = conjunct1 [OF route_ofD [OF r(1)]] conjunct2 [OF route_ofD [OF r(1)]]
  have d': "d' = route_move ?i (rt_applied r u2) (rj_finished RJ_SUCCEEDED None u3) d"
    using run complete_route_live(1) [OF ok live r(1)] by simp
  have routes: "set (t_routes d') = {q \<in> set (t_routes d). rt_project_id q \<noteq> ?i} \<union> {rt_applied r u2 r}"
    unfolding d' route_move_simps by (rule set_upd_key [of rt_project_id, OF routes_okD(1) [OF ok] R])
  have new: "rt_applied_hostname (rt_applied r u2 r) \<noteq> None \<longleftrightarrow> rt_desired_state r = ENABLED"
    by (simp add: rt_applied_def)
  have rows: "set (list_applied d') = {q \<in> set (list_applied d). rt_project_id q \<noteq> ?i} \<union>
      (if rt_desired_state r = ENABLED then {rt_applied r u2 r} else {})"
  proof (cases "rt_desired_state r = ENABLED")
    case True
    then have "rt_applied_hostname (rt_applied r u2 r) \<noteq> None" by (simp only: new)
    then show ?thesis unfolding set_list_applied routes if_P [OF True] by blast
  next
    case False
    then have "rt_applied_hostname (rt_applied r u2 r) = None" using new by blast
    then show ?thesis unfolding set_list_applied routes if_not_P [OF False] by blast
  qed
  have others: "target_of ` {q \<in> set (list_applied d). rt_project_id q \<noteq> ?i} =
      {t \<in> set (applied_targets d). et_project_id t \<noteq> ?i}"
    unfolding applied_targets_def set_map by (rule image_filter_id) (simp add: target_of_def)
  have own: "target_of ` (if rt_desired_state r = ENABLED then {rt_applied r u2 r} else {}) =
      set (wished_target (rtc_route c))"
  proof (cases "rt_desired_state r = ENABLED")
    case True
    then show ?thesis
      using r(2) R(2) by (simp add: wished_target_def same_wish_def rt_applied_def target_of_def)
  next
    case False
    then show ?thesis using r(2) by (simp add: wished_target_def same_wish_def)
  qed
  have "set (applied_targets d') = {t \<in> set (applied_targets d). et_project_id t \<noteq> ?i} \<union>
      set (wished_target (rtc_route c))"
    by (simp add: applied_targets_def [of d'] rows image_Un others own)
  also have "\<dots> = set (planned_targets (rtc_route c) (applied_targets planned))"
    using planned_set(1) [OF applied_ids [OF planned], of "rtc_route c"] snapshot_targets_eq [OF snap] by simp
  finally have "set (applied_targets d') = set (planned_targets (rtc_route c) (applied_targets planned))" .
  moreover have "route_step\<^sup>*\<^sup>* d1 d'" using steps route_step.complete [OF run] by (rule rtranclp.rtrancl_into_rtrancl)
  ultimately show ?thesis by (simp add: plan_applied_def)
qed

section \<open>A pass\<close>

lemma quietD:
  assumes "edge_quiet f" "f s = (x, s')"
  shows "files_of s' = files_of s" "route_step\<^sup>*\<^sup>* (snd s) (snd s')"
    "applied_snapshot (list_applied (snd s')) = applied_snapshot (list_applied (snd s))"
proof -
  have "files_of (snd (f s)) = files_of s \<and> route_step\<^sup>*\<^sup>* (snd s) (snd (snd (f s))) \<and>
        applied_snapshot (list_applied (snd (snd (f s)))) = applied_snapshot (list_applied (snd s))"
    using assms(1) unfolding edge_quiet_def by (rule spec)
  then show "files_of s' = files_of s" "route_step\<^sup>*\<^sup>* (snd s) (snd s')"
    "applied_snapshot (list_applied (snd s')) = applied_snapshot (list_applied (snd s))"
    by (simp_all add: assms(2))
qed

lemma quietI:
  assumes "\<And>s x s'. f s = (x, s') \<Longrightarrow> files_of s' = files_of s \<and> route_step\<^sup>*\<^sup>* (snd s) (snd s') \<and>
    applied_snapshot (list_applied (snd s')) = applied_snapshot (list_applied (snd s))"
  shows "edge_quiet f"
  unfolding edge_quiet_def
proof
  fix s
  show "files_of (snd (f s)) = files_of s \<and> route_step\<^sup>*\<^sup>* (snd s) (snd (snd (f s))) \<and>
        applied_snapshot (list_applied (snd (snd (f s)))) = applied_snapshot (list_applied (snd s))"
    by (rule assms [of s "fst (f s)" "snd (f s)"]) (rule prod.collapse [symmetric])
qed

lemma quiet_ret: "edge_quiet (ret a)"
  by (rule quietI) (auto simp: ret_def)

lemma quiet_raise: "edge_quiet (raise e)"
  by (rule quietI) (auto simp: raise_def)

lemma quiet_get:
  assumes "edge_quiet f"
  shows "edge_quiet (get_act f)"
proof (rule quietI)
  fix s x s' assume "get_act f s = (x, s')"
  then have "f s = (fst (f s), s')" by (auto simp: get_act_def)
  from quietD [OF assms this]
  show "files_of s' = files_of s \<and> route_step\<^sup>*\<^sup>* (snd s) (snd s') \<and>
      applied_snapshot (list_applied (snd s')) = applied_snapshot (list_applied (snd s))" by blast
qed

lemma quiet_bind:
  assumes m: "edge_quiet m" and f: "\<And>a. edge_quiet (f a)"
  shows "edge_quiet (bind_act m f)"
proof (rule quietI)
  fix s x s' assume run: "bind_act m f s = (x, s')"
  obtain r s1 where m1: "m s = (r, s1)" by (rule prod.exhaust)
  note A = quietD [OF m m1]
  show "files_of s' = files_of s \<and> route_step\<^sup>*\<^sup>* (snd s) (snd s') \<and>
      applied_snapshot (list_applied (snd s')) = applied_snapshot (list_applied (snd s))"
  proof (cases r)
    case (Inl e)
    then show ?thesis using run A by (simp add: bind_act_def m1)
  next
    case (Inr a)
    then have "f a s1 = (x, s')" using run by (simp add: bind_act_def m1)
    note B = quietD [OF f this]
    show ?thesis using A B rtranclp_trans [OF A(2) B(2)] by simp
  qed
qed

lemma quiet_try:
  assumes m: "edge_quiet m" and h: "\<And>e. edge_quiet (h e)"
  shows "edge_quiet (try_act m h)"
proof (rule quietI)
  fix s x s' assume run: "try_act m h s = (x, s')"
  obtain r s1 where m1: "m s = (r, s1)" by (rule prod.exhaust)
  note A = quietD [OF m m1]
  show "files_of s' = files_of s \<and> route_step\<^sup>*\<^sup>* (snd s) (snd s') \<and>
      applied_snapshot (list_applied (snd s')) = applied_snapshot (list_applied (snd s))"
  proof (cases r)
    case (Inr a)
    then show ?thesis using run A by (simp add: try_act_def m1)
  next
    case (Inl e)
    then have "h e s1 = (x, s')" using run by (simp add: try_act_def m1)
    note B = quietD [OF h this]
    show ?thesis using A B rtranclp_trans [OF A(2) B(2)] by simp
  qed
qed

lemma quiet_seq: "edge_quiet m \<Longrightarrow> edge_quiet n \<Longrightarrow> edge_quiet (seq_act m n)"
  unfolding seq_act_def by (rule quiet_bind)

lemma quiet_if: "edge_quiet m \<Longrightarrow> edge_quiet n \<Longrightarrow> edge_quiet (if b then m else n)"
  by simp

lemma quiet_tx:
  assumes "\<And>d a d'. t d = Inr (a, d') \<Longrightarrow> route_step d d' \<and> t_routes d' = t_routes d"
  shows "edge_quiet (tx_act t :: (('x, db) edge_state, 'a) act)"
proof (rule quietI)
  fix s s' :: "('x, db) edge_state" and x assume run: "tx_act t s = (x, s')"
  obtain w d where s: "s = (w, d)" by (cases s)
  show "files_of s' = files_of s \<and> route_step\<^sup>*\<^sup>* (snd s) (snd s') \<and>
      applied_snapshot (list_applied (snd s')) = applied_snapshot (list_applied (snd s))"
  proof (cases "t d")
    case (Inl e)
    then show ?thesis using run by (auto simp: tx_act_def s)
  next
    case (Inr ad)
    then obtain a d' where t: "t d = Inr (a, d')" by (cases ad) auto
    note A = assms [OF t]
    have "list_applied d' = list_applied d" using A by (intro list_applied_cong) simp
    then show ?thesis using run t A by (auto simp: tx_act_def s)
  qed
qed

lemma renew_route_routes: "renew_route c l now d = Inr (e, d') \<Longrightarrow> t_routes d' = t_routes d"
  by (auto simp: renew_route_def Let_def split: option.splits)

lemma quiet_heartbeat:
  assumes "edge_quiet (p_clock P)" "0 < l"
  shows "edge_quiet (route_heartbeat P c l)"
  unfolding route_heartbeat_def void_def repo_call_def
  by (intro quiet_bind quiet_get quiet_tx quiet_ret assms(1))
    (auto intro: route_step.renew [OF assms(2)] dest: renew_route_routes)

lemma quiet_fence:
  assumes "edge_quiet (p_clock P)" "0 < l"
  shows "edge_quiet (route_fence P c l x)"
proof -
  have "route_step d d" for d by (rule route_step.elsewhere) simp_all
  then have "edge_quiet (tx_act (tx_read list_applied))"
    by (intro quiet_tx) simp
  then show ?thesis
    unfolding route_fence_def snapshot_fence_def applied_routes_def
    by (intro quiet_seq quiet_bind quiet_if quiet_raise quiet_ret quiet_heartbeat assms)
qed

lemma route_finalizes:
  assumes clock: "edge_quiet (p_clock P)"
    and claim: "routes_ok d0" "t2 < t1 + l" "route_claim_next w l locked t t1 t2 d0 = Inr (Some c, d1)"
    and planned: "routes_ok planned"
  shows "finalizes (plan_stands c d1 planned) (plan_applied c d1 planned) (route_finalize P c)"
  unfolding finalizes_def
proof (intro allI conjI impI)
  fix s :: "('a, db) edge_state"
  obtain u1 s1 where c1: "p_clock P s = (u1, s1)" by (rule prod.exhaust)
  obtain u2 s2 where c2: "p_clock P s1 = (u2, s2)" by (rule prod.exhaust)
  obtain u3 s3 where c3: "p_clock P s2 = (u3, s3)" by (rule prod.exhaust)
  obtain w3 e where s3: "s3 = (w3, e)" by (cases s3)
  note Q = quietD [OF clock c1] quietD [OF clock c2] quietD [OF clock c3]
  have run: "route_finalize P c s =
      (case complete_route c u1 u2 u3 e of
         Inl x \<Rightarrow> (Inl (if x = PublicRouteClaimLostError then EdgeFinalizeRejectedError else x), s3)
       | Inr (r, e') \<Rightarrow> (Inr (), (w3, e')))"
    by (auto simp: route_finalize_def try_act_def void_def bind_act_def repo_call3_def repo_call_def
        get_act_def c1 c2 c3 s3 tx_act_def ret_def raise_def split: sum.splits)
  show "files_of (snd (route_finalize P c s)) = files_of s"
    using Q by (auto simp: run s3 split: sum.split)
  assume F: "plan_stands c d1 planned (rest_of s)"
  have "route_step\<^sup>*\<^sup>* (snd s) e" using Q s3 rtranclp_trans [of route_step] by (metis snd_conv)
  then have F3: "plan_stands c d1 planned (snd w3, e)"
    using F Q s3 rtranclp_trans [of route_step d1 "snd s" e] by (simp add: plan_stands_def)
  show "(if fst (route_finalize P c s) = Inr () then plan_applied c d1 planned else plan_stands c d1 planned)
      (rest_of (snd (route_finalize P c s)))"
  proof (cases "complete_route c u1 u2 u3 e")
    case (Inl x)
    then show ?thesis using F3 by (simp add: run s3)
  next
    case (Inr re)
    then obtain r e' where r: "complete_route c u1 u2 u3 e = Inr (r, e')" by (cases re) auto
    show ?thesis using complete_applies [OF claim planned F3 r] by (simp add: run r)
  qed
qed

section \<open>Delivery\<close>

text \<open>The ports of a pass leave the directory and the applied routes alone.\<close>

definition quiet_edge ::
    "(files \<times> bool \<times> 'x) ports \<Rightarrow> 'x routing_state route_worker \<Rightarrow>
     'x routing_state edge_manager \<Rightarrow> route_claim \<Rightarrow> bool" where
  "quiet_edge P W M c =
     (let heartbeat = route_heartbeat P c (rw_lease_duration W) in
      0 < rw_lease_duration W \<and> edge_quiet (p_clock P) \<and>
      (\<forall>i. edge_quiet (rw_ensure_gateway_attached W i heartbeat)) \<and>
      (\<forall>args t ch. edge_quiet (em_runner M args t (Some heartbeat) ch)) \<and>
      (\<forall>h. edge_quiet (em_probe_management M h heartbeat)) \<and>
      (\<forall>h. edge_quiet (em_probe_routed M h heartbeat)) \<and>
      (\<forall>h. edge_quiet (em_probe_not_found M h heartbeat)) \<and>
      edge_quiet (em_io_fails M) \<and> edge_quiet (em_mkstemp M))"

lemma quiet_surroundings:
  assumes "quiet_edge P W M c"
  shows "surroundings (plan_stands c d1 planned) M (route_heartbeat P c (rw_lease_duration W))"
    "surroundings (plan_applied c d1 planned) M (route_heartbeat P c (rw_lease_duration W))"
proof -
  have Q: "0 < rw_lease_duration W" "edge_quiet (p_clock P)" using assms by (simp_all add: quiet_edge_def Let_def)
  note H = quiet_heartbeat [OF Q(2,1)]
  show "surroundings (plan_stands c d1 planned) M (route_heartbeat P c (rw_lease_duration W))"
    "surroundings (plan_applied c d1 planned) M (route_heartbeat P c (rw_lease_duration W))"
    using assms H unfolding quiet_edge_def Let_def surroundings_def
    by (auto intro!: quiet_aside)
qed

lemma wp_lift_Inr [wp_simps]: "wp (lift_sum (Inr a)) Q E s = Q a s"
  by (simp add: lift_sum_def wp_simps)

lemma wp_applied_routes [wp_simps]: "wp applied_routes Q E s = Q (list_applied (snd s)) s"
  by (cases s) (simp add: wp_def applied_routes_def tx_act_def tx_read_def)

lemma render_set:
  assumes r: "render_edge_routes ts = Inr rendered"
    and us: "set us = set ts" "distinct (map et_hostname us)"
  shows "render_edge_routes us = Inr rendered"
proof -
  have ts: "rendered = edge_file ts" "distinct (map et_hostname ts)" "\<forall>t\<in>set ts. target_ok t"
    "length ts \<le> MAX_ROUTES"
    using r by (auto simp: render_eq split: if_splits)
  have "distinct us" "distinct ts" using us(2) ts(2) by (simp_all add: distinct_map)
  then have "length us = length ts" using us(1) by (metis distinct_card)
  then show ?thesis
    using ts us edge_file_set [OF us(1,2) ts(2)] by (simp add: render_eq)
qed

lemma pass_delivers:
  fixes W :: "'x routing_state route_worker"
  assumes claim: "routes_ok d0" "t2 < t1 + l" "route_claim_next w l locked t t1 t2 d0 = Inr (Some c, d1)"
    and world: "quiet_edge P W M c" "rw_apply W = apply_edge M"
    and s: "route_step\<^sup>*\<^sup>* d1 (snd s)"
  shows "wp (process_route P W c)
    (\<lambda>_ s'. (\<exists>rendered. render_edge_routes (applied_targets (snd s')) = Inr rendered \<and>
         files_of s' current_name = Some rendered) \<and>
       files_of s' journal_name = None \<and> route_step\<^sup>*\<^sup>* d1 (snd s') \<and>
       (\<exists>planned. route_step\<^sup>*\<^sup>* (snd s) planned \<and> set (applied_targets (snd s')) =
          set (planned_targets (rtc_route c) (applied_targets planned))))
    (\<lambda>_ _. True) s"
    (is "wp _ ?Q _ s")
proof -
  let ?l = "rw_lease_duration W"
  have ok1: "routes_ok d1" using claim_step_ok [OF claim] by simp
  have Q: "0 < ?l" "edge_quiet (p_clock P)" "edge_quiet (rw_ensure_gateway_attached W i (route_heartbeat P c ?l))" for i
    using world(1) by (simp_all add: quiet_edge_def Let_def)
  have ensure: "edge_quiet (if rt_desired_state (rtc_route c) = ENABLED
      then rw_ensure_gateway_attached W (rt_project_id (rtc_route c)) (route_heartbeat P c ?l) else ret ())"
    by (intro quiet_if quiet_ret Q)
  have step: "wp (apply_edge M (planned_targets (rtc_route c) (applied_targets (snd s1)))
        (Some (planned_change (rtc_route c))) (route_heartbeat P c ?l)
        (route_fence P c ?l (applied_snapshot (list_applied (snd s1)))) (route_finalize P c) False)
      ?Q (\<lambda>_ _. True) s1"
    if later: "route_step\<^sup>*\<^sup>* (snd s) (snd s1)" for s1
  proof -
    have d1: "route_step\<^sup>*\<^sup>* d1 (snd s1)" by (rule rtranclp_trans [OF s later])
    have ok: "routes_ok (snd s1)" by (rule route_steps_ok [OF d1 ok1])
    let ?F = "plan_stands c d1 (snd s1) :: (bool \<times> 'x) \<times> db \<Rightarrow> bool"
      and ?D = "plan_applied c d1 (snd s1) :: (bool \<times> 'x) \<times> db \<Rightarrow> bool"
    have "?F (rest_of s1)" using d1 by (simp add: plan_stands_def)
    from apply_edge_wp [OF quiet_surroundings [OF world(1)] quiet_aside(1) [OF quiet_fence [OF Q(2,1)]]
        route_finalizes [OF Q(2) claim ok] this]
    show ?thesis
    proof (rule wp_mono)
      fix u s' let ?ts = "planned_targets (rtc_route c) (applied_targets (snd s1))"
      assume "\<exists>rendered. render_edge_routes ?ts = Inr rendered \<and>
        J ?D ((files_of s1)(current_name := Some rendered, journal_name := None)) True s'"
      then obtain rendered where r: "render_edge_routes ?ts = Inr rendered"
        and j: "J ?D ((files_of s1)(current_name := Some rendered, journal_name := None)) True s'" by blast
      have D: "route_step\<^sup>*\<^sup>* d1 (snd s')" "set (applied_targets (snd s')) = set ?ts"
        using j by (simp_all add: J_def plan_applied_def)
      have "render_edge_routes (applied_targets (snd s')) = Inr rendered"
        by (rule render_set [OF r D(2) applied_hostnames_distinct [OF route_steps_ok [OF D(1) ok1]]])
      then show "?Q u s'" using J_file [OF j, of current_name] J_file [OF j, of journal_name] D later by auto
    qed simp
  qed
  obtain x s1 where e: "(if rt_desired_state (rtc_route c) = ENABLED
      then rw_ensure_gateway_attached W (rt_project_id (rtc_route c)) (route_heartbeat P c ?l) else ret ()) s = (x, s1)"
    by (rule prod.exhaust)
  have "route_step\<^sup>*\<^sup>* (snd s) (snd s1)" by (rule quietD(2) [OF ensure e])
  from step [OF this] show ?thesis
    unfolding process_route_def Let_def wp_seq wp_bind wp_applied_routes applied_targets_eq wp_lift_Inr world(2)
    by (simp add: wp_def [of "if _ then _ else _"] e split: sum.split)
qed

end
