(* ===== verification/Route_Properties.thy ===== *)
theory Route_Properties
  imports Route_Delivery Deployment_Properties
begin

text \<open>
  The properties of the public routes: who owns a hostname, what a request for one ends as, and
  what a claim on a route may still do.
\<close>

section \<open>An example project with a route\<close>

definition example_host :: string where
  "example_host = ''demo.example.com''"

definition requested_db :: db where
  "requested_db = route_add (new_route 1 ''demo'' example_host 100) 100 example_db"

definition example_route_claim :: route_claim where
  "example_route_claim = \<lparr>rtc_route = rt_claimed 100 (new_route 1 ''demo'' example_host 100),
     rtc_token = 11, rtc_worker_id = ''a'', rtc_desired_revision = 1, rtc_attempts = 1,
     rtc_lease_expires_at = 160\<rparr>"

definition applying_db :: db where
  "applying_db = route_move 1 (rt_claimed 100) (rj_take ''a'' 11 160 100) requested_db"

definition served_db :: db where
  "served_db = route_move 1 (rt_applied (rt_claimed 100 (new_route 1 ''demo'' example_host 100)) 100)
     (rj_finished RJ_SUCCEEDED None 100) applying_db"

text \<open>After the claim, the project asks for another hostname.\<close>

definition renamed_db :: db where
  "renamed_db = route_move 1 (rt_enable ''shop'' ''shop.example.com'' 2 110) (rj_reset 2 110) applying_db"

lemmas route_example_defs = requested_db_def applying_db_def served_db_def renamed_db_def example_route_claim_def
  route_add_def route_move_def example_db_def empty_db_def example_project_def new_route_def
  new_route_job_def rt_claimed_def rj_take_def rt_enable_def rj_reset_def rt_applied_def rj_finished_def

lemma example_names:
  "hostname_matches example_host" "hostname_matches ''shop.example.com''" "hostname_matches ''example.com''"
  "map lower_char example_host = example_host" "subdomain_matches ''demo''" "\<not> double_dash ''demo''"
  by code_simp+

lemma example_request: "set_enabled 1 ''demo'' example_host 100 example_db =
    Inr (new_route 1 ''demo'' example_host 100, requested_db)"
  by code_simp

lemma example_route_claims:
  "route_claim_next ''a'' 60 [] 11 100 100 requested_db = Inr (Some example_route_claim, applying_db)"
  by code_simp

lemma example_completes: "complete_route example_route_claim 100 100 100 applying_db =
    Inr (rt_applied (rt_claimed 100 (new_route 1 ''demo'' example_host 100)) 100
       (rt_claimed 100 (new_route 1 ''demo'' example_host 100)), served_db)"
  by code_simp

lemma example_renames: "set_enabled 1 ''shop'' ''shop.example.com'' 110 applying_db =
    Inr (rt_enable ''shop'' ''shop.example.com'' 2 110 (rt_claimed 100 (new_route 1 ''demo'' example_host 100)),
      renamed_db)"
  by code_simp

lemma example_no_routes: "no_routes example_db"
  by code_simp

lemma requested_reachable: "route_reachable requested_db"
proof -
  have "route_step example_db requested_db" by (rule route_step.enable [OF example_names(1) example_request])
  then show ?thesis using example_no_routes unfolding route_reachable_def by blast
qed

lemma applying_step: "route_step requested_db applying_db"
  by (rule route_step.claim [OF _ example_route_claims]) simp

lemma applying_reachable: "route_reachable applying_db"
  by (rule route_reachable_step [OF requested_reachable applying_step])

lemma renamed_step: "route_step applying_db renamed_db"
  by (rule route_step.enable [OF example_names(2) example_renames])

section \<open>Hostnames and their requests\<close>

text \<open>C19. In every state the transactions of the routes reach, a hostname belongs to one project:
  none that a project wants or that is served for it is wanted by or served for another. Every
  such name has the form the edge accepts, and each route has a job for its current revision, in a state that
  agrees with the route's status.\<close>

theorem hostname_has_one_owner:
  assumes "route_reachable d" "r \<in> set (t_routes d)" "q \<in> set (t_routes d)"
    and "rt_project_id r \<noteq> rt_project_id q"
    and "h = rt_hostname r \<or> rt_applied_hostname r = Some h"
  shows "rt_hostname q \<noteq> h \<and> rt_applied_hostname q \<noteq> Some h \<and> hostname_matches h \<and>
    (\<exists>j\<in>set (t_route_jobs d). rj_project_id j = rt_project_id r \<and>
       rj_desired_revision j = rt_desired_revision r \<and> route_agrees (rj_state j) (rt_status r))"
proof -
  have ok: "routes_ok d" by (rule route_reachable_ok [OF assms(1)])
  have names: "edge_names_ok d" by (rule route_reachable_names [OF assms(1)])
  have "names_apart r q" by (rule routes_okD(7) [OF ok assms(2,3)]) (use assms(4) in auto)
  then have "rt_hostname q \<noteq> h \<and> rt_applied_hostname q \<noteq> Some h"
    using assms(5) by (auto simp: names_apart_def)
  moreover have "hostname_matches h" using names assms(2,5) by (auto simp: edge_names_ok_def)
  moreover obtain j where j: "j \<in> set (t_route_jobs d)" "rj_project_id j = rt_project_id r"
    by (rule job_of_route [OF ok assms(2)])
  then have "route_pair_ok r j" by (rule routes_okD(6) [OF ok assms(2)])
  ultimately show ?thesis using j by (auto simp: route_pair_ok_def)
qed

text \<open>The refusals of the service, in the order it makes them.\<close>

definition base_domain :: route_service where
  "base_domain = \<lparr>rs_deployment_base_domain = ''example.com'', rs_reserved_subdomains = [''admin'']\<rparr>"

definition request_refused :: "route_service \<Rightarrow> uuid \<Rightarrow> string \<Rightarrow> db \<Rightarrow> (int \<times> string) option" where
  "request_refused S i s d =
     (let h = s @ ''.'' @ rs_deployment_base_domain S in
      case project_of d i of
        None \<Rightarrow> Some (404, ''PROJECT_NOT_FOUND'')
      | Some p \<Rightarrow>
          if s \<in> set (rs_reserved_subdomains S) then Some (422, ''PUBLIC_SUBDOMAIN_RESERVED'')
          else if 253 < length h then Some (422, ''PUBLIC_HOSTNAME_TOO_LONG'')
          else if prj_status p = P_DELETING then Some (409, ''PROJECT_DELETING'')
          else if \<not> hostname_free i h d then Some (409, ''PUBLIC_HOSTNAME_CONFLICT'')
          else None)"

fun app_error :: "exn \<Rightarrow> (int \<times> string) option" where
  "app_error (AppError status code message) = Some (status, code)"
| "app_error _ = None"

lemma request_refusals:
  assumes "request_refused S i s d = Some x"
  shows "\<exists>e. service_set_route S i s now d = Inl e \<and> app_error e = Some x"
proof (cases "project_of d i")
  case None
  then show ?thesis
    using assms by (auto simp: request_refused_def service_set_route_def service_get_project_def get_project_def
        tx_bind_def tx_map_error_def tx_require_def project_not_found_def)
next
  case (Some p)
  let ?h = "s @ ''.'' @ rs_deployment_base_domain S"
  have get: "service_get_project i d = Inr (selected_project d p, d)"
    by (simp add: service_get_project_def get_project_def tx_map_error_def tx_require_def Some)
  have body: "service_set_route S i s now d =
      (if s \<in> set (rs_reserved_subdomains S) then Inl (AppError 422 ''PUBLIC_SUBDOMAIN_RESERVED''
                    ''The requested public subdomain is reserved'')
       else if 253 < length ?h then Inl (AppError 422 ''PUBLIC_HOSTNAME_TOO_LONG''
                      ''The requested public hostname is too long'')
       else tx_map_error route_set_error (set_enabled i s ?h now) d)"
    unfolding service_set_route_def Let_def by (simp add: tx_bind_def tx_seq_def get tx_raise_if_def)
  show ?thesis
    using assms set_enabled_refused(1) [OF Some, of s ?h now] set_enabled_refused(2) [OF Some, where h = ?h and s = s and now = now]
    by (auto simp: body request_refused_def Some Let_def tx_map_error_def route_set_error_def project_deleting_def
        split: if_splits)
qed

text \<open>A request that is not refused is carried out.\<close>

definition request_granted :: "uuid \<Rightarrow> string \<Rightarrow> db \<Rightarrow> public_route \<Rightarrow> db \<Rightarrow> bool" where
  "request_granted i h d r d' =
     (rt_project_id r = i \<and> rt_hostname r = h \<and> rt_desired_state r = ENABLED \<and>
      rt_status r \<in> {R_PENDING, R_APPLYING, R_ACTIVE} \<and> route_of d' i = Some r \<and>
      {x \<in> set (t_routes d'). rt_project_id x \<noteq> i} = {x \<in> set (t_routes d). rt_project_id x \<noteq> i} \<and>
      routes_ok d')"

lemma granted_request:
  assumes ok: "routes_ok d" and p: "project_of d i = Some p" "prj_status p \<noteq> P_DELETING"
    and free: "hostname_free i h d"
    and name: "subdomain_matches s" "\<not> double_dash s" "hostname_matches h" "h = map lower_char h"
  shows "\<exists>r d'. set_enabled i s h now d = Inr (r, d') \<and> request_granted i h d r d'"
proof (cases "route_of d i")
  case None
  let ?r = "new_route i s h now"
  have run: "set_enabled i s h now d = Inr (?r, route_add ?r now d)"
    by (simp add: set_enabled_eq [OF ok p free name(1,2,4)] None)
  have "routes_ok (route_add ?r now d)" using set_enabled_ok [OF ok name(3) run] by simp
  moreover have "rt_project_id x \<noteq> i" if "x \<in> set (t_routes d)" for x using None that by (auto simp: fetch_None_iff)
  ultimately have "request_granted i h d ?r (route_add ?r now d)"
    using None by (auto simp: request_granted_def route_add_def new_route_def fetch_append)
  then show ?thesis using run by blast
next
  case (Some r)
  note R = conjunct1 [OF route_ofD [OF Some]] conjunct2 [OF route_ofD [OF Some]]
  show ?thesis
  proof (cases "settled_enabled r h \<and> rt_status r \<in> {R_PENDING, R_APPLYING, R_ACTIVE}")
    case True
    then have "set_enabled i s h now d = Inr (r, d)"
      by (simp add: set_enabled_eq [OF ok p free name(1,2,4)] Some)
    then show ?thesis using True Some R ok by (auto simp: request_granted_def settled_enabled_def)
  next
    case False
    let ?f = "rt_enable s h (next_revision (settled_enabled r h) r) now"
    let ?d = "route_move i ?f (rj_reset (next_revision (settled_enabled r h) r) now) d"
    have run: "set_enabled i s h now d = Inr (?f r, ?d)"
      by (simp only: set_enabled_eq [OF ok p free name(1,2,4)] Some option.case if_not_P [OF False] Let_def)
    have f: "rt_project_id (?f r) = i" by (simp add: rt_enable_def R)
    have routes: "set (t_routes ?d) = {x \<in> set (t_routes d). rt_project_id x \<noteq> i} \<union> {?f r}"
      unfolding route_move_simps by (rule set_upd_key [of rt_project_id, OF routes_okD(1) [OF ok] R])
    have ok': "routes_ok ?d" using set_enabled_ok [OF ok name(3) run] by simp
    have "route_of ?d (rt_project_id (?f r)) = Some (?f r)"
      by (rule fetch_key [OF routes_okD(1) [OF ok']]) (simp only: routes, simp)
    moreover have "{x \<in> set (t_routes ?d). rt_project_id x \<noteq> i} = {x \<in> set (t_routes d). rt_project_id x \<noteq> i}"
      unfolding routes using f by blast
    ultimately have "request_granted i h d (?f r) ?d"
      using f ok' by (simp add: request_granted_def del: route_move_simps) (simp add: rt_enable_def)
    then show ?thesis using run by blast
  qed
qed

text \<open>C20. The answer to a request for a public hostname under a canonical base domain: the refusals of
  the service, each in exactly its case, or an enabled route for the requested name with a
  pending, running or finished job, and every other project's route as it was.\<close>

theorem route_request_outcome:
  assumes "routes_ok d" "hostname_matches (rs_deployment_base_domain S)" "route_update value = Inr s"
  shows "case request_refused S i s d of
      Some x \<Rightarrow> \<exists>e. service_set_route S i s now d = Inl e \<and> app_error e = Some x
    | None \<Rightarrow> \<exists>r d'. service_set_route S i s now d = Inr (r, d') \<and>
        request_granted i (s @ ''.'' @ rs_deployment_base_domain S) d r d' \<and>
        hostname_matches (rt_hostname r)"
proof (cases "request_refused S i s d")
  case None
  let ?h = "s @ ''.'' @ rs_deployment_base_domain S"
  obtain p where p: "project_of d i = Some p" "prj_status p \<noteq> P_DELETING"
    and s: "s \<notin> set (rs_reserved_subdomains S)" "length ?h \<le> 253" and free: "hostname_free i ?h d"
    using None by (auto simp: request_refused_def Let_def split: option.splits if_splits)
  have name: "subdomain_matches s" "\<not> double_dash s" using assms(3) unfolding route_update_Inr by blast+
  note H = public_hostname [OF name(1) assms(2) s(2)]
  obtain r d' where r: "set_enabled i s ?h now d = Inr (r, d')" "request_granted i ?h d r d'"
    using granted_request [OF assms(1) p free name H(1) H(2) [symmetric]] by blast
  have get: "service_get_project i d = Inr (selected_project d p, d)"
    by (simp add: service_get_project_def get_project_def tx_map_error_def tx_require_def p)
  have "service_set_route S i s now d = Inr (r, d')"
    unfolding service_set_route_def Let_def using s r(1)
    by (simp add: tx_bind_def tx_seq_def get tx_raise_if_def tx_map_error_def)
  moreover have "hostname_matches (rt_hostname r)" using r(2) H(1) by (simp add: request_granted_def)
  ultimately show ?thesis using None r(2) by auto
next
  case (Some x)
  then show ?thesis using request_refusals [OF Some] by simp
qed

theorem route_request_outcome_witness:
  "\<exists>r d'. service_set_route base_domain 1 ''demo'' 100 example_db = Inr (r, d') \<and>
     request_granted 1 ''demo.example.com'' example_db r d' \<and> hostname_matches (rt_hostname r)"
proof -
  have ok: "routes_ok example_db" by (rule no_routes_ok [OF example_no_routes])
  have base: "hostname_matches (rs_deployment_base_domain base_domain)" by code_simp
  have demo: "route_update '' Demo '' = Inr ''demo''" by code_simp
  have free: "request_refused base_domain 1 ''demo'' example_db = None" by code_simp
  have host: "''demo'' @ ''.'' @ rs_deployment_base_domain base_domain = ''demo.example.com''" by code_simp
  show ?thesis
    using route_request_outcome [OF ok base demo, of 1 100] unfolding free host by simp
qed

definition two_projects :: db where
  "two_projects = example_db\<lparr>t_projects := [example_project, example_project\<lparr>prj_id := 2, prj_name := ''shop''\<rparr>]\<rparr>"

definition two_routes :: db where
  "two_routes = route_add (new_route 2 ''shop'' ''shop.example.com'' 100) 100
     (route_add (new_route 1 ''demo'' example_host 100) 100 two_projects)"

theorem hostname_has_one_owner_witness:
  "rt_hostname (new_route 2 ''shop'' ''shop.example.com'' 100) \<noteq> example_host \<and>
   rt_applied_hostname (new_route 2 ''shop'' ''shop.example.com'' 100) \<noteq> Some example_host \<and>
   hostname_matches example_host \<and> route_reachable two_routes"
proof -
  have "set_enabled 1 ''demo'' example_host 100 two_projects =
      Inr (new_route 1 ''demo'' example_host 100, route_add (new_route 1 ''demo'' example_host 100) 100 two_projects)"
    by code_simp
  then have 1: "route_step two_projects (route_add (new_route 1 ''demo'' example_host 100) 100 two_projects)"
    by (rule route_step.enable [OF example_names(1)])
  have "set_enabled 2 ''shop'' ''shop.example.com'' 100 (route_add (new_route 1 ''demo'' example_host 100) 100 two_projects) =
      Inr (new_route 2 ''shop'' ''shop.example.com'' 100, two_routes)"
    by code_simp
  then have 2: "route_step (route_add (new_route 1 ''demo'' example_host 100) 100 two_projects) two_routes"
    by (rule route_step.enable [OF example_names(2)])
  have "no_routes two_projects" by code_simp
  then have two: "route_reachable two_routes"
    using 1 2 unfolding route_reachable_def by (meson r_into_rtranclp rtranclp.rtrancl_into_rtrancl)
  have rows: "new_route 1 ''demo'' example_host 100 \<in> set (t_routes two_routes)"
    "new_route 2 ''shop'' ''shop.example.com'' 100 \<in> set (t_routes two_routes)"
    "rt_project_id (new_route 1 ''demo'' example_host 100) \<noteq> rt_project_id (new_route 2 ''shop'' ''shop.example.com'' 100)"
    "example_host = rt_hostname (new_route 1 ''demo'' example_host 100) \<or>
     rt_applied_hostname (new_route 1 ''demo'' example_host 100) = Some example_host"
    by (simp_all add: two_routes_def two_projects_def route_example_defs)
  show ?thesis using hostname_has_one_owner [OF two rows] two by blast
qed

section \<open>Claims\<close>

text \<open>C21. A claim is good for the revision it was made for: once the project's route has a later
  revision, every operation of the claim is refused for ever, whatever transactions follow.\<close>

theorem old_revision_is_fenced:
  assumes "route_reachable d" "route_of d (rt_project_id (rtc_route c)) = Some r"
    and "rtc_desired_revision c < rt_desired_revision r" and "route_step\<^sup>*\<^sup>* d d'"
  shows "complete_route c t1 t2 t3 d' = Inl PublicRouteClaimLostError \<and>
    retry_route c at code t1 t2 t3 d' = Inl PublicRouteClaimLostError \<and>
    defer_route_not_ready c at code t1 t2 t3 d' = Inl PublicRouteClaimLostError \<and>
    fail_route c code b t1 t2 t3 d' = Inl PublicRouteClaimLostError \<and>
    renew_route c l t1 d' = Inl PublicRouteClaimLostError"
proof -
  have ok: "routes_ok d" by (rule route_reachable_ok [OF assms(1)])
  have ok': "routes_ok d'" by (rule route_steps_ok [OF assms(4) ok])
  obtain r' where r': "route_of d' (rt_project_id (rtc_route c)) = Some r'" "later_wish r r'"
    using wish_steps [OF assms(4) ok assms(2)] by blast
  have "rtc_desired_revision c < rt_desired_revision r'" using r'(2) assms(3) by (auto simp: later_wish_def)
  note dead = old_revision_not_live [OF ok' r'(1) this]
  then have "\<not> route_live3 c t1 t2 t3 d'" by (simp add: route_live3_def)
  note L = route_claim_lost [OF ok' this]
  show ?thesis using L dead renew_route_lost by (simp add: retry_route_def defer_route_not_ready_def)
qed

theorem old_revision_is_fenced_witness:
  "complete_route example_route_claim 120 120 120 renamed_db = Inl PublicRouteClaimLostError \<and>
   renew_route example_route_claim 60 120 renamed_db = Inl PublicRouteClaimLostError"
proof -
  have row: "route_of renamed_db (rt_project_id (rtc_route example_route_claim)) =
      Some (rt_enable ''shop'' ''shop.example.com'' 2 110 (rt_claimed 100 (new_route 1 ''demo'' example_host 100)))"
    by code_simp
  have rev: "rtc_desired_revision example_route_claim < rt_desired_revision
      (rt_enable ''shop'' ''shop.example.com'' 2 110 (rt_claimed 100 (new_route 1 ''demo'' example_host 100)))"
    by code_simp
  show ?thesis
    using old_revision_is_fenced [OF route_reachable_step [OF applying_reachable renamed_step] row rev rtranclp.rtrancl_refl]
    by blast
qed

text \<open>C22. Completing a claim that is live makes its wish the applied state: an enabled route is served
  under exactly the hostname of the claim's revision, a disabled one is served no more, which is
  what the deletion of a project waits for.\<close>

theorem completed_claim_applies_its_wish:
  assumes "route_reachable d0" "t2 < t1 + l"
    and "route_claim_next w l locked t t1 t2 d0 = Inr (Some c, d1)"
    and "route_step\<^sup>*\<^sup>* d1 d" "route_live3 c u1 u2 u3 d"
  shows "\<exists>r d'. complete_route c u1 u2 u3 d = Inr (r, d') \<and>
    route_of d' (rt_project_id (rtc_route c)) = Some r \<and>
    rt_applied_revision r = Some (rtc_desired_revision c) \<and>
    (if rt_desired_state (rtc_route c) = ENABLED
     then rt_status r = R_ACTIVE \<and> r \<in> set (list_applied d') \<and>
       rt_applied_hostname r = Some (rt_hostname (rtc_route c))
     else rt_status r = R_INACTIVE \<and> deletion_is_applied (rt_project_id (rtc_route c)) d' \<and>
       rt_project_id (rtc_route c) \<notin> rt_project_id ` set (list_applied d'))"
proof -
  let ?i = "rt_project_id (rtc_route c)"
  have ok0: "routes_ok d0" by (rule route_reachable_ok [OF assms(1)])
  have ok: "routes_ok d" using route_steps_ok [OF assms(4)] claim_step_ok [OF ok0 assms(2,3)] by blast
  have live: "route_claim_live c u1 d" "route_claim_live c u2 d" "route_claim_live c u3 d"
    using assms(5) by (simp_all add: route_live3_def)
  obtain r where r: "route_of d ?i = Some r" "same_wish (rtc_route c) r"
    by (rule live_claim_wish [OF ok0 assms(2-4) live(1)]) (rule that)
  note R = conjunct1 [OF route_ofD [OF r(1)]] conjunct2 [OF route_ofD [OF r(1)]]
  let ?r = "rt_applied r u2 r" and ?d = "route_move ?i (rt_applied r u2) (rj_finished RJ_SUCCEEDED None u3) d"
  have run: "complete_route c u1 u2 u3 d = Inr (?r, ?d)" by (rule complete_route_live(1) [OF ok live r(1)])
  have ok': "routes_ok ?d" by (rule complete_route_live(2) [OF ok live r(1)])
  have rev: "rt_desired_revision r = rtc_desired_revision c"
    by (rule live_route_rows [OF ok live(1)]) (use r(1) in simp)
  have id: "rt_project_id ?r = ?i" by (simp add: rt_applied_def R)
  have routes: "set (t_routes ?d) = {q \<in> set (t_routes d). rt_project_id q \<noteq> ?i} \<union> {?r}"
    unfolding route_move_simps by (rule set_upd_key [of rt_project_id, OF routes_okD(1) [OF ok] R])
  have row: "route_of ?d ?i = Some ?r"
    using fetch_key [OF routes_okD(1) [OF ok'], of ?r] id routes by simp
  have applied: "?r \<in> set (list_applied ?d) \<longleftrightarrow> rt_desired_state r = ENABLED"
    unfolding set_list_applied routes by (auto simp: rt_applied_def)
  have "(rt_desired_state r = ENABLED \<longrightarrow> rt_status ?r = R_ACTIVE \<and> rt_applied_hostname ?r = Some (rt_hostname r)) \<and>
      (rt_desired_state r \<noteq> ENABLED \<longrightarrow> rt_status ?r = R_INACTIVE \<and> deletion_is_applied ?i ?d \<and>
        ?i \<notin> rt_project_id ` set (list_applied ?d))"
    unfolding deletion_is_applied_def set_list_applied exists_row_iff routes
    by (auto simp: rt_applied_def R not_enabled)
  then show ?thesis using run row applied r(2) rev by (auto simp: same_wish_def rt_applied_def)
qed

theorem completed_claim_applies_its_wish_witness:
  "\<exists>r d'. complete_route example_route_claim 100 100 100 applying_db = Inr (r, d') \<and>
     rt_status r = R_ACTIVE \<and> r \<in> set (list_applied d') \<and> rt_applied_hostname r = Some example_host"
proof -
  have "route_live3 example_route_claim 100 100 100 applying_db" by code_simp
  from completed_claim_applies_its_wish [OF requested_reachable _ example_route_claims rtranclp.rtrancl_refl this]
  show ?thesis by (auto simp: example_route_claim_def rt_claimed_def new_route_def)
qed

text \<open>What a failure leads to.\<close>

lemma repo_call3_at:
  assumes "\<And>x. p_clock P (w, x) = (now, (w, x))"
  shows "repo_call3 P m (w, d) =
    (case m now now now d of Inl e \<Rightarrow> (Inl e, (w, d)) | Inr (a, d') \<Rightarrow> (Inr a, (w, d')))"
  by (simp add: repo_call3_def repo_call_def bind_act_def get_act_def assms tx_act_def split: sum.split)

lemma void_repo_call3:
  assumes "\<And>x. p_clock P (w, x) = (now, (w, x))"
  shows "unless_lost (void (repo_call3 P m)) (w, d) =
    (case m now now now d of Inl e \<Rightarrow> (if e = PublicRouteClaimLostError then Inr () else Inl e, (w, d))
       | Inr (a, d') \<Rightarrow> (Inr (), (w, d')))"
  by (auto simp: unless_lost_def try_act_def void_def bind_act_def repo_call3_at [OF assms] ret_def raise_def
      split: sum.split prod.split)

definition failed_as :: "'s route_worker \<Rightarrow> route_claim \<Rightarrow> bool \<Rightarrow> bool \<Rightarrow> time \<Rightarrow>
    public_route \<Rightarrow> route_job \<Rightarrow> bool" where
  "failed_as W c retryable uncertain now r j =
     (if uncertain then rt_status r = R_UNCERTAIN \<and> rj_state j = RJ_FAILED
      else if retryable \<and> rtc_attempts c < rw_max_attempts W
      then rt_status r = R_PENDING \<and> rj_state j = RJ_PENDING \<and>
        rj_available_at j = now + route_retry_delay W (rtc_attempts c)
      else rt_status r = R_FAILED \<and> rj_state j = RJ_FAILED)"

lemma stopped_rows:
  assumes ok: "routes_ok d" and live: "route_claim_live c now d"
    and ok': "routes_ok (route_move (rt_project_id (rtc_route c)) (rt_stopped st code now) g d)" (is "routes_ok ?d")
    and g: "\<And>j. rj_project_id (g j) = rj_project_id j"
  obtains r j where "route_of d (rt_project_id (rtc_route c)) = Some r"
    "route_of ?d (rt_project_id (rtc_route c)) = Some (rt_stopped st code now r)"
    "g j \<in> set (t_route_jobs ?d)" "rj_project_id j = rt_project_id (rtc_route c)"
proof -
  let ?i = "rt_project_id (rtc_route c)"
  obtain j r where j: "j \<in> set (t_route_jobs d)" "rj_project_id j = ?i" and r: "route_of d ?i = Some r"
    by (rule live_route_rows [OF ok live]) (rule that, assumption+)
  note R = conjunct1 [OF route_ofD [OF r]] conjunct2 [OF route_ofD [OF r]]
  have "set (t_routes ?d) = {q \<in> set (t_routes d). rt_project_id q \<noteq> ?i} \<union> {rt_stopped st code now r}"
    unfolding route_move_simps by (rule set_upd_key [of rt_project_id, OF routes_okD(1) [OF ok] R])
  moreover have "set (t_route_jobs ?d) = {q \<in> set (t_route_jobs d). rj_project_id q \<noteq> ?i} \<union> {g j}"
    unfolding route_move_simps by (rule set_upd_key [of rj_project_id, OF routes_okD(2) [OF ok] j])
  moreover have "rt_project_id (rt_stopped st code now r) = ?i" by (simp add: rt_stopped_def R)
  ultimately show ?thesis
    using that [OF r _ _ j(2)] fetch_key [OF routes_okD(1) [OF ok'], of "rt_stopped st code now r"] by simp
qed

text \<open>C23. What a failure of a claim leads to: if the claim has been lost nothing is written;
  otherwise an uncertain failure leaves the route \<open>UNCERTAIN\<close>, a retryable one below the attempt
  limit puts it back in the queue after a delay between the base and the maximal one, and every
  other failure is final.  The code is stored, and what is served for the project does not change.\<close>

theorem route_failure_is_retried_or_final:
  assumes "routes_ok d" "\<And>x. p_clock P (w, x) = (now, (w, x))"
    and "route_worker_init W = Inr W" "1 \<le> rtc_attempts c"
  shows "if route_claim_live c now d
    then \<exists>d' r0 r j. route_handle_failure P W c code retryable uncertain (w, d) = (Inr (), (w, d')) \<and>
      route_of d (rt_project_id (rtc_route c)) = Some r0 \<and>
      route_of d' (rt_project_id (rtc_route c)) = Some r \<and>
      j \<in> set (t_route_jobs d') \<and> rj_project_id j = rt_project_id (rtc_route c) \<and>
      failed_as W c retryable uncertain now r j \<and> rt_last_error_code r = Some code \<and>
      rt_applied_hostname r = rt_applied_hostname r0 \<and>
      rw_retry_base_delay W \<le> route_retry_delay W (rtc_attempts c) \<and>
      route_retry_delay W (rtc_attempts c) \<le> rw_retry_max_delay W
    else route_handle_failure P W c code retryable uncertain (w, d) = (Inr (), (w, d))"
proof -
  let ?at = "now + route_retry_delay W (rtc_attempts c)"
  define m where "m = (if uncertain then fail_route c code True
    else if retryable \<and> rtc_attempts c < rw_max_attempts W then retry_route c ?at code
    else fail_route c code False)"
  have handle: "route_handle_failure P W c code retryable uncertain (w, d) = unless_lost (void (repo_call3 P m)) (w, d)"
    by (auto simp: route_handle_failure_def m_def unless_lost_def try_act_def bind_act_def get_act_def assms(2))
  have delay: "rw_retry_base_delay W \<le> route_retry_delay W (rtc_attempts c) \<and>
      route_retry_delay W (rtc_attempts c) \<le> rw_retry_max_delay W"
    using assms(3) by (auto simp: route_worker_init_def route_retry_delay_def min_def split: if_splits)
  show ?thesis
  proof (cases "route_claim_live c now d")
    case False
    then have "\<not> route_live3 c now now now d" by (simp add: route_live3_def)
    note L = route_claim_lost [OF assms(1) this]
    have "m now now now d = Inl PublicRouteClaimLostError" by (simp add: m_def L retry_route_def)
    then show ?thesis using False by (simp add: handle void_repo_call3 [OF assms(2)])
  next
    case True
    obtain r where r: "route_of d (rt_project_id (rtc_route c)) = Some r"
      by (rule live_route_rows [OF assms(1) True]) (rule that)
    define st where "st = (if uncertain then R_UNCERTAIN
      else if retryable \<and> rtc_attempts c < rw_max_attempts W then R_PENDING else R_FAILED)"
    define g where "g = (if \<not> uncertain \<and> retryable \<and> rtc_attempts c < rw_max_attempts W then rj_again ?at code now
      else rj_finished RJ_FAILED (Some code) now)"
    have g: "rj_project_id (g j) = rj_project_id j" "rj_desired_revision (g j) = rj_desired_revision j"
      "rj_row_ok j \<Longrightarrow> rj_row_ok (g j)" "route_agrees (rj_state (g j)) st" for j
      by (auto simp: g_def st_def rj_again_def rj_finished_def rj_row_ok_def)
    have st: "st \<noteq> R_ACTIVE" "st \<noteq> R_INACTIVE" by (simp_all add: st_def)
    let ?d = "route_move (rt_project_id (rtc_route c)) (rt_stopped st code now) g d"
    note S = stop_route_live [OF assms(1) True True True r st g]
    have okd: "routes_ok ?d" using S(2) by simp
    have m: "m now now now d = Inr (rt_stopped st code now r, ?d)"
      using S(1) [of code] by (auto simp: m_def fail_route_def retry_route_def reschedule_route_def finish_route_job_def
          st_def g_def split: if_splits)
    obtain r' j where rows: "route_of d (rt_project_id (rtc_route c)) = Some r'"
      "route_of ?d (rt_project_id (rtc_route c)) = Some (rt_stopped st code now r')"
      "g j \<in> set (t_route_jobs ?d)" "rj_project_id j = rt_project_id (rtc_route c)"
      by (rule stopped_rows [OF assms(1) True okd g(1)]) (rule that)
    have "failed_as W c retryable uncertain now (rt_stopped st code now r') (g j)"
      by (simp add: failed_as_def st_def g_def rt_stopped_def rj_again_def rj_finished_def)
    moreover have "route_handle_failure P W c code retryable uncertain (w, d) = (Inr (), (w, ?d))"
      by (simp add: handle void_repo_call3 [OF assms(2)] m)
    moreover have "rt_last_error_code (rt_stopped st code now r') = Some code"
      "rt_applied_hostname (rt_stopped st code now r') = rt_applied_hostname r'" by (simp_all add: rt_stopped_def)
    ultimately show ?thesis using True rows g(1) delay by (metis (no_types, lifting))
  qed
qed

definition steady_ports :: "time \<Rightarrow> 'w ports" where
  "steady_ports now = \<lparr>p_clock = (\<lambda>s. (now, s)), p_uuid = (\<lambda>s. (11, s)), p_locked = (\<lambda>s. ([], s))\<rparr>"

definition idle_route_worker :: "(unit \<times> db) route_worker" where
  "idle_route_worker = \<lparr>rw_ensure_gateway_attached = (\<lambda>_ h. h), rw_apply = (\<lambda>_ _ h _ _ _. h),
     rw_worker_id = ''a'', rw_lease_duration = 60, rw_max_attempts = 3, rw_retry_base_delay = 10,
     rw_retry_max_delay = 300\<rparr>"

theorem route_failure_is_retried_or_final_witness:
  "\<exists>d' r. route_handle_failure (steady_ports 120) idle_route_worker example_route_claim ''EDGE_RELOAD_FAILED'' True False
       ((), applying_db) = (Inr (), ((), d')) \<and>
     route_of d' 1 = Some r \<and> rt_status r = R_PENDING"
proof -
  have ok: "routes_ok applying_db" by (rule route_reachable_ok [OF applying_reachable])
  have clock: "p_clock (steady_ports 120) ((), x) = (120, ((), x))" for x by (simp add: steady_ports_def)
  have init: "route_worker_init idle_route_worker = Inr idle_route_worker" "1 \<le> rtc_attempts example_route_claim"
    by (simp_all add: route_worker_init_def idle_route_worker_def example_route_claim_def)
  have live: "route_claim_live example_route_claim 120 applying_db" by code_simp
  have few: "rtc_attempts example_route_claim < rw_max_attempts idle_route_worker"
    "rt_project_id (rtc_route example_route_claim) = 1" by code_simp+
  show ?thesis
    using route_failure_is_retried_or_final [OF ok clock init, of "''EDGE_RELOAD_FAILED''" True False] live few
    by (auto simp: failed_as_def)
qed

end
