(* ===== verification/Edge_Probe.thy ===== *)
theory Edge_Probe
  imports Edge_Config
begin

text \<open>
  \<open>EdgeRouteProbe\<close> of \<open>runtime/edge.py\<close>: asking the edge for a hostname until the answer
  is the expected one or the time is up.  The loop has fuel; when the clock advances by the
  interval with every sleep, \<open>timeout div interval + 2\<close> turns are enough.
\<close>

section \<open>Deployment markers\<close>

fun replace_all :: "string \<Rightarrow> string \<Rightarrow> string" where
  "replace_all p [] = []"
| "replace_all p (c # cs) =
     (if p \<noteq> [] \<and> take (length p) (c # cs) = p then replace_all p (drop (length p - 1) cs)
      else c # replace_all p cs)"

definition strip_chars :: "string \<Rightarrow> string \<Rightarrow> string" where
  "strip_chars chars s =
     rev (dropWhile (\<lambda>c. c \<in> set chars) (rev (dropWhile (\<lambda>c. c \<in> set chars) s)))"

definition is_hex :: "char \<Rightarrow> bool" where
  "is_hex c = (c \<in> set ''0123456789abcdefABCDEF'')"

text \<open>Digits with single underscores between them, as \<open>int(s, 16)\<close> reads them.\<close>

fun hex_digits :: "string \<Rightarrow> bool" where
  "hex_digits [] = False"
| "hex_digits [c] = is_hex c"
| "hex_digits (c # d # cs) =
     (is_hex c \<and> (if d = CHR ''_'' then hex_digits cs else hex_digits (d # cs)))"

definition after_sign :: "string \<Rightarrow> string" where
  "after_sign s = (case s of c # cs \<Rightarrow> if c = CHR ''+'' \<or> c = CHR ''-'' then cs else s | [] \<Rightarrow> [])"

definition reads_base_16 :: "string \<Rightarrow> bool" where
  "reads_base_16 s =
     (let t = after_sign (strip s) in
      if take 2 t = ''0x'' \<or> take 2 t = ''0X'' then
        (let u = drop 2 t in hex_digits (case u of c # cs \<Rightarrow> if c = CHR ''_'' then cs else u | [] \<Rightarrow> []))
      else hex_digits t)"

text \<open>\<open>UUID(value)\<close> does not raise.  \<open>int\<close> may give a negative number, which \<open>UUID\<close> refuses.\<close>

definition uuid_parses :: "string \<Rightarrow> bool" where
  "uuid_parses value =
     (let h = replace_all ''-'' (strip_chars ''{}'' (replace_all ''uuid:'' (replace_all ''urn:'' value))) in
      length h = 32 \<and> reads_base_16 h \<and>
      (hd (strip h) = CHR ''-'' \<longrightarrow> list_all (\<lambda>c. c \<in> set ''-0_xX'') (strip h)))"

definition valid_marker :: "string option \<Rightarrow> bool" where
  "valid_marker value = (case value of None \<Rightarrow> False | Some v \<Rightarrow> uuid_parses v)"

section \<open>The loop\<close>

datatype expectation = MANAGEMENT | ROUTED | NOT_FOUND

record http_answer =
  ha_status :: int
  ha_deployment_marker :: "string option"
  ha_management_marker :: "string option"

definition expected :: "expectation \<Rightarrow> http_answer \<Rightarrow> bool" where
  "expected e a =
     (case e of
        MANAGEMENT \<Rightarrow> ha_status a < 500 \<and> ha_management_marker a = Some ''true''
      | ROUTED \<Rightarrow> ha_status a < 500 \<and> valid_marker (ha_deployment_marker a)
      | NOT_FOUND \<Rightarrow> ha_status a = 404 \<and> ha_deployment_marker a = None)"

fun probe_code :: "expectation \<Rightarrow> string" where
  "probe_code MANAGEMENT = ''EDGE_MANAGEMENT_PROBE_FAILED''"
| "probe_code ROUTED = ''EDGE_ROUTE_PROBE_FAILED''"
| "probe_code NOT_FOUND = ''EDGE_DEFAULT_ROUTE_PROBE_FAILED''"

record 's edge_probe =
  pb_host :: string
  pb_port :: int
  pb_timeout :: time
  pb_interval :: time
  pb_monotonic :: "'s \<Rightarrow> time \<times> 's"
  pb_get :: "string \<Rightarrow> ('s, http_answer) act"
  pb_sleep :: "time \<Rightarrow> 's \<Rightarrow> unit \<times> 's"

definition edge_probe_init :: "'s edge_probe \<Rightarrow> exn + 's edge_probe" where
  "edge_probe_init B =
     (if pb_host B = [] \<or> \<not> (1 \<le> pb_port B \<and> pb_port B \<le> 65535)
      then Inl (ValueError ''edge probe endpoint is invalid'') else Inr B)"

text \<open>\<open>Some True\<close>: the expected answer came; \<open>Some False\<close>: the deadline passed; \<open>None\<close>:
  the fuel ran out.\<close>

fun probe_loop ::
    "'s edge_probe \<Rightarrow> string \<Rightarrow> expectation \<Rightarrow> 's heartbeat \<Rightarrow> time \<Rightarrow> nat \<Rightarrow> ('s, bool option) act" where
  "probe_loop B hostname e heartbeat deadline 0 = ret None"
| "probe_loop B hostname e heartbeat deadline (Suc n) =
     bind_act (get_act (pb_monotonic B)) (\<lambda>t.
       if deadline \<le> t then ret (Some False)
       else seq_act heartbeat
         (bind_act
            (try_act (bind_act (pb_get B hostname) (\<lambda>a. ret (expected e a)))
               (\<lambda>x. if x = os_error then ret False else raise x))
            (\<lambda>found. if found then ret (Some True)
               else seq_act (get_act (pb_sleep B (pb_interval B)))
                 (probe_loop B hostname e heartbeat deadline n))))"

definition probe_wait ::
    "'s edge_probe \<Rightarrow> nat \<Rightarrow> string \<Rightarrow> expectation \<Rightarrow> 's heartbeat \<Rightarrow> ('s, unit option) act" where
  "probe_wait B fuel hostname e heartbeat =
     bind_act (get_act (pb_monotonic B)) (\<lambda>t.
     bind_act (probe_loop B hostname e heartbeat (t + pb_timeout B) fuel) (\<lambda>r.
       case r of None \<Rightarrow> ret None
       | Some True \<Rightarrow> ret (Some ())
       | Some False \<Rightarrow> raise (edge_retryable (probe_code e))))"

section \<open>Enough turns\<close>

text \<open>The clock of a state, which no operation turns back and every sleep advances.\<close>

definition clock_advances :: "'s edge_probe \<Rightarrow> 's heartbeat \<Rightarrow> ('s \<Rightarrow> time) \<Rightarrow> bool" where
  "clock_advances B heartbeat now =
     (\<forall>s. pb_monotonic B s = (now s, s) \<and>
        now s \<le> now (snd (heartbeat s)) \<and> (\<forall>h. now s \<le> now (snd (pb_get B h s))) \<and>
        now s + pb_interval B \<le> now (snd (pb_sleep B (pb_interval B) s)))"

lemma clock_advancesD:
  assumes "clock_advances B heartbeat now"
  shows "pb_monotonic B s = (now s, s)" "heartbeat s = (r, s') \<Longrightarrow> now s \<le> now s'"
    "pb_get B h s = (x, s') \<Longrightarrow> now s \<le> now s'"
    "pb_sleep B (pb_interval B) s = (u, s') \<Longrightarrow> now s + pb_interval B \<le> now s'"
  using assms unfolding clock_advances_def by (metis snd_conv)+

lemma probe_loop_ends:
  assumes clock: "clock_advances B heartbeat now" and i: "0 < pb_interval B"
    and n: "deadline - now s < int n * pb_interval B"
  shows "fst (probe_loop B hostname e heartbeat deadline (Suc n) s) \<noteq> Inr None"
  using n
proof (induction n arbitrary: s)
  case 0
  then show ?case by (simp add: act_simps get_act_def clock_advancesD(1) [OF clock])
next
  case (Suc n)
  show ?case
  proof (cases "deadline \<le> now s")
    case True
    then show ?thesis by (simp add: act_simps get_act_def clock_advancesD(1) [OF clock])
  next
    case False
    obtain r1 s1 where h: "heartbeat s = (r1, s1)" by fastforce
    obtain r2 s2 where g: "pb_get B hostname s1 = (r2, s2)" by fastforce
    obtain s3 where z: "pb_sleep B (pb_interval B) s2 = ((), s3)"
      by (metis old.unit.exhaust surj_pair)
    have "now s + pb_interval B \<le> now s3"
      using clock_advancesD(2) [OF clock h] clock_advancesD(3) [OF clock g] clock_advancesD(4) [OF clock z]
      by simp
    moreover have "deadline - now s < int n * pb_interval B + pb_interval B"
      using Suc.prems by (simp add: distrib_right)
    ultimately have "deadline - now s3 < int n * pb_interval B" by simp
    then have next_turn: "fst (probe_loop B hostname e heartbeat deadline (Suc n) s3) \<noteq> Inr None"
      by (rule Suc.IH)
    show ?thesis
      using False h g z next_turn
      by (subst probe_loop.simps(2), cases r1; cases r2)
        (simp_all add: act_simps get_act_def clock_advancesD(1) [OF clock] del: probe_loop.simps)
  qed
qed

definition enough_turns :: "'s edge_probe \<Rightarrow> nat" where
  "enough_turns B = nat (pb_timeout B div pb_interval B) + 2"

lemma probe_wait_ends:
  assumes clock: "clock_advances B heartbeat now" and i: "0 < pb_interval B"
  shows "fst (probe_wait B (enough_turns B) hostname e heartbeat s) \<noteq> Inr None"
proof -
  let ?k = "nat (pb_timeout B div pb_interval B) + 1"
  have "pb_timeout B < (pb_timeout B div pb_interval B + 1) * pb_interval B"
    using i by (metis add.commute distrib_right less_add_same_cancel1 mult.commute mult_1
        mult_div_mod_eq pos_mod_bound add_strict_left_mono)
  also have "\<dots> \<le> int ?k * pb_interval B" using i by (intro mult_right_mono) auto
  finally have "(now s + pb_timeout B) - now s < int ?k * pb_interval B" by simp
  then have "fst (probe_loop B hostname e heartbeat (now s + pb_timeout B) (enough_turns B) s) \<noteq> Inr None"
    using probe_loop_ends [OF clock i, of "now s + pb_timeout B" s ?k hostname e]
    by (simp only: enough_turns_def) simp
  moreover obtain r s' where "probe_loop B hostname e heartbeat (now s + pb_timeout B) (enough_turns B) s = (r, s')"
    by fastforce
  ultimately show ?thesis
    by (auto simp: probe_wait_def bind_act_def get_act_def ret_def raise_def clock_advancesD(1) [OF clock]
        split: sum.splits option.splits bool.splits)
qed

end
