(* ===== verification/Edge_Properties.thy ===== *)
theory Edge_Properties
  imports Route_Properties Edge_Probe
begin

text \<open>
  The properties of the edge: what a pass of the routing worker and an application of the
  configuration leave behind, in the database and in the configuration directory.
\<close>

section \<open>A pass\<close>

text \<open>An edge whose ports keep an invariant keeps it.\<close>

definition manager_keeps :: "(('x, 'd) edge_state \<Rightarrow> bool) \<Rightarrow> ('x, 'd) edge_state edge_manager \<Rightarrow> bool" where
  "manager_keeps I M =
     ((\<forall>h. keeps I h \<longrightarrow> (\<forall>args t b. keeps I (em_runner M args t (Some h) b)) \<and>
        (\<forall>n. keeps I (em_probe_management M n h) \<and> keeps I (em_probe_routed M n h) \<and>
          keeps I (em_probe_not_found M n h))) \<and>
      port_keeps I (em_io_fails M) \<and> port_keeps I (em_mkstemp M) \<and>
      (\<forall>fs fs' x d. I ((fs, x), d) \<longrightarrow> I ((fs', x), d)))"

lemma keeps_case_option [intro]:
  "keeps I m \<Longrightarrow> (\<And>a. keeps I (f a)) \<Longrightarrow> keeps I (case x of None \<Rightarrow> m | Some a \<Rightarrow> f a)"
  by (cases x) auto

lemma keeps_get_files: "keeps I get_files"
  by (simp add: keeps_def get_files_def)

lemma keeps_file_op:
  assumes "manager_keeps I M"
  shows "keeps I (file_op M f)"
proof -
  have put: "keeps I (\<lambda>((fs, x), d). (Inr (), ((f fs, x), d)))"
    using assms by (auto simp: manager_keeps_def keeps_def)
  have "port_keeps I (em_io_fails M)" using assms by (simp add: manager_keeps_def)
  then show ?thesis unfolding file_op_def by (intro keeps_bind keeps_get keeps_if keeps_raise put)
qed

lemma keeps_edge_run:
  assumes "manager_keeps I M" "keeps I h"
  shows "keeps I (edge_run M args h code)"
proof -
  have "keeps I (em_runner M a t (Some h) b)" for a t b using assms by (simp add: manager_keeps_def)
  moreover have "keeps I (case e of CommandExecutionError _ \<Rightarrow> raise (edge_retryable code) | _ \<Rightarrow> raise e)" for e
    by (cases e) (auto intro: keeps_raise)
  ultimately show ?thesis unfolding edge_run_def by (intro keeps_try)
qed

lemmas keeps_edge_rules = keeps_ret keeps_raise keeps_bind keeps_seq keeps_try keeps_if keeps_case_option
  keeps_get_files keeps_file_op keeps_edge_run keeps_each

lemma keeps_edge_files:
  assumes "manager_keeps I M"
  shows "keeps I (unlink_missing_ok M n)" "keeps I (fsync_directory M)" "keeps I (os_replace M a b)"
    "keeps I (read_text M n)" "keeps I (mkstemp M)" "keeps I (private_temporary M v)" "keeps I (atomic_write M n v)"
    "keeps I (write_transaction M t)" "keeps I (remove_transaction_journal M)" "keeps I (ensure_config_root M)"
    "keeps I (validate_interrupted M)"
proof -
  have m: "port_keeps I (em_mkstemp M)" using assms by (simp add: manager_keeps_def)
  note R = keeps_edge_rules assms
  show f: "keeps I (unlink_missing_ok M n)" "keeps I (fsync_directory M)" "keeps I (os_replace M a b)"
    "keeps I (read_text M n)" for n a b
    unfolding unlink_missing_ok_def fsync_directory_def os_replace_def read_text_def by (intro R)+
  show "keeps I (mkstemp M)" unfolding mkstemp_def Let_def by (intro R keeps_get m)
  then show p: "keeps I (private_temporary M v)" for v
    unfolding private_temporary_def on_error_def by (intro R f)
  show w: "keeps I (atomic_write M n v)" for n v
    unfolding atomic_write_def on_error_def by (intro R f p)
  show "keeps I (write_transaction M t)" "keeps I (remove_transaction_journal M)" "keeps I (ensure_config_root M)"
    unfolding write_transaction_def remove_transaction_journal_def ensure_config_root_def by (intro R f w)+
  show "keeps I (validate_interrupted M)"
    unfolding validate_interrupted_def read_transaction_def by (intro R f)
qed

lemma keeps_probe_candidate:
  assumes "manager_keeps I M" "keeps I h"
  shows "keeps I (probe_candidate M routes change h b)"
proof -
  have P: "keeps I (em_probe_management M n h)" "keeps I (em_probe_routed M n h)" "keeps I (em_probe_not_found M n h)" for n
    using assms by (simp_all add: manager_keeps_def)
  show ?thesis unfolding probe_candidate_def by (intro keeps_edge_rules P)
qed

lemma keeps_edge_docker:
  assumes "manager_keeps I M" "keeps I h"
  shows "keeps I (verify_edge M h)" "keeps I (reload_edge M h)" "keeps I (test_config M c h)"
proof -
  note R = keeps_edge_rules assms
  show v: "keeps I (verify_edge M h)" unfolding verify_edge_def by (intro R)
  show "keeps I (reload_edge M h)" unfolding reload_edge_def by (intro R v)
  show "keeps I (test_config M c h)"
    unfolding test_config_def read_edge_file_def finally_act_def on_error_def by (intro R keeps_edge_files)
qed

lemma keeps_restore:
  assumes "manager_keeps I M" "keeps I h"
  shows "keeps I (restore_and_raise M rendered previous change h e)"
proof -
  note R = keeps_edge_rules keeps_edge_files keeps_edge_docker assms
  have P: "keeps I (em_probe_management M n h)" "keeps I (em_probe_routed M n h)" "keeps I (em_probe_not_found M n h)" for n
    using assms by (simp_all add: manager_keeps_def)
  have "keeps I (restore_config M rendered previous change h)"
    unfolding restore_config_def by (intro R P)
  moreover have "keeps I (case r of EdgeRuntimeError _ _ _ \<Rightarrow> raise (edge_uncertain c) | _ \<Rightarrow> raise r)" for r c
    by (cases r) (simp_all add: keeps_raise)
  ultimately show ?thesis unfolding restore_and_raise_def by (intro R)
qed

lemma keeps_apply_edge:
  assumes M: "manager_keeps I M" and h: "keeps I h" "keeps I fence" "keeps I fin"
  shows "keeps I (apply_edge M routes change h fence fin b)"
proof -
  note R = keeps_edge_rules keeps_edge_files keeps_edge_docker keeps_probe_candidate keeps_restore assms
  have switch: "keeps I (switch_config M rendered c change h fence)" for rendered c
    unfolding switch_config_def on_error_def Let_def by (intro R)
  have serve: "keeps I (serve_config M routes rendered t change h fence fin b)" for rendered t
    unfolding serve_config_def mark_transaction_committed_def Let_def by (intro R)
  show ?thesis
  proof (cases "render_edge_routes routes")
    case (Inr rendered)
    then show ?thesis unfolding apply_edge_def by (simp only: Inr sum.case) (intro R switch serve)
  qed (simp add: apply_edge_def keeps_raise)
qed

definition connector_keeps :: "('s \<Rightarrow> bool) \<Rightarrow> 's edge_connector \<Rightarrow> bool" where
  "connector_keeps I N = (\<forall>h. keeps I h \<longrightarrow> (\<forall>args t b. keeps I (cn_runner N args t (Some h) b)))"

lemma keeps_ensure_gateway:
  assumes "connector_keeps I N" "keeps I h"
  shows "keeps I (ensure_gateway_attached N i h)"
proof -
  have "keeps I (cn_runner N a t (Some h) b)" for a t b using assms by (simp add: connector_keeps_def)
  moreover have "keeps I (case e of CommandExecutionError _ \<Rightarrow> ret no_result | _ \<Rightarrow> raise e)" for e
    by (cases e) (simp_all add: keeps_raise keeps_ret)
  ultimately have run: "keeps I (run_ignored N a h)" for a unfolding run_ignored_def by (intro keeps_try)
  have bool: "keeps I m \<Longrightarrow> keeps I n \<Longrightarrow> keeps I (case b of True \<Rightarrow> m | False \<Rightarrow> n)" for b and m n :: "('a, unit) act"
    by (cases b) simp_all
  show ?thesis
    unfolding ensure_gateway_attached_def Let_def by (intro keeps_edge_rules run bool)
qed


section \<open>An example edge\<close>

definition example_loads :: "string \<Rightarrow> json option" where
  "example_loads s =
     (if s = ''network'' then Some (JObj [(''heimdall.managed'', JStr ''true''), (''heimdall.kind'', JStr ''edge-network'')])
      else if s = ''edge'' then Some (JObj
        [(''labels'', JObj [(''heimdall.managed'', JStr ''true''), (''heimdall.kind'', JStr ''edge-gateway'')]),
         (''image'', JStr ''nginx''), (''running'', JBool True), (''networks'', JObj [(''heimdall-edge'', JNull)])])
      else if s = ''gateway'' then Some (JObj
        [(''labels'', JObj [(''heimdall.managed'', JStr ''true''), (''heimdall.project-id'', JStr (uuid_str 1)),
            (''heimdall.kind'', JStr ''gateway'')]), (''running'', JBool True)])
      else if s = ''attached'' then Some (JObj
        [(''heimdall-edge'', JObj [(''Aliases'', JList [JStr (project_gateway_alias 1)])])])
      else None)"

definition example_output :: "string list \<Rightarrow> string" where
  "example_output args =
     (if ''network'' \<in> set args then ''network'' else if edge_inspect_format \<in> set args then ''edge''
      else if gateway_format \<in> set args then ''gateway''
      else if ''{{json .NetworkSettings.Networks}}'' \<in> set args then ''attached'' else ''file'')"

definition example_name :: "('x, 'd) edge_state \<Rightarrow> string \<times> ('x, 'd) edge_state" where
  "example_name s =
     (if fst (fst s) ''.public-routes-a.tmp'' = None then ''a''
      else if fst (fst s) ''.public-routes-b.tmp'' = None then ''b'' else ''c'', s)"

text \<open>A command calls the heartbeat once and succeeds.\<close>

definition example_runner :: "'s runner" where
  "example_runner args t h ch =
     seq_act (case h of None \<Rightarrow> ret () | Some m \<Rightarrow> m)
       (ret \<lparr>cr_returncode = 0, cr_stdout = example_output args, cr_stderr = [], cr_stdout_truncated = False,
             cr_stderr_truncated = False\<rparr>)"

definition example_edge :: "('x, 'd) edge_state edge_manager" where
  "example_edge = \<lparr>em_runner = example_runner, em_probe_management = (\<lambda>_ h. h), em_probe_routed = (\<lambda>_ h. h),
     em_probe_not_found = (\<lambda>_ h. h), em_config_root = ''/srv/edge'', em_config_root_is_directory = True,
     em_management_hostname = ''heimdall.example.com'', em_docker_executable = ''docker'',
     em_nginx_image = ''nginx'', em_edge_network_name = ''heimdall-edge'',
     em_edge_container_name = ''heimdall-edge-gateway'', em_command_timeout = 120, em_loads = example_loads,
     em_dumps = (\<lambda>_. ''{}''), em_number_is = (\<lambda>_ _. False), em_io_fails = (\<lambda>s. (False, s)),
     em_mkstemp = example_name\<rparr>"

definition example_connector :: "'s edge_connector" where
  "example_connector = \<lparr>cn_runner = example_runner, cn_executable = ''docker'', cn_network_name = ''heimdall-edge'',
     cn_command_timeout = 120, cn_loads = example_loads\<rparr>"

definition example_routing :: "unit routing_state route_worker" where
  "example_routing = \<lparr>rw_ensure_gateway_attached = ensure_gateway_attached example_connector,
     rw_apply = apply_edge example_edge, rw_worker_id = ''a'', rw_lease_duration = 60, rw_max_attempts = 3,
     rw_retry_base_delay = 10, rw_retry_max_delay = 300\<rparr>"

definition example_state :: "db \<Rightarrow> unit routing_state" where
  "example_state d = ((\<lambda>_. None, False, ()), d)"

text \<open>The bounds as integers, which compute.\<close>

lemma render_computes [code]:
  "render_edge_routes routes =
     (if 1000 < int (length routes) then Inl (edge_error ''EDGE_ROUTE_LIMIT_EXCEEDED'')
      else (case edge_sections [] (order_by et_hostname routes) of
         Inl e \<Rightarrow> Inl e
       | Inr sections \<Rightarrow>
           (let rendered = join_lines
              ((''# Generated by Heimdall Routing Worker. Do not edit.'' @ [CHR 0x0A]) # sections) in
            if 1048576 < int (utf8_length rendered)
            then Inl (edge_error ''EDGE_ROUTE_CONFIG_TOO_LARGE'') else Inr rendered)))"
  by (simp add: render_edge_routes_def MAX_ROUTES_def MAX_CONFIG_BYTES_def Let_def split: sum.split)

lemma example_runner_keeps: "keeps I h \<Longrightarrow> keeps I (example_runner args t (Some h) b)"
  unfolding example_runner_def by (auto intro!: keeps_seq keeps_ret)

lemma example_edge_keeps: "manager_keeps route_tables_ok example_edge"
  by (auto simp: manager_keeps_def example_edge_def port_keeps_def example_name_def route_tables_ok_def
      intro: example_runner_keeps)


section \<open>The configuration\<close>

text \<open>The plan of a live claim can always be rendered, as long as fewer than a thousand routes are
  applied: no name of it is malformed or taken twice, and the file stays below the byte limit, so
  that limit is never what refuses a configuration of at most a thousand routes.\<close>

theorem plan_is_renderable:
  assumes "route_reachable d0" "t2 < t1 + l" "route_claim_next w l locked t t1 t2 d0 = Inr (Some c, d1)"
    and "route_step\<^sup>*\<^sup>* d1 d" "route_claim_live c now d" "length (list_applied d) < MAX_ROUTES"
  shows "\<exists>text. render_edge_routes (planned_targets (rtc_route c) (applied_targets d)) = Inr text \<and>
    utf8_length text < MAX_CONFIG_BYTES"
proof -
  have ok0: "routes_ok d0" by (rule route_reachable_ok [OF assms(1)])
  have step: "route_step d0 d1" by (rule route_step.claim [OF assms(2,3)])
  have reach: "route_step\<^sup>*\<^sup>* d0 d" using step assms(4) by (rule converse_rtranclp_into_rtranclp)
  have ok: "routes_ok d" by (rule route_steps_ok [OF reach ok0])
  have names: "edge_names_ok d"
    by (rule edge_names_steps [OF reach ok0 route_reachable_names [OF assms(1)]])
  obtain r where r: "route_of d (rt_project_id (rtc_route c)) = Some r" "same_wish (rtc_route c) r"
    by (rule live_claim_wish [OF ok0 assms(2-5)]) (rule that)
  let ?ts = "planned_targets (rtc_route c) (applied_targets d)"
  have "render_edge_routes ?ts = Inr (edge_file ?ts)" by (rule plan_renders [OF ok names r assms(6)])
  moreover have "utf8_length (edge_file ?ts) < MAX_CONFIG_BYTES"
    using calculation by (intro edge_file_fits) (auto simp: render_eq split: if_splits)
  ultimately show ?thesis by blast
qed

theorem plan_is_renderable_witness:
  "\<exists>text. render_edge_routes (planned_targets (rtc_route example_route_claim) (applied_targets applying_db)) = Inr text \<and>
     utf8_length text < MAX_CONFIG_BYTES"
proof -
  have live: "route_claim_live example_route_claim 120 applying_db" by code_simp
  have "list_applied applying_db = []" by code_simp
  then have few: "length (list_applied applying_db) < MAX_ROUTES" by (simp add: MAX_ROUTES_def)
  show ?thesis
    by (rule plan_is_renderable [OF requested_reachable _ example_route_claims rtranclp.rtrancl_refl live few]) simp
qed

section \<open>Applying a configuration\<close>

text \<open>C25. An application of a configuration is a transaction of the directory and the database.  When it
  returns, the file is the rendering, no journal is left and the database is finalized (\<open>D\<close>).
  When it raises, on whatever path, the file is as before (an absent one may have become the empty
  configuration), or it is the new one and either the database is finalized or the journal names
  the configuration to go back to.\<close>

theorem edge_application_is_transactional:
  assumes "surroundings F M heartbeat" "surroundings D M heartbeat" "aside F fence"
    and "finalizes F D finalize" "F (rest_of s)"
  shows "case apply_edge M routes change heartbeat fence finalize probe_all s of
      (Inr u, s') \<Rightarrow> D (rest_of s') \<and> files_of s' journal_name = None \<and>
        (\<exists>text. render_edge_routes routes = Inr text \<and> files_of s' current_name = Some text)
    | (Inl e, s') \<Rightarrow> files_of s' current_name \<in> before_switch (files_of s) \<or>
        (\<exists>text. render_edge_routes routes = Inr text \<and> files_of s' current_name = Some text \<and>
          (D (rest_of s') \<or> files_of s' journal_name =
             Some (journal_text M (transaction_of change (previous_config (files_of s)) text))))"
proof -
  have "wp (apply_edge M routes change heartbeat fence finalize probe_all)
    (\<lambda>u s'. D (rest_of s') \<and> files_of s' journal_name = None \<and>
        (\<exists>text. render_edge_routes routes = Inr text \<and> files_of s' current_name = Some text))
    (\<lambda>e s'. files_of s' current_name \<in> before_switch (files_of s) \<or>
        (\<exists>text. render_edge_routes routes = Inr text \<and> files_of s' current_name = Some text \<and>
          (D (rest_of s') \<or> files_of s' journal_name =
             Some (journal_text M (transaction_of change (previous_config (files_of s)) text))))) s"
  proof (rule wp_mono [OF apply_edge_wp [OF assms]], elim exE conjE)
    fix u :: unit and s' content
    assume j: "J D ((files_of s)(current_name := Some content, journal_name := None)) True s'"
      and r: "render_edge_routes routes = Inr content"
    show "D (rest_of s') \<and> files_of s' journal_name = None \<and>
        (\<exists>text. render_edge_routes routes = Inr text \<and> files_of s' current_name = Some text)"
      using J_file [OF j, of current_name] J_file [OF j, of journal_name] j r by (simp add: J_def)
  qed
  then show ?thesis by (simp only: wp_def split: prod.split sum.split)
qed

definition finalize_flag :: "((files \<times> unit) \<times> bool, unit) act" where
  "finalize_flag = (\<lambda>(w, d). (Inr (), (w, True)))"

theorem edge_application_is_transactional_witness:
  "\<exists>s'. apply_edge example_edge [] None (ret ()) (ret ()) finalize_flag False ((\<lambda>_. None, ()), False) = (Inr (), s') \<and>
     snd s' \<and> files_of s' journal_name = None \<and> files_of s' current_name = Some (edge_file [])"
proof -
  let ?run = "apply_edge example_edge [] None (ret ()) (ret ()) finalize_flag False ((\<lambda>_. None, ()), False)"
  have aside: "aside F (ret ())" "aside F (example_runner args t (Some (ret ())) b)" for F :: "unit \<times> bool \<Rightarrow> bool" and args t b
    by (simp_all add: aside_def untouched_def ret_def example_runner_def seq_act_def bind_act_def)
  have env: "surroundings F example_edge (ret ())" for F :: "unit \<times> bool \<Rightarrow> bool"
    using aside [of F] by (simp add: surroundings_def example_edge_def)
      (simp add: aside_def untouched_def example_name_def)
  have fin: "finalizes (\<lambda>_. True) snd finalize_flag"
    by (simp add: finalizes_def finalize_flag_def split: prod.split)
  have run: "fst ?run = Inr ()" by code_simp
  obtain s' where s': "?run = (Inr (), s')" using run by (metis prod.collapse)
  have "render_edge_routes [] = Inr (edge_file [])" by (simp add: render_eq)
  then show ?thesis
    using edge_application_is_transactional [OF env env aside(1) fin, of "((\<lambda>_. None, ()), False)" "[]" None False] s'
    by simp
qed

lemma probe_loop_found:
  "probe_loop B hostname e heartbeat deadline n s = (Inr (Some True), s') \<Longrightarrow>
   \<exists>s1 a. pb_get B hostname s1 = (Inr a, s') \<and> expected e a"
proof (induction n arbitrary: s)
  case (Suc n)
  obtain t s1 where t: "pb_monotonic B s = (t, s1)" by (rule prod.exhaust)
  obtain r s2 where h: "heartbeat s1 = (r, s2)" by (rule prod.exhaust)
  obtain x s3 where g: "pb_get B hostname s2 = (x, s3)" by (rule prod.exhaust)
  obtain u s4 where z: "pb_sleep B (pb_interval B) s3 = (u, s4)" by (rule prod.exhaust)
  have found: "\<exists>s1 a. pb_get B hostname s1 = (Inr a, s') \<and> expected e a"
    if "x = Inr a" "expected e a" "s3 = s'" for a using g that by blast
  show ?case
    using Suc.prems Suc.IH [of s4] found
    by (auto simp: bind_act_def seq_act_def try_act_def get_act_def ret_def raise_def t h g z
        split: sum.splits if_splits)
qed (simp add: ret_def)

text \<open>C26. A probe of the edge ends, within one turn per interval of its deadline, whatever the answers
  are, and it returns only on the answer it waits for.\<close>

theorem probe_ends_and_is_sound:
  assumes "clock_advances B heartbeat now" "0 < pb_interval B"
  shows "case probe_wait B (enough_turns B) hostname e heartbeat s of
      (Inr None, s') \<Rightarrow> False
    | (Inr (Some u), s') \<Rightarrow> \<exists>s1 a. pb_get B hostname s1 = (Inr a, s') \<and> expected e a
    | (Inl x, s') \<Rightarrow> True"
proof -
  have "fst (probe_wait B (enough_turns B) hostname e heartbeat s) \<noteq> Inr None"
    by (rule probe_wait_ends [OF assms])
  moreover have "\<exists>s1 a. pb_get B hostname s1 = (Inr a, s') \<and> expected e a"
    if "probe_wait B (enough_turns B) hostname e heartbeat s = (Inr (Some u), s')" for u s'
    using that probe_loop_found [of B hostname e heartbeat "now s + pb_timeout B" "enough_turns B" s]
    by (cases "probe_loop B hostname e heartbeat (now s + pb_timeout B) (enough_turns B) s")
      (auto simp: probe_wait_def bind_act_def get_act_def ret_def raise_def clock_advancesD(1) [OF assms(1)]
        split: sum.splits option.splits bool.splits)
  ultimately show ?thesis by (auto split: prod.split sum.split option.split)
qed

text \<open>A server that answers from time 3 on.\<close>

definition example_probe :: "int edge_probe" where
  "example_probe = \<lparr>pb_host = ''edge'', pb_port = 80, pb_timeout = 10, pb_interval = 2,
     pb_monotonic = (\<lambda>s. (s, s)),
     pb_get = (\<lambda>_. (\<lambda>s. if s < 3 then (Inl os_error, s) else
       (Inr \<lparr>ha_status = 404, ha_deployment_marker = None, ha_management_marker = None\<rparr>, s))),
     pb_sleep = (\<lambda>t s. ((), s + t))\<rparr>"

theorem probe_ends_and_is_sound_witness:
  "probe_wait example_probe (enough_turns example_probe) ''a.b'' NOT_FOUND (ret ()) 0 = (Inr (Some ()), 4) \<and>
   (\<exists>s1 a. pb_get example_probe ''a.b'' s1 = (Inr a, 4) \<and> expected NOT_FOUND a)"
proof -
  have clock: "clock_advances example_probe (ret ()) (\<lambda>s. s)"
    by (simp add: clock_advances_def example_probe_def ret_def)
  have run: "probe_wait example_probe (enough_turns example_probe) ''a.b'' NOT_FOUND (ret ()) 0 = (Inr (Some ()), 4)"
    by code_simp
  have "0 < pb_interval example_probe" by (simp add: example_probe_def)
  then show ?thesis
    using probe_ends_and_is_sound [OF clock, of "''a.b''" NOT_FOUND 0] run by simp
qed

section \<open>Delivery\<close>

lemma quiet_case_option:
  "edge_quiet m \<Longrightarrow> (\<And>a. edge_quiet (f a)) \<Longrightarrow> edge_quiet (case x of None \<Rightarrow> m | Some a \<Rightarrow> f a)"
  by (cases x) auto

lemma quiet_case_bool:
  "edge_quiet m \<Longrightarrow> edge_quiet n \<Longrightarrow> edge_quiet (case b of True \<Rightarrow> m | False \<Rightarrow> n)"
  by (cases b) auto

lemma quiet_example_runner: "edge_quiet h \<Longrightarrow> edge_quiet (example_runner args t (Some h) b)"
  unfolding example_runner_def option.case by (intro quiet_seq quiet_ret)

lemma quiet_example_gateway:
  assumes "edge_quiet h"
  shows "edge_quiet (ensure_gateway_attached example_connector i h)"
proof -
  have "edge_quiet (case e of CommandExecutionError _ \<Rightarrow> ret no_result | _ \<Rightarrow> raise e)" for e
    by (cases e) (simp_all add: quiet_ret quiet_raise)
  then have "edge_quiet (run_ignored example_connector args h)" for args
    unfolding run_ignored_def by (intro quiet_try) (simp_all add: example_connector_def quiet_example_runner assms)
  then show ?thesis
    unfolding ensure_gateway_attached_def Let_def
    by (intro quiet_bind quiet_if quiet_raise quiet_ret quiet_case_option quiet_case_bool)
qed

lemma quiet_example: "quiet_edge (steady_ports now) example_routing example_edge c"
proof -
  have clock: "edge_quiet (p_clock (steady_ports now) :: unit routing_state \<Rightarrow> _)"
    "edge_quiet (\<lambda>s :: unit routing_state. (False, s))"
    "edge_quiet (example_name :: unit routing_state \<Rightarrow> _)"
    by (simp_all add: edge_quiet_def steady_ports_def example_name_def)
  have lease: "0 < rw_lease_duration example_routing" by (simp add: example_routing_def)
  note h = quiet_heartbeat [OF clock(1) lease]
  show ?thesis
    unfolding quiet_edge_def Let_def
    using clock lease h [of c] quiet_example_gateway [OF h [of c]] quiet_example_runner [OF h [of c]]
    by (simp add: example_edge_def) (simp add: example_routing_def)
qed

text \<open>C27. What the routing worker delivers: when the processing of a claim returns, the file of the edge
  is the rendering of exactly the routes the database then lists as applied, no journal is left, and
  these are the applied routes of the other projects as they were, with the wish of the claim in
  place of its own project's.  It holds whatever other transactions run meanwhile that leave the
  applied routes alone.\<close>

theorem finished_claim_is_delivered:
  fixes W :: "'x routing_state route_worker"
  assumes "route_reachable d0" "t2 < t1 + l" "route_claim_next w l locked t t1 t2 d0 = Inr (Some c, d1)"
    and "route_step\<^sup>*\<^sup>* d1 (snd s)"
    and "quiet_edge P W M c" "rw_apply W = apply_edge M" "process_route P W c s = (Inr (), s')"
  shows "files_of s' journal_name = None \<and>
    (\<exists>text. render_edge_routes (applied_targets (snd s')) = Inr text \<and> files_of s' current_name = Some text) \<and>
    (\<exists>planned. route_step\<^sup>*\<^sup>* (snd s) planned \<and> set (applied_targets (snd s')) =
       {t \<in> set (applied_targets planned). et_project_id t \<noteq> rt_project_id (rtc_route c)} \<union>
       set (wished_target (rtc_route c)))"
proof -
  have ok0: "routes_ok d0" by (rule route_reachable_ok [OF assms(1)])
  have d1: "routes_ok d1" using claim_step_ok [OF ok0 assms(2,3)] by simp
  note wp = wpD(1) [OF pass_delivers [OF ok0 assms(2,3,5,6,4)] assms(7)]
  obtain planned where planned: "route_step\<^sup>*\<^sup>* (snd s) planned"
    "set (applied_targets (snd s')) = set (planned_targets (rtc_route c) (applied_targets planned))"
    using wp by blast
  have "routes_ok planned" by (rule route_steps_ok [OF rtranclp_trans [OF assms(4) planned(1)] d1])
  then have "set (applied_targets (snd s')) =
       {t \<in> set (applied_targets planned). et_project_id t \<noteq> rt_project_id (rtc_route c)} \<union>
       set (wished_target (rtc_route c))"
    unfolding planned(2) by (rule planned_set(1) [OF applied_ids])
  then show ?thesis using wp planned(1) by blast
qed

theorem finished_claim_is_delivered_witness:
  "\<exists>s' text. process_route (steady_ports 100) example_routing example_route_claim (example_state applying_db) = (Inr (), s') \<and>
     files_of s' current_name = Some text \<and> render_edge_routes (applied_targets (snd s')) = Inr text \<and>
     files_of s' journal_name = None"
proof -
  have run: "fst (process_route (steady_ports 100) example_routing example_route_claim (example_state applying_db)) = Inr ()"
    by code_simp
  obtain s' where s': "process_route (steady_ports 100) example_routing example_route_claim (example_state applying_db) = (Inr (), s')"
    using run by (metis prod.collapse)
  have "route_step\<^sup>*\<^sup>* applying_db (snd (example_state applying_db))" by (simp add: example_state_def)
  from finished_claim_is_delivered [OF requested_reachable _ example_route_claims this quiet_example _ s']
  show ?thesis using s' by (auto simp: example_routing_def)
qed

end
