(* ===== verification/Deletion_Repository.thy ===== *)
theory Deletion_Repository
  imports Route_Invariants
begin

text \<open>
  The deletion of a project in \<open>projects/repository.py\<close>: its request and its job, which goes
  through the phases of \<open>ProjectDeletionPhase\<close> one by one, and the final removal of every row of
  the project.  As for the routes, each statement's reading of the database's clock is an argument.
\<close>

section \<open>Phases\<close>

text \<open>\<open>list(ProjectDeletionPhase).index\<close>\<close>

fun phase_index :: "deletion_phase \<Rightarrow> nat" where
  "phase_index REQUESTED = 0"
| "phase_index WAITING_FOR_OPERATIONS = 1"
| "phase_index ROUTE_DISABLING = 2"
| "phase_index ROUTE_REMOVED = 3"
| "phase_index RUNTIME_CLEANUP = 4"
| "phase_index DATABASE_QUIESCING = 5"
| "phase_index DATABASE_DROP_DATABASE = 6"
| "phase_index DATABASE_DROP_ROLE = 7"
| "phase_index SECRET_CLEANUP = 8"
| "phase_index METADATA_DELETE = 9"

lemma phase_index_inj: "phase_index p = phase_index q \<Longrightarrow> p = q"
  by (cases p; cases q) simp_all

instantiation deletion_phase :: linorder
begin

definition less_eq_deletion_phase :: "deletion_phase \<Rightarrow> deletion_phase \<Rightarrow> bool" where
  "less_eq_deletion_phase p q = (phase_index p \<le> phase_index q)"

definition less_deletion_phase :: "deletion_phase \<Rightarrow> deletion_phase \<Rightarrow> bool" where
  "less_deletion_phase p q = (phase_index p < phase_index q)"

instance
  by standard (auto simp: less_eq_deletion_phase_def less_deletion_phase_def intro: phase_index_inj)

end

section \<open>Rows and their constraints\<close>

definition xj_checks :: "deletion_job \<Rightarrow> bool" where
  "xj_checks j =
     (0 \<le> xj_attempts j \<and>
      (if xj_state j = X_CLAIMED
       then xj_lease_owner j \<noteq> None \<and> xj_lease_expires_at j \<noteq> None \<and> xj_claim_token j \<noteq> None
       else xj_lease_owner j = None \<and> xj_lease_expires_at j = None \<and> xj_claim_token j = None) \<and>
      (if xj_state j = X_FAILED
       then xj_last_error_code j \<noteq> None \<and> xj_last_error_retryable j \<noteq> None
       else xj_last_error_code j = None \<and> xj_last_error_retryable j = None))"

definition xj_held :: "string \<Rightarrow> uuid \<Rightarrow> time \<Rightarrow> deletion_job \<Rightarrow> bool" where
  "xj_held w t now j =
     (xj_state j = X_CLAIMED \<and> xj_lease_owner j = Some w \<and> xj_claim_token j = Some t \<and>
      null_gt (xj_lease_expires_at j) now)"

definition xj_claimable :: "time \<Rightarrow> deletion_job \<Rightarrow> bool" where
  "xj_claimable now j =
     ((xj_state j = X_PENDING \<and> xj_available_at j \<le> now) \<or>
      (xj_state j = X_CLAIMED \<and> null_le (xj_lease_expires_at j) now))"

definition xj_take :: "string \<Rightarrow> uuid \<Rightarrow> time \<Rightarrow> time \<Rightarrow> deletion_job \<Rightarrow> deletion_job" where
  "xj_take w t e now j =
     j\<lparr>xj_state := X_CLAIMED, xj_attempts := xj_attempts j + 1, xj_lease_owner := Some w,
       xj_lease_expires_at := Some e, xj_claim_token := Some t, xj_updated_at := now\<rparr>"

definition xj_extend :: "time \<Rightarrow> time \<Rightarrow> deletion_job \<Rightarrow> deletion_job" where
  "xj_extend e now j = j\<lparr>xj_lease_expires_at := Some e, xj_updated_at := now\<rparr>"

interpretation xj: lease_table xj_project_id xj_held xj_claimable xj_lease_expires_at xj_take xj_extend
proof
  fix w t n r m
  assume "xj_held w t n r" "\<not> null_gt (xj_lease_expires_at r) m"
  then show "xj_claimable m r"
    by (cases "xj_lease_expires_at r") (auto simp: xj_held_def xj_claimable_def)
qed (auto simp: xj_held_def xj_claimable_def xj_take_def xj_extend_def null_gt_not_le)

abbreviation deletion_of :: "db \<Rightarrow> uuid \<Rightarrow> deletion_job option" where
  "deletion_of d i \<equiv> fetch (\<lambda>j. xj_project_id j = i) (t_deletion_jobs d)"

text \<open>\<open>UPDATE project_deletion_jobs SET f WHERE P RETURNING *\<close>; the condition names the project.\<close>

definition update_deletion ::
    "(deletion_job \<Rightarrow> bool) \<Rightarrow> (deletion_job \<Rightarrow> deletion_job) \<Rightarrow> (db, deletion_job option) tx" where
  "update_deletion P f d =
     (case returning P f (t_deletion_jobs d) of
        None \<Rightarrow> Inr (None, d)
      | Some j \<Rightarrow>
          if \<not> xj_checks j then Inl CheckViolation
          else Inr (Some j, d\<lparr>t_deletion_jobs := upd P f (t_deletion_jobs d)\<rparr>))"

section \<open>The request\<close>

definition lock_deletion_context :: "uuid \<Rightarrow> (db, bool) tx" where
  "lock_deletion_context i d =
     (if project_of d i = None then Inl ProjectNotFoundError
      else Inr (exists_row (\<lambda>r. res_project_id r = i) (t_database_resources d), d))"

definition validate_deletion_confirmation ::
    "uuid \<Rightarrow> string \<Rightarrow> bool \<Rightarrow> bool \<Rightarrow> string option \<Rightarrow> (db, unit) tx" where
  "validate_deletion_confirmation i confirmation has_database delete_database database_confirmation =
     (let expected = ''DELETE '' @ uuid_str i @ '' APPLICATION DATA'' in
      tx_seq (tx_raise_if (confirmation \<noteq> uuid_str i)
                (ProjectDeletionValidationError ''PROJECT_DELETE_CONFIRMATION_MISMATCH''))
        (tx_raise_if
           (has_database \<and> (\<not> delete_database \<or> database_confirmation \<noteq> Some expected))
           (ProjectDeletionValidationError ''PROJECT_DATABASE_DELETE_CONFIRMATION_REQUIRED'')))"

definition new_deletion_job :: "uuid \<Rightarrow> bool \<Rightarrow> time \<Rightarrow> deletion_job" where
  "new_deletion_job i has_database now =
     \<lparr>xj_project_id = i, xj_state = X_PENDING, xj_phase = REQUESTED, xj_attempts = 0,
      xj_available_at = now, xj_lease_owner = None, xj_lease_expires_at = None, xj_claim_token = None,
      xj_last_error_code = None, xj_last_error_retryable = None,
      xj_delete_managed_database = has_database, xj_created_at = now, xj_updated_at = now\<rparr>"

definition set_deleting :: "time \<Rightarrow> project_row \<Rightarrow> project_row" where
  "set_deleting now p = p\<lparr>prj_status := P_DELETING, prj_updated_at := now\<rparr>"

definition request_deletion ::
    "uuid \<Rightarrow> string \<Rightarrow> bool \<Rightarrow> string option \<Rightarrow> time \<Rightarrow> (db, deletion_job) tx" where
  "request_deletion i confirmation delete_database database_confirmation now =
     tx_bind (lock_deletion_context i) (\<lambda>has_database.
     tx_seq (validate_deletion_confirmation i confirmation has_database delete_database database_confirmation)
       (tx_bind (tx_read (\<lambda>d. deletion_of d i)) (\<lambda>existing. case existing of
          Some j \<Rightarrow>
            tx_seq (tx_raise_if (xj_state j = X_FAILED)
                      (ProjectDeletionConflictError ''PROJECT_DELETION_FAILED''))
              (tx_ret j)
        | None \<Rightarrow>
            (\<lambda>d. let j = new_deletion_job i has_database now in
               Inr (j, d\<lparr>t_projects := upd (\<lambda>p. prj_id p = i) (set_deleting now) (t_projects d),
                         t_deletion_jobs := t_deletion_jobs d @ [j]\<rparr>)))))"

definition get_deletion :: "uuid \<Rightarrow> (db, deletion_job) tx" where
  "get_deletion i =
     tx_seq (\<lambda>d. if project_of d i = None then Inl ProjectNotFoundError else Inr ((), d))
       (\<lambda>d. tx_require ProjectDeletionNotFoundError (deletion_of d i) d)"

definition xj_again :: "time \<Rightarrow> deletion_job \<Rightarrow> deletion_job" where
  "xj_again now j =
     j\<lparr>xj_state := X_PENDING, xj_attempts := 0, xj_available_at := now, xj_lease_owner := None,
       xj_lease_expires_at := None, xj_claim_token := None, xj_last_error_code := None,
       xj_last_error_retryable := None, xj_updated_at := now\<rparr>"

definition retry_deletion ::
    "uuid \<Rightarrow> string \<Rightarrow> bool \<Rightarrow> string option \<Rightarrow> time \<Rightarrow> (db, deletion_job) tx" where
  "retry_deletion i confirmation delete_database database_confirmation now =
     tx_bind (lock_deletion_context i) (\<lambda>has_database.
     tx_seq (validate_deletion_confirmation i confirmation has_database delete_database database_confirmation)
       (tx_bind (update_deletion (\<lambda>j. xj_project_id j = i \<and> xj_state j = X_FAILED) (xj_again now)) (\<lambda>row.
          case row of
            Some j \<Rightarrow> tx_ret j
          | None \<Rightarrow>
              tx_bind (tx_read (\<lambda>d. deletion_of d i)) (\<lambda>existing.
                if existing = None then tx_fail ProjectDeletionNotFoundError
                else tx_fail (ProjectDeletionConflictError ''PROJECT_DELETION_NOT_FAILED'')))))"

section \<open>The life of a claim\<close>

definition claim_next_deletion ::
    "string \<Rightarrow> time \<Rightarrow> uuid list \<Rightarrow> uuid \<Rightarrow> time \<Rightarrow> (db, deletion_claim option) tx" where
  "claim_next_deletion worker lease locked token t1 d =
     (case claim_row (\<lambda>j. xj_claimable t1 j \<and> xj_project_id j \<notin> set locked)
             (\<lambda>j. (xj_available_at j, xj_created_at j, xj_project_id j))
             xj_project_id (xj_take worker token (t1 + lease) t1) (t_deletion_jobs d) of
        None \<Rightarrow> Inr (None, d)
      | Some (job, jobs) \<Rightarrow>
          if \<not> xj_checks job then Inl CheckViolation
          else Inr (Some \<lparr>xc_job = job, xc_token = token, xc_worker_id = worker,
                      xc_lease_expires_at = t1 + lease\<rparr>, d\<lparr>t_deletion_jobs := jobs\<rparr>))"

text \<open>The job of a claim while its lease is live.\<close>

definition xj_mine :: "deletion_claim \<Rightarrow> time \<Rightarrow> deletion_job \<Rightarrow> bool" where
  "xj_mine c now j =
     (xj_project_id j = xj_project_id (xc_job c) \<and> xj_held (xc_worker_id c) (xc_token c) now j)"

definition renew_deletion :: "deletion_claim \<Rightarrow> time \<Rightarrow> time \<Rightarrow> (db, time) tx" where
  "renew_deletion c lease now =
     tx_bind (update_deletion (xj_mine c now) (xj_extend (now + lease) now)) (\<lambda>row.
       case row of None \<Rightarrow> tx_fail ProjectDeletionClaimLostError | Some _ \<Rightarrow> tx_ret (now + lease))"

definition deletion_lock_claim :: "deletion_claim \<Rightarrow> time \<Rightarrow> (db, unit) tx" where
  "deletion_lock_claim c now d =
     (if exists_row (xj_mine c now) (t_deletion_jobs d) then Inr ((), d)
      else Inl ProjectDeletionClaimLostError)"

text \<open>The statements under the lock of a claim: an update of its job.\<close>

definition update_locked_deletion ::
    "deletion_claim \<Rightarrow> (deletion_job \<Rightarrow> bool) \<Rightarrow> (deletion_job \<Rightarrow> deletion_job) \<Rightarrow> exn \<Rightarrow> time \<Rightarrow>
     (db, deletion_job) tx" where
  "update_locked_deletion c P f missing t1 =
     tx_seq (deletion_lock_claim c t1)
       (tx_bind (update_deletion (\<lambda>j. xj_project_id j = xj_project_id (xc_job c) \<and> P j) f)
          (tx_require missing))"

definition xj_phase_set :: "deletion_phase \<Rightarrow> time \<Rightarrow> deletion_job \<Rightarrow> deletion_job" where
  "xj_phase_set p now j = j\<lparr>xj_phase := p, xj_updated_at := now\<rparr>"

definition advance_deletion ::
    "deletion_claim \<Rightarrow> deletion_phase \<Rightarrow> deletion_phase \<Rightarrow> time \<Rightarrow> time \<Rightarrow> (db, deletion_job) tx" where
  "advance_deletion c expected next t1 t2 =
     (if phase_index next \<noteq> phase_index expected + 1
      then tx_fail (ValueError ''deletion phase must advance exactly one step'')
      else update_locked_deletion c (\<lambda>j. xj_phase j = expected) (xj_phase_set next t2)
             ProjectDeletionClaimLostError t1)"

definition xj_failed :: "string \<Rightarrow> bool \<Rightarrow> time \<Rightarrow> deletion_job \<Rightarrow> deletion_job" where
  "xj_failed code retryable now j =
     j\<lparr>xj_state := X_FAILED, xj_lease_owner := None, xj_lease_expires_at := None, xj_claim_token := None,
       xj_last_error_code := Some code, xj_last_error_retryable := Some retryable, xj_updated_at := now\<rparr>"

definition fail_deletion ::
    "deletion_claim \<Rightarrow> string \<Rightarrow> bool \<Rightarrow> time \<Rightarrow> time \<Rightarrow> (db, deletion_job) tx" where
  "fail_deletion c code retryable t1 t2 =
     update_locked_deletion c (\<lambda>_. True) (xj_failed code retryable t2) (OtherError ''TypeError'') t1"

definition xj_released :: "time \<Rightarrow> time \<Rightarrow> deletion_job \<Rightarrow> deletion_job" where
  "xj_released available_at now j =
     j\<lparr>xj_state := X_PENDING, xj_available_at := available_at, xj_lease_owner := None,
       xj_lease_expires_at := None, xj_claim_token := None, xj_updated_at := now\<rparr>"

definition reschedule_deletion ::
    "deletion_claim \<Rightarrow> time \<Rightarrow> string \<Rightarrow> time \<Rightarrow> time \<Rightarrow> (db, deletion_job) tx" where
  "reschedule_deletion c available_at code t1 t2 =
     update_locked_deletion c (\<lambda>_. True) (xj_released available_at t2) ProjectDeletionClaimLostError t1"

definition xj_deferred :: "time \<Rightarrow> time \<Rightarrow> deletion_job \<Rightarrow> deletion_job" where
  "xj_deferred available_at now j =
     (xj_released available_at now j)\<lparr>xj_attempts := max (xj_attempts j - 1) 0\<rparr>"

definition defer_deletion :: "deletion_claim \<Rightarrow> time \<Rightarrow> time \<Rightarrow> time \<Rightarrow> (db, deletion_job) tx" where
  "defer_deletion c available_at t1 t2 =
     update_locked_deletion c (\<lambda>_. True) (xj_deferred available_at t2) ProjectDeletionClaimLostError t1"

section \<open>What the phases ask of the rest of the database\<close>

definition deletion_operations_drained :: "uuid \<Rightarrow> db \<Rightarrow> bool" where
  "deletion_operations_drained i d =
     (\<not> exists_row (\<lambda>x. dep_project_id x = i \<and>
          (dep_status x \<in> set [QUEUED, PREPARING, BUILDING, STARTING, HEALTH_CHECKING, ACTIVATING] \<or>
           exists_row (\<lambda>j. dj_deployment_id j = dep_id x \<and> dj_state j = J_CLAIMED) (t_deployment_jobs d)))
        (t_deployments d) \<and>
      \<not> exists_row (\<lambda>j. rj_project_id j = i \<and> rj_state j = RJ_CLAIMED) (t_route_jobs d) \<and>
      \<not> exists_row (\<lambda>r. rc_state r \<in> set [RC_PENDING, RC_CLAIMED] \<and>
          exists_row (\<lambda>x. dep_id x = rc_deployment_id r \<and> dep_project_id x = i) (t_deployments d))
        (t_reconciliations d))"

definition deletion_runtime_snapshot :: "uuid \<Rightarrow> db \<Rightarrow> deployment list \<times> project_runtime option" where
  "deletion_runtime_snapshot i d =
     (order_by (\<lambda>x. (dep_created_at x, dep_id x)) (filter (\<lambda>x. dep_project_id x = i) (t_deployments d)),
      fetch (\<lambda>r. pr_project_id r = i) (t_runtimes d))"

definition project_is_deleting :: "uuid \<Rightarrow> db \<Rightarrow> bool" where
  "project_is_deleting i d = exists_row (\<lambda>p. prj_id p = i \<and> prj_status p = P_DELETING) (t_projects d)"

text \<open>The left join of the route is the condition of \<open>deletion_is_applied\<close>: no route, or one
  whose removal has been applied.\<close>

definition deletion_mutation_allowed :: "deletion_claim \<Rightarrow> bool \<Rightarrow> time \<Rightarrow> db \<Rightarrow> bool" where
  "deletion_mutation_allowed c require_route_removed now d =
     (exists_row (xj_mine c now) (t_deletion_jobs d) \<and> project_is_deleting (xj_project_id (xc_job c)) d \<and>
      (\<not> require_route_removed \<or> deletion_is_applied (xj_project_id (xc_job c)) d))"

section \<open>Removing every row\<close>

text \<open>\<open>DELETE FROM deployments\<close> cascades to the jobs, the events and the artifacts, and is
  refused while a runtime refers to one of the rows.\<close>

definition delete_deployments :: "uuid \<Rightarrow> (db, unit) tx" where
  "delete_deployments i d =
     (let gone = (\<lambda>k. exists_row (\<lambda>x. dep_id x = k \<and> dep_project_id x = i) (t_deployments d)) in
      if exists_row (\<lambda>r. case pr_active_deployment_id r of None \<Rightarrow> False | Some k \<Rightarrow> gone k) (t_runtimes d)
      then Inl ForeignKeyViolation
      else Inr ((), d\<lparr>t_deployments := del (\<lambda>x. dep_project_id x = i) (t_deployments d),
                      t_deployment_jobs := del (\<lambda>j. gone (dj_deployment_id j)) (t_deployment_jobs d),
                      t_deployment_events := del (\<lambda>e. gone (ev_deployment_id e)) (t_deployment_events d),
                      t_artifacts := del (\<lambda>a. gone (art_deployment_id a)) (t_artifacts d)\<rparr>))"

definition finalize_deletion :: "deletion_claim \<Rightarrow> time \<Rightarrow> (db, unit) tx" where
  "finalize_deletion c now =
     (let i = xj_project_id (xc_job c) in
      tx_seq (\<lambda>d. if exists_row (\<lambda>j. xj_mine c now j \<and> xj_phase j = METADATA_DELETE) (t_deletion_jobs d) \<and>
                     project_is_deleting i d \<and> deletion_is_applied i d
                  then Inr ((), d) else Inl ProjectDeletionClaimLostError)
     (tx_seq (\<lambda>d. Inr ((), d\<lparr>t_runtimes := del (\<lambda>r. pr_project_id r = i) (t_runtimes d)\<rparr>))
     (tx_seq (\<lambda>d. Inr ((), d\<lparr>t_route_jobs := del (\<lambda>j. rj_project_id j = i) (t_route_jobs d)\<rparr>))
     (tx_seq (\<lambda>d. Inr ((), d\<lparr>t_routes := del (\<lambda>r. rt_project_id r = i) (t_routes d)\<rparr>))
     (tx_seq (\<lambda>d. Inr ((), d\<lparr>t_reconciliations :=
                del (\<lambda>r. exists_row (\<lambda>x. dep_id x = rc_deployment_id r \<and> dep_project_id x = i) (t_deployments d))
                  (t_reconciliations d)\<rparr>))
     (tx_seq (delete_deployments i)
     (tx_seq (\<lambda>d. Inr ((), d\<lparr>t_environment_secrets := del (\<lambda>s. es_project_id s = i) (t_environment_secrets d)\<rparr>))
     (tx_seq (\<lambda>d. Inr ((), d\<lparr>t_database_resources := del (\<lambda>r. res_project_id r = i) (t_database_resources d)\<rparr>))
     (tx_seq (\<lambda>d. Inr ((), d\<lparr>t_deletion_jobs := del (\<lambda>j. xj_project_id j = i) (t_deletion_jobs d)\<rparr>))
       (\<lambda>d. if project_of d i = None then Inl ProjectDeletionClaimLostError
            else Inr ((), d\<lparr>t_projects := del (\<lambda>p. prj_id p = i) (t_projects d)\<rparr>)))))))))))"

end
