(* ===== verification/Deletion_Worker.thy ===== *)
theory Deletion_Worker
  imports Deletion_Repository Edge_Config Project_Database
begin

text \<open>
  \<open>projects/deletion_worker.py\<close>: one pass of the worker that takes a deletion through its phases,
  and the adapter that gives it the managed databases.  The runtime teardown, the secret store
  and the database provisioner are parameters, as they are constructor arguments of the classes;
  a context manager is a pair of programs, one that enters it and one that leaves it.  Also the
  endpoints of \<open>projects/service.py\<close> that start a deletion.
\<close>

section \<open>The endpoints\<close>

definition deletion_not_found :: exn where
  "deletion_not_found = AppError 404 ''PROJECT_DELETION_NOT_FOUND'' ''Project deletion was not requested''"

definition deletion_error :: "exn \<Rightarrow> exn" where
  "deletion_error e =
     (if e = ProjectDeletionNotFoundError then deletion_not_found
      else case e of
        ProjectDeletionValidationError code \<Rightarrow>
          if code = ''PROJECT_DELETE_CONFIRMATION_MISMATCH''
            then AppError 422 code ''Enter the full project ID to confirm deletion''
          else if code = ''PROJECT_DATABASE_DELETE_CONFIRMATION_REQUIRED''
            then AppError 422 code ''Confirm permanent deletion of managed PostgreSQL application data''
          else OtherError ''KeyError''
      | ProjectDeletionConflictError code \<Rightarrow>
          if code = ''PROJECT_DELETION_FAILED''
            then AppError 409 code ''Project deletion failed; use the explicit retry endpoint''
          else if code = ''PROJECT_DELETION_NOT_FAILED''
            then AppError 409 code ''Only a failed project deletion can be retried''
          else OtherError ''KeyError''
      | _ \<Rightarrow> project_not_found e)"

text \<open>\<open>_delete_operation\<close>, given the repository's \<open>request_deletion\<close> or \<open>retry_deletion\<close>.\<close>

definition delete_operation ::
    "(uuid \<Rightarrow> string \<Rightarrow> bool \<Rightarrow> string option \<Rightarrow> time \<Rightarrow> (db, deletion_job) tx) \<Rightarrow>
     uuid \<Rightarrow> deletion_request \<Rightarrow> time \<Rightarrow> (db, deletion_job) tx" where
  "delete_operation operation i request now =
     tx_map_error deletion_error
       (operation i (dr_confirmation request) (dr_delete_managed_database request)
          (dr_managed_database_confirmation request) now)"

definition service_delete :: "uuid \<Rightarrow> deletion_request \<Rightarrow> time \<Rightarrow> (db, deletion_job) tx" where
  "service_delete = delete_operation request_deletion"

definition service_retry_deletion :: "uuid \<Rightarrow> deletion_request \<Rightarrow> time \<Rightarrow> (db, deletion_job) tx" where
  "service_retry_deletion = delete_operation retry_deletion"

definition service_deletion :: "uuid \<Rightarrow> (db, deletion_job) tx" where
  "service_deletion i =
     tx_map_error (\<lambda>e. if e = ProjectDeletionNotFoundError then deletion_not_found else project_not_found e)
       (get_deletion i)"

section \<open>Managed databases\<close>

record 's database_provisioner =
  dp_acquire :: "uuid \<Rightarrow> ('s, unit) act"
  dp_release :: "uuid \<Rightarrow> ('s, unit) act"
  dp_quiesce :: "uuid \<Rightarrow> string \<Rightarrow> string \<Rightarrow> ('s, unit) act"
  dp_drop_database :: "uuid \<Rightarrow> string \<Rightarrow> ('s, unit) act"
  dp_drop_role :: "uuid \<Rightarrow> string \<Rightarrow> ('s, unit) act"
  dp_verify_absent :: "uuid \<Rightarrow> string \<Rightarrow> string \<Rightarrow> ('s, unit) act"

definition deletion_failure :: "string \<Rightarrow> bool \<Rightarrow> exn" where
  "deletion_failure code retryable = RuntimeFailure (runtime_failure ''DELETION'' code retryable False)"

definition database_failure :: "string \<Rightarrow> exn" where
  "database_failure code =
     (if code = ''OWNERSHIP_CONFLICT'' then deletion_failure ''PROJECT_DATABASE_OWNERSHIP_CONFLICT'' False
      else if code = ''RESOURCES_REAPPEARED'' then deletion_failure ''PROJECT_DATABASE_RESOURCES_REAPPEARED'' False
      else if code = ''SESSIONS_ACTIVE'' then deletion_failure ''PROJECT_DATABASE_SESSIONS_ACTIVE'' True
      else deletion_failure (''PROJECT_DATABASE_'' @ code) True)"

abbreviation database_deletion_unavailable :: exn where
  "database_deletion_unavailable \<equiv> deletion_failure ''PROJECT_DATABASE_DELETION_UNAVAILABLE'' False"

text \<open>\<open>with try_operation_lock(i) as acquired: body(acquired)\<close>.  A busy lock enters the body with
  \<open>False\<close>; a provisioning error that leaves the body is thrown into the generator, which answers
  a second \<open>yield\<close> with a \<open>RuntimeError\<close>.\<close>

definition with_database_lock ::
    "'s database_provisioner option \<Rightarrow> uuid \<Rightarrow> (bool \<Rightarrow> ('s, 'a) act) \<Rightarrow> ('s, 'a) act" where
  "with_database_lock provisioner i body =
     (case provisioner of
        None \<Rightarrow> raise database_deletion_unavailable
      | Some D \<Rightarrow>
          bind_act
            (try_act (seq_act (dp_acquire D i) (ret True))
               (\<lambda>e. case e of
                  ProjectDatabaseProvisioningError stage code \<Rightarrow>
                    if code = ''OPERATION_LOCK_BUSY'' then ret False else raise (database_failure code)
                | _ \<Rightarrow> raise e))
            (\<lambda>acquired.
               if \<not> acquired then body False
               else try_act (finally_act (body True) (dp_release D i))
                 (\<lambda>e. case e of
                    ProjectDatabaseProvisioningError stage code \<Rightarrow>
                      if code = ''OPERATION_LOCK_BUSY'' then raise (OtherError ''RuntimeError'')
                      else raise (database_failure code)
                  | _ \<Rightarrow> raise e)))"

definition database_call ::
    "'s database_provisioner option \<Rightarrow> ('s database_provisioner \<Rightarrow> ('s, unit) act) \<Rightarrow> ('s, unit) act" where
  "database_call provisioner operation =
     (case provisioner of
        None \<Rightarrow> raise database_deletion_unavailable
      | Some D \<Rightarrow>
          try_act (operation D)
            (\<lambda>e. case e of
               ProjectDatabaseProvisioningError stage code \<Rightarrow> raise (database_failure code)
             | _ \<Rightarrow> raise e))"

definition quiesce_database :: "'s database_provisioner option \<Rightarrow> database_resource \<Rightarrow> ('s, unit) act" where
  "quiesce_database provisioner r =
     database_call provisioner (\<lambda>D. dp_quiesce D (res_id r) (res_database_name r) (res_role_name r))"

definition drop_database :: "'s database_provisioner option \<Rightarrow> database_resource \<Rightarrow> ('s, unit) act" where
  "drop_database provisioner r =
     database_call provisioner (\<lambda>D. dp_drop_database D (res_id r) (res_database_name r))"

definition drop_role :: "'s database_provisioner option \<Rightarrow> database_resource \<Rightarrow> ('s, unit) act" where
  "drop_role provisioner r =
     database_call provisioner (\<lambda>D. dp_drop_role D (res_id r) (res_role_name r))"

definition verify_database_absent :: "'s database_provisioner option \<Rightarrow> database_resource \<Rightarrow> ('s, unit) act" where
  "verify_database_absent provisioner r =
     database_call provisioner (\<lambda>D. dp_verify_absent D (res_id r) (res_database_name r) (res_role_name r))"

section \<open>The worker\<close>

record 's deletion_secrets =
  sx_acquire :: "uuid \<Rightarrow> ('s, unit) act"
  sx_release :: "uuid \<Rightarrow> ('s, unit) act"
  sx_delete_subtree :: "uuid \<Rightarrow> ('s, unit) act"
  sx_subtree_absent :: "uuid \<Rightarrow> ('s, bool) act"

type_synonym 's teardown_port =
  "uuid \<Rightarrow> deployment list \<Rightarrow> project_runtime option \<Rightarrow> ('s, bool) act \<Rightarrow> ('s, bool) act \<Rightarrow> ('s, unit) act"

record 's deletion_worker =
  xw_teardown :: "'s teardown_port"
  xw_verify_absent :: "'s teardown_port"
  xw_secrets :: "'s deletion_secrets"
  xw_provisioner :: "'s database_provisioner option"
  xw_worker_id :: string
  xw_lease_duration :: time
  xw_max_attempts :: int
  xw_retry_base_delay :: time

definition with_secret_lock :: "'s deletion_worker \<Rightarrow> uuid \<Rightarrow> ('s, 'a) act \<Rightarrow> ('s, 'a) act" where
  "with_secret_lock W i m =
     seq_act (sx_acquire (xw_secrets W) i) (finally_act m (sx_release (xw_secrets W) i))"

text \<open>A repository method of two statements, and a reading of the database.\<close>

definition repo_call2 :: "'w ports \<Rightarrow> (time \<Rightarrow> time \<Rightarrow> (db, 'a) tx) \<Rightarrow> ('w \<times> db, 'a) act" where
  "repo_call2 P m = bind_act (get_act (p_clock P)) (\<lambda>t1. repo_call P (m t1))"

definition read_db :: "(db \<Rightarrow> 'a) \<Rightarrow> ('w \<times> db, 'a) act" where
  "read_db f = tx_act (tx_read f)"

abbreviation claim_project :: "deletion_claim \<Rightarrow> uuid" where
  "claim_project c \<equiv> xj_project_id (xc_job c)"

definition deletion_heartbeat ::
    "'w ports \<Rightarrow> ('w \<times> db) deletion_worker \<Rightarrow> deletion_claim \<Rightarrow> ('w \<times> db, bool) act" where
  "deletion_heartbeat P W c =
     try_act (seq_act (void (repo_call P (renew_deletion c (xw_lease_duration W)))) (ret True))
       (\<lambda>e. if e = ProjectDeletionClaimLostError then ret False else raise e)"

definition deletion_guard :: "'w ports \<Rightarrow> deletion_claim \<Rightarrow> bool \<Rightarrow> ('w \<times> db, bool) act" where
  "deletion_guard P c require_route_removed =
     bind_act (get_act (p_clock P)) (\<lambda>now.
       read_db (deletion_mutation_allowed c require_route_removed now))"

definition authorize ::
    "'w ports \<Rightarrow> ('w \<times> db) deletion_worker \<Rightarrow> deletion_claim \<Rightarrow> bool \<Rightarrow> ('w \<times> db, unit) act" where
  "authorize P W c require_route_removed =
     bind_act (deletion_heartbeat P W c) (\<lambda>alive.
       if \<not> alive then raise ProjectDeletionClaimLostError
       else bind_act (deletion_guard P c require_route_removed) (\<lambda>allowed.
         if \<not> allowed then raise ProjectDeletionClaimLostError else ret ()))"

definition advance_claim ::
    "'w ports \<Rightarrow> deletion_claim \<Rightarrow> deletion_phase \<Rightarrow> deletion_phase \<Rightarrow> ('w \<times> db, deletion_claim) act" where
  "advance_claim P c expected next =
     bind_act (repo_call2 P (advance_deletion c expected next)) (\<lambda>job. ret (c\<lparr>xc_job := job\<rparr>))"

definition deletion_delay :: "'s deletion_worker \<Rightarrow> deletion_claim \<Rightarrow> time" where
  "deletion_delay W c = xw_retry_base_delay W * min (2 ^ nat (max (xj_attempts (xc_job c) - 1) 0)) 64"

definition reschedule_claim ::
    "'w ports \<Rightarrow> ('w \<times> db) deletion_worker \<Rightarrow> deletion_claim \<Rightarrow> string \<Rightarrow> ('w \<times> db, unit) act" where
  "reschedule_claim P W c code =
     bind_act (get_act (p_clock P)) (\<lambda>now.
       void (repo_call2 P (reschedule_deletion c (now + deletion_delay W c) code)))"

definition defer_claim :: "'w ports \<Rightarrow> ('w \<times> db) deletion_worker \<Rightarrow> deletion_claim \<Rightarrow> ('w \<times> db, unit) act" where
  "defer_claim P W c =
     bind_act (get_act (p_clock P)) (\<lambda>now.
       void (repo_call2 P (defer_deletion c (now + deletion_delay W c))))"

definition deletion_handle_failure ::
    "'w ports \<Rightarrow> ('w \<times> db) deletion_worker \<Rightarrow> deletion_claim \<Rightarrow> string \<Rightarrow> bool \<Rightarrow> ('w \<times> db, unit) act" where
  "deletion_handle_failure P W c code retryable =
     (if retryable \<and> xj_attempts (xc_job c) < xw_max_attempts W then reschedule_claim P W c code
      else void (repo_call2 P (fail_deletion c code retryable)))"

definition persist_failure ::
    "'w ports \<Rightarrow> ('w \<times> db) deletion_worker \<Rightarrow> deletion_claim \<Rightarrow> string \<Rightarrow> bool \<Rightarrow> ('w \<times> db, unit) act" where
  "persist_failure P W c code retryable =
     try_act (deletion_handle_failure P W c code retryable)
       (\<lambda>e. if e = ProjectDeletionClaimLostError then ret () else raise e)"

section \<open>Phases\<close>

abbreviation busy_secret :: exn where
  "busy_secret \<equiv> deletion_failure ''PROJECT_SECRET_OPERATION_ACTIVE'' True"

abbreviation busy_database :: exn where
  "busy_database \<equiv> deletion_failure ''PROJECT_DATABASE_OPERATION_ACTIVE'' True"

definition operations_drained ::
    "('w \<times> db) deletion_worker \<Rightarrow> deletion_claim \<Rightarrow> ('w \<times> db, bool) act" where
  "operations_drained W c =
     bind_act (read_db (deletion_operations_drained (claim_project c))) (\<lambda>drained.
       if \<not> drained then ret False
       else bind_act
         (try_act (seq_act (with_secret_lock W (claim_project c) (ret ())) (ret True))
            (\<lambda>e. if e = SecretStoreBusyError then ret False else raise e))
         (\<lambda>idle.
            if \<not> idle then ret False
            else bind_act (read_db (get_resource (claim_project c))) (\<lambda>resource. case resource of
               None \<Rightarrow> ret True
             | Some r \<Rightarrow> with_database_lock (xw_provisioner W) (res_id r) ret)))"

definition validated_resource ::
    "deletion_claim \<Rightarrow> ('w \<times> db, database_resource option) act" where
  "validated_resource c =
     bind_act (read_db (get_resource (claim_project c))) (\<lambda>resource.
       if (resource \<noteq> None) \<noteq> xj_delete_managed_database (xc_job c)
       then raise (deletion_failure ''PROJECT_DATABASE_AUTHORIZATION_MISMATCH'' False)
       else ret resource)"

text \<open>Under the operation lock of the resource: authorize, run the operation, and raise a
  \<open>RuntimeFailure\<close> of it after the lock has been left.\<close>

definition locked_database_operation ::
    "'w ports \<Rightarrow> ('w \<times> db) deletion_worker \<Rightarrow> deletion_claim \<Rightarrow> database_resource \<Rightarrow>
     (database_resource \<Rightarrow> ('w \<times> db, unit) act) \<Rightarrow> ('w \<times> db, unit) act" where
  "locked_database_operation P W c r operation =
     bind_act
       (with_database_lock (xw_provisioner W) (res_id r) (\<lambda>acquired.
          if \<not> acquired then ret (False, None)
          else try_act (seq_act (authorize P W c True) (seq_act (operation r) (ret (True, None))))
                 (\<lambda>e. case e of RuntimeFailure f \<Rightarrow> ret (True, Some f) | _ \<Rightarrow> raise e)))
       (\<lambda>(acquired, failure).
          if \<not> acquired then raise busy_database
          else case failure of Some f \<Rightarrow> raise (RuntimeFailure f) | None \<Rightarrow> ret ())"

definition run_database_phase ::
    "'w ports \<Rightarrow> ('w \<times> db) deletion_worker \<Rightarrow> deletion_claim \<Rightarrow>
     (database_resource \<Rightarrow> ('w \<times> db, unit) act) \<Rightarrow> ('w \<times> db, unit) act" where
  "run_database_phase P W c operation =
     bind_act (validated_resource c) (\<lambda>resource. case resource of
        None \<Rightarrow> ret ()
      | Some r \<Rightarrow> locked_database_operation P W c r operation)"

definition teardown_call ::
    "'w ports \<Rightarrow> ('w \<times> db) deletion_worker \<Rightarrow> deletion_claim \<Rightarrow> ('w \<times> db) teardown_port \<Rightarrow> ('w \<times> db, unit) act" where
  "teardown_call P W c port =
     bind_act (read_db (deletion_runtime_snapshot (claim_project c))) (\<lambda>(deployments, runtime).
       port (claim_project c) deployments runtime (deletion_guard P c True) (deletion_heartbeat P W c))"

definition clean_secrets ::
    "'w ports \<Rightarrow> ('w \<times> db) deletion_worker \<Rightarrow> deletion_claim \<Rightarrow> ('w \<times> db, unit) act" where
  "clean_secrets P W c =
     try_act
       (with_secret_lock W (claim_project c)
          (seq_act (authorize P W c True) (sx_delete_subtree (xw_secrets W) (claim_project c))))
       (\<lambda>e. if e = SecretStoreBusyError then raise busy_secret else raise e)"

definition verify_final_absence ::
    "'w ports \<Rightarrow> ('w \<times> db) deletion_worker \<Rightarrow> deletion_claim \<Rightarrow> ('w \<times> db, unit) act" where
  "verify_final_absence P W c =
     seq_act (authorize P W c True)
      (seq_act (teardown_call P W c (xw_verify_absent W))
      (seq_act
         (bind_act (validated_resource c) (\<lambda>resource. case resource of
            None \<Rightarrow> ret ()
          | Some r \<Rightarrow> locked_database_operation P W c r (verify_database_absent (xw_provisioner W))))
       (bind_act
          (try_act
             (with_secret_lock W (claim_project c)
                (seq_act (authorize P W c True) (sx_subtree_absent (xw_secrets W) (claim_project c))))
             (\<lambda>e. if e = SecretStoreBusyError then raise busy_secret else raise e))
          (\<lambda>absent.
             if \<not> absent then raise (deletion_failure ''PROJECT_SECRET_RESOURCES_REAPPEARED'' False)
             else ret ()))))"

text \<open>One turn of the loop: \<open>Some c\<close> to go on with, \<open>None\<close> for its \<open>return\<close>.\<close>

definition deletion_turn ::
    "'w ports \<Rightarrow> ('w \<times> db) deletion_worker \<Rightarrow> deletion_claim \<Rightarrow> ('w \<times> db, deletion_claim option) act" where
  "deletion_turn P W c =
     (let i = claim_project c;
          go = (\<lambda>expected next. bind_act (advance_claim P c expected next) (\<lambda>c'. ret (Some c')));
          stop = seq_act (defer_claim P W c) (ret None);
          removed = read_db (deletion_is_applied i) in
      case xj_phase (xc_job c) of
        REQUESTED \<Rightarrow> go REQUESTED WAITING_FOR_OPERATIONS
      | WAITING_FOR_OPERATIONS \<Rightarrow>
          bind_act (operations_drained W c) (\<lambda>drained.
            if \<not> drained then stop else go WAITING_FOR_OPERATIONS ROUTE_DISABLING)
      | ROUTE_DISABLING \<Rightarrow>
          seq_act (authorize P W c False)
           (seq_act (void (repo_call P (disable_for_deletion i)))
             (bind_act removed (\<lambda>applied.
                if \<not> applied then stop else go ROUTE_DISABLING ROUTE_REMOVED)))
      | ROUTE_REMOVED \<Rightarrow>
          bind_act removed (\<lambda>applied.
            if \<not> applied then stop else go ROUTE_REMOVED RUNTIME_CLEANUP)
      | RUNTIME_CLEANUP \<Rightarrow>
          seq_act (authorize P W c True)
           (seq_act (teardown_call P W c (xw_teardown W)) (go RUNTIME_CLEANUP DATABASE_QUIESCING))
      | DATABASE_QUIESCING \<Rightarrow>
          seq_act (run_database_phase P W c (quiesce_database (xw_provisioner W)))
            (go DATABASE_QUIESCING DATABASE_DROP_DATABASE)
      | DATABASE_DROP_DATABASE \<Rightarrow>
          seq_act (run_database_phase P W c (drop_database (xw_provisioner W)))
            (go DATABASE_DROP_DATABASE DATABASE_DROP_ROLE)
      | DATABASE_DROP_ROLE \<Rightarrow>
          seq_act (run_database_phase P W c (drop_role (xw_provisioner W)))
            (go DATABASE_DROP_ROLE SECRET_CLEANUP)
      | SECRET_CLEANUP \<Rightarrow> seq_act (clean_secrets P W c) (go SECRET_CLEANUP METADATA_DELETE)
      | METADATA_DELETE \<Rightarrow>
          seq_act (verify_final_absence P W c)
            (seq_act (repo_call P (finalize_deletion c)) (ret None)))"

text \<open>The loop of \<open>_run_claim\<close>; the answer says whether it returned before its fuel ran out.\<close>

fun run_deletion_claim ::
    "'w ports \<Rightarrow> ('w \<times> db) deletion_worker \<Rightarrow> nat \<Rightarrow> deletion_claim \<Rightarrow> ('w \<times> db, bool) act" where
  "run_deletion_claim P W 0 c = ret False"
| "run_deletion_claim P W (Suc n) c =
     bind_act (deletion_turn P W c) (\<lambda>next. case next of
        None \<Rightarrow> ret True | Some c' \<Rightarrow> run_deletion_claim P W n c')"

text \<open>One turn for each phase.\<close>

definition deletion_turns :: nat where "deletion_turns = 10"

definition deletion_failed ::
    "'w ports \<Rightarrow> ('w \<times> db) deletion_worker \<Rightarrow> deletion_claim \<Rightarrow> exn \<Rightarrow> ('w \<times> db, bool) act" where
  "deletion_failed P W c e =
     (case e of
        ProjectDeletionClaimLostError \<Rightarrow> ret True
      | RuntimeFailure f \<Rightarrow> seq_act (persist_failure P W c (rf_code f) (rf_retryable f)) (ret True)
      | SecretStoreError m \<Rightarrow>
          seq_act (persist_failure P W c ''PROJECT_SECRET_CLEANUP_FAILED'' False) (ret True)
      | SecretStoreBusyError \<Rightarrow>
          seq_act (persist_failure P W c ''PROJECT_SECRET_CLEANUP_FAILED'' False) (ret True)
      | _ \<Rightarrow> raise e)"

definition claim_deletion_act :: "'w ports \<Rightarrow> ('w \<times> db) deletion_worker \<Rightarrow> ('w \<times> db, deletion_claim option) act" where
  "claim_deletion_act P W =
     bind_act (get_act (p_uuid P)) (\<lambda>token.
     bind_act (get_act (p_locked P)) (\<lambda>locked.
       repo_call P (claim_next_deletion (xw_worker_id W) (xw_lease_duration W) locked token)))"

definition deletion_run_once :: "'w ports \<Rightarrow> ('w \<times> db) deletion_worker \<Rightarrow> ('w \<times> db, bool) act" where
  "deletion_run_once P W =
     bind_act (claim_deletion_act P W) (\<lambda>claim. case claim of
        None \<Rightarrow> ret False
      | Some c \<Rightarrow>
          if xw_max_attempts W < xj_attempts (xc_job c)
          then seq_act (persist_failure P W c ''PROJECT_DELETION_ATTEMPTS_EXHAUSTED'' True) (ret True)
          else try_act (run_deletion_claim P W deletion_turns c) (deletion_failed P W c))"

end
