(* ===== verification/Deletion_Lifecycle.thy ===== *)
theory Deletion_Lifecycle
  imports Deletion_Worker
begin

text \<open>
  What the deletion jobs keep true, the transactions on them as one step relation, and the order
  of the phases along its runs.
\<close>

section \<open>The invariant\<close>

definition deletions_ok :: "db \<Rightarrow> bool" where
  "deletions_ok d =
     (distinct (map xj_project_id (t_deletion_jobs d)) \<and>
      (\<forall>j\<in>set (t_deletion_jobs d). xj_checks j \<and> project_is_deleting (xj_project_id j) d))"

lemma deletions_okD:
  assumes "deletions_ok d"
  shows "distinct (map xj_project_id (t_deletion_jobs d))"
    "j \<in> set (t_deletion_jobs d) \<Longrightarrow> xj_checks j"
    "j \<in> set (t_deletion_jobs d) \<Longrightarrow> project_is_deleting (xj_project_id j) d"
  using assms by (simp_all add: deletions_ok_def)

text \<open>What becomes of a job: the same project's, in the same phase or a later one, with the
  same authorization.\<close>

definition xj_after :: "deletion_job \<Rightarrow> deletion_job \<Rightarrow> bool" where
  "xj_after j k =
     (xj_project_id k = xj_project_id j \<and> xj_phase j \<le> xj_phase k \<and>
      phase_index (xj_phase k) \<le> phase_index (xj_phase j) + 1 \<and>
      xj_delete_managed_database k = xj_delete_managed_database j \<and> xj_created_at k = xj_created_at j)"

lemma xj_after_same [simp]:
  "xj_project_id k = xj_project_id j \<Longrightarrow> xj_phase k = xj_phase j \<Longrightarrow>
   xj_delete_managed_database k = xj_delete_managed_database j \<Longrightarrow> xj_created_at k = xj_created_at j \<Longrightarrow>
   xj_after j k"
  by (simp add: xj_after_def)

text \<open>The three things a transaction may do to the jobs, given that it keeps the projects that
  have one.\<close>

definition deletion_changes :: "db \<Rightarrow> db \<Rightarrow> bool" where
  "deletion_changes d d' =
     ((\<forall>i. project_is_deleting i d \<longrightarrow> project_is_deleting i d') \<and>
      (t_deletion_jobs d' = t_deletion_jobs d \<or>
       (\<exists>j. deletion_of d (xj_project_id j) = None \<and> xj_checks j \<and> project_is_deleting (xj_project_id j) d' \<and>
          t_deletion_jobs d' = t_deletion_jobs d @ [j]) \<or>
       (\<exists>j P f. j \<in> set (t_deletion_jobs d) \<and> P j \<and>
          (\<forall>x. P x \<longrightarrow> xj_project_id x = xj_project_id j) \<and> xj_checks (f j) \<and> xj_after j (f j) \<and>
          t_deletion_jobs d' = upd P f (t_deletion_jobs d))))"

lemma deleting_upd:
  assumes "t_projects d' = t_projects d"
  shows "project_is_deleting i d' = project_is_deleting i d"
  using assms by (simp add: project_is_deleting_def)

lemma deletion_changes_ok:
  assumes ok: "deletions_ok d" and c: "deletion_changes d d'"
  shows "deletions_ok d'"
  using c unfolding deletion_changes_def
proof (elim conjE disjE exE)
  assume "\<forall>i. project_is_deleting i d \<longrightarrow> project_is_deleting i d'" "t_deletion_jobs d' = t_deletion_jobs d"
  then show ?thesis using ok by (simp add: deletions_ok_def)
next
  fix j
  assume "\<forall>i. project_is_deleting i d \<longrightarrow> project_is_deleting i d'"
    "deletion_of d (xj_project_id j) = None" "xj_checks j" "project_is_deleting (xj_project_id j) d'"
    "t_deletion_jobs d' = t_deletion_jobs d @ [j]"
  then show ?thesis using ok by (auto simp: deletions_ok_def fetch_None_iff)
next
  fix j P f
  assume keep: "\<forall>i. project_is_deleting i d \<longrightarrow> project_is_deleting i d'"
    and j: "j \<in> set (t_deletion_jobs d)" "P j" and P: "\<forall>x. P x \<longrightarrow> xj_project_id x = xj_project_id j"
    and f: "xj_checks (f j)" "xj_after j (f j)" and d': "t_deletion_jobs d' = upd P f (t_deletion_jobs d)"
  have only: "x = j" if "x \<in> set (t_deletion_jobs d)" "P x" for x
    using same_key_same_row [OF deletions_okD(1) [OF ok] that(1) j(1)] P that(2) by blast
  have rows: "y = f j \<or> y \<in> set (t_deletion_jobs d)" if "y \<in> set (t_deletion_jobs d')" for y
    using that only unfolding d' by (auto elim: in_updE)
  have keys: "map xj_project_id (t_deletion_jobs d') = map xj_project_id (t_deletion_jobs d)"
    unfolding d' using only f(2) by (auto simp: upd_def xj_after_def)
  have "xj_checks y \<and> project_is_deleting (xj_project_id y) d'" if "y \<in> set (t_deletion_jobs d')" for y
    using rows [OF that] f j(1) keep deletions_okD(2,3) [OF ok] by (auto simp: xj_after_def)
  then show ?thesis using keys deletions_okD(1) [OF ok] by (simp add: deletions_ok_def)
qed

section \<open>The transactions\<close>

lemma deleting_set:
  assumes "project_is_deleting k d" "t_projects d' = upd P (set_deleting now) (t_projects d)"
  shows "project_is_deleting k d'"
proof -
  obtain p where p: "p \<in> set (t_projects d)" "prj_id p = k" "prj_status p = P_DELETING"
    using assms(1) by (auto simp: project_is_deleting_def exists_row_iff)
  let ?q = "if P p then set_deleting now p else p"
  have "?q \<in> set (t_projects d')" using p(1) by (auto simp: assms(2) upd_def)
  moreover have "prj_id ?q = k \<and> prj_status ?q = P_DELETING" using p by (simp add: set_deleting_def)
  ultimately show ?thesis unfolding project_is_deleting_def exists_row_iff by blast
qed

lemma update_deletion_Inr:
  assumes "update_deletion P f d = Inr (r, d')"
  obtains "r = None" "d' = d" "\<forall>j\<in>set (t_deletion_jobs d). \<not> P j"
  | j where "j \<in> set (t_deletion_jobs d)" "P j" "r = Some (f j)" "xj_checks (f j)"
    "t_deletion_jobs d' = upd P f (t_deletion_jobs d)" "t_projects d' = t_projects d"
    "fetch P (t_deletion_jobs d) = Some j"
  using assms
  by (auto simp: update_deletion_def returning_def fetch_None_iff split: option.splits if_splits dest: fetch_SomeD)

lemma update_deletion_changes:
  assumes run: "update_deletion P f d = Inr (r, d')"
    and P: "\<And>x. P x \<Longrightarrow> xj_project_id x = i" and f: "\<And>j. P j \<Longrightarrow> xj_after j (f j)"
  shows "deletion_changes d d'"
  using run
proof (cases rule: update_deletion_Inr)
  case 1
  then show ?thesis by (simp add: deletion_changes_def)
next
  case (2 j)
  have "\<forall>x. P x \<longrightarrow> xj_project_id x = xj_project_id j" using P 2(2) by metis
  then show ?thesis using 2 f [OF 2(2)] deleting_upd [OF 2(6)] unfolding deletion_changes_def by blast
qed

lemma update_locked_deletion_Inr:
  assumes "update_locked_deletion c P f missing t d = Inr (r, d')"
  obtains j where "j \<in> set (t_deletion_jobs d)" "xj_project_id j = claim_project c" "P j" "r = f j"
    "exists_row (xj_mine c t) (t_deletion_jobs d)"
    "update_deletion (\<lambda>j. xj_project_id j = claim_project c \<and> P j) f d = Inr (Some r, d')"
proof -
  have lock: "exists_row (xj_mine c t) (t_deletion_jobs d)"
    and u: "update_deletion (\<lambda>j. xj_project_id j = claim_project c \<and> P j) f d = Inr (Some r, d')"
    using assms by (auto simp: update_locked_deletion_def tx_seq_def tx_bind_def deletion_lock_claim_def
        tx_require_def split: if_splits sum.splits option.splits prod.splits)
  from u show ?thesis
    by (rule update_deletion_Inr) (use that lock u in auto)
qed

lemma locked_deletion_changes:
  assumes "update_locked_deletion c P f missing t d = Inr (r, d')"
    and f: "\<And>j. P j \<Longrightarrow> xj_after j (f j)"
  shows "deletion_changes d d'"
  using assms(1)
  by (rule update_locked_deletion_Inr) (rule update_deletion_changes [where i = "claim_project c"], assumption, use f in auto)

lemma deletion_txs:
  shows request_deletion_changes: "request_deletion i confirmation b dc now d = Inr (j, d') \<Longrightarrow> deletion_changes d d'"
    and retry_deletion_changes: "retry_deletion i confirmation b dc now d = Inr (j, d') \<Longrightarrow> deletion_changes d d'"
    and renew_deletion_changes: "renew_deletion c lease now d = Inr (e, d') \<Longrightarrow> deletion_changes d d'"
    and advance_deletion_changes: "advance_deletion c p q t1 t2 d = Inr (j, d') \<Longrightarrow> deletion_changes d d'"
    and fail_deletion_changes: "fail_deletion c code retryable t1 t2 d = Inr (j, d') \<Longrightarrow> deletion_changes d d'"
    and reschedule_deletion_changes: "reschedule_deletion c at code t1 t2 d = Inr (j, d') \<Longrightarrow> deletion_changes d d'"
    and defer_deletion_changes: "defer_deletion c at t1 t2 d = Inr (j, d') \<Longrightarrow> deletion_changes d d'"
proof -
  show "request_deletion i confirmation b dc now d = Inr (j, d') \<Longrightarrow> deletion_changes d d'"
  proof -
    assume run: "request_deletion i confirmation b dc now d = Inr (j, d')"
    then obtain p where p: "project_of d i = Some p"
      by (auto simp: request_deletion_def lock_deletion_context_def split: if_splits)
    show ?thesis
    proof (cases "deletion_of d i")
      case None
      then have d': "j = new_deletion_job i (exists_row (\<lambda>r. res_project_id r = i) (t_database_resources d)) now"
        "t_projects d' = upd (\<lambda>p. prj_id p = i) (set_deleting now) (t_projects d)"
        "t_deletion_jobs d' = t_deletion_jobs d @ [j]"
        using run by (auto simp: request_deletion_def lock_deletion_context_def validate_deletion_confirmation_def
            Let_def split: if_splits)
      have keep: "project_is_deleting k d'" if "project_is_deleting k d" for k
        by (rule deleting_set [OF that d'(2)])
      have "project_is_deleting i d'"
      proof -
        have "set_deleting now p \<in> set (t_projects d')"
          using fetch_SomeD [OF p] by (auto simp: d'(2) set_upd)
        then show ?thesis
          using fetch_SomeD [OF p] unfolding project_is_deleting_def exists_row_iff
          by (intro bexI [of _ "set_deleting now p"]) (simp_all add: set_deleting_def)
      qed
      then show ?thesis
        unfolding deletion_changes_def using None keep d'(1,3)
        by (auto simp: new_deletion_job_def xj_checks_def fetch_None_iff)
    next
      case (Some k)
      then have "d' = d"
        using run by (auto simp: request_deletion_def lock_deletion_context_def validate_deletion_confirmation_def
            Let_def split: if_splits)
      then show ?thesis by (simp add: deletion_changes_def)
    qed
  qed
  show "retry_deletion i confirmation b dc now d = Inr (j, d') \<Longrightarrow> deletion_changes d d'"
  proof -
    assume run: "retry_deletion i confirmation b dc now d = Inr (j, d')"
    then have "update_deletion (\<lambda>j. xj_project_id j = i \<and> xj_state j = X_FAILED) (xj_again now) d = Inr (Some j, d')"
      by (auto simp: retry_deletion_def lock_deletion_context_def validate_deletion_confirmation_def Let_def
          split: if_splits option.splits)
    then show ?thesis by (rule update_deletion_changes [where i = i]) (simp_all add: xj_again_def)
  qed
  show "renew_deletion c lease now d = Inr (e, d') \<Longrightarrow> deletion_changes d d'"
  proof -
    assume "renew_deletion c lease now d = Inr (e, d')"
    then obtain r where "update_deletion (xj_mine c now) (xj_extend (now + lease) now) d = Inr (r, d')"
      by (auto simp: renew_deletion_def split: option.splits)
    then show ?thesis
      by (rule update_deletion_changes [where i = "claim_project c"]) (simp_all add: xj_mine_def xj_extend_def)
  qed
  show "advance_deletion c p q t1 t2 d = Inr (j, d') \<Longrightarrow> deletion_changes d d'"
  proof -
    assume run: "advance_deletion c p q t1 t2 d = Inr (j, d')"
    then have "phase_index q = phase_index p + 1" by (auto simp: advance_deletion_def split: if_splits)
    moreover from run have "update_locked_deletion c (\<lambda>j. xj_phase j = p) (xj_phase_set q t2)
        ProjectDeletionClaimLostError t1 d = Inr (j, d')"
      by (auto simp: advance_deletion_def split: if_splits)
    ultimately show ?thesis
      by (auto elim!: locked_deletion_changes simp: xj_after_def xj_phase_set_def less_eq_deletion_phase_def)
  qed
  show "fail_deletion c code retryable t1 t2 d = Inr (j, d') \<Longrightarrow> deletion_changes d d'"
    unfolding fail_deletion_def by (erule locked_deletion_changes) (simp add: xj_failed_def)
  show "reschedule_deletion c at code t1 t2 d = Inr (j, d') \<Longrightarrow> deletion_changes d d'"
    unfolding reschedule_deletion_def by (erule locked_deletion_changes) (simp add: xj_released_def)
  show "defer_deletion c at t1 t2 d = Inr (j, d') \<Longrightarrow> deletion_changes d d'"
    unfolding defer_deletion_def by (erule locked_deletion_changes) (simp add: xj_deferred_def xj_released_def)
qed

lemma claim_next_deletion_Inr:
  assumes ok: "deletions_ok d"
    and run: "claim_next_deletion w lease locked token now d = Inr (c, d')"
  obtains "c = None" "d' = d"
  | j where "j \<in> set (t_deletion_jobs d)" "xj_claimable now j" "xj_project_id j \<notin> set locked"
    "c = Some \<lparr>xc_job = xj_take w token (now + lease) now j, xc_token = token, xc_worker_id = w,
       xc_lease_expires_at = now + lease\<rparr>"
    "xj_checks (xj_take w token (now + lease) now j)"
    "d' = d\<lparr>t_deletion_jobs := upd (\<lambda>k. xj_project_id k = xj_project_id j)
       (xj_take w token (now + lease) now) (t_deletion_jobs d)\<rparr>"
proof (cases "claim_row (\<lambda>j. xj_claimable now j \<and> xj_project_id j \<notin> set locked)
      (\<lambda>j. (xj_available_at j, xj_created_at j, xj_project_id j))
      xj_project_id (xj_take w token (now + lease) now) (t_deletion_jobs d)")
  case None
  then show ?thesis using run that(1) by (simp add: claim_next_deletion_def)
next
  case (Some jj)
  then obtain job jobs where c: "claim_row (\<lambda>j. xj_claimable now j \<and> xj_project_id j \<notin> set locked)
      (\<lambda>j. (xj_available_at j, xj_created_at j, xj_project_id j))
      xj_project_id (xj_take w token (now + lease) now) (t_deletion_jobs d) = Some (job, jobs)"
    by (cases jj) auto
  show ?thesis
    by (rule claim_row_SomeD [OF c deletions_okD(1) [OF ok]])
      (rule that(2), use run c in \<open>auto simp: claim_next_deletion_def split: if_splits\<close>)
qed

lemma claim_deletion_changes:
  assumes ok: "deletions_ok d"
    and run: "claim_next_deletion w lease locked token now d = Inr (c, d')"
  shows "deletion_changes d d'"
  using claim_next_deletion_Inr [OF ok run]
proof cases
  case 1
  then show ?thesis by (simp add: deletion_changes_def)
next
  case (2 j)
  then show ?thesis
    unfolding deletion_changes_def
    by (intro conjI allI impI disjI2 exI [of _ j] exI [of _ "\<lambda>k. xj_project_id k = xj_project_id j"]
        exI [of _ "xj_take w token (now + lease) now"]) (simp_all add: xj_take_def project_is_deleting_def)
qed

section \<open>The final removal\<close>

text \<open>The database without a project and all its rows.\<close>

definition without_project :: "uuid \<Rightarrow> db \<Rightarrow> db" where
  "without_project i d =
     (let gone = (\<lambda>k. exists_row (\<lambda>x. dep_id x = k \<and> dep_project_id x = i) (t_deployments d)) in
      d\<lparr>t_projects := del (\<lambda>p. prj_id p = i) (t_projects d),
        t_environment_secrets := del (\<lambda>s. es_project_id s = i) (t_environment_secrets d),
        t_database_resources := del (\<lambda>r. res_project_id r = i) (t_database_resources d),
        t_deployments := del (\<lambda>x. dep_project_id x = i) (t_deployments d),
        t_deployment_jobs := del (\<lambda>j. gone (dj_deployment_id j)) (t_deployment_jobs d),
        t_deployment_events := del (\<lambda>e. gone (ev_deployment_id e)) (t_deployment_events d),
        t_artifacts := del (\<lambda>a. gone (art_deployment_id a)) (t_artifacts d),
        t_runtimes := del (\<lambda>r. pr_project_id r = i) (t_runtimes d),
        t_reconciliations := del (\<lambda>r. gone (rc_deployment_id r)) (t_reconciliations d),
        t_routes := del (\<lambda>r. rt_project_id r = i) (t_routes d),
        t_route_jobs := del (\<lambda>j. rj_project_id j = i) (t_route_jobs d),
        t_deletion_jobs := del (\<lambda>j. xj_project_id j = i) (t_deletion_jobs d)\<rparr>)"

definition may_finalize :: "deletion_claim \<Rightarrow> time \<Rightarrow> db \<Rightarrow> bool" where
  "may_finalize c now d =
     (exists_row (\<lambda>j. xj_mine c now j \<and> xj_phase j = METADATA_DELETE) (t_deletion_jobs d) \<and>
      project_is_deleting (claim_project c) d \<and> deletion_is_applied (claim_project c) d)"

definition runtime_elsewhere :: "uuid \<Rightarrow> db \<Rightarrow> bool" where
  "runtime_elsewhere i d =
     exists_row (\<lambda>r. pr_project_id r \<noteq> i \<and>
         (case pr_active_deployment_id r of None \<Rightarrow> False
          | Some k \<Rightarrow> exists_row (\<lambda>x. dep_id x = k \<and> dep_project_id x = i) (t_deployments d)))
       (t_runtimes d)"

lemma project_of_deleting: "project_is_deleting i d \<Longrightarrow> project_of d i \<noteq> None"
  by (auto simp: project_is_deleting_def exists_row_iff fetch_None_iff)

lemma finalize_deletion_eq:
  "finalize_deletion c now d =
     (if \<not> may_finalize c now d then Inl ProjectDeletionClaimLostError
      else if runtime_elsewhere (claim_project c) d then Inl ForeignKeyViolation
      else Inr ((), without_project (claim_project c) d))"
proof (cases "may_finalize c now d")
  case False
  then have "\<not> (exists_row (\<lambda>j. xj_mine c now j \<and> xj_phase j = METADATA_DELETE) (t_deletion_jobs d) \<and>
      project_is_deleting (claim_project c) d \<and> deletion_is_applied (claim_project c) d)"
    by (simp add: may_finalize_def)
  with False show ?thesis by (simp only: finalize_deletion_def tx_seq_def tx_bind_def Let_def if_False sum.case not_False_eq_True if_True)
next
  case True
  define i where "i = claim_project c"
  obtain p where p: "project_of d i = Some p"
    using True project_of_deleting [of i d] by (auto simp: may_finalize_def i_def)
  have fk: "exists_row (\<lambda>r. case pr_active_deployment_id r of None \<Rightarrow> False
        | Some k \<Rightarrow> exists_row (\<lambda>x. dep_id x = k \<and> dep_project_id x = i) (t_deployments d))
      (del (\<lambda>r. pr_project_id r = i) (t_runtimes d)) = runtime_elsewhere i d"
    by (auto simp: runtime_elsewhere_def exists_row_iff del_def)
  show ?thesis
    using True p fk
    by (simp add: finalize_deletion_def may_finalize_def tx_seq_def tx_bind_def delete_deployments_def
        without_project_def Let_def flip: i_def)
qed

lemma without_project_jobs [simp]:
  "t_deletion_jobs (without_project i d) = del (\<lambda>j. xj_project_id j = i) (t_deletion_jobs d)"
  "t_projects (without_project i d) = del (\<lambda>p. prj_id p = i) (t_projects d)"
  by (simp_all add: without_project_def Let_def)

lemma without_project_deletions_ok:
  assumes "deletions_ok d"
  shows "deletions_ok (without_project i d)"
proof -
  have "project_is_deleting k (without_project i d)" if "project_is_deleting k d" "k \<noteq> i" for k
    using that by (auto simp: project_is_deleting_def exists_row_iff del_def)
  then show ?thesis using assms by (auto simp: deletions_ok_def del_def distinct_map_filter)
qed

lemma fetch_del_other: "k \<noteq> i \<Longrightarrow> fetch (\<lambda>j. key j = k) (del (\<lambda>j. key j = i) rows) = fetch (\<lambda>j. key j = k) rows"
  by (induction rows) (auto simp: del_def)

lemma deletion_of_without: "k \<noteq> i \<Longrightarrow> deletion_of (without_project i d) k = deletion_of d k"
  by (simp add: fetch_del_other)

section \<open>Steps\<close>

text \<open>The transactions on the jobs.  \<open>elsewhere\<close> are those of the other repositories, which
  leave the jobs alone, and the status of a project that is being deleted.\<close>

inductive deletion_step :: "db \<Rightarrow> db \<Rightarrow> bool" where
  request: "request_deletion i confirmation b dc now d = Inr (j, d') \<Longrightarrow> deletion_step d d'"
| retry: "retry_deletion i confirmation b dc now d = Inr (j, d') \<Longrightarrow> deletion_step d d'"
| claim: "claim_next_deletion w lease locked token now d = Inr (c', d') \<Longrightarrow> deletion_step d d'"
| renew: "renew_deletion c lease now d = Inr (e, d') \<Longrightarrow> deletion_step d d'"
| advance: "advance_deletion c p q t1 t2 d = Inr (j, d') \<Longrightarrow> deletion_step d d'"
| fail: "fail_deletion c code retryable t1 t2 d = Inr (j, d') \<Longrightarrow> deletion_step d d'"
| reschedule: "reschedule_deletion c at code t1 t2 d = Inr (j, d') \<Longrightarrow> deletion_step d d'"
| defers: "defer_deletion c at t1 t2 d = Inr (j, d') \<Longrightarrow> deletion_step d d'"
| finalize: "finalize_deletion c now d = Inr ((), d') \<Longrightarrow> deletion_step d d'"
| elsewhere: "t_deletion_jobs d' = t_deletion_jobs d \<Longrightarrow>
    (\<And>i. project_is_deleting i d \<Longrightarrow> project_is_deleting i d') \<Longrightarrow> deletion_step d d'"

inductive_cases deletion_stepE: "deletion_step d d'"

lemma deletion_step_cases:
  assumes ok: "deletions_ok d" and step: "deletion_step d d'"
  obtains "deletion_changes d d'"
  | c now where "finalize_deletion c now d = Inr ((), d')"
proof -
  from step have "deletion_changes d d' \<or> (\<exists>c now. finalize_deletion c now d = Inr ((), d'))"
  proof (cases rule: deletion_step.cases)
    case (claim w lease locked token now c')
    then show ?thesis using claim_deletion_changes [OF ok] by simp
  next
    case elsewhere
    then show ?thesis by (simp add: deletion_changes_def)
  next
    case finalize
    then show ?thesis by auto
  qed (auto dest: deletion_txs)
  then show ?thesis using that by auto
qed

lemma deletion_step_ok:
  assumes ok: "deletions_ok d" and step: "deletion_step d d'"
  shows "deletions_ok d'"
  using ok step
proof (cases rule: deletion_step_cases)
  case 1
  then show ?thesis by (rule deletion_changes_ok [OF ok])
next
  case (2 c now)
  then show ?thesis using without_project_deletions_ok [OF ok] by (auto simp: finalize_deletion_eq split: if_splits)
qed

section \<open>Runs\<close>

lemma xj_after_refl: "xj_after j j"
  by simp

lemma changes_deletion_of:
  assumes ok: "deletions_ok d" and c: "deletion_changes d d'" and j: "deletion_of d i = Some j"
  obtains k where "deletion_of d' i = Some k" "xj_after j k"
proof -
  note J = fetch_SomeD [OF j]
  have ok': "deletions_ok d'" by (rule deletion_changes_ok [OF ok c])
  have "\<exists>k\<in>set (t_deletion_jobs d'). xj_after j k"
    using c unfolding deletion_changes_def
  proof (elim conjE disjE exE)
    fix j' P f
    assume A: "j' \<in> set (t_deletion_jobs d)" "P j'" "\<forall>x. P x \<longrightarrow> xj_project_id x = xj_project_id j'"
      "xj_after j' (f j')" "t_deletion_jobs d' = upd P f (t_deletion_jobs d)"
    have "P j \<Longrightarrow> j = j'"
      using same_key_same_row [OF deletions_okD(1) [OF ok]] A(1,3) J(1) by blast
    then have "xj_after j (if P j then f j else j)" using A(4) by auto
    moreover have "(if P j then f j else j) \<in> set (t_deletion_jobs d')" using J(1) by (auto simp: A(5) upd_def)
    ultimately show ?thesis by blast
  qed (use conjunct1 [OF J] xj_after_refl [of j] in \<open>simp_all, blast+\<close>)
  then obtain k where k: "k \<in> set (t_deletion_jobs d')" "xj_after j k" by blast
  then have "xj_project_id k = i" using J by (simp add: xj_after_def)
  then have "deletion_of d' i = Some k"
    using k(1) deletions_okD(1) [OF ok'] by (auto intro!: fetch_key)
  then show ?thesis using that k(2) by blast
qed

text \<open>A run as a sequence of databases.\<close>

definition deletion_run :: "(nat \<Rightarrow> db) \<Rightarrow> nat \<Rightarrow> bool" where
  "deletion_run f n = (\<forall>m<n. deletion_step (f m) (f (Suc m)))"

lemma deletion_run_Suc: "deletion_run f (Suc n) \<longleftrightarrow> deletion_run f n \<and> deletion_step (f n) (f (Suc n))"
  by (auto simp: deletion_run_def less_Suc_eq)

text \<open>Up to the \<open>n\<close>-th database of the run the deletion of the project has been in phase \<open>p\<close>.\<close>

definition passed :: "(nat \<Rightarrow> db) \<Rightarrow> nat \<Rightarrow> uuid \<Rightarrow> deletion_phase \<Rightarrow> bool" where
  "passed f n i p = (\<exists>m\<le>n. \<exists>k. deletion_of (f m) i = Some k \<and> xj_phase k = p)"

text \<open>The deletion that was at job \<open>j\<close> in the first database is at job \<open>k\<close> in the \<open>n\<close>-th: not in an
  earlier phase, with the same authorization, and it has left no phase in between out.\<close>

definition came_to :: "(nat \<Rightarrow> db) \<Rightarrow> nat \<Rightarrow> uuid \<Rightarrow> deletion_job \<Rightarrow> deletion_job \<Rightarrow> bool" where
  "came_to f n i j k =
     (deletion_of (f n) i = Some k \<and> xj_phase j \<le> xj_phase k \<and>
      xj_delete_managed_database k = xj_delete_managed_database j \<and>
      (\<forall>p. xj_phase j \<le> p \<and> p \<le> xj_phase k \<longrightarrow> passed f n i p))"

lemma came_to_start:
  assumes "deletion_of (f 0) i = Some j" shows "came_to f 0 i j j"
  using assms by (auto simp: came_to_def passed_def)

lemma came_to_step:
  assumes k: "came_to f n i j k" and l: "deletion_of (f (Suc n)) i = Some l" "xj_after k l"
  shows "came_to f (Suc n) i j l"
proof -
  have "passed f (Suc n) i p" if p: "xj_phase j \<le> p" "p \<le> xj_phase l" for p
  proof (cases "p \<le> xj_phase k")
    case True
    then have "passed f n i p" using k p(1) by (simp add: came_to_def)
    then show ?thesis unfolding passed_def using le_SucI by blast
  next
    case False
    then have "p = xj_phase l"
      using p(2) l(2) by (intro phase_index_inj) (auto simp: less_eq_deletion_phase_def xj_after_def)
    then show ?thesis using l(1) unfolding passed_def by blast
  qed
  then show ?thesis using k l by (auto simp: came_to_def xj_after_def intro: order_trans)
qed

text \<open>The rows of the project were removed on the way, in a database where its deletion had come to
  the last phase.\<close>

definition finished_by :: "(nat \<Rightarrow> db) \<Rightarrow> nat \<Rightarrow> uuid \<Rightarrow> deletion_job \<Rightarrow> bool" where
  "finished_by f n i j =
     (\<exists>m<n. \<exists>c now k. came_to f m i j k \<and> xj_phase k = METADATA_DELETE \<and> claim_project c = i \<and>
        finalize_deletion c now (f m) = Inr ((), f (Suc m)))"

lemma deletion_progress:
  assumes "deletions_ok (f 0)" "deletion_of (f 0) i = Some j" "deletion_run f n"
  shows "deletions_ok (f n) \<and> (finished_by f n i j \<or> (\<exists>k. came_to f n i j k))"
  using assms(3)
proof (induction n)
  case 0
  then show ?case using assms(1) came_to_start [where f = f, OF assms(2)] by blast
next
  case (Suc n)
  then have ok: "deletions_ok (f n)" and step: "deletion_step (f n) (f (Suc n))"
    and IH: "finished_by f n i j \<or> (\<exists>k. came_to f n i j k)" by (simp_all add: deletion_run_Suc)
  have "finished_by f (Suc n) i j \<or> (\<exists>k. came_to f (Suc n) i j k)"
    using IH
  proof
    assume "finished_by f n i j"
    then show ?thesis unfolding finished_by_def using less_SucI by blast
  next
    assume "\<exists>k. came_to f n i j k"
    then obtain k where k: "came_to f n i j k" by blast
    then have row: "deletion_of (f n) i = Some k" by (simp add: came_to_def)
    show ?thesis
      using ok step
    proof (cases rule: deletion_step_cases)
      case 1
      obtain l where "deletion_of (f (Suc n)) i = Some l" "xj_after k l" by (rule changes_deletion_of [OF ok 1 row])
      then show ?thesis using came_to_step [OF k] by blast
    next
      case (2 c now)
      show ?thesis
      proof (cases "claim_project c = i")
        case True
        have "may_finalize c now (f n)" using 2 by (auto simp: finalize_deletion_eq split: if_splits)
        then obtain x where x: "x \<in> set (t_deletion_jobs (f n))" "xj_project_id x = i" "xj_phase x = METADATA_DELETE"
          using True by (auto simp: may_finalize_def exists_row_iff xj_mine_def)
        then have "deletion_of (f n) i = Some x" using deletions_okD(1) [OF ok] by (auto intro!: fetch_key)
        then have "xj_phase k = METADATA_DELETE" using row x(3) by simp
        then show ?thesis using k True 2 unfolding finished_by_def by blast
      next
        case False
        have "f (Suc n) = without_project (claim_project c) (f n)"
          using 2 by (auto simp: finalize_deletion_eq split: if_splits)
        then have "deletion_of (f (Suc n)) i = Some k" using deletion_of_without False row by metis
        then show ?thesis using came_to_step [OF k] xj_after_refl by blast
      qed
    qed
  qed
  then show ?case using deletion_step_ok [OF ok step] by blast
qed

end
