(* ===== verification/Deletion_Passes.thy ===== *)
theory Deletion_Passes
  imports Deletion_Lifecycle Route_Lifecycle
begin

text \<open>
  Passes of the deletion worker: that the loop ends, what a pass keeps of the tables and what it
  can raise, and that its destructive calls are made only where the removal is authorized.
\<close>

section \<open>The loop\<close>

lemma answers_repo_call2: "(\<And>t1 t2 d a d'. m t1 t2 d = Inr (a, d') \<Longrightarrow> Q a) \<Longrightarrow> answers Q (repo_call2 P m)"
  unfolding repo_call2_def repo_call_def by (intro answers_then answers_tx)

text \<open>A turn that goes on has taken the claim's project one phase further.\<close>

definition next_claim :: "deletion_claim \<Rightarrow> deletion_claim \<Rightarrow> bool" where
  "next_claim c c' =
     (claim_project c' = claim_project c \<and>
      phase_index (xj_phase (xc_job c')) = phase_index (xj_phase (xc_job c)) + 1)"

lemma advance_deletion_row:
  assumes "advance_deletion c p q t1 t2 d = Inr (j, d')"
  shows "xj_project_id j = claim_project c \<and> xj_phase j = q \<and> phase_index q = phase_index p + 1"
proof -
  have "update_locked_deletion c (\<lambda>j. xj_phase j = p) (xj_phase_set q t2) ProjectDeletionClaimLostError t1 d = Inr (j, d')"
    and q: "phase_index q = phase_index p + 1"
    using assms by (auto simp: advance_deletion_def split: if_splits)
  from this(1) show ?thesis
    by (rule update_locked_deletion_Inr) (use q in \<open>simp add: xj_phase_set_def\<close>)
qed

lemma advance_claim_answers:
  "p = xj_phase (xc_job c) \<Longrightarrow> answers (next_claim c) (advance_claim P c p q)"
  unfolding advance_claim_def
  by (rule answers_bind [where R = "\<lambda>j. xj_project_id j = claim_project c \<and> phase_index (xj_phase j) = phase_index p + 1"],
      rule answers_repo_call2) (auto dest: advance_deletion_row intro: answers_ret simp: next_claim_def)

lemma deletion_turn_answers:
  "answers (\<lambda>r. \<forall>c'. r = Some c' \<longrightarrow> next_claim c c') (deletion_turn P W c)"
proof -
  let ?Q = "\<lambda>r. \<forall>c'. r = Some c' \<longrightarrow> next_claim c c'"
  have go: "answers ?Q (bind_act (advance_claim P c p q) (\<lambda>c'. ret (Some c')))"
    if "xj_phase (xc_job c) = p" for p q
    using that by (intro answers_bind [OF advance_claim_answers] answers_ret) auto
  have stop: "answers ?Q (ret None)" by (rule answers_ret) simp
  show ?thesis
    by (cases "xj_phase (xc_job c)")
      (auto simp: deletion_turn_def Let_def intro!: answers_seq answers_then go stop)
qed

lemma run_deletion_claim_returns:
  "10 \<le> phase_index (xj_phase (xc_job c)) + n \<Longrightarrow> answers (\<lambda>b. b) (run_deletion_claim P W n c)"
proof (induction n arbitrary: c)
  case 0
  then show ?case by (cases "xj_phase (xc_job c)") simp_all
next
  case (Suc n)
  show ?case
    unfolding run_deletion_claim.simps
  proof (rule answers_bind [OF deletion_turn_answers])
    fix r assume "\<forall>c'. r = Some c' \<longrightarrow> next_claim c c'"
    then show "answers (\<lambda>b. b) (case r of None \<Rightarrow> ret True | Some c' \<Rightarrow> run_deletion_claim P W n c')"
      using Suc by (cases r) (auto simp: next_claim_def intro: answers_ret)
  qed
qed

section \<open>Destructive calls\<close>

text \<open>What must hold where the rows, containers, databases or secrets of a project are removed:
  the project is being deleted, its route is gone and a worker has claimed the deletion.\<close>

definition removal_authorized :: "uuid \<Rightarrow> db \<Rightarrow> bool" where
  "removal_authorized i d =
     (project_is_deleting i d \<and> deletion_is_applied i d \<and>
      exists_row (\<lambda>j. xj_project_id j = i \<and> xj_state j = X_CLAIMED) (t_deletion_jobs d))"

definition only_if_authorized :: "uuid \<Rightarrow> ('w \<times> db, 'a) act \<Rightarrow> ('w \<times> db, 'a) act" where
  "only_if_authorized i m =
     (\<lambda>s. if removal_authorized i (snd s) then m s else (Inl (OtherError ''unauthorized''), s))"

definition authorized_provisioner :: "uuid \<Rightarrow> ('w \<times> db) database_provisioner \<Rightarrow> ('w \<times> db) database_provisioner" where
  "authorized_provisioner i D =
     D\<lparr>dp_quiesce := \<lambda>r name role. only_if_authorized i (dp_quiesce D r name role),
       dp_drop_database := \<lambda>r name. only_if_authorized i (dp_drop_database D r name),
       dp_drop_role := \<lambda>r role. only_if_authorized i (dp_drop_role D r role)\<rparr>"

text \<open>The worker with a check in front of every destructive call; the teardown and the removal of
  the secrets are also checked to be those of the project.\<close>

definition only_for :: "uuid \<Rightarrow> uuid \<Rightarrow> ('w \<times> db, 'a) act \<Rightarrow> ('w \<times> db, 'a) act" where
  "only_for i k m = (if k = i then only_if_authorized i m else raise (OtherError ''unauthorized''))"

definition authorized_worker :: "uuid \<Rightarrow> ('w \<times> db) deletion_worker \<Rightarrow> ('w \<times> db) deletion_worker" where
  "authorized_worker i W =
     W\<lparr>xw_teardown := \<lambda>k ds r g h. only_for i k (xw_teardown W k ds r g h),
       xw_secrets := (xw_secrets W)\<lparr>sx_delete_subtree := \<lambda>k. only_for i k (sx_delete_subtree (xw_secrets W) k)\<rparr>,
       xw_provisioner := map_option (authorized_provisioner i) (xw_provisioner W)\<rparr>"

lemma authorized_fields [simp]:
  "xw_verify_absent (authorized_worker i W) = xw_verify_absent W"
  "xw_lease_duration (authorized_worker i W) = xw_lease_duration W"
  "xw_retry_base_delay (authorized_worker i W) = xw_retry_base_delay W"
  "xw_max_attempts (authorized_worker i W) = xw_max_attempts W"
  "xw_provisioner (authorized_worker i W) = map_option (authorized_provisioner i) (xw_provisioner W)"
  "sx_acquire (xw_secrets (authorized_worker i W)) = sx_acquire (xw_secrets W)"
  "sx_release (xw_secrets (authorized_worker i W)) = sx_release (xw_secrets W)"
  "sx_subtree_absent (xw_secrets (authorized_worker i W)) = sx_subtree_absent (xw_secrets W)"
  "sx_delete_subtree (xw_secrets (authorized_worker i W)) k = only_for i k (sx_delete_subtree (xw_secrets W) k)"
  "xw_teardown (authorized_worker i W) k ds u g h = only_for i k (xw_teardown W k ds u g h)"
  "dp_acquire (authorized_provisioner i D) = dp_acquire D"
  "dp_release (authorized_provisioner i D) = dp_release D"
  "dp_verify_absent (authorized_provisioner i D) = dp_verify_absent D"
  "dp_quiesce (authorized_provisioner i D) r name role = only_if_authorized i (dp_quiesce D r name role)"
  "dp_drop_database (authorized_provisioner i D) r name = only_if_authorized i (dp_drop_database D r name)"
  "dp_drop_role (authorized_provisioner i D) r role = only_if_authorized i (dp_drop_role D r role)"
  by (simp_all add: authorized_worker_def authorized_provisioner_def)

lemma authorize_state:
  assumes "authorize P W c True s = (Inr (), s')"
  shows "removal_authorized (claim_project c) (snd s')"
proof -
  have "\<exists>now. deletion_mutation_allowed c True now (snd s')"
    using assms
    by (cases "p_clock P (snd (deletion_heartbeat P W c s))")
      (auto simp: authorize_def bind_act_def raise_def ret_def deletion_guard_def read_db_def tx_act_def tx_read_def
        get_act_def split: prod.splits sum.splits if_splits)
  then show ?thesis
    by (auto simp: deletion_mutation_allowed_def removal_authorized_def exists_row_iff xj_mine_def xj_held_def)
qed

text \<open>After the authorization the check is passed.\<close>

lemma authorize_then:
  assumes "\<And>s. removal_authorized (claim_project c) (snd s) \<Longrightarrow> m s = n s"
  shows "seq_act (authorize P W c True) m = seq_act (authorize P W c True) n"
  unfolding seq_act_def by (rule bind_cong) (rule assms, rule authorize_state, simp)

lemma authorize_authorized [simp]: "authorize P (authorized_worker i W) c b = authorize P W c b"
  by (simp add: authorize_def deletion_heartbeat_def)

lemma with_database_lock_authorized [simp]:
  "with_database_lock (map_option (authorized_provisioner i) D) r body = with_database_lock D r body"
  by (cases D) (simp_all add: with_database_lock_def cong: if_cong)

lemma database_call_authorized:
  assumes "removal_authorized i (snd s)"
    and "\<And>D. operation (authorized_provisioner i D) = only_if_authorized i (operation D)"
  shows "database_call (map_option (authorized_provisioner i) D) operation s = database_call D operation s"
  using assms by (cases D) (simp_all add: database_call_def try_act_def only_if_authorized_def)

lemma locked_operation_authorized:
  fixes W :: "('w \<times> db) deletion_worker"
  assumes "claim_project c = i"
    and "\<And>s. removal_authorized i (snd s) \<Longrightarrow> op' r s = op r s"
  shows "locked_database_operation P (authorized_worker i W) c r op' = locked_database_operation P W c r op"
proof -
  have "seq_act (authorize P W c True) (seq_act (op' r) n) = seq_act (authorize P W c True) (seq_act (op r) n)"
    for n :: "('w \<times> db, bool \<times> runtime_failure option) act"
    by (rule authorize_then) (simp add: seq_act_def bind_act_def assms)
  then show ?thesis by (simp add: locked_database_operation_def cong: if_cong)
qed

lemma database_phase_authorized:
  assumes "claim_project c = i"
    and "\<And>r s. removal_authorized i (snd s) \<Longrightarrow> op' r s = op r s"
  shows "run_database_phase P (authorized_worker i W) c op' = run_database_phase P W c op"
proof -
  have "locked_database_operation P (authorized_worker i W) c r op' = locked_database_operation P W c r op" for r
    by (rule locked_operation_authorized [OF assms])
  then show ?thesis by (simp only: run_database_phase_def)
qed

lemma teardown_authorized:
  fixes W :: "('w \<times> db) deletion_worker"
  assumes "claim_project c = i"
  shows "seq_act (authorize P W c True) (seq_act (teardown_call P (authorized_worker i W) c (xw_teardown (authorized_worker i W))) n) =
    seq_act (authorize P W c True) (seq_act (teardown_call P W c (xw_teardown W)) n)"
proof (rule authorize_then)
  fix s :: "'w \<times> db" assume "removal_authorized (claim_project c) (snd s)"
  then show "seq_act (teardown_call P (authorized_worker i W) c (xw_teardown (authorized_worker i W))) n s =
      seq_act (teardown_call P W c (xw_teardown W)) n s"
    using assms
    by (cases s) (simp add: teardown_call_def seq_act_def bind_act_def read_db_def tx_act_def tx_read_def
        only_for_def only_if_authorized_def deletion_heartbeat_def split: prod.splits)
qed

lemma clean_secrets_authorized:
  assumes "claim_project c = i"
  shows "clean_secrets P (authorized_worker i W) c = clean_secrets P W c"
proof -
  have "seq_act (authorize P W c True) (only_for i (claim_project c) (sx_delete_subtree (xw_secrets W) (claim_project c))) =
      seq_act (authorize P W c True) (sx_delete_subtree (xw_secrets W) (claim_project c))"
    by (rule authorize_then) (simp add: assms only_for_def only_if_authorized_def)
  then show ?thesis by (simp add: clean_secrets_def with_secret_lock_def)
qed

lemma verify_authorized:
  assumes "claim_project c = i"
  shows "verify_final_absence P (authorized_worker i W) c = verify_final_absence P W c"
proof -
  have absent: "verify_database_absent (map_option (authorized_provisioner i) D) = verify_database_absent D" for D
    by (rule ext) (cases D, simp_all add: verify_database_absent_def database_call_def)
  have op: "locked_database_operation P (authorized_worker i W) c r op = locked_database_operation P W c r op" for r op
    by (rule locked_operation_authorized [OF assms refl])
  show ?thesis
    by (simp add: verify_final_absence_def absent op with_secret_lock_def teardown_call_def deletion_heartbeat_def
        cong: option.case_cong)
qed

lemma deletion_turn_authorized:
  fixes W :: "('w \<times> db) deletion_worker"
  assumes c: "claim_project c = i"
  shows "deletion_turn P (authorized_worker i W) c = deletion_turn P W c"
proof -
  have defers: "defer_claim P (authorized_worker i W) c = defer_claim P W c"
    by (simp add: defer_claim_def deletion_delay_def)
  have drained: "operations_drained (authorized_worker i W) c = operations_drained W c"
    by (simp add: operations_drained_def with_secret_lock_def cong: if_cong option.case_cong)
  have quiesce: "run_database_phase P (authorized_worker i W) c (quiesce_database (map_option (authorized_provisioner i) D)) =
      run_database_phase P W c (quiesce_database D)" for D
    by (rule database_phase_authorized [OF c]) (simp add: quiesce_database_def database_call_authorized)
  have drop: "run_database_phase P (authorized_worker i W) c (drop_database (map_option (authorized_provisioner i) D)) =
      run_database_phase P W c (drop_database D)" for D
    by (rule database_phase_authorized [OF c]) (simp add: drop_database_def database_call_authorized)
  have role: "run_database_phase P (authorized_worker i W) c (drop_role (map_option (authorized_provisioner i) D)) =
      run_database_phase P W c (drop_role D)" for D
    by (rule database_phase_authorized [OF c]) (simp add: drop_role_def database_call_authorized)
  show ?thesis
    unfolding deletion_turn_def authorized_fields(5) authorize_authorized defers drained quiesce drop role
      clean_secrets_authorized [OF c] verify_authorized [OF c] teardown_authorized [OF c] ..
qed

lemma run_deletion_claim_authorized:
  "claim_project c = i \<Longrightarrow> run_deletion_claim P (authorized_worker i W) n c = run_deletion_claim P W n c"
proof (induction n arbitrary: c)
  case (Suc n)
  show ?case
    unfolding run_deletion_claim.simps deletion_turn_authorized [OF Suc.prems]
  proof (rule bind_cong)
    fix s r s' assume "deletion_turn P W c s = (Inr r, s')"
    then have "\<forall>c'. r = Some c' \<longrightarrow> claim_project c' = i"
      using answersD [OF deletion_turn_answers] Suc.prems by (fastforce simp: next_claim_def)
    then show "(case r of None \<Rightarrow> ret True | Some c' \<Rightarrow> run_deletion_claim P (authorized_worker i W) n c') s' =
        (case r of None \<Rightarrow> ret True | Some c' \<Rightarrow> run_deletion_claim P W n c') s'"
      using Suc.IH by (cases r) simp_all
  qed
qed simp

section \<open>What a pass keeps\<close>

text \<open>No runtime refers to a deployment of another project.\<close>

definition runtimes_home :: "db \<Rightarrow> bool" where
  "runtimes_home d = (\<forall>i. \<not> runtime_elsewhere i d)"

definition deletion_tables_ok :: "'w \<times> db \<Rightarrow> bool" where
  "deletion_tables_ok s = (deletions_ok (snd s) \<and> routes_ok (snd s) \<and> runtimes_home (snd s))"

lemma without_project_tables [simp]:
  "t_routes (without_project i d) = del (\<lambda>r. rt_project_id r = i) (t_routes d)"
  "t_route_jobs (without_project i d) = del (\<lambda>j. rj_project_id j = i) (t_route_jobs d)"
  "t_runtimes (without_project i d) = del (\<lambda>r. pr_project_id r = i) (t_runtimes d)"
  "t_deployments (without_project i d) = del (\<lambda>x. dep_project_id x = i) (t_deployments d)"
  by (simp_all add: without_project_def Let_def)

lemma without_project_routes_ok:
  assumes ok: "routes_ok d"
  shows "routes_ok (without_project i d)"
proof -
  note D = routes_okD [OF ok]
  have "rt_project_id ` set (del (\<lambda>r. rt_project_id r = i) (t_routes d)) =
      rt_project_id ` set (t_routes d) - {i}" by auto
  moreover have "rj_project_id ` set (del (\<lambda>j. rj_project_id j = i) (t_route_jobs d)) =
      rj_project_id ` set (t_route_jobs d) - {i}" by auto
  ultimately have "route_keys_ok (without_project i d)"
    using D(1-3) by (simp add: route_keys_ok_def distinct_del)
  then show ?thesis using D(4-7) by (simp add: routes_ok_def)
qed

lemma without_project_home:
  assumes "runtimes_home d" shows "runtimes_home (without_project i d)"
  using assms
  by (simp add: runtimes_home_def runtime_elsewhere_def exists_row_iff split: option.splits) blast

lemma jobs_only_ok:
  assumes "deletion_tables_ok (w, d)" "deletion_changes d d'" "d' = d\<lparr>t_deletion_jobs := js\<rparr>"
  shows "deletion_tables_ok (w, d')"
proof -
  have "routes_ok d' = routes_ok d" by (rule routes_ok_cong) (simp_all add: assms(3))
  moreover have "runtimes_home d' = runtimes_home d"
    by (simp add: assms(3) runtimes_home_def runtime_elsewhere_def cong: option.case_cong)
  ultimately show ?thesis
    using assms(1) deletion_changes_ok [OF _ assms(2)] by (simp add: deletion_tables_ok_def)
qed

lemma update_deletion_frame:
  "update_deletion P f d = Inr (r, d') \<Longrightarrow> \<exists>js. d' = d\<lparr>t_deletion_jobs := js\<rparr>"
  by (auto simp: update_deletion_def split: option.splits if_splits intro: exI [of _ "t_deletion_jobs d"])

lemma update_locked_frame:
  "update_locked_deletion c P f missing t d = Inr (r, d') \<Longrightarrow> \<exists>js. d' = d\<lparr>t_deletion_jobs := js\<rparr>"
  by (erule update_locked_deletion_Inr) (rule update_deletion_frame)

lemma deletion_calls_keep:
  assumes ok: "deletion_tables_ok (w, d)"
  shows "renew_deletion c lease now d = Inr (e, d') \<Longrightarrow> deletion_tables_ok (w, d')"
    and "advance_deletion c p q t1 t2 d = Inr (j, d') \<Longrightarrow> deletion_tables_ok (w, d')"
    and "fail_deletion c code retryable t1 t2 d = Inr (j, d') \<Longrightarrow> deletion_tables_ok (w, d')"
    and "reschedule_deletion c at code t1 t2 d = Inr (j, d') \<Longrightarrow> deletion_tables_ok (w, d')"
    and "defer_deletion c at t1 t2 d = Inr (j, d') \<Longrightarrow> deletion_tables_ok (w, d')"
    and "claim_next_deletion wk lease locked token now d = Inr (c', d') \<Longrightarrow> deletion_tables_ok (w, d')"
    and "finalize_deletion c now d = Inr ((), d') \<Longrightarrow> deletion_tables_ok (w, d')"
    and "disable_for_deletion i now d = Inr (row, d') \<Longrightarrow> deletion_tables_ok (w, d')"
proof -
  have oks: "deletions_ok d" "routes_ok d" "runtimes_home d"
    using ok by (simp_all add: deletion_tables_ok_def)
  show "renew_deletion c lease now d = Inr (e, d') \<Longrightarrow> deletion_tables_ok (w, d')"
  proof -
    assume run: "renew_deletion c lease now d = Inr (e, d')"
    then obtain r where "update_deletion (xj_mine c now) (xj_extend (now + lease) now) d = Inr (r, d')"
      by (auto simp: renew_deletion_def split: option.splits)
    then show ?thesis using update_deletion_frame jobs_only_ok [OF ok renew_deletion_changes [OF run]] by blast
  qed
  show "advance_deletion c p q t1 t2 d = Inr (j, d') \<Longrightarrow> deletion_tables_ok (w, d')"
    using update_locked_frame jobs_only_ok [OF ok advance_deletion_changes]
    by (metis advance_deletion_def tx_fail_Inr(1))
  show "fail_deletion c code retryable t1 t2 d = Inr (j, d') \<Longrightarrow> deletion_tables_ok (w, d')"
    using update_locked_frame jobs_only_ok [OF ok fail_deletion_changes] by (metis fail_deletion_def)
  show "reschedule_deletion c at code t1 t2 d = Inr (j, d') \<Longrightarrow> deletion_tables_ok (w, d')"
    using update_locked_frame jobs_only_ok [OF ok reschedule_deletion_changes] by (metis reschedule_deletion_def)
  show "defer_deletion c at t1 t2 d = Inr (j, d') \<Longrightarrow> deletion_tables_ok (w, d')"
    using update_locked_frame jobs_only_ok [OF ok defer_deletion_changes] by (metis defer_deletion_def)
  show "claim_next_deletion wk lease locked token now d = Inr (c', d') \<Longrightarrow> deletion_tables_ok (w, d')"
  proof -
    assume run: "claim_next_deletion wk lease locked token now d = Inr (c', d')"
    have "\<exists>js. d' = d\<lparr>t_deletion_jobs := js\<rparr>"
      using claim_next_deletion_Inr [OF oks(1) run] by cases (auto intro: exI [of _ "t_deletion_jobs d"])
    then show ?thesis using jobs_only_ok [OF ok claim_deletion_changes [OF oks(1) run]] by blast
  qed
  show "finalize_deletion c now d = Inr ((), d') \<Longrightarrow> deletion_tables_ok (w, d')"
  proof -
    assume "finalize_deletion c now d = Inr ((), d')"
    then have d': "d' = without_project (claim_project c) d" by (auto simp: finalize_deletion_eq split: if_splits)
    show ?thesis
      using without_project_deletions_ok [OF oks(1)] without_project_routes_ok [OF oks(2)]
        without_project_home [OF oks(3)] by (simp add: d' deletion_tables_ok_def)
  qed
  show "disable_for_deletion i now d = Inr (row, d') \<Longrightarrow> deletion_tables_ok (w, d')"
  proof -
    assume run: "disable_for_deletion i now d = Inr (row, d')"
    have "d' = d \<or> (\<exists>r y. route_of d i = Some r \<and> disable_current i now r d = Inr (y, d'))"
      using run by (auto simp: disable_for_deletion_def split: option.splits if_splits)
    then have "d' = d \<or> (\<exists>n. d' = route_move i (rt_disable n now) (rj_reset n now) d)"
      using disable_current_eq [OF oks(2)] by (auto simp: Let_def split: if_splits)
    then have "t_deletion_jobs d' = t_deletion_jobs d \<and> t_projects d' = t_projects d \<and>
        t_deployments d' = t_deployments d \<and> t_runtimes d' = t_runtimes d"
      by (auto simp: route_move_def)
    then have "deletions_ok d' = deletions_ok d" "runtimes_home d' = runtimes_home d"
      by (simp_all add: deletions_ok_def project_is_deleting_def runtimes_home_def runtime_elsewhere_def cong: option.case_cong)
    then show ?thesis using oks disable_for_deletion_ok [OF oks(2) run] by (simp add: deletion_tables_ok_def)
  qed
qed

section \<open>What a pass raises\<close>

lemma update_deletion_total:
  assumes f: "\<And>j. j \<in> set (t_deletion_jobs d) \<Longrightarrow> P j \<Longrightarrow> xj_checks (f j)"
  shows "update_deletion P f d \<noteq> Inl e"
  using f by (auto simp: update_deletion_def returning_def split: option.splits dest!: fetch_SomeD)

text \<open>The row that an operation of a claim changes is the one it has locked.\<close>

lemma update_locked_raises:
  assumes ok: "deletions_ok d"
    and f: "\<And>j. xj_checks j \<Longrightarrow> xj_state j = X_CLAIMED \<Longrightarrow> xj_checks (f j)"
    and run: "update_locked_deletion c P f missing t d = Inl e"
  shows "e = ProjectDeletionClaimLostError \<or>
    e = missing \<and> (\<exists>j\<in>set (t_deletion_jobs d). xj_project_id j = claim_project c \<and> \<not> P j)"
proof (cases "exists_row (xj_mine c t) (t_deletion_jobs d)")
  case False
  then show ?thesis using run
    by (simp add: update_locked_deletion_def tx_seq_def tx_bind_def deletion_lock_claim_def)
next
  case True
  then obtain j where j: "j \<in> set (t_deletion_jobs d)" "xj_project_id j = claim_project c" "xj_state j = X_CLAIMED"
    by (auto simp: exists_row_iff xj_mine_def xj_held_def)
  let ?P = "\<lambda>j. xj_project_id j = claim_project c \<and> P j"
  have "update_deletion ?P f d \<noteq> Inl e'" for e'
  proof (rule update_deletion_total)
    fix k assume k: "k \<in> set (t_deletion_jobs d)" "xj_project_id k = claim_project c \<and> P k"
    then have "k = j" using same_key_same_row [OF deletions_okD(1) [OF ok]] j(1,2) by metis
    then show "xj_checks (f k)" using f deletions_okD(2) [OF ok k(1)] j(3) by simp
  qed
  then obtain r d' where u: "update_deletion ?P f d = Inr (r, d')" by (metis obj_sumE surj_pair)
  have "r = None" "e = missing"
    using run True u by (auto simp: update_locked_deletion_def tx_seq_def tx_bind_def deletion_lock_claim_def
        tx_require_def split: option.splits)
  moreover have "\<not> P j"
    using u \<open>r = None\<close> j by (auto elim: update_deletion_Inr)
  ultimately show ?thesis using j by blast
qed

lemma claimed_changes_check:
  assumes "xj_checks j" "xj_state j = X_CLAIMED"
  shows "xj_checks (xj_phase_set q now j)" "xj_checks (xj_failed code retryable now j)"
    "xj_checks (xj_released at now j)" "xj_checks (xj_deferred at now j)" "xj_checks (xj_extend e now j)"
  using assms by (simp_all add: xj_checks_def xj_phase_set_def xj_failed_def xj_released_def xj_deferred_def xj_extend_def)

lemma deletion_calls_raise:
  assumes ok: "deletion_tables_ok (w, d)"
  shows "renew_deletion c lease now d = Inl e \<Longrightarrow> e = ProjectDeletionClaimLostError"
    and "phase_index q = phase_index p + 1 \<Longrightarrow> advance_deletion c p q t1 t2 d = Inl e \<Longrightarrow>
      e = ProjectDeletionClaimLostError"
    and "fail_deletion c code retryable t1 t2 d = Inl e \<Longrightarrow> e = ProjectDeletionClaimLostError"
    and "reschedule_deletion c at code t1 t2 d = Inl e \<Longrightarrow> e = ProjectDeletionClaimLostError"
    and "defer_deletion c at t1 t2 d = Inl e \<Longrightarrow> e = ProjectDeletionClaimLostError"
    and "claim_next_deletion wk lease locked token now d \<noteq> Inl e"
    and "finalize_deletion c now d = Inl e \<Longrightarrow> e = ProjectDeletionClaimLostError"
    and "disable_for_deletion i now d = Inl e \<Longrightarrow> e = PublicRouteProjectDeletingError"
proof -
  have oks: "deletions_ok d" "routes_ok d" "runtimes_home d"
    using ok by (simp_all add: deletion_tables_ok_def)
  show "renew_deletion c lease now d = Inl e \<Longrightarrow> e = ProjectDeletionClaimLostError"
  proof -
    assume run: "renew_deletion c lease now d = Inl e"
    have "update_deletion (xj_mine c now) (xj_extend (now + lease) now) d \<noteq> Inl e'" for e'
      by (rule update_deletion_total)
        (simp add: claimed_changes_check(5) deletions_okD(2) [OF oks(1)] xj_mine_def xj_held_def)
    with run show ?thesis by (auto simp: renew_deletion_def tx_fail_def tx_ret_def split: option.splits)
  qed
  show "phase_index q = phase_index p + 1 \<Longrightarrow> advance_deletion c p q t1 t2 d = Inl e \<Longrightarrow>
      e = ProjectDeletionClaimLostError"
    by (simp add: advance_deletion_def)
      (drule update_locked_raises [OF oks(1), rotated], auto intro: claimed_changes_check)
  show "fail_deletion c code retryable t1 t2 d = Inl e \<Longrightarrow> e = ProjectDeletionClaimLostError"
    unfolding fail_deletion_def
    by (drule update_locked_raises [OF oks(1), rotated], auto intro: claimed_changes_check)
  show "reschedule_deletion c at code t1 t2 d = Inl e \<Longrightarrow> e = ProjectDeletionClaimLostError"
    unfolding reschedule_deletion_def
    by (drule update_locked_raises [OF oks(1), rotated], auto intro: claimed_changes_check)
  show "defer_deletion c at t1 t2 d = Inl e \<Longrightarrow> e = ProjectDeletionClaimLostError"
    unfolding defer_deletion_def
    by (drule update_locked_raises [OF oks(1), rotated], auto intro: claimed_changes_check)
  show "claim_next_deletion wk lease locked token now d \<noteq> Inl e"
  proof (cases "claim_row (\<lambda>j. xj_claimable now j \<and> xj_project_id j \<notin> set locked)
      (\<lambda>j. (xj_available_at j, xj_created_at j, xj_project_id j))
      xj_project_id (xj_take wk token (now + lease) now) (t_deletion_jobs d)")
    case (Some jj)
    then obtain job jobs where c: "claim_row (\<lambda>j. xj_claimable now j \<and> xj_project_id j \<notin> set locked)
        (\<lambda>j. (xj_available_at j, xj_created_at j, xj_project_id j))
        xj_project_id (xj_take wk token (now + lease) now) (t_deletion_jobs d) = Some (job, jobs)"
      by (cases jj) auto
    obtain j where j: "j \<in> set (t_deletion_jobs d)" "xj_claimable now j"
      "job = xj_take wk token (now + lease) now j"
      by (rule claim_row_SomeD [OF c deletions_okD(1) [OF oks(1)]]) (rule that, simp_all)
    have "xj_checks job"
      using deletions_okD(2) [OF oks(1) j(1)] j(2)
      by (auto simp: j(3) xj_checks_def xj_take_def xj_claimable_def)
    then show ?thesis using c by (simp add: claim_next_deletion_def)
  qed (simp add: claim_next_deletion_def)
  show "finalize_deletion c now d = Inl e \<Longrightarrow> e = ProjectDeletionClaimLostError"
    using oks(3) by (auto simp: finalize_deletion_eq runtimes_home_def split: if_splits)
  show "disable_for_deletion i now d = Inl e \<Longrightarrow> e = PublicRouteProjectDeletingError"
    by (auto simp: disable_for_deletion_def tx_bind_def tx_ret_def disable_current_eq [OF oks(2)] Let_def
        split: option.splits if_splits)
qed

lemma safe_void: "safe E I m \<Longrightarrow> safe E I (void m)"
  by (simp add: void_def safe_bind safe_ret)

lemma safe_finally: "safe E I m \<Longrightarrow> safe E I c \<Longrightarrow> safe E I (finally_act m c)"
  unfolding finally_act_def on_error_def
  by (intro safe_bind safe_try safe_seq safe_raise safe_ret)

lemma safe_read: "safe E I (read_db f)"
  by (auto simp: safe_def keeps_def raises_only_def read_db_def tx_act_def tx_read_def)

lemma safe_repo_call2:
  assumes "ports_keep I P"
    and "\<And>t1 t2 w d a d'. I (w, d) \<Longrightarrow> m t1 t2 d = Inr (a, d') \<Longrightarrow> I (w, d')"
    and "\<And>t1 t2 w d e. I (w, d) \<Longrightarrow> m t1 t2 d = Inl e \<Longrightarrow> e \<in> E"
  shows "safe E I (repo_call2 P m)"
  unfolding repo_call2_def using assms
  by (intro safe_bind safe_get safe_repo_call) (auto simp: ports_keep_def)

section \<open>The worker's calls\<close>

abbreviation tables_ok :: "'w \<times> db \<Rightarrow> bool" where
  "tables_ok \<equiv> deletion_tables_ok"

definition provisioning_errors :: "exn set" where
  "provisioning_errors = {ProjectDatabaseProvisioningError stage code | stage code. True}"

definition secret_errors :: "exn set" where
  "secret_errors = insert SecretStoreBusyError (range SecretStoreError)"

definition teardown_errors :: "exn set" where
  "teardown_errors = insert ProjectDeletionClaimLostError (range RuntimeFailure)"

text \<open>The errors that the teardown does not turn into a failure of its own: those of file calls, and
  of a document whose route names a service by a value that cannot be hashed.\<close>

definition unhandled_errors :: "exn set" where
  "unhandled_errors = {OtherError ''OSError'', OtherError ''FileNotFoundError'', OtherError ''RecursionError'', OtherError ''TypeError''}"

text \<open>What the worker handles; \<open>escaping_errors\<close> are those it does not.\<close>

definition handled_errors :: "exn set" where
  "handled_errors = teardown_errors \<union> secret_errors"

definition escaping_errors :: "exn set" where
  "escaping_errors = insert PublicRouteProjectDeletingError unhandled_errors"

definition pass_errors :: "exn set" where
  "pass_errors = escaping_errors \<union> handled_errors"

text \<open>The outside world of the worker: each call keeps the tables and raises the errors its class
  documents; the teardown may call the guard and the heartbeat it is given.\<close>

definition teardown_safe :: "('w \<times> db) teardown_port \<Rightarrow> bool" where
  "teardown_safe port =
     (\<forall>i ds r g h. safe {} tables_ok g \<longrightarrow> safe {} tables_ok h \<longrightarrow>
        safe (teardown_errors \<union> unhandled_errors) tables_ok (port i ds r g h))"

definition secrets_safe :: "('w \<times> db) deletion_secrets \<Rightarrow> bool" where
  "secrets_safe S =
     (\<forall>i. safe secret_errors tables_ok (sx_acquire S i) \<and> safe {} tables_ok (sx_release S i) \<and>
        safe secret_errors tables_ok (sx_delete_subtree S i) \<and> safe secret_errors tables_ok (sx_subtree_absent S i))"

definition provisioner_safe :: "('w \<times> db) database_provisioner \<Rightarrow> bool" where
  "provisioner_safe D =
     (\<forall>i name role. safe provisioning_errors tables_ok (dp_acquire D i) \<and> safe {} tables_ok (dp_release D i) \<and>
        safe provisioning_errors tables_ok (dp_quiesce D i name role) \<and>
        safe provisioning_errors tables_ok (dp_drop_database D i name) \<and>
        safe provisioning_errors tables_ok (dp_drop_role D i role) \<and>
        safe provisioning_errors tables_ok (dp_verify_absent D i name role))"

definition deletion_surroundings :: "'w ports \<Rightarrow> ('w \<times> db) deletion_worker \<Rightarrow> bool" where
  "deletion_surroundings P W =
     (ports_keep tables_ok P \<and> teardown_safe (xw_teardown W) \<and> teardown_safe (xw_verify_absent W) \<and>
      secrets_safe (xw_secrets W) \<and> (\<forall>D. xw_provisioner W = Some D \<longrightarrow> provisioner_safe D))"

lemma handled_simps [simp]:
  "ProjectDeletionClaimLostError \<in> teardown_errors" "RuntimeFailure f \<in> teardown_errors"
  "SecretStoreError m \<in> secret_errors" "SecretStoreBusyError \<in> secret_errors"
  "teardown_errors \<subseteq> handled_errors" "secret_errors \<subseteq> handled_errors"
  "e \<in> teardown_errors \<Longrightarrow> e \<in> handled_errors" "e \<in> secret_errors \<Longrightarrow> e \<in> handled_errors"
  "ProjectDeletionClaimLostError \<in> handled_errors" "RuntimeFailure f \<in> handled_errors"
  by (auto simp: teardown_errors_def secret_errors_def handled_errors_def)

lemma deletion_failure_handled [simp]: "deletion_failure code retryable \<in> teardown_errors"
  by (simp add: deletion_failure_def)

lemma database_failure_handled [simp]: "database_failure code \<in> teardown_errors"
  by (simp add: database_failure_def)

lemma surroundings_ports: "deletion_surroundings P W \<Longrightarrow> ports_keep tables_ok P"
  by (simp add: deletion_surroundings_def)

lemma safe_heartbeat:
  assumes "deletion_surroundings P W"
  shows "safe {} tables_ok (deletion_heartbeat P W c)"
  unfolding deletion_heartbeat_def
  by (rule safe_try [where F = "{ProjectDeletionClaimLostError}"],
      intro safe_seq safe_void safe_ret safe_repo_call [OF surroundings_ports [OF assms]])
    (auto intro: safe_ret deletion_calls_keep(1) dest: deletion_calls_raise(1))

lemma safe_guard:
  assumes "deletion_surroundings P W"
  shows "safe {} tables_ok (deletion_guard P c b)"
  unfolding deletion_guard_def using surroundings_ports [OF assms]
  by (intro safe_bind safe_get safe_read) (simp add: ports_keep_def)

lemma safe_authorize:
  assumes "deletion_surroundings P W"
  shows "safe teardown_errors tables_ok (authorize P W c b)"
  unfolding authorize_def
  by (intro safe_bind safe_mono [OF safe_heartbeat [OF assms]])
    (auto intro!: safe_ret safe_raise safe_bind safe_mono [OF safe_guard [OF assms]])

lemma safe_advance:
  assumes "deletion_surroundings P W" "phase_index q = phase_index p + 1"
  shows "safe teardown_errors tables_ok (advance_claim P c p q)"
  unfolding advance_claim_def using assms(2)
  by (intro safe_bind safe_ret safe_repo_call2 [OF surroundings_ports [OF assms(1)]])
    (auto intro: deletion_calls_keep(2) dest: deletion_calls_raise(2))

lemma safe_defer:
  assumes "deletion_surroundings P W"
  shows "safe teardown_errors tables_ok (defer_claim P W c)"
  unfolding defer_claim_def using surroundings_ports [OF assms]
  by (intro safe_bind safe_get safe_void safe_repo_call2)
    (auto simp: ports_keep_def intro: deletion_calls_keep(5) dest: deletion_calls_raise(5))

lemma safe_persist:
  assumes "deletion_surroundings P W"
  shows "safe {} tables_ok (persist_failure P W c code retryable)"
proof -
  have "safe {ProjectDeletionClaimLostError} tables_ok (deletion_handle_failure P W c code retryable)"
    unfolding deletion_handle_failure_def reschedule_claim_def using surroundings_ports [OF assms]
    by (auto intro!: safe_bind safe_get safe_void safe_repo_call2 intro: deletion_calls_keep(3,4)
        dest: deletion_calls_raise(3,4) simp: ports_keep_def)
  then show ?thesis unfolding persist_failure_def by (rule safe_try) (auto intro: safe_ret)
qed

lemma safe_secret_lock:
  assumes "deletion_surroundings P W" "safe E tables_ok m" "secret_errors \<subseteq> E"
  shows "safe E tables_ok (with_secret_lock W i m)"
  using assms unfolding with_secret_lock_def deletion_surroundings_def secrets_safe_def
  by (intro safe_seq safe_finally) (auto intro: safe_mono)

lemma safe_database_lock:
  assumes world: "deletion_surroundings P W" and body: "\<And>b. safe teardown_errors tables_ok (body b)"
  shows "safe teardown_errors tables_ok (with_database_lock (xw_provisioner W) i body)"
proof (cases "xw_provisioner W")
  case None
  then show ?thesis by (simp add: with_database_lock_def safe_raise)
next
  case (Some D)
  then have D: "provisioner_safe D" using world by (simp add: deletion_surroundings_def)
  then have acquire: "safe provisioning_errors tables_ok (dp_acquire D i)" and release: "safe {} tables_ok (dp_release D i)"
    by (auto simp: provisioner_safe_def)
  have locked: "safe teardown_errors tables_ok (finally_act (body True) (dp_release D i))"
    by (intro safe_finally body safe_mono [OF release]) simp
  have enter: "safe teardown_errors tables_ok
      (case e of ProjectDatabaseProvisioningError stage code \<Rightarrow>
          if code = ''OPERATION_LOCK_BUSY'' then ret False else raise (database_failure code)
        | _ \<Rightarrow> raise e)" if "e \<in> provisioning_errors" for e
    using that by (auto simp: provisioning_errors_def intro!: safe_ret safe_raise)
  have leave: "safe teardown_errors tables_ok
      (case e of ProjectDatabaseProvisioningError stage code \<Rightarrow>
          if code = ''OPERATION_LOCK_BUSY'' then raise (OtherError ''RuntimeError'') else raise (database_failure code)
        | _ \<Rightarrow> raise e)" if "e \<in> teardown_errors" for e
  proof -
    from that have "e = ProjectDeletionClaimLostError \<or> (\<exists>f. e = RuntimeFailure f)"
      by (auto simp: teardown_errors_def)
    then show ?thesis by (auto intro!: safe_raise)
  qed
  show ?thesis
    unfolding with_database_lock_def Some option.case
  proof (intro safe_bind)
    show "safe teardown_errors tables_ok (if \<not> b then body False else try_act (finally_act (body True) (dp_release D i))
        (\<lambda>e. case e of ProjectDatabaseProvisioningError stage code \<Rightarrow>
            if code = ''OPERATION_LOCK_BUSY'' then raise (OtherError ''RuntimeError'') else raise (database_failure code)
          | _ \<Rightarrow> raise e))" for b
      using body safe_try [OF locked leave] by simp
    have "safe provisioning_errors tables_ok (seq_act (dp_acquire D i) (ret True))"
      by (intro safe_seq acquire safe_ret)
    then show "safe teardown_errors tables_ok (try_act (seq_act (dp_acquire D i) (ret True))
        (\<lambda>e. case e of ProjectDatabaseProvisioningError stage code \<Rightarrow>
            if code = ''OPERATION_LOCK_BUSY'' then ret False else raise (database_failure code)
          | _ \<Rightarrow> raise e))" by (rule safe_try) (rule enter)
  qed
qed

lemma safe_database_call:
  assumes world: "deletion_surroundings P W"
    and op: "\<And>D. provisioner_safe D \<Longrightarrow> safe provisioning_errors tables_ok (operation D)"
  shows "safe teardown_errors tables_ok (database_call (xw_provisioner W) operation)"
proof (cases "xw_provisioner W")
  case None
  then show ?thesis by (simp add: database_call_def safe_raise)
next
  case (Some D)
  then have "safe provisioning_errors tables_ok (operation D)"
    using world op by (simp add: deletion_surroundings_def)
  then show ?thesis
    unfolding database_call_def Some option.case
    by (rule safe_try) (auto simp: provisioning_errors_def intro!: safe_raise)
qed

lemma safe_database_operations:
  assumes world: "deletion_surroundings P W"
  shows "safe teardown_errors tables_ok (quiesce_database (xw_provisioner W) r)"
    "safe teardown_errors tables_ok (drop_database (xw_provisioner W) r)"
    "safe teardown_errors tables_ok (drop_role (xw_provisioner W) r)"
    "safe teardown_errors tables_ok (verify_database_absent (xw_provisioner W) r)"
  unfolding quiesce_database_def drop_database_def drop_role_def verify_database_absent_def
  by (rule safe_database_call [OF world], simp add: provisioner_safe_def)+

lemma safe_locked_operation:
  assumes world: "deletion_surroundings P W" and op: "safe teardown_errors tables_ok (operation r)"
  shows "safe teardown_errors tables_ok (locked_database_operation P W c r operation)"
proof -
  have inner: "safe teardown_errors tables_ok
      (if \<not> b then ret (False, None)
       else try_act (seq_act (authorize P W c True) (seq_act (operation r) (ret (True, None))))
              (\<lambda>e. case e of RuntimeFailure f \<Rightarrow> ret (True, Some f) | _ \<Rightarrow> raise e))" for b
  proof (cases b)
    case True
    have caught: "safe teardown_errors tables_ok (case e of RuntimeFailure f \<Rightarrow> ret (True, Some f) | _ \<Rightarrow> raise e)"
      if "e \<in> teardown_errors" for e
      using that by (cases e) (simp_all add: safe_ret safe_raise)
    have run: "safe teardown_errors tables_ok
        (seq_act (authorize P W c True) (seq_act (operation r) (ret (True, None :: runtime_failure option))))"
      by (intro safe_seq safe_authorize [OF world] op safe_ret)
    show ?thesis using True safe_try [OF run caught] by simp
  qed (simp add: safe_ret)
  show ?thesis
    unfolding locked_database_operation_def
    by (intro safe_bind safe_database_lock [OF world] inner)
      (auto intro!: safe_ret safe_raise split: option.splits)
qed

lemma safe_validated_resource: "safe teardown_errors tables_ok (validated_resource c)"
  unfolding validated_resource_def by (intro safe_bind safe_read) (simp add: safe_ret safe_raise)

lemma safe_database_phase:
  assumes "deletion_surroundings P W" "\<And>r. safe teardown_errors tables_ok (operation r)"
  shows "safe teardown_errors tables_ok (run_database_phase P W c operation)"
  unfolding run_database_phase_def
  by (intro safe_bind safe_validated_resource) (auto intro: safe_ret safe_locked_operation assms split: option.splits)

lemma safe_teardown_call:
  assumes world: "deletion_surroundings P W" and port: "teardown_safe port"
  shows "safe (teardown_errors \<union> unhandled_errors) tables_ok (teardown_call P W c port)"
  unfolding teardown_call_def
  by (intro safe_bind safe_read) (use port safe_guard [OF world] safe_heartbeat [OF world] in
      \<open>simp add: teardown_safe_def split: prod.splits\<close>)

lemma safe_locked_secrets:
  assumes world: "deletion_surroundings P W" and m: "safe secret_errors tables_ok m"
  shows "safe handled_errors tables_ok
    (try_act (with_secret_lock W (claim_project c) (seq_act (authorize P W c True) m))
       (\<lambda>e. if e = SecretStoreBusyError then raise busy_secret else raise e))"
  by (rule safe_try [where F = handled_errors], intro safe_secret_lock [OF world] safe_seq)
    (auto intro!: safe_mono [OF safe_authorize [OF world]] safe_mono [OF m] safe_raise simp: deletion_failure_def)

lemma safe_secret_ports:
  assumes "deletion_surroundings P W"
  shows "safe secret_errors tables_ok (sx_delete_subtree (xw_secrets W) i)"
    "safe secret_errors tables_ok (sx_subtree_absent (xw_secrets W) i)"
    "safe secret_errors tables_ok (sx_acquire (xw_secrets W) i)"
    "safe {} tables_ok (sx_release (xw_secrets W) i)"
  using assms by (simp_all add: deletion_surroundings_def secrets_safe_def)

lemma safe_clean_secrets:
  "deletion_surroundings P W \<Longrightarrow> safe handled_errors tables_ok (clean_secrets P W c)"
  unfolding clean_secrets_def by (rule safe_locked_secrets, assumption, rule safe_secret_ports)

lemma safe_verify:
  assumes world: "deletion_surroundings P W"
  shows "safe (handled_errors \<union> unhandled_errors) tables_ok (verify_final_absence P W c)"
proof -
  have "safe (handled_errors \<union> unhandled_errors) tables_ok (teardown_call P W c (xw_verify_absent W))"
    using world by (intro safe_mono [OF safe_teardown_call [OF world]]) (auto simp: deletion_surroundings_def)
  moreover have "safe (handled_errors \<union> unhandled_errors) tables_ok (bind_act (validated_resource c) (\<lambda>resource. case resource of
      None \<Rightarrow> ret ()
    | Some r \<Rightarrow> locked_database_operation P W c r (verify_database_absent (xw_provisioner W))))"
    by (rule safe_mono [where E = teardown_errors], rule safe_bind [OF safe_validated_resource])
      (auto intro: safe_ret safe_locked_operation [OF world] safe_database_operations [OF world] split: option.splits)
  moreover have "safe (handled_errors \<union> unhandled_errors) tables_ok
      (bind_act
        (try_act (with_secret_lock W (claim_project c)
            (seq_act (authorize P W c True) (sx_subtree_absent (xw_secrets W) (claim_project c))))
          (\<lambda>e. if e = SecretStoreBusyError then raise busy_secret else raise e))
        (\<lambda>absent. if \<not> absent then raise (deletion_failure ''PROJECT_SECRET_RESOURCES_REAPPEARED'' False) else ret ()))"
    by (rule safe_mono [where E = handled_errors], intro safe_bind safe_locked_secrets [OF world] safe_secret_ports [OF world])
      (auto intro!: safe_raise safe_ret)
  moreover have "safe (handled_errors \<union> unhandled_errors) tables_ok (authorize P W c True)"
    by (rule safe_mono [OF safe_authorize [OF world]]) auto
  ultimately show ?thesis
    unfolding verify_final_absence_def by (intro safe_seq)
qed

lemma safe_operations_drained:
  assumes world: "deletion_surroundings P W"
  shows "safe handled_errors tables_ok (operations_drained W c)"
proof -
  have lock: "safe handled_errors tables_ok (with_database_lock (xw_provisioner W) i ret)" for i
    by (rule safe_mono [OF safe_database_lock [OF world]]) (auto intro: safe_ret)
  have idle: "safe handled_errors tables_ok
      (try_act (seq_act (with_secret_lock W (claim_project c) (ret ())) (ret True))
         (\<lambda>e. if e = SecretStoreBusyError then ret False else raise e))"
    by (rule safe_try [where F = secret_errors], intro safe_seq safe_secret_lock [OF world] safe_ret)
      (auto intro!: safe_ret safe_raise)
  show ?thesis
    unfolding operations_drained_def
    by (intro safe_bind safe_read) (auto intro!: safe_bind safe_read safe_ret idle lock split: option.splits)
qed

section \<open>The pass\<close>

lemma pass_errors_simps [simp]:
  "teardown_errors \<subseteq> pass_errors" "handled_errors \<subseteq> pass_errors"
  "PublicRouteProjectDeletingError \<in> pass_errors" "ProjectDeletionClaimLostError \<in> pass_errors"
  "unhandled_errors \<subseteq> pass_errors" "handled_errors \<union> unhandled_errors \<subseteq> pass_errors"
  by (auto simp: pass_errors_def handled_errors_def escaping_errors_def)

lemma safe_turn:
  assumes world: "deletion_surroundings P W"
  shows "safe pass_errors tables_ok (deletion_turn P W c)"
proof -
  have go: "safe pass_errors tables_ok (bind_act (advance_claim P c p q) (\<lambda>c'. ret (Some c')))"
    if "phase_index q = phase_index p + 1" for p q
    using that by (intro safe_bind safe_mono [OF safe_advance [OF world]] safe_ret) simp_all
  have stop: "safe pass_errors tables_ok (seq_act (defer_claim P W c) (ret None))"
    by (intro safe_seq safe_ret safe_mono [OF safe_defer [OF world]]) simp
  have allowed: "safe pass_errors tables_ok (authorize P W c b)" for b
    by (rule safe_mono [OF safe_authorize [OF world]]) simp
  have drained: "safe pass_errors tables_ok (operations_drained W c)"
    by (rule safe_mono [OF safe_operations_drained [OF world]]) simp
  have removed: "safe pass_errors tables_ok (void (repo_call P (disable_for_deletion i)))" for i
    by (intro safe_void safe_repo_call [OF surroundings_ports [OF world]])
      (auto intro: deletion_calls_keep(8) dest: deletion_calls_raise(8))
  have ended: "safe pass_errors tables_ok (repo_call P (finalize_deletion c))"
    by (intro safe_repo_call [OF surroundings_ports [OF world]])
      (auto intro: deletion_calls_keep(7) dest: deletion_calls_raise(7))
  have torn: "safe pass_errors tables_ok (teardown_call P W c (xw_teardown W))"
    using world by (intro safe_mono [OF safe_teardown_call [OF world]]) (simp_all add: deletion_surroundings_def)
  have phases: "safe pass_errors tables_ok (run_database_phase P W c (quiesce_database (xw_provisioner W)))"
    "safe pass_errors tables_ok (run_database_phase P W c (drop_database (xw_provisioner W)))"
    "safe pass_errors tables_ok (run_database_phase P W c (drop_role (xw_provisioner W)))"
    by (intro safe_mono [OF safe_database_phase [OF world]] safe_database_operations [OF world], simp)+
  have clean: "safe pass_errors tables_ok (clean_secrets P W c)" "safe pass_errors tables_ok (verify_final_absence P W c)"
    by (rule safe_mono [OF safe_clean_secrets [OF world]], simp, rule safe_mono [OF safe_verify [OF world]], simp)
  show ?thesis
    by (cases "xj_phase (xc_job c)")
      (simp_all add: deletion_turn_def Let_def go stop safe_seq safe_bind safe_ret allowed drained removed ended torn
        phases clean safe_read)
qed

lemma safe_run:
  assumes world: "deletion_surroundings P W"
  shows "safe pass_errors tables_ok (run_deletion_claim P W n c)"
proof (induction n arbitrary: c)
  case (Suc n)
  then show ?case
    by (auto intro!: safe_bind safe_turn [OF world] safe_ret split: option.splits)
qed (simp add: safe_ret)

lemma safe_deletion_failed:
  assumes world: "deletion_surroundings P W" and e: "e \<in> pass_errors"
  shows "safe escaping_errors tables_ok (deletion_failed P W c e)"
proof -
  have persist: "safe escaping_errors tables_ok (seq_act (persist_failure P W c code b) (ret True))" for code b
    by (intro safe_seq safe_ret safe_mono [OF safe_persist [OF world]]) simp
  from e have "e \<in> escaping_errors \<or> e = ProjectDeletionClaimLostError \<or> (\<exists>f. e = RuntimeFailure f) \<or>
      e = SecretStoreBusyError \<or> (\<exists>m. e = SecretStoreError m)"
    by (auto simp: pass_errors_def handled_errors_def teardown_errors_def secret_errors_def)
  then show ?thesis
    by (auto simp: deletion_failed_def intro: safe_ret safe_raise persist split: exn.splits)
qed

lemma safe_claim_deletion:
  assumes world: "deletion_surroundings P W"
  shows "safe {} tables_ok (claim_deletion_act P W)"
  unfolding claim_deletion_act_def using surroundings_ports [OF world]
  by (intro safe_bind safe_get safe_repo_call)
    (auto simp: ports_keep_def deletion_calls_raise(6) intro: deletion_calls_keep(6))

lemma safe_deletion_run_once:
  assumes world: "deletion_surroundings P W"
  shows "safe escaping_errors tables_ok (deletion_run_once P W)"
proof -
  have claimed: "safe escaping_errors tables_ok
      (if xw_max_attempts W < xj_attempts (xc_job c)
       then seq_act (persist_failure P W c ''PROJECT_DELETION_ATTEMPTS_EXHAUSTED'' True) (ret True)
       else try_act (run_deletion_claim P W deletion_turns c) (deletion_failed P W c))" for c
    by (cases "xw_max_attempts W < xj_attempts (xc_job c)", simp_all only: if_True if_False)
      (intro safe_seq safe_ret safe_mono [OF safe_persist [OF world]] empty_subsetI,
        rule safe_try [OF safe_run [OF world]], rule safe_deletion_failed [OF world])
  show ?thesis
    unfolding deletion_run_once_def
  proof (intro safe_bind safe_mono [OF safe_claim_deletion [OF world]] empty_subsetI)
    fix claim
    show "safe escaping_errors tables_ok (case claim of None \<Rightarrow> ret False | Some c \<Rightarrow>
        if xw_max_attempts W < xj_attempts (xc_job c)
        then seq_act (persist_failure P W c ''PROJECT_DELETION_ATTEMPTS_EXHAUSTED'' True) (ret True)
        else try_act (run_deletion_claim P W deletion_turns c) (deletion_failed P W c))"
      by (cases claim) (simp_all only: option.case safe_ret claimed)
  qed
qed

end
