(* ===== verification/Deletion_Removal.thy ===== *)
theory Deletion_Removal
  imports Deletion_Passes Reconciliation_Repository
begin

text \<open>
  The end of a deletion: what is left of the database once every row of the project is gone, and
  the run of an undisturbed worker that gets there.
\<close>

section \<open>The invariants of all tables\<close>

definition control_db_ok :: "db \<Rightarrow> bool" where
  "control_db_ok d =
     (deployments_ok d \<and> artifacts_ok d \<and> reconciliations_ok d \<and> projects_ok d \<and> resources_ok d \<and>
      routes_ok d \<and> deletions_ok d)"

definition owned_by :: "uuid \<Rightarrow> db \<Rightarrow> uuid \<Rightarrow> bool" where
  "owned_by i d k = exists_row (\<lambda>x. dep_id x = k \<and> dep_project_id x = i) (t_deployments d)"

lemma without_project_more [simp]:
  "t_deployment_jobs (without_project i d) = del (\<lambda>j. owned_by i d (dj_deployment_id j)) (t_deployment_jobs d)"
  "t_deployment_events (without_project i d) = del (\<lambda>e. owned_by i d (ev_deployment_id e)) (t_deployment_events d)"
  "t_artifacts (without_project i d) = del (\<lambda>a. owned_by i d (art_deployment_id a)) (t_artifacts d)"
  "t_reconciliations (without_project i d) = del (\<lambda>r. owned_by i d (rc_deployment_id r)) (t_reconciliations d)"
  "t_environment_secrets (without_project i d) = del (\<lambda>s. es_project_id s = i) (t_environment_secrets d)"
  "t_database_resources (without_project i d) = del (\<lambda>r. res_project_id r = i) (t_database_resources d)"
  "t_event_seq (without_project i d) = t_event_seq d"
  "t_notifications (without_project i d) = t_notifications d"
  by (simp_all add: without_project_def owned_by_def Let_def)

text \<open>With distinct identifiers a deployment left behind is not one of the project's.\<close>

lemma owned_by_row:
  assumes "deployments_ok d" "x \<in> set (t_deployments d)"
  shows "owned_by i d (dep_id x) \<longleftrightarrow> dep_project_id x = i"
  using same_key_same_row [OF deployments_okD(1) [OF assms(1)]] assms(2)
  by (auto simp: owned_by_def exists_row_iff)

lemma deployment_ids_without:
  assumes "deployments_ok d"
  shows "deployment_ids (without_project i d) = {k \<in> deployment_ids d. \<not> owned_by i d k}"
  using owned_by_row [OF assms] by (auto simp: deployment_ids_def)

lemma without_project_deployments_ok:
  assumes ok: "deployments_ok d"
  shows "deployments_ok (without_project i d)"
proof -
  note D = deployments_okD [OF ok]
  have ids: "dep_id ` set (t_deployments (without_project i d)) =
      dj_deployment_id ` set (t_deployment_jobs (without_project i d))"
    using deployment_ids_without [OF ok, of i] D(6) by (auto simp: deployment_ids_def)
  have "sorted_wrt (<) (map ev_id (t_deployment_events (without_project i d)))"
    using D(8) by (simp add: events_ok_def del_def sorted_wrt_map sorted_wrt_filter)
  then have "events_ok (without_project i d)" using D(8) by (auto simp: events_ok_def)
  moreover have "one_active_deployment (without_project i d)"
    using D(7) by (simp add: one_active_deployment_def)
  ultimately show ?thesis
    using D(1-5) ids by (auto simp: deployments_ok_def dep_keys_ok_def dep_pairs_ok_def distinct_del)
qed

lemma without_project_artifacts_ok:
  assumes "artifacts_ok d"
  shows "artifacts_ok (without_project i d)"
  using assms by (fastforce simp: artifacts_ok_def artifact_row_ok_def distinct_del)

lemma without_project_reconciliations_ok:
  assumes "deployments_ok d" "reconciliations_ok d"
  shows "reconciliations_ok (without_project i d)"
  using assms(2) deployment_ids_without [OF assms(1)]
  by (auto simp: reconciliations_ok_def distinct_del)

lemma project_ids_without: "project_ids (without_project i d) = project_ids d - {i}"
  by (auto simp: project_ids_def)

lemma without_project_ok:
  assumes ok: "control_db_ok d"
  shows "control_db_ok (without_project i d)"
proof -
  have "projects_ok (without_project i d)" "resources_ok (without_project i d)"
    using ok by (auto simp: control_db_ok_def projects_ok_def secrets_ok_def resources_ok_def distinct_del project_ids_without)
  then show ?thesis
    using ok without_project_deployments_ok without_project_artifacts_ok without_project_reconciliations_ok
      without_project_routes_ok without_project_deletions_ok by (auto simp: control_db_ok_def)
qed

text \<open>No table mentions the project.\<close>

definition project_absent :: "uuid \<Rightarrow> db \<Rightarrow> bool" where
  "project_absent i d =
     (i \<notin> prj_id ` set (t_projects d) \<and> i \<notin> es_project_id ` set (t_environment_secrets d) \<and>
      i \<notin> res_project_id ` set (t_database_resources d) \<and> i \<notin> dep_project_id ` set (t_deployments d) \<and>
      i \<notin> pr_project_id ` set (t_runtimes d) \<and> i \<notin> rt_project_id ` set (t_routes d) \<and>
      i \<notin> rj_project_id ` set (t_route_jobs d) \<and> i \<notin> xj_project_id ` set (t_deletion_jobs d))"

lemma without_project_absent: "project_absent i (without_project i d)"
  by (auto simp: project_absent_def)

section \<open>An undisturbed deletion\<close>

text \<open>Programs of the outside that do their work without touching the database; the teardown only
  through the guard and the heartbeat it is given.\<close>

definition quietly :: "('a \<Rightarrow> bool) \<Rightarrow> ('w \<times> db, 'a) act \<Rightarrow> bool" where
  "quietly Q m = (\<forall>s. \<exists>a w. m s = (Inr a, (w, snd s)) \<and> Q a)"

abbreviation no_error :: "exn \<Rightarrow> 's \<Rightarrow> bool" where
  "no_error \<equiv> \<lambda>_ _. False"

definition grants :: "(db \<Rightarrow> bool) \<Rightarrow> ('w \<times> db, bool) act \<Rightarrow> bool" where
  "grants J m = (\<forall>s. J (snd s) \<longrightarrow> wp m (\<lambda>b s'. b \<and> J (snd s')) no_error s)"

definition teardown_works :: "('w \<times> db) teardown_port \<Rightarrow> bool" where
  "teardown_works port =
     (\<forall>J i ds r g h s. grants J g \<longrightarrow> grants J h \<longrightarrow> J (snd s) \<longrightarrow>
        wp (port i ds r g h) (\<lambda>_ s'. J (snd s')) no_error s)"

definition secrets_work :: "('w \<times> db) deletion_secrets \<Rightarrow> bool" where
  "secrets_work S =
     (\<forall>i. quietly (\<lambda>_. True) (sx_acquire S i) \<and> quietly (\<lambda>_. True) (sx_release S i) \<and>
        quietly (\<lambda>_. True) (sx_delete_subtree S i) \<and> quietly (\<lambda>b. b) (sx_subtree_absent S i))"

definition provisioner_works :: "('w \<times> db) database_provisioner \<Rightarrow> bool" where
  "provisioner_works D =
     (\<forall>i name role. quietly (\<lambda>_. True) (dp_acquire D i) \<and> quietly (\<lambda>_. True) (dp_release D i) \<and>
        quietly (\<lambda>_. True) (dp_quiesce D i name role) \<and> quietly (\<lambda>_. True) (dp_drop_database D i name) \<and>
        quietly (\<lambda>_. True) (dp_drop_role D i role) \<and> quietly (\<lambda>_. True) (dp_verify_absent D i name role))"

text \<open>Nothing stands in the way of the deletion of a project: the outside works, its operations have
  drained, its route is gone and no other project's runtime refers to it.\<close>

definition nothing_blocks :: "'w ports \<Rightarrow> ('w \<times> db) deletion_worker \<Rightarrow> time \<Rightarrow> uuid \<Rightarrow> db \<Rightarrow> bool" where
  "nothing_blocks P W t i d =
     ((\<forall>s. p_clock P s = (t, s)) \<and> 0 < xw_lease_duration W \<and>
      teardown_works (xw_teardown W) \<and> teardown_works (xw_verify_absent W) \<and> secrets_work (xw_secrets W) \<and>
      (\<forall>D. xw_provisioner W = Some D \<longrightarrow> provisioner_works D) \<and>
      (get_resource i d \<noteq> None \<longrightarrow> xw_provisioner W \<noteq> None) \<and>
      project_fenced d i \<and> deletion_is_applied i d \<and> deletion_operations_drained i d \<and> \<not> runtime_elsewhere i d)"

text \<open>The database while the worker is in phase \<open>p\<close>: only the job has changed.\<close>

definition stage :: "deletion_claim \<Rightarrow> time \<Rightarrow> db \<Rightarrow> deletion_phase \<Rightarrow> db \<Rightarrow> bool" where
  "stage c t d0 p d =
     (deletions_ok d \<and> d\<lparr>t_deletion_jobs := []\<rparr> = d0\<lparr>t_deletion_jobs := []\<rparr> \<and>
      del (\<lambda>j. xj_project_id j = claim_project c) (t_deletion_jobs d) =
        del (\<lambda>j. xj_project_id j = claim_project c) (t_deletion_jobs d0) \<and>
      (\<exists>j\<in>set (t_deletion_jobs d). xj_mine c t j \<and> xj_phase j = p \<and>
         xj_delete_managed_database j = (get_resource (claim_project c) d0 \<noteq> None)))"

lemma stage_frame:
  assumes "stage c t d0 p d"
  shows "t_projects d = t_projects d0" "t_routes d = t_routes d0" "t_route_jobs d = t_route_jobs d0"
    "t_deployments d = t_deployments d0" "t_deployment_jobs d = t_deployment_jobs d0" "t_runtimes d = t_runtimes d0"
    "t_reconciliations d = t_reconciliations d0" "t_database_resources d = t_database_resources d0"
proof -
  have eq: "d\<lparr>t_deletion_jobs := []\<rparr> = d0\<lparr>t_deletion_jobs := []\<rparr>" using assms by (simp add: stage_def)
  show "t_projects d = t_projects d0" using arg_cong [OF eq, of t_projects] by simp
  show "t_routes d = t_routes d0" using arg_cong [OF eq, of t_routes] by simp
  show "t_route_jobs d = t_route_jobs d0" using arg_cong [OF eq, of t_route_jobs] by simp
  show "t_deployments d = t_deployments d0" using arg_cong [OF eq, of t_deployments] by simp
  show "t_deployment_jobs d = t_deployment_jobs d0" using arg_cong [OF eq, of t_deployment_jobs] by simp
  show "t_runtimes d = t_runtimes d0" using arg_cong [OF eq, of t_runtimes] by simp
  show "t_reconciliations d = t_reconciliations d0" using arg_cong [OF eq, of t_reconciliations] by simp
  show "t_database_resources d = t_database_resources d0" using arg_cong [OF eq, of t_database_resources] by simp
qed

lemma stage_reads:
  assumes s: "stage c t d0 p d"
  shows "get_resource i d = get_resource i d0" "deletion_is_applied i d = deletion_is_applied i d0"
    "deletion_operations_drained i d = deletion_operations_drained i d0" "project_fenced d i = project_fenced d0 i"
    "project_is_deleting i d = project_is_deleting i d0" "runtime_elsewhere i d = runtime_elsewhere i d0"
  unfolding get_resource_def deletion_is_applied_def deletion_operations_drained_def project_fenced_def
    project_is_deleting_def runtime_elsewhere_def stage_frame [OF s] by simp_all

lemma stage_without:
  assumes s: "stage c t d0 p d"
  shows "without_project (claim_project c) d = without_project (claim_project c) d0"
proof -
  let ?i = "claim_project c"
  have "d\<lparr>t_deletion_jobs := []\<rparr>\<lparr>t_deletion_jobs := t_deletion_jobs d\<rparr> =
      d0\<lparr>t_deletion_jobs := []\<rparr>\<lparr>t_deletion_jobs := t_deletion_jobs d\<rparr>"
    using s by (simp only: stage_def)
  then have d: "d = d0\<lparr>t_deletion_jobs := t_deletion_jobs d\<rparr>" by simp
  have jobs: "without_project ?i (d0\<lparr>t_deletion_jobs := js\<rparr>) =
      (without_project ?i d0)\<lparr>t_deletion_jobs := del (\<lambda>j. xj_project_id j = ?i) js\<rparr>" for js
    by (simp add: without_project_def Let_def)
  have "without_project ?i d = (without_project ?i d0)\<lparr>t_deletion_jobs :=
      del (\<lambda>j. xj_project_id j = ?i) (t_deletion_jobs d)\<rparr>"
    by (subst d) (rule jobs)
  also have "\<dots> = without_project ?i d0"
    using s unfolding stage_def by (simp add: without_project_def Let_def)
  finally show ?thesis .
qed

lemma del_upd:
  "(\<And>x. x \<in> set rows \<Longrightarrow> P x \<Longrightarrow> Q x \<and> Q (f x)) \<Longrightarrow> del Q (upd P f rows) = del Q rows"
  by (induction rows) (auto simp: del_def upd_def)

text \<open>An update of the claim's own job.\<close>

lemma stage_update:
  assumes s: "stage c t d0 p d"
    and P: "\<And>j. xj_mine c t j \<Longrightarrow> xj_phase j = p \<Longrightarrow> P j" "\<And>j. P j \<Longrightarrow> xj_project_id j = claim_project c"
    and f: "\<And>j. xj_mine c t j \<Longrightarrow> xj_mine c t (f j) \<and> xj_phase (f j) = (if q = None then xj_phase j else the q) \<and>
        xj_delete_managed_database (f j) = xj_delete_managed_database j \<and> (xj_checks j \<longrightarrow> xj_checks (f j)) \<and>
        xj_created_at (f j) = xj_created_at j"
  obtains j d' where "update_deletion P f d = Inr (Some (f j), d')" "xj_mine c t (f j)"
    "xj_delete_managed_database (f j) = (get_resource (claim_project c) d0 \<noteq> None)"
    "stage c t d0 (if q = None then p else the q) d'"
proof -
  let ?i = "claim_project c"
  obtain j where j: "j \<in> set (t_deletion_jobs d)" "xj_mine c t j" "xj_phase j = p"
    "xj_delete_managed_database j = (get_resource ?i d0 \<noteq> None)"
    using s by (auto simp: stage_def)
  have ok: "deletions_ok d" using s by (simp add: stage_def)
  note K = deletions_okD(1) [OF ok]
  have Pj: "P j" by (rule P(1) [OF j(2,3)])
  have F: "xj_mine c t (f j)" "xj_phase (f j) = (if q = None then p else the q)" "xj_checks (f j)"
    "xj_delete_managed_database (f j) = (get_resource ?i d0 \<noteq> None)"
    using f [OF j(2)] j(3,4) deletions_okD(2) [OF ok j(1)] by simp_all
  let ?d' = "d\<lparr>t_deletion_jobs := upd P f (t_deletion_jobs d)\<rparr>"
  have id: "xj_project_id (f j) = ?i" "xj_project_id j = ?i" using F(1) j(2) by (simp_all add: xj_mine_def)
  have found: "fetch P (t_deletion_jobs d) = Some j"
    by (rule fetch_unique [where k = xj_project_id and P = P, OF K j(1) Pj]) (simp add: P(2) id(2))
  have only: "x = j" if "x \<in> set (t_deletion_jobs d)" "P x" for x
    by (rule same_key_same_row [OF K that(1) j(1)]) (simp add: P(2) [OF that(2)] id(2))
  have upd: "update_deletion P f d = Inr (Some (f j), ?d')"
    using found F(3) by (simp add: update_deletion_def returning_def)
  have keys: "map xj_project_id (upd P f (t_deletion_jobs d)) = map xj_project_id (t_deletion_jobs d)"
    unfolding upd_def map_map by (rule map_cong [OF refl]) (use only id in \<open>fastforce simp: comp_def\<close>)
  have rows: "y = f j \<or> y \<in> set (t_deletion_jobs d)" if y: "y \<in> set (upd P f (t_deletion_jobs d))" for y
    using y by (rule in_updE) (use only in blast)+
  have same: "project_is_deleting k ?d' = project_is_deleting k d" for k by (simp add: project_is_deleting_def)
  have "xj_checks y \<and> project_is_deleting (xj_project_id y) ?d'" if "y \<in> set (t_deletion_jobs ?d')" for y
    using rows [of y] that F(3) id deletions_okD(2) [OF ok] deletions_okD(3) [OF ok] deletions_okD(3) [OF ok j(1)]
    unfolding same by auto
  then have "deletions_ok ?d'" using keys K unfolding deletions_ok_def by simp
  moreover have "del (\<lambda>j. xj_project_id j = ?i) (upd P f (t_deletion_jobs d)) =
      del (\<lambda>j. xj_project_id j = ?i) (t_deletion_jobs d)"
    by (rule del_upd) (use only id in blast)
  moreover have "f j \<in> set (upd P f (t_deletion_jobs d))" using j(1) Pj by (auto simp: set_upd)
  ultimately have "stage c t d0 (if q = None then p else the q) ?d'"
    using s F by (auto simp: stage_def)
  then show ?thesis using that [OF upd F(1) F(4)] by blast
qed

lemma stage_lock:
  assumes "stage c t d0 p d" shows "exists_row (xj_mine c t) (t_deletion_jobs d)"
  using assms by (auto simp: stage_def exists_row_iff)

lemma clock_wp:
  assumes "\<forall>s. p_clock P s = (t, s)"
  shows "wp (repo_call P m) Q E s = wp (tx_act (m t)) Q E s" "wp (repo_call2 P n) Q E s = wp (tx_act (n t t)) Q E s"
  by (simp_all add: repo_call_def repo_call2_def wp_bind wp_get assms)

lemma tx_wp: "wp (tx_act m) Q E s = (case m (snd s) of Inl e \<Rightarrow> E e s | Inr (a, d') \<Rightarrow> Q a (fst s, d'))"
  by (cases s) (simp add: wp_def tx_act_def split: sum.split)

lemma read_wp: "wp (read_db f) Q E s = Q (f (snd s)) s"
  by (cases s) (simp add: read_db_def tx_wp tx_read_def)

lemma quietly_wp: "quietly R m \<Longrightarrow> (\<And>a w. R a \<Longrightarrow> Q a (w, snd s)) \<Longrightarrow> wp m Q E s"
  unfolding quietly_def wp_def by (metis (mono_tags, lifting) case_prod_conv sum.case(2))

lemma finally_wp:
  assumes "wp m (\<lambda>a s'. wp c (\<lambda>_. Q a) E s') no_error s"
  shows "wp (finally_act m c) Q E s"
proof -
  have "wp (on_error m c) (\<lambda>a s'. wp c (\<lambda>_. Q a) E s') E s"
    unfolding on_error_def wp_try by (rule wp_mono [OF assms]) simp_all
  moreover have "wp (ret a) Q E = Q a" for a by (rule ext) (rule wp_ret)
  ultimately show ?thesis by (simp add: finally_act_def wp_bind wp_seq [abs_def])
qed

lemma heartbeat_wp:
  assumes quiet: "nothing_blocks P W t i d0" and s: "stage c t d0 p (snd s)"
  shows "wp (deletion_heartbeat P W c) (\<lambda>b s'. b \<and> stage c t d0 p (snd s')) no_error s"
proof -
  have C: "\<forall>s. p_clock P s = (t, s)" and l: "0 < xw_lease_duration W" using quiet by (simp_all add: nothing_blocks_def)
  obtain j d' where u: "update_deletion (xj_mine c t) (xj_extend (t + xw_lease_duration W) t) (snd s) = Inr (Some j, d')"
    "stage c t d0 p d'"
    by (rule stage_update [where q = None and P = "xj_mine c t" and f = "xj_extend (t + xw_lease_duration W) t", OF s])
      (use l claimed_changes_check(5) in \<open>auto simp: xj_mine_def xj_held_def xj_extend_def intro: that\<close>)
  then show ?thesis
    by (simp add: deletion_heartbeat_def void_def wp_simps clock_wp [OF C] tx_wp renew_deletion_def tx_bind_def tx_ret_def)
qed

lemma guard_wp:
  assumes quiet: "nothing_blocks P W t (claim_project c) d0" and s: "stage c t d0 p (snd s)"
  shows "wp (deletion_guard P c b) (\<lambda>b s'. b \<and> stage c t d0 p (snd s')) no_error s"
proof -
  have "deletion_mutation_allowed c b t (snd s)"
    using quiet stage_lock [OF s] stage_reads [OF s]
    by (auto simp: deletion_mutation_allowed_def nothing_blocks_def project_fenced_def project_is_deleting_def
        exists_row_iff dest: fetch_SomeD)
  moreover have "p_clock P s = (t, s)" using quiet unfolding nothing_blocks_def by blast
  ultimately show ?thesis using s by (simp add: deletion_guard_def wp_simps read_wp)
qed

lemma authorize_wp:
  assumes quiet: "nothing_blocks P W t (claim_project c) d0" and s: "stage c t d0 p (snd s)"
  shows "wp (authorize P W c b) (\<lambda>_ s'. stage c t d0 p (snd s')) no_error s"
  unfolding authorize_def wp_bind
  by (rule wp_mono [OF heartbeat_wp [OF quiet s]])
    (auto simp: wp_simps intro: wp_mono [OF guard_wp [OF quiet]])

text \<open>The claim after an advance.\<close>

definition follows :: "deletion_claim \<Rightarrow> db \<Rightarrow> deletion_phase \<Rightarrow> deletion_claim \<Rightarrow> bool" where
  "follows c d0 p c' =
     (claim_project c' = claim_project c \<and> xc_token c' = xc_token c \<and> xc_worker_id c' = xc_worker_id c \<and>
      xj_phase (xc_job c') = p \<and>
      xj_delete_managed_database (xc_job c') = (get_resource (claim_project c) d0 \<noteq> None))"

lemma follows_stage: "follows c d0 q c' \<Longrightarrow> stage c' t d0 p d = stage c t d0 p d"
  by (simp add: follows_def stage_def xj_mine_def)

lemma advance_wp:
  assumes quiet: "nothing_blocks P W t i d0" and s: "stage c t d0 p (snd s)"
    and q: "phase_index q = phase_index p + 1"
  shows "wp (advance_claim P c p q) (\<lambda>c' s'. follows c d0 q c' \<and> stage c t d0 q (snd s')) no_error s"
proof -
  have C: "\<forall>s. p_clock P s = (t, s)" using quiet by (simp add: nothing_blocks_def)
  obtain j d' where u: "update_deletion (\<lambda>j. xj_project_id j = claim_project c \<and> xj_phase j = p)
        (xj_phase_set q t) (snd s) = Inr (Some (xj_phase_set q t j), d')"
      "xj_mine c t (xj_phase_set q t j)"
      "xj_delete_managed_database (xj_phase_set q t j) = (get_resource (claim_project c) d0 \<noteq> None)"
      "stage c t d0 q d'"
    by (rule stage_update [where q = "Some q" and P = "\<lambda>j. xj_project_id j = claim_project c \<and> xj_phase j = p"
          and f = "xj_phase_set q t", OF s])
      (auto simp: xj_mine_def xj_held_def xj_phase_set_def xj_checks_def intro: that)
  have "advance_deletion c p q t t (snd s) = Inr (xj_phase_set q t j, d')"
    using q u(1) stage_lock [OF s]
    by (simp add: advance_deletion_def update_locked_deletion_def tx_seq_def tx_bind_def deletion_lock_claim_def tx_require_def)
  then show ?thesis
    using u by (simp add: advance_claim_def wp_simps clock_wp [OF C] tx_wp follows_def xj_mine_def xj_phase_set_def)
qed

section \<open>Total correctness on the database\<close>

text \<open>From a database with \<open>J\<close> the program returns, with an answer in \<open>R\<close> and a database with \<open>K\<close>.\<close>

definition works :: "(db \<Rightarrow> bool) \<Rightarrow> ('a \<Rightarrow> bool) \<Rightarrow> (db \<Rightarrow> bool) \<Rightarrow> ('w \<times> db, 'a) act \<Rightarrow> bool" where
  "works J R K m = (\<forall>s. J (snd s) \<longrightarrow> wp m (\<lambda>a s'. R a \<and> K (snd s')) no_error s)"

lemma worksD: "works J R K m \<Longrightarrow> J (snd s) \<Longrightarrow> \<exists>a s'. m s = (Inr a, s') \<and> R a \<and> K (snd s')"
  unfolding works_def wp_def by (cases "m s"; cases "fst (m s)") fastforce+

lemma works_ret: "R a \<Longrightarrow> works J R J (ret a)"
  by (simp add: works_def wp_ret)

lemma works_bind: "works J R K m \<Longrightarrow> (\<And>a. R a \<Longrightarrow> works K S L (f a)) \<Longrightarrow> works J S L (bind_act m f)"
  unfolding works_def wp_bind by (blast intro: wp_mono)

lemma works_seq: "works J R K m \<Longrightarrow> works K S L n \<Longrightarrow> works J S L (seq_act m n)"
  unfolding seq_act_def by (rule works_bind)

lemma works_try: "works J R K m \<Longrightarrow> works J R K (try_act m h)"
  unfolding works_def wp_try by (blast intro: wp_mono)

lemma works_finally: "works J R K m \<Longrightarrow> works K (\<lambda>_. True) L c \<Longrightarrow> works J R L (finally_act m c)"
  unfolding finally_act_def on_error_def
  by (rule works_bind, erule works_try, erule works_seq, erule works_ret)

lemma works_quiet: "quietly R m \<Longrightarrow> works J R J m"
  unfolding works_def by (intro allI impI quietly_wp [where R = R]) auto

lemma works_read: "(\<And>d. J d \<Longrightarrow> R (f d)) \<Longrightarrow> works J R J (read_db f)"
  by (simp add: works_def read_wp)

lemma works_weaken: "works J R K m \<Longrightarrow> (\<And>a. R a \<Longrightarrow> S a) \<Longrightarrow> works J S K m"
  unfolding works_def by (blast intro: wp_mono)

lemma works_heartbeat: "nothing_blocks P W t i d0 \<Longrightarrow> works (stage c t d0 p) (\<lambda>b. b) (stage c t d0 p) (deletion_heartbeat P W c)"
  unfolding works_def using heartbeat_wp by blast

lemma works_guard:
  "nothing_blocks P W t (claim_project c) d0 \<Longrightarrow> works (stage c t d0 p) (\<lambda>b. b) (stage c t d0 p) (deletion_guard P c b)"
  unfolding works_def using guard_wp by blast

lemma works_authorize:
  "nothing_blocks P W t (claim_project c) d0 \<Longrightarrow>
   works (stage c t d0 p) (\<lambda>_. True) (stage c t d0 p) (authorize P W c b)"
  unfolding works_def by (intro allI impI) (simp add: authorize_wp)

lemma works_advance:
  "nothing_blocks P W t i d0 \<Longrightarrow> phase_index q = phase_index p + 1 \<Longrightarrow>
   works (stage c t d0 p) (follows c d0 q) (stage c t d0 q) (advance_claim P c p q)"
  unfolding works_def using advance_wp by blast

lemma works_go:
  "nothing_blocks P W t i d0 \<Longrightarrow> phase_index q = phase_index p + 1 \<Longrightarrow>
   works (stage c t d0 p) (\<lambda>r. \<exists>c'. r = Some c' \<and> follows c d0 q c') (stage c t d0 q)
     (bind_act (advance_claim P c p q) (\<lambda>c'. ret (Some c')))"
  by (rule works_bind [OF works_advance]) (auto intro: works_ret)

lemma works_secret_lock:
  assumes quiet: "nothing_blocks P W t i d0" and m: "works J R K m"
  shows "works J R K (with_secret_lock W k m)"
proof -
  have S: "quietly (\<lambda>_. True) (sx_acquire (xw_secrets W) k)" "quietly (\<lambda>_. True) (sx_release (xw_secrets W) k)"
    using quiet unfolding nothing_blocks_def secrets_work_def by blast+
  show ?thesis
    unfolding with_secret_lock_def
    by (rule works_seq [OF works_quiet [OF S(1)]], rule works_finally [OF m], rule works_quiet [OF S(2)])
qed

lemma works_database_lock:
  assumes quiet: "nothing_blocks P W t i d0" and some: "xw_provisioner W \<noteq> None" and body: "works J R K (body True)"
  shows "works J R K (with_database_lock (xw_provisioner W) k body)"
proof -
  obtain D where D: "xw_provisioner W = Some D" "provisioner_works D"
    using quiet some by (auto simp: nothing_blocks_def)
  have Q: "quietly (\<lambda>_. True) (dp_acquire D k)" "quietly (\<lambda>_. True) (dp_release D k)"
    using D(2) unfolding provisioner_works_def by blast+
  have enter: "works J (\<lambda>b. b) J (seq_act (dp_acquire D k) (ret True))"
    by (rule works_seq [OF works_quiet [OF Q(1)]]) (simp add: works_ret)
  have inside: "works J R K (finally_act (body True) (dp_release D k))"
    by (rule works_finally [OF body works_quiet [OF Q(2)]])
  show ?thesis
    unfolding with_database_lock_def D(1) option.case
    by (rule works_bind [OF works_try [OF enter]]) (simp add: works_try [OF inside])
qed

lemma works_teardown:
  assumes quiet: "nothing_blocks P W t (claim_project c) d0" and port: "teardown_works port"
  shows "works (stage c t d0 p) (\<lambda>_. True) (stage c t d0 p) (teardown_call P W c port)"
proof -
  have "grants (stage c t d0 p) (deletion_guard P c True)" "grants (stage c t d0 p) (deletion_heartbeat P W c)"
    using works_guard [OF quiet] works_heartbeat [OF quiet] by (auto simp: grants_def works_def)
  then have "works (stage c t d0 p) (\<lambda>_. True) (stage c t d0 p)
      (port i ds r (deletion_guard P c True) (deletion_heartbeat P W c))" for i ds r
    using port unfolding teardown_works_def works_def by simp
  then show ?thesis
    unfolding teardown_call_def by (intro works_bind [OF works_read [where R = "\<lambda>_. True"]]) (simp_all split: prod.splits)
qed

lemma works_locked_operation:
  assumes quiet: "nothing_blocks P W t (claim_project c) d0" and some: "xw_provisioner W \<noteq> None"
    and op: "works (stage c t d0 p) (\<lambda>_. True) (stage c t d0 p) (operation r)"
  shows "works (stage c t d0 p) (\<lambda>_. True) (stage c t d0 p) (locked_database_operation P W c r operation)"
proof -
  have "works (stage c t d0 p) (\<lambda>x. x = (True, None)) (stage c t d0 p)
      (with_database_lock (xw_provisioner W) (res_id r) (\<lambda>acquired.
         if \<not> acquired then ret (False, None)
         else try_act (seq_act (authorize P W c True) (seq_act (operation r) (ret (True, None))))
                (\<lambda>e. case e of RuntimeFailure f \<Rightarrow> ret (True, Some f) | _ \<Rightarrow> raise e)))"
    by (rule works_database_lock [OF quiet some], simp, rule works_try)
      (rule works_seq [OF works_authorize [OF quiet]], rule works_seq [OF op], simp add: works_ret)
  then show ?thesis
    unfolding locked_database_operation_def by (rule works_bind) (auto intro: works_ret)
qed

lemma works_resource:
  assumes quiet: "nothing_blocks P W t (claim_project c) d0"
    and c: "xj_delete_managed_database (xc_job c) = (get_resource (claim_project c) d0 \<noteq> None)"
    and op: "\<And>D r. xw_provisioner W = Some D \<Longrightarrow> provisioner_works D \<Longrightarrow>
      works (stage c t d0 p) (\<lambda>_. True) (stage c t d0 p) (operation r)"
  shows "works (stage c t d0 p) (\<lambda>_. True) (stage c t d0 p)
    (bind_act (validated_resource c) (\<lambda>resource. case resource of None \<Rightarrow> ret ()
       | Some r \<Rightarrow> locked_database_operation P W c r operation))"
proof -
  have "works (stage c t d0 p) (\<lambda>r. r = get_resource (claim_project c) d0) (stage c t d0 p) (validated_resource c)"
    unfolding validated_resource_def
    by (rule works_bind [OF works_read [where R = "\<lambda>r. r = get_resource (claim_project c) d0"]])
      (simp_all add: stage_reads c works_ret)
  then show ?thesis
  proof (rule works_bind)
    fix r assume r: "r = get_resource (claim_project c) d0"
    show "works (stage c t d0 p) (\<lambda>_. True) (stage c t d0 p)
      (case r of None \<Rightarrow> ret () | Some r \<Rightarrow> locked_database_operation P W c r operation)"
    proof (cases r)
      case (Some x)
      then obtain D where D: "xw_provisioner W = Some D" "provisioner_works D"
        using quiet r by (auto simp: nothing_blocks_def)
      show ?thesis using works_locked_operation [OF quiet _ op [OF D]] D(1) Some by simp
    qed (simp add: works_ret)
  qed
qed

section \<open>The turns of an undisturbed deletion\<close>

lemma disable_when_applied:
  assumes "project_fenced d i" "deletion_is_applied i d"
  shows "\<exists>r. disable_for_deletion i now d = Inr (r, d)"
proof (cases "route_of d i")
  case None
  then show ?thesis using assms(1) by (auto simp: disable_for_deletion_def project_fenced_def)
next
  case (Some r)
  then have "rt_desired_state r = DISABLED" "rt_status r = R_INACTIVE"
    using fetch_SomeD [OF Some] assms(2) by (auto simp: deletion_is_applied_def exists_row_iff)
  then show ?thesis
    using assms(1) Some by (auto simp: disable_for_deletion_def project_fenced_def disable_current_def tx_bind_def tx_ret_def)
qed

lemma works_database_operations:
  assumes "xw_provisioner W = Some D" "provisioner_works D"
  shows "works J (\<lambda>_. True) J (quiesce_database (xw_provisioner W) r)"
    "works J (\<lambda>_. True) J (drop_database (xw_provisioner W) r)"
    "works J (\<lambda>_. True) J (drop_role (xw_provisioner W) r)"
    "works J (\<lambda>_. True) J (verify_database_absent (xw_provisioner W) r)"
  using assms(2) unfolding assms(1) provisioner_works_def quiesce_database_def drop_database_def drop_role_def
    verify_database_absent_def database_call_def option.case
  by (intro works_try works_quiet, blast)+

lemma works_operations_drained:
  assumes quiet: "nothing_blocks P W t (claim_project c) d0"
  shows "works (stage c t d0 p) (\<lambda>b. b) (stage c t d0 p) (operations_drained W c)"
proof -
  let ?J = "stage c t d0 p"
  have drained: "works ?J (\<lambda>b. b) ?J (read_db (deletion_operations_drained (claim_project c)))"
    by (rule works_read) (use quiet in \<open>simp add: stage_reads nothing_blocks_def\<close>)
  have idle: "works ?J (\<lambda>b. b) ?J
      (try_act (seq_act (with_secret_lock W (claim_project c) (ret ())) (ret True))
         (\<lambda>e. if e = SecretStoreBusyError then ret False else raise e))"
    by (rule works_try, rule works_seq [OF works_secret_lock [OF quiet works_ret [where R = "\<lambda>_. True"]]])
      (simp_all add: works_ret)
  have lock: "works ?J (\<lambda>b. b) ?J (case r of None \<Rightarrow> ret True | Some r \<Rightarrow> with_database_lock (xw_provisioner W) (res_id r) ret)"
    if "r = get_resource (claim_project c) d0" for r
  proof (cases r)
    case (Some x)
    then have "xw_provisioner W \<noteq> None" using quiet that by (simp add: nothing_blocks_def)
    then have "works ?J (\<lambda>b. b) ?J (with_database_lock (xw_provisioner W) (res_id x) ret)"
      by (intro works_database_lock [OF quiet]) (simp_all add: works_ret)
    then show ?thesis using Some by simp
  qed (simp add: works_ret)
  have resource: "works ?J (\<lambda>r. r = get_resource (claim_project c) d0) ?J (read_db (get_resource (claim_project c)))"
    by (rule works_read) (simp add: stage_reads)
  show ?thesis
    unfolding operations_drained_def
    by (rule works_bind [OF drained], simp, rule works_bind [OF idle], simp, rule works_bind [OF resource], rule lock)
qed

lemma works_locked_secrets:
  assumes quiet: "nothing_blocks P W t (claim_project c) d0" and m: "quietly R m"
  shows "works (stage c t d0 p) R (stage c t d0 p)
    (try_act (with_secret_lock W (claim_project c) (seq_act (authorize P W c True) m))
       (\<lambda>e. if e = SecretStoreBusyError then raise busy_secret else raise e))"
  by (rule works_try, rule works_secret_lock [OF quiet], rule works_seq [OF works_authorize [OF quiet]],
      rule works_quiet [OF m])

lemma secrets_quiet:
  assumes "nothing_blocks P W t i d0"
  shows "quietly (\<lambda>_. True) (sx_delete_subtree (xw_secrets W) k)" "quietly (\<lambda>b. b) (sx_subtree_absent (xw_secrets W) k)"
  using assms unfolding nothing_blocks_def secrets_work_def by blast+

lemma works_verify:
  assumes quiet: "nothing_blocks P W t (claim_project c) d0"
    and c: "xj_delete_managed_database (xc_job c) = (get_resource (claim_project c) d0 \<noteq> None)"
  shows "works (stage c t d0 p) (\<lambda>_. True) (stage c t d0 p) (verify_final_absence P W c)"
proof -
  have port: "teardown_works (xw_verify_absent W)" using quiet by (simp add: nothing_blocks_def)
  have final: "works (stage c t d0 p) (\<lambda>_. True) (stage c t d0 p)
      (bind_act
        (try_act (with_secret_lock W (claim_project c)
            (seq_act (authorize P W c True) (sx_subtree_absent (xw_secrets W) (claim_project c))))
          (\<lambda>e. if e = SecretStoreBusyError then raise busy_secret else raise e))
        (\<lambda>absent. if \<not> absent then raise (deletion_failure ''PROJECT_SECRET_RESOURCES_REAPPEARED'' False) else ret ()))"
    by (rule works_bind [OF works_locked_secrets [OF quiet secrets_quiet(2) [OF quiet]]]) (simp add: works_ret)
  show ?thesis
    unfolding verify_final_absence_def
    by (rule works_seq [OF works_authorize [OF quiet]], rule works_seq [OF works_teardown [OF quiet port]],
        rule works_seq [OF works_resource [OF quiet c works_database_operations(4)]]) (auto intro: final)
qed

lemma works_finalize:
  assumes quiet: "nothing_blocks P W t (claim_project c) d0"
  shows "works (stage c t d0 METADATA_DELETE) (\<lambda>_. True) (\<lambda>d. d = without_project (claim_project c) d0)
    (repo_call P (finalize_deletion c))"
proof -
  have C: "\<forall>s. p_clock P s = (t, s)" using quiet by (simp add: nothing_blocks_def)
  have "finalize_deletion c t d = Inr ((), without_project (claim_project c) d0)"
    if s: "stage c t d0 METADATA_DELETE d" for d
  proof -
    have "project_is_deleting (claim_project c) d"
      using quiet stage_reads(5) [OF s]
      by (auto simp: nothing_blocks_def project_fenced_def project_is_deleting_def exists_row_iff dest: fetch_SomeD)
    then have "may_finalize c t d" "\<not> runtime_elsewhere (claim_project c) d"
      using quiet s stage_reads [OF s] by (auto simp: may_finalize_def nothing_blocks_def stage_def exists_row_iff)
    then show ?thesis by (simp add: finalize_deletion_eq stage_without [OF s])
  qed
  then show ?thesis by (simp add: works_def clock_wp [OF C] tx_wp)
qed

lemma works_turn:
  assumes quiet: "nothing_blocks P W t (claim_project c) d0"
    and c: "xj_delete_managed_database (xc_job c) = (get_resource (claim_project c) d0 \<noteq> None)"
    and p: "xj_phase (xc_job c) = p" "p \<noteq> METADATA_DELETE"
  obtains q where "phase_index q = phase_index p + 1"
    "works (stage c t d0 p) (\<lambda>r. \<exists>c'. r = Some c' \<and> follows c d0 q c') (stage c t d0 q) (deletion_turn P W c)"
proof -
  let ?R = "\<lambda>q r. \<exists>c'. r = Some c' \<and> follows c d0 q c'"
  note go = works_go [OF quiet] and allowed = works_authorize [OF quiet]
  have C: "\<forall>s. p_clock P s = (t, s)" and port: "teardown_works (xw_teardown W)"
    using quiet by (simp_all add: nothing_blocks_def)
  have removed: "works (stage c t d0 p) (\<lambda>b. b) (stage c t d0 p) (read_db (deletion_is_applied (claim_project c)))"
    by (rule works_read) (use quiet in \<open>simp add: stage_reads nothing_blocks_def\<close>)
  have disable: "works (stage c t d0 p) (\<lambda>_. True) (stage c t d0 p) (void (repo_call P (disable_for_deletion (claim_project c))))"
  proof -
    have "\<exists>r. disable_for_deletion (claim_project c) t d = Inr (r, d)" if "stage c t d0 p d" for d
      by (rule disable_when_applied) (use quiet that in \<open>simp_all add: stage_reads nothing_blocks_def\<close>)
    then show ?thesis
      by (fastforce simp: works_def void_def wp_simps clock_wp [OF C] tx_wp split: sum.split)
  qed
  note phase = works_resource [OF quiet c, folded run_database_phase_def]
  note turn = deletion_turn_def Let_def p(1)
  show ?thesis
  proof (cases p)
    case REQUESTED
    show ?thesis by (rule that [of WAITING_FOR_OPERATIONS]) (simp_all add: turn REQUESTED go)
  next
    case WAITING_FOR_OPERATIONS
    show ?thesis
      by (rule that [of ROUTE_DISABLING], simp add: WAITING_FOR_OPERATIONS, simp add: turn WAITING_FOR_OPERATIONS,
          rule works_bind [OF works_operations_drained [OF quiet]]) (simp add: go)
  next
    case ROUTE_DISABLING
    show ?thesis
      by (rule that [of ROUTE_REMOVED], simp add: ROUTE_DISABLING, simp add: turn ROUTE_DISABLING,
          rule works_seq [OF allowed], rule works_seq [OF disable [unfolded ROUTE_DISABLING]],
          rule works_bind [OF removed [unfolded ROUTE_DISABLING]]) (simp add: go)
  next
    case ROUTE_REMOVED
    show ?thesis
      by (rule that [of RUNTIME_CLEANUP], simp add: ROUTE_REMOVED, simp add: turn ROUTE_REMOVED,
          rule works_bind [OF removed [unfolded ROUTE_REMOVED]]) (simp add: go)
  next
    case RUNTIME_CLEANUP
    show ?thesis
      by (rule that [of DATABASE_QUIESCING], simp add: RUNTIME_CLEANUP, simp add: turn RUNTIME_CLEANUP,
          rule works_seq [OF allowed], rule works_seq [OF works_teardown [OF quiet port]], rule go) simp
  next
    case DATABASE_QUIESCING
    show ?thesis
      by (rule that [of DATABASE_DROP_DATABASE], simp add: DATABASE_QUIESCING, simp add: turn DATABASE_QUIESCING,
          rule works_seq [OF phase [OF works_database_operations(1)]], assumption, assumption, rule go) simp
  next
    case DATABASE_DROP_DATABASE
    show ?thesis
      by (rule that [of DATABASE_DROP_ROLE], simp add: DATABASE_DROP_DATABASE, simp add: turn DATABASE_DROP_DATABASE,
          rule works_seq [OF phase [OF works_database_operations(2)]], assumption, assumption, rule go) simp
  next
    case DATABASE_DROP_ROLE
    show ?thesis
      by (rule that [of SECRET_CLEANUP], simp add: DATABASE_DROP_ROLE, simp add: turn DATABASE_DROP_ROLE,
          rule works_seq [OF phase [OF works_database_operations(3)]], assumption, assumption, rule go) simp
  next
    case SECRET_CLEANUP
    show ?thesis
      by (rule that [of METADATA_DELETE], simp add: SECRET_CLEANUP, simp add: turn SECRET_CLEANUP clean_secrets_def,
          rule works_seq [OF works_locked_secrets [OF quiet secrets_quiet(1) [OF quiet]]], rule go) simp
  qed (use p(2) in simp)
qed

lemma works_run:
  assumes "nothing_blocks P W t (claim_project c) d0"
    and "xj_delete_managed_database (xc_job c) = (get_resource (claim_project c) d0 \<noteq> None)"
    and "10 \<le> phase_index (xj_phase (xc_job c)) + n"
  shows "works (stage c t d0 (xj_phase (xc_job c))) (\<lambda>b. b) (\<lambda>d. d = without_project (claim_project c) d0)
    (run_deletion_claim P W n c)"
  using assms
proof (induction n arbitrary: c)
  case 0
  then show ?case by (cases "xj_phase (xc_job c)") simp_all
next
  case (Suc n)
  let ?D = "\<lambda>d. d = without_project (claim_project c) d0"
  show ?case
  proof (cases "xj_phase (xc_job c) = METADATA_DELETE")
    case True
    have "works (stage c t d0 METADATA_DELETE) (\<lambda>r. r = None) ?D (deletion_turn P W c)"
      unfolding deletion_turn_def Let_def True deletion_phase.case
      by (rule works_seq [OF works_verify [OF Suc.prems(1,2)]], rule works_seq [OF works_finalize [OF Suc.prems(1)]],
          simp add: works_ret)
    then show ?thesis
      unfolding run_deletion_claim.simps True by (rule works_bind) (simp add: works_ret)
  next
    case False
    obtain q where q: "phase_index q = phase_index (xj_phase (xc_job c)) + 1"
      "works (stage c t d0 (xj_phase (xc_job c))) (\<lambda>r. \<exists>c'. r = Some c' \<and> follows c d0 q c') (stage c t d0 q)
         (deletion_turn P W c)"
      by (rule works_turn [OF Suc.prems(1,2) refl False])
    show ?thesis
      unfolding run_deletion_claim.simps
    proof (rule works_bind [OF q(2)])
      fix r assume "\<exists>c'. r = Some c' \<and> follows c d0 q c'"
      then obtain c' where c': "r = Some c'" "follows c d0 q c'" by blast
      have same: "claim_project c' = claim_project c" "xj_phase (xc_job c') = q"
        "xj_delete_managed_database (xc_job c') = (get_resource (claim_project c') d0 \<noteq> None)"
        using c'(2) by (simp_all add: follows_def)
      have "works (stage c' t d0 (xj_phase (xc_job c'))) (\<lambda>b. b) (\<lambda>d. d = without_project (claim_project c') d0)
          (run_deletion_claim P W n c')"
        by (rule Suc.IH) (use Suc.prems q(1) same in auto)
      moreover have "stage c' t d0 q = stage c t d0 q" by (rule ext) (rule follows_stage [OF c'(2)])
      ultimately show "works (stage c t d0 q) (\<lambda>b. b) ?D
          (case r of None \<Rightarrow> ret True | Some c' \<Rightarrow> run_deletion_claim P W n c')"
        by (simp add: c'(1) same)
    qed
  qed
qed

end
