(* ===== verification/Deletion_Properties.thy ===== *)
theory Deletion_Properties
  imports Deletion_Removal Route_Properties
begin

text \<open>
  The properties of the deletion of a project: what is asked for, the phases in their order, the
  worker that goes through them, and what is left at the end.
\<close>

section \<open>An example project on its way out\<close>

definition deleting_job :: deletion_job where
  "deleting_job = new_deletion_job 1 False 200"

definition deleting_db :: db where
  "deleting_db = failed_db\<lparr>t_projects := [set_deleting 200 example_project], t_deletion_jobs := [deleting_job]\<rparr>"

definition deletion_job_claim :: deletion_claim where
  "deletion_job_claim = \<lparr>xc_job = xj_take ''a'' 11 260 200 deleting_job, xc_token = 11, xc_worker_id = ''a'',
     xc_lease_expires_at = 260\<rparr>"

definition claimed_deletion_db :: db where
  "claimed_deletion_db = deleting_db\<lparr>t_deletion_jobs := [xj_take ''a'' 11 260 200 deleting_job]\<rparr>"

definition example_request :: deletion_request where
  "example_request = \<lparr>dr_confirmation = uuid_str 1, dr_delete_managed_database = False,
     dr_managed_database_confirmation = None\<rparr>"

definition quick_deletion :: "('w \<times> db) deletion_worker" where
  "quick_deletion = \<lparr>
     xw_teardown = (\<lambda>_ _ _ _ h. bind_act h (\<lambda>alive. if alive then ret () else raise ProjectDeletionClaimLostError)),
     xw_verify_absent = (\<lambda>_ _ _ g _. bind_act g (\<lambda>allowed. if allowed then ret () else raise ProjectDeletionClaimLostError)),
     xw_secrets = \<lparr>sx_acquire = \<lambda>_. ret (), sx_release = \<lambda>_. ret (), sx_delete_subtree = \<lambda>_. ret (),
       sx_subtree_absent = \<lambda>_. ret True\<rparr>,
     xw_provisioner = None, xw_worker_id = ''a'', xw_lease_duration = 60, xw_max_attempts = 3,
     xw_retry_base_delay = 10\<rparr>"

lemma deleting_requests: "service_delete 1 example_request 200 failed_db = Inr (deleting_job, deleting_db)"
  by code_simp

lemma deleting_claims:
  "claim_next_deletion ''a'' 60 [] 11 200 deleting_db = Inr (Some deletion_job_claim, claimed_deletion_db)"
  by code_simp

lemma deleting_ok: "deletions_ok deleting_db"
  by code_simp

section \<open>The request\<close>

text \<open>The refusals of the endpoint, in the order it makes them.\<close>

definition deletion_refused :: "uuid \<Rightarrow> deletion_request \<Rightarrow> db \<Rightarrow> (int \<times> string) option" where
  "deletion_refused i request d =
     (if project_of d i = None then Some (404, ''PROJECT_NOT_FOUND'')
      else if dr_confirmation request \<noteq> uuid_str i then Some (422, ''PROJECT_DELETE_CONFIRMATION_MISMATCH'')
      else if get_resource i d \<noteq> None \<and>
          (\<not> dr_delete_managed_database request \<or>
           dr_managed_database_confirmation request \<noteq> Some (''DELETE '' @ uuid_str i @ '' APPLICATION DATA''))
        then Some (422, ''PROJECT_DATABASE_DELETE_CONFIRMATION_REQUIRED'')
      else case deletion_of d i of
          Some j \<Rightarrow> if xj_state j = X_FAILED then Some (409, ''PROJECT_DELETION_FAILED'') else None
        | None \<Rightarrow> None)"

definition requested_deletion :: "uuid \<Rightarrow> time \<Rightarrow> db \<Rightarrow> deletion_job \<times> db" where
  "requested_deletion i now d =
     (case deletion_of d i of
        Some j \<Rightarrow> (j, d)
      | None \<Rightarrow>
          let j = new_deletion_job i (get_resource i d \<noteq> None) now in
          (j, d\<lparr>t_projects := upd (\<lambda>p. prj_id p = i) (set_deleting now) (t_projects d),
               t_deletion_jobs := t_deletion_jobs d @ [j]\<rparr>))"

lemma has_database: "exists_row (\<lambda>r. res_project_id r = i) (t_database_resources d) = (get_resource i d \<noteq> None)"
  by (auto simp: exists_row_iff get_resource_def fetch_None_iff)

lemma service_delete_eq:
  "case deletion_refused i request d of
     Some x \<Rightarrow> \<exists>e. service_delete i request now d = Inl e \<and> app_error e = Some x
   | None \<Rightarrow> service_delete i request now d = Inr (requested_deletion i now d)"
  by (auto simp: service_delete_def delete_operation_def request_deletion_def lock_deletion_context_def
      validate_deletion_confirmation_def has_database deletion_refused_def requested_deletion_def deletion_error_def
      project_not_found_def tx_map_error_def tx_bind_def tx_seq_def tx_raise_if_def tx_read_def tx_fail_def tx_ret_def
      Let_def split: option.splits)

lemma requested_deletion_again:
  assumes ok: "deletions_ok d" and free: "deletion_refused i request d = None"
    and r: "requested_deletion i now d = (j, d')"
  shows "deletion_of d' i = Some j \<and> project_is_deleting i d' \<and> xj_state j \<noteq> X_FAILED \<and>
    deletion_refused i request d' = None"
proof -
  obtain p where p: "project_of d i = Some p" using free by (auto simp: deletion_refused_def split: if_splits)
  show ?thesis
  proof (cases "deletion_of d i")
    case (Some k)
    then have "project_is_deleting i d" using fetch_SomeD [OF Some] deletions_okD(3) [OF ok] by blast
    then show ?thesis using Some r free by (auto simp: requested_deletion_def deletion_refused_def split: if_splits)
  next
    case None
    let ?j = "new_deletion_job i (get_resource i d \<noteq> None) now"
    have d': "j = ?j" "t_projects d' = upd (\<lambda>p. prj_id p = i) (set_deleting now) (t_projects d)"
      "t_deletion_jobs d' = t_deletion_jobs d @ [?j]" "t_database_resources d' = t_database_resources d"
      using r None by (auto simp: requested_deletion_def Let_def)
    have mine: "deletion_of d' i = Some ?j" "xj_state ?j = X_PENDING"
      using None by (simp_all add: d'(3) fetch_append new_deletion_job_def)
    have "project_of d' i = Some (set_deleting now p)"
      using fetch_SomeD [OF p] by (simp add: d'(2) fetch_upd_same set_deleting_def p)
    then have "project_is_deleting i d'" "project_of d' i \<noteq> None"
      by (auto simp: project_is_deleting_def exists_row_iff set_deleting_def dest!: fetch_SomeD)
    moreover have "get_resource i d' = get_resource i d" by (simp add: get_resource_def d'(4))
    ultimately show ?thesis
      using mine d'(1) free by (auto simp: deletion_refused_def split: if_splits)
  qed
qed

text \<open>C28. A request to delete a project ends in exactly one refusal of the service, or the project is
  marked as deleting and has a deletion job that has not failed; asking again gives the same job and
  changes nothing.\<close>

theorem deletion_request_outcome:
  assumes "deletions_ok d"
  shows "case deletion_refused i request d of
     Some x \<Rightarrow> \<exists>e. service_delete i request now d = Inl e \<and> app_error e = Some x
   | None \<Rightarrow> \<exists>j d'. service_delete i request now d = Inr (j, d') \<and> deletion_of d' i = Some j \<and>
       project_is_deleting i d' \<and> xj_state j \<noteq> X_FAILED \<and> service_delete i request later d' = Inr (j, d')"
proof (cases "deletion_refused i request d")
  case (Some x)
  then show ?thesis using service_delete_eq [of i request now d] by simp
next
  case None
  obtain j d' where r: "requested_deletion i now d = (j, d')" by fastforce
  note again = requested_deletion_again [OF assms None r]
  have "service_delete i request now d = Inr (j, d')"
    using service_delete_eq [of i request now d] None r by simp
  moreover have "service_delete i request later d' = Inr (j, d')"
    using service_delete_eq [of i request later d'] again by (simp add: requested_deletion_def)
  ultimately show ?thesis using None again by auto
qed

theorem deletion_request_outcome_witness:
  "\<exists>j d'. service_delete 1 example_request 200 failed_db = Inr (j, d') \<and> deletion_of d' 1 = Some j \<and>
     project_is_deleting 1 d' \<and> xj_state j \<noteq> X_FAILED \<and> service_delete 1 example_request 300 d' = Inr (j, d')"
proof -
  have "deletions_ok failed_db" "deletion_refused 1 example_request failed_db = None" by code_simp+
  then show ?thesis
    using deletion_request_outcome [of failed_db 1 example_request 200 300] by simp
qed

section \<open>The phases\<close>

text \<open>C29. Whatever transactions run, the deletion of a project only moves forward, through each of its
  phases in turn and with the authorization it was requested with; a project whose deletion has come
  to an end went through all of them, and its rows were removed in the last.\<close>

theorem deletion_goes_through_every_phase:
  assumes "deletions_ok (f 0)" "deletion_of (f 0) i = Some j" "deletion_run f n"
  shows "deletions_ok (f n) \<and> (finished_by f n i j \<or> (\<exists>k. came_to f n i j k))"
  by (rule deletion_progress [OF assms])

definition waiting_db :: db where
  "waiting_db = claimed_deletion_db\<lparr>t_deletion_jobs :=
     [xj_phase_set WAITING_FOR_OPERATIONS 210 (xj_take ''a'' 11 260 200 deleting_job)]\<rparr>"

definition example_deletion_run :: "nat \<Rightarrow> db" where
  "example_deletion_run n = (if n = 0 then deleting_db else if n = 1 then claimed_deletion_db else waiting_db)"

theorem deletion_goes_through_every_phase_witness:
  "\<exists>k. came_to example_deletion_run 2 1 deleting_job k \<and> xj_phase k = WAITING_FOR_OPERATIONS"
proof -
  have "advance_deletion deletion_job_claim REQUESTED WAITING_FOR_OPERATIONS 210 210 claimed_deletion_db =
      Inr (xj_phase_set WAITING_FOR_OPERATIONS 210 (xj_take ''a'' 11 260 200 deleting_job), waiting_db)"
    by code_simp
  then have "deletion_step claimed_deletion_db waiting_db" by (rule deletion_step.advance)
  moreover have "deletion_step deleting_db claimed_deletion_db" by (rule deletion_step.claim [OF deleting_claims])
  ultimately have run: "deletion_run example_deletion_run 2"
    by (simp add: deletion_run_def example_deletion_run_def less_2_cases_iff)
  have here: "deletion_of deleting_db 1 = Some deleting_job" "deletion_of waiting_db 1 =
      Some (xj_phase_set WAITING_FOR_OPERATIONS 210 (xj_take ''a'' 11 260 200 deleting_job))"
    "list_all (\<lambda>d. list_all (\<lambda>j. xj_phase j \<noteq> METADATA_DELETE) (t_deletion_jobs d)) [deleting_db, claimed_deletion_db]"
    by code_simp+
  have start: "example_deletion_run 0 = deleting_db" "example_deletion_run 2 = waiting_db"
    by (simp_all add: example_deletion_run_def)
  have "\<not> finished_by example_deletion_run 2 1 deleting_job"
    using here(3)
    by (auto simp: finished_by_def came_to_def example_deletion_run_def list_all_iff less_2_cases_iff dest: fetch_SomeD)
  then obtain k where "came_to example_deletion_run 2 1 deleting_job k"
    using deletion_goes_through_every_phase [of example_deletion_run 1 deleting_job 2] run start here(1) deleting_ok by auto
  moreover from this have "xj_phase k = WAITING_FOR_OPERATIONS"
    using here(2) start(2) by (auto simp: came_to_def xj_phase_set_def)
  ultimately show ?thesis by blast
qed

section \<open>The worker\<close>

text \<open>C30. The checks the worker makes are enough: a worker with a test in front of every destructive
  call, that the project is being deleted, its route is removed and its deletion is claimed, and
  that the teardown and the removal of secrets are the project's own, runs exactly like the worker
  without the tests.\<close>

theorem destructive_calls_are_authorized:
  "run_deletion_claim P (authorized_worker (claim_project c) W) n c = run_deletion_claim P W n c"
  by (rule run_deletion_claim_authorized [OF refl])


text \<open>The exception does get out: the lease runs out and another worker finishes the deletion just
  before the routes are asked to disable the route.  The clock counts its readings here.\<close>

definition overtaken_ports :: "nat ports" where
  "overtaken_ports = \<lparr>
     p_clock = (\<lambda>(n, d). (200, (n + 1, if n = 7 then without_project 1 d else d))),
     p_uuid = (\<lambda>s. (11, s)), p_locked = (\<lambda>s. ([], s))\<rparr>"

lemma overtaken_deletion_escapes:
  "fst (deletion_run_once overtaken_ports quick_deletion (0, deleting_db)) = Inl PublicRouteProjectDeletingError"
  by code_simp

lemma quick_surroundings: "deletion_surroundings (steady_ports 200 :: unit ports) quick_deletion"
proof -
  have "safe (teardown_errors \<union> unhandled_errors) deletion_tables_ok
      (bind_act h (\<lambda>b. if b then ret () else raise ProjectDeletionClaimLostError))"
    if "safe {} deletion_tables_ok h" for h :: "(unit \<times> db, bool) act"
    by (intro safe_bind safe_mono [OF that]) (auto intro: safe_ret safe_raise)
  then show ?thesis
    by (simp add: deletion_surroundings_def quick_deletion_def ports_keep_def port_keeps_def steady_ports_def
        teardown_safe_def secrets_safe_def safe_ret)
qed


section \<open>The end\<close>

text \<open>The rows of the other projects are all still there.\<close>

definition others_kept :: "uuid \<Rightarrow> db \<Rightarrow> db \<Rightarrow> bool" where
  "others_kept i d d' =
     (t_projects d' = filter (\<lambda>p. prj_id p \<noteq> i) (t_projects d) \<and>
      t_environment_secrets d' = filter (\<lambda>s. es_project_id s \<noteq> i) (t_environment_secrets d) \<and>
      t_database_resources d' = filter (\<lambda>r. res_project_id r \<noteq> i) (t_database_resources d) \<and>
      t_deployments d' = filter (\<lambda>x. dep_project_id x \<noteq> i) (t_deployments d) \<and>
      t_runtimes d' = filter (\<lambda>r. pr_project_id r \<noteq> i) (t_runtimes d) \<and>
      t_routes d' = filter (\<lambda>r. rt_project_id r \<noteq> i) (t_routes d) \<and>
      t_route_jobs d' = filter (\<lambda>j. rj_project_id j \<noteq> i) (t_route_jobs d) \<and>
      t_deletion_jobs d' = filter (\<lambda>j. xj_project_id j \<noteq> i) (t_deletion_jobs d) \<and>
      t_deployment_jobs d' = filter (\<lambda>j. dj_deployment_id j \<in> deployment_ids d') (t_deployment_jobs d) \<and>
      t_reconciliations d' = filter (\<lambda>r. rc_deployment_id r \<in> deployment_ids d') (t_reconciliations d) \<and>
      {e \<in> set (t_deployment_events d). ev_deployment_id e \<in> deployment_ids d'} \<subseteq> set (t_deployment_events d') \<and>
      {a \<in> set (t_artifacts d). art_deployment_id a \<in> deployment_ids d'} \<subseteq> set (t_artifacts d'))"

lemma without_project_others:
  assumes "control_db_ok d" shows "others_kept i d (without_project i d)"
proof -
  have ok: "deployments_ok d" "reconciliations_ok d" using assms by (simp_all add: control_db_ok_def)
  have ids: "deployment_ids (without_project i d) = {k \<in> deployment_ids d. \<not> owned_by i d k}"
    by (rule deployment_ids_without [OF ok(1)])
  have "dj_deployment_id j \<in> deployment_ids d" if "j \<in> set (t_deployment_jobs d)" for j
    using that deployments_okD(6) [OF ok(1)] by (auto simp: deployment_ids_def)
  moreover have "rc_deployment_id r \<in> deployment_ids d" if "r \<in> set (t_reconciliations d)" for r
    using that ok(2) by (simp add: reconciliations_ok_def)
  ultimately show ?thesis
    unfolding others_kept_def ids by (auto simp: del_def intro!: filter_cong)
qed

definition final_db :: db where
  "final_db = claimed_deletion_db\<lparr>
     t_projects := [set_deleting 200 example_project, example_project\<lparr>prj_id := 2, prj_name := ''other'',
       prj_repository_url := ''https://git/other''\<rparr>],
     t_deletion_jobs := [xj_phase_set METADATA_DELETE 210 (xj_take ''a'' 11 260 200 deleting_job)]\<rparr>"

lemma final_db_ok: "control_db_ok final_db"
  by code_simp



text \<open>C36. Once the removal of a project's route has been applied, no transaction on the routes brings
  it back as long as the project is being deleted; so what the worker has checked in one phase still
  holds in the later ones.\<close>

theorem removed_route_stays_removed:
  assumes "(\<lambda>d d'. route_step d d' \<and> project_fenced d' i)\<^sup>*\<^sup>* d e"
    and "routes_ok d" "project_fenced d i" "deletion_is_applied i d"
  shows "deletion_is_applied i e"
proof -
  from assms(1) have "routes_ok e \<and> project_fenced e i \<and> deletion_is_applied i e"
  proof (induction rule: rtranclp_induct)
    case base
    then show ?case using assms(2-4) by blast
  next
    case (step e f)
    then show ?case using deletion_applied_step route_step_changes by blast
  qed
  then show ?thesis by blast
qed

definition removed_route_db :: db where
  "removed_route_db = (route_move 1
       (\<lambda>r. r\<lparr>rt_desired_state := DISABLED, rt_status := R_INACTIVE, rt_desired_revision := 2,
              rt_applied_revision := Some 2, rt_applied_hostname := None\<rparr>)
       (\<lambda>j. j\<lparr>rj_desired_revision := 2\<rparr>) served_db)\<lparr>t_projects := [set_deleting 200 example_project]\<rparr>"

theorem removed_route_stays_removed_witness:
  "deletion_is_applied 1 removed_route_db \<and>
   (\<exists>d r. disable_for_deletion 1 300 removed_route_db = Inr (r, d) \<and> deletion_is_applied 1 d)"
proof -
  have removed: "deletion_is_applied 1 removed_route_db" "routes_ok removed_route_db"
    by code_simp+
  have fenced: "project_fenced removed_route_db 1"
    by (simp add: project_fenced_def removed_route_db_def set_deleting_def example_project_def)
  obtain r where run: "disable_for_deletion 1 300 removed_route_db = Inr (r, removed_route_db)"
    using disable_when_applied [OF fenced removed(1)] by blast
  have "(\<lambda>d d'. route_step d d' \<and> project_fenced d' 1)\<^sup>*\<^sup>* removed_route_db removed_route_db"
    by (rule r_into_rtranclp) (use route_step.deletion [OF run] fenced in simp)
  from removed_route_stays_removed [OF this removed(2) fenced removed(1)] show ?thesis using run by blast
qed


lemma quietly_ret: "R a \<Longrightarrow> quietly R (ret a)"
  by (simp add: quietly_def ret_def)

lemma quick_works: "nothing_blocks (steady_ports 200 :: unit ports) quick_deletion 200 1 deleting_db"
proof -
  have "deletion_operations_drained 1 deleting_db" "deletion_is_applied 1 deleting_db" "t_runtimes deleting_db = []"
    "get_resource 1 deleting_db = None"
    by code_simp+
  moreover have "project_fenced deleting_db 1"
    by (simp add: project_fenced_def deleting_db_def set_deleting_def example_project_def)
  moreover have "wp (bind_act m (\<lambda>b. if b then ret () else raise ProjectDeletionClaimLostError)) (\<lambda>_ s'. J (snd s')) no_error s"
    if "grants J m" "J (snd s)" for J :: "db \<Rightarrow> bool" and m :: "(unit \<times> db, bool) act" and s
  proof -
    have "wp m (\<lambda>b s'. b \<and> J (snd s')) no_error s" using that unfolding grants_def by blast
    then show ?thesis unfolding wp_bind by (rule wp_mono) (auto simp: wp_simps)
  qed
  ultimately show ?thesis
    by (simp add: nothing_blocks_def steady_ports_def quick_deletion_def teardown_works_def secrets_work_def
        runtime_elsewhere_def exists_row_def quietly_ret)
qed


end
