(* ===== verification/Private_Files.thy ===== *)
theory Private_Files
  imports Secret_Store Deletion_Worker Edge_Network
begin

text \<open>
  The file functions of \<open>runtime/project_teardown.py\<close>: opening a private directory without
  following links, checking a private tree, and removing one.  The file system is a graph of
  nodes under their identities (\<open>st_dev\<close>, \<open>st_ino\<close>), since the code holds directories open while
  their names may be rebound; an open descriptor is the identity of its node.  The operating
  system may refuse any call, and other processes may act before it: both are the port
  \<open>pf_lets\<close>.  Closing a descriptor has no effect here.
\<close>

section \<open>Nodes\<close>

type_synonym inode = "nat \<times> nat"

datatype file_kind =
    Folder "(string \<times> inode) list"
  | Plain_File
  | Symbolic_Link
  | Other_File

record file_node =
  fn_mode :: nat
  fn_uid :: nat
  fn_kind :: file_kind

record file_system =
  fs_table :: "(inode \<times> file_node) list"
  fs_anchor :: inode

definition fs_nodes :: "file_system \<Rightarrow> inode \<Rightarrow> file_node option" where
  "fs_nodes fs = map_of (fs_table fs)"

definition call_refused :: exn where "call_refused = OtherError ''OSError''"
definition file_not_found :: exn where "file_not_found = OtherError ''FileNotFoundError''"
definition recursion_error :: exn where "recursion_error = OtherError ''RecursionError''"

definition is_os_error :: "exn \<Rightarrow> bool" where
  "is_os_error e = (e = call_refused \<or> e = file_not_found)"

fun folder_entries :: "file_kind \<Rightarrow> (string \<times> inode) list option" where
  "folder_entries (Folder es) = Some es"
| "folder_entries _ = None"

definition entries_at :: "file_system \<Rightarrow> inode \<Rightarrow> (string \<times> inode) list option" where
  "entries_at fs i = (case fs_nodes fs i of None \<Rightarrow> None | Some n \<Rightarrow> folder_entries (fn_kind n))"

text \<open>\<open>os.fstat(fd)\<close>, \<open>os.listdir(fd)\<close>, \<open>os.stat(name, dir_fd=fd, follow_symlinks=False)\<close>.\<close>

definition fstat :: "inode \<Rightarrow> file_system \<Rightarrow> exn + file_node" where
  "fstat fd fs = (case fs_nodes fs fd of None \<Rightarrow> Inl call_refused | Some n \<Rightarrow> Inr n)"

definition listdir :: "inode \<Rightarrow> file_system \<Rightarrow> exn + string list" where
  "listdir fd fs = (case entries_at fs fd of None \<Rightarrow> Inl call_refused | Some es \<Rightarrow> Inr (map fst es))"

definition stat_entry :: "inode \<Rightarrow> string \<Rightarrow> file_system \<Rightarrow> exn + (inode \<times> file_node)" where
  "stat_entry fd name fs =
     (case entries_at fs fd of
        None \<Rightarrow> Inl call_refused
      | Some es \<Rightarrow>
          (case map_of es name of
             None \<Rightarrow> Inl file_not_found
           | Some i \<Rightarrow> (case fs_nodes fs i of None \<Rightarrow> Inl file_not_found | Some n \<Rightarrow> Inr (i, n))))"

text \<open>\<open>os.open\<close> with \<open>O_RDONLY | O_DIRECTORY | O_NOFOLLOW\<close>, and without \<open>O_DIRECTORY\<close>.\<close>

definition open_folder :: "inode \<Rightarrow> string \<Rightarrow> file_system \<Rightarrow> exn + inode" where
  "open_folder fd name fs =
     (case stat_entry fd name fs of
        Inl e \<Rightarrow> Inl e
      | Inr (i, n) \<Rightarrow> if folder_entries (fn_kind n) = None then Inl call_refused else Inr i)"

definition open_file :: "inode \<Rightarrow> string \<Rightarrow> file_system \<Rightarrow> exn + inode" where
  "open_file fd name fs =
     (case stat_entry fd name fs of
        Inl e \<Rightarrow> Inl e
      | Inr (i, n) \<Rightarrow> if fn_kind n = Symbolic_Link then Inl call_refused else Inr i)"

definition drop_entry :: "inode \<Rightarrow> string \<Rightarrow> file_system \<Rightarrow> file_system" where
  "drop_entry fd name fs =
     (case fs_nodes fs fd of
        None \<Rightarrow> fs
      | Some n \<Rightarrow>
          (case folder_entries (fn_kind n) of
             None \<Rightarrow> fs
           | Some es \<Rightarrow>
               fs\<lparr>fs_table := AList.update fd (n\<lparr>fn_kind := Folder (filter (\<lambda>(k, _). k \<noteq> name) es)\<rparr>) (fs_table fs)\<rparr>))"

lemma nodes_drop_entry:
  "fs_nodes (drop_entry fd name fs) i =
     (if i = fd then map_option (\<lambda>n. case folder_entries (fn_kind n) of None \<Rightarrow> n
        | Some es \<Rightarrow> n\<lparr>fn_kind := Folder (filter (\<lambda>(k, _). k \<noteq> name) es)\<rparr>) (fs_nodes fs fd)
      else fs_nodes fs i)"
  by (auto simp: drop_entry_def fs_nodes_def update_conv' split: option.splits)

definition unlink_entry :: "inode \<Rightarrow> string \<Rightarrow> file_system \<Rightarrow> exn + file_system" where
  "unlink_entry fd name fs =
     (case stat_entry fd name fs of
        Inl e \<Rightarrow> Inl e
      | Inr (i, n) \<Rightarrow>
          if folder_entries (fn_kind n) \<noteq> None then Inl call_refused else Inr (drop_entry fd name fs))"

definition rmdir_entry :: "inode \<Rightarrow> string \<Rightarrow> file_system \<Rightarrow> exn + file_system" where
  "rmdir_entry fd name fs =
     (case stat_entry fd name fs of
        Inl e \<Rightarrow> Inl e
      | Inr (i, n) \<Rightarrow>
          if folder_entries (fn_kind n) \<noteq> Some [] then Inl call_refused else Inr (drop_entry fd name fs))"

section \<open>System calls\<close>

datatype os_call = Os_Open | Os_Stat | Os_List | Os_Unlink | Os_Rmdir

record 's private_files =
  pf_get :: "'s \<Rightarrow> file_system"
  pf_put :: "file_system \<Rightarrow> 's \<Rightarrow> 's"
  pf_lets :: "os_call \<Rightarrow> 's \<Rightarrow> bool \<times> 's"
  pf_euid :: nat
  pf_recursion_limit :: nat

definition sys_read :: "'s private_files \<Rightarrow> os_call \<Rightarrow> (file_system \<Rightarrow> exn + 'a) \<Rightarrow> ('s, 'a) act" where
  "sys_read F c f =
     bind_act (get_act (pf_lets F c)) (\<lambda>allowed.
       if \<not> allowed then raise call_refused
       else (\<lambda>s. (f (pf_get F s), s)))"

definition sys_change :: "'s private_files \<Rightarrow> os_call \<Rightarrow> (file_system \<Rightarrow> exn + file_system) \<Rightarrow> ('s, unit) act" where
  "sys_change F c f =
     bind_act (get_act (pf_lets F c)) (\<lambda>allowed.
       if \<not> allowed then raise call_refused
       else (\<lambda>s. case f (pf_get F s) of Inl e \<Rightarrow> (Inl e, s) | Inr fs \<Rightarrow> (Inr (), pf_put F fs s)))"

definition raise_filesystem_uncertain :: "('s, 'a) act" where
  "raise_filesystem_uncertain = raise (deletion_failure ''PROJECT_FILESYSTEM_RESOURCES_UNCERTAIN'' False)"

text \<open>\<open>except FileNotFoundError: return a\<close>, \<open>except OSError: _raise_filesystem_uncertain()\<close>.\<close>

definition or_not_found :: "('s, 'a) act \<Rightarrow> ('s, 'a option) act" where
  "or_not_found m =
     try_act (bind_act m (\<lambda>a. ret (Some a))) (\<lambda>e. if e = file_not_found then ret None else raise e)"

definition os_error_uncertain :: "('s, 'a) act \<Rightarrow> ('s, 'a) act" where
  "os_error_uncertain m = try_act m (\<lambda>e. if is_os_error e then raise_filesystem_uncertain else raise e)"

text \<open>\<open>for x in xs: body(x)\<close>.\<close>

primrec for_each :: "'a list \<Rightarrow> ('a \<Rightarrow> ('s, unit) act) \<Rightarrow> ('s, unit) act" where
  "for_each [] body = ret ()"
| "for_each (x # xs) body = seq_act (body x) (for_each xs body)"

section \<open>Private directories\<close>

definition is_folder :: "file_node \<Rightarrow> bool" where
  "is_folder n = (folder_entries (fn_kind n) \<noteq> None)"

definition is_plain :: "file_node \<Rightarrow> bool" where
  "is_plain n = (fn_kind n = Plain_File)"

definition private_metadata :: "'s private_files \<Rightarrow> file_node \<Rightarrow> bool \<Rightarrow> bool" where
  "private_metadata F n directory =
     ((if directory then is_folder n else is_plain n) \<and> fn_uid n = pf_euid F \<and> is_private (fn_mode n))"

definition validate_private_metadata :: "'s private_files \<Rightarrow> file_node \<Rightarrow> bool \<Rightarrow> ('s, unit) act" where
  "validate_private_metadata F n directory =
     (if \<not> private_metadata F n directory then raise_filesystem_uncertain else ret ())"

text \<open>The parts of an absolute path after its anchor.\<close>

fun walk_folders :: "'s private_files \<Rightarrow> string list \<Rightarrow> inode \<Rightarrow> ('s, inode) act" where
  "walk_folders F [] fd = ret fd"
| "walk_folders F (p # ps) fd = bind_act (sys_read F Os_Open (open_folder fd p)) (walk_folders F ps)"

definition open_private_directory :: "'s private_files \<Rightarrow> string \<Rightarrow> ('s, inode) act" where
  "open_private_directory F path =
     (if \<not> starts_with ''/'' path \<or> list_ex (\<lambda>p. p \<in> set [[], ''.'', ''..'']) (posix_parts path)
      then raise_filesystem_uncertain
      else bind_act (sys_read F Os_Open (\<lambda>fs. Inr (fs_anchor fs))) (\<lambda>anchor.
        bind_act (walk_folders F (posix_parts path) anchor) (\<lambda>fd.
        bind_act (sys_read F Os_Stat (fstat fd)) (\<lambda>n.
          seq_act (validate_private_metadata F n True) (ret fd)))))"

text \<open>Python's recursion limit is the fuel: when it is used up the call raises \<open>RecursionError\<close>.\<close>

fun validate_private_tree :: "'s private_files \<Rightarrow> nat \<Rightarrow> inode \<Rightarrow> ('s, unit) act" where
  "validate_private_tree F 0 fd = raise recursion_error"
| "validate_private_tree F (Suc depth) fd =
     bind_act (sys_read F Os_Stat (fstat fd)) (\<lambda>n.
     seq_act (validate_private_metadata F n True)
      (bind_act (sys_read F Os_List (listdir fd)) (\<lambda>names.
        for_each names (\<lambda>name.
          bind_act (sys_read F Os_Stat (stat_entry fd name)) (\<lambda>(i, m).
            if is_folder m
            then bind_act (sys_read F Os_Open (open_folder fd name)) (validate_private_tree F depth)
            else if is_plain m then validate_private_metadata F m False
            else raise_filesystem_uncertain)))))"

definition exact_child_exists :: "'s private_files \<Rightarrow> string \<Rightarrow> string \<Rightarrow> ('s, bool) act" where
  "exact_child_exists F root basename =
     bind_act (or_not_found (open_private_directory F root)) (\<lambda>root_fd. case root_fd of
        None \<Rightarrow> ret False
      | Some fd \<Rightarrow>
          bind_act (or_not_found (sys_read F Os_Stat (stat_entry fd basename))) (\<lambda>found.
            ret (found \<noteq> None)))"

definition validate_exact_private_child :: "'s private_files \<Rightarrow> string \<Rightarrow> string \<Rightarrow> ('s, unit) act" where
  "validate_exact_private_child F root basename =
     (if basename = [] \<or> CHR ''/'' \<in> set basename \<or> basename \<in> set [''.'', ''..'']
      then raise_filesystem_uncertain
      else bind_act (os_error_uncertain (or_not_found (open_private_directory F root))) (\<lambda>root_fd. case root_fd of
        None \<Rightarrow> ret ()
      | Some fd \<Rightarrow>
          bind_act (os_error_uncertain (or_not_found (sys_read F Os_Open (open_folder fd basename)))) (\<lambda>child_fd. case child_fd of
             None \<Rightarrow> ret ()
           | Some child \<Rightarrow> validate_private_tree F (pf_recursion_limit F) child)))"

fun remove_private_tree_contents ::
    "'s private_files \<Rightarrow> ('s, unit) act \<Rightarrow> nat \<Rightarrow> inode \<Rightarrow> ('s, unit) act" where
  "remove_private_tree_contents F allow 0 fd = raise recursion_error"
| "remove_private_tree_contents F allow (Suc depth) fd =
     bind_act (sys_read F Os_List (listdir fd)) (\<lambda>names.
       for_each names (\<lambda>name.
         bind_act (sys_read F Os_Stat (stat_entry fd name)) (\<lambda>(i, m).
           if is_folder m then
             bind_act (sys_read F Os_Open (open_folder fd name)) (\<lambda>child.
             bind_act (sys_read F Os_Stat (fstat child)) (\<lambda>identity.
             seq_act (validate_private_metadata F identity True)
              (seq_act (remove_private_tree_contents F allow depth child)
                (bind_act (sys_read F Os_Stat (stat_entry fd name)) (\<lambda>(current, _).
                  if child \<noteq> current then raise_filesystem_uncertain
                  else seq_act allow (sys_change F Os_Rmdir (rmdir_entry fd name)))))))
           else if is_plain m then
             bind_act (sys_read F Os_Open (open_file fd name)) (\<lambda>file.
             bind_act (sys_read F Os_Stat (fstat file)) (\<lambda>identity.
             seq_act (validate_private_metadata F identity False)
              (seq_act allow
                (bind_act (sys_read F Os_Stat (stat_entry fd name)) (\<lambda>(current, _).
                  if file \<noteq> current then raise_filesystem_uncertain
                  else sys_change F Os_Unlink (unlink_entry fd name))))))
           else raise_filesystem_uncertain)))"

definition remove_exact_private_child ::
    "'s private_files \<Rightarrow> ('s, unit) act \<Rightarrow> string \<Rightarrow> string \<Rightarrow> ('s, unit) act" where
  "remove_exact_private_child F allow root basename =
     seq_act (validate_exact_private_child F root basename)
      (bind_act (or_not_found (open_private_directory F root)) (\<lambda>root_fd. case root_fd of
         None \<Rightarrow> ret ()
       | Some fd \<Rightarrow>
           os_error_uncertain
            (bind_act (os_error_uncertain (or_not_found (sys_read F Os_Open (open_folder fd basename)))) (\<lambda>child_fd. case child_fd of
               None \<Rightarrow> ret ()
             | Some child \<Rightarrow>
                 bind_act (sys_read F Os_Stat (fstat child)) (\<lambda>identity.
                 seq_act (remove_private_tree_contents F allow (pf_recursion_limit F) child)
                  (bind_act (sys_read F Os_Stat (stat_entry fd basename)) (\<lambda>(current, _).
                    if child \<noteq> current then raise_filesystem_uncertain
                    else seq_act allow (sys_change F Os_Rmdir (rmdir_entry fd basename)))))))))"

end
