(* ===== verification/Runtime_Teardown.thy ===== *)
theory Runtime_Teardown
  imports Private_Files
begin

text \<open>
  \<open>runtime/project_teardown.py\<close>: removing what a project has in Docker and in the two private
  roots, once its deletion is fenced.  The command runner and \<open>json.loads\<close> are parameters; the
  caller gives the mutation guard and the heartbeat.
\<close>

section \<open>What a project has\<close>

datatype docker_kind = Container | Network | Image
datatype label_kind = Gateway_Label | Service_Label | Network_Label | Image_Label

fun label_text :: "label_kind \<Rightarrow> string" where
  "label_text Gateway_Label = ''gateway''"
| "label_text Service_Label = ''service''"
| "label_text Network_Label = ''network''"
| "label_text Image_Label = ''image''"

record expected_resource =
  er_docker_kind :: docker_kind
  er_label_kind :: label_kind
  er_name :: string
  er_deployment_id :: "uuid option"

record 's runtime_teardown =
  td_runner :: "'s runner"
  td_workspace_root :: string
  td_gateway_config_root :: string
  td_executable :: string
  td_command_timeout :: time
  td_loads :: "string \<Rightarrow> json option"
  td_files :: "'s private_files"

text \<open>\<open>Path.absolute()\<close>, as the constructor applies it to the two roots.\<close>

definition absolute_path :: "string \<Rightarrow> string \<Rightarrow> string" where
  "absolute_path cwd path = (if starts_with ''/'' path then path else cwd @ ''/'' @ path)"

definition runtime_teardown_init :: "string \<Rightarrow> 's runtime_teardown \<Rightarrow> 's runtime_teardown" where
  "runtime_teardown_init cwd T =
     T\<lparr>td_workspace_root := absolute_path cwd (td_workspace_root T),
       td_gateway_config_root := absolute_path cwd (td_gateway_config_root T)\<rparr>"

definition resources_uncertain :: "bool \<Rightarrow> exn" where
  "resources_uncertain retryable = deletion_failure ''PROJECT_RESOURCES_UNCERTAIN'' retryable"

definition deployment_resources :: "uuid \<Rightarrow> deployment \<Rightarrow> runtime_deployment \<Rightarrow> expected_resource list" where
  "deployment_resources i x parsed =
     (let generation = take 12 (uuid_hex (dep_id x)); prefix = ''hm-p'' @ take 12 (uuid_hex i) in
      \<lparr>er_docker_kind = Network, er_label_kind = Network_Label, er_name = prefix @ ''-g'' @ generation,
       er_deployment_id = Some (dep_id x)\<rparr> #
      concat (map (\<lambda>service.
        [\<lparr>er_docker_kind = Container, er_label_kind = Service_Label,
          er_name = prefix @ ''-'' @ rsv_name service @ ''-g'' @ generation, er_deployment_id = Some (dep_id x)\<rparr>,
         \<lparr>er_docker_kind = Image, er_label_kind = Image_Label,
          er_name = ''heimdall/'' @ uuid_hex i @ '':g'' @ generation @ ''-'' @ rsv_name service,
          er_deployment_id = Some (dep_id x)\<rparr>]) (rdp_services parsed)))"

fun deployments_resources :: "uuid \<Rightarrow> deployment list \<Rightarrow> exn + expected_resource list" where
  "deployments_resources i [] = Inr []"
| "deployments_resources i (x # xs) =
     (case from_deployment x of
        Inl e \<Rightarrow> (case e of RuntimeConfigurationError m \<Rightarrow> Inl (resources_uncertain False) | _ \<Rightarrow> Inl e)
      | Inr parsed \<Rightarrow> bind_sum (deployments_resources i xs) (\<lambda>rest. Inr (deployment_resources i x parsed @ rest)))"

definition snapshot_agrees :: "project_runtime \<Rightarrow> expected_resource list \<Rightarrow> deployment list \<Rightarrow> bool" where
  "snapshot_agrees runtime resources deployments =
     (case pr_active_deployment_id runtime of
        None \<Rightarrow>
          pr_active_network_name runtime = None \<and> pr_active_container_names runtime = [] \<and>
          pr_active_image_names runtime = []
      | Some a \<Rightarrow>
          a \<in> set (map dep_id deployments) \<and>
          (let active = filter (\<lambda>r. er_deployment_id r = Some a) resources;
               names = (\<lambda>k. set (map er_name (filter (\<lambda>r. er_label_kind r = k) active))) in
           {pr_active_network_name runtime} = Some ` names Network_Label \<and>
           set (pr_active_container_names runtime) = names Service_Label \<and>
           set (pr_active_image_names runtime) = names Image_Label))"

definition gateway_resource :: "uuid \<Rightarrow> expected_resource" where
  "gateway_resource i =
     \<lparr>er_docker_kind = Container, er_label_kind = Gateway_Label, er_name = project_gateway_name i,
      er_deployment_id = None\<rparr>"

definition resource_key :: "expected_resource \<Rightarrow> docker_kind \<times> string" where
  "resource_key r = (er_docker_kind r, er_name r)"

definition expected_resources ::
    "uuid \<Rightarrow> deployment list \<Rightarrow> project_runtime option \<Rightarrow> exn + expected_resource list" where
  "expected_resources i deployments runtime =
     (if (case runtime of None \<Rightarrow> False
          | Some r \<Rightarrow> pr_project_id r \<noteq> i \<or> pr_gateway_container_name r \<noteq> project_gateway_name i)
        then Inl (resources_uncertain False)
      else if \<not> distinct (map dep_id deployments) \<or> list_ex (\<lambda>x. dep_project_id x \<noteq> i) deployments
        then Inl (resources_uncertain False)
      else bind_sum (deployments_resources i deployments) (\<lambda>rest.
        let resources = (case runtime of None \<Rightarrow> [] | Some _ \<Rightarrow> [gateway_resource i]) @ rest in
        if \<not> distinct (map resource_key resources) then Inl (resources_uncertain False)
        else if (case runtime of None \<Rightarrow> False | Some r \<Rightarrow> \<not> snapshot_agrees r resources deployments)
          then Inl (resources_uncertain False)
        else Inr resources))"

section \<open>Talking to Docker\<close>

definition pulse :: "('s, bool) act \<Rightarrow> ('s, unit) act" where
  "pulse heartbeat =
     bind_act heartbeat (\<lambda>alive.
       if \<not> alive then raise (deletion_failure ''PROJECT_DELETION_CLAIM_LOST'' True) else ret ())"

definition authorize_mutation :: "('s, bool) act \<Rightarrow> ('s, bool) act \<Rightarrow> ('s, unit) act" where
  "authorize_mutation guard heartbeat =
     seq_act (pulse heartbeat)
      (bind_act guard (\<lambda>allowed.
        if \<not> allowed then raise (deletion_failure ''PROJECT_DELETION_GUARD_REJECTED'' True) else ret ()))"

definition run_unchecked ::
    "'s runtime_teardown \<Rightarrow> string list \<Rightarrow> ('s, bool) act \<Rightarrow> ('s, command_result) act" where
  "run_unchecked T arguments heartbeat =
     seq_act (pulse heartbeat)
      (try_act (td_runner T (td_executable T # arguments) (td_command_timeout T) (Some (pulse heartbeat)) False)
        (\<lambda>e. case e of CommandExecutionError _ \<Rightarrow> ret no_result | _ \<Rightarrow> raise e))"

definition inspect_template :: "docker_kind \<Rightarrow> string" where
  "inspect_template k =
     ''{'' @ dq @ ''id'' @ dq @ '':{{json .Id}},'' @ dq @ ''labels'' @ dq @
       (if k = Network then '':{{json .Labels}}}'' else '':{{json .Config.Labels}}}'')"

definition inspect_arguments :: "expected_resource \<Rightarrow> string list" where
  "inspect_arguments r =
     (case er_docker_kind r of
        Network \<Rightarrow> [''network'', ''inspect'', ''--format'', inspect_template Network, er_name r]
      | Image \<Rightarrow> [''image'', ''inspect'', ''--format'', inspect_template Image, er_name r]
      | Container \<Rightarrow> [''inspect'', ''--format'', inspect_template Container, er_name r])"

definition remove_arguments :: "expected_resource \<Rightarrow> string \<Rightarrow> string list" where
  "remove_arguments r ident =
     (case er_docker_kind r of
        Network \<Rightarrow> [''network'', ''rm'', ident]
      | Image \<Rightarrow> [''image'', ''rm'', ''--force'', ident]
      | Container \<Rightarrow> [''rm'', ''--force'', ident])"

definition list_arguments :: "uuid \<Rightarrow> docker_kind \<Rightarrow> string list" where
  "list_arguments i k =
     (let label = ''label=heimdall.project-id='' @ uuid_str i in
      case k of
        Container \<Rightarrow> [''ps'', ''--all'', ''--filter'', label, ''--format'', ''{{.Names}}'']
      | Network \<Rightarrow> [''network'', ''ls'', ''--filter'', label, ''--format'', ''{{.Name}}'']
      | Image \<Rightarrow> [''image'', ''ls'', ''--filter'', label, ''--format'', ''{{.Repository}}:{{.Tag}}''])"

definition contains_text :: "string \<Rightarrow> string \<Rightarrow> bool" where
  "contains_text part s = list_ex (\<lambda>n. starts_with part (drop n s)) [0..<Suc (length s)]"

definition is_not_found :: "expected_resource \<Rightarrow> command_result \<Rightarrow> bool" where
  "is_not_found r result =
     (if cr_returncode result \<noteq> 1 \<or> cr_stderr_truncated result then False
      else (let message = map lower_char (cr_stderr result) in
        case er_docker_kind r of
          Network \<Rightarrow> contains_text ''no such network'' message \<or>
            (contains_text ''network'' message \<and> contains_text ''not found'' message)
        | Image \<Rightarrow> contains_text ''no such image'' message
        | Container \<Rightarrow> contains_text ''no such object'' message \<or> contains_text ''no such container'' message))"

text \<open>The identity that an inspection prints, when it is of the project and of the expected kind.\<close>

definition wanted_labels :: "uuid \<Rightarrow> expected_resource \<Rightarrow> (string \<times> string) list" where
  "wanted_labels i r =
     [(''heimdall.managed'', ''true''), (''heimdall.project-id'', uuid_str i),
      (''heimdall.kind'', label_text (er_label_kind r))] @
     (case er_deployment_id r of None \<Rightarrow> [] | Some d \<Rightarrow> [(''heimdall.deployment-id'', uuid_str d)])"

definition exact_identity :: "uuid \<Rightarrow> expected_resource \<Rightarrow> json option \<Rightarrow> string option" where
  "exact_identity i r payload =
     (case payload of
        Some (JObj fs) \<Rightarrow>
          (case jget ''id'' fs of
             Some (JStr ident) \<Rightarrow>
               if ident \<noteq> [] \<and> matches_labels (jget ''labels'' fs) (wanted_labels i r) then Some ident else None
           | _ \<Rightarrow> None)
      | _ \<Rightarrow> None)"

definition observe_one ::
    "'s runtime_teardown \<Rightarrow> uuid \<Rightarrow> expected_resource \<Rightarrow> ('s, bool) act \<Rightarrow> ('s, string option) act" where
  "observe_one T i r heartbeat =
     bind_act (run_unchecked T (inspect_arguments r) heartbeat) (\<lambda>result.
       if cr_returncode result \<noteq> 0 then
         (if is_not_found r result then ret None else raise (resources_uncertain True))
       else (case exact_identity i r (td_loads T (cr_stdout result)) of
           None \<Rightarrow> raise (resources_uncertain False)
         | Some ident \<Rightarrow> ret (Some ident)))"

fun observe_expected ::
    "'s runtime_teardown \<Rightarrow> uuid \<Rightarrow> expected_resource list \<Rightarrow> ('s, bool) act \<Rightarrow>
     ('s, (expected_resource \<times> string option) list) act" where
  "observe_expected T i [] heartbeat = ret []"
| "observe_expected T i (r # rs) heartbeat =
     bind_act (observe_one T i r heartbeat) (\<lambda>state.
     bind_act (observe_expected T i rs heartbeat) (\<lambda>rest. ret ((r, state) # rest)))"

text \<open>\<open>str.splitlines()\<close> of code points below 256, and the stripped lines that are not empty.\<close>

definition line_break :: "char \<Rightarrow> bool" where
  "line_break c = (of_char c \<in> set [10, 11, 12, 13, 28, 29, 30, 133 :: nat])"

fun split_lines :: "string \<Rightarrow> string list" where
  "split_lines [] = []"
| "split_lines (c # cs) =
     (if line_break c then
        [] # split_lines (if c = CHR 0x0D \<and> cs \<noteq> [] \<and> hd cs = CHR 0x0A then tl cs else cs)
      else (case split_lines cs of
          [] \<Rightarrow> [[c]]
        | l # ls \<Rightarrow> (c # l) # ls))"

definition observed_names :: "string \<Rightarrow> string list" where
  "observed_names output = filter (\<lambda>l. l \<noteq> []) (map strip (split_lines output))"

definition reject_extra_kind ::
    "'s runtime_teardown \<Rightarrow> uuid \<Rightarrow> expected_resource list \<Rightarrow> ('s, bool) act \<Rightarrow> bool \<Rightarrow> docker_kind \<Rightarrow> ('s, unit) act" where
  "reject_extra_kind T i expected heartbeat require_empty k =
     bind_act (run_unchecked T (list_arguments i k) heartbeat) (\<lambda>result.
       if cr_returncode result \<noteq> 0 then raise (resources_uncertain True)
       else (let observed = observed_names (cr_stdout result);
                 names = map er_name (filter (\<lambda>r. er_docker_kind r = k) expected) in
         if (require_empty \<and> observed \<noteq> []) \<or> \<not> set observed \<subseteq> set names
         then raise (resources_uncertain False) else ret ()))"

definition reject_extra_resources ::
    "'s runtime_teardown \<Rightarrow> uuid \<Rightarrow> expected_resource list \<Rightarrow> ('s, bool) act \<Rightarrow> bool \<Rightarrow> ('s, unit) act" where
  "reject_extra_resources T i expected heartbeat require_empty =
     for_each [Container, Network, Image] (reject_extra_kind T i expected heartbeat require_empty)"

section \<open>The teardown\<close>

definition filesystem_targets :: "'s runtime_teardown \<Rightarrow> uuid \<Rightarrow> deployment list \<Rightarrow> (string \<times> string) list" where
  "filesystem_targets T i deployments =
     map (\<lambda>x. (td_workspace_root T, uuid_hex (dep_id x))) deployments @ [(td_gateway_config_root T, uuid_hex i)]"

fun removal_order :: "label_kind \<Rightarrow> nat" where
  "removal_order Gateway_Label = 0"
| "removal_order Service_Label = 1"
| "removal_order Network_Label = 2"
| "removal_order Image_Label = 3"

definition remove_resource ::
    "'s runtime_teardown \<Rightarrow> uuid \<Rightarrow> (expected_resource \<times> string option) list \<Rightarrow> ('s, bool) act \<Rightarrow> ('s, bool) act \<Rightarrow>
     expected_resource \<Rightarrow> ('s, unit) act" where
  "remove_resource T i states guard heartbeat r =
     (case map_of states r of
        None \<Rightarrow> raise (OtherError ''KeyError'')
      | Some None \<Rightarrow> ret ()
      | Some (Some observed) \<Rightarrow>
          seq_act (authorize_mutation guard heartbeat)
           (bind_act (observe_one T i r heartbeat) (\<lambda>current.
             if current \<noteq> Some observed then raise (resources_uncertain False)
             else bind_act (run_unchecked T (remove_arguments r observed) heartbeat) (\<lambda>result.
               if cr_returncode result \<noteq> 0 then raise (resources_uncertain False) else ret ()))))"

definition require_absent ::
    "'s runtime_teardown \<Rightarrow> uuid \<Rightarrow> expected_resource list \<Rightarrow> ('s, bool) act \<Rightarrow> ('s, unit) act" where
  "require_absent T i expected heartbeat =
     bind_act (observe_expected T i expected heartbeat) (\<lambda>states.
       if list_ex (\<lambda>(_, state). state \<noteq> None) states then raise (resources_uncertain False)
       else reject_extra_resources T i expected heartbeat True)"

definition remove_target ::
    "'s runtime_teardown \<Rightarrow> ('s, bool) act \<Rightarrow> ('s, bool) act \<Rightarrow> string \<times> string \<Rightarrow> ('s, unit) act" where
  "remove_target T guard heartbeat = (\<lambda>(root, basename).
     seq_act (remove_exact_private_child (td_files T) (authorize_mutation guard heartbeat) root basename)
      (bind_act (exact_child_exists (td_files T) root basename) (\<lambda>found.
        if found then raise_filesystem_uncertain else ret ())))"

definition sum_act :: "exn + 'a \<Rightarrow> ('s, 'a) act" where
  "sum_act m = (case m of Inl e \<Rightarrow> raise e | Inr a \<Rightarrow> ret a)"

definition teardown :: "'s runtime_teardown \<Rightarrow> 's teardown_port" where
  "teardown T i deployments runtime guard heartbeat =
     bind_act (sum_act (expected_resources i deployments runtime)) (\<lambda>expected.
     let targets = filesystem_targets T i deployments in
     seq_act (pulse heartbeat)
      (bind_act (observe_expected T i expected heartbeat) (\<lambda>states.
       seq_act (reject_extra_resources T i expected heartbeat False)
       (seq_act (for_each targets (\<lambda>(root, basename). validate_exact_private_child (td_files T) root basename))
       (seq_act (for_each (sort_key (\<lambda>r. removal_order (er_label_kind r)) expected)
                  (remove_resource T i states guard heartbeat))
       (seq_act (require_absent T i expected heartbeat)
       (seq_act (for_each targets (remove_target T guard heartbeat))
         (require_absent T i expected heartbeat))))))))"

text \<open>\<open>any(\<dots> for \<dots> in \<dots>)\<close>: the first target that exists ends the loop.\<close>

fun any_target_exists :: "'s private_files \<Rightarrow> (string \<times> string) list \<Rightarrow> ('s, bool) act" where
  "any_target_exists F [] = ret False"
| "any_target_exists F ((root, basename) # targets) =
     bind_act (exact_child_exists F root basename) (\<lambda>found.
       if found then ret True else any_target_exists F targets)"

definition teardown_verify_absent :: "'s runtime_teardown \<Rightarrow> 's teardown_port" where
  "teardown_verify_absent T i deployments runtime guard heartbeat =
     seq_act (authorize_mutation guard heartbeat)
      (bind_act (sum_act (expected_resources i deployments runtime)) (\<lambda>expected.
       seq_act (require_absent T i expected heartbeat)
        (bind_act (any_target_exists (td_files T) (filesystem_targets T i deployments)) (\<lambda>found.
          if found then raise_filesystem_uncertain else ret ()))))"

end
