(* ===== verification/Teardown_Authority.thy ===== *)
theory Teardown_Authority
  imports Runtime_Teardown Deletion_Passes
begin

text \<open>
  The mutations of a teardown happen under its guard: a teardown that tests the guarded condition
  before every removal of Docker or of a file runs like the one that does not test.
\<close>

section \<open>Programs that agree where a condition holds\<close>

definition agrees :: "('s \<Rightarrow> bool) \<Rightarrow> ('s, 'a) act \<Rightarrow> ('s, 'a) act \<Rightarrow> bool" where
  "agrees G m n = (\<forall>s. G s \<longrightarrow> m s = n s)"

text \<open>\<open>gains G m\<close>: when the program returns, \<open>G\<close> holds.\<close>

definition gains :: "('s \<Rightarrow> bool) \<Rightarrow> ('s, 'a) act \<Rightarrow> bool" where
  "gains G m = (\<forall>s a s'. m s = (Inr a, s') \<longrightarrow> G s')"

lemma agrees_refl [simp]: "agrees G m m"
  by (simp add: agrees_def)

lemma agrees_bind:
  assumes "agrees G m n" "keeps G n" "\<And>a. agrees G (f a) (g a)"
  shows "agrees G (bind_act m f) (bind_act n g)"
  unfolding agrees_def
proof (intro allI impI)
  fix s assume G: "G s"
  obtain r s' where n: "n s = (r, s')" by fastforce
  then have "G s'" using assms(2) G by (blast intro: keepsD)
  then show "bind_act m f s = bind_act n g s"
    using assms(1,3) G n by (cases r) (simp_all add: agrees_def bind_act_def)
qed

lemma agrees_seq: "agrees G m n \<Longrightarrow> keeps G n \<Longrightarrow> agrees G p q \<Longrightarrow> agrees G (seq_act m p) (seq_act n q)"
  unfolding seq_act_def by (rule agrees_bind)

lemma gains_seq: "gains G a \<Longrightarrow> agrees G m n \<Longrightarrow> seq_act a m = seq_act a n"
  unfolding seq_act_def by (rule bind_cong) (auto simp: gains_def agrees_def)

lemma for_each_cong: "(\<And>x. x \<in> set xs \<Longrightarrow> f x = g x) \<Longrightarrow> for_each xs f = for_each xs g"
  by (induction xs) simp_all

lemma keeps_for_each: "(\<And>x. x \<in> set xs \<Longrightarrow> keeps G (f x)) \<Longrightarrow> keeps G (for_each xs f)"
  by (induction xs) (auto intro: keeps_seq)

section \<open>The teardown with a test before every removal\<close>

fun removes :: "string list \<Rightarrow> bool" where
  "removes (exe # sub # args) =
     (sub = ''rm'' \<or> (sub = ''network'' \<or> sub = ''image'') \<and> args \<noteq> [] \<and> hd args = ''rm'')"
| "removes _ = False"

definition guarded_runner :: "('s \<Rightarrow> bool) \<Rightarrow> 's runner \<Rightarrow> 's runner" where
  "guarded_runner G run arguments timeout heartbeat check =
     (\<lambda>s. if removes arguments \<and> \<not> G s then (Inl (OtherError ''unauthorized''), s)
          else run arguments timeout heartbeat check s)"

definition guarded_files :: "('s \<Rightarrow> bool) \<Rightarrow> 's private_files \<Rightarrow> 's private_files" where
  "guarded_files G F =
     F\<lparr>pf_lets := \<lambda>c s. if (c = Os_Unlink \<or> c = Os_Rmdir) \<and> \<not> G s then (False, s) else pf_lets F c s\<rparr>"

definition guarded_teardown :: "('s \<Rightarrow> bool) \<Rightarrow> 's runtime_teardown \<Rightarrow> 's runtime_teardown" where
  "guarded_teardown G T =
     T\<lparr>td_runner := guarded_runner G (td_runner T), td_files := guarded_files G (td_files T)\<rparr>"

lemma guarded_fields [simp]:
  "td_workspace_root (guarded_teardown G T) = td_workspace_root T"
  "td_gateway_config_root (guarded_teardown G T) = td_gateway_config_root T"
  "td_executable (guarded_teardown G T) = td_executable T"
  "td_command_timeout (guarded_teardown G T) = td_command_timeout T"
  "td_loads (guarded_teardown G T) = td_loads T"
  "td_runner (guarded_teardown G T) = guarded_runner G (td_runner T)"
  "td_files (guarded_teardown G T) = guarded_files G (td_files T)"
  "pf_get (guarded_files G F) = pf_get F" "pf_put (guarded_files G F) = pf_put F"
  "pf_euid (guarded_files G F) = pf_euid F" "pf_recursion_limit (guarded_files G F) = pf_recursion_limit F"
  by (simp_all add: guarded_teardown_def guarded_files_def)

lemma reading_commands [simp]:
  "\<not> removes (exe # inspect_arguments r)" "\<not> removes (exe # list_arguments i k)"
  by (auto simp: inspect_arguments_def list_arguments_def Let_def split: docker_kind.splits)

lemma removing_commands [simp]: "removes (exe # remove_arguments r ident)"
  by (simp add: remove_arguments_def split: docker_kind.splits)

text \<open>What the world is asked for: the guard establishes \<open>G\<close>, and nothing but a removal ends it.\<close>

definition holds_on :: "('s \<Rightarrow> bool) \<Rightarrow> 's runtime_teardown \<Rightarrow> ('s, bool) act \<Rightarrow> ('s, bool) act \<Rightarrow> bool" where
  "holds_on G T guard heartbeat =
     ((\<forall>s s'. guard s = (Inr True, s') \<longrightarrow> G s') \<and> keeps G heartbeat \<and>
      (\<forall>args t hb check. \<not> removes args \<longrightarrow> keeps G hb \<longrightarrow> keeps G (td_runner T args t (Some hb) check)) \<and>
      (\<forall>c. c \<noteq> Os_Unlink \<and> c \<noteq> Os_Rmdir \<longrightarrow> port_keeps G (pf_lets (td_files T) c)))"

lemma keeps_pulse: "keeps G heartbeat \<Longrightarrow> keeps G (pulse heartbeat)"
  by (auto simp: pulse_def intro!: keeps_bind)

lemma gains_authorize:
  assumes "\<And>s s'. guard s = (Inr True, s') \<Longrightarrow> G s'"
  shows "gains G (authorize_mutation guard heartbeat)"
  using assms
  by (auto simp: gains_def authorize_mutation_def seq_act_def bind_act_def ret_def raise_def
      split: prod.splits sum.splits if_splits)

lemma guarded_run [simp]:
  "run_unchecked (guarded_teardown G T) (inspect_arguments r) h = run_unchecked T (inspect_arguments r) h"
  "run_unchecked (guarded_teardown G T) (list_arguments i k) h = run_unchecked T (list_arguments i k) h"
  by (simp_all add: run_unchecked_def guarded_runner_def)

lemma guarded_observe [simp]:
  "observe_one (guarded_teardown G T) i r h = observe_one T i r h"
  "observe_expected (guarded_teardown G T) i rs h = observe_expected T i rs h"
proof -
  show one: "observe_one (guarded_teardown G T) i r h = observe_one T i r h" for r
    by (simp add: observe_one_def cong: if_cong option.case_cong)
  show "observe_expected (guarded_teardown G T) i rs h = observe_expected T i rs h"
    by (induction rs) (simp_all add: one)
qed

lemma guarded_reject [simp]:
  "reject_extra_resources (guarded_teardown G T) i rs h b = reject_extra_resources T i rs h b"
  by (simp add: reject_extra_resources_def reject_extra_kind_def)

lemma guarded_absent [simp]: "require_absent (guarded_teardown G T) i rs h = require_absent T i rs h"
  by (simp add: require_absent_def cong: if_cong)

lemma guarded_targets [simp]: "filesystem_targets (guarded_teardown G T) i xs = filesystem_targets T i xs"
  by (simp add: filesystem_targets_def)

lemma guarded_read:
  "c \<noteq> Os_Unlink \<Longrightarrow> c \<noteq> Os_Rmdir \<Longrightarrow> sys_read (guarded_files G F) c f = sys_read F c f"
  by (simp add: sys_read_def guarded_files_def cong: if_cong)

lemma guarded_validate_metadata [simp]:
  "validate_private_metadata (guarded_files G F) n d = validate_private_metadata F n d"
  by (simp add: validate_private_metadata_def private_metadata_def)

lemma guarded_walk [simp]: "walk_folders (guarded_files G F) ps fd = walk_folders F ps fd"
proof (induction ps arbitrary: fd)
  case (Cons p ps)
  then have "walk_folders (guarded_files G F) ps = walk_folders F ps" by (rule ext)
  then show ?case by (simp add: guarded_read)
qed simp

lemma guarded_open [simp]: "open_private_directory (guarded_files G F) path = open_private_directory F path"
  by (simp add: open_private_directory_def guarded_read)

lemma guarded_validate_tree [simp]: "validate_private_tree (guarded_files G F) n fd = validate_private_tree F n fd"
proof (induction n arbitrary: fd)
  case (Suc n)
  then have "validate_private_tree (guarded_files G F) n = validate_private_tree F n" by (rule ext)
  then show ?case by (simp add: guarded_read cong: if_cong)
qed simp

lemma guarded_exists [simp]: "exact_child_exists (guarded_files G F) root base = exact_child_exists F root base"
  by (simp add: exact_child_exists_def guarded_read cong: option.case_cong)

lemma guarded_validate [simp]:
  "validate_exact_private_child (guarded_files G F) root base = validate_exact_private_child F root base"
  by (simp add: validate_exact_private_child_def guarded_read cong: if_cong option.case_cong)

lemma change_agrees: "agrees G (sys_change (guarded_files G F) c f) (sys_change F c f)"
  by (simp add: agrees_def sys_change_def guarded_files_def bind_act_def get_act_def cong: sum.case_cong)

lemma keeps_read: "port_keeps G (pf_lets F c) \<Longrightarrow> keeps G (sys_read F c f)"
  unfolding sys_read_def by (rule keeps_bind, erule keeps_get) (auto simp: keeps_def raise_def)

lemma guarded_remove_contents:
  assumes gain: "gains G allow" and read: "\<And>c. c \<noteq> Os_Unlink \<Longrightarrow> c \<noteq> Os_Rmdir \<Longrightarrow> port_keeps G (pf_lets F c)"
  shows "remove_private_tree_contents (guarded_files G F) allow n fd = remove_private_tree_contents F allow n fd"
proof (induction n arbitrary: fd)
  case (Suc n)
  have folder: "seq_act allow (sys_change (guarded_files G F) Os_Rmdir f) = seq_act allow (sys_change F Os_Rmdir f)" for f
    by (rule gains_seq [OF gain change_agrees])
  have plain: "seq_act allow (bind_act (sys_read F Os_Stat (stat_entry fd name)) (\<lambda>(current, _).
        if handle \<noteq> current then raise_filesystem_uncertain
        else sys_change (guarded_files G F) Os_Unlink (unlink_entry fd name))) =
      seq_act allow (bind_act (sys_read F Os_Stat (stat_entry fd name)) (\<lambda>(current, _).
        if handle \<noteq> current then raise_filesystem_uncertain
        else sys_change F Os_Unlink (unlink_entry fd name)))" for handle name
    by (rule gains_seq [OF gain]) (auto intro!: agrees_bind keeps_read read change_agrees)
  from Suc have rec: "remove_private_tree_contents (guarded_files G F) allow n = remove_private_tree_contents F allow n"
    by (rule ext)
  show ?case by (simp add: guarded_read rec folder plain cong: if_cong)
qed simp

lemma guarded_remove_child:
  assumes gain: "gains G allow" and read: "\<And>c. c \<noteq> Os_Unlink \<Longrightarrow> c \<noteq> Os_Rmdir \<Longrightarrow> port_keeps G (pf_lets F c)"
  shows "remove_exact_private_child (guarded_files G F) allow root base = remove_exact_private_child F allow root base"
proof -
  have folder: "seq_act allow (sys_change (guarded_files G F) Os_Rmdir f) = seq_act allow (sys_change F Os_Rmdir f)" for f
    by (rule gains_seq [OF gain change_agrees])
  show ?thesis
    by (simp add: remove_exact_private_child_def guarded_read guarded_remove_contents [OF gain read] folder
        cong: if_cong option.case_cong)
qed

lemma keeps_run:
  assumes "holds_on G T guard heartbeat" "\<not> removes (td_executable T # args)"
  shows "keeps G (run_unchecked T args heartbeat)"
proof -
  have beat: "keeps G (pulse heartbeat)" using assms(1) by (simp add: holds_on_def keeps_pulse)
  have "keeps G (td_runner T (td_executable T # args) (td_command_timeout T) (Some (pulse heartbeat)) False)"
    using assms beat by (simp add: holds_on_def)
  then show ?thesis
    unfolding run_unchecked_def by (intro keeps_seq keeps_try beat) (auto split: exn.splits)
qed

lemma keeps_observe:
  assumes "holds_on G T guard heartbeat" shows "keeps G (observe_one T i r heartbeat)"
  unfolding observe_one_def
  by (intro keeps_bind keeps_run [OF assms]) (auto split: option.splits)

lemma guarded_remove_resource:
  assumes on: "holds_on G T guard heartbeat"
  shows "remove_resource (guarded_teardown G T) i states guard heartbeat r = remove_resource T i states guard heartbeat r"
proof -
  have gain: "gains G (authorize_mutation guard heartbeat)"
    by (rule gains_authorize) (use on in \<open>auto simp: holds_on_def\<close>)
  have beat: "keeps G (pulse heartbeat)" by (rule keeps_pulse) (use on in \<open>simp add: holds_on_def\<close>)
  have run: "agrees G (run_unchecked (guarded_teardown G T) args heartbeat) (run_unchecked T args heartbeat)" for args
    unfolding run_unchecked_def guarded_fields
    by (rule agrees_seq [OF agrees_refl beat]) (simp add: agrees_def guarded_runner_def try_act_def)
  have "seq_act (authorize_mutation guard heartbeat) (bind_act (observe_one T i r heartbeat) (\<lambda>current.
        if current \<noteq> Some observed then raise (resources_uncertain False)
        else bind_act (run_unchecked (guarded_teardown G T) (remove_arguments r observed) heartbeat) k)) =
      seq_act (authorize_mutation guard heartbeat) (bind_act (observe_one T i r heartbeat) (\<lambda>current.
        if current \<noteq> Some observed then raise (resources_uncertain False)
        else bind_act (run_unchecked T (remove_arguments r observed) heartbeat) k))"
    for observed and k :: "command_result \<Rightarrow> ('a, unit) act"
  proof (rule gains_seq [OF gain], rule agrees_bind [OF agrees_refl keeps_observe [OF on]])
    fix current
    have "agrees G (bind_act (run_unchecked (guarded_teardown G T) (remove_arguments r observed) heartbeat) k)
        (bind_act (run_unchecked T (remove_arguments r observed) heartbeat) k)"
      using run by (simp add: agrees_def bind_act_def)
    then show "agrees G (if current \<noteq> Some observed then raise (resources_uncertain False)
        else bind_act (run_unchecked (guarded_teardown G T) (remove_arguments r observed) heartbeat) k)
      (if current \<noteq> Some observed then raise (resources_uncertain False)
        else bind_act (run_unchecked T (remove_arguments r observed) heartbeat) k)" by simp
  qed
  then show ?thesis by (simp add: remove_resource_def cong: option.case_cong)
qed

lemma guarded_teardown_eq:
  assumes on: "holds_on G T guard heartbeat"
  shows "teardown (guarded_teardown G T) i xs runtime guard heartbeat = teardown T i xs runtime guard heartbeat"
proof -
  have gain: "gains G (authorize_mutation guard heartbeat)"
    by (rule gains_authorize) (use on in \<open>auto simp: holds_on_def\<close>)
  have read: "\<And>c. c \<noteq> Os_Unlink \<Longrightarrow> c \<noteq> Os_Rmdir \<Longrightarrow> port_keeps G (pf_lets (td_files T) c)"
    using on by (simp add: holds_on_def)
  have target: "remove_target (guarded_teardown G T) guard heartbeat = remove_target T guard heartbeat"
    by (rule ext) (simp add: remove_target_def guarded_remove_child [OF gain read] split: prod.splits)
  have resource: "remove_resource (guarded_teardown G T) i states guard heartbeat = remove_resource T i states guard heartbeat"
    for states
    by (rule ext) (rule guarded_remove_resource [OF on])
  show ?thesis by (simp add: teardown_def target resource)
qed

end
