(* ===== verification/Teardown_Docker.thy ===== *)
theory Teardown_Docker
  imports Teardown_Authority Route_Passes
begin

text \<open>
  A teardown and the objects of the Docker daemon: what it may remove, and what cannot be left
  when it returns.  The daemon is known only by what it documents: an inspection prints the identity and the
  labels of the object of that name, a listing prints the objects with the label, a removal
  removes the object of that identity or nothing.
\<close>

section \<open>Docker objects\<close>

record docker_object =
  ob_kind :: docker_kind
  ob_id :: string
  ob_names :: "string list"
  ob_labels :: "(string \<times> string) list"

definition ob_key :: "docker_object \<Rightarrow> docker_kind \<times> string" where
  "ob_key x = (ob_kind x, ob_id x)"

definition labelled :: "uuid \<Rightarrow> docker_object \<Rightarrow> bool" where
  "labelled i x = (map_of (ob_labels x) ''heimdall.project-id'' = Some (uuid_str i))"

text \<open>The objects that carry every label of one of the project's expected resources.\<close>

definition exactly_labelled :: "uuid \<Rightarrow> expected_resource list \<Rightarrow> docker_object \<Rightarrow> bool" where
  "exactly_labelled i expected x =
     list_ex (\<lambda>r. ob_kind x = er_docker_kind r \<and>
       list_all (\<lambda>(k, v). map_of (ob_labels x) k = Some v) (wanted_labels i r)) expected"

lemma exactly_labelled_project: "exactly_labelled i expected x \<Longrightarrow> labelled i x"
  by (auto simp: exactly_labelled_def labelled_def list_ex_iff wanted_labels_def)

text \<open>What \<open>docker inspect\<close> prints of an object, as \<open>json.loads\<close> reads it.\<close>

definition describes :: "json option \<Rightarrow> docker_object \<Rightarrow> bool" where
  "describes payload x =
     (\<exists>fs. payload = Some (JObj fs) \<and> jget ''id'' fs = Some (JStr (ob_id x)) \<and>
       (\<forall>l k v. jget ''labels'' fs = Some (JObj l) \<longrightarrow> jget k l = Some (JStr v) \<longrightarrow>
          map_of (ob_labels x) k = Some v))"

definition without_object :: "docker_kind \<Rightarrow> string \<Rightarrow> docker_object list \<Rightarrow> docker_object list" where
  "without_object k ident xs = filter (\<lambda>x. ob_key x \<noteq> (k, ident)) xs"

text \<open>\<open>still view m\<close>: the program leaves the view as it is, however it ends.\<close>

definition still :: "('s \<Rightarrow> 'v) \<Rightarrow> ('s, 'a) act \<Rightarrow> bool" where
  "still view m = (\<forall>s. view (snd (m s)) = view s)"

definition command ::
    "'s runtime_teardown \<Rightarrow> string list \<Rightarrow> 's heartbeat \<Rightarrow> ('s, command_result) act" where
  "command T args hb = td_runner T (td_executable T # args) (td_command_timeout T) (Some hb) False"

definition truthful_daemon :: "'s runtime_teardown \<Rightarrow> ('s \<Rightarrow> docker_object list) \<Rightarrow> bool" where
  "truthful_daemon T objects =
     (\<forall>hb. still objects hb \<longrightarrow>
        (\<forall>r. still objects (command T (inspect_arguments r) hb)) \<and>
        (\<forall>i k. still objects (command T (list_arguments i k) hb)) \<and>
        (\<forall>r res s s'. command T (inspect_arguments r) hb s = (Inr res, s') \<longrightarrow> cr_returncode res = 0 \<longrightarrow>
           (\<exists>x\<in>set (objects s). ob_kind x = er_docker_kind r \<and> er_name r \<in> set (ob_names x) \<and>
              describes (td_loads T (cr_stdout res)) x)) \<and>
        (\<forall>i k res s s'. command T (list_arguments i k) hb s = (Inr res, s') \<longrightarrow> cr_returncode res = 0 \<longrightarrow>
           (\<forall>x\<in>set (objects s). ob_kind x = k \<longrightarrow> labelled i x \<longrightarrow> observed_names (cr_stdout res) \<noteq> [])) \<and>
        (\<forall>r ident s. objects (snd (command T (remove_arguments r ident) hb s)) \<in>
           {objects s, without_object (er_docker_kind r) ident (objects s)}))"

text \<open>Nobody else touches the objects or the files meanwhile.\<close>

definition files_still :: "'s runtime_teardown \<Rightarrow> ('s \<Rightarrow> 'v) \<Rightarrow> bool" where
  "files_still T view =
     ((\<forall>c s. view (snd (pf_lets (td_files T) c s)) = view s) \<and>
      (\<forall>fs s. view (pf_put (td_files T) fs s) = view s))"

section \<open>What a teardown removes\<close>

lemma still_keeps: "still view m \<Longrightarrow> keeps (\<lambda>s. I (view s)) m"
  by (simp add: still_def keeps_def)

lemma stillD: "still view m \<Longrightarrow> m s = (r, s') \<Longrightarrow> view s' = view s"
  by (metis still_def snd_conv)

lemma still_ret [simp]: "still view (ret a)" and still_raise [simp]: "still view (raise e)"
  by (simp_all add: still_def ret_def raise_def)

lemma still_bind: "still view m \<Longrightarrow> (\<And>a. still view (f a)) \<Longrightarrow> still view (bind_act m f)"
  by (auto simp: still_def bind_act_def split: prod.splits sum.splits) (metis snd_conv)+

lemma still_seq: "still view m \<Longrightarrow> still view n \<Longrightarrow> still view (seq_act m n)"
  unfolding seq_act_def by (rule still_bind)

lemma still_try: "still view m \<Longrightarrow> (\<And>e. still view (h e)) \<Longrightarrow> still view (try_act m h)"
  by (auto simp: still_def try_act_def split: prod.splits sum.splits) (metis snd_conv)+

lemma still_for_each: "(\<And>x. still view (f x)) \<Longrightarrow> still view (for_each xs f)"
  by (induction xs) (auto intro: still_seq)

lemma still_pulse: "still view heartbeat \<Longrightarrow> still view (pulse heartbeat)"
  by (auto simp: pulse_def intro!: still_bind)

lemma still_authorize: "still view guard \<Longrightarrow> still view heartbeat \<Longrightarrow> still view (authorize_mutation guard heartbeat)"
  by (auto simp: authorize_mutation_def intro!: still_bind still_seq still_pulse)

lemma still_run:
  assumes "still view (pulse heartbeat)" "still view (command T args (pulse heartbeat))"
  shows "still view (run_unchecked T args heartbeat)"
  using assms unfolding run_unchecked_def command_def
  by (intro still_seq still_try) (auto split: exn.splits)

lemma still_observe:
  assumes "truthful_daemon T objects" "still objects heartbeat"
  shows "still objects (observe_one T i r heartbeat)" "still objects (observe_expected T i rs heartbeat)"
    "still objects (reject_extra_resources T i rs heartbeat b)"
proof -
  note beat = still_pulse [OF assms(2)]
  have run: "still objects (run_unchecked T (inspect_arguments r) heartbeat)"
    "still objects (run_unchecked T (list_arguments j k) heartbeat)" for r j k
    using assms(1) beat by (auto simp: truthful_daemon_def intro!: still_run)
  show one: "still objects (observe_one T i r heartbeat)" for r
    unfolding observe_one_def by (rule still_bind [OF run(1)]) (auto split: option.splits)
  show "still objects (observe_expected T i rs heartbeat)"
    by (induction rs) (auto intro!: still_bind one)
  show "still objects (reject_extra_resources T i rs heartbeat b)"
    unfolding reject_extra_resources_def reject_extra_kind_def
    by (intro still_for_each still_bind run(2)) (auto simp: Let_def)
qed

lemma run_returns:
  assumes "run_unchecked T args heartbeat s = (Inr res, s')" "cr_returncode res \<noteq> -1"
  shows "\<exists>s1. pulse heartbeat s = (Inr (), s1) \<and> command T args (pulse heartbeat) s1 = (Inr res, s')"
  using assms
  by (auto simp: run_unchecked_def command_def seq_act_def bind_act_def try_act_def ret_def raise_def no_result_def
      split: prod.splits sum.splits exn.splits)

lemma exact_identity_Some:
  assumes "exact_identity i r payload = Some ident" "describes payload x"
  shows "ob_id x = ident \<and> list_all (\<lambda>(k, v). map_of (ob_labels x) k = Some v) (wanted_labels i r)"
proof -
  from assms(1) obtain fs where fs: "payload = Some (JObj fs)" "jget ''id'' fs = Some (JStr ident)"
      "matches_labels (jget ''labels'' fs) (wanted_labels i r)"
    unfolding exact_identity_def by (simp split: option.split_asm json.split_asm if_split_asm)
  from fs(3) obtain l where l: "jget ''labels'' fs = Some (JObj l)"
      "list_all (\<lambda>(name, v). jget name l = Some (JStr v)) (wanted_labels i r)"
    unfolding matches_labels_def by (simp split: option.split_asm json.split_asm)
  show ?thesis
    using assms(2) fs(1,2) l unfolding describes_def by (auto simp: list_all_iff)
qed

text \<open>An observation that answers with an identity answers with that of an object of the project.\<close>

lemma observe_one_Some:
  assumes daemon: "truthful_daemon T objects" and beat: "still objects heartbeat"
    and run: "observe_one T i r heartbeat s = (Inr (Some ident), s')"
  shows "\<exists>x\<in>set (objects s'). ob_key x = (er_docker_kind r, ident) \<and> exactly_labelled i [r] x"
proof -
  obtain res where res: "run_unchecked T (inspect_arguments r) heartbeat s = (Inr res, s')" "cr_returncode res = 0"
      "exact_identity i r (td_loads T (cr_stdout res)) = Some ident"
    using run unfolding observe_one_def
    by (auto simp: bind_act_def ret_def raise_def split: prod.splits sum.splits if_splits option.splits)
  obtain s1 where s1: "pulse heartbeat s = (Inr (), s1)" "command T (inspect_arguments r) (pulse heartbeat) s1 = (Inr res, s')"
    using run_returns [OF res(1)] res(2) by auto
  note D = daemon [unfolded truthful_daemon_def, rule_format, OF still_pulse [OF beat]]
  obtain x where x: "x \<in> set (objects s1)" "ob_kind x = er_docker_kind r" "describes (td_loads T (cr_stdout res)) x"
    using D s1(2) res(2) by blast
  have "objects s' = objects s1" using D s1(2) by (blast intro: stillD)
  then show ?thesis
    using exact_identity_Some [OF res(3) x(3)] x(1,2)
    by (auto simp: ob_key_def exactly_labelled_def)
qed

text \<open>Some of the exactly labelled objects may be gone, all others are as they were.\<close>

definition spares :: "uuid \<Rightarrow> expected_resource list \<Rightarrow> docker_object list \<Rightarrow> docker_object list \<Rightarrow> bool" where
  "spares i expected before after =
     (distinct (map ob_key after) \<and> set after \<subseteq> set before \<and>
      filter (\<lambda>x. \<not> exactly_labelled i expected x) after = filter (\<lambda>x. \<not> exactly_labelled i expected x) before)"

lemma spares_refl: "distinct (map ob_key xs) \<Longrightarrow> spares i expected xs xs"
  by (simp add: spares_def)

lemma spares_without:
  assumes "spares i expected xs ys" and x: "x \<in> set ys" "ob_key x = (k, ident)" "exactly_labelled i expected x"
  shows "spares i expected xs (without_object k ident ys)"
proof -
  have d: "distinct (map ob_key ys)" using assms(1) by (simp add: spares_def)
  have only: "exactly_labelled i expected y" if "y \<in> set ys" "ob_key y = (k, ident)" for y
    using same_key_same_row [OF d that(1) x(1)] that(2) x(2,3) by simp
  have "filter (\<lambda>x. \<not> exactly_labelled i expected x) (without_object k ident ys) =
      filter (\<lambda>x. \<not> exactly_labelled i expected x) ys"
    unfolding without_object_def filter_filter by (rule filter_cong) (auto dest: only)
  then show ?thesis
    using assms(1) by (auto simp: spares_def without_object_def distinct_map_filter)
qed

lemma exactly_labelled_member: "exactly_labelled i [r] x \<Longrightarrow> r \<in> set expected \<Longrightarrow> exactly_labelled i expected x"
  by (auto simp: exactly_labelled_def list_ex_iff)

lemma remove_resource_spares:
  assumes daemon: "truthful_daemon T objects" and still: "still objects guard" "still objects heartbeat"
    and r: "r \<in> set expected"
  shows "keeps (\<lambda>s. spares i expected xs (objects s)) (remove_resource T i states guard heartbeat r)"
proof -
  let ?I = "\<lambda>s. spares i expected xs (objects s)"
  note D = daemon [unfolded truthful_daemon_def, rule_format, OF still_pulse [OF still(2)]]
  have remove: "keeps ?I (bind_act (observe_one T i r heartbeat) (\<lambda>current.
      if current \<noteq> Some observed then raise (resources_uncertain False)
      else bind_act (run_unchecked T (remove_arguments r observed) heartbeat) (\<lambda>result.
        if cr_returncode result \<noteq> 0 then raise (resources_uncertain False) else ret ())))" for observed
    unfolding keeps_def
  proof (intro allI impI)
    fix s assume I: "?I s"
    obtain o' s1 where o': "observe_one T i r heartbeat s = (o', s1)" by fastforce
    have same: "objects s1 = objects s" using still_observe(1) [OF daemon still(2)] o' by (rule stillD)
    show "?I (snd (bind_act (observe_one T i r heartbeat) (\<lambda>current.
        if current \<noteq> Some observed then raise (resources_uncertain False)
        else bind_act (run_unchecked T (remove_arguments r observed) heartbeat) (\<lambda>result.
          if cr_returncode result \<noteq> 0 then raise (resources_uncertain False) else ret ())) s))"
    proof (cases "o' = Inr (Some observed)")
      case False
      then show ?thesis using I same o' by (auto simp: bind_act_def raise_def split: sum.splits)
    next
      case True
      obtain x where x: "x \<in> set (objects s1)" "ob_key x = (er_docker_kind r, observed)" "exactly_labelled i expected x"
        using observe_one_Some [OF daemon still(2)] o' True exactly_labelled_member [OF _ r] by blast
      obtain b s2 where s2: "pulse heartbeat s1 = (b, s2)" by fastforce
      have "objects s2 = objects s1" using still_pulse [OF still(2)] s2 by (rule stillD)
      moreover obtain c s3 where s3: "command T (remove_arguments r observed) (pulse heartbeat) s2 = (c, s3)" by fastforce
      moreover have "objects s3 \<in> {objects s2, without_object (er_docker_kind r) observed (objects s2)}"
        using D s3 by (metis snd_conv)
      moreover have "spares i expected xs (without_object (er_docker_kind r) observed (objects s1))"
        by (rule spares_without [OF _ x]) (use I same in simp)
      ultimately have "?I s2 \<and> ?I s3" using I same by auto
      then show ?thesis
        using True o' s2 s3
        by (auto simp: bind_act_def seq_act_def try_act_def run_unchecked_def command_def raise_def ret_def
            split: sum.splits exn.splits)
    qed
  qed
  show ?thesis
    unfolding remove_resource_def
    by (auto split: option.splits intro!: keeps_seq remove
        still_keeps [OF still_authorize [OF still], where I = "spares i expected xs"])
qed

lemma still_read: "files_still T view \<Longrightarrow> still view (sys_read (td_files T) c f)"
  unfolding sys_read_def
  by (rule still_bind) (auto simp: files_still_def still_def get_act_def raise_def)

lemma still_change: "files_still T view \<Longrightarrow> still view (sys_change (td_files T) c f)"
  unfolding sys_change_def
  by (rule still_bind) (auto simp: files_still_def still_def get_act_def raise_def split: sum.splits)

lemma still_or_not_found: "still view m \<Longrightarrow> still view (or_not_found m)"
  unfolding or_not_found_def by (intro still_try still_bind) auto

lemma still_uncertain [simp]: "still view raise_filesystem_uncertain"
  by (simp add: raise_filesystem_uncertain_def)

lemma still_os_error: "still view m \<Longrightarrow> still view (os_error_uncertain m)"
  unfolding os_error_uncertain_def by (intro still_try) auto

lemma still_metadata [simp]: "still view (validate_private_metadata F n d)"
  by (simp add: validate_private_metadata_def)

lemma still_walk: "files_still T view \<Longrightarrow> still view (walk_folders (td_files T) ps fd)"
  by (induction ps arbitrary: fd) (auto intro!: still_bind still_read)

lemma still_open: "files_still T view \<Longrightarrow> still view (open_private_directory (td_files T) path)"
  unfolding open_private_directory_def by (auto intro!: still_bind still_seq still_read still_walk)

lemma still_validate_tree: "files_still T view \<Longrightarrow> still view (validate_private_tree (td_files T) n fd)"
  by (induction n arbitrary: fd)
    (auto intro!: still_bind still_seq still_read still_for_each)

lemma still_exists: "files_still T view \<Longrightarrow> still view (exact_child_exists (td_files T) root base)"
  unfolding exact_child_exists_def
  by (auto intro!: still_bind still_read still_or_not_found still_open split: option.splits)

lemma still_validate: "files_still T view \<Longrightarrow> still view (validate_exact_private_child (td_files T) root base)"
  unfolding validate_exact_private_child_def
  by (auto intro!: still_bind still_read still_or_not_found still_os_error still_open still_validate_tree split: option.splits)

lemma still_remove_contents:
  "files_still T view \<Longrightarrow> still view allow \<Longrightarrow> still view (remove_private_tree_contents (td_files T) allow n fd)"
  by (induction n arbitrary: fd)
    (auto intro!: still_bind still_seq still_read still_change still_for_each)

lemma still_remove_child:
  "files_still T view \<Longrightarrow> still view allow \<Longrightarrow> still view (remove_exact_private_child (td_files T) allow root base)"
  unfolding remove_exact_private_child_def
  by (auto intro!: still_bind still_seq still_read still_change still_or_not_found still_os_error still_open
      still_validate still_remove_contents split: option.splits)

lemma still_remove_target:
  assumes "files_still T view" "still view guard" "still view heartbeat"
  shows "still view (remove_target T guard heartbeat target)"
  unfolding remove_target_def
  by (cases target)
    (auto intro!: still_seq still_bind still_remove_child still_exists still_authorize assms)

lemma still_require_absent:
  assumes "truthful_daemon T objects" "still objects heartbeat"
  shows "still objects (require_absent T i expected heartbeat)"
  unfolding require_absent_def using still_observe [OF assms] by (auto intro!: still_bind)

section \<open>A teardown spares what is not the project's\<close>

lemma teardown_spares:
  assumes daemon: "truthful_daemon T objects" and files: "files_still T objects"
    and still: "still objects guard" "still objects heartbeat"
    and expected: "expected_resources i xs runtime = Inr expected"
  shows "keeps (\<lambda>s. spares i expected before (objects s)) (teardown T i xs runtime guard heartbeat)"
proof -
  let ?I = "spares i expected before"
  have look: "keeps (\<lambda>s. ?I (objects s)) (observe_expected T i expected heartbeat)"
    "keeps (\<lambda>s. ?I (objects s)) (reject_extra_resources T i expected heartbeat b)"
    "keeps (\<lambda>s. ?I (objects s)) (require_absent T i expected heartbeat)"
    "keeps (\<lambda>s. ?I (objects s)) (pulse heartbeat)" for b
    by (intro still_keeps still_observe [OF daemon still(2)] still_require_absent [OF daemon still(2)]
        still_pulse still(2))+
  have valid: "keeps (\<lambda>s. ?I (objects s)) (for_each ts (\<lambda>(root, base). validate_exact_private_child (td_files T) root base))" for ts
    by (intro keeps_for_each) (auto intro!: still_keeps [OF still_validate [OF files]])
  have target: "keeps (\<lambda>s. ?I (objects s)) (for_each ts (remove_target T guard heartbeat))" for ts
    by (intro keeps_for_each still_keeps still_remove_target files still)
  have resources: "keeps (\<lambda>s. ?I (objects s)) (for_each (sort_key f expected) (remove_resource T i states guard heartbeat))"
    for states and f :: "expected_resource \<Rightarrow> nat"
    by (intro keeps_for_each remove_resource_spares daemon still) simp
  show ?thesis
    unfolding teardown_def expected sum_act_def sum.case Let_def bind_ret
    by (intro keeps_bind keeps_ret keeps_seq look valid target resources)
qed

section \<open>What is left when a teardown returns\<close>

text \<open>The folder that an absolute path names, and whether it has an entry.\<close>

fun folder_at :: "file_system \<Rightarrow> string list \<Rightarrow> inode \<Rightarrow> inode option" where
  "folder_at fs [] i = Some i"
| "folder_at fs (p # ps) i =
     (case open_folder i p fs of Inl e \<Rightarrow> None | Inr j \<Rightarrow> folder_at fs ps j)"

definition child_present :: "string \<Rightarrow> string \<Rightarrow> file_system \<Rightarrow> bool" where
  "child_present root basename fs =
     (case folder_at fs (posix_parts root) (fs_anchor fs) of
        None \<Rightarrow> False
      | Some d \<Rightarrow> (case stat_entry d basename fs of Inl e \<Rightarrow> False | Inr x \<Rightarrow> True))"

text \<open>Nobody else touches the files meanwhile, and what is written is read back.\<close>

definition files_own :: "'s runtime_teardown \<Rightarrow> bool" where
  "files_own T =
     ((\<forall>c s. pf_get (td_files T) (snd (pf_lets (td_files T) c s)) = pf_get (td_files T) s) \<and>
      (\<forall>fs s. pf_get (td_files T) (pf_put (td_files T) fs s) = fs) \<and>
      (\<forall>args hb. still (pf_get (td_files T)) hb \<longrightarrow> still (pf_get (td_files T)) (command T args hb)))"

lemma entries_drop:
  "entries_at (drop_entry d n fs) i =
     (if i = d then map_option (filter (\<lambda>(k, _). k \<noteq> n)) (entries_at fs d) else entries_at fs i)"
  by (auto simp: entries_at_def nodes_drop_entry split: option.splits)

lemma node_drop:
  "(fs_nodes (drop_entry d n fs) i = None) = (fs_nodes fs i = None)"
  "fs_nodes fs i = Some x \<Longrightarrow> \<exists>y. fs_nodes (drop_entry d n fs) i = Some y \<and> fn_uid y = fn_uid x \<and> fn_mode y = fn_mode x \<and>
     (folder_entries (fn_kind y) = None) = (folder_entries (fn_kind x) = None) \<and>
     (i \<noteq> d \<longrightarrow> y = x)"
proof -
  show "(fs_nodes (drop_entry d n fs) i = None) = (fs_nodes fs i = None)" by (simp add: nodes_drop_entry)
  show "fs_nodes fs i = Some x \<Longrightarrow> \<exists>y. fs_nodes (drop_entry d n fs) i = Some y \<and> fn_uid y = fn_uid x \<and>
     fn_mode y = fn_mode x \<and> (folder_entries (fn_kind y) = None) = (folder_entries (fn_kind x) = None) \<and> (i \<noteq> d \<longrightarrow> y = x)"
    by (cases "i = d"; cases "folder_entries (fn_kind x)") (simp_all add: nodes_drop_entry)
qed

lemma map_of_filter_key: "map_of (filter (\<lambda>(k, _). k \<noteq> n) es) m = (if m = n then None else map_of es m)"
  by (induction es) auto

lemma stat_drop:
  assumes "stat_entry i m (drop_entry d n fs) = Inr (j, y)"
  shows "\<exists>x. stat_entry i m fs = Inr (j, x) \<and>
    (folder_entries (fn_kind y) = None) = (folder_entries (fn_kind x) = None)"
proof -
  obtain es where es: "entries_at (drop_entry d n fs) i = Some es" "map_of es m = Some j"
      "fs_nodes (drop_entry d n fs) j = Some y"
    using assms unfolding stat_entry_def by (auto split: option.split_asm)
  obtain es0 where es0: "entries_at fs i = Some es0" "map_of es0 m = Some j"
    using es(1,2) by (auto simp: entries_drop map_of_filter_key split: if_splits)
  obtain x where x: "fs_nodes fs j = Some x"
    using es(3) node_drop(1) [of d n fs j] by (cases "fs_nodes fs j") auto
  have "(folder_entries (fn_kind y) = None) = (folder_entries (fn_kind x) = None)"
    using node_drop(2) [OF x, of d n] es(3) by auto
  then show ?thesis using es0 x by (auto simp: stat_entry_def)
qed

lemma folder_at_drop:
  "folder_at (drop_entry d n fs) ps i = Some j \<Longrightarrow> folder_at fs ps i = Some j"
proof (induction ps arbitrary: i)
  case (Cons p ps)
  obtain k y where k: "stat_entry i p (drop_entry d n fs) = Inr (k, y)" "folder_entries (fn_kind y) \<noteq> None"
      "folder_at (drop_entry d n fs) ps k = Some j"
    using Cons.prems by (auto simp: open_folder_def split: sum.split_asm if_split_asm)
  then show ?case
    using Cons.IH [OF k(3)] stat_drop [OF k(1)] by (auto simp: open_folder_def)
qed simp

text \<open>A removal makes nothing appear.\<close>

lemma child_present_drop: "child_present root base (drop_entry d n fs) \<Longrightarrow> child_present root base fs"
proof -
  assume "child_present root base (drop_entry d n fs)"
  then obtain j x where j: "folder_at (drop_entry d n fs) (posix_parts root) (fs_anchor (drop_entry d n fs)) = Some j"
      "stat_entry j base (drop_entry d n fs) = Inr x"
    unfolding child_present_def by (auto split: option.split_asm sum.split_asm)
  have "fs_anchor (drop_entry d n fs) = fs_anchor fs" by (simp add: drop_entry_def split: option.split)
  then have "folder_at fs (posix_parts root) (fs_anchor fs) = Some j" using folder_at_drop j(1) by metis
  moreover have "\<exists>y. stat_entry j base fs = Inr y"
    using stat_drop [of j base d n fs "fst x" "snd x"] j(2) by auto
  ultimately show ?thesis by (auto simp: child_present_def)
qed

lemma changes_drop:
  assumes "unlink_entry d n fs = Inr fs' \<or> rmdir_entry d n fs = Inr fs'"
  shows "fs' = drop_entry d n fs"
  using assms by (auto simp: unlink_entry_def rmdir_entry_def split: sum.splits if_splits)

lemma keeps_change_absent:
  assumes own: "files_own T" and f: "\<And>fs fs'. f fs = Inr fs' \<Longrightarrow> \<exists>d n. fs' = drop_entry d n fs"
  shows "keeps (\<lambda>s. \<not> child_present root base (pf_get (td_files T) s)) (sys_change (td_files T) c f)"
  unfolding keeps_def
proof (intro allI impI)
  fix s assume s: "\<not> child_present root base (pf_get (td_files T) s)"
  have same: "pf_get (td_files T) (snd (pf_lets (td_files T) c s)) = pf_get (td_files T) s"
    and put: "pf_get (td_files T) (pf_put (td_files T) fs s1) = fs" for fs s1
    using own by (simp_all add: files_own_def)
  show "\<not> child_present root base (pf_get (td_files T) (snd (sys_change (td_files T) c f s)))"
  proof (cases "f (pf_get (td_files T) s)")
    case (Inl e)
    then show ?thesis using s same by (simp add: sys_change_def bind_act_def get_act_def raise_def)
  next
    case (Inr fs')
    then show ?thesis
      using f [OF Inr] s same put child_present_drop
      by (auto simp: sys_change_def bind_act_def get_act_def raise_def)
  qed
qed

lemma keeps_read_files: "files_own T \<Longrightarrow> keeps (\<lambda>s. I (pf_get (td_files T) s)) (sys_read (td_files T) c f)"
  by (rule still_keeps) (simp add: sys_read_def still_def bind_act_def get_act_def raise_def files_own_def)

lemma keeps_try_os: "keeps I m \<Longrightarrow> keeps I (os_error_uncertain m)" "keeps I m \<Longrightarrow> keeps I (or_not_found m)"
  unfolding os_error_uncertain_def or_not_found_def raise_filesystem_uncertain_def
  by (rule keeps_try, assumption, simp add: keeps_raise) (rule keeps_try, rule keeps_bind, auto)

lemma keeps_fs_uncertain [simp, intro]: "keeps I raise_filesystem_uncertain"
  by (auto simp: raise_filesystem_uncertain_def)

lemma keeps_metadata [simp, intro]: "keeps I (validate_private_metadata F n b)"
  by (simp add: validate_private_metadata_def keeps_ret)

lemma keeps_walk:
  "files_own T \<Longrightarrow> keeps (\<lambda>s. I (pf_get (td_files T) s)) (walk_folders (td_files T) ps fd)"
  by (induction ps arbitrary: fd) (auto intro!: keeps_bind keeps_read_files)

lemma keeps_open:
  "files_own T \<Longrightarrow> keeps (\<lambda>s. I (pf_get (td_files T) s)) (open_private_directory (td_files T) path)"
  unfolding open_private_directory_def by (auto intro!: keeps_bind keeps_seq keeps_read_files keeps_walk)

lemma keeps_validate_tree:
  "files_own T \<Longrightarrow> keeps (\<lambda>s. I (pf_get (td_files T) s)) (validate_private_tree (td_files T) n fd)"
  by (induction n arbitrary: fd) (auto intro!: keeps_bind keeps_seq keeps_read_files keeps_for_each)

lemma keeps_validate:
  "files_own T \<Longrightarrow> keeps (\<lambda>s. I (pf_get (td_files T) s)) (validate_exact_private_child (td_files T) root base)"
  unfolding validate_exact_private_child_def
  by (auto intro!: keeps_ret keeps_bind keeps_read_files keeps_try_os keeps_open keeps_validate_tree split: option.splits)

lemma keeps_exists:
  "files_own T \<Longrightarrow> keeps (\<lambda>s. I (pf_get (td_files T) s)) (exact_child_exists (td_files T) root base)"
  unfolding exact_child_exists_def
  by (auto intro!: keeps_ret keeps_bind keeps_read_files keeps_try_os keeps_open split: option.splits)

lemma keeps_removal_absent:
  assumes own: "files_own T"
  shows "keeps (\<lambda>s. \<not> child_present root base (pf_get (td_files T) s)) (sys_change (td_files T) c (unlink_entry d n))"
    "keeps (\<lambda>s. \<not> child_present root base (pf_get (td_files T) s)) (sys_change (td_files T) c (rmdir_entry d n))"
  by (rule keeps_change_absent [OF own], use changes_drop in blast)+

lemma keeps_remove_contents:
  assumes own: "files_own T" and "keeps (\<lambda>s. \<not> child_present root base (pf_get (td_files T) s)) allow"
  shows "keeps (\<lambda>s. \<not> child_present root base (pf_get (td_files T) s)) (remove_private_tree_contents (td_files T) allow n fd)"
  by (induction n arbitrary: fd)
    (auto intro!: keeps_bind keeps_seq keeps_for_each assms(2) keeps_removal_absent [OF own]
      keeps_read_files [OF own, where I = "\<lambda>fs. \<not> child_present root base fs"])

lemma keeps_remove_target:
  assumes own: "files_own T" and still: "still (pf_get (td_files T)) guard" "still (pf_get (td_files T)) heartbeat"
  shows "keeps (\<lambda>s. \<not> child_present root base (pf_get (td_files T) s)) (remove_target T guard heartbeat target)"
proof -
  let ?I = "\<lambda>fs. \<not> child_present root base fs"
  note read = keeps_read_files [OF own, where I = ?I] and opens = keeps_open [OF own, where I = ?I]
    and valid = keeps_validate [OF own, where I = ?I] and exist = keeps_exists [OF own, where I = ?I]
  have allow: "keeps (\<lambda>s. ?I (pf_get (td_files T) s)) (authorize_mutation guard heartbeat)"
    by (rule still_keeps [OF still_authorize [OF still]])
  show ?thesis
    unfolding remove_target_def remove_exact_private_child_def
    by (auto intro!: keeps_seq keeps_bind valid exist keeps_try_os opens read allow keeps_remove_contents [OF own allow]
        keeps_removal_absent [OF own] keeps_ret split: prod.splits option.splits)
qed


text \<open>What the calls that only read answer, when they answer.\<close>

lemma bind_Inl:
  "bind_act m f s = (Inl e, s') \<longleftrightarrow>
     m s = (Inl e, s') \<or> (\<exists>a s1. m s = (Inr a, s1) \<and> f a s1 = (Inl e, s'))"
  by (cases "m s"; cases "fst (m s)") (auto simp: bind_act_def)

lemma seq_Inr: "seq_act m n s = (Inr b, s') \<longleftrightarrow> (\<exists>s1. m s = (Inr (), s1) \<and> n s1 = (Inr b, s'))"
  by (simp add: seq_act_def bind_act_Inr)

lemma seq_Inl:
  "seq_act m n s = (Inl e, s') \<longleftrightarrow> m s = (Inl e, s') \<or> (\<exists>s1. m s = (Inr (), s1) \<and> n s1 = (Inl e, s'))"
  by (simp add: seq_act_def bind_Inl)

lemmas run_simps = bind_act_Inr bind_Inl seq_Inr seq_Inl ret_def raise_def

lemma sys_read_Inr:
  assumes "files_own T" "sys_read (td_files T) c f s = (r, s')" "r \<noteq> Inl call_refused"
  shows "r = f (pf_get (td_files T) s) \<and> pf_get (td_files T) s' = pf_get (td_files T) s"
  using assms
  by (auto simp: sys_read_def bind_act_def get_act_def raise_def files_own_def split: if_splits)

lemma os_errors_differ [simp]:
  "call_refused \<noteq> file_not_found" "file_not_found \<noteq> call_refused"
  "deletion_failure c b \<noteq> file_not_found" "file_not_found \<noteq> deletion_failure c b"
  by (simp_all add: call_refused_def file_not_found_def deletion_failure_def)

lemma walk_result:
  assumes own: "files_own T"
  shows "walk_folders (td_files T) ps fd s = (r, s') \<Longrightarrow> r \<noteq> Inl call_refused \<Longrightarrow>
    (case folder_at (pf_get (td_files T) s) ps fd of Some d \<Rightarrow> r = Inr d | None \<Rightarrow> \<exists>e. r = Inl e)"
proof (induction ps arbitrary: fd s)
  case (Cons p ps)
  obtain q s1 where q: "sys_read (td_files T) Os_Open (open_folder fd p) s = (q, s1)" by fastforce
  show ?case
  proof (cases "q = Inl call_refused")
    case True
    then show ?thesis using Cons.prems q by (simp add: bind_act_def)
  next
    case False
    note a = sys_read_Inr [OF own q False]
    show ?thesis
    proof (cases q)
      case (Inl e)
      then have "r = Inl e" using Cons.prems q by (simp add: bind_act_def)
      then show ?thesis using a [THEN conjunct1, symmetric] Inl by simp
    next
      case (Inr fd')
      then have "walk_folders (td_files T) ps fd' s1 = (r, s')" using Cons.prems q by (simp add: bind_act_def)
      moreover have "open_folder fd p (pf_get (td_files T) s) = Inr fd'" using a Inr by simp
      ultimately show ?thesis using Cons.IH [of fd' s1] Cons.prems(2) a by simp
    qed
  qed
qed (auto simp: ret_def)

lemma walk_answers:
  assumes own: "files_own T"
  shows "walk_folders (td_files T) ps fd s = (Inr d, s') \<Longrightarrow> folder_at (pf_get (td_files T) s) ps fd = Some d"
    and "walk_folders (td_files T) ps fd s = (Inl file_not_found, s') \<Longrightarrow> folder_at (pf_get (td_files T) s) ps fd = None"
proof -
  show "folder_at (pf_get (td_files T) s) ps fd = Some d" if "walk_folders (td_files T) ps fd s = (Inr d, s')"
    using walk_result [OF own that] by (simp split: option.split_asm)
  show "folder_at (pf_get (td_files T) s) ps fd = None" if "walk_folders (td_files T) ps fd s = (Inl file_not_found, s')"
    using walk_result [OF own that] by (simp split: option.split_asm)
qed

lemma open_private_answers:
  assumes own: "files_own T"
  shows "open_private_directory (td_files T) path s = (Inr d, s') \<Longrightarrow>
      folder_at (pf_get (td_files T) s) (posix_parts path) (fs_anchor (pf_get (td_files T) s)) = Some d"
    and "open_private_directory (td_files T) path s = (Inl file_not_found, s') \<Longrightarrow>
      folder_at (pf_get (td_files T) s) (posix_parts path) (fs_anchor (pf_get (td_files T) s)) = None"
proof -
  let ?fs = "pf_get (td_files T) s"
  have start: "fd = fs_anchor ?fs \<and> pf_get (td_files T) s1 = ?fs"
    if "sys_read (td_files T) Os_Open (\<lambda>fs. Inr (fs_anchor fs)) s = (Inr fd, s1)" for fd s1
    using sys_read_Inr [OF own that] by simp
  have refused: "r \<noteq> Inl file_not_found"
    if "sys_read (td_files T) Os_Open (\<lambda>fs. Inr (fs_anchor fs)) s = (r, s1)" for r s1
    using sys_read_Inr [OF own that] by auto
  have stat: "sys_read (td_files T) Os_Stat (fstat d) s2 \<noteq> (Inl file_not_found, s3)" for d s2 s3
  proof
    assume "sys_read (td_files T) Os_Stat (fstat d) s2 = (Inl file_not_found, s3)"
    then have "fstat d (pf_get (td_files T) s2) = Inl file_not_found" using sys_read_Inr [OF own] by fastforce
    then show False by (simp add: fstat_def split: option.splits)
  qed
  have meta: "validate_private_metadata F n b s2 \<noteq> (Inl file_not_found, s3)" for F :: "'a private_files" and n b s2 s3
    by (simp add: validate_private_metadata_def raise_filesystem_uncertain_def raise_def ret_def)
  note walk = walk_answers [OF own]
  have body: "bind_act (sys_read (td_files T) Os_Open (\<lambda>fs. Inr (fs_anchor fs))) (\<lambda>anchor.
        bind_act (walk_folders (td_files T) (posix_parts path) anchor) (\<lambda>fd.
        bind_act (sys_read (td_files T) Os_Stat (fstat fd)) (\<lambda>n.
          seq_act (validate_private_metadata (td_files T) n True) (ret fd)))) s = (r, s')"
    if "open_private_directory (td_files T) path s = (r, s')" "r = Inr d \<or> r = Inl file_not_found" for r
    using that
    by (simp add: open_private_directory_def raise_filesystem_uncertain_def raise_def deletion_failure_def file_not_found_def
        split: if_split_asm) auto
  show "folder_at ?fs (posix_parts path) (fs_anchor ?fs) = Some d"
    if run: "open_private_directory (td_files T) path s = (Inr d, s')"
  proof -
    obtain fd s1 where fd: "sys_read (td_files T) Os_Open (\<lambda>fs. Inr (fs_anchor fs)) s = (Inr fd, s1)"
        "bind_act (walk_folders (td_files T) (posix_parts path) fd) (\<lambda>fd.
           bind_act (sys_read (td_files T) Os_Stat (fstat fd)) (\<lambda>n.
             seq_act (validate_private_metadata (td_files T) n True) (ret fd))) s1 = (Inr d, s')"
      using body [OF run] unfolding bind_act_Inr [of "sys_read _ _ _"] by blast
    then obtain e s2 n s3 where e: "walk_folders (td_files T) (posix_parts path) fd s1 = (Inr e, s2)"
        "seq_act (validate_private_metadata (td_files T) n True) (ret e) s3 = (Inr d, s')"
      unfolding bind_act_Inr by blast
    then have "e = d" by (simp add: seq_Inr ret_def)
    then show ?thesis using start [OF fd(1)] walk(1) [OF e(1)] by simp
  qed
  show "folder_at ?fs (posix_parts path) (fs_anchor ?fs) = None"
    if run: "open_private_directory (td_files T) path s = (Inl file_not_found, s')"
  proof -
    obtain fd s1 where fd: "sys_read (td_files T) Os_Open (\<lambda>fs. Inr (fs_anchor fs)) s = (Inr fd, s1)"
        "bind_act (walk_folders (td_files T) (posix_parts path) fd) (\<lambda>fd.
           bind_act (sys_read (td_files T) Os_Stat (fstat fd)) (\<lambda>n.
             seq_act (validate_private_metadata (td_files T) n True) (ret fd))) s1 = (Inl file_not_found, s')"
      using body [OF run] refused unfolding bind_Inl [of "sys_read _ _ _"] by blast
    have rest: "bind_act (sys_read (td_files T) Os_Stat (fstat x)) (\<lambda>n.
             seq_act (validate_private_metadata (td_files T) n True) (ret x)) t \<noteq> (Inl file_not_found, s')" for x t
      using stat meta unfolding bind_Inl seq_Inl ret_def by simp
    obtain s2 where "walk_folders (td_files T) (posix_parts path) fd s1 = (Inl file_not_found, s2)"
      using fd(2) rest unfolding bind_Inl [of "walk_folders _ _ _"] by blast
    then show ?thesis using start [OF fd(1)] walk(2) [of "posix_parts path" fd s1 s2] by simp
  qed
qed

lemma or_not_found_answers:
  "or_not_found m s = (Inr None, s') \<Longrightarrow> m s = (Inl file_not_found, s')"
  "or_not_found m s = (Inr (Some a), s') \<Longrightarrow> m s = (Inr a, s')"
  by (auto simp: or_not_found_def try_act_def bind_act_def ret_def raise_def split: prod.splits sum.splits if_splits)

lemma exists_False:
  assumes own: "files_own T" and run: "exact_child_exists (td_files T) root base s = (Inr False, s')"
  shows "\<not> child_present root base (pf_get (td_files T) s')"
proof -
  have still: "pf_get (td_files T) (snd (m s0)) = pf_get (td_files T) s0"
    if "\<And>I. keeps (\<lambda>s. I (pf_get (td_files T) s)) m" for m :: "('a, 'b) act" and s0
    using that [of "\<lambda>fs. fs = pf_get (td_files T) s0"] by (simp add: keeps_def)
  have same: "pf_get (td_files T) s' = pf_get (td_files T) s"
    using keeps_exists [OF own, of "\<lambda>fs. fs = pf_get (td_files T) s"] run by (auto dest: keepsD)
  obtain r s1 where r: "or_not_found (open_private_directory (td_files T) root) s = (Inr r, s1)"
    using run by (auto simp: exact_child_exists_def bind_act_def split: prod.splits sum.splits)
  have same1: "pf_get (td_files T) s1 = pf_get (td_files T) s"
    using keepsD [OF keeps_try_os(2) [OF keeps_open [OF own, of "\<lambda>fs. fs = pf_get (td_files T) s"]] _ r] by simp
  show ?thesis
  proof (cases r)
    case None
    then show ?thesis
      using open_private_answers(2) [OF own or_not_found_answers(1) [of "open_private_directory (td_files T) root" s s1]]
        r same by (auto simp: child_present_def)
  next
    case (Some d)
    obtain found where "or_not_found (sys_read (td_files T) Os_Stat (stat_entry d base)) s1 = (Inr found, s')" "found = None"
      using run r Some by (auto simp: exact_child_exists_def run_simps simp del: not_None_eq)
    then have "or_not_found (sys_read (td_files T) Os_Stat (stat_entry d base)) s1 = (Inr None, s')" by simp
    then have "stat_entry d base (pf_get (td_files T) s) = Inl file_not_found"
      using sys_read_Inr [OF own or_not_found_answers(1) [of "sys_read (td_files T) Os_Stat (stat_entry d base)" s1 s']]
        same1 by (auto dest: sym)
    then show ?thesis
      using open_private_answers(1) [OF own or_not_found_answers(2) [of "open_private_directory (td_files T) root" s d s1]]
        r Some same by (auto simp: child_present_def)
  qed
qed

section \<open>Nothing is left\<close>

text \<open>After the last listing of each kind.\<close>

lemma truthful_list:
  assumes "truthful_daemon T objects" "still objects hb"
    and run: "command T (list_arguments i k) hb s = (Inr res, s')"
  shows "objects s' = objects s"
    and "cr_returncode res = 0 \<Longrightarrow> observed_names (cr_stdout res) = [] \<Longrightarrow>
      \<forall>x\<in>set (objects s). ob_kind x = k \<longrightarrow> \<not> labelled i x"
proof -
  note D = assms(1) [unfolded truthful_daemon_def, rule_format, OF assms(2)]
  show "objects s' = objects s" by (rule stillD [OF D [THEN conjunct2, THEN conjunct1, rule_format] run])
  show "\<forall>x\<in>set (objects s). ob_kind x = k \<longrightarrow> \<not> labelled i x"
    if "cr_returncode res = 0" "observed_names (cr_stdout res) = []"
    using D [THEN conjunct2, THEN conjunct2, THEN conjunct2, THEN conjunct1, rule_format, OF run that(1)] that(2) by blast
qed

lemma reject_kind_empty:
  assumes daemon: "truthful_daemon T objects" and beat: "still objects heartbeat"
    and run: "reject_extra_kind T i expected heartbeat True k s = (Inr (), s')"
  shows "objects s' = objects s \<and> (\<forall>x\<in>set (objects s). ob_kind x = k \<longrightarrow> \<not> labelled i x)"
proof -
  let ?check = "\<lambda>result. if cr_returncode result \<noteq> 0 then raise (resources_uncertain True)
     else if (True \<and> observed_names (cr_stdout result) \<noteq> []) \<or>
       \<not> set (observed_names (cr_stdout result)) \<subseteq> set (map er_name (filter (\<lambda>r. er_docker_kind r = k) expected))
     then raise (resources_uncertain False) else ret ()"
  obtain res u where res0: "run_unchecked T (list_arguments i k) heartbeat s = (Inr res, u)" "?check res u = (Inr (), s')"
    using run unfolding reject_extra_kind_def bind_act_Inr Let_def by blast
  have res: "run_unchecked T (list_arguments i k) heartbeat s = (Inr res, s')"
      "cr_returncode res = 0" "observed_names (cr_stdout res) = []"
    using res0 by (auto simp: raise_def ret_def split: if_split_asm)
  obtain s1 where s1: "pulse heartbeat s = (Inr (), s1)" "command T (list_arguments i k) (pulse heartbeat) s1 = (Inr res, s')"
    using run_returns [OF res(1)] res(2) by auto
  note list = truthful_list [OF daemon still_pulse [OF beat] s1(2)]
  have "objects s1 = objects s" by (rule stillD [OF still_pulse [OF beat] s1(1)])
  then show ?thesis using list(1) list(2) [OF res(2,3)] by simp
qed

lemma reject_extra_empty:
  assumes daemon: "truthful_daemon T objects" and beat: "still objects heartbeat"
    and run: "reject_extra_resources T i expected heartbeat True s = (Inr (), s')"
  shows "\<forall>x\<in>set (objects s'). \<not> labelled i x"
proof -
  obtain s1 s2 where kinds: "reject_extra_kind T i expected heartbeat True Container s = (Inr (), s1)"
      "reject_extra_kind T i expected heartbeat True Network s1 = (Inr (), s2)"
      "reject_extra_kind T i expected heartbeat True Image s2 = (Inr (), s')"
    using run unfolding reject_extra_resources_def for_each.simps seq_Inr ret_def by blast
  note empty = kinds [THEN reject_kind_empty [OF daemon beat]]
  show ?thesis
  proof
    fix x assume "x \<in> set (objects s')"
    then show "\<not> labelled i x" using empty by (cases "ob_kind x") auto
  qed
qed

lemma require_absent_empty:
  assumes "truthful_daemon T objects" "still objects heartbeat"
    and "require_absent T i expected heartbeat s = (Inr (), s')"
  shows "\<forall>x\<in>set (objects s'). \<not> labelled i x"
proof -
  obtain states :: "(expected_resource \<times> string option) list" and s1 where "(if list_ex (\<lambda>(_, state). state \<noteq> None) states then raise (resources_uncertain False)
       else reject_extra_resources T i expected heartbeat True) s1 = (Inr (), s')"
    using assms(3) [unfolded require_absent_def bind_act_Inr] by (elim exE conjE)
  then have "reject_extra_resources T i expected heartbeat True s1 = (Inr (), s')"
    by (simp add: raise_def split: if_split_asm)
  then show ?thesis by (rule reject_extra_empty [OF assms(1,2)])
qed

lemma still_files_run:
  assumes own: "files_own T" and beat: "still (pf_get (td_files T)) heartbeat"
  shows "still (pf_get (td_files T)) (observe_expected T i rs heartbeat)"
    "still (pf_get (td_files T)) (reject_extra_resources T i rs heartbeat b)"
    "still (pf_get (td_files T)) (require_absent T i rs heartbeat)"
proof -
  have run: "still (pf_get (td_files T)) (run_unchecked T args heartbeat)" for args
    using still_pulse [OF beat] own by (intro still_run) (simp_all add: files_own_def)
  have one: "still (pf_get (td_files T)) (observe_one T i r heartbeat)" for r
    unfolding observe_one_def by (rule still_bind [OF run]) (auto split: option.splits)
  show all: "still (pf_get (td_files T)) (observe_expected T i rs heartbeat)" for rs
    by (induction rs) (auto intro!: still_bind one)
  show extra: "still (pf_get (td_files T)) (reject_extra_resources T i rs heartbeat b)" for b
    unfolding reject_extra_resources_def reject_extra_kind_def
    by (intro still_for_each still_bind run) (auto simp: Let_def)
  show "still (pf_get (td_files T)) (require_absent T i rs heartbeat)"
    unfolding require_absent_def by (rule still_bind [OF all]) (auto intro: extra)
qed

definition target_present :: "'s runtime_teardown \<Rightarrow> 's \<Rightarrow> string \<times> string \<Rightarrow> bool" where
  "target_present T s = (\<lambda>(root, basename). child_present root basename (pf_get (td_files T) s))"

lemma targets_absent:
  assumes own: "files_own T" and still: "still (pf_get (td_files T)) guard" "still (pf_get (td_files T)) heartbeat"
  shows "for_each ts (remove_target T guard heartbeat) s = (Inr (), s') \<Longrightarrow> \<forall>t\<in>set ts. \<not> target_present T s' t"
proof (induction ts arbitrary: s)
  case (Cons t ts)
  obtain root base where t: "t = (root, base)" by (cases t)
  obtain s1 where s1: "remove_target T guard heartbeat t s = (Inr (), s1)" "for_each ts (remove_target T guard heartbeat) s1 = (Inr (), s')"
    using Cons.prems unfolding for_each.simps seq_Inr by blast
  obtain s0 found u where found: "exact_child_exists (td_files T) root base s0 = (Inr found, u)"
      "(if found then raise_filesystem_uncertain else ret ()) u = (Inr (), s1)"
    using s1(1) unfolding remove_target_def t prod.case seq_Inr bind_act_Inr by blast
  then have "\<not> found" "u = s1" by (auto simp: raise_filesystem_uncertain_def raise_def ret_def split: if_split_asm)
  then have "\<not> child_present root base (pf_get (td_files T) s1)" using exists_False [OF own] found(1) by simp
  moreover have "keeps (\<lambda>s. \<not> child_present root base (pf_get (td_files T) s)) (for_each ts (remove_target T guard heartbeat))"
    by (intro keeps_for_each keeps_remove_target own still)
  ultimately have "\<not> child_present root base (pf_get (td_files T) s')" using s1(2) by (blast dest: keepsD)
  then show ?case using Cons.IH [OF s1(2)] by (simp add: t target_present_def)
qed simp

lemma any_target_False:
  assumes own: "files_own T"
  shows "any_target_exists (td_files T) ts s = (Inr False, s') \<Longrightarrow>
    (\<forall>t\<in>set ts. \<not> target_present T s t) \<and> pf_get (td_files T) s' = pf_get (td_files T) s"
proof (induction ts arbitrary: s)
  case (Cons t ts)
  obtain root base where t: "t = (root, base)" by (cases t)
  obtain found s1 where s1: "exact_child_exists (td_files T) root base s = (Inr found, s1)"
      "(if found then ret True else any_target_exists (td_files T) ts) s1 = (Inr False, s')"
    using Cons.prems unfolding t any_target_exists.simps bind_act_Inr by blast
  then have no: "\<not> found" "any_target_exists (td_files T) ts s1 = (Inr False, s')"
    by (auto simp: ret_def split: if_split_asm)
  have same: "pf_get (td_files T) s1 = pf_get (td_files T) s"
    using keepsD [OF keeps_exists [OF own, of "\<lambda>fs. fs = pf_get (td_files T) s"] _ s1(1)] by simp
  then show ?case
    using Cons.IH [OF no(2)] exists_False [OF own, of root base s s1] s1(1) no(1) by (simp add: t target_present_def)
qed (simp add: ret_def)

lemma teardown_returned:
  assumes daemon: "truthful_daemon T objects" and own: "files_own T"
    and still: "still objects guard" "still objects heartbeat"
      "still (pf_get (td_files T)) guard" "still (pf_get (td_files T)) heartbeat"
    and run: "teardown T i xs runtime guard heartbeat s = (Inr (), s')"
  shows "(\<forall>x\<in>set (objects s'). \<not> labelled i x) \<and> (\<forall>t\<in>set (filesystem_targets T i xs). \<not> target_present T s' t)"
proof -
  let ?targets = "filesystem_targets T i xs"
  obtain expected s1 s2 where s1: "for_each ?targets (remove_target T guard heartbeat) s1 = (Inr (), s2)"
      "require_absent T i expected heartbeat s2 = (Inr (), s')"
    using run unfolding teardown_def Let_def bind_act_Inr seq_Inr by blast
  have "pf_get (td_files T) s' = pf_get (td_files T) s2"
    by (rule stillD [OF still_files_run(3) [OF own still(4)] s1(2)])
  then show ?thesis
    using require_absent_empty [OF daemon still(2) s1(2)] targets_absent [OF own still(3,4) s1(1)]
    by (simp add: target_present_def)
qed

lemma verified_absent:
  assumes daemon: "truthful_daemon T objects" and own: "files_own T" "files_still T objects"
    and still: "still objects guard" "still objects heartbeat"
      "still (pf_get (td_files T)) guard" "still (pf_get (td_files T)) heartbeat"
    and run: "teardown_verify_absent T i xs runtime guard heartbeat s = (Inr (), s')"
  shows "(\<forall>x\<in>set (objects s'). \<not> labelled i x) \<and> (\<forall>t\<in>set (filesystem_targets T i xs). \<not> target_present T s' t)"
proof -
  let ?targets = "filesystem_targets T i xs"
  obtain expected s1 s2 found u where s1: "require_absent T i expected heartbeat s1 = (Inr (), s2)"
      "any_target_exists (td_files T) ?targets s2 = (Inr found, u)"
      "(if found then raise_filesystem_uncertain else ret ()) u = (Inr (), s')"
    using run unfolding teardown_verify_absent_def Let_def bind_act_Inr seq_Inr by blast
  then have no: "any_target_exists (td_files T) ?targets s2 = (Inr False, s')"
    by (auto simp: raise_filesystem_uncertain_def raise_def ret_def split: if_split_asm)
  have "still objects (any_target_exists (td_files T) ts)" for ts
    by (induction ts) (auto intro!: still_bind still_exists own)
  then have "objects s' = objects s2" using no by (rule stillD)
  then show ?thesis
    using require_absent_empty [OF daemon still(2) s1(1)] any_target_False [OF own(1) no]
    by (simp add: target_present_def)
qed

end
