(* ===== verification/Teardown_Passes.thy ===== *)
theory Teardown_Passes
  imports Teardown_Docker
begin

text \<open>
  What a teardown can raise, and that it fits the place the deletion worker has for it.
\<close>

section \<open>Documents that are refused\<close>

definition document_errors :: "exn set" where
  "document_errors = insert (OtherError ''TypeError'') (range RuntimeConfigurationError)"

text \<open>\<open>refuses m\<close>: the only errors of a parse are those.\<close>

definition refuses :: "exn + 'a \<Rightarrow> bool" where
  "refuses m = (\<forall>e. m = Inl e \<longrightarrow> e \<in> document_errors)"

lemma refuses_Inr [simp]: "refuses (Inr a)" and refuses_config [simp]: "refuses (config_error m)"
  and refuses_type [simp]: "refuses (Inl (OtherError ''TypeError''))"
  by (simp_all add: refuses_def config_error_def document_errors_def)

lemma refuses_bind: "refuses m \<Longrightarrow> (\<And>a. refuses (f a)) \<Longrightarrow> refuses (bind_sum m f)"
  by (cases m) (auto simp: refuses_def)

lemma refuses_if [simp]: "refuses (if b then m else n) \<longleftrightarrow> (if b then refuses m else refuses n)"
  by simp

lemma refuses_sequence: "(\<And>x. refuses (f x)) \<Longrightarrow> refuses (sequence_results (map f xs))"
proof (induction xs)
  case (Cons x xs)
  have "refuses (sequence_results (map f xs))" "refuses (f x)" using Cons by blast+
  then show ?case by (cases "f x"; cases "sequence_results (map f xs)") (simp_all add: refuses_def)
qed simp

lemma refuses_fields:
  "refuses (as_service_name x)" "refuses (as_build x)" "refuses (as_port m x)" "refuses (as_health_path x)"
  "refuses (as_environment x)" "refuses (as_access x)" "refuses (parse_route_path x)"
  "refuses (parse_route_service names x)"
proof -
  have all: "refuses (as_service_name x) \<and> refuses (as_build x) \<and> refuses (as_port m x) \<and> refuses (as_health_path x) \<and>
      refuses (as_environment x) \<and> refuses (as_access x) \<and> refuses (parse_route_path x) \<and>
      refuses (parse_route_service names x)"
  proof (cases x)
    case (Some v)
    then show ?thesis by (cases v) simp_all
  qed simp
  then show "refuses (as_service_name x)" "refuses (as_build x)" "refuses (as_port m x)" "refuses (as_health_path x)"
    "refuses (as_environment x)" "refuses (as_access x)" "refuses (parse_route_path x)"
    "refuses (parse_route_service names x)" by blast+
qed

lemma refuses_list: "refuses (nonempty_list m x)"
  by (induction m x rule: nonempty_list.induct) simp_all

lemma refuses_path: "refuses (relative_path v label)"
  by (induction v label rule: relative_path.induct) simp_all

lemma refuses_text: "refuses (required_text k v)"
  by (auto split: option.splits json.splits)

lemma refuses_variable: "refuses (parse_variable names v)"
  by (cases v) (simp_all split: option.splits)

lemma refuses_variables: "refuses (parse_variables names vs)"
  by (induction vs arbitrary: names) (auto intro!: refuses_bind refuses_variable)

lemma refuses_service: "refuses (parse_service v)"
  by (cases v) (auto intro!: refuses_bind refuses_fields refuses_path refuses_variables)

lemma refuses_route: "refuses (parse_route names v)"
  by (cases v) (auto intro!: refuses_bind refuses_fields)

lemma refuses_database: "refuses (parse_database v)"
  by (induction v rule: parse_database.induct)
    (auto simp del: required_text.simps intro!: refuses_bind refuses_fields refuses_text)

lemma refuses_snapshot: "refuses (from_snapshot v)"
  by (cases v)
    (auto simp: Let_def intro!: refuses_bind refuses_fields refuses_list refuses_sequence refuses_service refuses_route refuses_database)

section \<open>What a teardown raises\<close>

definition teardown_raises :: "exn set" where
  "teardown_raises = teardown_errors \<union> unhandled_errors"

lemma teardown_raises_simps [simp]:
  "deletion_failure c b \<in> teardown_raises" "call_refused \<in> teardown_raises" "file_not_found \<in> teardown_raises"
  "recursion_error \<in> teardown_raises" "OtherError ''TypeError'' \<in> teardown_raises"
  "resources_uncertain b \<in> teardown_raises"
  by (simp_all add: teardown_raises_def teardown_errors_def unhandled_errors_def deletion_failure_def call_refused_def
      file_not_found_def recursion_error_def resources_uncertain_def)

lemma deployments_resources_raise:
  "deployments_resources i xs = Inl e \<Longrightarrow> e \<in> teardown_raises"
proof (induction xs)
  case (Cons x xs)
  show ?case
  proof (cases "from_deployment x")
    case (Inl u)
    then have "u \<in> document_errors" using refuses_snapshot by (auto simp: refuses_def from_deployment_def)
    then show ?thesis using Cons.prems Inl by (auto simp: document_errors_def)
  next
    case (Inr p)
    then show ?thesis using Cons by (cases "deployments_resources i xs") auto
  qed
qed simp

lemma expected_resources_raise:
  assumes "expected_resources i xs runtime = Inl e" shows "e \<in> teardown_raises"
  using assms deployments_resources_raise [of i xs]
  by (cases "deployments_resources i xs") (auto simp: expected_resources_def Let_def split: if_split_asm)

text \<open>The commands and the system calls keep the condition and raise what their classes document.\<close>

definition calls_safe :: "('s \<Rightarrow> bool) \<Rightarrow> 's runtime_teardown \<Rightarrow> bool" where
  "calls_safe I T =
     ((\<forall>args t hb check E. safe E I hb \<longrightarrow>
         safe (E \<union> range CommandExecutionError) I (td_runner T args t (Some hb) check)) \<and>
      (\<forall>c. port_keeps I (pf_lets (td_files T) c)) \<and> (\<forall>fs s. I s \<longrightarrow> I (pf_put (td_files T) fs s)))"

lemma safe_bind_answers:
  assumes "safe E I m" "answers Q m" "\<And>a. Q a \<Longrightarrow> safe E I (f a)"
  shows "safe E I (bind_act m f)"
proof -
  have "bind_act m f = bind_act m (\<lambda>a. if Q a then f a else raise (OtherError []))"
    by (rule bind_cong) (use assms(2) in \<open>auto dest: answersD\<close>)
  moreover have "keeps I (bind_act m f)" "raises_only E I (bind_act m f)"
  proof -
    show "keeps I (bind_act m f)"
      unfolding keeps_def
    proof (intro allI impI)
      fix s assume I: "I s"
      obtain r s' where m: "m s = (r, s')" by fastforce
      have I': "I s'" using assms(1) I m unfolding safe_def by (blast dest: keepsD)
      show "I (snd (bind_act m f s))"
      proof (cases r)
        case (Inr a)
        then have "safe E I (f a)" using assms(2,3) m by (blast dest: answersD)
        then show ?thesis using Inr m I' by (simp add: bind_act_def safe_def keeps_def)
      qed (use m I' in \<open>simp add: bind_act_def\<close>)
    qed
    show "raises_only E I (bind_act m f)"
      unfolding raises_only_def
    proof (intro allI impI)
      fix s e assume I: "I s" and e: "fst (bind_act m f s) = Inl e"
      obtain r s' where m: "m s = (r, s')" by fastforce
      have I': "I s'" using assms(1) I m unfolding safe_def by (blast dest: keepsD)
      show "e \<in> E"
      proof (cases r)
        case (Inr a)
        then have "safe E I (f a)" using assms(2,3) m by (blast dest: answersD)
        then show ?thesis using Inr m I' e by (simp add: bind_act_def safe_def raises_only_def)
      next
        case (Inl e')
        then show ?thesis using m e assms(1) I by (auto simp: bind_act_def safe_def raises_only_def)
      qed
    qed
  qed
  ultimately show ?thesis by (simp add: safe_def)
qed

lemma safe_for_each: "(\<And>x. x \<in> set xs \<Longrightarrow> safe E I (f x)) \<Longrightarrow> safe E I (for_each xs f)"
  by (induction xs) (auto intro: safe_seq safe_ret)

lemma safe_pulse: "safe {} I heartbeat \<Longrightarrow> safe teardown_raises I (pulse heartbeat)"
  unfolding pulse_def by (rule safe_bind, erule safe_mono) (auto intro: safe_ret safe_raise)

lemma safe_authorize_mutation:
  "safe {} I guard \<Longrightarrow> safe {} I heartbeat \<Longrightarrow> safe teardown_raises I (authorize_mutation guard heartbeat)"
  unfolding authorize_mutation_def
  by (rule safe_seq, erule safe_pulse, rule safe_bind, erule safe_mono) (auto intro: safe_ret safe_raise)

lemma safe_run_unchecked:
  assumes calls: "calls_safe I T" and beat: "safe {} I heartbeat"
  shows "safe teardown_raises I (run_unchecked T args heartbeat)"
proof -
  have "safe (teardown_raises \<union> range CommandExecutionError) I
      (td_runner T (td_executable T # args) (td_command_timeout T) (Some (pulse heartbeat)) False)"
    using calls safe_pulse [OF beat] unfolding calls_safe_def by blast
  then show ?thesis
    unfolding run_unchecked_def
    by (intro safe_seq safe_pulse [OF beat], elim safe_try) (auto intro: safe_ret safe_raise split: exn.splits)
qed

lemma safe_observe_one:
  assumes calls: "calls_safe I T" and beat: "safe {} I heartbeat"
  shows "safe teardown_raises I (observe_one T i r heartbeat)"
  unfolding observe_one_def
  by (rule safe_bind [OF safe_run_unchecked [OF assms]]) (auto intro: safe_ret safe_raise split: option.splits)

lemma safe_observe_expected:
  assumes calls: "calls_safe I T" and beat: "safe {} I heartbeat"
  shows "safe teardown_raises I (observe_expected T i rs heartbeat)"
  by (induction rs) (auto intro!: safe_bind safe_ret safe_observe_one [OF assms])

lemma observe_expected_answers: "answers (\<lambda>states. map fst states = rs) (observe_expected T i rs heartbeat)"
proof (induction rs)
  case (Cons r rs)
  have "answers (\<lambda>states. map fst states = r # rs) (bind_act (observe_expected T i rs heartbeat) (\<lambda>rest. ret ((r, state) # rest)))" for state
    by (rule answers_bind [OF Cons]) (simp add: answers_ret)
  then show ?case by (simp add: answers_then)
qed (simp add: answers_ret)

lemma safe_reject:
  assumes calls: "calls_safe I T" and beat: "safe {} I heartbeat"
  shows "safe teardown_raises I (reject_extra_resources T i rs heartbeat b)"
  unfolding reject_extra_resources_def reject_extra_kind_def
  by (intro safe_for_each safe_bind safe_run_unchecked [OF assms]) (auto simp: Let_def intro: safe_ret safe_raise)

lemma safe_require_absent:
  assumes calls: "calls_safe I T" and beat: "safe {} I heartbeat"
  shows "safe teardown_raises I (require_absent T i rs heartbeat)"
  unfolding require_absent_def
  by (rule safe_bind [OF safe_observe_expected [OF assms]]) (auto intro: safe_raise safe_reject [OF assms])

lemma safe_remove_resource:
  assumes calls: "calls_safe I T" and beat: "safe {} I guard" "safe {} I heartbeat" and r: "r \<in> set (map fst states)"
  shows "safe teardown_raises I (remove_resource T i states guard heartbeat r)"
proof -
  have "map_of states r \<noteq> None" using r by (simp add: map_of_eq_None_iff)
  then show ?thesis
    unfolding remove_resource_def
    by (auto split: option.splits intro!: safe_ret safe_seq safe_bind safe_raise safe_authorize_mutation beat
        safe_observe_one [OF calls] safe_run_unchecked [OF calls])
qed

section \<open>Files\<close>

lemma safe_sys_read:
  assumes "calls_safe I T" "\<And>fs e. f fs = Inl e \<Longrightarrow> e \<in> {call_refused, file_not_found}"
  shows "safe {call_refused, file_not_found} I (sys_read (td_files T) c f)"
  unfolding sys_read_def
proof (rule safe_bind)
  show "safe {call_refused, file_not_found} I (get_act (pf_lets (td_files T) c))"
    using assms(1) by (intro safe_get) (simp add: calls_safe_def)
  show "safe {call_refused, file_not_found} I (if \<not> allowed then raise call_refused else (\<lambda>s. (f (pf_get (td_files T) s), s)))" for allowed
    using assms(2) by (auto simp: raise_def safe_def keeps_def raises_only_def)
qed

lemma safe_sys_change:
  assumes calls: "calls_safe I T" and f: "\<And>fs e. f fs = Inl e \<Longrightarrow> e \<in> {call_refused, file_not_found}"
  shows "safe {call_refused, file_not_found} I (sys_change (td_files T) c f)"
  unfolding sys_change_def
proof (rule safe_bind)
  show "safe {call_refused, file_not_found} I (get_act (pf_lets (td_files T) c))"
    using calls by (intro safe_get) (simp add: calls_safe_def)
  have put: "I s \<Longrightarrow> I (pf_put (td_files T) fs s)" for fs s using calls by (simp add: calls_safe_def)
  show "safe {call_refused, file_not_found} I (if \<not> allowed then raise call_refused
      else (\<lambda>s. case f (pf_get (td_files T) s) of Inl e \<Rightarrow> (Inl e, s) | Inr fs \<Rightarrow> (Inr (), pf_put (td_files T) fs s)))" for allowed
    using f put by (auto simp: raise_def safe_def keeps_def raises_only_def split: sum.splits)
qed

lemma file_calls_raise:
  "stat_entry d n fs = Inl e \<Longrightarrow> e \<in> {call_refused, file_not_found}"
  "fstat d fs = Inl e \<Longrightarrow> e \<in> {call_refused, file_not_found}"
  "listdir d fs = Inl e \<Longrightarrow> e \<in> {call_refused, file_not_found}"
  "open_folder d n fs = Inl e \<Longrightarrow> e \<in> {call_refused, file_not_found}"
  "open_file d n fs = Inl e \<Longrightarrow> e \<in> {call_refused, file_not_found}"
  "unlink_entry d n fs = Inl e \<Longrightarrow> e \<in> {call_refused, file_not_found}"
  "rmdir_entry d n fs = Inl e \<Longrightarrow> e \<in> {call_refused, file_not_found}"
proof -
  show stat: "stat_entry d n fs = Inl e \<Longrightarrow> e \<in> {call_refused, file_not_found}" for d n e
    by (auto simp: stat_entry_def split: option.splits)
  show "fstat d fs = Inl e \<Longrightarrow> e \<in> {call_refused, file_not_found}"
    "listdir d fs = Inl e \<Longrightarrow> e \<in> {call_refused, file_not_found}"
    by (auto simp: fstat_def listdir_def split: option.splits)
  show "open_folder d n fs = Inl e \<Longrightarrow> e \<in> {call_refused, file_not_found}"
    "open_file d n fs = Inl e \<Longrightarrow> e \<in> {call_refused, file_not_found}"
    "unlink_entry d n fs = Inl e \<Longrightarrow> e \<in> {call_refused, file_not_found}"
    "rmdir_entry d n fs = Inl e \<Longrightarrow> e \<in> {call_refused, file_not_found}"
    by (cases "stat_entry d n fs";
        auto simp: open_folder_def open_file_def unlink_entry_def rmdir_entry_def dest: stat split: if_split_asm)+
qed

lemma safe_file_call:
  assumes "calls_safe I T"
  shows "safe teardown_raises I (sys_read (td_files T) c (stat_entry d n))"
    "safe teardown_raises I (sys_read (td_files T) c (fstat d))"
    "safe teardown_raises I (sys_read (td_files T) c (listdir d))"
    "safe teardown_raises I (sys_read (td_files T) c (open_folder d n))"
    "safe teardown_raises I (sys_read (td_files T) c (open_file d n))"
    "safe teardown_raises I (sys_read (td_files T) c (\<lambda>fs. Inr (fs_anchor fs)))"
    "safe teardown_raises I (sys_change (td_files T) c (unlink_entry d n))"
    "safe teardown_raises I (sys_change (td_files T) c (rmdir_entry d n))"
  by (rule safe_mono, (rule safe_sys_read safe_sys_change, rule assms, erule file_calls_raise | rule safe_sys_read [OF assms], simp), simp)+

lemma safe_uncertain [simp]: "safe teardown_raises I raise_filesystem_uncertain"
  by (simp add: raise_filesystem_uncertain_def safe_raise)

lemma safe_metadata [simp]: "safe teardown_raises I (validate_private_metadata F n b)"
  by (simp add: validate_private_metadata_def safe_ret)

lemma safe_or_not_found: "safe teardown_raises I m \<Longrightarrow> safe teardown_raises I (or_not_found m)"
  unfolding or_not_found_def
  by (rule safe_try [where F = teardown_raises], rule safe_bind) (auto intro: safe_ret safe_raise)

lemma safe_os_error: "safe teardown_raises I m \<Longrightarrow> safe teardown_raises I (os_error_uncertain m)"
  unfolding os_error_uncertain_def by (rule safe_try [where F = teardown_raises]) (auto intro: safe_raise)

lemma safe_walk: "calls_safe I T \<Longrightarrow> safe teardown_raises I (walk_folders (td_files T) ps fd)"
  by (induction ps arbitrary: fd) (auto intro!: safe_ret safe_bind safe_file_call)

lemma safe_open: "calls_safe I T \<Longrightarrow> safe teardown_raises I (open_private_directory (td_files T) path)"
  unfolding open_private_directory_def by (auto intro!: safe_ret safe_bind safe_seq safe_file_call safe_walk)

lemma safe_validate_tree: "calls_safe I T \<Longrightarrow> safe teardown_raises I (validate_private_tree (td_files T) n fd)"
  by (induction n arbitrary: fd) (auto intro!: safe_raise safe_bind safe_seq safe_for_each safe_file_call)

lemma safe_validate: "calls_safe I T \<Longrightarrow> safe teardown_raises I (validate_exact_private_child (td_files T) root base)"
  unfolding validate_exact_private_child_def
  by (auto intro!: safe_ret safe_bind safe_file_call safe_or_not_found safe_os_error safe_open safe_validate_tree
      split: option.splits)

lemma safe_exists: "calls_safe I T \<Longrightarrow> safe teardown_raises I (exact_child_exists (td_files T) root base)"
  unfolding exact_child_exists_def
  by (auto intro!: safe_ret safe_bind safe_file_call safe_or_not_found safe_open split: option.splits)

lemma safe_remove_contents:
  "calls_safe I T \<Longrightarrow> safe teardown_raises I allow \<Longrightarrow>
   safe teardown_raises I (remove_private_tree_contents (td_files T) allow n fd)"
  by (induction n arbitrary: fd) (auto intro!: safe_raise safe_bind safe_seq safe_for_each safe_file_call)

lemma safe_remove_target:
  assumes calls: "calls_safe I T" and beat: "safe {} I guard" "safe {} I heartbeat"
  shows "safe teardown_raises I (remove_target T guard heartbeat target)"
  unfolding remove_target_def remove_exact_private_child_def
  by (cases target)
    (auto intro!: safe_ret safe_bind safe_seq safe_validate safe_or_not_found safe_os_error safe_open safe_exists
      safe_file_call safe_remove_contents safe_authorize_mutation assms split: option.splits)

lemma safe_teardown:
  assumes calls: "calls_safe I T" and beat: "safe {} I guard" "safe {} I heartbeat"
  shows "safe teardown_raises I (teardown T i xs runtime guard heartbeat)"
proof -
  have expected: "safe teardown_raises I (sum_act (expected_resources i xs runtime))"
    using expected_resources_raise [of i xs runtime]
    by (auto simp: sum_act_def intro: safe_ret safe_raise split: sum.splits)
  have valid: "safe teardown_raises I (for_each ts (\<lambda>(root, base). validate_exact_private_child (td_files T) root base))" for ts
    by (rule safe_for_each) (auto intro: safe_validate [OF calls])
  have resources: "safe teardown_raises I (for_each (sort_key f rs) (remove_resource T i states guard heartbeat))"
    if "map fst states = rs" for rs states and f :: "expected_resource \<Rightarrow> nat"
    using that by (intro safe_for_each safe_remove_resource calls beat) auto
  show ?thesis
    unfolding teardown_def Let_def
  proof (rule safe_bind [OF expected], rule safe_seq [OF safe_pulse [OF beat(2)]],
      rule safe_bind_answers [OF safe_observe_expected [OF calls beat(2)] observe_expected_answers])
    fix rs and states :: "(expected_resource \<times> string option) list" assume "map fst states = rs"
    then show "safe teardown_raises I
        (seq_act (reject_extra_resources T i rs heartbeat False)
         (seq_act (for_each (filesystem_targets T i xs) (\<lambda>(root, base). validate_exact_private_child (td_files T) root base))
         (seq_act (for_each (sort_key (\<lambda>r. removal_order (er_label_kind r)) rs) (remove_resource T i states guard heartbeat))
         (seq_act (require_absent T i rs heartbeat)
         (seq_act (for_each (filesystem_targets T i xs) (remove_target T guard heartbeat))
           (require_absent T i rs heartbeat))))))"
      by (intro safe_seq safe_reject calls beat valid resources safe_require_absent safe_for_each safe_remove_target)
  qed
qed

lemma safe_any_target: "calls_safe I T \<Longrightarrow> safe teardown_raises I (any_target_exists (td_files T) ts)"
  by (induction ts) (auto intro!: safe_ret safe_bind safe_exists)

lemma safe_verify_absent:
  assumes calls: "calls_safe I T" and beat: "safe {} I guard" "safe {} I heartbeat"
  shows "safe teardown_raises I (teardown_verify_absent T i xs runtime guard heartbeat)"
proof -
  have expected: "safe teardown_raises I (sum_act (expected_resources i xs runtime))"
    using expected_resources_raise [of i xs runtime]
    by (auto simp: sum_act_def intro: safe_ret safe_raise split: sum.splits)
  show ?thesis
    unfolding teardown_verify_absent_def
    by (intro safe_seq safe_bind expected safe_authorize_mutation safe_require_absent safe_any_target calls beat)
      (auto intro: safe_ret)
qed

text \<open>The two methods fit the deletion worker.\<close>

lemma teardown_fits:
  assumes "calls_safe deletion_tables_ok T"
  shows "teardown_safe (teardown T)" "teardown_safe (teardown_verify_absent T)"
  using safe_teardown [OF assms] safe_verify_absent [OF assms]
  by (simp_all add: teardown_safe_def teardown_raises_def)

end
