(* ===== verification/Teardown_Properties.thy ===== *)
theory Teardown_Properties
  imports Teardown_Passes Deletion_Properties
begin

text \<open>
  The properties of the runtime teardown: under whose authority it removes, what it removes, and
  what is left when it returns.
\<close>

section \<open>Authority\<close>

lemma renew_keeps_authorized:
  assumes "renew_deletion c lease now d = Inr (e, d')" "removal_authorized i d"
  shows "removal_authorized i d'"
proof -
  obtain js where d': "d' = d\<lparr>t_deletion_jobs := js\<rparr>"
    "js = t_deletion_jobs d \<or> js = upd (xj_mine c now) (xj_extend (now + lease) now) (t_deletion_jobs d)"
    using assms(1) by (auto simp: renew_deletion_def update_deletion_def split: option.splits if_splits)
  have "exists_row (\<lambda>j. xj_project_id j = i \<and> xj_state j = X_CLAIMED) js"
  proof -
    obtain j where j: "j \<in> set (t_deletion_jobs d)" "xj_project_id j = i" "xj_state j = X_CLAIMED"
      using assms(2) by (auto simp: removal_authorized_def exists_row_iff)
    let ?j = "if xj_mine c now j then xj_extend (now + lease) now j else j"
    have "?j \<in> set (upd (xj_mine c now) (xj_extend (now + lease) now) (t_deletion_jobs d))"
      using j(1) by (simp add: upd_def)
    moreover have "xj_project_id ?j = i" "xj_state ?j = X_CLAIMED" using j(2,3) by (simp_all add: xj_extend_def)
    ultimately show ?thesis using d'(2) j unfolding exists_row_iff by blast
  qed
  then show ?thesis
    using assms(2) by (simp add: removal_authorized_def d'(1) project_is_deleting_def deletion_is_applied_def)
qed

lemma heartbeat_keeps_authorized:
  assumes "ports_keep (\<lambda>s. removal_authorized i (snd s)) P"
  shows "keeps (\<lambda>s. removal_authorized i (snd s)) (deletion_heartbeat P W c)"
  unfolding deletion_heartbeat_def void_def
  by (intro keeps_try keeps_seq keeps_bind keeps_repo_call [OF assms])
    (auto dest: renew_keeps_authorized)

lemma guard_authorizes:
  assumes "deletion_guard P c True s = (Inr True, s')"
  shows "removal_authorized (claim_project c) (snd s')"
proof -
  have "\<exists>now. deletion_mutation_allowed c True now (snd s')"
    using assms
    by (cases "p_clock P s")
      (auto simp: deletion_guard_def bind_act_def get_act_def read_db_def tx_act_def tx_read_def)
  then show ?thesis
    by (auto simp: deletion_mutation_allowed_def removal_authorized_def exists_row_iff xj_mine_def xj_held_def)
qed


section \<open>An example\<close>

text \<open>A host with the gateway of project 1 and two private roots, in one of which the project has
  a directory with a file.\<close>

type_synonym example_host = "bool \<times> file_system"

definition example_object :: docker_object where
  "example_object = \<lparr>ob_kind = Container, ob_id = ''g1'', ob_names = [project_gateway_name 1],
     ob_labels = [(''heimdall.managed'', ''true''), (''heimdall.project-id'', uuid_str 1), (''heimdall.kind'', ''gateway'')]\<rparr>"

definition example_objects :: "example_host \<times> 'd \<Rightarrow> docker_object list" where
  "example_objects = (\<lambda>((here, fs), d). if here then [example_object] else [])"

definition result_of :: "int \<Rightarrow> string \<Rightarrow> string \<Rightarrow> command_result" where
  "result_of code out err = \<lparr>cr_returncode = code, cr_stdout = out, cr_stderr = err,
     cr_stdout_truncated = False, cr_stderr_truncated = False\<rparr>"

definition example_docker :: "(example_host \<times> 'd) runner" where
  "example_docker args t hb check = (\<lambda>((here, fs), d).
     if removes args then
       (if args = [''docker'', ''rm'', ''--force'', ''g1''] \<and> here then (Inr (result_of 0 [] []), ((False, fs), d))
        else (Inr (result_of 1 [] ''no such object''), ((here, fs), d)))
     else if take 2 args = [''docker'', ''ps''] \<or> take 1 (drop 2 args) = [''ls''] then
       (Inr (result_of 0 (if here \<and> take 2 args = [''docker'', ''ps''] then project_gateway_name 1 else []) []), ((here, fs), d))
     else if here \<and> take 2 args = [''docker'', ''inspect''] \<and> last args = project_gateway_name 1
       then (Inr (result_of 0 ''g1'' []), ((here, fs), d))
     else (Inr (result_of 1 [] ''Error: No such object''), ((here, fs), d)))"

definition example_loads :: "string \<Rightarrow> json option" where
  "example_loads s = Some (JObj [(''id'', JStr s),
     (''labels'', JObj (map (\<lambda>(k, v). (k, JStr v)) (ob_labels example_object)))])"

definition example_tree :: file_system where
  "example_tree =
     \<lparr>fs_table = [((0, 1), \<lparr>fn_mode = 493, fn_uid = 0, fn_kind = Folder [(''w'', (0, 2)), (''g'', (0, 3))]\<rparr>),
        ((0, 2), \<lparr>fn_mode = 448, fn_uid = 7, fn_kind = Folder []\<rparr>),
        ((0, 3), \<lparr>fn_mode = 448, fn_uid = 7, fn_kind = Folder [(uuid_hex 1, (0, 4))]\<rparr>),
        ((0, 4), \<lparr>fn_mode = 448, fn_uid = 7, fn_kind = Folder [(''nginx.conf'', (0, 5))]\<rparr>),
        ((0, 5), \<lparr>fn_mode = 384, fn_uid = 7, fn_kind = Plain_File\<rparr>)],
      fs_anchor = (0, 1)\<rparr>"

definition example_teardown :: "(example_host \<times> 'd) runtime_teardown" where
  "example_teardown = \<lparr>td_runner = example_docker, td_workspace_root = ''/w'', td_gateway_config_root = ''/g'',
     td_executable = ''docker'', td_command_timeout = 120, td_loads = example_loads,
     td_files = \<lparr>pf_get = (\<lambda>((here, fs), d). fs), pf_put = (\<lambda>fs ((here, _), d). ((here, fs), d)),
       pf_lets = (\<lambda>_ s. (True, s)), pf_euid = 7, pf_recursion_limit = 9\<rparr>\<rparr>"

definition example_gateway_runtime :: project_runtime where
  "example_gateway_runtime = \<lparr>pr_project_id = 1, pr_gateway_container_name = project_gateway_name 1, pr_preview_port = 20000,
     pr_active_deployment_id = None, pr_active_network_name = None, pr_active_container_names = [],
     pr_active_image_names = [], pr_updated_at = 0\<rparr>"

abbreviation granted :: "(example_host \<times> unit, bool) act" where "granted \<equiv> ret True"

lemma example_fields [simp]:
  "td_runner example_teardown = example_docker" "td_executable example_teardown = ''docker''"
  "td_loads example_teardown = example_loads"
  "pf_get (td_files example_teardown) ((here, fs), d) = fs"
  "pf_put (td_files example_teardown) fs ((here, fs0), d) = ((here, fs), d)"
  "pf_lets (td_files example_teardown) c s = (True, s)"
  by (simp_all add: example_teardown_def)

definition example_cleared :: file_system where
  "example_cleared =
     \<lparr>fs_table = [((0, 1), \<lparr>fn_mode = 493, fn_uid = 0, fn_kind = Folder [(''w'', (0, 2)), (''g'', (0, 3))]\<rparr>),
        ((0, 2), \<lparr>fn_mode = 448, fn_uid = 7, fn_kind = Folder []\<rparr>),
        ((0, 3), \<lparr>fn_mode = 448, fn_uid = 7, fn_kind = Folder []\<rparr>),
        ((0, 4), \<lparr>fn_mode = 448, fn_uid = 7, fn_kind = Folder []\<rparr>),
        ((0, 5), \<lparr>fn_mode = 384, fn_uid = 7, fn_kind = Plain_File\<rparr>)],
      fs_anchor = (0, 1)\<rparr>"

abbreviation example_before :: "example_host \<times> unit" where "example_before \<equiv> ((True, example_tree), ())"
abbreviation example_between :: "example_host \<times> unit" where "example_between \<equiv> ((False, example_tree), ())"
abbreviation example_after :: "example_host \<times> unit" where "example_after \<equiv> ((False, example_cleared), ())"

lemma example_expected:
  "expected_resources 1 [] (Some example_gateway_runtime) = Inr [gateway_resource 1]"
  "filesystem_targets example_teardown 1 [] = [(''/g'', uuid_hex 1)]"
  by code_simp (simp add: filesystem_targets_def example_teardown_def)

lemma example_run_remove:
  "run_unchecked example_teardown (remove_arguments (gateway_resource 1) ''g1'') granted example_before =
     (Inr (result_of 0 [] []), example_between)"
  by code_simp

lemma example_run_inspect:
  "run_unchecked example_teardown (inspect_arguments (gateway_resource 1)) granted example_before =
     (Inr (result_of 0 ''g1'' []), example_before)"
  by code_simp

lemma example_identity:
  "exact_identity 1 (gateway_resource 1) (example_loads ''g1'') = Some ''g1''"
  by code_simp

lemmas example_runs = example_run_remove example_run_inspect example_identity

lemma ret_apply: "ret a s = (Inr a, s)"
  by (simp add: ret_def)

lemma example_observations:
  "observe_one example_teardown 1 (gateway_resource 1) granted example_before = (Inr (Some ''g1''), example_before)"
  by (simp add: observe_one_def bind_act_def ret_def example_runs [unfolded ret_def] result_of_def)

lemma example_absent:
  "observe_one example_teardown 1 (gateway_resource 1) granted example_between = (Inr None, example_between)"
  "observe_one example_teardown 1 (gateway_resource 1) granted example_after = (Inr None, example_after)"
  by code_simp+

lemma example_listings:
  "reject_extra_resources example_teardown 1 [gateway_resource 1] granted False example_before = (Inr (), example_before)"
  "reject_extra_resources example_teardown 1 [gateway_resource 1] granted True example_between = (Inr (), example_between)"
  "reject_extra_resources example_teardown 1 [gateway_resource 1] granted True example_after = (Inr (), example_after)"
  by code_simp+

lemma example_files:
  "validate_exact_private_child (td_files example_teardown) ''/g'' (uuid_hex 1) example_before = (Inr (), example_before)"
  "remove_exact_private_child (td_files example_teardown) (authorize_mutation granted granted) ''/g'' (uuid_hex 1)
     example_between = (Inr (), example_after)"
  "exact_child_exists (td_files example_teardown) ''/g'' (uuid_hex 1) example_after = (Inr False, example_after)"
  by code_simp+

lemma example_moves:
  "remove_target example_teardown granted granted (''/g'', uuid_hex 1) example_between = (Inr (), example_after)"
  "remove_resource example_teardown 1 [(gateway_resource 1, Some ''g1'')] granted granted (gateway_resource 1) example_before =
     (Inr (), example_between)"
  "require_absent example_teardown 1 [gateway_resource 1] granted example_between = (Inr (), example_between)"
  "require_absent example_teardown 1 [gateway_resource 1] granted example_after = (Inr (), example_after)"
proof -
  have allow: "authorize_mutation granted granted s = (Inr (), s)" for s
    by (simp add: authorize_mutation_def pulse_def seq_act_def bind_act_def ret_apply)
  show "remove_target example_teardown granted granted (''/g'', uuid_hex 1) example_between = (Inr (), example_after)"
    unfolding remove_target_def prod.case seq_act_def bind_act_def example_files sum.case by (simp add: ret_apply)
  show "remove_resource example_teardown 1 [(gateway_resource 1, Some ''g1'')] granted granted (gateway_resource 1) example_before =
      (Inr (), example_between)"
    by (simp add: remove_resource_def seq_act_def bind_act_def allow example_observations example_runs result_of_def ret_apply)
  show "require_absent example_teardown 1 [gateway_resource 1] granted example_between = (Inr (), example_between)"
    "require_absent example_teardown 1 [gateway_resource 1] granted example_after = (Inr (), example_after)"
    by (simp_all add: require_absent_def bind_act_def example_absent example_listings ret_apply)
qed

lemma example_returns:
  "teardown example_teardown 1 [] (Some example_gateway_runtime) granted granted example_before = (Inr (), example_after)"
  by (simp add: teardown_def sum_act_def example_expected Let_def pulse_def seq_act_def bind_act_def ret_apply
      example_observations example_listings example_files example_moves)



section \<open>What is removed, and what is left\<close>

text \<open>C32. Over a daemon that does what it documents, whatever the guard and the heartbeat answer and
  whichever commands and file calls fail, a teardown removes only objects that carry every label
  of one of the project's expected resources; all other objects are as they were.\<close>

theorem teardown_spares_other_objects:
  assumes "truthful_daemon T objects" "files_still T objects" "still objects guard" "still objects heartbeat"
    and "distinct (map ob_key (objects s))"
  shows "case expected_resources i xs runtime of
      Inl e \<Rightarrow> teardown T i xs runtime guard heartbeat s = (Inl e, s)
    | Inr expected \<Rightarrow> spares i expected (objects s) (objects (snd (teardown T i xs runtime guard heartbeat s)))"
proof (cases "expected_resources i xs runtime")
  case (Inl e)
  then show ?thesis by (simp add: teardown_def sum_act_def bind_act_def raise_def)
next
  case (Inr expected)
  have "keeps (\<lambda>t. spares i expected (objects s) (objects t)) (teardown T i xs runtime guard heartbeat)"
    by (rule teardown_spares [OF assms(1-4) Inr])
  then show ?thesis using spares_refl [OF assms(5)] Inr by (simp add: keeps_def)
qed

text \<open>C33. When a teardown returns, or the later check that all is absent returns, no object with the
  project's label is left in Docker, and none of the project's directories is left in the two roots.\<close>

theorem teardown_leaves_nothing:
  assumes "truthful_daemon T objects" "files_own T" "files_still T objects"
    and "still objects guard" "still objects heartbeat"
    and "still (pf_get (td_files T)) guard" "still (pf_get (td_files T)) heartbeat"
    and "act \<in> {teardown T, teardown_verify_absent T}" "act i xs runtime guard heartbeat s = (Inr (), s')"
  shows "(\<forall>x\<in>set (objects s'). \<not> labelled i x) \<and> (\<forall>t\<in>set (filesystem_targets T i xs). \<not> target_present T s' t)"
proof -
  consider "teardown T i xs runtime guard heartbeat s = (Inr (), s')"
    | "teardown_verify_absent T i xs runtime guard heartbeat s = (Inr (), s')"
    using assms(8,9) by blast
  then show ?thesis
  proof cases
    case 1
    then show ?thesis by (rule teardown_returned [OF assms(1,2,4-7)])
  next
    case 2
    then show ?thesis by (rule verified_absent [OF assms(1-7)])
  qed
qed

text \<open>The example daemon does what it documents.\<close>

lemma example_command:
  "command example_teardown args hb s = example_docker (''docker'' # args) 120 (Some hb) False s"
  by (simp add: command_def) (simp add: example_teardown_def)

lemma example_reads: "\<not> removes args \<Longrightarrow> snd (example_docker args t hb check s) = s"
  by (cases s) (auto simp: example_docker_def)

lemma example_describes: "describes (example_loads ''g1'') example_object"
proof -
  have "jget k (map (\<lambda>(k, v). (k, JStr v)) xs) = map_option JStr (map_of xs k)" for k xs
    by (induction xs) (auto simp: jget_def)
  then show ?thesis by (simp add: describes_def example_loads_def jget_def) (simp add: example_object_def)
qed

lemma example_truthful: "truthful_daemon (example_teardown :: (example_host \<times> 'd) runtime_teardown) example_objects"
proof -
  have still: "still example_objects (command (example_teardown :: (example_host \<times> 'd) runtime_teardown) args hb)"
    if "\<not> removes (''docker'' # args)" for args hb
    using that by (simp add: still_def example_command example_reads)
  have inspect: "\<exists>x\<in>set (example_objects s). ob_kind x = er_docker_kind r \<and> er_name r \<in> set (ob_names x) \<and>
      describes (example_loads (cr_stdout res)) x"
    if "example_docker (''docker'' # inspect_arguments r) t hb check s = (Inr res, s')" "cr_returncode res = 0"
    for r res t hb check and s s' :: "example_host \<times> 'd"
    using that example_describes
    by (cases s) (auto simp: example_docker_def inspect_arguments_def example_objects_def result_of_def
        example_object_def [of] split: if_splits docker_kind.splits)
  have names: "observed_names (project_gateway_name 1) \<noteq> []" by code_simp
  have listing: "observed_names (cr_stdout res) \<noteq> []"
    if "example_docker (''docker'' # list_arguments i k) t hb check s = (Inr res, s')" "cr_returncode res = 0"
      "x \<in> set (example_objects s)" "ob_kind x = k" for i k res t hb check x and s s' :: "example_host \<times> 'd"
    using that names
    by (cases s) (auto simp: example_docker_def list_arguments_def Let_def example_objects_def result_of_def
        example_object_def split: if_splits)
  have remove: "example_objects (snd (example_docker (''docker'' # remove_arguments r ident) t hb check s)) \<in>
      {example_objects s, without_object (er_docker_kind r) ident (example_objects s)}"
    for r ident t hb check and s :: "example_host \<times> 'd"
    by (cases s) (auto simp: example_docker_def remove_arguments_def example_objects_def without_object_def ob_key_def
        example_object_def split: docker_kind.splits)
  show ?thesis
    unfolding truthful_daemon_def
    using still inspect listing remove by (simp add: example_command)
qed

lemma example_files_kept:
  "files_still (example_teardown :: (example_host \<times> 'd) runtime_teardown) example_objects"
  "files_own (example_teardown :: (example_host \<times> 'd) runtime_teardown)"
proof -
  show "files_still (example_teardown :: (example_host \<times> 'd) runtime_teardown) example_objects"
    by (auto simp: files_still_def example_teardown_def example_objects_def split: prod.splits)
  have "pf_get (td_files (example_teardown :: (example_host \<times> 'd) runtime_teardown)) (snd (example_docker args t hb check s)) =
      pf_get (td_files example_teardown) s" for args t hb check and s :: "example_host \<times> 'd"
    by (cases s) (auto simp: example_docker_def)
  then show "files_own (example_teardown :: (example_host \<times> 'd) runtime_teardown)"
    by (auto simp: files_own_def still_def example_command)
qed

theorem teardown_spares_other_objects_witness:
  "spares 1 [gateway_resource 1] [example_object] []"
proof -
  have "distinct (map ob_key (example_objects example_before))" by (simp add: example_objects_def)
  then show ?thesis
    using teardown_spares_other_objects [OF example_truthful example_files_kept(1), of granted granted example_before 1 "[]"
        "Some example_gateway_runtime"] example_expected(1) example_returns
    by (simp add: example_objects_def)
qed

theorem teardown_leaves_nothing_witness:
  "filter (labelled 1) (example_objects example_after) = [] \<and>
   filter (target_present example_teardown example_after)
     (filesystem_targets (example_teardown :: (example_host \<times> unit) runtime_teardown) 1 []) = []"
  using teardown_leaves_nothing [OF example_truthful example_files_kept(2,1), where guard = granted and
      heartbeat = granted and act = "teardown example_teardown" and i = 1 and xs = "[]" and
      runtime = "Some example_gateway_runtime" and s = example_before and s' = example_after]
  by (simp add: example_returns filter_empty_conv)

section \<open>Two things the teardown does not do\<close>

text \<open>The mutation guard is not called immediately before a removal of Docker: an inspection, with its
  heartbeats, runs in between, and here the answer of the guard changes during it.\<close>

definition turning_docker :: "(example_host \<times> bool) runner" where
  "turning_docker args t hb check = (\<lambda>(h, allowed).
     let (r, (h', _)) = example_docker args t hb check (h, allowed) in (r, (h', False)))"

lemma removal_after_the_guard_would_refuse:
  "remove_resource (example_teardown\<lparr>td_runner := turning_docker\<rparr>) 1 [(gateway_resource 1, Some ''g1'')]
     (\<lambda>s. (Inr (snd s), s)) (ret True) (gateway_resource 1) ((True, example_tree), True) =
   (Inr (), ((False, example_tree), False))"
  by code_simp

text \<open>The final check lets an error of the operating system through: here the root of the workspaces
  has become a link, and the deletion worker does not handle what comes out.\<close>

definition linked_tree :: file_system where
  "linked_tree = example_tree\<lparr>fs_table := AList.update (0, 2) \<lparr>fn_mode = 511, fn_uid = 7, fn_kind = Symbolic_Link\<rparr>
     (AList.update (0, 3) \<lparr>fn_mode = 511, fn_uid = 7, fn_kind = Symbolic_Link\<rparr> (fs_table example_tree))\<rparr>"

lemma linked_listing:
  "reject_extra_resources example_teardown 1 [] granted True ((False, linked_tree), ()) = (Inr (), ((False, linked_tree), ()))"
  by code_simp

lemma linked_exists:
  "fst (exact_child_exists (td_files example_teardown) ''/g'' (uuid_hex 1) ((False, linked_tree), ())) = Inl call_refused"
  by code_simp

lemma verify_absent_escapes:
  "fst (teardown_verify_absent example_teardown 1 [] None granted granted ((False, linked_tree), ())) = Inl call_refused"
  "call_refused \<in> escaping_errors"
proof -
  have "expected_resources 1 [] None = Inr []" by code_simp
  then show "fst (teardown_verify_absent example_teardown 1 [] None granted granted ((False, linked_tree), ())) = Inl call_refused"
    using linked_exists
    by (auto simp: teardown_verify_absent_def sum_act_def authorize_mutation_def pulse_def require_absent_def seq_act_def
        bind_act_def ret_apply linked_listing example_expected(2) split: prod.splits sum.splits)
qed (simp add: escaping_errors_def unhandled_errors_def call_refused_def)

end
