(* ===== verification/Admin_Auth.thy ===== *)
theory Admin_Auth
  imports Private_Files
begin

text \<open>
  \<open>auth/service.py\<close> and the guards of \<open>auth/router.py\<close>: the administrator's login, the session a
  signed cookie carries, and what a request must bring with it.  The state of a request is its
  session dictionary, which the handlers change.  Argon2, HMAC and the random token are
  parameters; the signature of the cookie is the session middleware's.
\<close>

section \<open>Sessions\<close>

definition ADMIN_USERNAME :: string where "ADMIN_USERNAME = ''admin''"
definition SESSION_MAX_AGE_SECONDS :: int where "SESSION_MAX_AGE_SECONDS = 8 * 60 * 60"

definition SESSION_KEYS :: "string list" where
  "SESSION_KEYS = [''username'', ''expires_at'', ''csrf_token'', ''credential_revision'']"

text \<open>\<open>^[A-Za-z0-9_-]{43}$\<close> and \<open>^[a-f0-9]{64}$\<close> with \<open>fullmatch\<close>.\<close>

definition csrf_token_matches :: "string \<Rightarrow> bool" where
  "csrf_token_matches s =
     (length s = 43 \<and> list_all (\<lambda>c. is_upper c \<or> is_lower c \<or> is_digit c \<or> c \<in> set ''_-'') s)"

definition credential_revision_matches :: "string \<Rightarrow> bool" where
  "credential_revision_matches s =
     (length s = 64 \<and> list_all (\<lambda>c. is_digit c \<or> in_range CHR ''a'' CHR ''f'' c) s)"

definition session_signing_key :: "(string \<Rightarrow> string \<Rightarrow> string) \<Rightarrow> string \<Rightarrow> bool \<Rightarrow> string" where
  "session_signing_key hmac_sha256 signing_key secure =
     (if secure then signing_key else hmac_sha256 (utf8_encode signing_key) ''heimdall-local-http-session-v1'')"

record admin_session =
  as_username :: string
  as_expires_at :: int
  as_csrf_token :: string
  as_credential_revision :: string

type_synonym session_payload = "(string \<times> json) list"

definition payload_of_session :: "admin_session \<Rightarrow> session_payload" where
  "payload_of_session s =
     [(''username'', JStr (as_username s)), (''expires_at'', JInt (as_expires_at s)),
      (''csrf_token'', JStr (as_csrf_token s)), (''credential_revision'', JStr (as_credential_revision s))]"

section \<open>The service\<close>

text \<open>The outcomes of \<open>PasswordHasher.verify\<close>: it returns, raises \<open>VerifyMismatchError\<close>, or another
  \<open>VerificationError\<close>.\<close>

datatype password_check = Matches | Mismatch | Unverifiable

record admin_auth_service =
  aa_password_hash :: string
  aa_credential_revision :: string
  aa_verify :: "string \<Rightarrow> string \<Rightarrow> password_check"

definition invalid_credentials :: exn where
  "invalid_credentials = AppError 401 ''INVALID_CREDENTIALS'' ''Invalid username or password''"

definition authentication_required :: exn where
  "authentication_required = AppError 401 ''AUTHENTICATION_REQUIRED'' ''Authentication is required''"

definition auth_login ::
    "admin_auth_service \<Rightarrow> string \<Rightarrow> string \<Rightarrow> int \<Rightarrow> string \<Rightarrow> exn + admin_session" where
  "auth_login A username password now token =
     (case aa_verify A (aa_password_hash A) password of
        Unverifiable \<Rightarrow> Inl (OtherError ''RuntimeError'')
      | check \<Rightarrow>
          if check \<noteq> Matches \<or> utf8_encode username \<noteq> utf8_encode ADMIN_USERNAME then Inl invalid_credentials
          else Inr \<lparr>as_username = ADMIN_USERNAME, as_expires_at = now + SESSION_MAX_AGE_SECONDS,
                    as_csrf_token = token, as_credential_revision = aa_credential_revision A\<rparr>)"

text \<open>\<open>type(expires_at) is int\<close>: a boolean is not.\<close>

fun json_int :: "json option \<Rightarrow> int option" where
  "json_int (Some (JInt n)) = Some n"
| "json_int _ = None"

definition session_fields ::
    "session_payload \<Rightarrow> (string \<times> int \<times> string \<times> string) option" where
  "session_fields payload =
     (case (json_text (jget ''username'' payload), json_int (jget ''expires_at'' payload),
            json_text (jget ''csrf_token'' payload), json_text (jget ''credential_revision'' payload)) of
        (Some username, Some expires_at, Some csrf_token, Some revision) \<Rightarrow> Some (username, expires_at, csrf_token, revision)
      | _ \<Rightarrow> None)"

definition validate_session :: "admin_auth_service \<Rightarrow> int \<Rightarrow> session_payload \<Rightarrow> exn + admin_session" where
  "validate_session A now payload =
     (if set (map fst payload) \<noteq> set SESSION_KEYS then Inl authentication_required
      else (case session_fields payload of
          None \<Rightarrow> Inl authentication_required
        | Some (username, expires_at, csrf_token, revision) \<Rightarrow>
            if username \<noteq> ADMIN_USERNAME \<or> expires_at \<le> now \<or> expires_at > now + SESSION_MAX_AGE_SECONDS
              then Inl authentication_required
            else if \<not> csrf_token_matches csrf_token then Inl authentication_required
            else if \<not> credential_revision_matches revision then Inl authentication_required
            else if utf8_encode revision \<noteq> utf8_encode (aa_credential_revision A)
              then Inl authentication_required
            else Inr \<lparr>as_username = username, as_expires_at = expires_at, as_csrf_token = csrf_token,
                      as_credential_revision = revision\<rparr>))"

section \<open>Requests\<close>

datatype http_method = GET | HEAD | OPTIONS | POST | PUT | PATCH | DELETE

definition UNSAFE_METHODS :: "http_method list" where
  "UNSAFE_METHODS = [POST, PUT, PATCH, DELETE]"

definition csrf_invalid :: exn where
  "csrf_invalid = AppError 403 ''CSRF_TOKEN_INVALID'' ''CSRF token is missing or invalid''"

definition clear_session :: "(session_payload, unit) act" where
  "clear_session = (\<lambda>_. (Inr (), []))"

text \<open>\<open>except AppError: request.session.clear(); raise\<close>.\<close>

definition current_admin_session :: "admin_auth_service \<Rightarrow> int \<Rightarrow> (session_payload, admin_session) act" where
  "current_admin_session A now =
     try_act (\<lambda>payload. (validate_session A now payload, payload))
       (\<lambda>e. case e of AppError _ _ _ \<Rightarrow> seq_act clear_session (raise e) | _ \<Rightarrow> raise e)"

definition require_admin_request ::
    "admin_auth_service \<Rightarrow> int \<Rightarrow> http_method \<Rightarrow> string list \<Rightarrow> (session_payload, admin_session) act" where
  "require_admin_request A now verb submitted =
     bind_act (current_admin_session A now) (\<lambda>session.
       if verb \<in> set UNSAFE_METHODS \<and>
          (length submitted \<noteq> 1 \<or> utf8_encode (hd submitted) \<noteq> utf8_encode (as_csrf_token session))
       then raise csrf_invalid else ret session)"

text \<open>The bodies of the endpoints; what they answer with is the session.\<close>

definition login_endpoint ::
    "admin_auth_service \<Rightarrow> string \<Rightarrow> string \<Rightarrow> int \<Rightarrow> string \<Rightarrow> (session_payload, admin_session) act" where
  "login_endpoint A username password now token =
     (\<lambda>payload. case auth_login A username password now token of
        Inl e \<Rightarrow> (Inl e, payload)
      | Inr session \<Rightarrow> (Inr session, payload_of_session session))"

definition logout_endpoint ::
    "admin_auth_service \<Rightarrow> int \<Rightarrow> string list \<Rightarrow> (session_payload, unit) act" where
  "logout_endpoint A now submitted =
     bind_act (require_admin_request A now POST submitted) (\<lambda>_. clear_session)"

section \<open>What a session is good for\<close>

lemma utf8_encode_inj [simp]: "utf8_encode s = utf8_encode t \<longleftrightarrow> s = t"
  by (metis option.inject utf8_roundtrip)

lemma validate_session_Inr:
  "validate_session A now payload = Inr s \<longleftrightarrow>
     set (map fst payload) = set SESSION_KEYS \<and>
     session_fields payload = Some (as_username s, as_expires_at s, as_csrf_token s, as_credential_revision s) \<and>
     as_username s = ADMIN_USERNAME \<and> now < as_expires_at s \<and> as_expires_at s \<le> now + SESSION_MAX_AGE_SECONDS \<and>
     csrf_token_matches (as_csrf_token s) \<and> credential_revision_matches (as_credential_revision s) \<and>
     as_credential_revision s = aa_credential_revision A"
proof -
  have eq: "\<lparr>as_username = u, as_expires_at = x, as_csrf_token = t, as_credential_revision = v\<rparr> = s \<longleftrightarrow>
      u = as_username s \<and> x = as_expires_at s \<and> t = as_csrf_token s \<and> v = as_credential_revision s" for u x t v
    by (cases s) auto
  show ?thesis
    by (cases "session_fields payload") (auto simp: validate_session_def eq split: if_splits)
qed

lemma validate_session_Inl: "validate_session A now payload = Inl e \<Longrightarrow> e = authentication_required"
  by (auto simp: validate_session_def split: if_splits option.splits)

lemma validate_session_empty: "validate_session A now [] = Inl authentication_required"
  by (simp add: validate_session_def SESSION_KEYS_def)

lemma auth_login_Inr:
  "auth_login A username password now token = Inr s \<longleftrightarrow>
     aa_verify A (aa_password_hash A) password = Matches \<and> username = ADMIN_USERNAME \<and>
     s = \<lparr>as_username = ADMIN_USERNAME, as_expires_at = now + SESSION_MAX_AGE_SECONDS,
        as_csrf_token = token, as_credential_revision = aa_credential_revision A\<rparr>"
  by (auto simp: auth_login_def split: password_check.splits)

end
