(* ===== verification/Admin_Secrets.thy ===== *)
theory Admin_Secrets
  imports Admin_Auth
begin

text \<open>
  \<open>auth/secrets.py\<close>: the two files with the administrator's password hash and the session signing
  key, written once by the command of \<open>auth/cli.py\<close> and read when the API starts.  The state is the
  tree of the whole file system below its root; \<open>Special\<close> is a symbolic link, which a path does
  not lead through.  The operating system may refuse a step of the initialisation.
\<close>

definition PASSWORD_HASH_FILENAME :: string where "PASSWORD_HASH_FILENAME = ''admin-password.hash''"
definition SIGNING_KEY_FILENAME :: string where "SIGNING_KEY_FILENAME = ''session-signing.key''"
definition MINIMUM_SIGNING_KEY_BYTES :: nat where "MINIMUM_SIGNING_KEY_BYTES = 32"
definition MAXIMUM_SECRET_FILE_BYTES :: nat where "MAXIMUM_SECRET_FILE_BYTES = 4096"
definition MAXIMUM_PASSWORD_LENGTH :: nat where "MAXIMUM_PASSWORD_LENGTH = 1024"

text \<open>\<open>AuthSecretError(m)\<close>: its class and its message.\<close>

definition auth_secret_error :: "string \<Rightarrow> exn" where
  "auth_secret_error m = OtherError (''AuthSecretError: '' @ m)"

record admin_secrets =
  ad_password_hash :: string
  ad_signing_key :: string
  ad_credential_revision :: string

section \<open>Paths\<close>

fun lstat_path :: "string list \<Rightarrow> entry \<Rightarrow> exn + entry" where
  "lstat_path [] e = Inr e"
| "lstat_path (p # ps) (Directory m own es) =
     (case map_of es p of None \<Rightarrow> Inl file_not_found | Some e \<Rightarrow> lstat_path ps e)"
| "lstat_path (p # ps) _ = Inl call_refused"

definition lstat_act :: "string list \<Rightarrow> (entry, entry) act" where
  "lstat_act path = (\<lambda>tree. (lstat_path path tree, tree))"

definition auth_lstat :: "string list \<Rightarrow> string \<Rightarrow> (entry, entry) act" where
  "auth_lstat path missing_message =
     try_act (lstat_act path)
       (\<lambda>e. if e = file_not_found then raise (auth_secret_error missing_message) else raise e)"

definition path_exists :: "string list \<Rightarrow> (entry, bool) act" where
  "path_exists path =
     try_act (bind_act (lstat_act path) (\<lambda>_. ret True))
       (\<lambda>e. if e = file_not_found then ret False else raise e)"

definition absolute_parts :: "string \<Rightarrow> (entry, string list) act" where
  "absolute_parts path =
     (if \<not> starts_with ''/'' path then raise (auth_secret_error ''authentication secret directory must be absolute'')
      else ret (posix_parts path))"

definition require_missing_target :: "string list \<Rightarrow> (entry, unit) act" where
  "require_missing_target path =
     bind_act (or_not_found (lstat_act path)) (\<lambda>found. case found of
        None \<Rightarrow> ret ()
      | Some Special \<Rightarrow> raise (auth_secret_error ''authentication secret directory must not be a symlink'')
      | Some _ \<Rightarrow> raise (auth_secret_error ''authentication secret directory already exists''))"

text \<open>\<open>path.parents\<close> from the root down, and the path itself.\<close>

definition parents :: "string list \<Rightarrow> string list list" where
  "parents path = map (\<lambda>n. take n path) [0..<length path]"

definition require_no_symlink_components :: "string list \<Rightarrow> (entry, unit) act" where
  "require_no_symlink_components path =
     for_each (parents path @ [path]) (\<lambda>component.
       bind_act (or_not_found (lstat_act component)) (\<lambda>found. case found of
          None \<Rightarrow> if component = path then ret ()
            else raise (auth_secret_error ''authentication secret directory ancestor is missing'')
        | Some Special \<Rightarrow> raise (auth_secret_error ''authentication secret path must not contain symlinks'')
        | Some _ \<Rightarrow> ret ()))"

definition require_outside_git_worktree :: "string list \<Rightarrow> (entry, unit) act" where
  "require_outside_git_worktree path =
     for_each (rev (parents path)) (\<lambda>ancestor.
       bind_act (path_exists (ancestor @ [''.git''])) (\<lambda>found.
         if found then raise (auth_secret_error ''authentication secret directory must be outside a Git worktree'')
         else ret ()))"

section \<open>Reading\<close>

definition read_secret_file :: "string list \<Rightarrow> (entry, string) act" where
  "read_secret_file path =
     bind_act (auth_lstat path ''authentication secret file is missing or unsafe'') (\<lambda>e. case e of
        Special \<Rightarrow> raise (auth_secret_error ''authentication secret file is missing or unsafe'')
      | Directory mode own es \<Rightarrow> raise (auth_secret_error ''authentication secret files must be regular 0600 files'')
      | Regular mode own payload \<Rightarrow>
          if \<not> own then raise (auth_secret_error ''authentication secret file is missing or unsafe'')
          else if mode \<noteq> mode_600
            then raise (auth_secret_error ''authentication secret files must be regular 0600 files'')
          else if length payload > MAXIMUM_SECRET_FILE_BYTES
            then raise (auth_secret_error ''authentication secret file is too large'')
          else ret payload)"

text \<open>Argon2 and SHA-256: \<open>extract_parameters\<close> gives the type of a hash or raises
  \<open>InvalidHashError\<close>.\<close>

record auth_crypto =
  ac_hash :: "string \<Rightarrow> string"
  ac_type :: "string \<Rightarrow> string option"
  ac_verify :: "string \<Rightarrow> string \<Rightarrow> password_check"
  ac_sha256 :: "string \<Rightarrow> string"

definition load_admin_secrets :: "auth_crypto \<Rightarrow> string \<Rightarrow> (entry, admin_secrets) act" where
  "load_admin_secrets C root =
     bind_act (absolute_parts root) (\<lambda>directory.
     bind_act (auth_lstat directory ''authentication secret directory is missing'') (\<lambda>e. case e of
        Special \<Rightarrow> raise (auth_secret_error ''authentication secret directory must not be a symlink'')
      | Regular _ _ _ \<Rightarrow> raise (auth_secret_error ''authentication secret directory must be a 0700 directory'')
      | Directory mode own es \<Rightarrow>
          if mode \<noteq> mode_700
            then raise (auth_secret_error ''authentication secret directory must be a 0700 directory'')
          else
            bind_act (read_secret_file (directory @ [PASSWORD_HASH_FILENAME])) (\<lambda>hash_bytes.
            bind_act (read_secret_file (directory @ [SIGNING_KEY_FILENAME])) (\<lambda>key_bytes.
              case (utf8_decode hash_bytes, utf8_decode key_bytes) of
                (Some password_hash, Some signing_key) \<Rightarrow>
                  if password_hash = [] \<or> password_hash \<noteq> strip password_hash
                    then raise (auth_secret_error ''administrator password hash is malformed'')
                  else (case ac_type C password_hash of
                      None \<Rightarrow> raise (auth_secret_error ''administrator password hash is malformed'')
                    | Some type \<Rightarrow>
                        if type \<noteq> ''argon2id''
                          then raise (auth_secret_error ''administrator password hash must use Argon2id'')
                        else if ac_verify C password_hash ''heimdall-auth-format-validation'' = Unverifiable
                          then raise (auth_secret_error ''administrator password hash is malformed'')
                        else if length key_bytes < MINIMUM_SIGNING_KEY_BYTES \<or> signing_key \<noteq> strip signing_key \<or>
                            CHR 0x00 \<in> set signing_key
                          then raise (auth_secret_error ''session signing key is malformed'')
                        else ret \<lparr>ad_password_hash = password_hash, ad_signing_key = signing_key,
                               ad_credential_revision = ac_sha256 C hash_bytes\<rparr>)
              | _ \<Rightarrow> raise (auth_secret_error ''authentication secret file is not valid UTF-8'')))))"

section \<open>Writing\<close>

datatype auth_step = Make_Parents | Make_Temporary | Hash_Password | Write_Hash | Write_Key | Sync_Temporary | Rename_Target | Sync_Parent

record auth_host =
  ah_refuses :: "auth_step \<Rightarrow> bool"
  ah_new_mode :: nat
  ah_random :: string
  ah_token :: string

definition auth_step :: "auth_host \<Rightarrow> auth_step \<Rightarrow> (entry, unit) act" where
  "auth_step H step = (if ah_refuses H step then raise call_refused else ret ())"

text \<open>Changing the entries of the directory at a path.\<close>

fun edit_directory :: "((string \<times> entry) list \<Rightarrow> (string \<times> entry) list) \<Rightarrow> string list \<Rightarrow> entry \<Rightarrow> entry" where
  "edit_directory f [] (Directory m own es) = Directory m own (f es)"
| "edit_directory f (p # ps) (Directory m own es) =
     (case map_of es p of
        None \<Rightarrow> Directory m own es
      | Some e \<Rightarrow> Directory m own (AList.update p (edit_directory f ps e) es))"
| "edit_directory f ps e = e"

definition edit_act :: "((string \<times> entry) list \<Rightarrow> (string \<times> entry) list) \<Rightarrow> string list \<Rightarrow> (entry, unit) act" where
  "edit_act f path = (\<lambda>tree. (Inr (), edit_directory f path tree))"

text \<open>\<open>mkdir(parents=True, exist_ok=True)\<close>.\<close>

fun make_parents :: "auth_host \<Rightarrow> string list \<Rightarrow> entry \<Rightarrow> (exn + unit) \<times> entry" where
  "make_parents H [] (Directory m own es) = (Inr (), Directory m own es)"
| "make_parents H [] e = (Inl (OtherError ''FileExistsError''), e)"
| "make_parents H (p # ps) (Directory m own es) =
     (let child = (case map_of es p of None \<Rightarrow> Directory (ah_new_mode H) True [] | Some e \<Rightarrow> e);
          (r, child') = make_parents H ps child in
      (r, Directory m own (AList.update p child' es)))"
| "make_parents H (p # ps) e = (Inl call_refused, e)"

definition temporary_name :: "auth_host \<Rightarrow> string list \<Rightarrow> string" where
  "temporary_name H target = ''.'' @ last target @ ''-'' @ ah_random H"

definition write_new_private_file :: "string list \<Rightarrow> string \<Rightarrow> string \<Rightarrow> (entry, unit) act" where
  "write_new_private_file directory name payload =
     edit_act (AList.update name (Regular mode_600 True payload)) directory"

text \<open>\<open>tempfile.mkdtemp\<close>: a name that is not there yet.\<close>

definition make_temporary :: "string list \<Rightarrow> string \<Rightarrow> (entry, unit) act" where
  "make_temporary parent name =
     bind_act (path_exists (parent @ [name])) (\<lambda>found.
       if found then raise (OtherError ''FileExistsError'')
       else edit_act (AList.update name (Directory mode_700 True [])) parent)"

text \<open>\<open>_remove_initialization_directory\<close>.\<close>

definition remove_initialization_directory :: "string list \<Rightarrow> string \<Rightarrow> (entry, unit) act" where
  "remove_initialization_directory parent name =
     bind_act (path_exists (parent @ [name])) (\<lambda>found.
       if \<not> found then ret ()
       else seq_act (edit_act (AList.delete PASSWORD_HASH_FILENAME) (parent @ [name]))
         (seq_act (edit_act (AList.delete SIGNING_KEY_FILENAME) (parent @ [name]))
           (edit_act (AList.delete name) parent)))"

text \<open>\<open>os.rename\<close> of the temporary directory onto the missing target.\<close>

definition rename_entry :: "string \<Rightarrow> string \<Rightarrow> (string \<times> entry) list \<Rightarrow> (string \<times> entry) list" where
  "rename_entry name target es =
     (case map_of es name of None \<Rightarrow> es | Some e \<Rightarrow> AList.update target e (AList.delete name es))"

definition initialize_admin_secrets ::
    "auth_crypto \<Rightarrow> auth_host \<Rightarrow> string \<Rightarrow> string \<Rightarrow> string \<Rightarrow> (entry, unit) act" where
  "initialize_admin_secrets C H root password confirmation =
     bind_act (absolute_parts root) (\<lambda>target.
     let parent = butlast target; name = temporary_name H target; temporary = parent @ [name] in
     seq_act (require_missing_target target)
     (if password \<noteq> confirmation then raise (auth_secret_error ''password confirmation does not match'')
      else if password = [] then raise (auth_secret_error ''password must not be empty'')
      else if length password > MAXIMUM_PASSWORD_LENGTH then raise (auth_secret_error ''password is too long'')
      else
        seq_act (auth_step H Make_Parents) (seq_act (make_parents H parent)
        (seq_act (require_no_symlink_components target)
        (seq_act (require_missing_target target)
        (seq_act (require_outside_git_worktree target)
        (seq_act (auth_step H Make_Temporary)
        (seq_act (make_temporary parent name)
          (on_error
            (seq_act (auth_step H Hash_Password)
            (seq_act (auth_step H Write_Hash)
            (seq_act (write_new_private_file temporary PASSWORD_HASH_FILENAME (utf8_encode (ac_hash C password)))
            (seq_act (auth_step H Write_Key)
            (seq_act (write_new_private_file temporary SIGNING_KEY_FILENAME (utf8_encode (ah_token H)))
            (seq_act (auth_step H Sync_Temporary)
            (seq_act (require_missing_target target)
            (seq_act (auth_step H Rename_Target)
            (seq_act (edit_act (rename_entry name (last target)) parent)
              (auth_step H Sync_Parent))))))))))
            (remove_initialization_directory parent name))))))))))"

end
