(* ===== verification/Auth_Properties.thy ===== *)
theory Auth_Properties
  imports Admin_Secrets
begin

text \<open>
  The properties of the administrator's authentication: what a login is good for, what a request
  needs, and what the initialisation of the secrets leaves behind.
\<close>

section \<open>Sessions\<close>

lemma session_fields_payload:
  "session_fields (payload_of_session s) = Some (as_username s, as_expires_at s, as_csrf_token s, as_credential_revision s)"
  "set (map fst (payload_of_session s)) = set SESSION_KEYS"
  by (auto simp: session_fields_def payload_of_session_def SESSION_KEYS_def jget_def)

text \<open>C39. A login succeeds only for the administrator's name and password, and its session is accepted
  from then on for eight hours and not a second longer; before the login's own second, when the
  clock has been turned back, it is refused.\<close>

theorem login_session_is_accepted:
  assumes "auth_login A username password t token = Inr s"
    and "csrf_token_matches token" "credential_revision_matches (aa_credential_revision A)"
  shows "username = ADMIN_USERNAME \<and> aa_verify A (aa_password_hash A) password = Matches \<and>
    validate_session A now (payload_of_session s) =
      (if t \<le> now \<and> now < t + 28800 then Inr s else Inl authentication_required)"
proof -
  have s: "s = \<lparr>as_username = ADMIN_USERNAME, as_expires_at = t + SESSION_MAX_AGE_SECONDS,
      as_csrf_token = token, as_credential_revision = aa_credential_revision A\<rparr>"
    and who: "username = ADMIN_USERNAME" "aa_verify A (aa_password_hash A) password = Matches"
    using assms(1) by (simp_all add: auth_login_Inr)
  have "validate_session A now (payload_of_session s) = Inr s \<longleftrightarrow> t \<le> now \<and> now < t + 28800"
    using assms(2,3) unfolding validate_session_Inr session_fields_payload
    by (auto simp: s SESSION_MAX_AGE_SECONDS_def)
  moreover have "validate_session A now (payload_of_session s) \<in> {Inr s, Inl authentication_required}"
  proof (cases "validate_session A now (payload_of_session s)")
    case (Inr s')
    then have "s' = s" unfolding validate_session_Inr session_fields_payload by (cases s; cases s') auto
    then show ?thesis using Inr by simp
  qed (auto dest: validate_session_Inl)
  ultimately show ?thesis using who by auto
qed

definition example_auth :: admin_auth_service where
  "example_auth = \<lparr>aa_password_hash = ''h'', aa_credential_revision = replicate 64 CHR ''0'',
     aa_verify = (\<lambda>h p. if p = ''secret'' then Matches else Mismatch)\<rparr>"

definition example_token :: string where "example_token = replicate 43 CHR ''x''"

definition example_session :: admin_session where
  "example_session = \<lparr>as_username = ''admin'', as_expires_at = 28900, as_csrf_token = example_token,
     as_credential_revision = replicate 64 CHR ''0''\<rparr>"

lemma example_login: "auth_login example_auth ''admin'' ''secret'' 100 example_token = Inr example_session"
  by code_simp

theorem login_session_is_accepted_witness:
  "validate_session example_auth 28899 (payload_of_session example_session) = Inr example_session \<and>
   validate_session example_auth 28900 (payload_of_session example_session) = Inl authentication_required"
proof -
  have "csrf_token_matches example_token" "credential_revision_matches (aa_credential_revision example_auth)"
    by code_simp+
  note accepted = login_session_is_accepted [OF example_login this]
  show ?thesis using accepted [of 28899] accepted [of 28900] by simp
qed

text \<open>C38. A protected request passes only with a session of the current credentials and, when it can
  change anything, exactly one CSRF header with the session's token.  A session that is refused is
  emptied, and then every later request with it is refused as well; a wrong CSRF header changes nothing.\<close>

definition csrf_passes :: "http_method \<Rightarrow> string list \<Rightarrow> admin_session \<Rightarrow> bool" where
  "csrf_passes verb submitted s = (verb \<in> {GET, HEAD, OPTIONS} \<or> submitted = [as_csrf_token s])"

theorem protected_request_outcome:
  "case validate_session A now payload of
     Inr s \<Rightarrow> require_admin_request A now verb submitted payload =
       (if csrf_passes verb submitted s then Inr s else Inl csrf_invalid, payload) \<and>
       as_credential_revision s = aa_credential_revision A \<and> now < as_expires_at s
   | Inl _ \<Rightarrow> require_admin_request A now verb submitted payload = (Inl authentication_required, []) \<and>
       require_admin_request A later verb' submitted' [] = (Inl authentication_required, [])"
proof (cases "validate_session A now payload")
  case (Inl e)
  have refused: "require_admin_request A t v h p = (Inl authentication_required, [])"
    if "validate_session A t p = Inl authentication_required" for t v h p
    using that by (simp add: require_admin_request_def current_admin_session_def act_simps clear_session_def
        authentication_required_def)
  show ?thesis
    using Inl refused validate_session_Inl [OF Inl] validate_session_empty [of A later] by simp
next
  case (Inr s)
  have "verb \<in> set UNSAFE_METHODS \<and> (length submitted \<noteq> 1 \<or> utf8_encode (hd submitted) \<noteq> utf8_encode (as_csrf_token s)) \<longleftrightarrow>
      \<not> csrf_passes verb submitted s"
    by (cases verb; cases submitted; cases "tl submitted") (auto simp: csrf_passes_def UNSAFE_METHODS_def)
  moreover have "as_credential_revision s = aa_credential_revision A" "now < as_expires_at s"
    using Inr unfolding validate_session_Inr by blast+
  ultimately show ?thesis
    using Inr by (simp add: require_admin_request_def current_admin_session_def act_simps)
qed

section \<open>The secret files\<close>

lemma lstat_append:
  "lstat_path (p @ q) t = (case lstat_path p t of Inl e \<Rightarrow> Inl e | Inr e \<Rightarrow> lstat_path q e)"
  by (induction p t rule: lstat_path.induct) (auto split: option.splits)

lemma lstat_edit:
  "lstat_path path t = Inr (Directory m own es) \<Longrightarrow>
   lstat_path path (edit_directory f path t) = Inr (Directory m own (f es))"
  by (induction path t rule: lstat_path.induct) (auto simp: update_conv' split: option.splits)

lemma edit_below:
  "lstat_path path t = Inr (Directory m own es) \<Longrightarrow> map_of es n = Some e \<Longrightarrow>
   edit_directory f (path @ [n]) t = edit_directory (AList.update n (edit_directory f [] e)) path t"
  by (induction path t rule: lstat_path.induct) (auto split: option.splits)

text \<open>What the creation of the parents leaves.\<close>

lemma make_parents_Inr:
  "make_parents H ps t = (Inr (), t') \<Longrightarrow>
   \<exists>m own es. lstat_path ps t' = Inr (Directory m own es) \<and>
     (\<forall>n. lstat_path (ps @ [n]) t = Inl file_not_found \<longleftrightarrow> map_of es n = None)"
proof (induction H ps t arbitrary: t' rule: make_parents.induct)
  case (1 H m own es)
  then show ?case by (auto split: option.splits)
next
  case (3 H p ps m own es)
  let ?child = "case map_of es p of None \<Rightarrow> Directory (ah_new_mode H) True [] | Some e \<Rightarrow> e"
  obtain r child' where c: "make_parents H ps ?child = (r, child')" by fastforce
  then have r: "r = Inr ()" and t': "t' = Directory m own (AList.update p child' es)"
    using "3.prems" by (auto simp: Let_def)
  obtain m' own' es' where IH: "lstat_path ps child' = Inr (Directory m' own' es')"
      "\<forall>n. lstat_path (ps @ [n]) ?child = Inl file_not_found \<longleftrightarrow> map_of es' n = None"
    using "3.IH" [OF refl] c r by metis
  have new: "lstat_path (qs @ [n]) (Directory k True []) = Inl file_not_found" for qs n k
    by (cases qs) simp_all
  show ?case
    using IH new by (auto simp: t' update_conv' split: option.splits)
qed auto

lemma update_same: "map_of es p = Some e \<Longrightarrow> AList.update p e es = es"
  by (induction es) (auto split: if_splits)

lemma make_parents_fresh: "fst (make_parents H ps (Directory k True [])) = Inr ()"
proof (induction ps arbitrary: k)
  case (Cons p ps)
  obtain r c where "make_parents H ps (Directory (ah_new_mode H) True []) = (r, c)" by fastforce
  moreover from this have "r = Inr ()" using Cons [of "ah_new_mode H"] by simp
  ultimately show ?case by (simp add: Let_def)
qed simp

lemma make_parents_Inl: "make_parents H ps t = (Inl e, t') \<Longrightarrow> t' = t"
proof (induction H ps t arbitrary: t' rule: make_parents.induct)
  case (3 H p ps m own es)
  let ?child = "case map_of es p of None \<Rightarrow> Directory (ah_new_mode H) True [] | Some e \<Rightarrow> e"
  obtain r child' where c: "make_parents H ps ?child = (r, child')" by fastforce
  then have r: "r = Inl e" and t': "t' = Directory m own (AList.update p child' es)"
    using "3.prems" by (auto simp: Let_def)
  obtain old where old: "map_of es p = Some old"
    using c r make_parents_fresh [of H ps "ah_new_mode H"] by (cases "map_of es p") auto
  have "child' = old" using "3.IH" [OF refl, of child'] c r old by simp
  then show ?case using old by (simp add: t' update_same)
qed auto

section \<open>The initialisation\<close>

lemma wp_edit [wp_simps]: "wp (edit_act f path) Q E t = Q () (edit_directory f path t)"
  by (simp add: wp_def edit_act_def)

lemma wp_step [wp_simps]: "wp (auth_step H step) Q E t = (if ah_refuses H step then E call_refused t else Q () t)"
  by (simp add: auth_step_def wp_simps)

lemma wp_lstat [wp_simps]:
  "wp (lstat_act path) Q E t = (case lstat_path path t of Inl e \<Rightarrow> E e t | Inr a \<Rightarrow> Q a t)"
  by (simp add: wp_def lstat_act_def)

lemma wp_exists [wp_simps]:
  "wp (path_exists path) Q E t =
     (case lstat_path path t of Inl e \<Rightarrow> if e = file_not_found then Q False t else E e t | Inr a \<Rightarrow> Q True t)"
  by (simp add: path_exists_def wp_simps split: sum.split)

lemma wp_missing [wp_simps]:
  "wp (require_missing_target path) Q E t =
     (case lstat_path path t of
        Inl e \<Rightarrow> if e = file_not_found then Q () t else E e t
      | Inr Special \<Rightarrow> E (auth_secret_error ''authentication secret directory must not be a symlink'') t
      | Inr _ \<Rightarrow> E (auth_secret_error ''authentication secret directory already exists'') t)"
  by (simp add: require_missing_target_def or_not_found_def wp_simps split: sum.split entry.split)

lemma wp_make_parents:
  assumes "\<And>t'. make_parents H ps t = (Inr (), t') \<Longrightarrow> Q () t'" "\<And>e. make_parents H ps t = (Inl e, t) \<Longrightarrow> E e t"
  shows "wp (make_parents H ps) Q E t"
proof (rule wpI)
  show "Q a t'" if "make_parents H ps t = (Inr a, t')" for a t' using assms(1) that by simp
  show "E e t'" if m: "make_parents H ps t = (Inl e, t')" for e t'
    using assms(2) [of e] m make_parents_Inl [OF m] by simp
qed

text \<open>Checks that only look.\<close>

definition looks :: "('s, 'a) act \<Rightarrow> bool" where
  "looks m = (\<forall>s. snd (m s) = s)"

lemma looksD: "looks m \<Longrightarrow> m s = (r, s') \<Longrightarrow> s' = s"
  unfolding looks_def by (drule spec [of _ s]) simp

lemma looks_wp: "looks m \<Longrightarrow> (\<And>a. Q a s) \<Longrightarrow> (\<And>e. E e s) \<Longrightarrow> wp m Q E s"
proof (rule wpI)
  assume m: "looks m" and Q: "\<And>a. Q a s" and E: "\<And>e. E e s"
  show "Q a s'" if "m s = (Inr a, s')" for a s' using Q looksD [OF m that] by simp
  show "E e s'" if "m s = (Inl e, s')" for e s' using E looksD [OF m that] by simp
qed

lemma looks_basic: "looks (ret a)" "looks (raise e)" "looks (lstat_act path)"
  by (simp_all add: looks_def ret_def raise_def lstat_act_def)

lemma looks_bind: "looks m \<Longrightarrow> (\<And>a. looks (f a)) \<Longrightarrow> looks (bind_act m f)"
  unfolding looks_def [of "bind_act m f"]
proof
  fix s assume m: "looks m" and f: "\<And>a. looks (f a)"
  obtain r s' where r: "m s = (r, s')" by fastforce
  then have "m s = (r, s)" using looksD [OF m r] by simp
  moreover have "snd (f a s) = s" for a using f unfolding looks_def by blast
  ultimately show "snd (bind_act m f s) = s" by (cases r) (simp_all add: bind_act_def)
qed

lemma looks_try: "looks m \<Longrightarrow> (\<And>e. looks (h e)) \<Longrightarrow> looks (try_act m h)"
  unfolding looks_def [of "try_act m h"]
proof
  fix s assume m: "looks m" and h: "\<And>e. looks (h e)"
  obtain r s' where r: "m s = (r, s')" by fastforce
  then have "m s = (r, s)" using looksD [OF m r] by simp
  moreover have "snd (h e s) = s" for e using h unfolding looks_def by blast
  ultimately show "snd (try_act m h s) = s" by (cases r) (simp_all add: try_act_def)
qed

lemma looks_for_each: "(\<And>x. looks (f x)) \<Longrightarrow> looks (for_each xs f)"
  by (induction xs) (auto simp: seq_act_def intro: looks_basic looks_bind)

lemma looks_checks: "looks (require_no_symlink_components path)" "looks (require_outside_git_worktree path)"
  unfolding require_no_symlink_components_def require_outside_git_worktree_def or_not_found_def path_exists_def
  by (intro looks_for_each looks_bind looks_try; auto intro: looks_basic split: option.split entry.split)+

text \<open>The parent directory of the secrets, and what it holds.\<close>

definition holds_at :: "string list \<Rightarrow> entry \<Rightarrow> (string \<times> entry) list \<Rightarrow> bool" where
  "holds_at path t es = (\<exists>m own. lstat_path path t = Inr (Directory m own es))"

lemma held_lookup:
  "holds_at p t es \<Longrightarrow> lstat_path (p @ [n]) t = (case map_of es n of None \<Rightarrow> Inl file_not_found | Some e \<Rightarrow> Inr e)"
  by (auto simp: holds_at_def lstat_append split: option.split)

lemma held_edit: "holds_at p t es \<Longrightarrow> holds_at p (edit_directory f p t) (f es)"
  using lstat_edit unfolding holds_at_def by blast

lemma held_edit_below:
  "holds_at p t es \<Longrightarrow> map_of es n = Some e \<Longrightarrow>
   holds_at p (edit_directory f (p @ [n]) t) (AList.update n (edit_directory f [] e) es)"
  using lstat_edit edit_below unfolding holds_at_def by metis

definition staged :: "string list \<Rightarrow> string \<Rightarrow> string \<Rightarrow> (string \<times> entry) list \<Rightarrow> entry \<Rightarrow> bool" where
  "staged p tn n fs t = (\<exists>es. holds_at p t es \<and> map_of es tn = None \<and> map_of es n = Some (Directory mode_700 True fs))"

definition cleaned :: "string list \<Rightarrow> string \<Rightarrow> string \<Rightarrow> entry \<Rightarrow> bool" where
  "cleaned p tn n t = (lstat_path (p @ [tn]) t = Inl file_not_found \<and> lstat_path (p @ [n]) t = Inl file_not_found)"

lemma staged_write:
  "staged p tn n fs t \<Longrightarrow>
   wp (write_new_private_file (p @ [n]) k payload)
     (\<lambda>_ t'. staged p tn n (AList.update k (Regular mode_600 True payload) fs) t') E t"
  unfolding write_new_private_file_def wp_edit staged_def
proof (elim exE conjE)
  fix es assume h: "holds_at p t es" "map_of es tn = None" "map_of es n = Some (Directory mode_700 True fs)"
  show "\<exists>es. holds_at p (edit_directory (AList.update k (Regular mode_600 True payload)) (p @ [n]) t) es \<and> map_of es tn = None \<and>
      map_of es n = Some (Directory mode_700 True (AList.update k (Regular mode_600 True payload) fs))"
    by (rule exI, rule conjI, rule held_edit_below [OF h(1,3)]) (use h in \<open>auto simp: update_conv'\<close>)
qed

lemma staged_removed:
  "staged p tn n fs t \<Longrightarrow> wp (remove_initialization_directory p n) (\<lambda>_. cleaned p tn n) E t"
  unfolding staged_def
proof (elim exE conjE)
  fix es assume h: "holds_at p t es" "map_of es tn = None" "map_of es n = Some (Directory mode_700 True fs)"
  let ?t1 = "edit_directory (AList.delete PASSWORD_HASH_FILENAME) (p @ [n]) t"
  let ?t2 = "edit_directory (AList.delete SIGNING_KEY_FILENAME) (p @ [n]) ?t1"
  let ?f1 = "AList.delete PASSWORD_HASH_FILENAME fs"
  let ?es1 = "AList.update n (Directory mode_700 True ?f1) es"
  let ?es2 = "AList.update n (Directory mode_700 True (AList.delete SIGNING_KEY_FILENAME ?f1)) ?es1"
  have n: "n \<noteq> tn" using h by auto
  have es1: "holds_at p ?t1 ?es1" using held_edit_below [OF h(1,3)] by simp
  have "map_of ?es1 n = Some (Directory mode_700 True ?f1)" by (simp add: update_conv')
  from held_edit_below [OF es1 this] have "holds_at p ?t2 ?es2" by (simp only: edit_directory.simps)
  then have "holds_at p (edit_directory (AList.delete n) p ?t2) (AList.delete n ?es2)" by (rule held_edit)
  then have "cleaned p tn n (edit_directory (AList.delete n) p ?t2)"
    using h(2) n by (simp add: cleaned_def held_lookup delete_conv' update_conv')
  then show ?thesis
    unfolding remove_initialization_directory_def wp_simps held_lookup [OF h(1)] h(3) by (simp add: wp_simps)
qed

lemma cleaned_removed: "cleaned p tn n t \<Longrightarrow> Q () t \<Longrightarrow> wp (remove_initialization_directory p n) Q E t"
  by (simp add: remove_initialization_directory_def wp_simps cleaned_def)

text \<open>What a complete initialisation leaves, and that it can be read back.\<close>

definition secrets_files :: "string \<Rightarrow> string \<Rightarrow> (string \<times> entry) list" where
  "secrets_files hash token =
     [(PASSWORD_HASH_FILENAME, Regular mode_600 True (utf8_encode hash)), (SIGNING_KEY_FILENAME, Regular mode_600 True (utf8_encode token))]"

definition usable_hash :: "auth_crypto \<Rightarrow> string \<Rightarrow> bool" where
  "usable_hash C h \<longleftrightarrow> h \<noteq> [] \<and> h = strip h \<and> ac_type C h = Some ''argon2id'' \<and>
     ac_verify C h ''heimdall-auth-format-validation'' \<noteq> Unverifiable \<and> length (utf8_encode h) \<le> 4096"

definition usable_token :: "string \<Rightarrow> bool" where
  "usable_token t \<longleftrightarrow> t = strip t \<and> CHR 0x00 \<notin> set t \<and> 32 \<le> length (utf8_encode t) \<and> length (utf8_encode t) \<le> 4096"

lemma secrets_are_readable:
  assumes root: "starts_with ''/'' root" and dir: "lstat_path (posix_parts root) t = Inr (Directory mode_700 True (secrets_files h k))"
    and h: "usable_hash C h" and k: "usable_token k"
  shows "load_admin_secrets C root t =
    (Inr \<lparr>ad_password_hash = h, ad_signing_key = k, ad_credential_revision = ac_sha256 C (utf8_encode h)\<rparr>, t)"
proof -
  have read: "read_secret_file (posix_parts root @ [n]) t = (Inr payload, t)"
    if "map_of (secrets_files h k) n = Some (Regular mode_600 True payload)" "length payload \<le> 4096" for n payload
    using that dir
    by (simp add: read_secret_file_def auth_lstat_def lstat_act_def act_simps lstat_append MAXIMUM_SECRET_FILE_BYTES_def)
  have files: "read_secret_file (posix_parts root @ [PASSWORD_HASH_FILENAME]) t = (Inr (utf8_encode h), t)"
    "read_secret_file (posix_parts root @ [SIGNING_KEY_FILENAME]) t = (Inr (utf8_encode k), t)"
    using h k by (auto intro!: read simp: secrets_files_def PASSWORD_HASH_FILENAME_def SIGNING_KEY_FILENAME_def usable_hash_def usable_token_def)
  have looked: "auth_lstat (posix_parts root) m t = (Inr (Directory mode_700 True (secrets_files h k)), t)" for m
    using dir by (simp add: auth_lstat_def lstat_act_def act_simps)
  show ?thesis
    unfolding load_admin_secrets_def absolute_parts_def
    using root h [unfolded usable_hash_def] k [unfolded usable_token_def]
    by (simp add: act_simps looked files utf8_roundtrip MINIMUM_SIGNING_KEY_BYTES_def)
qed

lemma secrets_files_updates:
  "AList.update SIGNING_KEY_FILENAME (Regular mode_600 True (utf8_encode k))
     (AList.update PASSWORD_HASH_FILENAME (Regular mode_600 True (utf8_encode h)) []) = secrets_files h k"
  by (simp add: secrets_files_def PASSWORD_HASH_FILENAME_def SIGNING_KEY_FILENAME_def)

lemma staged_lookup: "staged p tn n fs t \<Longrightarrow> lstat_path (p @ [tn]) t = Inl file_not_found"
  by (auto simp: staged_def held_lookup)

lemma staged_renamed:
  assumes "staged p tn n fs t" "tn \<noteq> n"
  shows "lstat_path (p @ [tn]) (edit_directory (rename_entry n tn) p t) = Inr (Directory mode_700 True fs) \<and>
    lstat_path (p @ [n]) (edit_directory (rename_entry n tn) p t) = Inl file_not_found"
proof -
  obtain es where h: "holds_at p t es" "map_of es n = Some (Directory mode_700 True fs)"
    using assms unfolding staged_def by blast
  from held_edit [OF h(1), of "rename_entry n tn"] show ?thesis
    using h(2) assms(2) by (simp add: held_lookup rename_entry_def update_conv' delete_conv')
qed

text \<open>The body under the cleanup: either all of it, or nothing is left.\<close>

lemma staged_body:
  fixes p :: "string list"
  assumes staged: "staged p tn n [] t" and n: "tn \<noteq> n"
    and done1: "\<And>t'. lstat_path (p @ [tn]) t' = Inr (Directory mode_700 True (secrets_files h k)) \<Longrightarrow> Q () t'"
    and late: "\<And>t'. ah_refuses H Sync_Parent \<Longrightarrow>
      lstat_path (p @ [tn]) t' = Inr (Directory mode_700 True (secrets_files h k)) \<Longrightarrow> E call_refused t'"
    and clean: "\<And>e t'. cleaned p tn n t' \<Longrightarrow> E e t'"
  shows "wp (on_error
            (seq_act (auth_step H Hash_Password)
            (seq_act (auth_step H Write_Hash)
            (seq_act (write_new_private_file (p @ [n]) PASSWORD_HASH_FILENAME (utf8_encode h))
            (seq_act (auth_step H Write_Key)
            (seq_act (write_new_private_file (p @ [n]) SIGNING_KEY_FILENAME (utf8_encode k))
            (seq_act (auth_step H Sync_Temporary)
            (seq_act (require_missing_target (p @ [tn]))
            (seq_act (auth_step H Rename_Target)
            (seq_act (edit_act (rename_entry n tn) p)
              (auth_step H Sync_Parent))))))))))
            (remove_initialization_directory p n)) Q E t"
proof -
  have undo: "wp (seq_act (remove_initialization_directory p n) (raise e)) Q E t'" if "staged p tn n fs t'" for e fs t'
    unfolding wp_seq by (rule wp_mono [OF staged_removed [OF that]]) (simp_all add: wp_raise clean)
  have end_of: "wp (seq_act (edit_act (rename_entry n tn) p) (auth_step H Sync_Parent)) Q
      (\<lambda>e. wp (seq_act (remove_initialization_directory p n) (raise e)) Q E) t'"
    if s: "staged p tn n (secrets_files h k) t'" for t'
  proof -
    note r = staged_renamed [OF s n]
    then have "wp (seq_act (remove_initialization_directory p n) (raise call_refused)) Q E
        (edit_directory (rename_entry n tn) p t')" if "ah_refuses H Sync_Parent"
      using late [OF that] by (simp add: remove_initialization_directory_def wp_simps)
    then show ?thesis using r done1 by (simp add: wp_simps)
  qed
  have second: "wp (seq_act (auth_step H Sync_Temporary)
            (seq_act (require_missing_target (p @ [tn]))
            (seq_act (auth_step H Rename_Target)
            (seq_act (edit_act (rename_entry n tn) p)
              (auth_step H Sync_Parent))))) Q (\<lambda>e. wp (seq_act (remove_initialization_directory p n) (raise e)) Q E) t'"
    if s: "staged p tn n (secrets_files h k) t'" for t'
    using end_of [OF s] undo [OF s] staged_lookup [OF s]
    unfolding wp_seq wp_step wp_missing by simp
  have first: "wp (seq_act (write_new_private_file (p @ [n]) PASSWORD_HASH_FILENAME (utf8_encode h))
            (seq_act (auth_step H Write_Key)
            (seq_act (write_new_private_file (p @ [n]) SIGNING_KEY_FILENAME (utf8_encode k))
            (seq_act (auth_step H Sync_Temporary)
            (seq_act (require_missing_target (p @ [tn]))
            (seq_act (auth_step H Rename_Target)
            (seq_act (edit_act (rename_entry n tn) p)
              (auth_step H Sync_Parent)))))))) Q (\<lambda>e. wp (seq_act (remove_initialization_directory p n) (raise e)) Q E) t"
    unfolding wp_seq [of "write_new_private_file _ _ _"]
  proof (rule wp_mono [OF staged_write [OF staged]])
    fix t1 assume s1: "staged p tn n (AList.update PASSWORD_HASH_FILENAME (Regular mode_600 True (utf8_encode h)) []) t1"
    have write_key: "wp (write_new_private_file (p @ [n]) SIGNING_KEY_FILENAME (utf8_encode k)) (\<lambda>_. wp (seq_act (auth_step H Sync_Temporary)
            (seq_act (require_missing_target (p @ [tn]))
            (seq_act (auth_step H Rename_Target)
            (seq_act (edit_act (rename_entry n tn) p)
              (auth_step H Sync_Parent))))) Q (\<lambda>e. wp (seq_act (remove_initialization_directory p n) (raise e)) Q E))
          (\<lambda>e. wp (seq_act (remove_initialization_directory p n) (raise e)) Q E) t1"
      by (rule wp_mono [OF staged_write [OF s1, where E = "\<lambda>_ _. False"]])
        (rule second, simp only: secrets_files_updates, simp)
    show "wp (seq_act (auth_step H Write_Key)
            (seq_act (write_new_private_file (p @ [n]) SIGNING_KEY_FILENAME (utf8_encode k))
            (seq_act (auth_step H Sync_Temporary)
            (seq_act (require_missing_target (p @ [tn]))
            (seq_act (auth_step H Rename_Target)
            (seq_act (edit_act (rename_entry n tn) p)
              (auth_step H Sync_Parent))))))) Q (\<lambda>e. wp (seq_act (remove_initialization_directory p n) (raise e)) Q E) t1"
      unfolding wp_seq [of "auth_step H Write_Key"] wp_step [of H Write_Key] wp_seq [of "write_new_private_file _ _ _"]
      using undo [OF s1] write_key by simp
  qed
  show ?thesis
    unfolding on_error_def wp_try wp_seq [of "auth_step H Hash_Password"] wp_step [of H Hash_Password]
      wp_seq [of "auth_step H Write_Hash"] wp_step [of H Write_Hash]
    using first undo [OF staged] by simp
qed



text \<open>One machine that refuses nothing, one that refuses the rename.\<close>

definition example_crypto :: auth_crypto where
  "example_crypto = \<lparr>ac_hash = (\<lambda>p. ''$argon2id$'' @ p), ac_type = (\<lambda>h. Some ''argon2id''),
     ac_verify = (\<lambda>h p. if h = ''$argon2id$'' @ p then Matches else Mismatch), ac_sha256 = (\<lambda>b. b)\<rparr>"

definition example_host :: "auth_step list \<Rightarrow> auth_host" where
  "example_host refused = \<lparr>ah_refuses = (\<lambda>step. step \<in> set refused), ah_new_mode = mode_700, ah_random = ''r'',
     ah_token = example_token\<rparr>"

definition example_tree :: entry where
  "example_tree = Directory mode_700 True [(''etc'', Directory mode_700 True [])]"

definition example_initialization :: "auth_step list \<Rightarrow> (exn + unit) \<times> entry" where
  "example_initialization refused =
     initialize_admin_secrets example_crypto (example_host refused) ''/etc/h'' ''pw'' ''pw'' example_tree"

lemma example_initializations:
  "fst (example_initialization []) = Inr ()" "fst (example_initialization [Rename_Target]) = Inl call_refused"
  "snd (example_initialization [Rename_Target]) = example_tree"
  "usable_hash example_crypto (ac_hash example_crypto ''pw'')" "usable_token (ah_token (example_host refused))"
  by (code_simp, code_simp, code_simp, code_simp, simp only: example_host_def auth_host.select_convs, code_simp)



end
