(* ===== verification/Spec2Isabelle.thy ===== *)
theory Spec2Isabelle
  imports Database_Properties Edge_Properties Deletion_Properties Teardown_Properties Auth_Properties
begin

text \<open>
  A verification library for the control plane of Heimdall (\<open>backend/src/heimdall\<close>).

  \<^bold>\<open>The program.\<close>  Heimdall deploys the services of a Git repository as containers and serves
  them under a public hostname.  An HTTP API writes wishes into a PostgreSQL database (a
  deployment to make, a hostname to serve, a project to delete); separate worker processes claim
  the jobs of that database one at a time, act on Docker, on the edge proxy and on private files,
  and record what became of them.  A claim is a lease: it has a token and an expiry, and every
  statement of a worker on its job compares both.  The database is the only thing the processes
  share, so the difficult behaviour of the program is in what its transactions allow, in the order
  of a worker's calls, and in what is left behind when a step fails.

  \<^bold>\<open>Foundations.\<close>
  \<^item> \<open>Heimdall_Prelude\<close>: identifiers (128-bit words), instants, JSON, the exceptions as one datatype,
    SQL statements as functions on lists of rows, and the two kinds of programs.  \<open>tx\<close> is a
    transaction: it gives a new database or an exception and then nothing of it is kept.
    \<open>act\<close> is a process: its state survives its exceptions.
  \<^item> \<open>Control_Db\<close>: the tables of \<open>migrations/*.sql\<close> as one record \<open>db\<close>, with the rows of each
    table as records.  Constraints a statement can violate are branches of that statement.
  \<^item> \<open>Lease_Protocol\<close>: the locale of a table of leased jobs: claiming, extending, and what an older
    token may still do.  The job tables of deployments, reconciliations, routes and deletions
    interpret it.
  \<^item> \<open>Worker_World\<close>: the ports of a worker (clock, drawn identifiers, rows that others hold locked).
    A port is a function on the whole state, database included, so that whatever other processes
    commit between two statements of a worker happens inside a port.  The combinators \<open>keeps\<close>,
    \<open>raises_only\<close>, \<open>answers\<close>, \<open>safe\<close> and the weakest precondition \<open>wp\<close> carry the proofs about
    passes.

  \<^bold>\<open>Deployments.\<close>
  \<^item> \<open>Deployment_Repository\<close>, \<open>Deployment_Events\<close>: the methods of \<open>deployments/repository.py\<close> one by
    one; \<open>Deployment_Invariants\<close> characterises each by the one change it makes and shows the tables'
    invariant; \<open>Deployment_Lifecycle\<close> makes them a step relation and proves that it simulates the
    abstract status machine \<open>status_next\<close> and that a token, once superseded, stays refused.
  \<^item> \<open>Deployment_Worker\<close> is \<open>deployments/worker.py\<close>, one pass \<open>run_once\<close> with every handler;
    \<open>Deployment_Service\<close> is \<open>deployments/service.py\<close> with its request schema.
  \<^item> \<open>Reconciliation_Repository\<close>, \<open>Reconciliation_Worker\<close>: the clean-up of what a failed deployment
    left (\<open>runtime/reconciliation*.py\<close>, \<open>runtime/repository.py\<close>).
  \<^item> \<open>Runtime_Models\<close>: parsing of the frozen configuration document (\<open>runtime/models.py\<close>).
  \<^item> \<open>Deployment_Properties\<close>, \<open>Worker_Properties\<close>: one deployment in progress per project, the order
    of claims, the event log, and that a pass always returns.

  \<^bold>\<open>Projects, secrets and managed databases.\<close>
  \<^item> \<open>Project_Schemas\<close>, \<open>Project_Repository\<close>, \<open>Project_Service\<close>: the requests a schema accepts, the
    repository, and the service with its errors (\<open>projects/*.py\<close>).
  \<^item> \<open>Secret_Store\<close>: \<open>secrets/store.py\<close> on a tree of directories and files with their modes;
    \<open>Secret_Versions\<close> shows that a stored version is never written again.
  \<^item> \<open>Project_Database\<close>: repository and service of \<open>project_database\<close>, the phases a resource goes
    through under its operation lock.
  \<^item> \<open>Configuration_Properties\<close>, \<open>Settings_Properties\<close>, \<open>Database_Properties\<close>: secrets read back,
    updates take effect on exactly the version they were made for, what the schemas accept the
    parser accepts, and resources change only from their current version.

  \<^bold>\<open>Public routes and the edge.\<close>
  \<^item> \<open>Route_Repository\<close>, \<open>Route_Service\<close>, \<open>Route_Worker\<close>: \<open>public_routes/*.py\<close>; \<open>Route_Invariants\<close>
    and \<open>Route_Lifecycle\<close> show that a hostname has one owner and that revisions only grow.
  \<^item> \<open>Edge_Config\<close>, \<open>Edge_Probe\<close>, \<open>Edge_Network\<close>: the configuration file of the edge with its
    journal and undo, the probe, the attachment of gateways (\<open>runtime/edge*.py\<close>,
    \<open>runtime/gateway_identity.py\<close>); \<open>Edge_Plans\<close> and \<open>Edge_Outcomes\<close> give the plan a pass hands over and what an
    application leaves on every way out.
  \<^item> \<open>Route_Passes\<close>, \<open>Route_Delivery\<close>, \<open>Route_Properties\<close>, \<open>Edge_Properties\<close>: passes of the routing
    worker over the modelled edge; when one returns, the file is the rendering of the applied routes.

  \<^bold>\<open>Deletion of a project.\<close>
  \<^item> \<open>Deletion_Repository\<close>, \<open>Deletion_Worker\<close>: the request, the ten phases and the worker's pass
    (\<open>projects/repository.py\<close>, \<open>projects/deletion_worker.py\<close>).
  \<^item> \<open>Deletion_Lifecycle\<close>, \<open>Deletion_Passes\<close>, \<open>Deletion_Removal\<close>, \<open>Deletion_Properties\<close>: the phases only
    go forward, destructive calls are made only where the removal is authorized, and an undisturbed
    deletion ends with no row of the project.

  \<^bold>\<open>Teardown of a project's runtime.\<close>
  \<^item> \<open>Private_Files\<close> and \<open>Runtime_Teardown\<close>: \<open>runtime/project_teardown.py\<close>, over a graph of file nodes
    with owners, modes and descriptors, and the Docker command line as a runner of arguments.
  \<^item> \<open>Teardown_Authority\<close>: every removal happens where the deletion is authorized;
    \<open>Teardown_Docker\<close>: what a daemon that answers truthfully keeps, and what is left of the project;
    \<open>Teardown_Passes\<close>: the modelled teardown fits what the deletion worker's proofs ask of its
    parameter; \<open>Teardown_Properties\<close>: the theorems, on an example host.

  \<^bold>\<open>The administrator.\<close>
  \<^item> \<open>Admin_Auth\<close>: sessions, login and the guard of protected requests (\<open>auth/service.py\<close>,
    \<open>auth/router.py\<close>); \<open>Admin_Secrets\<close>: the two secret files (\<open>auth/secrets.py\<close>) in the tree of the file
    system; \<open>Auth_Properties\<close>: what a session is good for, and that the files appear all at once.

  \<^bold>\<open>Fuel and bounds.\<close>  Three loops run on fuel.  \<open>run_deletion_claim\<close> has \<open>deletion_turns = 10\<close> turns, one for each
    phase, and no claim uses them all without returning (\<open>Deletion_Passes\<close>).  The probe of the edge has
    \<open>enough_turns\<close>, the turns its deadline leaves at its interval, plus two.  The recursion into a
  private tree has the interpreter's recursion limit as its fuel, and running out is the exception
  Python raises.  All other recursion is
    structural.  Sizes the code compares (bytes of diagnostics, of the edge's file, ports, lengths
    of names) are kept as they are.

  \<^bold>\<open>Conventions.\<close>
  \<^item> A method of a repository is atomic: the code takes row locks or one statement where it matters.
    \<open>DeploymentService.request\<close> and \<open>PublicRouteService.set\<close> read and write in several
    transactions; the model runs each of them on one state of the database.
  \<^item> \<open>clock_timestamp()\<close> and \<open>datetime.now\<close> are arguments or ports; \<open>SKIP LOCKED\<close> gets the list of the
    locked rows as an argument.  Lengths of \<open>varchar\<close> columns and gaps of sequences are not modelled.
  \<^item> Strings are lists of code points below 256; the collation of the database is their order.
  \<^item> SHA-256, \<open>json.loads\<close>, Git, the Docker command line, HTTP requests and the managed PostgreSQL server are
    parameters.  What a theorem needs of them is a hypothesis of it, and its witness gives
    functions that satisfy it.
  \<^item> A context manager of the deletion worker is a pair of programs, one that enters and one that
    leaves it.

  \<^bold>\<open>Not modelled.\<close>  The processor that builds and switches containers
  (\<open>runtime/service.py\<close>, \<open>docker.py\<close>, \<open>gateway*.py\<close>) and the provisioner of managed
  databases are parameters of the workers.  The streams of container logs and of deployment events
  (threads, sockets, asynchronous subscribers), the FastAPI routers other than the guard of a session, and the
  process entry points are left out.  Of the edge's directory, the lock file and the modes of
  files; of \<open>runtime/process.py\<close>, the running of a process.
\<close>

end
